(* ===== verification/Rlp.thy ===== *)
theory Rlp
  imports GoStrings
begin

text \<open>
  The recursive length prefix encoding of \<^verbatim>\<open>rewards/payout.go\<close> (\<^verbatim>\<open>rlpEncodeUint\<close>,
  \<^verbatim>\<open>rlpEncodeBigInt\<close>, \<^verbatim>\<open>rlpEncodeBytes\<close>, \<^verbatim>\<open>rlpEncodeList\<close>, \<^verbatim>\<open>rlpLengthPrefix\<close>), and a
  reference decoder written from Ethereum's definition of the format, against which the
  encoders are proved: an encoded string or list is read back, whatever follows it.
\<close>

section \<open>The encoders\<close>

definition rlpLengthPrefix :: "nat \<Rightarrow> nat \<Rightarrow> bytes" where
  "rlpLengthPrefix len offset =
     (if len < 56 then [of_nat (offset + len)]
      else (let lenBytes = nat_bytes len in of_nat (offset + 55 + length lenBytes) # lenBytes))"

definition rlpEncodeBytes :: "bytes \<Rightarrow> bytes" where
  "rlpEncodeBytes b =
     (if length b = 1 \<and> unat (b ! 0) < 128 then b else rlpLengthPrefix (length b) 128 @ b)"

definition rlpEncodeUint :: "64 word \<Rightarrow> bytes" where
  "rlpEncodeUint n = (if n = 0 then [128] else rlpEncodeBytes (nat_bytes (unat n)))"

text \<open>A nil \<^verbatim>\<open>*big.Int\<close> is \<^const>\<open>None\<close>; \<^verbatim>\<open>Bytes\<close> drops the sign.\<close>

definition rlpEncodeBigInt :: "int option \<Rightarrow> bytes" where
  "rlpEncodeBigInt n =
     (case n of None \<Rightarrow> [128] | Some i \<Rightarrow> if i = 0 then [128] else rlpEncodeBytes (big_bytes i))"

definition rlpEncodeList :: "bytes list \<Rightarrow> bytes" where
  "rlpEncodeList items = (let payload = concat items in rlpLengthPrefix (length payload) 192 @ payload)"

section \<open>The reference decoder\<close>

datatype rlp = RStr bytes | RList bytes

definition take_item :: "(bytes \<Rightarrow> rlp) \<Rightarrow> nat \<Rightarrow> bytes \<Rightarrow> (rlp \<times> bytes) option" where
  "take_item C n bs = (if n \<le> length bs then Some (C (take n bs), drop n bs) else None)"

definition take_long :: "(bytes \<Rightarrow> rlp) \<Rightarrow> nat \<Rightarrow> bytes \<Rightarrow> (rlp \<times> bytes) option" where
  "take_long C k bs = (if k \<le> length bs then take_item C (be_nat (take k bs)) (drop k bs) else None)"

fun rlp_head :: "bytes \<Rightarrow> (rlp \<times> bytes) option" where
  "rlp_head [] = None"
| "rlp_head (b # bs) =
     (let x = unat b in
      if x < 128 then Some (RStr [b], bs)
      else if x < 184 then take_item RStr (x - 128) bs
      else if x < 192 then take_long RStr (x - 183) bs
      else if x < 248 then take_item RList (x - 192) bs
      else take_long RList (x - 247) bs)"

text \<open>The items of a list payload; the fuel is the payload's length, which every item shortens.\<close>

fun rlp_items_fuel :: "nat \<Rightarrow> bytes \<Rightarrow> rlp list option" where
  "rlp_items_fuel n [] = Some []"
| "rlp_items_fuel 0 (b # bs) = None"
| "rlp_items_fuel (Suc n) (b # bs) =
     (case rlp_head (b # bs) of None \<Rightarrow> None
      | Some (i, rest) \<Rightarrow> map_option ((#) i) (rlp_items_fuel n rest))"

definition rlp_items :: "bytes \<Rightarrow> rlp list option" where
  "rlp_items bs = rlp_items_fuel (length bs) bs"

lemma rlp_head_shorter: "rlp_head bs = Some (i, rest) \<Longrightarrow> length rest < length bs"
  by (cases bs) (auto simp: take_item_def take_long_def Let_def split: if_splits)

lemma rlp_items_fuel_enough:
  "length bs \<le> n \<Longrightarrow> length bs \<le> m \<Longrightarrow> rlp_items_fuel n bs = rlp_items_fuel m bs"
proof (induction n arbitrary: m bs)
  case 0
  then show ?case by simp
next
  case (Suc n)
  show ?case
  proof (cases bs)
    case Nil
    then show ?thesis by simp
  next
    case (Cons b bs')
    with Suc.prems obtain m' where m: "m = Suc m'" by (cases m) auto
    show ?thesis
    proof (cases "rlp_head bs")
      case None
      with Cons m show ?thesis by simp
    next
      case (Some p)
      then obtain i rest where p: "rlp_head bs = Some (i, rest)" by (cases p) auto
      then have "length rest \<le> n" "length rest \<le> m'"
        using rlp_head_shorter [OF p] Suc.prems m by auto
      then have "rlp_items_fuel n rest = rlp_items_fuel m' rest" by (rule Suc.IH)
      with Cons m p show ?thesis by simp
    qed
  qed
qed

lemma rlp_items_Nil [simp]: "rlp_items [] = Some []"
  by (simp add: rlp_items_def)

lemma rlp_items_step:
  assumes "rlp_head bs = Some (i, rest)"
  shows "rlp_items bs = map_option ((#) i) (rlp_items rest)"
proof -
  obtain b bs' where bs: "bs = b # bs'" using assms by (cases bs) auto
  have "rlp_items_fuel (length bs') rest = rlp_items_fuel (length rest) rest"
    using rlp_head_shorter [OF assms] bs by (intro rlp_items_fuel_enough) auto
  with assms show ?thesis by (simp add: rlp_items_def bs)
qed

section \<open>Round trips\<close>

lemma take_item_0 [simp]: "take_item C 0 r = Some (C [], r)"
  by (simp add: take_item_def)

lemma unat_small_byte: "n < 256 \<Longrightarrow> unat (of_nat n :: byte) = n"
  by simp

lemma rlp_head_short_str:
  assumes "length b < 56"
  shows "rlp_head (of_nat (128 + length b) # b @ r) = Some (RStr b, r)"
proof -
  have "unat (of_nat (128 + length b) :: byte) = 128 + length b"
    using assms by (intro unat_small_byte) simp
  with assms show ?thesis by (simp only: rlp_head.simps Let_def) (simp add: take_item_def)
qed

lemma rlp_head_short_list:
  assumes "length b < 56"
  shows "rlp_head (of_nat (192 + length b) # b @ r) = Some (RList b, r)"
proof -
  have "unat (of_nat (192 + length b) :: byte) = 192 + length b"
    using assms by (intro unat_small_byte) simp
  with assms show ?thesis by (simp only: rlp_head.simps Let_def) (simp add: take_item_def)
qed

lemma take_long_bytes:
  "take_long C (length (nat_bytes (length b))) (nat_bytes (length b) @ b @ r) = Some (C b, r)"
  by (simp add: take_long_def take_item_def)

lemma rlp_head_long:
  assumes "k = length (nat_bytes (length b))" "k \<le> 8" "0 < k"
  shows "rlp_head (of_nat (128 + 55 + k) # nat_bytes (length b) @ b @ r) = Some (RStr b, r)"
    and "rlp_head (of_nat (192 + 55 + k) # nat_bytes (length b) @ b @ r) = Some (RList b, r)"
proof -
  have u: "unat (of_nat (128 + 55 + k) :: byte) = 183 + k"
    using assms by (subst unat_small_byte) simp_all
  have v: "unat (of_nat (192 + 55 + k) :: byte) = 247 + k"
    using assms by (subst unat_small_byte) simp_all
  show "rlp_head (of_nat (128 + 55 + k) # nat_bytes (length b) @ b @ r) = Some (RStr b, r)"
    unfolding rlp_head.simps Let_def u using assms by (simp add: take_long_bytes)
  show "rlp_head (of_nat (192 + 55 + k) # nat_bytes (length b) @ b @ r) = Some (RList b, r)"
    unfolding rlp_head.simps Let_def v using assms by (simp add: take_long_bytes)
qed

lemma rlp_head_prefix:
  assumes "length b < 2 ^ 64"
  shows "rlp_head (rlpLengthPrefix (length b) 128 @ b @ r) = Some (RStr b, r)"
    and "rlp_head (rlpLengthPrefix (length b) 192 @ b @ r) = Some (RList b, r)"
proof -
  define k where "k = length (nat_bytes (length b))"
  have k8: "k \<le> 8"
    unfolding k_def using assms by (intro length_nat_bytes_le) simp
  show "rlp_head (rlpLengthPrefix (length b) 128 @ b @ r) = Some (RStr b, r)"
  proof (cases "length b < 56")
    case True
    then show ?thesis using rlp_head_short_str [OF True] by (simp add: rlpLengthPrefix_def)
  next
    case False
    then have "0 < k" by (auto simp: k_def)
    with False show ?thesis
      using rlp_head_long(1) [OF k_def k8] by (simp add: rlpLengthPrefix_def Let_def k_def)
  qed
  show "rlp_head (rlpLengthPrefix (length b) 192 @ b @ r) = Some (RList b, r)"
  proof (cases "length b < 56")
    case True
    then show ?thesis using rlp_head_short_list [OF True] by (simp add: rlpLengthPrefix_def)
  next
    case False
    then have "0 < k" by (auto simp: k_def)
    with False show ?thesis
      using rlp_head_long(2) [OF k_def k8] by (simp add: rlpLengthPrefix_def Let_def k_def)
  qed
qed

lemma rlp_head_EncodeBytes:
  assumes "length b < 2 ^ 64"
  shows "rlp_head (rlpEncodeBytes b @ r) = Some (RStr b, r)"
proof (cases "length b = 1 \<and> unat (b ! 0) < 128")
  case True
  then obtain x where "b = [x]" by (auto simp: length_Suc_conv)
  with True show ?thesis by (simp add: rlpEncodeBytes_def)
next
  case False
  with assms rlp_head_prefix(1) [of b r] show ?thesis
    unfolding rlpEncodeBytes_def by (simp only: if_False append_assoc)
qed

lemma rlp_head_EncodeList:
  assumes "length (concat items) < 2 ^ 64"
  shows "rlp_head (rlpEncodeList items @ r) = Some (RList (concat items), r)"
  using assms rlp_head_prefix(2) [of "concat items" r]
  unfolding rlpEncodeList_def Let_def by (simp only: append_assoc)

lemma rlp_head_128 [simp]: "rlp_head (128 # r) = Some (RStr [], r)"
  by simp

lemma length_nat_bytes_word: "length (nat_bytes (unat (n :: 64 word))) < 2 ^ 64"
proof -
  have "length (nat_bytes (unat n)) \<le> 8"
    using unsigned_less [of n] by (intro length_nat_bytes_le) simp
  then show ?thesis by simp
qed

lemma rlp_head_EncodeUint [simp]:
  "rlp_head (rlpEncodeUint n @ r) = Some (RStr (nat_bytes (unat n)), r)"
proof (cases "n = 0")
  case True
  then show ?thesis by (simp add: rlpEncodeUint_def)
next
  case False
  then show ?thesis
    using rlp_head_EncodeBytes [OF length_nat_bytes_word] by (simp add: rlpEncodeUint_def)
qed

lemma rlp_head_EncodeBigInt:
  assumes "length (big_bytes i) < 2 ^ 64"
  shows "rlp_head (rlpEncodeBigInt (Some i) @ r) = Some (RStr (big_bytes i), r)"
proof (cases "i = 0")
  case True
  then show ?thesis by (simp add: rlpEncodeBigInt_def big_bytes_def)
next
  case False
  then show ?thesis
    using rlp_head_EncodeBytes [OF assms] by (simp add: rlpEncodeBigInt_def)
qed

lemma rlp_items_map_EncodeBytes:
  assumes "\<forall>b \<in> set bs. length b < 2 ^ 64"
  shows "rlp_items (concat (map rlpEncodeBytes bs)) = Some (map RStr bs)"
  using assms
proof (induction bs)
  case Nil
  then show ?case by simp
next
  case (Cons b bs)
  then have "rlp_head (rlpEncodeBytes b @ concat (map rlpEncodeBytes bs))
      = Some (RStr b, concat (map rlpEncodeBytes bs))"
    by (intro rlp_head_EncodeBytes) simp
  then show ?case using Cons by (simp add: rlp_items_step)
qed

text \<open>
  Decoding one encoded message: the outer list header, then the strings of the payload. This is
  what a node does with a raw transaction.
\<close>

fun str_items :: "rlp list \<Rightarrow> bytes list option" where
  "str_items [] = Some []"
| "str_items (RStr b # is) = map_option ((#) b) (str_items is)"
| "str_items (RList b # is) = None"

definition rlp_decode_strings :: "bytes \<Rightarrow> bytes list option" where
  "rlp_decode_strings bs =
     (case rlp_head bs of
        Some (RList payload, []) \<Rightarrow> Option.bind (rlp_items payload) str_items
      | _ \<Rightarrow> None)"

lemma str_items_map [simp]: "str_items (map RStr bs) = Some bs"
  by (induction bs) auto

lemma rlp_decode_EncodeList:
  assumes "length (concat items) < 2 ^ 64"
  shows "rlp_decode_strings (rlpEncodeList items) = Option.bind (rlp_items (concat items)) str_items"
  using rlp_head_EncodeList [OF assms, of "[]"] by (simp add: rlp_decode_strings_def)

lemma length_EncodeBytes_pos: "0 < length (rlpEncodeBytes b)"
  by (auto simp: rlpEncodeBytes_def rlpLengthPrefix_def Let_def)

lemma encoded_items_bound: "b \<in> set bs \<Longrightarrow> length b \<le> length (concat (map rlpEncodeBytes bs))"
proof (induction bs)
  case (Cons a bs)
  have "length a \<le> length (rlpEncodeBytes a)"
    by (auto simp: rlpEncodeBytes_def Let_def)
  with Cons show ?case by auto
qed simp

text \<open>
  C10. Encoding a list of byte strings and decoding the message gives the strings back, for
  every list whose payload fits a 64-bit length: all prefix forms the encoder chooses are the
  ones a reader of the format expects.
\<close>

theorem rlp_list_roundtrip:
  assumes "length (concat (map rlpEncodeBytes bs)) < 2 ^ 64"
  shows "rlp_decode_strings (rlpEncodeList (map rlpEncodeBytes bs)) = Some bs"
proof -
  have "\<forall>b \<in> set bs. length b < 2 ^ 64" using encoded_items_bound assms by (meson le_less_trans)
  then show ?thesis by (simp add: rlp_decode_EncodeList [OF assms] rlp_items_map_EncodeBytes)
qed

theorem rlp_list_roundtrip_witness:
  "rlp_decode_strings (rlpEncodeList (map rlpEncodeBytes [[], [127], [128], replicate 60 1]))
    = Some [[], [127], [128], replicate 60 1]"
  by (rule rlp_list_roundtrip) (simp add: rlpEncodeBytes_def rlpLengthPrefix_def Let_def nat_bytes.simps)

end
