(* ===== verification/GoFloat.thy ===== *)
theory GoFloat
  imports GoStrings
begin

text \<open>
  Go's \<^verbatim>\<open>float64\<close> (IEEE 754 binary64) and the piece of \<^verbatim>\<open>math/big.Float\<close> the payout code uses.
  A finite value is a dyadic number \<open>m * 2 ^ e\<close>, kept exactly; an operation computes the exact
  result and rounds it to 53 bits, ties to even. (The sign of zero is not kept: no comparison
  or conversion in the repository depends on it.) This is the language's arithmetic; no
  definition here maps to a source line.
\<close>

datatype f64 = Fin int int | PInf | NInf | NaN

section \<open>Rounding to p bits, ties to even\<close>

fun nat_bits :: "nat \<Rightarrow> nat" where
  "nat_bits n = (if n = 0 then 0 else Suc (nat_bits (n div 2)))"

declare nat_bits.simps [simp del]

lemma nat_bits_0 [simp]: "nat_bits 0 = 0"
  by (simp add: nat_bits.simps)

lemma nat_bits_upper: "n < 2 ^ nat_bits n"
proof (induction n rule: nat_bits.induct)
  case (1 n)
  show ?case
  proof (cases "n = 0")
    case False
    with 1 have "n div 2 < 2 ^ nat_bits (n div 2)" by simp
    then have "n < 2 * 2 ^ nat_bits (n div 2)" by linarith
    with False show ?thesis by (simp add: nat_bits.simps [of n])
  qed simp
qed

lemma nat_bits_lower: "n \<noteq> 0 \<Longrightarrow> 2 ^ (nat_bits n - 1) \<le> n"
proof (induction n rule: nat_bits.induct)
  case (1 n)
  show ?case
  proof (cases "n div 2 = 0")
    case True
    with 1 have "n = 1" by linarith
    then show ?thesis by (simp add: nat_bits.simps)
  next
    case False
    with 1 have ih: "2 ^ (nat_bits (n div 2) - 1) \<le> n div 2" by simp
    have "nat_bits (n div 2) \<noteq> 0" using False by (simp add: nat_bits.simps [of "n div 2"])
    then have "(2::nat) ^ nat_bits (n div 2) = 2 * 2 ^ (nat_bits (n div 2) - 1)"
      by (cases "nat_bits (n div 2)") simp_all
    also have "\<dots> \<le> n" using ih by linarith
    finally show ?thesis using "1.prems" by (simp add: nat_bits.simps [of n])
  qed
qed

lemma nat_bits_le: "n < 2 ^ p \<Longrightarrow> nat_bits n \<le> p"
proof (rule ccontr)
  assume "n < 2 ^ p" "\<not> nat_bits n \<le> p"
  then have "(2::nat) ^ p \<le> 2 ^ (nat_bits n - 1)" by (intro power_increasing) auto
  moreover have "n \<noteq> 0" using \<open>\<not> nat_bits n \<le> p\<close> by (auto intro: ccontr)
  ultimately show False using nat_bits_lower [of n] \<open>n < 2 ^ p\<close> by linarith
qed

lemma nat_bits_eq:
  assumes "2 ^ k \<le> n" "n < 2 ^ Suc k"
  shows "nat_bits n = Suc k"
proof (rule antisym)
  show "nat_bits n \<le> Suc k" by (rule nat_bits_le [OF assms(2)])
  have "(2::nat) ^ k < 2 ^ nat_bits n" using assms(1) nat_bits_upper [of n] by (rule le_less_trans)
  then show "Suc k \<le> nat_bits n" by simp
qed

definition div_even :: "nat \<Rightarrow> nat \<Rightarrow> nat" where
  \<comment> \<open>\<open>n / d\<close> rounded to the nearest integer, ties to even\<close>
  "div_even n d = (let q = n div d; r = n mod d in
     if d < 2 * r \<or> (d = 2 * r \<and> odd q) then Suc q else q)"

lemma div_even_error: "0 < d \<Longrightarrow> 2 * \<bar>int (div_even n d) * int d - int n\<bar> \<le> int d"
proof -
  assume d: "0 < d"
  define q r where "q = n div d" and "r = n mod d"
  have n: "int n = int q * int d + int r"
    unfolding q_def r_def by (simp flip: of_nat_mult of_nat_add)
  have r: "r < d" using d by (simp add: r_def)
  show ?thesis
    unfolding div_even_def Let_def q_def [symmetric] r_def [symmetric]
    using r by (auto simp: n algebra_simps)
qed

lemma div_even_exact: "0 < d \<Longrightarrow> d dvd n \<Longrightarrow> div_even n d = n div d"
  by (auto simp: div_even_def)

definition round_mag :: "nat \<Rightarrow> nat \<Rightarrow> nat \<times> nat" where
  "round_mag p m = (let k = nat_bits m - p in (div_even m (2 ^ k), k))"

lemma round_mag_exact: "m < 2 ^ p \<Longrightarrow> round_mag p m = (m, 0)"
  using nat_bits_le [of m p] by (simp add: round_mag_def div_even_def)

text \<open>The rounding error is at most one part in \<open>2 ^ p\<close> of the value.\<close>

lemma round_mag_error:
  assumes "round_mag p m = (q, k)" "0 < p"
  shows "\<bar>int q * 2 ^ k - int m\<bar> * 2 ^ p \<le> int m"
proof (cases "m < 2 ^ p")
  case True
  with assms show ?thesis by (simp add: round_mag_exact)
next
  case False
  have "p < nat_bits m"
  proof (rule ccontr)
    assume "\<not> p < nat_bits m"
    then have "(2::nat) ^ nat_bits m \<le> 2 ^ p" by (intro power_increasing) auto
    with nat_bits_upper [of m] False show False by linarith
  qed
  moreover have eq: "(div_even m (2 ^ (nat_bits m - p)), nat_bits m - p) = (q, k)"
    using assms(1) by (simp only: round_mag_def Let_def)
  ultimately have k: "nat_bits m = k + p" "0 < k" by auto
  from eq have q: "q = div_even m (2 ^ k)" by auto
  have "2 * \<bar>int q * 2 ^ k - int m\<bar> \<le> 2 ^ k"
    using div_even_error [of "2 ^ k" m] by (simp add: q)
  then have "\<bar>int q * 2 ^ k - int m\<bar> \<le> 2 ^ (k - 1)"
    using \<open>0 < k\<close> by (cases k) simp_all
  then have "\<bar>int q * 2 ^ k - int m\<bar> * 2 ^ p \<le> 2 ^ (k - 1) * 2 ^ p" by simp
  also have "\<dots> = 2 ^ (nat_bits m - 1)"
    using k by (simp flip: power_add)
  also have "\<dots> \<le> int m"
  proof -
    have "m \<noteq> 0" using False by (cases m) auto
    then have "int (2 ^ (nat_bits m - 1)) \<le> int m"
      by (intro of_nat_mono nat_bits_lower)
    then show ?thesis by simp
  qed
  finally show ?thesis .
qed

definition rnd :: "nat \<Rightarrow> int \<Rightarrow> int \<Rightarrow> int \<times> int" where
  "rnd p m e = (let (q, k) = round_mag p (nat \<bar>m\<bar>) in (sgn m * int q, e + int k))"

lemma rnd_exact: "\<bar>m\<bar> < 2 ^ p \<Longrightarrow> rnd p m e = (m, e)"
proof -
  assume "\<bar>m\<bar> < 2 ^ p"
  then have "nat \<bar>m\<bar> < 2 ^ p" by (simp add: nat_less_iff)
  then show ?thesis by (simp add: rnd_def round_mag_exact sgn_if)
qed

section \<open>Comparison and addition\<close>

definition align :: "int \<Rightarrow> int \<Rightarrow> int \<Rightarrow> int \<Rightarrow> int \<times> int \<times> int" where
  \<comment> \<open>both mantissas at the smaller exponent\<close>
  "align m1 e1 m2 e2 =
     (if e1 \<le> e2 then (m1, m2 * 2 ^ nat (e2 - e1), e1) else (m1 * 2 ^ nat (e1 - e2), m2, e2))"

definition dy_less :: "int \<Rightarrow> int \<Rightarrow> int \<Rightarrow> int \<Rightarrow> bool" where
  "dy_less m1 e1 m2 e2 = (let (a, b, _) = align m1 e1 m2 e2 in a < b)"

definition dy_eq :: "int \<Rightarrow> int \<Rightarrow> int \<Rightarrow> int \<Rightarrow> bool" where
  "dy_eq m1 e1 m2 e2 = (let (a, b, _) = align m1 e1 m2 e2 in a = b)"

definition to_f64 :: "int \<times> int \<Rightarrow> f64" where
  \<comment> \<open>a rounded value, with overflow to infinity\<close>
  "to_f64 d = (case d of (m, e) \<Rightarrow>
     if dy_less \<bar>m\<bar> e 1 1024 then Fin m e else if 0 < m then PInf else NInf)"

fun f64_add :: "f64 \<Rightarrow> f64 \<Rightarrow> f64" where
  "f64_add NaN y = NaN"
| "f64_add x NaN = NaN"
| "f64_add PInf NInf = NaN"
| "f64_add NInf PInf = NaN"
| "f64_add PInf y = PInf"
| "f64_add x PInf = PInf"
| "f64_add NInf y = NInf"
| "f64_add x NInf = NInf"
| "f64_add (Fin m1 e1) (Fin m2 e2) =
     (let (a, b, e) = align m1 e1 m2 e2 in to_f64 (rnd 53 (a + b) e))"

fun f64_less :: "f64 \<Rightarrow> f64 \<Rightarrow> bool" where
  "f64_less NaN y = False"
| "f64_less x NaN = False"
| "f64_less PInf y = False"
| "f64_less x NInf = False"
| "f64_less NInf y = True"
| "f64_less x PInf = True"
| "f64_less (Fin m1 e1) (Fin m2 e2) = dy_less m1 e1 m2 e2"

fun f64_eq :: "f64 \<Rightarrow> f64 \<Rightarrow> bool" where
  "f64_eq (Fin m1 e1) (Fin m2 e2) = dy_eq m1 e1 m2 e2"
| "f64_eq PInf PInf = True"
| "f64_eq NInf NInf = True"
| "f64_eq _ _ = False"

abbreviation f64_zero :: f64 where "f64_zero \<equiv> Fin 0 0"

definition f64_of_int :: "int \<Rightarrow> f64" where
  "f64_of_int i = to_f64 (rnd 53 i 0)"

text \<open>
  Multiplication and division of finite values; a quotient is computed with more than 53 bits
  and a last bit that is set when a remainder is left, so that rounding it is correct.
\<close>

fun f64_mul :: "f64 \<Rightarrow> f64 \<Rightarrow> f64" where
  "f64_mul (Fin m1 e1) (Fin m2 e2) = to_f64 (rnd 53 (m1 * m2) (e1 + e2))"
| "f64_mul _ _ = NaN"

fun f64_div :: "f64 \<Rightarrow> f64 \<Rightarrow> f64" where
  "f64_div (Fin m1 e1) (Fin m2 e2) =
     (if m2 = 0 then (if m1 = 0 then NaN else if 0 < m1 then PInf else NInf)
      else (let k = 56 + nat_bits (nat \<bar>m2\<bar>); n = \<bar>m1\<bar> * 2 ^ k; q = n div \<bar>m2\<bar>;
                s = 2 * q + (if n mod \<bar>m2\<bar> = 0 then 0 else 1)
            in to_f64 (rnd 53 (sgn m1 * sgn m2 * s) (e1 - e2 - int k - 1))))"
| "f64_div _ _ = NaN"

text \<open>The conversion \<open>int(v)\<close>: towards zero. Out of range Go leaves the result to the
  implementation; on amd64 it is the least 64-bit integer.\<close>

definition dy_trunc :: "int \<Rightarrow> int \<Rightarrow> int" where
  "dy_trunc m e = (if 0 \<le> e then m * 2 ^ nat e else sgn m * (\<bar>m\<bar> div 2 ^ nat (- e)))"

fun f64_to_int :: "f64 \<Rightarrow> int" where
  "f64_to_int (Fin m e) = (let t = dy_trunc m e in if in64 t then t else - (2 ^ 63))"
| "f64_to_int _ = - (2 ^ 63)"

lemma dy_trunc_int [simp]: "dy_trunc m 0 = m"
  by (simp add: dy_trunc_def)

text \<open>\<^verbatim>\<open>fmt\<close>'s \<^verbatim>\<open>%.<d>f\<close>: the exact value rounded to \<open>d\<close> decimals, ties to even.\<close>

definition pad_left :: "nat \<Rightarrow> char \<Rightarrow> string \<Rightarrow> string" where
  "pad_left n c s = replicate (n - length s) c @ s"

fun fmt_fixed :: "nat \<Rightarrow> f64 \<Rightarrow> string" where
  "fmt_fixed d (Fin m e) =
     (let num = nat \<bar>m\<bar> * 10 ^ d * 2 ^ nat e; n = div_even num (2 ^ nat (- e));
          s = show_nat (n div 10 ^ d) @ (if d = 0 then [] else CHR ''.'' # pad_left d (CHR ''0'') (show_nat (n mod 10 ^ d)))
      in if m < 0 then CHR ''-'' # s else s)"
| "fmt_fixed d PInf = ''+Inf''"
| "fmt_fixed d NInf = ''-Inf''"
| "fmt_fixed d NaN = ''NaN''"

section \<open>Sanity of the arithmetic on small values\<close>

text \<open>Mantissas below \<open>2 ^ 53\<close> at a common exponent add without error.\<close>

lemma f64_add_exact:
  assumes "\<bar>a + b\<bar> < 2 ^ 53" "e = 0"
  shows "f64_add (Fin a e) (Fin b e) = Fin (a + b) e"
proof -
  have "\<bar>a + b\<bar> < 2 ^ 1024"
    using assms(1) power_increasing [of 53 1024 "2::int"] by simp
  then show ?thesis
    using assms by (simp add: align_def rnd_exact to_f64_def dy_less_def)
qed

lemma f64_less_same_exp [simp]: "f64_less (Fin a e) (Fin b e) \<longleftrightarrow> a < b"
  by (simp add: dy_less_def align_def)

end
