(* ===== verification/Json.thy ===== *)
theory Json
  imports GoFloat
begin

text \<open>
  The value \<^verbatim>\<open>encoding/json\<close> produces when it decodes into \<^verbatim>\<open>any\<close> (numbers are
  \<^verbatim>\<open>float64\<close>), and the comma-ok type assertions the handlers use to read it. The parser itself
  is the standard library's: an operation takes the decoded value, or \<^const>\<open>None\<close> when the
  body is not valid JSON. An object is the list of its members as they appear; of two members
  with one name the later wins.
\<close>

datatype json =
    JNull
  | JBool bool
  | JNum f64
  | JStr string
  | JArr "json list"
  | JObj "(string \<times> json) list"

text \<open>\<^verbatim>\<open>v, _ := x.(string)\<close> and its kin: the zero value when the assertion fails.\<close>

fun as_str :: "json option \<Rightarrow> string" where
  "as_str (Some (JStr s)) = s"
| "as_str _ = []"

fun as_num :: "json option \<Rightarrow> f64" where
  "as_num (Some (JNum x)) = x"
| "as_num _ = f64_zero"

fun as_arr :: "json option \<Rightarrow> json list" where
  "as_arr (Some (JArr xs)) = xs"
| "as_arr _ = []"

text \<open>A Go map; \<^const>\<open>None\<close> is the nil map, on which every lookup misses.\<close>

type_synonym jmap = "(string \<times> json) list option"

fun as_obj :: "json option \<Rightarrow> jmap" where
  "as_obj (Some (JObj m)) = Some m"
| "as_obj _ = None"

definition jget :: "jmap \<Rightarrow> string \<Rightarrow> json option" where
  "jget m k = (case m of None \<Rightarrow> None | Some kvs \<Rightarrow> map_of (rev kvs) k)"

lemma jget_None [simp]: "jget None k = None"
  by (simp add: jget_def)

text \<open>Decoding into a Go map: an object, or \<^verbatim>\<open>null\<close> (which leaves the map nil).\<close>

fun decode_map :: "json option \<Rightarrow> jmap option" where
  "decode_map (Some (JObj m)) = Some (Some m)"
| "decode_map (Some JNull) = Some None"
| "decode_map _ = None"

text \<open>Decoding into a Go string: a string, or \<^verbatim>\<open>null\<close> (which leaves it empty).\<close>

fun decode_str :: "json option \<Rightarrow> string option" where
  "decode_str (Some (JStr s)) = Some s"
| "decode_str (Some JNull) = Some []"
| "decode_str _ = None"

section \<open>Decoding into a struct\<close>

text \<open>
  A member sets the field whose tag equals its name up to letter case; \<^verbatim>\<open>null\<close> leaves the field
  alone; a value of the wrong type is an error of the whole decoding. The result of a field
  decoder is \<^const>\<open>None\<close> on a type error and the zero value when no member sets the field.
\<close>

definition jfield :: "(string \<times> json) list \<Rightarrow> string \<Rightarrow> json option" where
  "jfield kvs tag =
     map_of (rev (map (\<lambda>(k, v). (to_lower k, v)) (filter (\<lambda>(k, v). v \<noteq> JNull) kvs))) tag"

fun field_str :: "json option \<Rightarrow> string option" where
  "field_str None = Some []"
| "field_str (Some (JStr s)) = Some s"
| "field_str (Some _) = None"

fun field_num :: "json option \<Rightarrow> f64 option" where
  "field_num None = Some f64_zero"
| "field_num (Some (JNum x)) = Some x"
| "field_num (Some _) = None"

text \<open>An integer field accepts a number without fraction that fits.\<close>

fun field_int :: "json option \<Rightarrow> int option" where
  "field_int None = Some 0"
| "field_int (Some (JNum (Fin m e))) =
     (if dy_eq m e (dy_trunc m e) 0 \<and> in64 (dy_trunc m e) then Some (dy_trunc m e) else None)"
| "field_int (Some _) = None"

fun field_bool :: "json option \<Rightarrow> bool option" where
  "field_bool None = Some False"
| "field_bool (Some (JBool b)) = Some b"
| "field_bool (Some _) = None"

text \<open>A slice of strings; a \<^verbatim>\<open>null\<close> element is the empty string.\<close>

fun all_some :: "'a option list \<Rightarrow> 'a list option" where
  "all_some [] = Some []"
| "all_some (None # xs) = None"
| "all_some (Some x # xs) = map_option (\<lambda>ys. x # ys) (all_some xs)"

lemma all_some_Some: "all_some xs = Some ys \<longleftrightarrow> xs = map Some ys"
  by (induction xs arbitrary: ys rule: all_some.induct) auto

fun field_strs :: "json option \<Rightarrow> string list option" where
  "field_strs None = Some []"
| "field_strs (Some (JArr xs)) = all_some (map (\<lambda>x. decode_str (Some x)) xs)"
| "field_strs (Some _) = None"

text \<open>A nested struct, and the document itself: \<^verbatim>\<open>null\<close> sets no field.\<close>

fun field_struct :: "((string \<times> json) list \<Rightarrow> 'a option) \<Rightarrow> json option \<Rightarrow> 'a option" where
  "field_struct f None = f []"
| "field_struct f (Some (JObj kvs)) = f kvs"
| "field_struct f (Some _) = None"

fun decode_struct :: "((string \<times> json) list \<Rightarrow> 'a option) \<Rightarrow> json option \<Rightarrow> 'a option" where
  "decode_struct f (Some JNull) = f []"
| "decode_struct f (Some (JObj kvs)) = f kvs"
| "decode_struct f _ = None"

end
