(* ===== verification/Payout.thy ===== *)
theory Payout
  imports Rlp Json
begin

text \<open>
  Non-custodial payouts, \<^verbatim>\<open>rewards/payout.go\<close>: the ABI encoding of an ERC-20 transfer, the
  conversion of a BAT amount to wei, the JSON-RPC calls, and the construction, signing and
  submission of the legacy transaction. Code outside the repository is a parameter: the
  Keccak-256 hash, the secp256k1 compact signature, and the HTTP transport of a JSON-RPC call
  with its own state.
\<close>

section \<open>Configuration and constants\<close>

record eth_config =
  rpcURL :: string
  privateKeyHex :: string
  ethWallet :: string
  chainID :: int

definition batContractAddress :: string where
  "batContractAddress = ''0x0D8775F648430679A709E98d2b0Cb6250d2887EF''"

definition transferSelector :: bytes where
  "transferSelector = [169, 5, 156, 187]"

section \<open>ABI encoding\<close>

text \<open>
  \<^verbatim>\<open>hex.DecodeString\<close>'s error is discarded, so \<open>addrBytes\<close> is whatever decoded before
  the error. A nil amount panics; so does one longer than 68 bytes, whose slice start is
  negative.
\<close>

definition encodeTransferCall :: "string \<Rightarrow> int option \<Rightarrow> bytes go" where
  "encodeTransferCall toAddress amount =
     (let addrHex = trim_prefix (to_lower toAddress) ''0x'';
          addrBytes = fst (hex_decode addrHex);
          buf = replicate 68 0;
          buf = copy_range buf 0 4 transferSelector;
          buf = copy_range buf (4 + 12) (4 + 32) addrBytes
      in case amount of
           None \<Rightarrow> Panic
         | Some a \<Rightarrow>
             (let amountBytes = big_bytes a in
              if 4 + 32 + 32 < length amountBytes then Panic
              else Ret (copy_range buf (4 + 32 + 32 - length amountBytes) 68 amountBytes)))"

text \<open>
  \<^verbatim>\<open>SetFloat64\<close> gives the big float a precision of 53 bits, and \<^verbatim>\<open>Mul\<close> rounds to the
  receiver's precision; \<^verbatim>\<open>Int\<close> truncates, and is nil for an infinity. \<^verbatim>\<open>SetFloat64\<close> panics on NaN.
\<close>

fun batToWei :: "f64 \<Rightarrow> int option go" where
  "batToWei (Fin m e) = (let (m', e') = rnd 53 (m * 10 ^ 18) e in Ret (Some (dy_trunc m' e')))"
| "batToWei PInf = Ret None"
| "batToWei NInf = Ret None"
| "batToWei NaN = Panic"

section \<open>JSON-RPC\<close>

record rpc_request =
  rq_jsonrpc :: string
  rq_method :: string
  rq_params :: "json list"
  rq_id :: int

record rpc_response =
  rp_result :: "json option"
  rp_error :: "(int \<times> string) option"

datatype rpc_error = Transport string | DecodeResponse | RpcError int string | BadResult

text \<open>
  The transport: POST a request to a URL. It fails, or returns the response body, decoded or
  not; it may change the state of the node.
\<close>

type_synonym 's transport =
  "string \<Rightarrow> rpc_request \<Rightarrow> 's \<Rightarrow> (string + rpc_response option) \<times> 's"

definition ethCall ::
    "'s transport \<Rightarrow> string \<Rightarrow> string \<Rightarrow> json list \<Rightarrow> 's \<Rightarrow> (rpc_error, json option) result \<times> 's" where
  "ethCall post url meth params s =
     (let rq = \<lparr>rq_jsonrpc = ''2.0'', rq_method = meth, rq_params = params, rq_id = 1\<rparr>;
          (resp, s') = post url rq s
      in (case resp of
            Inl e \<Rightarrow> Inl (Transport e)
          | Inr None \<Rightarrow> Inl DecodeResponse
          | Inr (Some r) \<Rightarrow>
              (case rp_error r of
                 Some (code, msg) \<Rightarrow> Inl (RpcError code msg)
               | None \<Rightarrow> Inr (rp_result r)), s'))"

text \<open>
  \<^verbatim>\<open>SetString(s, 16)\<close>: an optional sign and hex digits. Its success flag is ignored by the
  callers; Go's documentation leaves the value undefined on failure, so it is the parameter
  \<open>undef\<close>. \<^verbatim>\<open>Uint64\<close> keeps the low 64 bits of the magnitude.
\<close>

fun hex_number :: "nat \<Rightarrow> string \<Rightarrow> nat option" where
  "hex_number acc [] = Some acc"
| "hex_number acc (c # cs) =
     (case hex_val c of None \<Rightarrow> None | Some v \<Rightarrow> hex_number (16 * acc + v) cs)"

fun set_string16 :: "string \<Rightarrow> int option" where
  "set_string16 [] = None"
| "set_string16 (c # cs) =
     (if c = CHR ''-'' then (if cs = [] then None else map_option (\<lambda>n. - int n) (hex_number 0 cs))
      else if c = CHR ''+'' then (if cs = [] then None else map_option int (hex_number 0 cs))
      else map_option int (hex_number 0 (c # cs)))"

definition big_set_hex :: "(string \<Rightarrow> int) \<Rightarrow> string \<Rightarrow> int" where
  "big_set_hex undef s =
     (let t = trim_prefix s ''0x'' in case set_string16 t of Some i \<Rightarrow> i | None \<Rightarrow> undef t)"

definition ethGetNonce ::
    "'s transport \<Rightarrow> (string \<Rightarrow> int) \<Rightarrow> string \<Rightarrow> string \<Rightarrow> 's \<Rightarrow> (rpc_error, 64 word) result \<times> 's" where
  "ethGetNonce post undef url address s =
     (case ethCall post url ''eth_getTransactionCount'' [JStr address, JStr ''pending''] s of
        (Inl e, s') \<Rightarrow> (Inl e, s')
      | (Inr res, s') \<Rightarrow>
          (case decode_str res of
             None \<Rightarrow> (Inl BadResult, s')
           | Some hexNonce \<Rightarrow> (Inr (of_nat (nat \<bar>big_set_hex undef hexNonce\<bar>)), s')))"

definition ethGasPrice ::
    "'s transport \<Rightarrow> (string \<Rightarrow> int) \<Rightarrow> string \<Rightarrow> 's \<Rightarrow> (rpc_error, int) result \<times> 's" where
  "ethGasPrice post undef url s =
     (case ethCall post url ''eth_gasPrice'' [] s of
        (Inl e, s') \<Rightarrow> (Inl e, s')
      | (Inr res, s') \<Rightarrow>
          (case decode_str res of
             None \<Rightarrow> (Inl BadResult, s')
           | Some hexPrice \<Rightarrow> (Inr (big_set_hex undef hexPrice), s')))"

definition ethSendRawTransaction ::
    "'s transport \<Rightarrow> string \<Rightarrow> bytes \<Rightarrow> 's \<Rightarrow> (rpc_error, string) result \<times> 's" where
  "ethSendRawTransaction post url rawTx s =
     (case ethCall post url ''eth_sendRawTransaction'' [JStr (''0x'' @ hex_encode rawTx)] s of
        (Inl e, s') \<Rightarrow> (Inl e, s')
      | (Inr res, s') \<Rightarrow>
          (case decode_str res of
             None \<Rightarrow> (Inl BadResult, s')
           | Some txHash \<Rightarrow> (Inr txHash, s')))"

section \<open>Signing\<close>

text \<open>
  \<open>sign key hash\<close> is \<^verbatim>\<open>SignCompact\<close>: one recovery byte, then \<open>r\<close> and \<open>s\<close>. The error is the
  unexpected length. \<open>sig[0] - 27\<close> is computed on bytes, \<open>v\<close> on \<^verbatim>\<open>int64\<close>.
\<close>

definition ecdsaSign ::
    "(bytes \<Rightarrow> bytes \<Rightarrow> bytes) \<Rightarrow> bytes \<Rightarrow> bytes \<Rightarrow> int \<Rightarrow> (nat, int \<times> int \<times> int) result" where
  "ecdsaSign sign key msgHash chain =
     (let sig = sign key msgHash in
      if length sig \<noteq> 65 then Inl (length sig)
      else
        (let recoveryBit = int (unat (sig ! 0 - 27));
             r = int (be_nat (take 32 (drop 1 sig)));
             s = int (be_nat (take 32 (drop 33 sig)));
             v = wrap64 (chain * 2 + 35 + recoveryBit)
         in Inr (r, s, v)))"

definition signLegacyTx ::
    "(bytes \<Rightarrow> bytes) \<Rightarrow> (bytes \<Rightarrow> bytes \<Rightarrow> bytes) \<Rightarrow> bytes \<Rightarrow> int \<Rightarrow> 64 word \<Rightarrow> int \<Rightarrow> 64 word
     \<Rightarrow> string \<Rightarrow> int \<Rightarrow> bytes \<Rightarrow> (nat, bytes) result" where
  "signLegacyTx keccak sign key chain nonce gasPrice gasLimit to value data =
     (let toBytes = fst (hex_decode (trim_prefix to ''0x''));
          unsigned = rlpEncodeList
            [rlpEncodeUint nonce, rlpEncodeBigInt (Some gasPrice), rlpEncodeUint gasLimit, toBytes,
             rlpEncodeBigInt (Some value), data, rlpEncodeUint (word_of_int chain),
             rlpEncodeUint 0, rlpEncodeUint 0]
      in case ecdsaSign sign key (keccak unsigned) chain of
           Inl n \<Rightarrow> Inl n
         | Inr (r, s, v) \<Rightarrow> Inr (rlpEncodeList
            [rlpEncodeUint nonce, rlpEncodeBigInt (Some gasPrice), rlpEncodeUint gasLimit, toBytes,
             rlpEncodeBigInt (Some value), data, rlpEncodeBigInt (Some v),
             rlpEncodeBigInt (Some r), rlpEncodeBigInt (Some s)]))"

datatype key_error = BadHex hex_error | BadLength nat

definition parsePrivKey :: "string \<Rightarrow> (key_error, bytes) result" where
  "parsePrivKey hexKey =
     (let (b, err) = hex_decode (trim_prefix hexKey ''0x'') in
      case err of
        Some e \<Rightarrow> Inl (BadHex e)
      | None \<Rightarrow> if length b \<noteq> 32 then Inl (BadLength (length b)) else Inr b)"

section \<open>The whole payout\<close>

datatype payout_error =
    NoRpcURL
  | NoPrivateKey
  | InvalidKey key_error
  | NonceFailed rpc_error
  | GasPriceFailed rpc_error
  | SignFailed nat
  | SendFailed rpc_error

definition submitERC20Payout ::
    "'s transport \<Rightarrow> (string \<Rightarrow> int) \<Rightarrow> (bytes \<Rightarrow> bytes) \<Rightarrow> (bytes \<Rightarrow> bytes \<Rightarrow> bytes) \<Rightarrow>
     eth_config \<Rightarrow> string \<Rightarrow> f64 \<Rightarrow> 's \<Rightarrow> (payout_error, string) result go \<times> 's" where
  "submitERC20Payout post undef keccak sign cfg toAddress amountBAT s =
     (if rpcURL cfg = [] then (Ret (Inl NoRpcURL), s)
      else if privateKeyHex cfg = [] then (Ret (Inl NoPrivateKey), s)
      else
        (let chain = (if chainID cfg = 0 then 1 else chainID cfg) in
         case parsePrivKey (privateKeyHex cfg) of
           Inl e \<Rightarrow> (Ret (Inl (InvalidKey e)), s)
         | Inr key \<Rightarrow>
            (case batToWei amountBAT of
               Panic \<Rightarrow> (Panic, s)
             | Ret amountWei \<Rightarrow>
                (case encodeTransferCall toAddress amountWei of
                   Panic \<Rightarrow> (Panic, s)
                 | Ret data \<Rightarrow>
                    (case ethGetNonce post undef (rpcURL cfg) (ethWallet cfg) s of
                       (Inl e, s1) \<Rightarrow> (Ret (Inl (NonceFailed e)), s1)
                     | (Inr nonce, s1) \<Rightarrow>
                        (case ethGasPrice post undef (rpcURL cfg) s1 of
                           (Inl e, s2) \<Rightarrow> (Ret (Inl (GasPriceFailed e)), s2)
                         | (Inr gasPrice, s2) \<Rightarrow>
                            (case signLegacyTx keccak sign key chain nonce gasPrice 78000
                                    batContractAddress 0 data of
                               Inl n \<Rightarrow> (Ret (Inl (SignFailed n)), s2)
                             | Inr rawTx \<Rightarrow>
                                (case ethSendRawTransaction post (rpcURL cfg) rawTx s2 of
                                   (Inl e, s3) \<Rightarrow> (Ret (Inl (SendFailed e)), s3)
                                 | (Inr txHash, s3) \<Rightarrow> (Ret (Inr txHash), s3)))))))))"

section \<open>The calldata of a transfer\<close>

lemma copy_range_into_zeros:
  assumes "length src \<le> n"
  shows "copy_range (xs @ replicate n 0 @ ys) (length xs) (length xs + n) src
    = xs @ src @ replicate (n - length src) 0 @ ys"
  using assms by (simp add: copy_range_def Let_def)

lemma copy_range_clipped:
  assumes "n \<le> length src"
  shows "copy_range (xs @ replicate n 0 @ ys) (length xs) (length xs + n) src = xs @ take n src @ ys"
  using assms by (simp add: copy_range_def Let_def)

lemma copy_range_zeros:
  "copy_range (xs @ replicate n 0 @ ys) (length xs) (length xs + n) src
    = xs @ take n src @ replicate (n - length src) 0 @ ys"
proof (cases "length src \<le> n")
  case True
  then show ?thesis using copy_range_into_zeros [of src n xs ys] by simp
next
  case False
  then show ?thesis using copy_range_clipped [of n src xs ys] by simp
qed

lemma zeros_split: "replicate 68 (0::byte) = replicate 4 0 @ replicate 12 0 @ replicate 20 0 @ replicate 32 0"
  by (simp flip: replicate_add)

text \<open>
  The layout for every address string: whatever decoded, clipped to 20 bytes and placed at the
  left of the address word's 20 bytes.
\<close>

lemma encodeTransferCall_shape:
  assumes ab: "fst (hex_decode (trim_prefix (to_lower a) ''0x'')) = ab"
    and len: "length (big_bytes amt) \<le> 32"
  shows "encodeTransferCall a (Some amt) = Ret (transferSelector @ replicate 12 0
    @ (take 20 ab @ replicate (20 - length ab) 0)
    @ replicate (32 - length (big_bytes amt)) 0 @ big_bytes amt)"
proof -
  define n where "n = length (big_bytes amt)"
  let ?z = "replicate 12 0 @ replicate 20 0 @ replicate 32 (0::byte)"
  have b1: "copy_range (replicate 68 0) 0 4 transferSelector = transferSelector @ ?z"
    using copy_range_zeros [of "[]" 4 ?z transferSelector]
    by (simp add: zeros_split transferSelector_def)
  have b2: "copy_range (transferSelector @ ?z) (4 + 12) (4 + 32) ab
      = (transferSelector @ replicate 12 0) @ take 20 ab @ replicate (20 - length ab) 0 @ replicate 32 0"
    using copy_range_zeros [of "transferSelector @ replicate 12 0" 20 "replicate 32 0" ab]
    by (simp add: transferSelector_def)
  let ?h = "transferSelector @ replicate 12 0 @ (take 20 ab @ replicate (20 - length ab) 0)"
  have h: "length ?h = 36" by (simp add: transferSelector_def)
  have r: "replicate 32 (0::byte) = replicate (32 - n) 0 @ replicate n 0"
    using len by (simp add: n_def flip: replicate_add)
  have b3: "copy_range (?h @ replicate 32 0) (4 + 32 + 32 - n) 68 (big_bytes amt)
      = ?h @ replicate (32 - n) 0 @ big_bytes amt"
  proof -
    have i: "length (?h @ replicate (32 - n) 0) = 4 + 32 + 32 - n"
      using h len by (simp add: n_def)
    have j: "4 + 32 + 32 - n + n = 68" using len by (simp add: n_def)
    have "copy_range ((?h @ replicate (32 - n) 0) @ replicate n 0 @ []) (4 + 32 + 32 - n) 68 (big_bytes amt)
        = (?h @ replicate (32 - n) 0) @ take n (big_bytes amt) @ replicate (n - length (big_bytes amt)) 0 @ []"
      using copy_range_zeros [of "?h @ replicate (32 - n) 0" n "[]" "big_bytes amt"]
      unfolding i j .
    then show ?thesis using r by (simp add: n_def)
  qed
  show ?thesis
    using len b3 unfolding encodeTransferCall_def Let_def ab b1 b2
    by (simp add: n_def)
qed

lemma big_bytes_le32: "\<bar>amt\<bar> < 2 ^ 256 \<Longrightarrow> length (big_bytes amt) \<le> 32"
  unfolding big_bytes_def by (rule length_nat_bytes_le) (simp add: nat_less_iff)

text \<open>
  The call data of a transfer to a valid address of 20 bytes: 68 bytes, the selector, the
  address right-aligned in its word behind twelve zero bytes, and the amount big-endian in the
  second word, for every amount a \<^verbatim>\<open>uint256\<close> holds.
\<close>

lemma encodeTransferCall_layout:
  assumes addr: "hex_decode (trim_prefix (to_lower a) ''0x'') = (ab, None)" "length ab = 20"
    and amt: "0 \<le> amt" "amt < 2 ^ 256"
  shows "\<exists>data. encodeTransferCall a (Some amt) = Ret data \<and> length data = 68
    \<and> take 4 data = transferSelector \<and> take 12 (drop 4 data) = replicate 12 0
    \<and> take 20 (drop 16 data) = ab \<and> int (be_nat (drop 36 data)) = amt"
proof -
  have len: "length (big_bytes amt) \<le> 32" using amt by (intro big_bytes_le32) simp
  have "encodeTransferCall a (Some amt) = Ret (transferSelector @ replicate 12 0 @ ab
      @ replicate (32 - length (big_bytes amt)) 0 @ big_bytes amt)"
    using encodeTransferCall_shape [OF _ len, of a ab] addr by simp
  then show ?thesis
    using len addr amt by (auto simp: transferSelector_def big_bytes_def)
qed

lemma encodeTransferCall_layout_witness:
  "\<exists>data. encodeTransferCall batContractAddress (Some (10 ^ 18)) = Ret data \<and> length data = 68
    \<and> take 20 (drop 16 data) = fst (hex_decode (trim_prefix (to_lower batContractAddress) ''0x''))"
proof -
  define a where "a = fst (hex_decode (trim_prefix (to_lower batContractAddress) ''0x''))"
  have "hex_decode (trim_prefix (to_lower batContractAddress) ''0x'') = (a, None)" "length a = 20"
    unfolding a_def by code_simp+
  from encodeTransferCall_layout [OF this, of "10 ^ 18"] show ?thesis unfolding a_def by auto
qed

text \<open>
  For any address string the \<^verbatim>\<open>transfer\<close> pays whatever decoded from it: decoding stops
  silently at the first character that is not hex, so an address that does not decode at all
  (\<^verbatim>\<open>0X...\<close> is lower-cased first, but a name or an empty string is not) makes a transfer to the
  zero address, and a shorter one is padded on the right.
\<close>

theorem encodeTransferCall_recipient:
  assumes "\<bar>amt\<bar> < 2 ^ 256"
  shows "\<exists>data. encodeTransferCall a (Some amt) = Ret data
    \<and> (let ab = fst (hex_decode (trim_prefix (to_lower a) ''0x''))
       in take 20 (drop 16 data) = take 20 ab @ replicate (20 - length ab) 0)
    \<and> int (be_nat (drop 36 data)) = \<bar>amt\<bar>"
proof -
  have len: "length (big_bytes amt) \<le> 32" using assms by (rule big_bytes_le32)
  show ?thesis
    using encodeTransferCall_shape [OF refl len, of a] len
    by (auto simp: transferSelector_def big_bytes_def Let_def)
qed

theorem encodeTransferCall_recipient_witness:
  "\<exists>data. encodeTransferCall ''bob.eth'' (Some 5) = Ret data \<and> take 20 (drop 16 data) = replicate 20 0"
proof -
  have "hex_decode (trim_prefix (to_lower ''bob.eth'') ''0x'') = ([], Some (InvalidByte (CHR ''o'')))"
    by code_simp
  then show ?thesis using encodeTransferCall_recipient [of 5 "''bob.eth''"] by auto
qed

section \<open>BAT amounts in wei\<close>

text \<open>
  The amount in wei differs from the exact product by less than one wei (truncation) plus
  one part in \<open>2 ^ 53\<close> of it: the product is rounded to 53 bits, the precision
  \<^verbatim>\<open>SetFloat64\<close> gives the big float. The value \<open>m * 2 ^ e\<close> is compared at scale \<open>2 ^ - e\<close>.
\<close>

theorem batToWei_error:
  assumes "batToWei (Fin m e) = Ret (Some w)" "0 \<le> m" "e \<le> 0"
  shows "\<bar>w * 2 ^ nat (- e) - m * 10 ^ 18\<bar> * 2 ^ 53 \<le> m * 10 ^ 18 + 2 ^ nat (- e) * 2 ^ 53"
proof -
  define M where "M = m * 10 ^ 18"
  have M: "0 \<le> M" using assms(2) by (simp add: M_def)
  obtain q k where qk: "round_mag 53 (nat M) = (q, k)" by fastforce
  have err: "\<bar>int q * 2 ^ k - M\<bar> * 2 ^ 53 \<le> M" using round_mag_error [OF qk] M by simp
  have q0: "q = 0" if "M = 0" using qk that by (simp add: round_mag_exact)
  have sq: "sgn M * int q = int q" using M q0 by (auto simp: sgn_if)
  have w: "w = dy_trunc (int q) (e + int k)"
  proof -
    have "rnd 53 M e = (int q, e + int k)" using qk sq M by (simp add: rnd_def)
    then show ?thesis using assms(1) unfolding M_def by simp
  qed
  define d where "d = nat (- e)"
  have "\<bar>w * 2 ^ d - int q * 2 ^ k\<bar> < 2 ^ d"
  proof (cases "0 \<le> e + int k")
    case True
    then have k: "k = nat (e + int k) + d" using assms(3) by (simp add: d_def)
    have "w * 2 ^ d = int q * 2 ^ k" using w True by (subst k) (simp add: dy_trunc_def power_add)
    then show ?thesis by simp
  next
    case False
    define j where "j = nat (- (e + int k))"
    have d: "d = j + k" using False by (simp add: j_def d_def)
    have "w = int q div 2 ^ j" using w False by (cases "q = 0") (simp_all add: dy_trunc_def j_def)
    then have "w * 2 ^ j = int q - int q mod 2 ^ j" by (simp add: minus_mod_eq_div_mult)
    then have "\<bar>w * 2 ^ j - int q\<bar> < 2 ^ j" by simp
    then have "\<bar>w * 2 ^ j - int q\<bar> * 2 ^ k < 2 ^ j * 2 ^ k" by simp
    then have "\<bar>(w * 2 ^ j - int q) * 2 ^ k\<bar> < 2 ^ d" by (simp add: abs_mult d power_add)
    then show ?thesis by (simp add: d power_add algebra_simps)
  qed
  then have "\<bar>w * 2 ^ d - int q * 2 ^ k\<bar> * 2 ^ 53 \<le> 2 ^ d * 2 ^ 53" by simp
  moreover have "\<bar>w * 2 ^ d - M\<bar> * 2 ^ 53
      \<le> (\<bar>w * 2 ^ d - int q * 2 ^ k\<bar> + \<bar>int q * 2 ^ k - M\<bar>) * 2 ^ 53" by (intro mult_right_mono) simp_all
  ultimately have "\<bar>w * 2 ^ d - M\<bar> * 2 ^ 53 \<le> M + 2 ^ d * 2 ^ 53"
    using err unfolding distrib_right by linarith
  then show ?thesis by (simp add: M_def d_def)
qed

text \<open>\<open>0.1\<close> BAT.\<close>

theorem batToWei_error_witness:
  "\<bar>10 ^ 17 * 2 ^ 55 - 3602879701896397 * 10 ^ 18\<bar> * 2 ^ 53 \<le> 3602879701896397 * 10 ^ 18 + 2 ^ 55 * (2 ^ 53 :: int)"
proof -
  have "nat_bits (3602879701896397 * 10 ^ 18) = Suc 111" by (rule nat_bits_eq) simp_all
  then have "batToWei (Fin 3602879701896397 (-55)) = Ret (Some (10 ^ 17))"
    by (simp add: rnd_def round_mag_def div_even_def dy_trunc_def)
  from batToWei_error [OF this] show ?thesis by simp
qed

section \<open>The signed transaction\<close>

lemma bat_address_bytes:
  "fst (hex_decode (trim_prefix batContractAddress ''0x''))
    = [13, 135, 117, 246, 72, 67, 6, 121, 167, 9, 233, 141, 43, 12, 182, 37, 13, 40, 135, 239]"
  by code_simp

lemma length_big_bytes_be: "length (big_bytes (int (be_nat bs))) \<le> length bs"
  unfolding big_bytes_def using be_nat_lt [of bs] by (intro length_nat_bytes_le) simp

lemma rlpEncodeUint_head: "rlp_head (rlpEncodeUint n @ r) = Some (RStr (nat_bytes (unat n)), r)"
  by simp

text \<open>
  The address and the call data are put into the list as they are, without their own string
  prefix. Reading the BAT address as list items gives a one-byte string, a seven-byte string,
  another byte, and then, for the byte \<open>0xe9\<close>, a nested list of 41 bytes.
\<close>

lemma bat_address_as_items:
  assumes "36 \<le> length rest"
  shows "Option.bind (rlp_items ([13, 135, 117, 246, 72, 67, 6, 121, 167, 9, 233, 141, 43, 12, 182, 37,
      13, 40, 135, 239] @ rest)) str_items = None"
proof -
  let ?t1 = "[135, 117, 246, 72, 67, 6, 121, 167, 9, 233, 141, 43, 12, 182, 37, 13, 40, 135, 239] @ rest :: bytes"
  let ?t2 = "[9, 233, 141, 43, 12, 182, 37, 13, 40, 135, 239] @ rest :: bytes"
  let ?t3 = "[233, 141, 43, 12, 182, 37, 13, 40, 135, 239] @ rest :: bytes"
  let ?l = "[141, 43, 12, 182, 37, 13, 40, 135, 239] @ rest :: bytes"
  have h0: "rlp_head (13 # ?t1) = Some (RStr [13], ?t1)" by simp
  have h1: "rlp_head ?t1 = Some (RStr [117, 246, 72, 67, 6, 121, 167], ?t2)" by (simp add: take_item_def)
  have h2: "rlp_head ?t2 = Some (RStr [9], ?t3)" by simp
  have h3: "rlp_head ?t3 = Some (RList (take 41 ?l), drop 41 ?l)"
    using assms by (simp add: take_item_def)
  have "rlp_items (13 # ?t1) = map_option (\<lambda>is. RStr [13] # RStr [117, 246, 72, 67, 6, 121, 167]
      # RStr [9] # RList (take 41 ?l) # is) (rlp_items (drop 41 ?l))"
    unfolding rlp_items_step [OF h0] rlp_items_step [OF h1] rlp_items_step [OF h2] rlp_items_step [OF h3]
    by (simp add: option.map_comp comp_def)
  then show ?thesis by (cases "rlp_items (drop 41 ?l)") simp_all
qed

lemma str_items_prefix_None:
  assumes "rlp_head bs = Some (RStr b, rest)" "Option.bind (rlp_items rest) str_items = None"
  shows "Option.bind (rlp_items bs) str_items = None"
  using assms by (cases "rlp_items rest") (simp_all add: rlp_items_step)

lemma length_rlpEncodeBytes: "length b \<le> 1000 \<Longrightarrow> length (rlpEncodeBytes b) \<le> length b + 9"
  using length_nat_bytes_le [of "length b" 8]
  by (auto simp: rlpEncodeBytes_def rlpLengthPrefix_def Let_def)

lemma length_rlpEncodeBigInt: "length (big_bytes i) \<le> 1000 \<Longrightarrow> length (rlpEncodeBigInt (Some i)) \<le> 1009"
  using length_rlpEncodeBytes [of "big_bytes i"] by (auto simp: rlpEncodeBigInt_def)

lemma length_rlpEncodeUint: "length (rlpEncodeUint n) \<le> 1009"
proof -
  have "length (nat_bytes (unat n)) \<le> 8"
    using unsigned_less [of n] by (intro length_nat_bytes_le) simp
  then show ?thesis using length_rlpEncodeBytes [of "nat_bytes (unat n)"] by (auto simp: rlpEncodeUint_def)
qed

lemma ecdsaSign_bounds:
  assumes "ecdsaSign sign key h chain = Inr (r, s, v)"
  shows "length (big_bytes r) \<le> 32" "length (big_bytes s) \<le> 32" "in64 v"
proof -
  let ?sig = "sign key h"
  from assms have sig: "length ?sig = 65"
    and r: "r = int (be_nat (take 32 (drop 1 ?sig)))" and s: "s = int (be_nat (take 32 (drop 33 ?sig)))"
    and v: "\<exists>x. v = wrap64 x"
    unfolding ecdsaSign_def Let_def by (auto simp del: of_nat_unat split: if_splits)
  show "length (big_bytes r) \<le> 32" "length (big_bytes s) \<le> 32" "in64 v"
    using r s sig v length_big_bytes_be [of "take 32 (drop 1 ?sig)"]
      length_big_bytes_be [of "take 32 (drop 33 ?sig)"] by auto
qed

lemma signLegacyTx_Inr:
  assumes "signLegacyTx keccak sign key chain nonce gasPrice gasLimit to value data = Inr raw"
  obtains r s v h where "ecdsaSign sign key h chain = Inr (r, s, v)"
    "raw = rlpEncodeList
      [rlpEncodeUint nonce, rlpEncodeBigInt (Some gasPrice), rlpEncodeUint gasLimit,
       fst (hex_decode (trim_prefix to ''0x'')), rlpEncodeBigInt (Some value), data,
       rlpEncodeBigInt (Some v), rlpEncodeBigInt (Some r), rlpEncodeBigInt (Some s)]"
  using assms unfolding signLegacyTx_def Let_def by (auto split: sum.splits)

text \<open>
  The raw transaction is never the RLP of a list of byte strings, which a legacy transaction
  must be: the recipient and the call data are put into the list without their string prefix,
  so a node reading the BAT contract's address as list items meets a nested list. This is so
  whatever the nonce, prices, key, hash and signature.
\<close>

lemma signLegacyTx_not_a_transaction:
  assumes tx: "signLegacyTx keccak sign key chain nonce gasPrice gasLimit batContractAddress value data = Inr raw"
    and gp: "\<bar>gasPrice\<bar> < 2 ^ 256" and val: "\<bar>value\<bar> < 2 ^ 256"
    and data: "length data = 68"
  shows "rlp_decode_strings raw = None"
proof -
  define to where "to = [13, 135, 117, 246, 72, 67, 6, 121, 167, 9, 233, 141, 43, 12, 182, 37,
      13, 40, 135, 239 :: byte]"
  from tx obtain r s v h where sg: "ecdsaSign sign key h chain = Inr (r, s, v)"
    and items: "raw = rlpEncodeList
      [rlpEncodeUint nonce, rlpEncodeBigInt (Some gasPrice), rlpEncodeUint gasLimit, to,
       rlpEncodeBigInt (Some value), data, rlpEncodeBigInt (Some v),
       rlpEncodeBigInt (Some r), rlpEncodeBigInt (Some s)]"
    unfolding to_def by (rule signLegacyTx_Inr) (simp only: bat_address_bytes)
  note rs = ecdsaSign_bounds [OF sg]
  have g: "length (big_bytes gasPrice) \<le> 32" "length (big_bytes value) \<le> 32"
    using gp val by (simp_all add: big_bytes_le32)
  have v: "length (big_bytes v) \<le> 32"
    using rs(3) by (intro big_bytes_le32) (auto simp: in64_def)
  define tail where "tail = rlpEncodeBigInt (Some value) @ data @ rlpEncodeBigInt (Some v)
      @ rlpEncodeBigInt (Some r) @ rlpEncodeBigInt (Some s)"
  define payload where "payload = rlpEncodeUint nonce @ rlpEncodeBigInt (Some gasPrice)
      @ rlpEncodeUint gasLimit @ to @ tail"
  have len: "length payload < 2 ^ 64"
    using length_rlpEncodeUint [of nonce] length_rlpEncodeUint [of gasLimit]
      length_rlpEncodeBigInt [of gasPrice] length_rlpEncodeBigInt [of "value"]
      length_rlpEncodeBigInt [of v] length_rlpEncodeBigInt [of r] length_rlpEncodeBigInt [of s]
      g v rs data by (simp add: payload_def tail_def to_def)
  have d0: "Option.bind (rlp_items (to @ tail)) str_items = None"
    unfolding to_def by (rule bat_address_as_items) (simp add: tail_def data)
  have d1: "Option.bind (rlp_items (rlpEncodeUint gasLimit @ to @ tail)) str_items = None"
    by (rule str_items_prefix_None [OF rlpEncodeUint_head d0])
  have d2: "Option.bind (rlp_items (rlpEncodeBigInt (Some gasPrice) @ rlpEncodeUint gasLimit @ to @ tail)) str_items = None"
    by (rule str_items_prefix_None [OF rlp_head_EncodeBigInt d1]) (use g in simp)
  have "Option.bind (rlp_items payload) str_items = None"
    unfolding payload_def by (rule str_items_prefix_None [OF rlpEncodeUint_head d2])
  moreover have "raw = rlpEncodeList [payload]"
    unfolding items payload_def tail_def by (simp add: rlpEncodeList_def)
  ultimately show ?thesis
    using rlp_decode_EncodeList [of "[payload]"] len by simp
qed

lemma signLegacyTx_not_a_transaction_witness:
  "\<exists>raw. signLegacyTx (\<lambda>b. b) (\<lambda>k h. replicate 65 27) [] 1 7 (10 ^ 9) 78000 batContractAddress 0 (replicate 68 0)
      = Inr raw \<and> rlp_decode_strings raw = None"
proof -
  have "\<exists>raw. signLegacyTx (\<lambda>b. b) (\<lambda>k h. replicate 65 27) [] 1 7 (10 ^ 9) 78000 batContractAddress 0 (replicate 68 0)
      = Inr raw"
    by (simp add: signLegacyTx_def ecdsaSign_def Let_def)
  then obtain raw where raw: "signLegacyTx (\<lambda>b. b) (\<lambda>k h. replicate 65 27) [] 1 7 (10 ^ 9) 78000 batContractAddress 0
      (replicate 68 0) = Inr raw" ..
  from signLegacyTx_not_a_transaction [OF this] raw show ?thesis by simp
qed

end
