(* ===== verification/SqlTable.thy ===== *)
theory SqlTable
  imports Prelude
begin

text \<open>
  SQLite tables with a \<^verbatim>\<open>TEXT PRIMARY KEY\<close>, as \<^verbatim>\<open>store/store.go\<close> and the other stores of the
  repository declare them: the rows in rowid order. \<^verbatim>\<open>INSERT OR REPLACE\<close> drops the row with the
  same key and appends the new one, \<^verbatim>\<open>UPDATE ... WHERE key = ?\<close> and \<^verbatim>\<open>DELETE ... WHERE key = ?\<close>
  touch the row with the key, and \<^verbatim>\<open>SELECT ... WHERE key = ?\<close> finds it. The locale
  \<open>keyed_table\<close> states the laws the services rely on; every component that owns a table
  interprets it with its own row type.
\<close>

definition tbl_upsert :: "('r \<Rightarrow> 'k) \<Rightarrow> 'r \<Rightarrow> 'r list \<Rightarrow> 'r list" where
  "tbl_upsert key r t = filter (\<lambda>x. key x \<noteq> key r) t @ [r]"

definition tbl_delete :: "('r \<Rightarrow> 'k) \<Rightarrow> 'k \<Rightarrow> 'r list \<Rightarrow> 'r list" where
  "tbl_delete key k t = filter (\<lambda>x. key x \<noteq> k) t"

definition tbl_update :: "('r \<Rightarrow> 'k) \<Rightarrow> 'k \<Rightarrow> ('r \<Rightarrow> 'r) \<Rightarrow> 'r list \<Rightarrow> 'r list" where
  "tbl_update key k f t = map (\<lambda>x. if key x = k then f x else x) t"

definition tbl_find :: "('r \<Rightarrow> 'k) \<Rightarrow> 'k \<Rightarrow> 'r list \<Rightarrow> 'r option" where
  "tbl_find key k t = find (\<lambda>x. key x = k) t"

definition tbl_ok :: "('r \<Rightarrow> 'k) \<Rightarrow> 'r list \<Rightarrow> bool" where
  "tbl_ok key t \<longleftrightarrow> distinct (map key t)"

section \<open>The interface of a table\<close>

locale keyed_table =
  fixes key :: "'r \<Rightarrow> 'k"
    and upsert :: "'r \<Rightarrow> 't \<Rightarrow> 't"
    and delete :: "'k \<Rightarrow> 't \<Rightarrow> 't"
    and lookup :: "'k \<Rightarrow> 't \<Rightarrow> 'r option"
    and ok :: "'t \<Rightarrow> bool"
  assumes lookup_upsert: "lookup k (upsert r t) = (if k = key r then Some r else lookup k t)"
    and lookup_delete: "lookup k (delete k' t) = (if k = k' then None else lookup k t)"
    and ok_upsert: "ok t \<Longrightarrow> ok (upsert r t)"
    and ok_delete: "ok t \<Longrightarrow> ok (delete k t)"
    and lookup_key: "lookup k t = Some r \<Longrightarrow> key r = k"
begin

lemma upsert_same: "lookup (key r) (upsert r t) = Some r"
  by (simp add: lookup_upsert)

lemma upsert_other: "k \<noteq> key r \<Longrightarrow> lookup k (upsert r t) = lookup k t"
  by (simp add: lookup_upsert)

lemma delete_same: "lookup k (delete k t) = None"
  by (simp add: lookup_delete)

lemma upsert_delete_commute:
  "k' \<noteq> key r \<Longrightarrow> lookup k (delete k' (upsert r t)) = lookup k (upsert r (delete k' t))"
  by (simp add: lookup_upsert lookup_delete)

lemma fold_upsert_ok: "ok t \<Longrightarrow> ok (fold upsert rs t)"
  by (induction rs arbitrary: t) (auto intro: ok_upsert)

lemma fold_upsert_lookup:
  "lookup k (fold upsert rs t) =
     (case find (\<lambda>r. key r = k) (rev rs) of Some r \<Rightarrow> Some r | None \<Rightarrow> lookup k t)"
proof (induction rs arbitrary: t rule: rev_induct)
  case Nil
  then show ?case by simp
next
  case (snoc x xs)
  then show ?case by (simp add: lookup_upsert)
qed

lemma fold_delete_lookup: "lookup k (fold delete ks t) = (if k \<in> set ks then None else lookup k t)"
  by (induction ks arbitrary: t) (auto simp: lookup_delete)

lemma fold_delete_ok: "ok t \<Longrightarrow> ok (fold delete ks t)"
  by (induction ks arbitrary: t) (auto intro: ok_delete)

end

section \<open>The list of rows provides the interface\<close>

lemma find_filter_other: "k \<noteq> k' \<Longrightarrow> find (\<lambda>x. key x = k) (filter (\<lambda>x. key x \<noteq> k') t) = find (\<lambda>x. key x = k) t"
  by (induction t) auto

lemma find_filter_same: "find (\<lambda>x. key x = k) (filter (\<lambda>x. key x \<noteq> k) t) = None"
  by (induction t) auto

lemma find_append: "find P (xs @ ys) = (case find P xs of None \<Rightarrow> find P ys | Some x \<Rightarrow> Some x)"
  by (induction xs) auto

lemma tbl_find_upsert [simp]:
  "tbl_find key k (tbl_upsert key r t) = (if k = key r then Some r else tbl_find key k t)"
  by (simp add: tbl_find_def tbl_upsert_def find_append find_filter_same find_filter_other split: option.split)

lemma tbl_find_delete [simp]:
  "tbl_find key k (tbl_delete key k' t) = (if k = k' then None else tbl_find key k t)"
  by (simp add: tbl_find_def tbl_delete_def find_filter_same find_filter_other)

lemma tbl_find_key: "tbl_find key k t = Some r \<Longrightarrow> key r = k \<and> r \<in> set t"
  by (auto simp: tbl_find_def find_Some_iff)

lemma tbl_find_None: "tbl_find key k t = None \<longleftrightarrow> k \<notin> key ` set t"
  by (auto simp: tbl_find_def find_None_iff)

lemma tbl_find_iff: "tbl_ok key t \<Longrightarrow> tbl_find key k t = Some r \<longleftrightarrow> r \<in> set t \<and> key r = k"
proof (induction t)
  case Nil
  then show ?case by (simp add: tbl_find_def)
next
  case (Cons a t)
  then show ?case by (auto simp: tbl_find_def tbl_ok_def)
qed

lemma tbl_ok_Nil [simp]: "tbl_ok key []"
  by (simp add: tbl_ok_def)

lemma tbl_ok_upsert [simp]: "tbl_ok key t \<Longrightarrow> tbl_ok key (tbl_upsert key r t)"
  by (auto simp: tbl_ok_def tbl_upsert_def)

lemma tbl_ok_delete [simp]: "tbl_ok key t \<Longrightarrow> tbl_ok key (tbl_delete key k t)"
  by (auto simp: tbl_ok_def tbl_delete_def)

lemma keys_tbl_update:
  assumes "\<And>x. key (f x) = key x"
  shows "map key (tbl_update key k f t) = map key t"
  using assms by (simp add: tbl_update_def)

lemma tbl_ok_update [simp]:
  "(\<And>x. key (f x) = key x) \<Longrightarrow> tbl_ok key t \<Longrightarrow> tbl_ok key (tbl_update key k f t)"
  by (simp add: tbl_ok_def keys_tbl_update)

lemma tbl_find_update:
  assumes "\<And>x. key (f x) = key x"
  shows "tbl_find key k' (tbl_update key k f t)
    = (if k' = k then map_option f (tbl_find key k t) else tbl_find key k' t)"
  using assms by (induction t) (auto simp: tbl_find_def tbl_update_def)

lemma set_tbl_update: "x \<in> set (tbl_update key k f t) \<Longrightarrow> \<exists>y \<in> set t. x = y \<or> x = f y \<and> key y = k"
  by (auto simp: tbl_update_def split: if_splits)

lemma tbl_keyed: "keyed_table key (tbl_upsert key) (tbl_delete key) (tbl_find key) (tbl_ok key)"
  by unfold_locales (auto dest: tbl_find_key)

end
