(* ===== verification/Http.thy ===== *)
theory Http
  imports Json
begin

text \<open>
  What the services' handlers use of \<^verbatim>\<open>net/http\<close>: methods, the three kinds of
  answers (\<^verbatim>\<open>http.Error\<close>, a JSON document, a bare status), headers, and a response writer that fixes status and
  headers at the first write.
\<close>

datatype http_response =
    HttpError nat string
  | HttpJson nat json
  | HttpEmpty nat

fun http_status :: "http_response \<Rightarrow> nat" where
  "http_status (HttpError c _) = c"
| "http_status (HttpJson c _) = c"
| "http_status (HttpEmpty c) = c"

datatype http_method = GET | POST | PUT | OtherMethod string

section \<open>Prometheus text\<close>

definition newline :: string where
  "newline = [CHR 0x0A]"

definition prom_head :: "string \<Rightarrow> string \<Rightarrow> string \<Rightarrow> string" where
  "prom_head name kind help =
     ''# HELP '' @ name @ '' '' @ help @ newline @ ''# TYPE '' @ name @ '' '' @ kind @ newline"

definition prom_metric :: "string \<Rightarrow> string \<Rightarrow> string \<Rightarrow> string \<Rightarrow> string" where
  "prom_metric name kind help v = prom_head name kind help @ name @ '' '' @ v @ newline"

section \<open>Headers\<close>

text \<open>A header is a map from canonical names to values; \<^verbatim>\<open>Get\<close> of a missing one is empty.\<close>

type_synonym header = "(string \<times> string) list"

definition hdr_get :: "header \<Rightarrow> string \<Rightarrow> string" where
  "hdr_get h k = (case map_of h k of None \<Rightarrow> [] | Some v \<Rightarrow> v)"

definition hdr_del :: "string \<Rightarrow> header \<Rightarrow> header" where
  "hdr_del k h = filter (\<lambda>p. fst p \<noteq> k) h"

definition hdr_set :: "string \<Rightarrow> string \<Rightarrow> header \<Rightarrow> header" where
  "hdr_set k v h = (k, v) # hdr_del k h"

lemma map_of_hdr_del: "map_of (hdr_del k h) k' = (if k' = k then None else map_of h k')"
  by (induction h) (auto simp: hdr_del_def)

lemma hdr_get_set [simp]: "hdr_get (hdr_set k v h) k' = (if k' = k then v else hdr_get h k')"
  by (simp add: hdr_get_def hdr_set_def map_of_hdr_del)

lemma hdr_get_del [simp]: "hdr_get (hdr_del k h) k' = (if k' = k then [] else hdr_get h k')"
  by (simp add: hdr_get_def map_of_hdr_del)

lemma hdr_get_Nil [simp]: "hdr_get [] k = []"
  by (simp add: hdr_get_def)

section \<open>The response writer\<close>

text \<open>
  The status and headers are sent by the first \<^verbatim>\<open>WriteHeader\<close> (a later one is ignored) or by the
  first \<^verbatim>\<open>Write\<close>, with status 200.
\<close>

record response_writer =
  wr_header :: header
  wr_sent :: "(nat \<times> header) option"
  wr_body :: bytes

definition fresh_writer :: response_writer where
  "fresh_writer = \<lparr>wr_header = [], wr_sent = None, wr_body = []\<rparr>"

definition wr_WriteHeader :: "nat \<Rightarrow> response_writer \<Rightarrow> response_writer" where
  "wr_WriteHeader code w =
     (case wr_sent w of None \<Rightarrow> w\<lparr>wr_sent := Some (code, wr_header w)\<rparr> | Some _ \<Rightarrow> w)"

definition wr_Write :: "bytes \<Rightarrow> response_writer \<Rightarrow> response_writer" where
  "wr_Write p w = (let w = wr_WriteHeader 200 w in w\<lparr>wr_body := wr_body w @ p\<rparr>)"

text \<open>What a handler does to the writer it is given.\<close>

datatype writer_op = SetHeader string string | DelHeader string | WriteStatus nat | WriteBody bytes

fun apply_op :: "writer_op \<Rightarrow> response_writer \<Rightarrow> response_writer" where
  "apply_op (SetHeader k v) w = w\<lparr>wr_header := hdr_set k v (wr_header w)\<rparr>"
| "apply_op (DelHeader k) w = w\<lparr>wr_header := hdr_del k (wr_header w)\<rparr>"
| "apply_op (WriteStatus c) w = wr_WriteHeader c w"
| "apply_op (WriteBody p) w = wr_Write p w"

end
