(* ===== verification/Rewards.thy ===== *)
theory Rewards
  imports Payout SqlTable Http
begin

text \<open>
  The rewards service, \<^verbatim>\<open>rewards/service.go\<close>, on the tables of \<^verbatim>\<open>store/store.go\<close>: its
  configuration and construction, reward queueing, the webhook, wallet, rates, metrics and
  payout handlers. Times are Unix seconds (RFC 3339 keeps no fraction). A database call that
  fails is an argument of the operation; the network is the transport parameter of
  \<^verbatim>\<open>Payout\<close> and an HTTP transport for Uphold, both threading one network state.
\<close>

section \<open>Data\<close>

record rewards_config =
  rc_Enabled :: bool
  rc_PublisherID :: string
  rc_WalletAddress :: string
  rc_UpholdClientID :: string
  rc_UpholdClientSecret :: string
  rc_MinPayoutBAT :: f64
  rc_ListenAddr :: string
  rc_WebhookSecret :: string
  rc_DBPath :: string
  rc_BandwidthAddr :: string
  rc_EthRPCURL :: string
  rc_EthPrivateKey :: string
  rc_EthChainID :: int
  rc_UpholdAPIBase :: string

record contribution_event =
  ev_Type :: string
  ev_ProjectID :: int
  ev_ProjectPath :: string
  ev_Username :: string
  ev_Email :: string
  ev_ObjectID :: int

datatype reward_status = StPending | StPaid | StFailed

record pending_reward =
  rw_ID :: string
  rw_Event :: contribution_event
  rw_AmountBAT :: f64
  rw_QueuedAt :: int
  rw_PaidAt :: "int option"
  rw_TxHash :: string
  rw_Status :: reward_status

record wallet_registration =
  wl_Username :: string
  wl_WalletAddress :: string
  wl_RegisteredAt :: int
  wl_UpholdCardID :: string

record reward_rates =
  rt_MergeRequest :: f64
  rt_Issue :: f64
  rt_Pipeline :: f64
  rt_Star :: f64

text \<open>\<open>0.1\<close> and \<open>0.05\<close> are the nearest doubles.\<close>

definition DefaultRewardRates :: reward_rates where
  "DefaultRewardRates = \<lparr>rt_MergeRequest = Fin 1 0, rt_Issue = Fin 1 (-2),
     rt_Pipeline = Fin 3602879701896397 (-55), rt_Star = Fin 3602879701896397 (-56)\<rparr>"

text \<open>The tables the service uses; the settings table holds JSON documents.\<close>

record rewards_db =
  db_wallets :: "wallet_registration list"
  db_rewards :: "pending_reward list"
  db_settings :: "(string \<times> json) list"

record rewards_service =
  sv_cfg :: rewards_config
  sv_rates :: reward_rates
  sv_db :: rewards_db

section \<open>Rates and their persistence\<close>

definition rates_json :: "reward_rates \<Rightarrow> json" where
  "rates_json r = JObj [(''merge_request'', JNum (rt_MergeRequest r)), (''issue'', JNum (rt_Issue r)),
     (''pipeline'', JNum (rt_Pipeline r)), (''star'', JNum (rt_Star r))]"

fun decode_rates :: "json option \<Rightarrow> reward_rates option" where
  "decode_rates (Some JNull) = Some \<lparr>rt_MergeRequest = f64_zero, rt_Issue = f64_zero,
     rt_Pipeline = f64_zero, rt_Star = f64_zero\<rparr>"
| "decode_rates (Some (JObj kvs)) =
     (case (field_num (jfield kvs ''merge_request''), field_num (jfield kvs ''issue''),
            field_num (jfield kvs ''pipeline''), field_num (jfield kvs ''star'')) of
        (Some a, Some b, Some c, Some d) \<Rightarrow>
          Some \<lparr>rt_MergeRequest = a, rt_Issue = b, rt_Pipeline = c, rt_Star = d\<rparr>
      | _ \<Rightarrow> None)"
| "decode_rates _ = None"

definition loadRates :: "rewards_db \<Rightarrow> reward_rates" where
  "loadRates db =
     (case tbl_find fst ''reward_rates'' (db_settings db) of
        None \<Rightarrow> DefaultRewardRates
      | Some (_, raw) \<Rightarrow>
          (case decode_rates (Some raw) of None \<Rightarrow> DefaultRewardRates | Some r \<Rightarrow> r))"

text \<open>\<^verbatim>\<open>json.Marshal\<close> fails on an infinity or NaN; the write itself may fail too.\<close>

fun is_finite :: "f64 \<Rightarrow> bool" where
  "is_finite (Fin m e) = True"
| "is_finite _ = False"

definition rates_finite :: "reward_rates \<Rightarrow> bool" where
  "rates_finite r \<longleftrightarrow> is_finite (rt_MergeRequest r) \<and> is_finite (rt_Issue r)
     \<and> is_finite (rt_Pipeline r) \<and> is_finite (rt_Star r)"

definition saveRates :: "bool \<Rightarrow> reward_rates \<Rightarrow> rewards_db \<Rightarrow> bool \<times> rewards_db" where
  "saveRates write_ok r db =
     (if rates_finite r \<and> write_ok
      then (True, db\<lparr>db_settings := tbl_upsert fst (''reward_rates'', rates_json r) (db_settings db)\<rparr>)
      else (False, db))"

section \<open>Construction\<close>

datatype new_error = Disabled | OpenStore string

definition new_rewards ::
    "rewards_config \<Rightarrow> (string \<Rightarrow> (string, rewards_db) result) \<Rightarrow> (new_error, rewards_service) result" where
  "new_rewards cfg open_store =
     (if \<not> rc_Enabled cfg then Inl Disabled
      else
        (let cfg = (if rc_ListenAddr cfg = [] then cfg\<lparr>rc_ListenAddr := ''127.0.0.1:6061''\<rparr> else cfg);
             cfg = (if f64_eq (rc_MinPayoutBAT cfg) f64_zero then cfg\<lparr>rc_MinPayoutBAT := Fin 5 0\<rparr> else cfg);
             cfg = (if rc_DBPath cfg = []
                    then cfg\<lparr>rc_DBPath := ''/var/lib/gitlab-enhanced/rewards.db''\<rparr> else cfg)
         in case open_store (rc_DBPath cfg) of
              Inl e \<Rightarrow> Inl (OpenStore e)
            | Inr db \<Rightarrow> Inr \<lparr>sv_cfg = cfg, sv_rates = loadRates db, sv_db = db\<rparr>))"

section \<open>Queueing a reward\<close>

definition rateFor :: "reward_rates \<Rightarrow> string \<Rightarrow> f64" where
  "rateFor r t =
     (if t = ''merge_request'' then rt_MergeRequest r
      else if t = ''issue'' then rt_Issue r
      else if t = ''pipeline'' then rt_Pipeline r
      else if t = ''star'' then rt_Star r
      else f64_zero)"

definition reward_id :: "contribution_event \<Rightarrow> string" where
  "reward_id ev = ev_Type ev @ ''-'' @ show_int (ev_ProjectID ev) @ ''-'' @ show_int (ev_ObjectID ev)"

text \<open>The insert does not name \<open>paid_at\<close> and \<open>tx_hash\<close>: a replaced row gets their defaults.\<close>

definition QueueReward ::
    "bool \<Rightarrow> int \<Rightarrow> contribution_event \<Rightarrow> rewards_service
     \<Rightarrow> (unit, pending_reward) result \<times> rewards_service" where
  "QueueReward write_ok now ev sv =
     (let reward = \<lparr>rw_ID = reward_id ev, rw_Event = ev,
                    rw_AmountBAT = rateFor (sv_rates sv) (ev_Type ev), rw_QueuedAt = now,
                    rw_PaidAt = None, rw_TxHash = [], rw_Status = StPending\<rparr>
      in if write_ok
         then (Inr reward,
               sv\<lparr>sv_db := (sv_db sv)\<lparr>db_rewards := tbl_upsert rw_ID reward (db_rewards (sv_db sv))\<rparr>\<rparr>)
         else (Inl (), sv))"

section \<open>Database reads\<close>

datatype load_error = NoRows | DbError

definition loadWallet ::
    "bool \<Rightarrow> string \<Rightarrow> rewards_db \<Rightarrow> (load_error, wallet_registration) result" where
  "loadWallet read_ok username db =
     (if \<not> read_ok then Inl DbError
      else case tbl_find wl_Username username (db_wallets db) of
             None \<Rightarrow> Inl NoRows
           | Some w \<Rightarrow> Inr w)"

text \<open>Every reward, whatever its status, oldest first; equal times keep the rowid order.\<close>

definition loadPendingRewards :: "bool \<Rightarrow> rewards_db \<Rightarrow> (load_error, pending_reward list) result" where
  "loadPendingRewards read_ok db =
     (if read_ok then Inr (sort_key rw_QueuedAt (db_rewards db)) else Inl DbError)"

section \<open>HTTP handlers\<close>

text \<open>A request: a body that cannot be read, or one decoded (\<^const>\<open>None\<close>: not JSON).\<close>

record http_request =
  hr_method :: http_method
  hr_token :: string
  hr_event :: string
  hr_body :: "(unit, json option) result"

definition handleHealth :: "rewards_service \<Rightarrow> http_response" where
  "handleHealth sv = HttpJson 200 (JObj [(''ok'', JBool True),
     (''publisher_id'', JStr (rc_PublisherID (sv_cfg sv))),
     (''wallet'', JStr (rc_WalletAddress (sv_cfg sv)))])"

record reward_metrics =
  mt_pending :: nat
  mt_paid :: nat
  mt_failed :: nat
  mt_batQueued :: f64
  mt_batPaid :: f64
  mt_rates :: reward_rates

fun metrics_step :: "pending_reward \<Rightarrow> reward_metrics \<Rightarrow> reward_metrics" where
  "metrics_step rw m =
     (case rw_Status rw of
        StPending \<Rightarrow> m\<lparr>mt_pending := Suc (mt_pending m), mt_batQueued := f64_add (mt_batQueued m) (rw_AmountBAT rw)\<rparr>
      | StPaid \<Rightarrow> m\<lparr>mt_paid := Suc (mt_paid m), mt_batPaid := f64_add (mt_batPaid m) (rw_AmountBAT rw)\<rparr>
      | StFailed \<Rightarrow> m\<lparr>mt_failed := Suc (mt_failed m)\<rparr>)"

text \<open>A failed read counts as no rewards; the last metric has one line per kind of event.\<close>

definition reward_metrics_of :: "bool \<Rightarrow> rewards_service \<Rightarrow> reward_metrics" where
  "reward_metrics_of read_ok sv =
     (let rows = (case loadPendingRewards read_ok (sv_db sv) of Inl _ \<Rightarrow> [] | Inr rs \<Rightarrow> rs)
      in fold metrics_step rows
           \<lparr>mt_pending = 0, mt_paid = 0, mt_failed = 0, mt_batQueued = f64_zero, mt_batPaid = f64_zero,
            mt_rates = sv_rates sv\<rparr>)"

definition rate_line :: "string \<Rightarrow> f64 \<Rightarrow> string" where
  "rate_line event v =
     ''gitlab_enhanced_rewards_rate_bat{event='' @ [CHR 0x22] @ event @ [CHR 0x22] @ ''} '' @ fmt_fixed 4 v @ newline"

definition handleMetrics :: "bool \<Rightarrow> rewards_service \<Rightarrow> string" where
  "handleMetrics read_ok sv =
     (let m = reward_metrics_of read_ok sv; rates = mt_rates m in
      prom_metric ''gitlab_enhanced_rewards_pending'' ''gauge'' ''Total rewards awaiting payout'' (show_nat (mt_pending m))
       @ prom_metric ''gitlab_enhanced_rewards_paid_total'' ''counter'' ''Total rewards successfully paid'' (show_nat (mt_paid m))
       @ prom_metric ''gitlab_enhanced_rewards_failed_total'' ''counter'' ''Total rewards that failed payout'' (show_nat (mt_failed m))
       @ prom_metric ''gitlab_enhanced_rewards_bat_queued_total'' ''gauge'' ''BAT queued for payout'' (fmt_fixed 8 (mt_batQueued m))
       @ prom_metric ''gitlab_enhanced_rewards_bat_paid_total'' ''counter'' ''BAT successfully paid out'' (fmt_fixed 8 (mt_batPaid m))
       @ prom_head ''gitlab_enhanced_rewards_rate_bat'' ''gauge'' ''Rate in BAT per event type''
       @ rate_line ''merge_request'' (rt_MergeRequest rates) @ rate_line ''issue'' (rt_Issue rates)
       @ rate_line ''pipeline'' (rt_Pipeline rates) @ rate_line ''star'' (rt_Star rates))"

section \<open>The GitLab webhook\<close>

definition strField :: "jmap \<Rightarrow> string \<Rightarrow> string" where
  "strField m key = as_str (jget m key)"

definition intField :: "jmap \<Rightarrow> string \<Rightarrow> int" where
  "intField m key = f64_to_int (as_num (jget m key))"

definition hook_event :: "string \<Rightarrow> jmap \<Rightarrow> int \<Rightarrow> contribution_event" where
  \<comment> \<open>the literal of the three cases: the project fields are left at their zero values\<close>
  "hook_event typ user oid = \<lparr>ev_Type = typ, ev_ProjectID = 0, ev_ProjectPath = [],
     ev_Username = strField user ''username'', ev_Email = strField user ''email'', ev_ObjectID = oid\<rparr>"

definition webhook_event :: "string \<Rightarrow> jmap \<Rightarrow> contribution_event option" where
  "webhook_event eventType payload =
     (let attrs = as_obj (jget payload ''object_attributes''); user = as_obj (jget payload ''user'') in
      if eventType = ''Merge Request Hook'' then
        (if strField attrs ''state'' = ''merged''
         then Some (hook_event ''merge_request'' user (intField attrs ''iid'')) else None)
      else if eventType = ''Issue Hook'' then
        (if strField attrs ''action'' = ''close''
         then Some (hook_event ''issue'' user (intField attrs ''iid'')) else None)
      else if eventType = ''Pipeline Hook'' then
        (if strField attrs ''status'' = ''success''
         then Some (hook_event ''pipeline'' user (intField attrs ''id'')) else None)
      else None)"

text \<open>The goroutine the pipeline case starts: its arguments, when it starts.\<close>

definition webhook_spawn :: "rewards_config \<Rightarrow> string \<Rightarrow> jmap \<Rightarrow> (int \<times> int \<times> jmap) option" where
  "webhook_spawn cfg eventType payload =
     (let attrs = as_obj (jget payload ''object_attributes'') in
      if eventType = ''Pipeline Hook'' \<and> strField attrs ''status'' = ''success'' \<and> rc_BandwidthAddr cfg \<noteq> []
      then Some (intField payload ''project_id'', intField attrs ''id'', payload) else None)"

definition handleGitLabWebhook ::
    "bool \<Rightarrow> int \<Rightarrow> http_request \<Rightarrow> rewards_service
     \<Rightarrow> http_response \<times> rewards_service \<times> (int \<times> int \<times> jmap) option" where
  "handleGitLabWebhook write_ok now rq sv =
     (if hr_method rq \<noteq> POST then (HttpError 405 ''method not allowed'', sv, None)
      else if rc_WebhookSecret (sv_cfg sv) \<noteq> [] \<and> hr_token rq \<noteq> rc_WebhookSecret (sv_cfg sv)
      then (HttpError 401 ''unauthorized'', sv, None)
      else case hr_body rq of
        Inl _ \<Rightarrow> (HttpError 400 ''read error'', sv, None)
      | Inr body \<Rightarrow>
          (case decode_map body of
             None \<Rightarrow> (HttpError 400 ''invalid JSON'', sv, None)
           | Some payload \<Rightarrow>
               (case webhook_event (hr_event rq) payload of
                  None \<Rightarrow> (HttpJson 200 (JObj [(''ok'', JBool True), (''action'', JStr ''ignored'')]), sv, None)
                | Some ev \<Rightarrow>
                    (let spawn = webhook_spawn (sv_cfg sv) (hr_event rq) payload in
                     case QueueReward write_ok now ev sv of
                       (Inl _, sv') \<Rightarrow> (HttpError 500 ''failed to queue reward'', sv', spawn)
                     | (Inr reward, sv') \<Rightarrow>
                         (HttpJson 200 (JObj [(''ok'', JBool True), (''reward_id'', JStr (rw_ID reward)),
                            (''amount_bat'', JNum (rw_AmountBAT reward))]), sv', spawn)))))"

text \<open>
  The goroutine: one POST per artifact of each build that has a file name; a failed POST is
  logged and the loop goes on, so the list of bodies does not depend on the network.
\<close>

record artifact_post =
  ap_path :: string
  ap_size_bytes :: int
  ap_project_id :: int
  ap_job_id :: int
  ap_created_at :: int

fun is_obj :: "json \<Rightarrow> bool" where
  "is_obj (JObj _) = True"
| "is_obj _ = False"

definition registerPipelineArtifacts :: "int \<Rightarrow> int \<Rightarrow> int \<Rightarrow> jmap \<Rightarrow> artifact_post list" where
  "registerPipelineArtifacts now projectID pipelineID payload =
     concat (map (\<lambda>b.
       if \<not> is_obj b then []
       else (let build = as_obj (Some b) in
         concat (map (\<lambda>af.
           if \<not> is_obj af then []
           else (let artifact = as_obj (Some af); path = as_str (jget artifact ''filename'') in
             if path = [] then []
             else [\<lparr>ap_path = path, ap_size_bytes = f64_to_int (as_num (jget artifact ''size'')),
                    ap_project_id = projectID, ap_job_id = f64_to_int (as_num (jget build ''id'')),
                    ap_created_at = now\<rparr>]))
           (as_arr (jget build ''artifacts'')))))
       (as_arr (jget payload ''builds'')))"

section \<open>Wallets\<close>

text \<open>\<open>parse_time\<close> is \<^verbatim>\<open>time.Time\<close>'s JSON decoder, applied when the body names the field.\<close>

fun decode_wallet :: "(string \<Rightarrow> int option) \<Rightarrow> json option \<Rightarrow> wallet_registration option" where
  "decode_wallet parse_time (Some JNull) =
     Some \<lparr>wl_Username = [], wl_WalletAddress = [], wl_RegisteredAt = 0, wl_UpholdCardID = []\<rparr>"
| "decode_wallet parse_time (Some (JObj kvs)) =
     (case (field_str (jfield kvs ''username''), field_str (jfield kvs ''wallet_address''),
            field_str (jfield kvs ''uphold_card_id''),
            (case jfield kvs ''registered_at'' of None \<Rightarrow> Some 0 | Some (JStr t) \<Rightarrow> parse_time t | Some _ \<Rightarrow> None)) of
        (Some u, Some a, Some c, Some t) \<Rightarrow>
          Some \<lparr>wl_Username = u, wl_WalletAddress = a, wl_RegisteredAt = t, wl_UpholdCardID = c\<rparr>
      | _ \<Rightarrow> None)"
| "decode_wallet parse_time _ = None"

definition wallet_json :: "(int \<Rightarrow> string) \<Rightarrow> wallet_registration \<Rightarrow> json" where
  "wallet_json show_time w = JObj ([(''username'', JStr (wl_Username w)),
     (''wallet_address'', JStr (wl_WalletAddress w)), (''registered_at'', JStr (show_time (wl_RegisteredAt w)))]
     @ (if wl_UpholdCardID w = [] then [] else [(''uphold_card_id'', JStr (wl_UpholdCardID w))]))"

definition handleWalletRegister ::
    "(string \<Rightarrow> int option) \<Rightarrow> (int \<Rightarrow> string) \<Rightarrow> bool \<Rightarrow> int \<Rightarrow> http_method \<Rightarrow> json option
     \<Rightarrow> rewards_service \<Rightarrow> http_response \<times> rewards_service" where
  "handleWalletRegister parse_time show_time write_ok now meth body sv =
     (if meth \<noteq> POST then (HttpError 405 ''method not allowed'', sv)
      else case decode_wallet parse_time body of
        None \<Rightarrow> (HttpError 400 ''invalid JSON'', sv)
      | Some reg \<Rightarrow>
          if wl_Username reg = [] \<or> wl_WalletAddress reg = []
          then (HttpError 400 ''username and wallet_address required'', sv)
          else
            (let reg = reg\<lparr>wl_RegisteredAt := now\<rparr> in
             if write_ok
             then (HttpJson 200 (wallet_json show_time reg),
                   sv\<lparr>sv_db := (sv_db sv)\<lparr>db_wallets := tbl_upsert wl_Username reg (db_wallets (sv_db sv))\<rparr>\<rparr>)
             else (HttpError 500 ''failed to register wallet'', sv)))"

text \<open>The route is registered for the prefix \<^verbatim>\<open>/wallet/\<close>, so the path has at least its length.\<close>

definition handleWalletGet ::
    "(int \<Rightarrow> string) \<Rightarrow> bool \<Rightarrow> string \<Rightarrow> rewards_service \<Rightarrow> http_response" where
  "handleWalletGet show_time read_ok path sv =
     (case loadWallet read_ok (drop (length ''/wallet/'') path) (sv_db sv) of
        Inl NoRows \<Rightarrow> HttpError 404 ''wallet not registered''
      | Inl DbError \<Rightarrow> HttpError 500 ''database error''
      | Inr reg \<Rightarrow> HttpJson 200 (wallet_json show_time reg))"

definition handlePendingRewards ::
    "(pending_reward list \<Rightarrow> json) \<Rightarrow> bool \<Rightarrow> rewards_service \<Rightarrow> http_response" where
  "handlePendingRewards to_json read_ok sv =
     (case loadPendingRewards read_ok (sv_db sv) of
        Inl _ \<Rightarrow> HttpError 500 ''database error''
      | Inr pending \<Rightarrow> HttpJson 200 (to_json pending))"

text \<open>A failure to persist the new rates is only logged: the rates in memory change anyway.\<close>

definition handleRates ::
    "bool \<Rightarrow> http_method \<Rightarrow> json option \<Rightarrow> rewards_service \<Rightarrow> http_response \<times> rewards_service" where
  "handleRates write_ok meth body sv =
     (if meth = GET then (HttpJson 200 (rates_json (sv_rates sv)), sv)
      else if meth = PUT then
        (case decode_rates body of
           None \<Rightarrow> (HttpError 400 ''invalid JSON'', sv)
         | Some rates \<Rightarrow>
             (let (_, db) = saveRates write_ok rates (sv_db sv)
              in (HttpJson 200 (rates_json rates), sv\<lparr>sv_rates := rates, sv_db := db\<rparr>)))
      else (HttpError 405 ''method not allowed'', sv))"

end
