(* ===== verification/RewardsPayout.thy ===== *)
theory RewardsPayout
  imports Rewards
begin

text \<open>
  The payout path of \<^verbatim>\<open>rewards/service.go\<close>: the Uphold client, the choice of the payout
  method, and the handler that walks the queue and marks the rewards.
\<close>

section \<open>The Uphold client\<close>

datatype http_auth = BasicAuth string string | Bearer string

record uphold_request =
  uq_url :: string
  uq_auth :: http_auth
  uq_body :: json

text \<open>The transport: a failure, or a status with the body decoded as a JSON object or not.\<close>

type_synonym 's uphold_http =
  "uphold_request \<Rightarrow> 's \<Rightarrow> (string, nat \<times> jmap option) result \<times> 's"

datatype uphold_error = UpTransport string | UpDecode | UpStatus nat | UpNoField

definition uphold_base :: "rewards_config \<Rightarrow> string" where
  "uphold_base cfg = (if rc_UpholdAPIBase cfg = [] then ''https://api.uphold.com'' else rc_UpholdAPIBase cfg)"

text \<open>What both calls do with the response: decode, then the status, then one string field.\<close>

definition uphold_field :: "string \<Rightarrow> (string, nat \<times> jmap option) result \<Rightarrow> (uphold_error, string) result" where
  "uphold_field name resp =
     (case resp of
        Inl e \<Rightarrow> Inl (UpTransport e)
      | Inr (_, None) \<Rightarrow> Inl UpDecode
      | Inr (status, Some m) \<Rightarrow>
          if 300 \<le> status then Inl (UpStatus status)
          else (let v = as_str (jget m name) in if v = [] then Inl UpNoField else Inr v))"

definition upholdToken :: "'s uphold_http \<Rightarrow> rewards_config \<Rightarrow> 's \<Rightarrow> (uphold_error, string) result \<times> 's" where
  "upholdToken http cfg s =
     (let (resp, s') = http \<lparr>uq_url = uphold_base cfg @ ''/oauth2/token'',
            uq_auth = BasicAuth (rc_UpholdClientID cfg) (rc_UpholdClientSecret cfg),
            uq_body = JStr ''grant_type=client_credentials''\<rparr> s
      in (uphold_field ''access_token'' resp, s'))"

datatype pay_error =
    UpholdAuth uphold_error
  | UpholdTx uphold_error
  | NoWalletAddress
  | Erc20 payout_error
  | NoMethod

definition submitUpholdPayout ::
    "'s uphold_http \<Rightarrow> rewards_config \<Rightarrow> pending_reward \<Rightarrow> wallet_registration \<Rightarrow> 's
     \<Rightarrow> (pay_error, string) result \<times> 's" where
  "submitUpholdPayout http cfg reward wallet s =
     (case upholdToken http cfg s of
        (Inl e, s1) \<Rightarrow> (Inl (UpholdAuth e), s1)
      | (Inr token, s1) \<Rightarrow>
          (let destination = (if wl_UpholdCardID wallet \<noteq> [] then wl_UpholdCardID wallet
                              else wl_WalletAddress wallet);
               (resp, s2) = http \<lparr>uq_url = uphold_base cfg @ ''/v0/me/cards/'' @ rc_PublisherID cfg
                                    @ ''/transactions?commit=true'',
                                 uq_auth = Bearer token,
                                 uq_body = JObj [(''denomination'', JObj
                                     [(''amount'', JStr (fmt_fixed 8 (rw_AmountBAT reward))),
                                      (''currency'', JStr ''BAT'')]),
                                   (''destination'', JStr destination)]\<rparr> s1
           in (case uphold_field ''id'' resp of
                 Inl e \<Rightarrow> Inl (UpholdTx e)
               | Inr txID \<Rightarrow> Inr txID, s2)))"

section \<open>Choosing the method\<close>

record 's pay_env =
  pe_rpc :: "'s transport"
  pe_undef :: "string \<Rightarrow> int"
  pe_keccak :: "bytes \<Rightarrow> bytes"
  pe_sign :: "bytes \<Rightarrow> bytes \<Rightarrow> bytes"
  pe_http :: "'s uphold_http"

definition submitPayout ::
    "'s pay_env \<Rightarrow> rewards_config \<Rightarrow> pending_reward \<Rightarrow> wallet_registration \<Rightarrow> 's
     \<Rightarrow> (pay_error, string) result go \<times> 's" where
  "submitPayout env cfg reward wallet s =
     (if rc_UpholdClientID cfg \<noteq> [] \<and> rc_UpholdClientSecret cfg \<noteq> []
      then (let (r, s') = submitUpholdPayout (pe_http env) cfg reward wallet s in (Ret r, s'))
      else if rc_EthRPCURL cfg \<noteq> [] \<and> rc_EthPrivateKey cfg \<noteq> [] then
        (let toAddr = wl_WalletAddress wallet in
         if toAddr = [] then (Ret (Inl NoWalletAddress), s)
         else (case submitERC20Payout (pe_rpc env) (pe_undef env) (pe_keccak env) (pe_sign env)
                      \<lparr>rpcURL = rc_EthRPCURL cfg, privateKeyHex = rc_EthPrivateKey cfg,
                       ethWallet = rc_WalletAddress cfg, chainID = rc_EthChainID cfg\<rparr>
                      toAddr (rw_AmountBAT reward) s of
                 (Panic, s') \<Rightarrow> (Panic, s')
               | (Ret (Inl e), s') \<Rightarrow> (Ret (Inl (Erc20 e)), s')
               | (Ret (Inr txHash), s') \<Rightarrow> (Ret (Inr txHash), s')))
      else (Ret (Inl NoMethod), s))"

section \<open>The payout handler\<close>

text \<open>
  The outcomes of the database calls of one run: whether the queue and a user's wallet can be
  read, whether the \<^verbatim>\<open>UPDATE\<close> of a reward succeeds (its error is discarded), and the clock.
\<close>

record db_outcomes =
  do_queue :: bool
  do_wallet :: "string \<Rightarrow> bool"
  do_update :: "string \<Rightarrow> bool"
  do_now :: "string \<Rightarrow> int"

record 's payout_state =
  ps_total :: f64
  ps_paid :: "string list"
  ps_failed :: "string list"
  ps_db :: rewards_db
  ps_net :: 's

definition mark_reward :: "bool \<Rightarrow> string \<Rightarrow> (pending_reward \<Rightarrow> pending_reward) \<Rightarrow> rewards_db \<Rightarrow> rewards_db" where
  "mark_reward update_ok rid f db =
     (if update_ok then db\<lparr>db_rewards := tbl_update rw_ID rid f (db_rewards db)\<rparr> else db)"

text \<open>One turn of the loop; \<^const>\<open>True\<close> when the payout panicked.\<close>

definition payout_step ::
    "'s pay_env \<Rightarrow> rewards_config \<Rightarrow> db_outcomes \<Rightarrow> pending_reward \<Rightarrow> 's payout_state
     \<Rightarrow> 's payout_state \<times> bool" where
  "payout_step env cfg io reward st =
     (if rw_Status reward \<noteq> StPending then (st, False)
      else
        (let total = f64_add (ps_total st) (rw_AmountBAT reward); st = st\<lparr>ps_total := total\<rparr> in
         if f64_less total (rc_MinPayoutBAT cfg) then (st, False)
         else
           (let user = ev_Username (rw_Event reward); rid = rw_ID reward; now = do_now io rid in
            case loadWallet (do_wallet io user) user (ps_db st) of
              Inl _ \<Rightarrow> (st, False)
            | Inr wallet \<Rightarrow>
                (case submitPayout env cfg reward wallet (ps_net st) of
                   (Panic, s') \<Rightarrow> (st\<lparr>ps_net := s'\<rparr>, True)
                 | (Ret (Inl _), s') \<Rightarrow>
                     (st\<lparr>ps_net := s', ps_failed := ps_failed st @ [rid],
                         ps_db := mark_reward (do_update io rid) rid
                           (\<lambda>r. r\<lparr>rw_Status := StFailed, rw_PaidAt := Some now\<rparr>) (ps_db st)\<rparr>, False)
                 | (Ret (Inr txHash), s') \<Rightarrow>
                     (st\<lparr>ps_net := s', ps_paid := ps_paid st @ [rid],
                         ps_db := mark_reward (do_update io rid) rid
                           (\<lambda>r. r\<lparr>rw_Status := StPaid, rw_PaidAt := Some now, rw_TxHash := txHash\<rparr>)
                           (ps_db st)\<rparr>, False)))))"

fun payout_loop ::
    "'s pay_env \<Rightarrow> rewards_config \<Rightarrow> db_outcomes \<Rightarrow> pending_reward list \<Rightarrow> 's payout_state
     \<Rightarrow> 's payout_state \<times> bool" where
  "payout_loop env cfg io [] st = (st, False)"
| "payout_loop env cfg io (r # rs) st =
     (case payout_step env cfg io r st of
        (st', True) \<Rightarrow> (st', True)
      | (st', False) \<Rightarrow> payout_loop env cfg io rs st')"

text \<open>The response lists the paid and failed rewards and the total; a panic sends none.\<close>

datatype payout_response = PayoutError nat string | PayoutPanic | PayoutDone "string list" "string list" f64

definition handlePayout ::
    "'s pay_env \<Rightarrow> db_outcomes \<Rightarrow> http_method \<Rightarrow> rewards_service \<Rightarrow> 's
     \<Rightarrow> payout_response \<times> rewards_service \<times> 's" where
  "handlePayout env io meth sv s =
     (if meth \<noteq> POST then (PayoutError 405 ''method not allowed'', sv, s)
      else case loadPendingRewards (do_queue io) (sv_db sv) of
        Inl _ \<Rightarrow> (PayoutError 500 ''database error'', sv, s)
      | Inr pending \<Rightarrow>
          (let (st, panicked) = payout_loop env (sv_cfg sv) io pending
                 \<lparr>ps_total = f64_zero, ps_paid = [], ps_failed = [], ps_db = sv_db sv, ps_net = s\<rparr>
           in (if panicked then PayoutPanic else PayoutDone (ps_paid st) (ps_failed st) (ps_total st),
               sv\<lparr>sv_db := ps_db st\<rparr>, ps_net st)))"

section \<open>One turn of the loop\<close>

lemma payout_step_not_pending [simp]:
  "rw_Status r \<noteq> StPending \<Longrightarrow> payout_step env cfg io r st = (st, False)"
  by (simp add: payout_step_def)

lemma keys_mark_reward [simp]:
  assumes "\<And>r. rw_ID (f r) = rw_ID r"
  shows "map rw_ID (db_rewards (mark_reward b rid f db)) = map rw_ID (db_rewards db)"
  using assms by (simp add: mark_reward_def keys_tbl_update)

text \<open>What a turn can do: nothing to the lists and tables, or one id added and its row marked.\<close>

lemma payout_step_cases:
  assumes "payout_step env cfg io r st = (st', p)"
  obtains (skip) "ps_paid st' = ps_paid st" "ps_failed st' = ps_failed st" "ps_db st' = ps_db st"
  | (failed) now where "p = False" "rw_Status r = StPending"
      "ps_paid st' = ps_paid st" "ps_failed st' = ps_failed st @ [rw_ID r]"
      "ps_db st' = mark_reward (do_update io (rw_ID r)) (rw_ID r)
         (\<lambda>r. r\<lparr>rw_Status := StFailed, rw_PaidAt := Some now\<rparr>) (ps_db st)"
  | (paid) now tx where "p = False" "rw_Status r = StPending"
      "ps_failed st' = ps_failed st" "ps_paid st' = ps_paid st @ [rw_ID r]"
      "ps_db st' = mark_reward (do_update io (rw_ID r)) (rw_ID r)
         (\<lambda>r. r\<lparr>rw_Status := StPaid, rw_PaidAt := Some now, rw_TxHash := tx\<rparr>) (ps_db st)"
proof -
  show thesis
    using assms that unfolding payout_step_def Let_def
    by (force split: if_splits sum.splits go.splits prod.splits)
qed

lemma loadWallet_rewards [simp]:
  "loadWallet ok u (db\<lparr>db_rewards := x\<rparr>) = loadWallet ok u db"
  by (simp add: loadWallet_def)

lemma mark_reward_other [simp]:
  "db_wallets (mark_reward b rid f db) = db_wallets db"
  "db_settings (mark_reward b rid f db) = db_settings db"
  by (simp_all add: mark_reward_def)

lemma mark_reward_find:
  assumes "\<And>r. rw_ID (f r) = rw_ID r"
  shows "tbl_find rw_ID k (db_rewards (mark_reward b rid f db)) =
    (if b \<and> k = rid then map_option f (tbl_find rw_ID rid (db_rewards db))
     else tbl_find rw_ID k (db_rewards db))"
  using assms by (simp add: mark_reward_def tbl_find_update)

section \<open>The whole loop\<close>

definition pending_ids :: "pending_reward list \<Rightarrow> string list" where
  "pending_ids rs = map rw_ID (filter (\<lambda>r. rw_Status r = StPending) rs)"

definition status_of :: "string \<Rightarrow> rewards_db \<Rightarrow> reward_status option" where
  "status_of k db = map_option rw_Status (tbl_find rw_ID k (db_rewards db))"

text \<open>
  The effect of a run from \<open>st\<close> to \<open>st'\<close> over the rows \<open>rs\<close>: the ids it adds to the two lists
  are pending ids of \<open>rs\<close>, no id twice; a row outside them is untouched; a row whose update
  succeeded has the new status.
\<close>

definition run_effect ::
    "db_outcomes \<Rightarrow> pending_reward list \<Rightarrow> 's payout_state \<Rightarrow> 's payout_state
     \<Rightarrow> string list \<Rightarrow> string list \<Rightarrow> bool" where
  "run_effect io rs st st' P F \<longleftrightarrow>
     ps_paid st' = ps_paid st @ P \<and> ps_failed st' = ps_failed st @ F
     \<and> distinct (P @ F) \<and> set P \<union> set F \<subseteq> set (pending_ids rs)
     \<and> db_wallets (ps_db st') = db_wallets (ps_db st) \<and> db_settings (ps_db st') = db_settings (ps_db st)
     \<and> map rw_ID (db_rewards (ps_db st')) = map rw_ID (db_rewards (ps_db st))
     \<and> (\<forall>k. k \<notin> set P \<union> set F \<longrightarrow> tbl_find rw_ID k (db_rewards (ps_db st')) = tbl_find rw_ID k (db_rewards (ps_db st)))
     \<and> (\<forall>k \<in> set P. do_update io k \<longrightarrow> status_of k (ps_db st') = map_option (\<lambda>_. StPaid) (status_of k (ps_db st)))
     \<and> (\<forall>k \<in> set F. do_update io k \<longrightarrow> status_of k (ps_db st') = map_option (\<lambda>_. StFailed) (status_of k (ps_db st)))
     \<and> (\<forall>k \<in> set P \<union> set F. \<not> do_update io k \<longrightarrow> status_of k (ps_db st') = status_of k (ps_db st))"

lemma run_effect_refl: "run_effect io rs st st [] []"
  by (simp add: run_effect_def)

lemma payout_step_effect:
  assumes "payout_step env cfg io r st = (st', p)"
  shows "\<exists>P F. run_effect io [r] st st' P F"
  using assms
proof (cases rule: payout_step_cases)
  case skip
  then have "run_effect io [r] st st' [] []" by (simp add: run_effect_def)
  then show ?thesis by blast
next
  case (failed now)
  then have "run_effect io [r] st st' [] [rw_ID r]"
    by (simp add: run_effect_def pending_ids_def status_of_def mark_reward_find option.map_comp comp_def)
  then show ?thesis by blast
next
  case (paid now tx)
  then have "run_effect io [r] st st' [rw_ID r] []"
    by (simp add: run_effect_def pending_ids_def status_of_def mark_reward_find option.map_comp comp_def)
  then show ?thesis by blast
qed

lemma pending_ids_Cons: "set (pending_ids (r # rs)) = set (pending_ids [r]) \<union> set (pending_ids rs)"
  by (auto simp: pending_ids_def)

lemma pending_ids_sub: "set (pending_ids rs) \<subseteq> rw_ID ` set rs"
  by (auto simp: pending_ids_def)

lemma run_effect_trans:
  assumes a: "run_effect io [r] st st1 P F" and b: "run_effect io rs st1 st2 P' F'"
    and d: "rw_ID r \<notin> rw_ID ` set rs"
  shows "run_effect io (r # rs) st st2 (P @ P') (F @ F')"
proof -
  have disj: "(set P \<union> set F) \<inter> (set P' \<union> set F') = {}"
  proof -
    have "set P \<union> set F \<subseteq> {rw_ID r}"
      using a pending_ids_sub [of "[r]"] unfolding run_effect_def by auto
    moreover have "set P' \<union> set F' \<subseteq> rw_ID ` set rs"
      using b pending_ids_sub [of rs] unfolding run_effect_def by blast
    ultimately show ?thesis using d by blast
  qed
  have old: "status_of k (ps_db st1) = status_of k (ps_db st)" if "k \<notin> set P \<union> set F" for k
    using a that by (simp add: run_effect_def status_of_def)
  have new: "status_of k (ps_db st2) = status_of k (ps_db st1)" if "k \<notin> set P' \<union> set F'" for k
    using b that by (simp add: run_effect_def status_of_def)
  have kP: "k \<notin> set P' \<union> set F'" if "k \<in> set P \<union> set F" for k using disj that by auto
  have kP': "k \<notin> set P \<union> set F" if "k \<in> set P' \<union> set F'" for k using disj that by auto
  have aP: "status_of k (ps_db st1) = map_option (\<lambda>_. StPaid) (status_of k (ps_db st))"
    if "k \<in> set P" "do_update io k" for k using a that by (simp add: run_effect_def)
  have aF: "status_of k (ps_db st1) = map_option (\<lambda>_. StFailed) (status_of k (ps_db st))"
    if "k \<in> set F" "do_update io k" for k using a that by (simp add: run_effect_def)
  have aN: "status_of k (ps_db st1) = status_of k (ps_db st)"
    if "k \<in> set P \<union> set F" "\<not> do_update io k" for k using a that by (simp add: run_effect_def)
  have bP: "status_of k (ps_db st2) = map_option (\<lambda>_. StPaid) (status_of k (ps_db st1))"
    if "k \<in> set P'" "do_update io k" for k using b that by (simp add: run_effect_def)
  have bF: "status_of k (ps_db st2) = map_option (\<lambda>_. StFailed) (status_of k (ps_db st1))"
    if "k \<in> set F'" "do_update io k" for k using b that by (simp add: run_effect_def)
  have bN: "status_of k (ps_db st2) = status_of k (ps_db st1)"
    if "k \<in> set P' \<union> set F'" "\<not> do_update io k" for k using b that by (simp add: run_effect_def)
  have D: "distinct (P @ F)" "distinct (P' @ F')" and S: "set P \<union> set F \<subseteq> set (pending_ids [r])"
    "set P' \<union> set F' \<subseteq> set (pending_ids rs)"
    using a b by (simp_all add: run_effect_def)
  have Q: "distinct ((P @ P') @ (F @ F'))" using D disj by auto
  have T: "set (P @ P') \<union> set (F @ F') \<subseteq> set (pending_ids (r # rs))"
    using S unfolding pending_ids_Cons [of r rs] by auto
  have U: "status_of k (ps_db st2) = map_option (\<lambda>_. StPaid) (status_of k (ps_db st))"
    if "k \<in> set (P @ P')" "do_update io k" for k
    using that aP [of k] bP [of k] old [of k] new [of k] kP [of k] kP' [of k] by (cases "k \<in> set P") auto
  have V: "status_of k (ps_db st2) = map_option (\<lambda>_. StFailed) (status_of k (ps_db st))"
    if "k \<in> set (F @ F')" "do_update io k" for k
    using that aF [of k] bF [of k] old [of k] new [of k] kP [of k] kP' [of k] by (cases "k \<in> set F") auto
  have W: "status_of k (ps_db st2) = status_of k (ps_db st)"
    if "k \<in> set (P @ P') \<union> set (F @ F')" "\<not> do_update io k" for k
  proof (cases "k \<in> set P \<union> set F")
    case True
    show ?thesis using new [OF kP [OF True]] aN [OF True that(2)] by simp
  next
    case False
    with that have k: "k \<in> set P' \<union> set F'" by auto
    show ?thesis using bN [OF k that(2)] old [OF False] by simp
  qed
  have X: "ps_paid st2 = ps_paid st @ (P @ P')" "ps_failed st2 = ps_failed st @ (F @ F')"
    "db_wallets (ps_db st2) = db_wallets (ps_db st)" "db_settings (ps_db st2) = db_settings (ps_db st)"
    "map rw_ID (db_rewards (ps_db st2)) = map rw_ID (db_rewards (ps_db st))"
    "\<And>k. k \<notin> set (P @ P') \<union> set (F @ F') \<Longrightarrow>
      tbl_find rw_ID k (db_rewards (ps_db st2)) = tbl_find rw_ID k (db_rewards (ps_db st))"
    using a b by (simp_all add: run_effect_def)
  show ?thesis
    unfolding run_effect_def
    by (intro conjI ballI allI impI) (fact Q T X | erule (1) U V W | erule X)+
qed

lemma run_effect_weaken:
  "run_effect io [r] st st' P F \<Longrightarrow> run_effect io (r # rs) st st' P F"
  unfolding run_effect_def pending_ids_Cons [of r rs] by auto

lemma payout_loop_effect:
  assumes "payout_loop env cfg io rs st = (st', p)" "distinct (map rw_ID rs)"
  shows "\<exists>P F. run_effect io rs st st' P F"
  using assms
proof (induction rs arbitrary: st)
  case Nil
  then have "run_effect io [] st st' [] []" by (simp add: run_effect_def)
  then show ?case by blast
next
  case (Cons r rs)
  obtain st1 q where s: "payout_step env cfg io r st = (st1, q)" by fastforce
  from payout_step_effect [OF s] obtain P F where e: "run_effect io [r] st st1 P F" by blast
  show ?case
  proof (cases q)
    case True
    with s Cons.prems have "st' = st1" by simp
    with e show ?thesis using run_effect_weaken by blast
  next
    case False
    with s Cons.prems have run: "payout_loop env cfg io rs st1 = (st', p)" by simp
    have "distinct (map rw_ID rs)" using Cons.prems by simp
    from Cons.IH [OF run this] obtain P' F' where e': "run_effect io rs st1 st' P' F'" by blast
    have "rw_ID r \<notin> rw_ID ` set rs" using Cons.prems by auto
    from run_effect_trans [OF e e' this] show ?thesis by blast
  qed
qed

section \<open>The threshold\<close>

definition queue_total :: "pending_reward list \<Rightarrow> f64 \<Rightarrow> f64" where
  "queue_total rs t = fold (\<lambda>r t. if rw_Status r = StPending then f64_add t (rw_AmountBAT r) else t) rs t"

lemma payout_step_total:
  "payout_step env cfg io r st = (st', p) \<Longrightarrow> ps_total st' = queue_total [r] (ps_total st)"
  unfolding payout_step_def Let_def queue_total_def
  by (auto split: if_splits sum.splits go.splits prod.splits)

lemma payout_step_below:
  assumes "payout_step env cfg io r st = (st', p)"
    and "rw_Status r = StPending \<longrightarrow> f64_less (queue_total [r] (ps_total st)) (rc_MinPayoutBAT cfg)"
  shows "ps_paid st' = ps_paid st \<and> ps_failed st' = ps_failed st \<and> ps_db st' = ps_db st"
  using assms unfolding payout_step_def Let_def queue_total_def
  by (auto split: if_splits)

text \<open>A reward at which the running total is still below the minimum is left out of the run.\<close>

lemma payout_loop_below:
  assumes run: "payout_loop env cfg io (xs @ r # ys) st = (st', p)"
    and d: "distinct (map rw_ID (xs @ r # ys))"
    and below: "f64_less (queue_total (xs @ [r]) (ps_total st)) (rc_MinPayoutBAT cfg)"
    and new: "rw_ID r \<notin> set (ps_paid st) \<union> set (ps_failed st)"
  shows "rw_ID r \<notin> set (ps_paid st') \<union> set (ps_failed st')
    \<and> tbl_find rw_ID (rw_ID r) (db_rewards (ps_db st')) = tbl_find rw_ID (rw_ID r) (db_rewards (ps_db st))"
  using assms
proof (induction xs arbitrary: st)
  case Nil
  obtain st1 q where s: "payout_step env cfg io r st = (st1, q)" by fastforce
  have e: "ps_paid st1 = ps_paid st \<and> ps_failed st1 = ps_failed st \<and> ps_db st1 = ps_db st"
    using payout_step_below [OF s] Nil.prems(3) by simp
  show ?case
  proof (cases q)
    case True
    with s Nil.prems e show ?thesis by simp
  next
    case False
    with s Nil.prems have run: "payout_loop env cfg io ys st1 = (st', p)" by simp
    have "distinct (map rw_ID ys)" using Nil.prems by simp
    from payout_loop_effect [OF run this] obtain P F where "run_effect io ys st1 st' P F" by blast
    moreover have "rw_ID r \<notin> set (pending_ids ys)"
      using Nil.prems(2) pending_ids_sub [of ys] by auto
    ultimately show ?thesis using e Nil.prems(4) unfolding run_effect_def by auto
  qed
next
  case (Cons x xs)
  obtain st1 q where s: "payout_step env cfg io x st = (st1, q)" by fastforce
  from payout_step_effect [OF s] obtain P F where e: "run_effect io [x] st st1 P F" by blast
  have ne: "rw_ID r \<noteq> rw_ID x" using Cons.prems(2) by auto
  have r: "rw_ID r \<notin> set P \<union> set F"
    using e ne pending_ids_sub [of "[x]"] unfolding run_effect_def by auto
  have keep: "rw_ID r \<notin> set (ps_paid st1) \<union> set (ps_failed st1)"
    "tbl_find rw_ID (rw_ID r) (db_rewards (ps_db st1)) = tbl_find rw_ID (rw_ID r) (db_rewards (ps_db st))"
    using e r Cons.prems(4) unfolding run_effect_def by auto
  show ?case
  proof (cases q)
    case True
    with s Cons.prems have "st' = st1" by simp
    with keep show ?thesis by simp
  next
    case False
    with s Cons.prems have run: "payout_loop env cfg io (xs @ r # ys) st1 = (st', p)" by simp
    have "queue_total ((x # xs) @ [r]) (ps_total st) = queue_total (xs @ [r]) (ps_total st1)"
      using payout_step_total [OF s] by (simp add: queue_total_def)
    with Cons.prems have "f64_less (queue_total (xs @ [r]) (ps_total st1)) (rc_MinPayoutBAT cfg)" by simp
    with Cons.IH [OF run] Cons.prems(2) keep show ?thesis by simp
  qed
qed

end
