(* ===== verification/RewardsProps.thy ===== *)
theory RewardsProps
  imports RewardsPayout
begin

text \<open>
  The properties of the rewards service. The service's tables are instances of the interface
  \<open>keyed_table\<close>; a step relation of the handlers carries the invariant of the whole service.
\<close>

interpretation rewards_tbl: keyed_table rw_ID "tbl_upsert rw_ID" "tbl_delete rw_ID" "tbl_find rw_ID" "tbl_ok rw_ID"
  by (rule tbl_keyed)

interpretation wallets_tbl: keyed_table wl_Username "tbl_upsert wl_Username" "tbl_delete wl_Username"
    "tbl_find wl_Username" "tbl_ok wl_Username"
  by (rule tbl_keyed)

interpretation settings_tbl: keyed_table "fst :: string \<times> json \<Rightarrow> string" "tbl_upsert fst" "tbl_delete fst" "tbl_find fst" "tbl_ok fst"
  by (rule tbl_keyed)

section \<open>Concrete inputs for the witnesses\<close>

definition demo_cfg :: rewards_config where
  "demo_cfg = \<lparr>rc_Enabled = True, rc_PublisherID = ''pub'', rc_WalletAddress = ''0x1'', rc_UpholdClientID = ''id'',
     rc_UpholdClientSecret = ''sec'', rc_MinPayoutBAT = Fin 2 0, rc_ListenAddr = ''l'', rc_WebhookSecret = ''s3'',
     rc_DBPath = ''d'', rc_BandwidthAddr = [], rc_EthRPCURL = [], rc_EthPrivateKey = [], rc_EthChainID = 0,
     rc_UpholdAPIBase = []\<rparr>"

definition demo_event :: "int \<Rightarrow> contribution_event" where
  "demo_event n = \<lparr>ev_Type = ''issue'', ev_ProjectID = 0, ev_ProjectPath = [], ev_Username = ''bob'',
     ev_Email = [], ev_ObjectID = n\<rparr>"

definition demo_reward :: "int \<Rightarrow> pending_reward" where
  "demo_reward n = \<lparr>rw_ID = reward_id (demo_event n), rw_Event = demo_event n, rw_AmountBAT = Fin 1 0,
     rw_QueuedAt = n, rw_PaidAt = None, rw_TxHash = [], rw_Status = StPending\<rparr>"

definition demo_db :: rewards_db where
  "demo_db = \<lparr>db_wallets = [\<lparr>wl_Username = ''bob'', wl_WalletAddress = ''0x2'', wl_RegisteredAt = 0, wl_UpholdCardID = []\<rparr>],
     db_rewards = [demo_reward 1, demo_reward 2], db_settings = []\<rparr>"

definition demo_sv :: rewards_service where
  "demo_sv = \<lparr>sv_cfg = demo_cfg, sv_rates = DefaultRewardRates, sv_db = demo_db\<rparr>"

definition demo_env :: "unit pay_env" where
  "demo_env = \<lparr>pe_rpc = (\<lambda>u r s. (Inl ''down'', s)), pe_undef = (\<lambda>_. 0), pe_keccak = (\<lambda>b. b), pe_sign = (\<lambda>k h. []),
     pe_http = (\<lambda>rq s. (Inr (200, Some (Some [(''access_token'', JStr ''t''), (''id'', JStr ''tx'')])), s))\<rparr>"

definition demo_io :: db_outcomes where
  "demo_io = \<lparr>do_queue = True, do_wallet = (\<lambda>_. True), do_update = (\<lambda>_. True), do_now = (\<lambda>_. 9)\<rparr>"

lemma demo_submit: "submitPayout demo_env demo_cfg r w () = (Ret (Inr ''tx''), ())"
  by (simp add: submitPayout_def demo_cfg_def submitUpholdPayout_def upholdToken_def demo_env_def
      uphold_field_def jget_def Let_def)

lemma demo_ids: "reward_id (demo_event 1) = ''issue-0-1''" "reward_id (demo_event 2) = ''issue-0-2''"
  by code_simp+

lemma demo_total: "f64_add (Fin 0 0) (Fin 1 0) = Fin 1 0" "f64_add (Fin 1 0) (Fin 1 0) = Fin 2 0"
  by code_simp+

lemma demo_fields [simp]:
  "rc_MinPayoutBAT demo_cfg = Fin 2 0" "ev_Username (demo_event n) = ''bob''"
  "rw_Status (demo_reward n) = StPending" "rw_AmountBAT (demo_reward n) = Fin 1 0"
  "rw_ID (demo_reward n) = reward_id (demo_event n)" "rw_Event (demo_reward n) = demo_event n"
  "sv_cfg demo_sv = demo_cfg" "sv_db demo_sv = demo_db" "rw_QueuedAt (demo_reward n) = n"
  by (simp_all add: demo_cfg_def demo_event_def demo_reward_def demo_sv_def)

lemma demo_keys: "tbl_ok rw_ID (db_rewards demo_db)"
  by (simp add: tbl_ok_def demo_db_def demo_ids)

lemma demo_load: "loadPendingRewards True demo_db = Inr [demo_reward 1, demo_reward 2]"
  by (simp add: loadPendingRewards_def demo_db_def)

lemma demo_less: "f64_less (Fin 1 0) (Fin 2 0)" "\<not> f64_less (Fin 2 0) (Fin 2 0)"
  by code_simp+

text \<open>The first reward stays below the minimum of 2 BAT and is passed over; the second is paid.\<close>

lemma demo_loop:
  "payout_loop demo_env demo_cfg demo_io [demo_reward 1, demo_reward 2]
     \<lparr>ps_total = f64_zero, ps_paid = [], ps_failed = [], ps_db = demo_db, ps_net = ()\<rparr>
   = (\<lparr>ps_total = Fin 2 0, ps_paid = [''issue-0-2''], ps_failed = [],
       ps_db = demo_db\<lparr>db_rewards := [demo_reward 1,
         demo_reward 2\<lparr>rw_Status := StPaid, rw_PaidAt := Some 9, rw_TxHash := ''tx''\<rparr>]\<rparr>, ps_net = ()\<rparr>, False)"
proof -
  have w': "loadWallet True ''bob'' demo_db = Inr \<lparr>wl_Username = ''bob'', wl_WalletAddress = ''0x2'', wl_RegisteredAt = 0, wl_UpholdCardID = []\<rparr>"
    by (simp add: loadWallet_def tbl_find_def demo_db_def)
  show ?thesis
    by (simp add: payout_step_def demo_total demo_less w' demo_submit demo_io_def mark_reward_def demo_ids
        Let_def tbl_update_def del: f64_add.simps f64_less.simps)
      (simp add: demo_db_def demo_ids)
qed

section \<open>What a payout run does\<close>

definition payout_start :: "rewards_db \<Rightarrow> 's \<Rightarrow> 's payout_state" where
  "payout_start db s = \<lparr>ps_total = f64_zero, ps_paid = [], ps_failed = [], ps_db = db, ps_net = s\<rparr>"

lemma payout_start_simps [simp]:
  "ps_paid (payout_start db s) = []" "ps_failed (payout_start db s) = []"
  "ps_db (payout_start db s) = db" "ps_total (payout_start db s) = f64_zero" "ps_net (payout_start db s) = s"
  by (simp_all add: payout_start_def)

lemma sorted_queue_ids: "tbl_ok rw_ID rs \<Longrightarrow> distinct (map rw_ID (sort_key rw_QueuedAt rs))"
  by (simp add: tbl_ok_def distinct_map)

lemma pending_id_status:
  assumes "tbl_ok rw_ID (db_rewards db)" "k \<in> set (pending_ids (sort_key rw_QueuedAt (db_rewards db)))"
  shows "status_of k db = Some StPending"
proof -
  from assms(2) obtain r where r: "r \<in> set (db_rewards db)" "rw_ID r = k" "rw_Status r = StPending"
    by (auto simp: pending_ids_def)
  with assms(1) have "tbl_find rw_ID k (db_rewards db) = Some r" by (simp add: tbl_find_iff)
  with r show ?thesis by (simp add: status_of_def)
qed

text \<open>A run in terms of the tables, whether it ends or panics.\<close>

definition payout_run :: "'s pay_env \<Rightarrow> db_outcomes \<Rightarrow> rewards_service \<Rightarrow> 's \<Rightarrow> 's payout_state \<times> bool" where
  "payout_run env io sv s = payout_loop env (sv_cfg sv) io
     (if do_queue io then sort_key rw_QueuedAt (db_rewards (sv_db sv)) else []) (payout_start (sv_db sv) s)"

lemma handlePayout_run:
  "handlePayout env io POST sv s = (resp, sv', s') \<Longrightarrow> sv' = sv\<lparr>sv_db := ps_db (fst (payout_run env io sv s))\<rparr>
    \<and> s' = ps_net (fst (payout_run env io sv s))"
  unfolding handlePayout_def loadPendingRewards_def payout_start_def payout_run_def
  by (auto split: if_splits sum.splits prod.splits)

lemma handlePayout_Done:
  assumes "handlePayout env io meth sv s = (PayoutDone P F t, sv', s')"
  shows "meth = POST" "P = ps_paid (fst (payout_run env io sv s))" "F = ps_failed (fst (payout_run env io sv s))"
  using assms unfolding handlePayout_def loadPendingRewards_def payout_start_def payout_run_def
  by (auto split: if_splits sum.splits prod.splits)

lemma payout_run_facts:
  assumes "payout_run env io sv s = (st, p)" "tbl_ok rw_ID (db_rewards (sv_db sv))"
  defines "P \<equiv> ps_paid st" and "F \<equiv> ps_failed st"
  shows "distinct (P @ F)" "\<forall>k \<in> set P \<union> set F. status_of k (sv_db sv) = Some StPending"
    "\<forall>k \<in> set P. do_update io k \<longrightarrow> status_of k (ps_db st) = Some StPaid"
    "\<forall>k \<in> set F. do_update io k \<longrightarrow> status_of k (ps_db st) = Some StFailed"
    "\<forall>k. k \<notin> set P \<union> set F \<longrightarrow> tbl_find rw_ID k (db_rewards (ps_db st)) = tbl_find rw_ID k (db_rewards (sv_db sv))"
    "db_wallets (ps_db st) = db_wallets (sv_db sv)" "db_settings (ps_db st) = db_settings (sv_db sv)"
    "tbl_ok rw_ID (db_rewards (ps_db st))"
proof -
  let ?q = "if do_queue io then sort_key rw_QueuedAt (db_rewards (sv_db sv)) else []"
  have ids: "distinct (map rw_ID ?q)" using sorted_queue_ids [OF assms(2)] by simp
  from payout_loop_effect [OF assms(1) [unfolded payout_run_def] ids]
  have e: "run_effect io ?q (payout_start (sv_db sv) s) st P F"
    unfolding run_effect_def P_def F_def by auto
  have pend: "status_of k (sv_db sv) = Some StPending" if "k \<in> set P \<union> set F" for k
    by (rule pending_id_status [OF assms(2)])
      (use e that in \<open>auto simp: run_effect_def pending_ids_def split: if_splits\<close>)
  then show "\<forall>k \<in> set P \<union> set F. status_of k (sv_db sv) = Some StPending" by blast
  show "distinct (P @ F)" using e by (simp add: run_effect_def)
  show "\<forall>k \<in> set P. do_update io k \<longrightarrow> status_of k (ps_db st) = Some StPaid"
    using e pend by (simp add: run_effect_def)
  show "\<forall>k \<in> set F. do_update io k \<longrightarrow> status_of k (ps_db st) = Some StFailed"
    using e pend by (simp add: run_effect_def)
  show "\<forall>k. k \<notin> set P \<union> set F \<longrightarrow> tbl_find rw_ID k (db_rewards (ps_db st)) = tbl_find rw_ID k (db_rewards (sv_db sv))"
    using e by (simp add: run_effect_def)
  show "db_wallets (ps_db st) = db_wallets (sv_db sv)" "db_settings (ps_db st) = db_settings (sv_db sv)"
    using e by (simp_all add: run_effect_def)
  show "tbl_ok rw_ID (db_rewards (ps_db st))"
    using e assms(2) by (simp add: run_effect_def tbl_ok_def)
qed

lemma demo_handlePayout:
  "handlePayout demo_env demo_io POST demo_sv () =
    (PayoutDone [''issue-0-2''] [] (Fin 2 0),
     demo_sv\<lparr>sv_db := demo_db\<lparr>db_rewards := [demo_reward 1,
         demo_reward 2\<lparr>rw_Status := StPaid, rw_PaidAt := Some 9, rw_TxHash := ''tx''\<rparr>]\<rparr>\<rparr>, ())"
proof -
  have q: "do_queue demo_io" by (simp add: demo_io_def)
  show ?thesis by (simp add: handlePayout_def q demo_load demo_loop del: payout_loop.simps)
qed

section \<open>Properties of the payout handler\<close>

text \<open>
  C1. A payout run that answers lists distinct rewards, each of them pending before the run. A
  paid (failed) reward is marked paid (failed) when its database update succeeds, every other
  row is left exactly as it was, and wallets, settings, rates and configuration do not change.
\<close>

theorem payout_marks_pending:
  assumes "handlePayout env io POST sv s = (PayoutDone P F t, sv', s')" "tbl_ok rw_ID (db_rewards (sv_db sv))"
  shows "distinct (P @ F) \<and> (\<forall>k \<in> set P \<union> set F. status_of k (sv_db sv) = Some StPending)
    \<and> (\<forall>k \<in> set P. do_update io k \<longrightarrow> status_of k (sv_db sv') = Some StPaid)
    \<and> (\<forall>k \<in> set F. do_update io k \<longrightarrow> status_of k (sv_db sv') = Some StFailed)
    \<and> (\<forall>k. k \<notin> set P \<union> set F \<longrightarrow>
        tbl_find rw_ID k (db_rewards (sv_db sv')) = tbl_find rw_ID k (db_rewards (sv_db sv)))
    \<and> db_wallets (sv_db sv') = db_wallets (sv_db sv) \<and> db_settings (sv_db sv') = db_settings (sv_db sv)
    \<and> sv_cfg sv' = sv_cfg sv \<and> sv_rates sv' = sv_rates sv"
proof -
  obtain st p where run: "payout_run env io sv s = (st, p)" by fastforce
  have "P = ps_paid st" "F = ps_failed st" "sv' = sv\<lparr>sv_db := ps_db st\<rparr>"
    using handlePayout_Done [OF assms(1)] handlePayout_run [OF assms(1)] run by auto
  then show ?thesis using payout_run_facts [OF run assms(2)] by simp
qed

theorem payout_marks_pending_witness:
  "status_of ''issue-0-2'' (demo_db\<lparr>db_rewards := [demo_reward 1,
     demo_reward 2\<lparr>rw_Status := StPaid, rw_PaidAt := Some 9, rw_TxHash := ''tx''\<rparr>]\<rparr>) = Some StPaid"
  using payout_marks_pending [OF demo_handlePayout] demo_keys by (simp add: demo_io_def)

text \<open>The rewards a sequence of runs attempts to pay, one run after the other.\<close>

fun payout_history :: "'s pay_env \<Rightarrow> db_outcomes list \<Rightarrow> rewards_service \<Rightarrow> 's \<Rightarrow> string list" where
  "payout_history env [] sv s = []"
| "payout_history env (io # ios) sv s =
     (let st = fst (payout_run env io sv s); (resp, sv', s') = handlePayout env io POST sv s
      in ps_paid st @ ps_failed st @ payout_history env ios sv' s')"

lemma payout_history_fresh:
  assumes "\<forall>io \<in> set ios. \<forall>k. do_update io k" "tbl_ok rw_ID (db_rewards (sv_db sv))"
  shows "distinct (payout_history env ios sv s)
    \<and> (\<forall>k \<in> set (payout_history env ios sv s). status_of k (sv_db sv) = Some StPending)"
  using assms
proof (induction ios arbitrary: sv s)
  case Nil
  then show ?case by simp
next
  case (Cons io ios)
  obtain st p where run: "payout_run env io sv s = (st, p)" by fastforce
  obtain resp sv' s' where h: "handlePayout env io POST sv s = (resp, sv', s')" by (metis prod_cases3)
  have sv': "sv_db sv' = ps_db st" using handlePayout_run [OF h] run by simp
  note facts = payout_run_facts [OF run Cons.prems(2)]
  let ?H = "payout_history env ios sv' s'"
  let ?A = "set (ps_paid st) \<union> set (ps_failed st)"
  have ih: "distinct ?H" "\<And>k. k \<in> set ?H \<Longrightarrow> status_of k (ps_db st) = Some StPending"
    using Cons.IH [of sv' s'] facts(8) Cons.prems(1) by (auto simp: sv')
  have "status_of k (ps_db st) \<noteq> Some StPending" if "k \<in> ?A" for k
    using facts(3,4) Cons.prems(1) that by auto
  then have new: "k \<notin> ?A" if "k \<in> set ?H" for k using ih(2) that by blast
  then have old: "status_of k (sv_db sv) = Some StPending" if "k \<in> set ?H" for k
    using facts(5) ih(2) [OF that] that by (auto simp: status_of_def)
  have "payout_history env (io # ios) sv s = ps_paid st @ ps_failed st @ ?H" using h run by simp
  then show ?case using facts(1,2) ih(1) new old by auto
qed

text \<open>
  C2. Over any sequence of payout runs, one after the other, whose status updates all reach the
  database, no reward is attempted twice: each is paid or failed at most once.
\<close>

theorem payout_at_most_once:
  assumes "\<forall>io \<in> set ios. \<forall>k. do_update io k" "tbl_ok rw_ID (db_rewards (sv_db sv))"
  shows "distinct (payout_history env ios sv s)"
  using assms by (simp add: payout_history_fresh)

theorem payout_at_most_once_witness: "distinct (payout_history demo_env [demo_io, demo_io] demo_sv ())"
  by (rule payout_at_most_once) (simp_all add: demo_io_def demo_keys)

text \<open>On a transport without state, a run's decisions depend on the queue and the wallets only.\<close>

lemma payout_step_same_wallets:
  fixes env :: "unit pay_env"
  assumes "payout_step env cfg io r st = (st1, p1)" "payout_step env cfg io r st' = (st2, p2)"
    and "ps_total st = ps_total st'" "ps_paid st = ps_paid st'" "ps_failed st = ps_failed st'"
    and "db_wallets (ps_db st) = db_wallets (ps_db st')"
  shows "p1 = p2 \<and> ps_total st1 = ps_total st2 \<and> ps_paid st1 = ps_paid st2 \<and> ps_failed st1 = ps_failed st2
    \<and> db_wallets (ps_db st1) = db_wallets (ps_db st2)"
proof -
  have w: "loadWallet ok u (ps_db st) = loadWallet ok u (ps_db st')" for ok u
    using assms(6) by (simp add: loadWallet_def)
  show ?thesis
    using assms unfolding payout_step_def Let_def
    by (auto simp: w split: if_splits sum.splits go.splits prod.splits)
qed

lemma payout_loop_same_wallets:
  fixes env :: "unit pay_env"
  assumes "payout_loop env cfg io rs st = (st1, p1)" "payout_loop env cfg io rs st' = (st2, p2)"
    and "ps_total st = ps_total st'" "ps_paid st = ps_paid st'" "ps_failed st = ps_failed st'"
    and "db_wallets (ps_db st) = db_wallets (ps_db st')"
  shows "p1 = p2 \<and> ps_total st1 = ps_total st2 \<and> ps_paid st1 = ps_paid st2 \<and> ps_failed st1 = ps_failed st2"
  using assms
proof (induction rs arbitrary: st st')
  case Nil
  then show ?case by simp
next
  case (Cons r rs)
  obtain u q where u: "payout_step env cfg io r st = (u, q)" by fastforce
  obtain u' q' where u': "payout_step env cfg io r st' = (u', q')" by fastforce
  note same = payout_step_same_wallets [OF u u' Cons.prems(3-6)]
  show ?case
  proof (cases q)
    case True
    with same u u' Cons.prems show ?thesis by simp
  next
    case False
    with same u u' Cons.prems(1,2)
    have "payout_loop env cfg io rs u = (st1, p1)" "payout_loop env cfg io rs u' = (st2, p2)" by simp_all
    from Cons.IH [OF this] same show ?thesis by simp
  qed
qed

text \<open>
  The minimum is compared with the running total of the queue, not with a user's balance: a
  reward at which the total (the oldest pending rewards up to and including it) is still below
  the minimum is neither paid nor marked, however large the rest of the queue is.
\<close>

theorem payout_below_minimum:
  assumes "handlePayout env io POST sv s = (resp, sv', s')" "tbl_ok rw_ID (db_rewards (sv_db sv))"
    and "sort_key rw_QueuedAt (db_rewards (sv_db sv)) = xs @ r # ys"
    and "f64_less (queue_total (xs @ [r]) f64_zero) (rc_MinPayoutBAT (sv_cfg sv))"
  shows "tbl_find rw_ID (rw_ID r) (db_rewards (sv_db sv')) = Some r
    \<and> (\<forall>P F t. resp = PayoutDone P F t \<longrightarrow> rw_ID r \<notin> set P \<union> set F)"
proof (cases "do_queue io")
  case False
  with assms have "sv' = sv" "\<exists>c m. resp = PayoutError c m"
    by (auto simp: handlePayout_def loadPendingRewards_def)
  moreover have "r \<in> set (db_rewards (sv_db sv))"
    using arg_cong [OF assms(3), of set] by auto
  ultimately show ?thesis using assms(2) by (auto simp: tbl_find_iff)
next
  case True
  obtain st p where run: "payout_run env io sv s = (st, p)" by fastforce
  with True assms(3) have loop: "payout_loop env (sv_cfg sv) io (xs @ r # ys) (payout_start (sv_db sv) s) = (st, p)"
    by (simp add: payout_run_def)
  have d: "distinct (map rw_ID (xs @ r # ys))" using sorted_queue_ids [OF assms(2)] assms(3) by simp
  have r: "r \<in> set (db_rewards (sv_db sv))"
    using arg_cong [OF assms(3), of set] by auto
  have "rw_ID r \<notin> set (ps_paid st) \<union> set (ps_failed st)
    \<and> tbl_find rw_ID (rw_ID r) (db_rewards (ps_db st)) = tbl_find rw_ID (rw_ID r) (db_rewards (sv_db sv))"
    using payout_loop_below [OF loop d] assms(4) by simp
  moreover have "tbl_find rw_ID (rw_ID r) (db_rewards (sv_db sv)) = Some r"
    using assms(2) r by (simp add: tbl_find_iff)
  moreover have "sv_db sv' = ps_db st" using handlePayout_run [OF assms(1)] run by simp
  moreover have "P = ps_paid st \<and> F = ps_failed st" if "resp = PayoutDone P F t" for P F t
    using handlePayout_Done [OF assms(1) [unfolded that]] run by simp
  ultimately show ?thesis by auto
qed

theorem payout_below_minimum_witness:
  "tbl_find rw_ID ''issue-0-1'' (db_rewards (sv_db (fst (snd (handlePayout demo_env demo_io POST demo_sv ())))))
    = Some (demo_reward 1)"
proof -
  have "queue_total ([] @ [demo_reward 1]) f64_zero = Fin 1 0"
    by (simp add: queue_total_def demo_total del: f64_add.simps)
  then have "f64_less (queue_total ([] @ [demo_reward 1]) f64_zero) (rc_MinPayoutBAT (sv_cfg demo_sv))"
    using demo_less by simp
  moreover have "sort_key rw_QueuedAt (db_rewards (sv_db demo_sv)) = [] @ demo_reward 1 # [demo_reward 2]"
    using demo_load by (simp add: loadPendingRewards_def)
  ultimately have "tbl_find rw_ID (rw_ID (demo_reward 1)) (db_rewards (sv_db (fst (snd
      (handlePayout demo_env demo_io POST demo_sv ()))))) = Some (demo_reward 1)"
    using payout_below_minimum [OF demo_handlePayout, of "[]" "demo_reward 1" "[demo_reward 2]"] demo_keys
    by (simp add: demo_handlePayout)
  then show ?thesis by (simp add: demo_ids)
qed

section \<open>The webhook\<close>

text \<open>What it takes for a delivery to queue an event.\<close>

definition hook_accepts :: "http_request \<Rightarrow> rewards_service \<Rightarrow> contribution_event \<Rightarrow> bool" where
  "hook_accepts rq sv ev \<longleftrightarrow>
     hr_method rq = POST \<and> (rc_WebhookSecret (sv_cfg sv) = [] \<or> hr_token rq = rc_WebhookSecret (sv_cfg sv))
     \<and> (\<exists>body payload. hr_body rq = Inr body \<and> decode_map body = Some payload
          \<and> webhook_event (hr_event rq) payload = Some ev)"

definition queued_row :: "int \<Rightarrow> contribution_event \<Rightarrow> rewards_service \<Rightarrow> pending_reward" where
  "queued_row now ev sv = \<lparr>rw_ID = reward_id ev, rw_Event = ev, rw_AmountBAT = rateFor (sv_rates sv) (ev_Type ev),
     rw_QueuedAt = now, rw_PaidAt = None, rw_TxHash = [], rw_Status = StPending\<rparr>"

definition with_rewards :: "(pending_reward list \<Rightarrow> pending_reward list) \<Rightarrow> rewards_service \<Rightarrow> rewards_service" where
  "with_rewards f sv = sv\<lparr>sv_db := (sv_db sv)\<lparr>db_rewards := f (db_rewards (sv_db sv))\<rparr>\<rparr>"

lemma with_rewards_simps [simp]:
  "sv_cfg (with_rewards f sv) = sv_cfg sv" "sv_rates (with_rewards f sv) = sv_rates sv"
  "db_rewards (sv_db (with_rewards f sv)) = f (db_rewards (sv_db sv))"
  "db_wallets (sv_db (with_rewards f sv)) = db_wallets (sv_db sv)"
  "db_settings (sv_db (with_rewards f sv)) = db_settings (sv_db sv)"
  by (simp_all add: with_rewards_def)

lemma QueueReward_eq:
  "QueueReward ok now ev sv =
    (if ok then (Inr (queued_row now ev sv), with_rewards (tbl_upsert rw_ID (queued_row now ev sv)) sv) else (Inl (), sv))"
  by (simp add: QueueReward_def queued_row_def with_rewards_def Let_def)

lemma handleGitLabWebhook_accepts:
  assumes "hook_accepts rq sv ev"
  shows "fst (snd (handleGitLabWebhook ok now rq sv)) =
      (if ok then with_rewards (tbl_upsert rw_ID (queued_row now ev sv)) sv else sv)"
    "http_status (fst (handleGitLabWebhook ok now rq sv)) = (if ok then 200 else 500)"
  using assms unfolding hook_accepts_def handleGitLabWebhook_def Let_def
  by (auto simp: QueueReward_eq)

lemma handleGitLabWebhook_rejects:
  assumes "\<nexists>ev. hook_accepts rq sv ev"
  shows "fst (snd (handleGitLabWebhook ok now rq sv)) = sv \<and> snd (snd (handleGitLabWebhook ok now rq sv)) = None"
  using assms unfolding hook_accepts_def handleGitLabWebhook_def Let_def
  by (auto split: option.split sum.split)

lemma hook_accepts_unique: "hook_accepts rq sv ev \<Longrightarrow> hook_accepts rq sv ev' \<Longrightarrow> ev = ev'"
  by (auto simp: hook_accepts_def)

text \<open>
  C5. A delivery changes the service exactly when it is a POST with the right token whose body
  decodes to a qualifying event and the insert succeeds; then the one row of the event's reward
  is inserted, pending, at the current rate, the answer is 200, and nothing else changes.
\<close>

theorem webhook_effect:
  assumes "handleGitLabWebhook ok now rq sv = (resp, sv', spawn)"
  shows "(\<exists>ev. hook_accepts rq sv ev \<and> ok \<and> http_status resp = 200
       \<and> sv' = with_rewards (tbl_upsert rw_ID (queued_row now ev sv)) sv)
    \<or> (sv' = sv \<and> (\<forall>ev. hook_accepts rq sv ev \<longrightarrow> \<not> ok \<and> http_status resp = 500))"
proof (cases "\<exists>ev. hook_accepts rq sv ev")
  case True
  then obtain ev where ev: "hook_accepts rq sv ev" ..
  from handleGitLabWebhook_accepts [OF this, of ok now] assms
  have "sv' = (if ok then with_rewards (tbl_upsert rw_ID (queued_row now ev sv)) sv else sv)"
    "http_status resp = (if ok then 200 else 500)" by simp_all
  with ev show ?thesis by (cases ok) auto
next
  case False
  with handleGitLabWebhook_rejects [OF this, of ok now] assms show ?thesis by simp
qed

definition demo_hook :: http_request where
  "demo_hook = \<lparr>hr_method = POST, hr_token = ''s3'', hr_event = ''Issue Hook'', hr_body = Inr (Some (JObj
     [(''object_attributes'', JObj [(''action'', JStr ''close''), (''iid'', JNum (Fin 2 0))]),
      (''user'', JObj [(''username'', JStr ''bob'')]), (''project'', JObj [(''id'', JNum (Fin 77 0))])]))\<rparr>"

lemma demo_hook_accepts: "rc_WebhookSecret (sv_cfg sv) = ''s3'' \<Longrightarrow> hook_accepts demo_hook sv (demo_event 2)"
  by (simp add: hook_accepts_def demo_hook_def webhook_event_def hook_event_def demo_event_def
      strField_def intField_def jget_def in64_def Let_def)

theorem webhook_effect_witness:
  "fst (snd (handleGitLabWebhook False 5 demo_hook demo_sv)) = demo_sv"
proof -
  obtain resp sv' spawn where h: "handleGitLabWebhook False 5 demo_hook demo_sv = (resp, sv', spawn)"
    by (metis prod_cases3)
  from webhook_effect [OF this] h show ?thesis by auto
qed

end
