(* ===== verification/RewardsSystem.thy ===== *)
theory RewardsSystem
  imports RewardsProps
begin

text \<open>
  The rewards service over time: reward ids, redelivered webhooks, rates across a restart, and
  the invariant of every state the handlers can reach.
\<close>

section \<open>Reward ids\<close>

text \<open>
  Two events whose type has no dash and whose object number is not negative get the same id
  only if they agree on type, project and object: the id is a faithful key of the triple.
\<close>

theorem reward_id_faithful:
  assumes "CHR ''-'' \<notin> set (ev_Type a)" "CHR ''-'' \<notin> set (ev_Type b)"
    and "0 \<le> ev_ObjectID a" "0 \<le> ev_ObjectID b"
  shows "reward_id a = reward_id b \<longleftrightarrow>
    ev_Type a = ev_Type b \<and> ev_ProjectID a = ev_ProjectID b \<and> ev_ObjectID a = ev_ObjectID b"
proof
  assume "reward_id a = reward_id b"
  then have "(ev_Type a @ CHR ''-'' # show_int (ev_ProjectID a)) @ CHR ''-'' # show_nat (nat (ev_ObjectID a))
    = (ev_Type b @ CHR ''-'' # show_int (ev_ProjectID b)) @ CHR ''-'' # show_nat (nat (ev_ObjectID b))"
    using assms(3,4) by (simp add: reward_id_def show_int_def [of "ev_ObjectID a"] show_int_def [of "ev_ObjectID b"])
  then have eq: "ev_Type a @ CHR ''-'' # show_int (ev_ProjectID a) = ev_Type b @ CHR ''-'' # show_int (ev_ProjectID b)"
    and obj: "nat (ev_ObjectID a) = nat (ev_ObjectID b)"
    by (blast dest: show_int_suffix_inj)+
  from split_at_first_eq [OF eq assms(1,2)] have "ev_Type a = ev_Type b \<and> ev_ProjectID a = ev_ProjectID b"
    by simp
  with obj assms(3,4) show "ev_Type a = ev_Type b \<and> ev_ProjectID a = ev_ProjectID b \<and> ev_ObjectID a = ev_ObjectID b"
    by linarith
qed (simp add: reward_id_def)

theorem reward_id_faithful_witness: "reward_id (demo_event 1) \<noteq> reward_id (demo_event 2)"
  using reward_id_faithful [of "demo_event 1" "demo_event 2"] by (simp add: demo_event_def)

text \<open>
  The webhook does not fill in the project, so deliveries from different projects about
  objects with the same kind and number share one row: the later one replaces the earlier
  contributor's reward, and a reward that was already paid is pending again, its payment record
  erased.
\<close>

theorem webhook_overwrites_row:
  assumes first: "hook_accepts rq sv ev" and second: "hook_accepts rq' sv' ev'"
    and same: "ev_Type ev = ev_Type ev'" "ev_ObjectID ev = ev_ObjectID ev'"
  shows "tbl_find rw_ID (reward_id ev) (db_rewards (sv_db (fst (snd (handleGitLabWebhook True now rq' sv')))))
      = Some (queued_row now ev' sv')
    \<and> rw_Status (queued_row now ev' sv') = StPending \<and> rw_PaidAt (queued_row now ev' sv') = None
    \<and> rw_TxHash (queued_row now ev' sv') = []"
proof -
  have p: "ev_ProjectID e = 0" if "hook_accepts r s e" for r s e
    using that by (auto simp: hook_accepts_def webhook_event_def hook_event_def Let_def split: if_splits)
  have id: "reward_id ev = reward_id ev'"
    using same p [OF first] p [OF second] by (simp add: reward_id_def)
  from handleGitLabWebhook_accepts(1) [OF second, of True now] id show ?thesis
    by (simp add: queued_row_def rewards_tbl.upsert_same [of "queued_row now ev' sv'", unfolded queued_row_def, simplified])
qed

definition demo_paid :: rewards_service where
  "demo_paid = demo_sv\<lparr>sv_db := demo_db\<lparr>db_rewards := [demo_reward 1,
     demo_reward 2\<lparr>rw_Status := StPaid, rw_PaidAt := Some 9, rw_TxHash := ''tx''\<rparr>]\<rparr>\<rparr>"

text \<open>The reward the run above has paid is delivered again: it is pending once more.\<close>

theorem webhook_overwrites_row_witness:
  "status_of ''issue-0-2'' (sv_db demo_paid) = Some StPaid
   \<and> status_of ''issue-0-2'' (sv_db (fst (snd (handleGitLabWebhook True 20 demo_hook demo_paid)))) = Some StPending"
proof -
  have s: "rc_WebhookSecret (sv_cfg demo_sv) = ''s3''" "rc_WebhookSecret (sv_cfg demo_paid) = ''s3''"
    by (simp_all add: demo_paid_def demo_cfg_def)
  from webhook_overwrites_row [OF demo_hook_accepts [OF s(1)] demo_hook_accepts [OF s(2)] refl refl, of 20]
  have "status_of ''issue-0-2'' (sv_db (fst (snd (handleGitLabWebhook True 20 demo_hook demo_paid)))) = Some StPending"
    by (simp add: status_of_def demo_ids)
  moreover have "status_of ''issue-0-2'' (sv_db demo_paid) = Some StPaid"
    by (simp add: status_of_def tbl_find_def demo_paid_def demo_ids)
  ultimately show ?thesis by blast
qed

section \<open>Rates across a restart\<close>

lemma rates_roundtrip [simp]: "decode_rates (Some (rates_json r)) = Some r"
  by (cases r) (simp add: rates_json_def jfield_def to_lower_def lower_char_def)

text \<open>
  C8. Rates set over HTTP and written to the settings table are the rates a service started
  anew on that database has, and the rates the webhook pays at from then on.
\<close>

theorem rates_survive_restart:
  assumes "handleRates True PUT body sv = (resp, sv')" "decode_rates body = Some r" "rates_finite r"
    and "new_rewards cfg (\<lambda>path. Inr (sv_db sv')) = Inr sv''"
  shows "sv_rates sv' = r \<and> sv_rates sv'' = r \<and> http_status resp = 200
    \<and> rw_AmountBAT (queued_row now ev sv'') = rateFor r (ev_Type ev)"
proof -
  have sv': "sv' = sv\<lparr>sv_rates := r, sv_db := (sv_db sv)\<lparr>db_settings :=
      tbl_upsert fst (''reward_rates'', rates_json r) (db_settings (sv_db sv))\<rparr>\<rparr>" and resp: "http_status resp = 200"
    using assms(1-3) by (auto simp: handleRates_def saveRates_def Let_def)
  have "loadRates (sv_db sv') = r"
    using settings_tbl.upsert_same [of "(''reward_rates'', rates_json r)"] by (simp add: sv' loadRates_def)
  moreover have "sv_rates sv'' = loadRates (sv_db sv')"
    using assms(4) by (auto simp: new_rewards_def Let_def split: if_splits)
  ultimately show ?thesis using resp by (simp add: sv' queued_row_def)
qed

definition demo_rates :: reward_rates where
  "demo_rates = \<lparr>rt_MergeRequest = Fin 3 0, rt_Issue = Fin 2 0, rt_Pipeline = Fin 1 0, rt_Star = Fin 1 0\<rparr>"

theorem rates_survive_restart_witness:
  "sv_rates (snd (handleRates True PUT (Some (rates_json demo_rates)) demo_sv)) = demo_rates"
proof -
  obtain resp sv' where h: "handleRates True PUT (Some (rates_json demo_rates)) demo_sv = (resp, sv')" by fastforce
  have "\<exists>sv''. new_rewards demo_cfg (\<lambda>path. Inr (sv_db sv')) = Inr sv''"
    by (simp add: new_rewards_def demo_cfg_def Let_def)
  then obtain sv'' where n: "new_rewards demo_cfg (\<lambda>path. Inr (sv_db sv')) = Inr sv''" ..
  have "rates_finite demo_rates" by (simp add: rates_finite_def demo_rates_def)
  from rates_survive_restart [OF h rates_roundtrip this n] h show ?thesis by simp
qed

section \<open>The states the handlers reach\<close>

text \<open>
  One request: a webhook delivery, a wallet registration, a change of the rates, a payout run.
  Any outcome of the database and the network, any clock.
\<close>

inductive rewards_step :: "rewards_service \<Rightarrow> rewards_service \<Rightarrow> bool" where
  step_hook: "handleGitLabWebhook ok now rq sv = (resp, sv', spawn) \<Longrightarrow> rewards_step sv sv'"
| step_wallet: "handleWalletRegister pt st ok now meth body sv = (resp, sv') \<Longrightarrow> rewards_step sv sv'"
| step_rates: "handleRates ok meth body sv = (resp, sv') \<Longrightarrow> rewards_step sv sv'"
| step_payout: "handlePayout env io meth sv (s :: nat) = (resp, sv', s') \<Longrightarrow> rewards_step sv sv'"

inductive_simps rewards_step_simps: "rewards_step sv sv'"

definition reward_ok :: "pending_reward \<Rightarrow> bool" where
  "reward_ok r \<longleftrightarrow> rw_ID r = reward_id (rw_Event r)
     \<and> (rw_Status r = StPending \<longleftrightarrow> rw_PaidAt r = None) \<and> (rw_Status r = StPending \<longrightarrow> rw_TxHash r = [])"

definition rewards_inv :: "rewards_service \<Rightarrow> bool" where
  "rewards_inv sv \<longleftrightarrow>
     tbl_ok rw_ID (db_rewards (sv_db sv)) \<and> tbl_ok wl_Username (db_wallets (sv_db sv))
     \<and> tbl_ok fst (db_settings (sv_db sv)) \<and> (\<forall>r \<in> set (db_rewards (sv_db sv)). reward_ok r)
     \<and> (\<forall>w \<in> set (db_wallets (sv_db sv)). wl_Username w \<noteq> [] \<and> wl_WalletAddress w \<noteq> [])"

lemma set_tbl_upsert: "x \<in> set (tbl_upsert key r t) \<Longrightarrow> x = r \<or> x \<in> set t"
  by (auto simp: tbl_upsert_def)

lemma reward_ok_queued [simp]: "reward_ok (queued_row now ev sv)"
  by (simp add: reward_ok_def queued_row_def)

definition rows_ok :: "rewards_db \<Rightarrow> bool" where
  "rows_ok db \<longleftrightarrow> tbl_ok rw_ID (db_rewards db) \<and> (\<forall>r \<in> set (db_rewards db). reward_ok r)"

lemma rows_ok_mark [step_inv]:
  assumes "rows_ok db" "\<And>r. rw_ID (f r) = rw_ID r" "\<And>r. reward_ok r \<Longrightarrow> reward_ok (f r)"
  shows "rows_ok (mark_reward b rid f db)"
  using assms unfolding rows_ok_def mark_reward_def
  by (auto dest!: set_tbl_update)

lemma payout_step_rows [step_inv]:
  assumes "payout_step env cfg io r st = (st', p)" "rows_ok (ps_db st)"
  shows "rows_ok (ps_db st') \<and> db_wallets (ps_db st') = db_wallets (ps_db st)
    \<and> db_settings (ps_db st') = db_settings (ps_db st)"
  using assms(1)
proof (cases rule: payout_step_cases)
  case skip
  with assms(2) show ?thesis by simp
next
  case (failed now)
  with assms(2) show ?thesis by (auto intro!: rows_ok_mark simp: reward_ok_def)
next
  case (paid now tx)
  with assms(2) show ?thesis by (auto intro!: rows_ok_mark simp: reward_ok_def)
qed

lemma payout_loop_rows [step_inv]:
  assumes "payout_loop env cfg io rs st = (st', p)" "rows_ok (ps_db st)"
  shows "rows_ok (ps_db st') \<and> db_wallets (ps_db st') = db_wallets (ps_db st)
    \<and> db_settings (ps_db st') = db_settings (ps_db st)"
  using assms
proof (induction rs arbitrary: st)
  case Nil
  then show ?case by simp
next
  case (Cons r rs)
  obtain st1 q where s: "payout_step env cfg io r st = (st1, q)" by fastforce
  note one = payout_step_rows [OF s Cons.prems(2)]
  show ?case
  proof (cases q)
    case True
    with one s Cons.prems show ?thesis by simp
  next
    case False
    with s Cons.prems(1) have "payout_loop env cfg io rs st1 = (st', p)" by simp
    with Cons.IH one show ?thesis by simp
  qed
qed

lemma wallet_register_effect:
  assumes "handleWalletRegister pt st ok now meth body sv = (resp, sv')"
  shows "sv' = sv \<or> (\<exists>w. wl_Username w \<noteq> [] \<and> wl_WalletAddress w \<noteq> []
      \<and> sv' = sv\<lparr>sv_db := (sv_db sv)\<lparr>db_wallets := tbl_upsert wl_Username w (db_wallets (sv_db sv))\<rparr>\<rparr>)"
proof (cases "decode_wallet pt body")
  case None
  with assms show ?thesis by (auto simp: handleWalletRegister_def split: if_splits)
next
  case (Some reg)
  let ?w = "reg\<lparr>wl_RegisteredAt := now\<rparr>"
  have "sv' = sv \<or> wl_Username ?w \<noteq> [] \<and> wl_WalletAddress ?w \<noteq> []
      \<and> sv' = sv\<lparr>sv_db := (sv_db sv)\<lparr>db_wallets := tbl_upsert wl_Username ?w (db_wallets (sv_db sv))\<rparr>\<rparr>"
    using assms Some by (auto simp: handleWalletRegister_def Let_def split: if_splits)
  then show ?thesis by blast
qed

lemma rewards_step_inv [step_inv]: "rewards_step sv sv' \<Longrightarrow> rewards_inv sv \<Longrightarrow> rewards_inv sv'"
proof (induction rule: rewards_step.induct)
  case (step_hook ok now rq sv resp sv' spawn)
  then have "sv' = sv \<or> (\<exists>ev. sv' = with_rewards (tbl_upsert rw_ID (queued_row now ev sv)) sv)"
    using handleGitLabWebhook_accepts(1) [of rq sv _ ok now] handleGitLabWebhook_rejects [of rq sv ok now]
    by (cases "\<exists>ev. hook_accepts rq sv ev") (auto split: if_splits)
  with step_hook.prems show ?case by (auto simp: rewards_inv_def dest!: set_tbl_upsert)
next
  case (step_wallet pt st ok now meth body sv resp sv')
  note wallet_register_effect [OF step_wallet.hyps]
  with step_wallet.prems show ?case by (auto simp: rewards_inv_def dest!: set_tbl_upsert)
next
  case (step_rates ok meth body sv resp sv')
  then have "sv_db sv' = sv_db sv \<or> (\<exists>r. sv_db sv' = (sv_db sv)\<lparr>db_settings := tbl_upsert fst (''reward_rates'', rates_json r) (db_settings (sv_db sv))\<rparr>)"
    unfolding handleRates_def saveRates_def Let_def by (auto split: if_splits option.splits intro!: exI)
  with step_rates.prems show ?case by (auto simp: rewards_inv_def)
next
  case (step_payout env io meth sv s resp sv' s')
  show ?case
  proof (cases "meth = POST")
    case True
    obtain st p where run: "payout_run env io sv s = (st, p)" by fastforce
    have "rows_ok (sv_db sv)" using step_payout.prems by (simp add: rows_ok_def rewards_inv_def)
    with payout_loop_rows [OF run [unfolded payout_run_def]]
    have "rows_ok (ps_db st)" "db_wallets (ps_db st) = db_wallets (sv_db sv)"
      "db_settings (ps_db st) = db_settings (sv_db sv)" by simp_all
    moreover have "sv_db sv' = ps_db st"
      using handlePayout_run [OF step_payout.hyps [unfolded True]] run by simp
    ultimately show ?thesis using step_payout.prems by (simp add: rows_ok_def rewards_inv_def)
  next
    case False
    with step_payout show ?thesis by (simp add: handlePayout_def)
  qed
qed

text \<open>
  C9. In every state the service reaches from an empty database, whatever the requests and the
  outcomes of database and network: table keys are unique, each reward's id is the id of its
  event, a reward is pending exactly when it has no payment time and then has no transaction,
  and every registered wallet has a user and an address.
\<close>

theorem rewards_reachable_inv:
  assumes "rewards_step\<^sup>*\<^sup>* sv sv'" "db_rewards (sv_db sv) = []" "db_wallets (sv_db sv) = []"
    "db_settings (sv_db sv) = []"
  shows "rewards_inv sv'"
  using assms(1)
proof (induction rule: rtranclp_induct)
  case base
  with assms(2-4) show ?case by (simp add: rewards_inv_def)
next
  case (step y z)
  then show ?case by (blast intro: rewards_step_inv)
qed

theorem rewards_reachable_inv_witness:
  "rewards_inv (with_rewards (tbl_upsert rw_ID (queued_row 5 (demo_event 2) (with_rewards (\<lambda>_. []) (demo_sv\<lparr>sv_db := \<lparr>db_wallets = [], db_rewards = [], db_settings = []\<rparr>\<rparr>))))
     (demo_sv\<lparr>sv_db := \<lparr>db_wallets = [], db_rewards = [], db_settings = []\<rparr>\<rparr>))"
  (is "rewards_inv ?sv'")
proof -
  let ?sv = "demo_sv\<lparr>sv_db := \<lparr>db_wallets = [], db_rewards = [], db_settings = []\<rparr>\<rparr>"
  obtain resp sv' spawn where h: "handleGitLabWebhook True 5 demo_hook ?sv = (resp, sv', spawn)"
    by (metis prod_cases3)
  have "hook_accepts demo_hook ?sv (demo_event 2)" by (rule demo_hook_accepts) (simp add: demo_cfg_def)
  from handleGitLabWebhook_accepts(1) [OF this, of True 5] h
  have "sv' = ?sv'" by (simp add: queued_row_def)
  with step_hook [OF h] have "rewards_step\<^sup>*\<^sup>* ?sv ?sv'" by blast
  then show ?thesis by (rule rewards_reachable_inv) simp_all
qed

end
