(* ===== verification/RewardsRace.thy ===== *)
theory RewardsRace
  imports RewardsProps
begin

text \<open>
  Payout requests at the same time: \<^verbatim>\<open>handlePayout\<close> of \<^verbatim>\<open>rewards/service.go\<close>
  cut at its database and network calls, so that any number of requests and webhook deliveries
  interleave over one service. The handler takes the mutex for the single \<^verbatim>\<open>UPDATE\<close>
  only, which is one step here.
\<close>

section \<open>The handler in steps\<close>

text \<open>
  Where a request is: not started, in the loop with the rows still to walk, between a payment and
  the mark of its row, or answered.
\<close>

datatype payout_pc =
    PayStart
  | PayTurns "pending_reward list"
  | PayMark pending_reward "(pay_error, string) result" "pending_reward list"
  | PayReplied payout_response

record payout_request =
  pq_pc :: payout_pc
  pq_total :: f64
  pq_paid :: "string list"
  pq_failed :: "string list"

definition payout_request0 :: payout_request where
  "payout_request0 = \<lparr>pq_pc = PayStart, pq_total = f64_zero, pq_paid = [], pq_failed = []\<rparr>"

text \<open>The turn of a loaded row up to its payment.\<close>

definition turn_pay ::
    "'s pay_env \<Rightarrow> db_outcomes \<Rightarrow> rewards_service \<Rightarrow> pending_reward \<Rightarrow> pending_reward list
     \<Rightarrow> payout_request \<Rightarrow> 's \<Rightarrow> payout_request \<times> 's" where
  "turn_pay env io sv reward rest t s =
     (if rw_Status reward \<noteq> StPending then (t\<lparr>pq_pc := PayTurns rest\<rparr>, s)
      else
        (let total = f64_add (pq_total t) (rw_AmountBAT reward);
             t = t\<lparr>pq_total := total, pq_pc := PayTurns rest\<rparr>;
             user = ev_Username (rw_Event reward) in
         if f64_less total (rc_MinPayoutBAT (sv_cfg sv)) then (t, s)
         else (case loadWallet (do_wallet io user) user (sv_db sv) of
                 Inl _ \<Rightarrow> (t, s)
               | Inr wallet \<Rightarrow>
                   (case submitPayout env (sv_cfg sv) reward wallet s of
                      (Panic, s') \<Rightarrow> (t\<lparr>pq_pc := PayReplied PayoutPanic\<rparr>, s')
                    | (Ret res, s') \<Rightarrow> (t\<lparr>pq_pc := PayMark reward res rest\<rparr>, s')))))"

text \<open>The mark of its row, the one statement under the mutex.\<close>

definition turn_mark ::
    "db_outcomes \<Rightarrow> rewards_service \<Rightarrow> pending_reward \<Rightarrow> (pay_error, string) result
     \<Rightarrow> pending_reward list \<Rightarrow> payout_request \<Rightarrow> payout_request \<times> rewards_service" where
  "turn_mark io sv reward res rest t =
     (let rid = rw_ID reward; now = do_now io rid; t = t\<lparr>pq_pc := PayTurns rest\<rparr> in
      case res of
        Inl _ \<Rightarrow> (t\<lparr>pq_failed := pq_failed t @ [rid]\<rparr>,
          sv\<lparr>sv_db := mark_reward (do_update io rid) rid
               (\<lambda>r. r\<lparr>rw_Status := StFailed, rw_PaidAt := Some now\<rparr>) (sv_db sv)\<rparr>)
      | Inr txHash \<Rightarrow> (t\<lparr>pq_paid := pq_paid t @ [rid]\<rparr>,
          sv\<lparr>sv_db := mark_reward (do_update io rid) rid
               (\<lambda>r. r\<lparr>rw_Status := StPaid, rw_PaidAt := Some now, rw_TxHash := txHash\<rparr>) (sv_db sv)\<rparr>))"

definition payout_turn ::
    "'s pay_env \<Rightarrow> db_outcomes \<Rightarrow> payout_request \<Rightarrow> rewards_service \<Rightarrow> 's
     \<Rightarrow> payout_request \<times> rewards_service \<times> 's" where
  "payout_turn env io t sv s =
     (case pq_pc t of
        PayStart \<Rightarrow>
          (case loadPendingRewards (do_queue io) (sv_db sv) of
             Inl _ \<Rightarrow> (t\<lparr>pq_pc := PayReplied (PayoutError 500 ''database error'')\<rparr>, sv, s)
           | Inr pending \<Rightarrow> (t\<lparr>pq_pc := PayTurns pending\<rparr>, sv, s))
      | PayTurns [] \<Rightarrow> (t\<lparr>pq_pc := PayReplied (PayoutDone (pq_paid t) (pq_failed t) (pq_total t))\<rparr>, sv, s)
      | PayTurns (r # rest) \<Rightarrow> (let (t', s') = turn_pay env io sv r rest t s in (t', sv, s'))
      | PayMark r res rest \<Rightarrow> (let (t', sv') = turn_mark io sv r res rest t in (t', sv', s))
      | PayReplied _ \<Rightarrow> (t, sv, s))"

text \<open>
  The service with its requests, by number, and what can happen: a request takes its next step,
  or a webhook is delivered.
\<close>

record 's race =
  rc_sv :: rewards_service
  rc_net :: 's
  rc_reqs :: "nat \<Rightarrow> payout_request"

datatype race_act = Turn nat | Hook bool int http_request

fun race_step :: "'s pay_env \<Rightarrow> (nat \<Rightarrow> db_outcomes) \<Rightarrow> 's race \<Rightarrow> race_act \<Rightarrow> 's race" where
  "race_step env ios w (Turn i) =
     (let (t', sv', s') = payout_turn env (ios i) (rc_reqs w i) (rc_sv w) (rc_net w)
      in \<lparr>rc_sv = sv', rc_net = s', rc_reqs = (rc_reqs w)(i := t')\<rparr>)"
| "race_step env ios w (Hook ok now rq) = w\<lparr>rc_sv := fst (snd (handleGitLabWebhook ok now rq (rc_sv w)))\<rparr>"

definition race_run :: "'s pay_env \<Rightarrow> (nat \<Rightarrow> db_outcomes) \<Rightarrow> 's race \<Rightarrow> race_act list \<Rightarrow> 's race" where
  "race_run env ios w acts = foldl (race_step env ios) w acts"

lemma race_run_simps [simp]:
  "race_run env ios w [] = w"
  "race_run env ios w (acts @ [a]) = race_step env ios (race_run env ios w acts) a"
  by (simp_all add: race_run_def)

definition race_start :: "rewards_service \<Rightarrow> 's \<Rightarrow> 's race" where
  "race_start sv s = \<lparr>rc_sv = sv, rc_net = s, rc_reqs = (\<lambda>_. payout_request0)\<rparr>"

section \<open>A request does not look at what the others do\<close>

text \<open>What the request would answer if it went on alone, on a transport without state.\<close>

definition loop_reply :: "'s payout_state \<times> bool \<Rightarrow> payout_response" where
  "loop_reply r = (if snd r then PayoutPanic else PayoutDone (ps_paid (fst r)) (ps_failed (fst r)) (ps_total (fst r)))"

definition turns_reply ::
    "unit pay_env \<Rightarrow> db_outcomes \<Rightarrow> rewards_service \<Rightarrow> payout_request \<Rightarrow> pending_reward list \<Rightarrow> payout_response" where
  "turns_reply env io sv t q = loop_reply (payout_loop env (sv_cfg sv) io q
     \<lparr>ps_total = pq_total t, ps_paid = pq_paid t, ps_failed = pq_failed t, ps_db = sv_db sv, ps_net = ()\<rparr>)"

definition alone_reply :: "unit pay_env \<Rightarrow> db_outcomes \<Rightarrow> rewards_service \<Rightarrow> payout_request \<Rightarrow> payout_response" where
  "alone_reply env io sv t =
     (case pq_pc t of
        PayStart \<Rightarrow> fst (handlePayout env io POST sv ())
      | PayTurns q \<Rightarrow> turns_reply env io sv t q
      | PayMark r res q \<Rightarrow> turns_reply env io sv (fst (turn_mark io sv r res q t)) q
      | PayReplied resp \<Rightarrow> resp)"

text \<open>The service as a request sees it: its configuration and its wallets.\<close>

definition same_wallets :: "rewards_service \<Rightarrow> rewards_service \<Rightarrow> bool" where
  "same_wallets sv sv' \<longleftrightarrow> sv_cfg sv' = sv_cfg sv \<and> db_wallets (sv_db sv') = db_wallets (sv_db sv)"

lemma loop_reply_wallets:
  fixes env :: "unit pay_env"
  assumes "db_wallets D' = db_wallets D"
  shows "loop_reply (payout_loop env cfg io q \<lparr>ps_total = x, ps_paid = P, ps_failed = F, ps_db = D', ps_net = ()\<rparr>)
    = loop_reply (payout_loop env cfg io q \<lparr>ps_total = x, ps_paid = P, ps_failed = F, ps_db = D, ps_net = ()\<rparr>)"
    (is "loop_reply ?l' = loop_reply ?l")
proof -
  obtain a p where a: "?l = (a, p)" by fastforce
  obtain b p' where b: "?l' = (b, p')" by fastforce
  show ?thesis using payout_loop_same_wallets [OF b a] assms unfolding a b by (simp add: loop_reply_def)
qed

lemma turns_reply_same:
  "same_wallets sv sv' \<Longrightarrow> turns_reply env io sv' t q = turns_reply env io sv t q"
  by (simp add: turns_reply_def same_wallets_def loop_reply_wallets [of "sv_db sv'" "sv_db sv"])

lemma turn_mark_thread: "fst (turn_mark io sv r res q t) = fst (turn_mark io sv' r res q t)"
  by (simp add: turn_mark_def Let_def split: sum.split)

lemma turn_mark_same: "same_wallets sv (snd (turn_mark io sv r res q t))"
  by (simp add: turn_mark_def same_wallets_def Let_def split: sum.split)

lemma alone_reply_same:
  assumes "same_wallets sv sv'" "pq_pc t \<noteq> PayStart"
  shows "alone_reply env io sv' t = alone_reply env io sv t"
  using assms turn_mark_thread [of io sv _ _ _ t sv']
  by (auto simp: alone_reply_def turns_reply_same split: payout_pc.split)

lemma handlePayout_alone:
  "fst (handlePayout env io POST sv ()) =
     (if do_queue io then turns_reply env io sv payout_request0 (sort_key rw_QueuedAt (db_rewards (sv_db sv)))
      else PayoutError 500 ''database error'')"
  by (simp add: handlePayout_def loadPendingRewards_def turns_reply_def loop_reply_def payout_request0_def
      split: prod.split)

text \<open>One turn of a request keeps what it would answer.\<close>

lemma turn_pay_alone:
  assumes "turn_pay env io sv r rest t () = (t', u)"
  shows "alone_reply env io sv t' = turns_reply env io sv t (r # rest)"
proof (cases "rw_Status r = StPending")
  case False
  with assms show ?thesis by (auto simp: turn_pay_def alone_reply_def turns_reply_def)
next
  case pend: True
  let ?total = "f64_add (pq_total t) (rw_AmountBAT r)"
  let ?user = "ev_Username (rw_Event r)"
  let ?w = "loadWallet (do_wallet io ?user) ?user (sv_db sv)"
  show ?thesis
  proof (cases "f64_less ?total (rc_MinPayoutBAT (sv_cfg sv)) \<or> (\<exists>e. ?w = Inl e)")
    case True
    with pend assms show ?thesis
      by (auto simp: turn_pay_def payout_step_def alone_reply_def turns_reply_def Let_def split: if_splits)
  next
    case False
    then obtain wallet where w: "?w = Inr wallet" and big: "\<not> f64_less ?total (rc_MinPayoutBAT (sv_cfg sv))"
      by (cases ?w) auto
    obtain g where g: "submitPayout env (sv_cfg sv) r wallet () = (g, ())" by (metis old.unit.exhaust surj_pair)
    show ?thesis
    proof (cases g)
      case Panic
      with pend w big g assms show ?thesis
        by (auto simp: turn_pay_def payout_step_def alone_reply_def turns_reply_def loop_reply_def Let_def)
    next
      case (Ret res)
      with pend w big g assms have "t' = t\<lparr>pq_total := ?total, pq_pc := PayMark r res rest\<rparr>"
        by (simp add: turn_pay_def Let_def)
      with pend w big g Ret show ?thesis
        by (cases res)
          (auto simp: payout_step_def alone_reply_def turns_reply_def turn_mark_def Let_def
            intro!: loop_reply_wallets)
    qed
  qed
qed

lemma turn_pay_pc: "turn_pay env io sv r rest t s = (t', s') \<Longrightarrow> pq_pc t' \<noteq> PayStart"
  unfolding turn_pay_def Let_def by (auto split: if_splits sum.splits go.splits prod.splits)

lemma turn_mark_alone:
  fixes env :: "unit pay_env"
  assumes "turn_mark io sv r res rest t = (t', sv')" "pq_pc t = PayMark r res rest"
  shows "alone_reply env io sv' t' = alone_reply env io sv t \<and> same_wallets sv sv' \<and> pq_pc t' \<noteq> PayStart"
proof -
  from assms(1) have w: "same_wallets sv sv'" using turn_mark_same [of sv io r res rest t] by simp
  from assms(1) have "pq_pc t' = PayTurns rest" by (auto simp: turn_mark_def Let_def split: sum.splits)
  with assms w show ?thesis by (simp add: alone_reply_def turns_reply_same)
qed

lemma payout_turn_alone:
  fixes env :: "unit pay_env"
  assumes "payout_turn env io t sv () = (t', sv', u)" "pq_pc t = PayStart \<Longrightarrow> t = payout_request0"
  shows "alone_reply env io sv' t' = alone_reply env io sv t \<and> same_wallets sv sv' \<and> pq_pc t' \<noteq> PayStart"
proof (cases "pq_pc t")
  case PayStart
  with assms show ?thesis
    by (auto simp: payout_turn_def alone_reply_def handlePayout_alone loadPendingRewards_def same_wallets_def
        turns_reply_def payout_request0_def split: if_splits)
next
  case (PayTurns q)
  with assms show ?thesis
    by (cases q) (auto simp: payout_turn_def alone_reply_def turns_reply_def loop_reply_def same_wallets_def
        dest: turn_pay_alone turn_pay_pc split: prod.splits)
next
  case (PayMark r res rest)
  with assms show ?thesis
    using turn_mark_alone by (auto simp: payout_turn_def split: prod.splits)
next
  case (PayReplied resp)
  with assms show ?thesis by (auto simp: payout_turn_def same_wallets_def)
qed

lemma hook_same_wallets: "same_wallets sv (fst (snd (handleGitLabWebhook ok now rq sv)))"
  by (cases "\<exists>ev. hook_accepts rq sv ev")
    (auto simp: same_wallets_def handleGitLabWebhook_accepts handleGitLabWebhook_rejects)

section \<open>Any interleaving\<close>

text \<open>A request that has started keeps what it would answer over every action, its own and the others'.\<close>

lemma race_step_alone:
  fixes env :: "unit pay_env"
  assumes "\<forall>j. pq_pc (rc_reqs w j) = PayStart \<longrightarrow> rc_reqs w j = payout_request0" "pq_pc (rc_reqs w i) \<noteq> PayStart"
  shows "alone_reply env (ios i) (rc_sv (race_step env ios w a)) (rc_reqs (race_step env ios w a) i)
    = alone_reply env (ios i) (rc_sv w) (rc_reqs w i) \<and> pq_pc (rc_reqs (race_step env ios w a) i) \<noteq> PayStart"
proof (cases a)
  case (Turn j)
  obtain t' sv' u where t: "payout_turn env (ios j) (rc_reqs w j) (rc_sv w) () = (t', sv', u)"
    by (metis prod_cases3)
  from payout_turn_alone [OF t] assms(1)
  have "alone_reply env (ios j) sv' t' = alone_reply env (ios j) (rc_sv w) (rc_reqs w j)"
    "same_wallets (rc_sv w) sv'" "pq_pc t' \<noteq> PayStart" by simp_all
  with t Turn assms(2) show ?thesis by (cases "i = j") (simp_all add: alone_reply_same)
next
  case (Hook ok now rq)
  with assms(2) hook_same_wallets show ?thesis by (simp add: alone_reply_same)
qed

text \<open>Requests that have not started are as they were at the beginning.\<close>

definition fresh_requests :: "'s race \<Rightarrow> bool" where
  "fresh_requests w \<longleftrightarrow> (\<forall>j. pq_pc (rc_reqs w j) = PayStart \<longrightarrow> rc_reqs w j = payout_request0)"

lemma race_step_fresh:
  fixes env :: "unit pay_env"
  assumes "fresh_requests w"
  shows "fresh_requests (race_step env ios w a)"
proof (cases a)
  case (Turn j)
  obtain t' sv' u where t: "payout_turn env (ios j) (rc_reqs w j) (rc_sv w) () = (t', sv', u)"
    by (metis prod_cases3)
  from payout_turn_alone [OF t] assms Turn t show ?thesis by (simp add: fresh_requests_def)
qed (use assms in \<open>simp add: fresh_requests_def\<close>)

lemma race_start_fresh: "fresh_requests (race_start sv s)"
  by (simp add: fresh_requests_def race_start_def)

lemma race_run_fresh:
  fixes env :: "unit pay_env"
  shows "fresh_requests (race_run env ios (race_start sv ()) acts)"
  by (induction acts rule: rev_induct) (simp_all add: race_start_fresh race_step_fresh)

lemma race_run_not_started:
  "Turn i \<notin> set acts \<Longrightarrow> rc_reqs (race_run env ios w acts) i = rc_reqs w i"
proof (induction acts rule: rev_induct)
  case (snoc a acts)
  then show ?case by (cases a) (auto split: prod.split)
qed simp

lemma race_run_append: "race_run env ios w (xs @ ys) = race_run env ios (race_run env ios w xs) ys"
  by (simp add: race_run_def)

lemma race_run_Cons: "race_run env ios w (a # acts) = race_run env ios (race_step env ios w a) acts"
  by (simp add: race_run_def)

text \<open>The turns a started request still has before it, which only its own turns reduce.\<close>

definition turns_left :: "payout_request \<Rightarrow> nat" where
  "turns_left t = (case pq_pc t of
      PayStart \<Rightarrow> 0 | PayTurns q \<Rightarrow> 2 * length q + 1 | PayMark _ _ q \<Rightarrow> 2 * length q + 2 | PayReplied _ \<Rightarrow> 0)"

lemma turn_pay_left:
  "turn_pay env io sv r q t s = (t', s') \<Longrightarrow> turns_left t' \<le> 2 * length q + 2"
  unfolding turn_pay_def Let_def by (auto simp: turns_left_def split: if_splits sum.splits go.splits prod.splits)

lemma turn_mark_left: "turn_mark io sv r res q t = (t', sv') \<Longrightarrow> turns_left t' = 2 * length q + 1"
  unfolding turn_mark_def Let_def by (auto simp: turns_left_def split: sum.splits)

lemma payout_turn_left:
  assumes "payout_turn env io t sv s = (t', sv', s')" "pq_pc t \<noteq> PayStart"
  shows "turns_left t' \<le> turns_left t - 1"
proof (cases "pq_pc t")
  case (PayTurns q)
  with assms(1) turn_pay_left [of env io sv _ _ t s t'] show ?thesis
    by (cases q) (fastforce simp: payout_turn_def turns_left_def [of t] turns_left_def [of "t\<lparr>pq_pc := _\<rparr>"] split: prod.splits)+
next
  case (PayMark r res q)
  with assms(1) turn_mark_left [of io sv r res q t t'] show ?thesis
    by (auto simp: payout_turn_def turns_left_def [of t] split: prod.splits)
qed (use assms in \<open>auto simp: payout_turn_def turns_left_def\<close>)

lemma race_run_alone:
  fixes env :: "unit pay_env"
  assumes "fresh_requests w" "pq_pc (rc_reqs w i) \<noteq> PayStart"
    and w': "w' = race_run env ios w acts"
  shows "alone_reply env (ios i) (rc_sv w') (rc_reqs w' i) = alone_reply env (ios i) (rc_sv w) (rc_reqs w i)
    \<and> turns_left (rc_reqs w' i) \<le> turns_left (rc_reqs w i) - count_list acts (Turn i)
    \<and> pq_pc (rc_reqs w' i) \<noteq> PayStart \<and> fresh_requests w'"
  unfolding w'
proof (induction acts rule: rev_induct)
  case Nil
  with assms show ?case by simp
next
  case (snoc a acts)
  let ?u = "race_run env ios w acts"
  obtain t' sv' x where t: "payout_turn env (ios i) (rc_reqs ?u i) (rc_sv ?u) () = (t', sv', x)"
    by (metis prod_cases3)
  have "turns_left (rc_reqs (race_step env ios ?u a) i)
      \<le> turns_left (rc_reqs ?u i) - (if a = Turn i then 1 else 0)"
    using payout_turn_left [OF t] snoc t by (cases a) (auto split: prod.split)
  with snoc race_step_alone [of ?u i env ios a] race_step_fresh [of ?u env ios a] show ?case
    by (auto simp: fresh_requests_def)
qed

lemma started_request:
  fixes env :: "unit pay_env"
  assumes "rc_reqs w i = payout_request0" and w': "w' = race_step env ios w (Turn i)"
  shows "alone_reply env (ios i) (rc_sv w') (rc_reqs w' i) = fst (handlePayout env (ios i) POST (rc_sv w) ())
    \<and> turns_left (rc_reqs w' i) \<le> 2 * length (db_rewards (sv_db (rc_sv w))) + 1
    \<and> pq_pc (rc_reqs w' i) \<noteq> PayStart"
proof -
  obtain t' sv' x where t: "payout_turn env (ios i) payout_request0 (rc_sv w) () = (t', sv', x)"
    by (metis prod_cases3)
  from payout_turn_alone [OF t]
  have "alone_reply env (ios i) sv' t' = fst (handlePayout env (ios i) POST (rc_sv w) ()) \<and> pq_pc t' \<noteq> PayStart"
    by (simp add: alone_reply_def payout_request0_def)
  moreover have "turns_left t' \<le> 2 * length (db_rewards (sv_db (rc_sv w))) + 1"
    using t by (auto simp: payout_turn_def payout_request0_def loadPendingRewards_def turns_left_def split: if_splits)
  ultimately show ?thesis using t assms(1) by (simp add: w')
qed

text \<open>A request from its first step on, whatever comes between its turns.\<close>

lemma request_from_load:
  fixes env :: "unit pay_env"
  assumes "rc_reqs w i = payout_request0" "fresh_requests w"
    and "2 * length (db_rewards (sv_db (rc_sv w))) < count_list after (Turn i)"
  shows "pq_pc (rc_reqs (race_run env ios w (Turn i # after)) i)
    = PayReplied (fst (handlePayout env (ios i) POST (rc_sv w) ()))"
proof -
  let ?w1 = "race_step env ios w (Turn i)"
  let ?w2 = "race_run env ios ?w1 after"
  note first = started_request [OF assms(1) refl, of env ios]
  have "pq_pc (rc_reqs ?w1 i) \<noteq> PayStart" using first by blast
  note rest = race_run_alone [OF race_step_fresh [OF assms(2)] this refl, where acts = after and env = env and ios = ios]
  have "turns_left (rc_reqs ?w2 i) = 0" using first rest assms(3) by linarith
  then obtain resp where "pq_pc (rc_reqs ?w2 i) = PayReplied resp"
    using rest by (auto simp: turns_left_def split: payout_pc.splits)
  with rest first show ?thesis by (simp add: alone_reply_def race_run_Cons del: race_step.simps)
qed

text \<open>
  C3. Payout requests are not serialised. Whatever the interleaving of any number of payout
  requests and webhook deliveries over one service (the payment service being one that answers a
  repeated call alike), a request that loads the queue and then gets a turn for every payment and
  mark answers exactly what \<^verbatim>\<open>handlePayout\<close>, run alone on the tables as they
  were at its first step, answers: what other requests pay and mark after its load changes neither
  the rewards it pays nor its total.
\<close>

theorem payouts_answer_from_their_load:
  fixes env :: "unit pay_env"
  assumes "Turn i \<notin> set before" "sv_i = rc_sv (race_run env ios (race_start sv ()) before)"
    and "2 * length (db_rewards (sv_db sv_i)) < count_list after (Turn i)"
  shows "pq_pc (rc_reqs (race_run env ios (race_start sv ()) (before @ Turn i # after)) i)
    = PayReplied (fst (handlePayout env (ios i) POST sv_i ()))"
proof -
  have "rc_reqs (race_run env ios (race_start sv ()) before) i = payout_request0"
    by (simp add: race_run_not_started [OF assms(1)]) (simp add: race_start_def)
  from request_from_load [OF this race_run_fresh] assms(2,3) show ?thesis by (simp add: race_run_append)
qed

text \<open>The second reward of the demo is paid by both of two requests, one step of each in turn.\<close>

theorem payouts_answer_from_their_load_witness:
  "pq_pc (rc_reqs (race_run demo_env (\<lambda>_. demo_io) (race_start demo_sv ())
      ([Turn 0] @ Turn 1 # [Turn 0, Turn 1, Turn 0, Turn 1, Turn 0, Turn 1, Turn 0, Turn 1, Turn 0, Turn 1])) 1)
    = PayReplied (PayoutDone [''issue-0-2''] [] (Fin 2 0))"
proof -
  have sv: "demo_sv = rc_sv (race_run demo_env (\<lambda>_. demo_io) (race_start demo_sv ()) [Turn 0])"
    by (simp add: race_run_def race_start_def payout_turn_def payout_request0_def demo_io_def demo_load)
  show ?thesis
    by (subst payouts_answer_from_their_load [OF _ sv])
      (simp_all add: demo_handlePayout demo_db_def)
qed

text \<open>So two requests that both load before either has marked a row pay the same rewards.\<close>

lemma overlapping_payouts_pay_twice:
  fixes env :: "unit pay_env"
  assumes "ios j = ios i" "i \<noteq> j"
    and "2 * length (db_rewards (sv_db sv)) < count_list acts (Turn i)"
    and "2 * length (db_rewards (sv_db sv)) < count_list acts (Turn j)"
  defines "w \<equiv> race_run env ios (race_start sv ()) (Turn i # Turn j # acts)"
  shows "pq_pc (rc_reqs w j) = pq_pc (rc_reqs w i)"
proof -
  let ?w0 = "race_start sv ()"
  let ?w1 = "race_step env ios ?w0 (Turn i)"
  have r0: "rc_reqs ?w0 k = payout_request0" "rc_sv ?w0 = sv" for k by (simp_all add: race_start_def)
  have i: "pq_pc (rc_reqs w i) = PayReplied (fst (handlePayout env (ios i) POST sv ()))"
    unfolding w_def using assms(2,3)
    by (subst request_from_load) (simp_all add: race_start_fresh r0 del: race_step.simps)
  have r1: "rc_sv ?w1 = sv" "rc_reqs ?w1 j = payout_request0"
    using assms(2) r0 by (auto simp: payout_turn_def payout_request0_def split: prod.splits sum.splits)
  have "pq_pc (rc_reqs w j) = PayReplied (fst (handlePayout env (ios j) POST sv ()))"
    unfolding w_def race_run_Cons [of env ios ?w0] using assms(4)
    by (subst request_from_load) (simp_all add: r1 race_step_fresh race_start_fresh del: race_step.simps)
  with i assms(1) show ?thesis by simp
qed

end
