(* ===== verification/GoPath.thy ===== *)
theory GoPath
  imports GoStrings
begin

text \<open>
  Go's \<^verbatim>\<open>path/filepath\<close> on Unix: \<^verbatim>\<open>Clean\<close> and \<^verbatim>\<open>Join\<close> work on the text of a path. This is the
  standard library; no definition here maps to a source line of the repository.
\<close>

fun split_on :: "char \<Rightarrow> string \<Rightarrow> string list" where
  "split_on c [] = [[]]"
| "split_on c (x # xs) =
     (if x = c then [] # split_on c xs
      else case split_on c xs of [] \<Rightarrow> [[x]] | w # ws \<Rightarrow> (x # w) # ws)"

lemma split_on_nonempty [simp]: "split_on c s \<noteq> []"
  by (cases s) (auto split: list.split)

lemma split_on_no_sep: "w \<in> set (split_on c s) \<Longrightarrow> c \<notin> set w"
  by (induction s arbitrary: w) (auto split: list.splits if_splits)

lemma split_on_word [simp]: "c \<notin> set s \<Longrightarrow> split_on c s = [s]"
  by (induction s) auto

lemma split_on_append: "c \<notin> set w \<Longrightarrow> split_on c (w @ c # s) = w # split_on c s"
  by (induction w) (auto split: list.split)

lemma split_on_join:
  assumes "ws \<noteq> []" "\<forall>w \<in> set ws. c \<notin> set w"
  shows "split_on c (join_with [c] ws) = ws"
  using assms by (induction "[c]" ws rule: join_with.induct) (auto simp: split_on_append)

text \<open>
  The stack of components kept so far, topmost first. A \<^verbatim>\<open>..\<close> removes the topmost real component;
  with none left it is dropped in a rooted path and kept in a relative one.
\<close>

fun clean_comps :: "bool \<Rightarrow> string list \<Rightarrow> string list \<Rightarrow> string list" where
  "clean_comps rooted st [] = rev st"
| "clean_comps rooted st (c # cs) =
     (if c = [] \<or> c = ''.'' then clean_comps rooted st cs
      else if c = ''..'' then
        (case st of
           [] \<Rightarrow> clean_comps rooted (if rooted then [] else [''..'']) cs
         | t # ts \<Rightarrow> if t = ''..'' then clean_comps rooted (''..'' # st) cs else clean_comps rooted ts cs)
      else clean_comps rooted (c # st) cs)"

definition path_clean :: "string \<Rightarrow> string" where
  "path_clean p =
     (let rooted = has_prefix p ''/''; cs = clean_comps rooted [] (split_on (CHR ''/'') p)
      in if rooted then CHR ''/'' # join_with ''/'' cs
         else if cs = [] then ''.'' else join_with ''/'' cs)"

definition path_join :: "string list \<Rightarrow> string" where
  "path_join es = (let es = filter (\<lambda>e. e \<noteq> []) es in if es = [] then [] else path_clean (join_with ''/'' es))"

section \<open>Plain components\<close>

definition plain_comp :: "string \<Rightarrow> bool" where
  "plain_comp c \<longleftrightarrow> c \<noteq> [] \<and> c \<noteq> ''.'' \<and> c \<noteq> ''..'' \<and> CHR ''/'' \<notin> set c"

lemma clean_comps_plain: "\<forall>c \<in> set cs. plain_comp c \<Longrightarrow> clean_comps r st cs = rev st @ cs"
  by (induction r st cs rule: clean_comps.induct) (auto simp: plain_comp_def)

text \<open>The path a list of plain components names.\<close>

definition abs_path :: "string list \<Rightarrow> string" where
  "abs_path cs = CHR ''/'' # join_with ''/'' cs"

lemma clean_abs_path:
  assumes "\<forall>c \<in> set cs. plain_comp c"
  shows "path_clean (abs_path cs) = abs_path cs"
proof (cases "cs = []")
  case True
  then show ?thesis by (simp add: abs_path_def path_clean_def)
next
  case False
  then have "split_on (CHR ''/'') (join_with ''/'' cs) = cs"
    using assms by (intro split_on_join) (auto simp: plain_comp_def)
  then show ?thesis
    using clean_comps_plain [OF assms, of True "[]"]
    by (simp add: abs_path_def path_clean_def)
qed

lemma join_with_append:
  "xs \<noteq> [] \<Longrightarrow> ys \<noteq> [] \<Longrightarrow> join_with sep xs @ sep @ join_with sep ys = join_with sep (xs @ ys)"
proof (induction sep xs rule: join_with.induct)
  case (2 sep x)
  then show ?case by (cases ys) simp_all
qed simp_all

lemma path_join_abs:
  assumes "\<forall>c \<in> set (cs @ ds). plain_comp c" "ds \<noteq> []" "cs \<noteq> []"
  shows "path_join (abs_path cs # ds) = abs_path (cs @ ds)"
proof -
  have ne: "filter (\<lambda>e. e \<noteq> []) (abs_path cs # ds) = abs_path cs # ds"
    using assms by (auto simp: abs_path_def plain_comp_def filter_id_conv)
  obtain d ds' where ds: "ds = d # ds'" using assms(2) by (cases ds) auto
  have "join_with ''/'' (abs_path cs # ds) = abs_path (cs @ ds)"
    using join_with_append [of cs ds "''/''"] assms by (simp add: ds abs_path_def)
  then show ?thesis
    unfolding path_join_def Let_def ne using clean_abs_path [OF assms(1)] by simp
qed

lemma abs_path_inj:
  assumes "\<forall>c \<in> set cs. plain_comp c" "\<forall>c \<in> set ds. plain_comp c" "abs_path cs = abs_path ds"
  shows "cs = ds"
proof -
  have *: "split_on (CHR ''/'') (join_with ''/'' es) = (if es = [] then [[]] else es)"
    if "\<forall>c \<in> set es. plain_comp c" for es
  proof (cases "es = []")
    case False
    have "split_on (CHR ''/'') (join_with ''/'' es) = es"
      by (rule split_on_join [OF False]) (use that in \<open>auto simp: plain_comp_def\<close>)
    with False show ?thesis by simp
  qed simp
  have "join_with ''/'' cs = join_with ''/'' ds" using assms(3) by (simp add: abs_path_def)
  then have "(if cs = [] then [[]] else cs) = (if ds = [] then [[]] else ds)"
    using * [OF assms(1)] * [OF assms(2)] by simp
  moreover have "[] \<notin> set cs" "[] \<notin> set ds" using assms(1,2) by (auto simp: plain_comp_def)
  ultimately show ?thesis by (cases "cs = []"; cases "ds = []") auto
qed

end
