(* ===== verification/PosixFs.thy ===== *)
theory PosixFs
  imports GoPath SqlTable
begin

text \<open>
  The part of a Unix file system the services use through \<^verbatim>\<open>os\<close>: names for regular files,
  symbolic links and directories, inodes shared by hard links, and the calls \<^verbatim>\<open>stat\<close>, \<^verbatim>\<open>read\<close>,
  \<^verbatim>\<open>readlink\<close>, \<^verbatim>\<open>link\<close>, \<^verbatim>\<open>rename\<close>, \<^verbatim>\<open>symlink\<close>, \<^verbatim>\<open>unlink\<close>, \<^verbatim>\<open>mkdir -p\<close>. Paths are absolute
  and compared as text; symbolic links are followed when they are the last component. A call may
  also be refused for a reason outside the model: operations take that as an argument.
\<close>

datatype fs_node = File nat | Symlink string | Dir

record fs =
  fs_names :: "(string \<times> fs_node) list"
  fs_data :: "nat \<Rightarrow> bytes"

datatype fs_error = ENOENT | EEXIST | ELOOP | EISDIR | ENOTEMPTY | ENOTDIR | EINVAL | Refused

interpretation fs_tbl: keyed_table "fst :: string \<times> fs_node \<Rightarrow> string" "tbl_upsert fst" "tbl_delete fst"
    "tbl_find fst" "tbl_ok fst"
  by (rule tbl_keyed)

definition node_at :: "fs \<Rightarrow> string \<Rightarrow> fs_node option" where
  "node_at f p = map_option snd (tbl_find fst p (fs_names f))"

definition set_node :: "string \<Rightarrow> fs_node \<Rightarrow> fs \<Rightarrow> fs" where
  "set_node p n f = f\<lparr>fs_names := tbl_upsert fst (p, n) (fs_names f)\<rparr>"

definition del_node :: "string \<Rightarrow> fs \<Rightarrow> fs" where
  "del_node p f = f\<lparr>fs_names := tbl_delete fst p (fs_names f)\<rparr>"

lemma node_at_set [simp]: "node_at (set_node p n f) q = (if q = p then Some n else node_at f q)"
  by (simp add: node_at_def set_node_def fs_tbl.lookup_upsert)

lemma node_at_del [simp]: "node_at (del_node p f) q = (if q = p then None else node_at f q)"
  by (simp add: node_at_def del_node_def fs_tbl.lookup_delete)

lemma fs_data_set [simp]: "fs_data (set_node p n f) = fs_data f" "fs_data (del_node p f) = fs_data f"
  by (simp_all add: set_node_def del_node_def)

text \<open>Following symbolic links, at most 40 as in Linux.\<close>

fun fs_resolve :: "nat \<Rightarrow> fs \<Rightarrow> string \<Rightarrow> (fs_error, string) result" where
  "fs_resolve 0 f p = Inl ELOOP"
| "fs_resolve (Suc n) f p =
     (if CHR 0x00 \<in> set p then Inl EINVAL
      else case node_at f p of
        None \<Rightarrow> Inl ENOENT
      | Some (Symlink t) \<Rightarrow> fs_resolve n f t
      | Some _ \<Rightarrow> Inr p)"

abbreviation max_symlinks :: nat where "max_symlinks \<equiv> 40"

definition fs_stat :: "fs \<Rightarrow> string \<Rightarrow> (fs_error, fs_node) result" where
  "fs_stat f p =
     (case fs_resolve (Suc max_symlinks) f p of
        Inl e \<Rightarrow> Inl e
      | Inr q \<Rightarrow> (case node_at f q of None \<Rightarrow> Inl ENOENT | Some n \<Rightarrow> Inr n))"

definition fs_read :: "fs \<Rightarrow> string \<Rightarrow> (fs_error, bytes) result" where
  "fs_read f p =
     (case fs_stat f p of
        Inl e \<Rightarrow> Inl e
      | Inr (File i) \<Rightarrow> Inr (fs_data f i)
      | Inr _ \<Rightarrow> Inl EISDIR)"

definition fs_readlink :: "fs \<Rightarrow> string \<Rightarrow> (fs_error, string) result" where
  "fs_readlink f p =
     (case node_at f p of Some (Symlink t) \<Rightarrow> Inr t | Some _ \<Rightarrow> Inl EINVAL | None \<Rightarrow> Inl ENOENT)"

text \<open>Go's \<^verbatim>\<open>os.Link\<close> does not follow a link that is its first argument.\<close>

definition fs_link :: "bool \<Rightarrow> string \<Rightarrow> string \<Rightarrow> fs \<Rightarrow> (fs_error, fs) result" where
  "fs_link ok old new f =
     (case node_at f old of
        None \<Rightarrow> Inl ENOENT
      | Some Dir \<Rightarrow> Inl Refused
      | Some n \<Rightarrow> if node_at f new \<noteq> None then Inl EEXIST
                  else if ok then Inr (set_node new n f) else Inl Refused)"

fun is_file :: "fs_node \<Rightarrow> bool" where
  "is_file (File i) = True"
| "is_file _ = False"

text \<open>Renaming a name of a file over another name of the same file does nothing.\<close>

definition fs_rename :: "bool \<Rightarrow> string \<Rightarrow> string \<Rightarrow> fs \<Rightarrow> (fs_error, fs) result" where
  "fs_rename ok old new f =
     (case node_at f old of
        None \<Rightarrow> Inl ENOENT
      | Some Dir \<Rightarrow> Inl Refused
      | Some n \<Rightarrow>
          if node_at f new = Some Dir then Inl EISDIR
          else if \<not> ok then Inl Refused
          else if node_at f new = Some n \<and> is_file n \<or> old = new then Inr f
          else Inr (del_node old (set_node new n f)))"

definition has_children :: "fs \<Rightarrow> string \<Rightarrow> bool" where
  "has_children f p = list_ex (\<lambda>(q, _). has_prefix q (p @ ''/'')) (fs_names f)"

definition fs_remove :: "bool \<Rightarrow> string \<Rightarrow> fs \<Rightarrow> (fs_error, fs) result" where
  "fs_remove ok p f =
     (case node_at f p of
        None \<Rightarrow> Inl ENOENT
      | Some n \<Rightarrow> if n = Dir \<and> has_children f p then Inl ENOTEMPTY
                  else if ok then Inr (del_node p f) else Inl Refused)"

definition fs_symlink :: "bool \<Rightarrow> string \<Rightarrow> string \<Rightarrow> fs \<Rightarrow> (fs_error, fs) result" where
  "fs_symlink ok target new f =
     (if node_at f new \<noteq> None then Inl EEXIST
      else if ok then Inr (set_node new (Symlink target) f) else Inl Refused)"

definition fs_mkdirall :: "bool \<Rightarrow> string \<Rightarrow> fs \<Rightarrow> (fs_error, fs) result" where
  "fs_mkdirall ok p f =
     (case fs_stat f p of
        Inr Dir \<Rightarrow> Inr f
      | Inr _ \<Rightarrow> Inl ENOTDIR
      | Inl _ \<Rightarrow> if ok \<and> node_at f p = None then Inr (set_node p Dir f) else Inl Refused)"

lemma fs_resolve_start:
  "fs_resolve 41 f p =
     (if CHR 0x00 \<in> set p then Inl EINVAL
      else case node_at f p of
        None \<Rightarrow> Inl ENOENT
      | Some (Symlink t) \<Rightarrow> fs_resolve max_symlinks f t
      | Some _ \<Rightarrow> Inr p)"
  using fs_resolve.simps(2) [of max_symlinks f p] by (simp del: fs_resolve.simps)

lemma fs_read_present: "fs_read f p = Inr b \<Longrightarrow> \<exists>n. node_at f p = Some n \<and> CHR 0x00 \<notin> set p"
  by (auto simp: fs_read_def fs_stat_def fs_resolve_start split: sum.splits if_splits option.splits)

section \<open>Names that do not occur\<close>

lemma fs_read_set_other:
  assumes "fs_read f q = Inr b" "node_at f p = None"
  shows "fs_read (set_node p n f) q = Inr b"
proof -
  have res: "fs_resolve k f q = Inr r \<Longrightarrow> fs_resolve k (set_node p n f) q = Inr r \<and> r \<noteq> p" for k q r
  proof (induction k arbitrary: q)
    case (Suc k)
    then show ?case using assms(2) by (auto split: option.splits fs_node.splits if_splits)
  qed simp
  from assms(1) show ?thesis
    unfolding fs_read_def fs_stat_def
    by (auto dest!: res simp del: fs_resolve.simps split: sum.splits option.splits fs_node.splits)
qed

end
