(* ===== verification/Bandwidth.thy ===== *)
theory Bandwidth
  imports PosixFs Http
begin

text \<open>
  The bandwidth service, \<^verbatim>\<open>bandwidth/service.go\<close>: the compressing proxy, artifact retention and
  the HTTP handlers (LFS deduplication is in \<^verbatim>\<open>Dedup\<close>). Counters are \<^verbatim>\<open>int64\<close>; times are Unix
  seconds. Outside the repository and a parameter: the gzip codec.
\<close>

section \<open>Configuration and state\<close>

record bw_config =
  bc_Enabled :: bool
  bc_ListenAddr :: string
  bc_CompressionLevel :: int
  bc_LFSDedupEnabled :: bool
  bc_LFSStorePath :: string
  bc_ArtifactMaxSizeMB :: int
  bc_ArtifactRetentionDays :: int
  bc_CacheMaxSizeGB :: int
  bc_UpstreamGitLab :: string
  bc_DBPath :: string

record bw_stats =
  st_BytesIn :: int
  st_BytesOut :: int
  st_BytesSaved :: int
  st_RequestsProxied :: int
  st_DedupHits :: int
  st_DedupBytesSaved :: int
  st_ArtifactsEvicted :: int

definition zero_stats :: bw_stats where
  "zero_stats = \<lparr>st_BytesIn = 0, st_BytesOut = 0, st_BytesSaved = 0, st_RequestsProxied = 0,
     st_DedupHits = 0, st_DedupBytesSaved = 0, st_ArtifactsEvicted = 0\<rparr>"

record artifact_record =
  ar_Path :: string
  ar_SizeBytes :: int
  ar_CreatedAt :: int
  ar_ProjectID :: int
  ar_JobID :: int

record bw_service =
  bs_cfg :: bw_config
  bs_stats :: bw_stats
  bs_artifacts :: "artifact_record list"

datatype bw_new_error = BwDisabled | BwOpenStore string

text \<open>\<^verbatim>\<open>gzip.DefaultCompression\<close> is -1.\<close>

definition new_bandwidth ::
    "bw_config \<Rightarrow> (string \<Rightarrow> (string, artifact_record list) result) \<Rightarrow> (bw_new_error, bw_service) result" where
  "new_bandwidth cfg open_store =
     (if \<not> bc_Enabled cfg then Inl BwDisabled
      else
        (let cfg = (if bc_ListenAddr cfg = [] then cfg\<lparr>bc_ListenAddr := ''127.0.0.1:6062''\<rparr> else cfg);
             cfg = (if bc_CompressionLevel cfg = 0 then cfg\<lparr>bc_CompressionLevel := - 1\<rparr> else cfg);
             cfg = (if bc_UpstreamGitLab cfg = [] then cfg\<lparr>bc_UpstreamGitLab := ''http://127.0.0.1:80''\<rparr> else cfg);
             cfg = (if bc_DBPath cfg = [] then cfg\<lparr>bc_DBPath := ''/var/lib/gitlab-enhanced/bandwidth.db''\<rparr> else cfg)
         in case open_store (bc_DBPath cfg) of
              Inl e \<Rightarrow> Inl (BwOpenStore e)
            | Inr db \<Rightarrow> Inr \<lparr>bs_cfg = cfg, bs_stats = zero_stats, bs_artifacts = db\<rparr>))"

datatype bw_endpoint =
    EpHealth | EpStats | EpMetrics | EpDedup | EpRegister | EpPolicy | EpEvict | EpProxy

text \<open>The routes \<^verbatim>\<open>Start\<close> registers: exact paths, and everything else to the proxy.\<close>

definition bw_route :: "string \<Rightarrow> bw_endpoint" where
  "bw_route path =
     (if path = ''/health'' then EpHealth
      else if path = ''/stats'' then EpStats
      else if path = ''/metrics'' then EpMetrics
      else if path = ''/lfs/dedup'' then EpDedup
      else if path = ''/artifacts/register'' then EpRegister
      else if path = ''/artifacts/policy'' then EpPolicy
      else if path = ''/artifacts/evict'' then EpEvict
      else EpProxy)"

section \<open>The buffering response writer\<close>

definition maxCompressBufferBytes :: nat where
  "maxCompressBufferBytes = 32 * 2 ^ 20"

record buffered_writer =
  bw_header :: header
  bw_body :: bytes
  bw_code :: nat
  bw_overflow :: bool

definition buf_Write :: "bytes \<Rightarrow> buffered_writer \<Rightarrow> buffered_writer" where
  "buf_Write p b =
     (if bw_overflow b then b
      else if maxCompressBufferBytes < length (bw_body b) + length p
      then b\<lparr>bw_overflow := True, bw_body := []\<rparr>
      else b\<lparr>bw_body := bw_body b @ p\<rparr>)"

fun buf_apply :: "writer_op \<Rightarrow> buffered_writer \<Rightarrow> buffered_writer" where
  "buf_apply (SetHeader k v) b = b\<lparr>bw_header := hdr_set k v (bw_header b)\<rparr>"
| "buf_apply (DelHeader k) b = b\<lparr>bw_header := hdr_del k (bw_header b)\<rparr>"
| "buf_apply (WriteStatus c) b = b\<lparr>bw_code := c\<rparr>"
| "buf_apply (WriteBody p) b = buf_Write p b"

definition isCompressible :: "string \<Rightarrow> bool" where
  "isCompressible contentType =
     list_ex (contains_sub contentType)
       [''text/'', ''application/json'', ''application/xml'', ''application/javascript'', ''application/yaml'']"

section \<open>The compressing middleware\<close>

text \<open>
  The wrapped handler is the list of calls it makes on the writer it is given; \<open>gzip level body\<close>
  is \<^const>\<open>None\<close> for a level \<^verbatim>\<open>NewWriterLevel\<close> rejects.
\<close>

definition pass_through :: "buffered_writer \<Rightarrow> bw_stats \<Rightarrow> response_writer \<Rightarrow> response_writer \<times> bw_stats" where
  "pass_through buf st w =
     (let n = int (length (bw_body buf)) in
      (wr_Write (bw_body buf) (wr_WriteHeader (bw_code buf) w),
       st\<lparr>st_BytesIn := wrap64 (st_BytesIn st + n), st_BytesOut := wrap64 (st_BytesOut st + n)\<rparr>))"

definition compressionMiddleware ::
    "(int \<Rightarrow> bytes \<Rightarrow> bytes option) \<Rightarrow> bw_config \<Rightarrow> string \<Rightarrow> string \<Rightarrow> writer_op list
     \<Rightarrow> bw_stats \<Rightarrow> response_writer \<Rightarrow> response_writer \<times> bw_stats" where
  "compressionMiddleware gzip cfg acceptEncoding path next st w =
     (if \<not> contains_sub acceptEncoding ''gzip'' then (fold apply_op next w, st)
      else if contains_sub path ''/lfs/objects/'' then (fold apply_op next w, st)
      else
        (let buf = fold buf_apply next \<lparr>bw_header = wr_header w, bw_body = [], bw_code = 200, bw_overflow = False\<rparr>;
             st = st\<lparr>st_RequestsProxied := wrap64 (st_RequestsProxied st + 1)\<rparr>;
             ct = hdr_get (bw_header buf) ''Content-Type''
         in if \<not> isCompressible ct \<or> bw_overflow buf then pass_through buf st w
            else (case gzip (bc_CompressionLevel cfg) (bw_body buf) of
                    None \<Rightarrow> pass_through buf st w
                  | Some compressed \<Rightarrow>
                      (let uncompressedSize = int (length (bw_body buf));
                           compressedSize = int (length compressed);
                           saved = uncompressedSize - compressedSize;
                           saved = (if saved < 0 then 0 else saved);
                           st = st\<lparr>st_BytesIn := wrap64 (st_BytesIn st + uncompressedSize),
                                   st_BytesOut := wrap64 (st_BytesOut st + compressedSize),
                                   st_BytesSaved := wrap64 (st_BytesSaved st + saved)\<rparr>;
                           w = w\<lparr>wr_header := hdr_del ''Content-Length'' (hdr_set ''Content-Encoding'' ''gzip'' (wr_header w))\<rparr>
                       in (wr_Write compressed (wr_WriteHeader (bw_code buf) w), st)))))"

text \<open>The hook on the upstream's response; \<open>gunzip\<close> is \<^const>\<open>None\<close> when the body has no gzip header.\<close>

record upstream_response =
  ur_header :: header
  ur_body :: bytes
  ur_ContentLength :: int

definition compressResponse :: "(bytes \<Rightarrow> bytes option) \<Rightarrow> upstream_response \<Rightarrow> upstream_response" where
  "compressResponse gunzip resp =
     (if hdr_get (ur_header resp) ''Content-Encoding'' = ''gzip''
      then (case gunzip (ur_body resp) of
              None \<Rightarrow> resp
            | Some b \<Rightarrow> resp\<lparr>ur_body := b, ur_header := hdr_del ''Content-Encoding'' (ur_header resp),
                              ur_ContentLength := - 1\<rparr>)
      else resp)"

section \<open>Artifact retention\<close>

definition maxArtifactBytes :: "bw_config \<Rightarrow> int" where
  "maxArtifactBytes cfg = wrap64 (wrap64 (bc_ArtifactMaxSizeMB cfg * 1024) * 1024)"

text \<open>\<^verbatim>\<open>AddDate\<close> with days only, in a zone without clock changes.\<close>

definition evict_cutoff :: "bw_config \<Rightarrow> int \<Rightarrow> int" where
  "evict_cutoff cfg now = now - bc_ArtifactRetentionDays cfg * 86400"

definition violates :: "bw_config \<Rightarrow> int \<Rightarrow> artifact_record \<Rightarrow> bool" where
  "violates cfg now a \<longleftrightarrow>
     (0 < bc_ArtifactRetentionDays cfg \<and> ar_CreatedAt a < evict_cutoff cfg now)
     \<or> (0 < maxArtifactBytes cfg \<and> maxArtifactBytes cfg < ar_SizeBytes a)"

text \<open>
  The outcomes of one pass: whether the table can be read, whether the kernel lets a file be
  removed, whether a row's \<^verbatim>\<open>DELETE\<close> succeeds (its error is discarded).
\<close>

record evict_io =
  ei_query :: bool
  ei_remove :: "string \<Rightarrow> bool"
  ei_delete :: "string \<Rightarrow> bool"

definition evict_one :: "evict_io \<Rightarrow> artifact_record \<Rightarrow> bw_service \<times> fs \<Rightarrow> bw_service \<times> fs" where
  "evict_one io a s =
     (let (sv, f) = s in
      case fs_remove (ei_remove io (ar_Path a)) (ar_Path a) f of
        Inl _ \<Rightarrow> (sv, f)
      | Inr f' \<Rightarrow>
          (sv\<lparr>bs_artifacts := (if ei_delete io (ar_Path a) then tbl_delete ar_Path (ar_Path a) (bs_artifacts sv)
                                else bs_artifacts sv),
              bs_stats := (bs_stats sv)\<lparr>st_ArtifactsEvicted := wrap64 (st_ArtifactsEvicted (bs_stats sv) + 1)\<rparr>\<rparr>, f'))"

definition evictArtifacts :: "evict_io \<Rightarrow> int \<Rightarrow> bw_service \<times> fs \<Rightarrow> bw_service \<times> fs" where
  "evictArtifacts io now s =
     (if \<not> ei_query io then s
      else fold (evict_one io) (filter (violates (bs_cfg (fst s)) now) (bs_artifacts (fst s))) s)"

text \<open>The background enforcer: one pass per tick, none at all when no limit is configured.\<close>

definition runRetentionEnforcer :: "(evict_io \<times> int) list \<Rightarrow> bw_service \<times> fs \<Rightarrow> bw_service \<times> fs" where
  "runRetentionEnforcer ticks s =
     (if bc_ArtifactRetentionDays (bs_cfg (fst s)) = 0 \<and> bc_ArtifactMaxSizeMB (bs_cfg (fst s)) = 0 then s
      else fold (\<lambda>(io, now). evictArtifacts io now) ticks s)"

datatype register_error = ExceedsLimit int int | InsertFailed string

text \<open>\<open>write_err\<close> is the error of the insert, if any.\<close>

definition RegisterArtifact ::
    "string option \<Rightarrow> artifact_record \<Rightarrow> bw_service \<Rightarrow> (register_error, unit) result \<times> bw_service" where
  "RegisterArtifact write_err a sv =
     (let maxBytes = maxArtifactBytes (bs_cfg sv) in
      if 0 < maxBytes \<and> maxBytes < ar_SizeBytes a
      then (Inl (ExceedsLimit (ar_SizeBytes a) (bc_ArtifactMaxSizeMB (bs_cfg sv))), sv)
      else case write_err of
             None \<Rightarrow> (Inr (), sv\<lparr>bs_artifacts := tbl_upsert ar_Path a (bs_artifacts sv)\<rparr>)
           | Some e \<Rightarrow> (Inl (InsertFailed e), sv))"

section \<open>HTTP handlers\<close>

definition bw_handleHealth :: "bw_service \<Rightarrow> http_response" where
  "bw_handleHealth sv = HttpJson 200 (JObj [(''ok'', JBool True),
     (''compression'', JNum (f64_of_int (bc_CompressionLevel (bs_cfg sv)))),
     (''lfs_dedup'', JBool (bc_LFSDedupEnabled (bs_cfg sv)))])"

definition stats_json :: "bw_stats \<Rightarrow> json" where
  "stats_json s = JObj [(''bytes_in'', JNum (f64_of_int (st_BytesIn s))), (''bytes_out'', JNum (f64_of_int (st_BytesOut s))),
     (''bytes_saved'', JNum (f64_of_int (st_BytesSaved s))),
     (''requests_proxied'', JNum (f64_of_int (st_RequestsProxied s))),
     (''dedup_hits'', JNum (f64_of_int (st_DedupHits s))),
     (''dedup_bytes_saved'', JNum (f64_of_int (st_DedupBytesSaved s))),
     (''artifacts_evicted'', JNum (f64_of_int (st_ArtifactsEvicted s)))]"

text \<open>Go's integer division truncates towards zero.\<close>

definition quot_trunc :: "int \<Rightarrow> int \<Rightarrow> int" where
  "quot_trunc a b = sgn a * sgn b * (\<bar>a\<bar> div \<bar>b\<bar>)"

definition bw_handleStats :: "bw_service \<Rightarrow> http_response" where
  "bw_handleStats sv =
     (let snap = bs_stats sv;
          savingsPct = (if 0 < st_BytesIn snap
                        then f64_mul (f64_div (f64_of_int (st_BytesSaved snap)) (f64_of_int (st_BytesIn snap))) (Fin 100 0)
                        else f64_zero)
      in HttpJson 200 (JObj [(''stats'', stats_json snap),
           (''savings_percent'', JStr (fmt_fixed 1 savingsPct @ ''%'')),
           (''dedup_bytes_saved_mb'', JNum (f64_of_int (quot_trunc (st_DedupBytesSaved snap) (1024 * 1024))))]))"

definition metric :: "string \<Rightarrow> string \<Rightarrow> int \<Rightarrow> string" where
  "metric name help v = prom_metric (''gitlab_enhanced_bandwidth_'' @ name) ''counter'' help (show_int v)"

definition bw_handleMetrics :: "bw_service \<Rightarrow> string" where
  "bw_handleMetrics sv = (let snap = bs_stats sv in
     metric ''bytes_in'' ''Total bytes received by the proxy'' (st_BytesIn snap)
      @ metric ''bytes_out'' ''Total bytes sent by the proxy'' (st_BytesOut snap)
      @ metric ''bytes_saved'' ''Total bytes saved by compression'' (st_BytesSaved snap)
      @ metric ''requests_proxied'' ''Total requests proxied'' (st_RequestsProxied snap)
      @ metric ''dedup_hits'' ''Total LFS dedup cache hits'' (st_DedupHits snap)
      @ metric ''dedup_bytes_saved'' ''Total bytes saved by LFS dedup'' (st_DedupBytesSaved snap)
      @ metric ''artifacts_evicted'' ''Total CI artifacts evicted by retention policy'' (st_ArtifactsEvicted snap))"

definition handleArtifactPolicy :: "bool \<Rightarrow> bw_service \<Rightarrow> http_response" where
  "handleArtifactPolicy read_ok sv = HttpJson 200 (JObj
     [(''artifact_max_size_mb'', JNum (f64_of_int (bc_ArtifactMaxSizeMB (bs_cfg sv)))),
      (''artifact_retention_days'', JNum (f64_of_int (bc_ArtifactRetentionDays (bs_cfg sv)))),
      (''cache_max_size_gb'', JNum (f64_of_int (bc_CacheMaxSizeGB (bs_cfg sv)))),
      (''artifacts_tracked'', JNum (f64_of_int (if read_ok then int (length (bs_artifacts sv)) else 0)))])"

text \<open>The zero \<^verbatim>\<open>time.Time\<close> is the first of January of year 1.\<close>

definition zero_time :: int where
  "zero_time = - 62135596800"

fun decode_artifact :: "(string \<Rightarrow> int option) \<Rightarrow> json option \<Rightarrow> artifact_record option" where
  "decode_artifact parse_time (Some JNull) = Some \<lparr>ar_Path = [], ar_SizeBytes = 0, ar_CreatedAt = zero_time,
     ar_ProjectID = 0, ar_JobID = 0\<rparr>"
| "decode_artifact parse_time (Some (JObj kvs)) =
     (case (field_str (jfield kvs ''path''), field_int (jfield kvs ''size_bytes''),
            (case jfield kvs ''created_at'' of None \<Rightarrow> Some zero_time | Some (JStr t) \<Rightarrow> parse_time t | Some _ \<Rightarrow> None),
            field_int (jfield kvs ''project_id''), field_int (jfield kvs ''job_id'')) of
        (Some p, Some s, Some t, Some pr, Some j) \<Rightarrow>
          Some \<lparr>ar_Path = p, ar_SizeBytes = s, ar_CreatedAt = t, ar_ProjectID = pr, ar_JobID = j\<rparr>
      | _ \<Rightarrow> None)"
| "decode_artifact parse_time _ = None"

definition register_message :: "register_error \<Rightarrow> string" where
  "register_message err = (case err of
     ExceedsLimit n mb \<Rightarrow> ''artifact size '' @ show_int n @ '' bytes exceeds limit of '' @ show_int mb @ '' MB''
   | InsertFailed e \<Rightarrow> e)"

definition handleArtifactRegister ::
    "(string \<Rightarrow> int option) \<Rightarrow> string option \<Rightarrow> int \<Rightarrow> http_method \<Rightarrow> json option \<Rightarrow> bw_service
     \<Rightarrow> http_response \<times> bw_service" where
  "handleArtifactRegister parse_time write_err now meth body sv =
     (if meth \<noteq> POST then (HttpError 405 ''method not allowed'', sv)
      else case decode_artifact parse_time body of
        None \<Rightarrow> (HttpError 400 ''invalid JSON'', sv)
      | Some a \<Rightarrow>
          if ar_Path a = [] then (HttpError 400 ''path required'', sv)
          else
            (let a = (if ar_CreatedAt a = zero_time then a\<lparr>ar_CreatedAt := now\<rparr> else a) in
             case RegisterArtifact write_err a sv of
               (Inl e, sv') \<Rightarrow> (HttpError 400 (register_message e), sv')
             | (Inr _, sv') \<Rightarrow>
                 (HttpJson 200 (JObj [(''ok'', JBool True), (''path'', JStr (ar_Path a))]), sv')))"

definition handleArtifactEvict ::
    "evict_io \<Rightarrow> int \<Rightarrow> http_method \<Rightarrow> bw_service \<times> fs \<Rightarrow> http_response \<times> bw_service \<times> fs" where
  "handleArtifactEvict io now meth s =
     (if meth \<noteq> POST then (HttpError 405 ''method not allowed'', s)
      else
        (let before = st_ArtifactsEvicted (bs_stats (fst s));
             s' = evictArtifacts io now s;
             after = st_ArtifactsEvicted (bs_stats (fst s'))
         in (HttpJson 200 (JObj [(''ok'', JBool True), (''evicted'', JNum (f64_of_int (wrap64 (after - before))))]), s')))"

section \<open>The buffering writer\<close>

fun body_ops :: "writer_op list \<Rightarrow> bytes" where
  "body_ops [] = []"
| "body_ops (WriteBody p # ops) = p @ body_ops ops"
| "body_ops (_ # ops) = body_ops ops"

lemma buf_overflow_stays:
  "bw_overflow b \<Longrightarrow> bw_overflow (fold buf_apply ops b) \<and> bw_body (fold buf_apply ops b) = bw_body b"
proof (induction ops arbitrary: b)
  case (Cons op ops)
  have "bw_overflow (buf_apply op b) \<and> bw_body (buf_apply op b) = bw_body b"
    using Cons.prems by (cases op) (simp_all add: buf_Write_def)
  with Cons.IH show ?case by simp
qed simp

text \<open>The buffer overflows exactly when the whole body exceeds the limit, and is then empty.\<close>

lemma buf_collects:
  assumes "\<not> bw_overflow b" "length (bw_body b) \<le> maxCompressBufferBytes"
  shows "bw_overflow (fold buf_apply ops b) \<longleftrightarrow> maxCompressBufferBytes < length (bw_body b @ body_ops ops)"
    "bw_body (fold buf_apply ops b) =
      (if maxCompressBufferBytes < length (bw_body b @ body_ops ops) then [] else bw_body b @ body_ops ops)"
proof -
  have "(bw_overflow (fold buf_apply ops b) \<longleftrightarrow> maxCompressBufferBytes < length (bw_body b @ body_ops ops))
    \<and> bw_body (fold buf_apply ops b) =
      (if maxCompressBufferBytes < length (bw_body b @ body_ops ops) then [] else bw_body b @ body_ops ops)"
    using assms
  proof (induction ops arbitrary: b)
    case Nil
    then show ?case by simp
  next
    case (Cons op ops)
    show ?case
    proof (cases "\<exists>p. op = WriteBody p \<and> maxCompressBufferBytes < length (bw_body b) + length p")
      case True
      then obtain p where p: "op = WriteBody p" "maxCompressBufferBytes < length (bw_body b) + length p" by blast
      let ?b = "b\<lparr>bw_overflow := True, bw_body := []\<rparr>"
      have "buf_apply op b = ?b" using p Cons.prems by (simp add: buf_Write_def)
      with buf_overflow_stays [of ?b ops] p show ?thesis by simp
    next
      case False
      have b: "\<not> bw_overflow (buf_apply op b)" "bw_body (buf_apply op b) = bw_body b @ body_ops [op]"
        using Cons.prems False by (cases op; simp add: buf_Write_def)+
      have l: "length (bw_body (buf_apply op b)) \<le> maxCompressBufferBytes"
        unfolding b(2) using Cons.prems False by (cases op) (auto simp: not_less)
      have s: "body_ops (op # ops) = body_ops [op] @ body_ops ops" by (cases op) simp_all
      show ?thesis using Cons.IH [OF b(1) l] unfolding b(2) s by simp
    qed
  qed
  then show "bw_overflow (fold buf_apply ops b) \<longleftrightarrow> maxCompressBufferBytes < length (bw_body b @ body_ops ops)"
    "bw_body (fold buf_apply ops b) =
      (if maxCompressBufferBytes < length (bw_body b @ body_ops ops) then [] else bw_body b @ body_ops ops)"
    by auto
qed

end
