(* ===== verification/BandwidthProps.thy ===== *)
theory BandwidthProps
  imports Bandwidth
begin

text \<open>
  Properties of the bandwidth service: what a client of the compressing proxy receives, what an
  eviction pass removes, and the limits every reachable artifact table respects.
\<close>

interpretation artifacts_tbl: keyed_table ar_Path "tbl_upsert ar_Path" "tbl_delete ar_Path"
    "tbl_find ar_Path" "tbl_ok ar_Path"
  by (rule tbl_keyed)

section \<open>The compressing proxy\<close>

text \<open>The body a client sees: it decodes what is labelled as gzip.\<close>

definition client_body :: "(bytes \<Rightarrow> bytes option) \<Rightarrow> response_writer \<Rightarrow> bytes option" where
  "client_body gunzip w =
     (case wr_sent w of
        None \<Rightarrow> Some (wr_body w)
      | Some (_, h) \<Rightarrow> if hdr_get h ''Content-Encoding'' = ''gzip'' then gunzip (wr_body w) else Some (wr_body w))"

definition status_code :: "writer_op list \<Rightarrow> nat" where
  "status_code ops = fold (\<lambda>op c. case op of WriteStatus d \<Rightarrow> d | _ \<Rightarrow> c) ops 200"

definition start_buffer :: "response_writer \<Rightarrow> buffered_writer" where
  "start_buffer w = \<lparr>bw_header = wr_header w, bw_body = [], bw_code = 200, bw_overflow = False\<rparr>"

lemma buf_code: "bw_code (fold buf_apply ops b) = fold (\<lambda>op c. case op of WriteStatus d \<Rightarrow> d | _ \<Rightarrow> c) ops (bw_code b)"
proof (induction ops arbitrary: b)
  case (Cons op ops)
  then show ?case by (cases op) (simp_all add: buf_Write_def)
qed simp

lemma start_buffer_result:
  "bw_code (fold buf_apply ops (start_buffer w)) = status_code ops"
  "bw_body (fold buf_apply ops (start_buffer w)) =
     (if maxCompressBufferBytes < length (body_ops ops) then [] else body_ops ops)"
  "bw_overflow (fold buf_apply ops (start_buffer w)) \<longleftrightarrow> maxCompressBufferBytes < length (body_ops ops)"
  using buf_collects [of "start_buffer w" ops] by (auto simp: buf_code status_code_def start_buffer_def)

text \<open>Every buffered answer: a status and headers, and a body that may be compressed.\<close>

lemma middleware_answer:
  assumes "compressionMiddleware gzip cfg acc path next st fresh_writer = (w, st')"
    and "contains_sub acc ''gzip''" "\<not> contains_sub path ''/lfs/objects/''"
  obtains (plain) "w = \<lparr>wr_header = [], wr_sent = Some (status_code next, []),
      wr_body = (if maxCompressBufferBytes < length (body_ops next) then [] else body_ops next)\<rparr>"
  | (zipped) c where "gzip (bc_CompressionLevel cfg) (body_ops next) = Some c"
      "length (body_ops next) \<le> maxCompressBufferBytes"
      "w = \<lparr>wr_header = [(''Content-Encoding'', ''gzip'')],
        wr_sent = Some (status_code next, [(''Content-Encoding'', ''gzip'')]), wr_body = c\<rparr>"
proof -
  let ?buf = "fold buf_apply next (start_buffer fresh_writer)"
  have buf: "fold buf_apply next \<lparr>bw_header = wr_header fresh_writer, bw_body = [], bw_code = 200, bw_overflow = False\<rparr> = ?buf"
    by (simp add: start_buffer_def)
  have pass: "fst (pass_through ?buf s fresh_writer) = \<lparr>wr_header = [], wr_sent = Some (status_code next, []),
      wr_body = (if maxCompressBufferBytes < length (body_ops next) then [] else body_ops next)\<rparr>" for s
    by (simp add: pass_through_def wr_Write_def wr_WriteHeader_def fresh_writer_def start_buffer_result Let_def)
  show thesis
  proof (cases "\<not> isCompressible (hdr_get (bw_header ?buf) ''Content-Type'') \<or> bw_overflow ?buf
      \<or> gzip (bc_CompressionLevel cfg) (bw_body ?buf) = None")
    case True
    then have "compressionMiddleware gzip cfg acc path next st fresh_writer
        = pass_through ?buf (st\<lparr>st_RequestsProxied := wrap64 (st_RequestsProxied st + 1)\<rparr>) fresh_writer"
      using assms(2,3) unfolding compressionMiddleware_def Let_def buf
      by (cases "gzip (bc_CompressionLevel cfg) (bw_body ?buf)") simp_all
    then have "w = fst (pass_through ?buf (st\<lparr>st_RequestsProxied := wrap64 (st_RequestsProxied st + 1)\<rparr>) fresh_writer)"
      using assms(1) by (metis fst_conv)
    with pass show thesis by (intro plain) simp
  next
    case False
    then obtain c where c: "gzip (bc_CompressionLevel cfg) (bw_body ?buf) = Some c" by auto
    have l: "length (body_ops next) \<le> maxCompressBufferBytes" using False start_buffer_result(3) by (simp add: not_less)
    then have b: "bw_body ?buf = body_ops next" by (simp add: start_buffer_result)
    have "w = \<lparr>wr_header = [(''Content-Encoding'', ''gzip'')],
        wr_sent = Some (status_code next, [(''Content-Encoding'', ''gzip'')]), wr_body = c\<rparr>"
      using assms False c unfolding compressionMiddleware_def Let_def buf
      by (auto simp: wr_Write_def wr_WriteHeader_def fresh_writer_def start_buffer_result hdr_set_def hdr_del_def)
    with c l show thesis unfolding b by (intro zipped)
  qed
qed

text \<open>
  C15. A client that accepts gzip, on a path without \<^verbatim>\<open>/lfs/objects/\<close>, always gets the
  upstream's status. Decoding what is labelled as gzip it reads the upstream's body, whether or not
  the answer was compressed, when that body is at most 32 MiB; a longer one reaches it empty.
\<close>

theorem compression_transparent:
  assumes "compressionMiddleware gzip cfg acc path next st fresh_writer = (w, st')"
    and "contains_sub acc ''gzip''" "\<not> contains_sub path ''/lfs/objects/''"
    and "\<And>level b c. gzip level b = Some c \<Longrightarrow> gunzip c = Some b"
  shows "map_option fst (wr_sent w) = Some (status_code next)
    \<and> client_body gunzip w = Some (if length (body_ops next) \<le> maxCompressBufferBytes then body_ops next else [])"
  using assms(1-3)
proof (cases rule: middleware_answer)
  case plain
  then show ?thesis by (simp add: client_body_def hdr_get_def)
next
  case (zipped c)
  with assms(4) show ?thesis by (simp add: client_body_def hdr_get_def)
qed

definition demo_gzip :: "int \<Rightarrow> bytes \<Rightarrow> bytes option" where
  "demo_gzip level b = Some (31 # b)"

definition demo_bw :: bw_config where
  "demo_bw = \<lparr>bc_Enabled = True, bc_ListenAddr = ''l'', bc_CompressionLevel = 6, bc_LFSDedupEnabled = True,
     bc_LFSStorePath = ''/s'', bc_ArtifactMaxSizeMB = 1, bc_ArtifactRetentionDays = 30, bc_CacheMaxSizeGB = 0,
     bc_UpstreamGitLab = ''u'', bc_DBPath = ''d''\<rparr>"

definition demo_page :: "writer_op list" where
  "demo_page = [SetHeader ''Content-Type'' ''text/html'', SetHeader ''Set-Cookie'' ''c=1'', WriteStatus 201, WriteBody [104, 105]]"

theorem compression_transparent_witness:
  "client_body (\<lambda>c. Some (tl c)) (fst (compressionMiddleware demo_gzip demo_bw ''gzip'' ''/'' demo_page zero_stats fresh_writer))
    = Some [104, 105]"
proof -
  obtain w st' where h: "compressionMiddleware demo_gzip demo_bw ''gzip'' ''/'' demo_page zero_stats fresh_writer = (w, st')"
    by fastforce
  have "client_body (\<lambda>c. Some (tl c)) w
      = Some (if length (body_ops demo_page) \<le> maxCompressBufferBytes then body_ops demo_page else [])"
    by (rule compression_transparent [OF h, THEN conjunct2]) (auto simp: demo_gzip_def)
  then show ?thesis using h by (simp add: demo_page_def maxCompressBufferBytes_def)
qed

text \<open>
  The upstream's headers never reach a client that accepts gzip: they are written to the
  buffer's copy, and the answer carries no header but \<^verbatim>\<open>Content-Encoding\<close> (so no content type,
  cookie or redirect target). An answer above 32 MiB arrives with an empty body.
\<close>

theorem buffered_answer_loses_headers:
  assumes "compressionMiddleware gzip cfg acc path next st fresh_writer = (w, st')"
    and "contains_sub acc ''gzip''" "\<not> contains_sub path ''/lfs/objects/''"
  shows "(\<exists>h. wr_sent w = Some (status_code next, h) \<and> (\<forall>k. k \<noteq> ''Content-Encoding'' \<longrightarrow> hdr_get h k = []))
    \<and> (maxCompressBufferBytes < length (body_ops next) \<longrightarrow> wr_body w = [])"
  using assms
proof (cases rule: middleware_answer)
  case plain
  then show ?thesis by simp
next
  case (zipped c)
  then show ?thesis by (auto simp: hdr_get_def)
qed

theorem buffered_answer_loses_headers_witness:
  "map_option (\<lambda>(c, h). hdr_get h ''Set-Cookie'')
     (wr_sent (fst (compressionMiddleware demo_gzip demo_bw ''gzip'' ''/'' demo_page zero_stats fresh_writer))) = Some []"
proof -
  obtain w st' where h: "compressionMiddleware demo_gzip demo_bw ''gzip'' ''/'' demo_page zero_stats fresh_writer = (w, st')"
    by fastforce
  from buffered_answer_loses_headers [OF this] show ?thesis by (auto simp: h)
qed

section \<open>Eviction\<close>

definition evictable :: "evict_io \<Rightarrow> bw_config \<Rightarrow> int \<Rightarrow> fs \<Rightarrow> artifact_record \<Rightarrow> bool" where
  "evictable io cfg now f a \<longleftrightarrow> violates cfg now a \<and> node_at f (ar_Path a) \<noteq> None \<and> ei_remove io (ar_Path a)"

lemma fs_remove_file:
  "node_at f p \<noteq> Some Dir \<Longrightarrow> fs_remove ok p f =
     (if node_at f p = None then Inl ENOENT else if ok then Inr (del_node p f) else Inl Refused)"
  by (cases "node_at f p") (simp_all add: fs_remove_def)

text \<open>A pass over a list of rows with distinct paths, none of them a directory.\<close>

lemma evict_fold:
  assumes "distinct (map ar_Path as)" "\<forall>a \<in> set as. node_at f (ar_Path a) \<noteq> Some Dir" "\<forall>p. ei_delete io p"
    and "fold (evict_one io) as (sv, f) = (sv', f')"
  defines "gone \<equiv> {ar_Path a | a. a \<in> set as \<and> node_at f (ar_Path a) \<noteq> None \<and> ei_remove io (ar_Path a)}"
  shows "bs_artifacts sv' = filter (\<lambda>a. ar_Path a \<notin> gone) (bs_artifacts sv)"
    "\<forall>p. node_at f' p = (if p \<in> gone then None else node_at f p)"
    "wrap64 (st_ArtifactsEvicted (bs_stats sv')) = wrap64 (st_ArtifactsEvicted (bs_stats sv) + int (card gone))"
    "bs_cfg sv' = bs_cfg sv" "fs_data f' = fs_data f"
proof -
  have "bs_artifacts sv' = filter (\<lambda>a. ar_Path a \<notin> gone) (bs_artifacts sv)
    \<and> (\<forall>p. node_at f' p = (if p \<in> gone then None else node_at f p))
    \<and> wrap64 (st_ArtifactsEvicted (bs_stats sv')) = wrap64 (st_ArtifactsEvicted (bs_stats sv) + int (card gone))
    \<and> bs_cfg sv' = bs_cfg sv \<and> fs_data f' = fs_data f"
    using assms(1,2,4) unfolding gone_def
  proof (induction as arbitrary: sv f)
    case Nil
    then show ?case by simp
  next
    case (Cons a as)
    let ?G = "\<lambda>xs f. {ar_Path x | x. x \<in> set xs \<and> node_at f (ar_Path x) \<noteq> None \<and> ei_remove io (ar_Path x)}"
    have na: "ar_Path a \<notin> ar_Path ` set as" and d: "distinct (map ar_Path as)" using Cons.prems(1) by auto
    have nd: "node_at f (ar_Path a) \<noteq> Some Dir" using Cons.prems(2) by simp
    show ?case
    proof (cases "node_at f (ar_Path a) \<noteq> None \<and> ei_remove io (ar_Path a)")
      case True
      let ?f = "del_node (ar_Path a) f"
      let ?sv = "sv\<lparr>bs_artifacts := tbl_delete ar_Path (ar_Path a) (bs_artifacts sv),
        bs_stats := (bs_stats sv)\<lparr>st_ArtifactsEvicted := wrap64 (st_ArtifactsEvicted (bs_stats sv) + 1)\<rparr>\<rparr>"
      have step: "evict_one io a (sv, f) = (?sv, ?f)"
        using True nd assms(3) by (auto simp: evict_one_def fs_remove_file)
      have dir: "\<forall>x \<in> set as. node_at ?f (ar_Path x) \<noteq> Some Dir" using Cons.prems(2) by auto
      have "fold (evict_one io) as (?sv, ?f) = (sv', f')" using Cons.prems(3) step by simp
      note ih = Cons.IH [OF d dir this]
      have eq: "node_at ?f (ar_Path x) = node_at f (ar_Path x)" if "x \<in> set as" for x
        using na that by (metis imageI node_at_del)
      have G: "?G as ?f = ?G as f" by (intro Collect_cong ex_cong1) (auto simp: eq simp del: node_at_del)
      have GG: "?G (a # as) f = insert (ar_Path a) (?G as f)" using True by auto
      have fin: "finite (?G as f)" by simp
      have new: "ar_Path a \<notin> ?G as f" using na by auto
      define H where "H = ?G as f"
      have H: "?G (a # as) f = insert (ar_Path a) H" "?G as ?f = H" unfolding H_def by (rule GG, rule G)
      have card: "card (insert (ar_Path a) H) = Suc (card H)" using fin new by (simp add: H_def)
      have rows: "filter (\<lambda>x. ar_Path x \<notin> H) (tbl_delete ar_Path (ar_Path a) (bs_artifacts sv))
          = filter (\<lambda>x. ar_Path x \<notin> insert (ar_Path a) H) (bs_artifacts sv)"
        unfolding tbl_delete_def filter_filter by (rule filter_cong) auto
      have w: "wrap64 (wrap64 (x + 1) + n) = wrap64 (x + (1 + n))" for x n
        unfolding wrap64_def by (simp add: mod_simps algebra_simps)
      show ?thesis
        using ih rows w [of "st_ArtifactsEvicted (bs_stats sv)" "int (card H)"] card
        unfolding H by auto
    next
      case False
      have step: "evict_one io a (sv, f) = (sv, f)"
        using False nd by (auto simp: evict_one_def fs_remove_file)
      have "fold (evict_one io) as (sv, f) = (sv', f')" using Cons.prems(3) step by simp
      with Cons.IH [OF d _ this] Cons.prems(2)
      have ih: "bs_artifacts sv' = filter (\<lambda>x. ar_Path x \<notin> ?G as f) (bs_artifacts sv)
        \<and> (\<forall>p. node_at f' p = (if p \<in> ?G as f then None else node_at f p))
        \<and> wrap64 (st_ArtifactsEvicted (bs_stats sv')) = wrap64 (st_ArtifactsEvicted (bs_stats sv) + int (card (?G as f)))
        \<and> bs_cfg sv' = bs_cfg sv \<and> fs_data f' = fs_data f" by simp
      have GG: "?G (a # as) f = ?G as f" using False by auto
      show ?thesis unfolding GG by (rule ih)
    qed
  qed
  then show "bs_artifacts sv' = filter (\<lambda>a. ar_Path a \<notin> gone) (bs_artifacts sv)"
    "\<forall>p. node_at f' p = (if p \<in> gone then None else node_at f p)"
    "wrap64 (st_ArtifactsEvicted (bs_stats sv')) = wrap64 (st_ArtifactsEvicted (bs_stats sv) + int (card gone))"
    "bs_cfg sv' = bs_cfg sv" "fs_data f' = fs_data f"
    by blast+
qed

text \<open>
  C17. When the query and every \<^verbatim>\<open>DELETE\<close> succeed and no tracked path is a directory, one
  eviction pass removes exactly the tracked artifacts that violate a limit and whose file exists
  and can be removed: their rows and their files go, every other row and file stays. So a
  violating row whose file is already gone is kept by the pass.
\<close>

theorem eviction_exact:
  assumes "evictArtifacts io now (sv, f) = (sv', f')" "tbl_ok ar_Path (bs_artifacts sv)"
    and "\<forall>a \<in> set (bs_artifacts sv). node_at f (ar_Path a) \<noteq> Some Dir" "ei_query io" "\<forall>p. ei_delete io p"
  shows "bs_artifacts sv' = filter (\<lambda>a. \<not> evictable io (bs_cfg sv) now f a) (bs_artifacts sv)
    \<and> (\<forall>p. node_at f' p = (if \<exists>a \<in> set (bs_artifacts sv). evictable io (bs_cfg sv) now f a \<and> ar_Path a = p
                             then None else node_at f p))"
proof -
  let ?as = "filter (violates (bs_cfg sv) now) (bs_artifacts sv)"
  have run: "fold (evict_one io) ?as (sv, f) = (sv', f')" using assms(1,4) by (simp add: evictArtifacts_def)
  have d: "distinct (map ar_Path ?as)" using assms(2) by (auto simp: tbl_ok_def)
  have dir: "\<forall>a \<in> set ?as. node_at f (ar_Path a) \<noteq> Some Dir" using assms(3) by simp
  note e = evict_fold [OF d dir assms(5) run]
  have inj: "inj_on ar_Path (set (bs_artifacts sv))" using assms(2) by (simp add: tbl_ok_def distinct_map)
  have "filter (\<lambda>a. ar_Path a \<notin> {ar_Path a | a. a \<in> set ?as \<and> node_at f (ar_Path a) \<noteq> None \<and> ei_remove io (ar_Path a)})
      (bs_artifacts sv) = filter (\<lambda>a. \<not> evictable io (bs_cfg sv) now f a) (bs_artifacts sv)"
    by (rule filter_cong) (auto simp: evictable_def dest: inj_onD [OF inj])
  with e(1,2) show ?thesis by (auto simp: evictable_def)
qed

definition demo_sv_bw :: bw_service where
  "demo_sv_bw = \<lparr>bs_cfg = demo_bw, bs_stats = zero_stats, bs_artifacts =
     [\<lparr>ar_Path = ''/a'', ar_SizeBytes = 5, ar_CreatedAt = 0, ar_ProjectID = 1, ar_JobID = 1\<rparr>,
      \<lparr>ar_Path = ''/b'', ar_SizeBytes = 5, ar_CreatedAt = 0, ar_ProjectID = 1, ar_JobID = 2\<rparr>]\<rparr>"

definition demo_files :: fs where
  "demo_files = \<lparr>fs_names = [(''/a'', File 1)], fs_data = (\<lambda>i. [])\<rparr>"

definition demo_evict :: evict_io where
  "demo_evict = \<lparr>ei_query = True, ei_remove = (\<lambda>_. True), ei_delete = (\<lambda>_. True)\<rparr>"

theorem eviction_exact_witness:
  "map ar_Path (bs_artifacts (fst (evictArtifacts demo_evict 9999999 (demo_sv_bw, demo_files)))) = [''/b'']"
proof -
  obtain sv' f' where h: "evictArtifacts demo_evict 9999999 (demo_sv_bw, demo_files) = (sv', f')" by fastforce
  have "tbl_ok ar_Path (bs_artifacts demo_sv_bw)" by (simp add: tbl_ok_def demo_sv_bw_def)
  from eviction_exact [OF h this]
  have "bs_artifacts sv' = filter (\<lambda>a. \<not> evictable demo_evict (bs_cfg demo_sv_bw) 9999999 demo_files a) (bs_artifacts demo_sv_bw)"
    by (simp add: demo_sv_bw_def demo_files_def demo_evict_def node_at_def tbl_find_def)
  then have "map ar_Path (bs_artifacts sv') = [''/b'']"
    by (simp add: evictable_def violates_def evict_cutoff_def demo_sv_bw_def demo_bw_def demo_files_def
        demo_evict_def node_at_def tbl_find_def)
  then show ?thesis using h by simp
qed

section \<open>The artifact table over time\<close>

inductive bw_step :: "bw_service \<times> fs \<Rightarrow> bw_service \<times> fs \<Rightarrow> bool" where
  bw_register: "handleArtifactRegister pt err now meth body sv = (resp, sv') \<Longrightarrow> bw_step (sv, f) (sv', f)"
| bw_evict: "handleArtifactEvict io now meth s = (resp, s') \<Longrightarrow> bw_step s s'"
| bw_tick: "bw_step s (runRetentionEnforcer ticks s)"

inductive_cases bw_stepE: "bw_step s s'"

definition artifacts_inv :: "bw_service \<Rightarrow> bool" where
  "artifacts_inv sv \<longleftrightarrow> tbl_ok ar_Path (bs_artifacts sv)
     \<and> (\<forall>a \<in> set (bs_artifacts sv). ar_Path a \<noteq> []
          \<and> (0 < maxArtifactBytes (bs_cfg sv) \<longrightarrow> ar_SizeBytes a \<le> maxArtifactBytes (bs_cfg sv)))"

lemma evict_one_inv [step_inv]: "artifacts_inv (fst s) \<Longrightarrow> artifacts_inv (fst (evict_one io a s)) \<and> bs_cfg (fst (evict_one io a s)) = bs_cfg (fst s)"
  by (cases s) (auto simp: evict_one_def artifacts_inv_def tbl_delete_def tbl_ok_def split: sum.split)

lemma evict_fold_inv [step_inv]:
  "artifacts_inv (fst s) \<Longrightarrow> artifacts_inv (fst (fold (evict_one io) as s)) \<and> bs_cfg (fst (fold (evict_one io) as s)) = bs_cfg (fst s)"
proof (induction as arbitrary: s)
  case (Cons a as)
  from evict_one_inv [OF Cons.prems] Cons.IH [of "evict_one io a s"] show ?case by simp
qed simp

lemma evictArtifacts_inv [step_inv]:
  "artifacts_inv (fst s) \<Longrightarrow> artifacts_inv (fst (evictArtifacts io now s)) \<and> bs_cfg (fst (evictArtifacts io now s)) = bs_cfg (fst s)"
  by (simp add: evictArtifacts_def evict_fold_inv)

lemma enforcer_inv [step_inv]:
  "artifacts_inv (fst s) \<Longrightarrow> artifacts_inv (fst (runRetentionEnforcer ticks s)) \<and> bs_cfg (fst (runRetentionEnforcer ticks s)) = bs_cfg (fst s)"
proof -
  have "artifacts_inv (fst s) \<Longrightarrow> artifacts_inv (fst (fold (\<lambda>(io, now). evictArtifacts io now) ticks s))
      \<and> bs_cfg (fst (fold (\<lambda>(io, now). evictArtifacts io now) ticks s)) = bs_cfg (fst s)"
  proof (induction ticks arbitrary: s)
    case (Cons t ticks)
    obtain io now where t: "t = (io, now)" by fastforce
    from evictArtifacts_inv [OF Cons.prems] Cons.IH [of "evictArtifacts io now s"] t show ?case by simp
  qed simp
  then show "artifacts_inv (fst s) \<Longrightarrow> ?thesis" by (simp add: runRetentionEnforcer_def)
qed

lemma register_inv [step_inv]:
  assumes "handleArtifactRegister pt err now meth body sv = (resp, sv')" "artifacts_inv sv"
  shows "artifacts_inv sv' \<and> bs_cfg sv' = bs_cfg sv"
proof (cases "decode_artifact pt body")
  case None
  with assms show ?thesis by (auto simp: handleArtifactRegister_def split: if_splits)
next
  case (Some a)
  let ?a = "if ar_CreatedAt a = zero_time then a\<lparr>ar_CreatedAt := now\<rparr> else a"
  have "sv' = sv \<or> ar_Path ?a \<noteq> [] \<and> sv' = sv\<lparr>bs_artifacts := tbl_upsert ar_Path ?a (bs_artifacts sv)\<rparr>
      \<and> (0 < maxArtifactBytes (bs_cfg sv) \<longrightarrow> ar_SizeBytes ?a \<le> maxArtifactBytes (bs_cfg sv))"
    using assms(1) Some
    by (auto simp: handleArtifactRegister_def RegisterArtifact_def Let_def split: if_splits option.splits)
  with assms(2) show ?thesis by (auto simp: artifacts_inv_def tbl_upsert_def tbl_ok_def)
qed

text \<open>
  C18. In every state the service reaches from an empty artifact table, under any requests,
  ticks and outcomes, paths are unique and not empty, and with a size limit no tracked artifact
  exceeds it: what the size rule of the eviction pass looks for cannot be there.
\<close>

theorem artifacts_reachable_inv:
  assumes "bw_step\<^sup>*\<^sup>* (sv, f) (sv', f')" "bs_artifacts sv = []"
  shows "artifacts_inv sv' \<and> bs_cfg sv' = bs_cfg sv"
proof -
  have "artifacts_inv (fst s') \<and> bs_cfg (fst s') = bs_cfg (fst s)"
    if "bw_step\<^sup>*\<^sup>* s s'" "artifacts_inv (fst s)" for s s'
    using that
  proof (induction rule: rtranclp_induct)
    case (step y z)
    then have y: "artifacts_inv (fst y) \<and> bs_cfg (fst y) = bs_cfg (fst s)" by simp
    from step(2) show ?case
    proof cases
      case (bw_register pt err now meth body sv resp sv' f)
      with y register_inv show ?thesis by fastforce
    next
      case (bw_evict io now meth resp)
      with y evictArtifacts_inv [of y io now] show ?thesis
        by (auto simp: handleArtifactEvict_def Let_def split: if_splits)
    next
      case (bw_tick ticks)
      with y enforcer_inv [of y ticks] show ?thesis by simp
    qed
  qed simp
  moreover have "artifacts_inv sv" using assms(2) by (simp add: artifacts_inv_def)
  ultimately show ?thesis using assms(1) by (metis fst_conv)
qed

theorem artifacts_reachable_inv_witness:
  "artifacts_inv (demo_sv_bw\<lparr>bs_artifacts := [\<lparr>ar_Path = ''/n'', ar_SizeBytes = 7, ar_CreatedAt = 3, ar_ProjectID = 0, ar_JobID = 0\<rparr>]\<rparr>)"
proof -
  have "handleArtifactRegister (\<lambda>_. None) None 3 POST (Some (JObj [(''path'', JStr ''/n''), (''size_bytes'', JNum (Fin 7 0))]))
      (demo_sv_bw\<lparr>bs_artifacts := []\<rparr>)
    = (HttpJson 200 (JObj [(''ok'', JBool True), (''path'', JStr ''/n'')]),
       demo_sv_bw\<lparr>bs_artifacts := [\<lparr>ar_Path = ''/n'', ar_SizeBytes = 7, ar_CreatedAt = 3, ar_ProjectID = 0, ar_JobID = 0\<rparr>]\<rparr>)"
    by (simp add: handleArtifactRegister_def RegisterArtifact_def jfield_def to_lower_def lower_char_def in64_def
        dy_eq_def align_def zero_time_def maxArtifactBytes_def demo_sv_bw_def demo_bw_def wrap64_def tbl_upsert_def Let_def)
  from bw_register [OF this, of demo_files]
  have "bw_step\<^sup>*\<^sup>* (demo_sv_bw\<lparr>bs_artifacts := []\<rparr>, demo_files) (demo_sv_bw\<lparr>bs_artifacts :=
      [\<lparr>ar_Path = ''/n'', ar_SizeBytes = 7, ar_CreatedAt = 3, ar_ProjectID = 0, ar_JobID = 0\<rparr>]\<rparr>, demo_files)" by blast
  from artifacts_reachable_inv [OF this] show ?thesis by simp
qed

end
