(* ===== verification/Dedup.thy ===== *)
theory Dedup
  imports BandwidthProps
begin

text \<open>
  LFS deduplication, \<^verbatim>\<open>DeduplicateLFSObject\<close> and its handler in \<^verbatim>\<open>bandwidth/service.go\<close>, over the
  file system of \<^verbatim>\<open>PosixFs\<close>. SHA-256 is the parameter \<open>sha256\<close>, a function from contents to the
  hex digest. The index \<^verbatim>\<open>.dedup/<digest>\<close> holds symbolic links to the canonical copies.
\<close>

section \<open>The operation\<close>

record dedup_result =
  dr_OID :: string
  dr_SizeBytes :: int
  dr_Duplicate :: bool
  dr_LinkedFrom :: string
  dr_BytesSaved :: int

definition no_duplicate :: "string \<Rightarrow> int \<Rightarrow> dedup_result" where
  "no_duplicate oid sz = \<lparr>dr_OID = oid, dr_SizeBytes = sz, dr_Duplicate = False, dr_LinkedFrom = [], dr_BytesSaved = 0\<rparr>"

datatype dedup_error = InvalidOID string | HashFailed fs_error | IndexDir string fs_error

text \<open>Which of the calls the kernel grants.\<close>

record dedup_io =
  dio_read :: bool
  dio_link :: bool
  dio_rename :: bool
  dio_remove :: bool
  dio_mkdir :: bool
  dio_symlink :: bool

definition sha256File :: "(bytes \<Rightarrow> string) \<Rightarrow> bool \<Rightarrow> string \<Rightarrow> fs \<Rightarrow> (fs_error, string) result" where
  "sha256File sha256 ok p f =
     (case fs_read f p of
        Inl e \<Rightarrow> Inl e
      | Inr b \<Rightarrow> if ok then Inr (sha256 b) else Inl Refused)"

definition lfs_path :: "string \<Rightarrow> string \<Rightarrow> string" where
  "lfs_path store oid = path_join [store, take 2 oid, take 2 (drop 2 oid), oid]"

definition dedup_dir :: "string \<Rightarrow> string" where
  "dedup_dir store = path_join [store, ''.dedup'']"

definition dedup_hit :: "int \<Rightarrow> bw_stats \<Rightarrow> bw_stats" where
  "dedup_hit sz st = st\<lparr>st_DedupHits := wrap64 (st_DedupHits st + 1),
     st_DedupBytesSaved := wrap64 (st_DedupBytesSaved st + sz)\<rparr>"

text \<open>
  The replacement of the object by a hard link: link to a temporary name, rename over the
  object; on a failed rename the temporary name is removed. The flag tells whether it worked.
\<close>

definition replace_by_link :: "dedup_io \<Rightarrow> string \<Rightarrow> string \<Rightarrow> fs \<Rightarrow> bool \<times> fs" where
  "replace_by_link io existing objPath f =
     (let tmpPath = objPath @ ''.dedup-tmp'' in
      case fs_link (dio_link io) existing tmpPath f of
        Inl _ \<Rightarrow> (False, f)
      | Inr f1 \<Rightarrow>
          (case fs_rename (dio_rename io) tmpPath objPath f1 of
             Inr f2 \<Rightarrow> (True, f2)
           | Inl _ \<Rightarrow> (False, case fs_remove (dio_remove io) tmpPath f1 of Inr f2 \<Rightarrow> f2 | Inl _ \<Rightarrow> f1)))"

definition register_canonical ::
    "dedup_io \<Rightarrow> string \<Rightarrow> string \<Rightarrow> string \<Rightarrow> fs \<Rightarrow> (fs_error, unit) result \<times> fs" where
  "register_canonical io dedupDir dedupPath objPath f =
     (case fs_mkdirall (dio_mkdir io) dedupDir f of
        Inl e \<Rightarrow> (Inl e, f)
      | Inr f1 \<Rightarrow>
          (case fs_symlink (dio_symlink io) objPath dedupPath f1 of
             Inl _ \<Rightarrow> (Inr (), f1)
           | Inr f2 \<Rightarrow> (Inr (), f2)))"

definition DeduplicateLFSObject ::
    "(bytes \<Rightarrow> string) \<Rightarrow> dedup_io \<Rightarrow> string \<Rightarrow> int \<Rightarrow> bw_service \<times> fs
     \<Rightarrow> (dedup_error, dedup_result) result \<times> bw_service \<times> fs" where
  "DeduplicateLFSObject sha256 io oid sz s =
     (let (sv, f) = s; cfg = bs_cfg sv in
      if \<not> bc_LFSDedupEnabled cfg \<or> bc_LFSStorePath cfg = [] then (Inr (no_duplicate oid sz), s)
      else if length oid < 4 then (Inl (InvalidOID oid), s)
      else
        (let objPath = lfs_path (bc_LFSStorePath cfg) oid in
         if fs_stat f objPath = Inl ENOENT then (Inr (no_duplicate oid sz), s)
         else case sha256File sha256 (dio_read io) objPath f of
           Inl e \<Rightarrow> (Inl (HashFailed e), s)
         | Inr hash \<Rightarrow>
             (let dedupDir = dedup_dir (bc_LFSStorePath cfg);
                  dedupPath = path_join [dedupDir, hash];
                  (found, existing, f1) = (case fs_readlink f dedupPath of
                     Inl _ \<Rightarrow> (False, [], f)
                   | Inr existing \<Rightarrow> (let (ok, f1) = replace_by_link io existing objPath f in (ok, existing, f1)))
              in if found
                 then (Inr \<lparr>dr_OID = oid, dr_SizeBytes = sz, dr_Duplicate = True, dr_LinkedFrom = existing,
                         dr_BytesSaved = sz\<rparr>,
                       sv\<lparr>bs_stats := dedup_hit sz (bs_stats sv)\<rparr>, f1)
                 else (case register_canonical io dedupDir dedupPath objPath f1 of
                         (Inl e, f2) \<Rightarrow> (Inl (IndexDir dedupDir e), sv, f2)
                       | (Inr _, f2) \<Rightarrow> (Inr (no_duplicate oid sz), sv, f2)))))"

definition dedup_json :: "dedup_result \<Rightarrow> json" where
  "dedup_json r = JObj ([(''oid'', JStr (dr_OID r)), (''size_bytes'', JNum (f64_of_int (dr_SizeBytes r))),
      (''duplicate'', JBool (dr_Duplicate r))]
     @ (if dr_LinkedFrom r = [] then [] else [(''linked_from'', JStr (dr_LinkedFrom r))])
     @ (if dr_BytesSaved r = 0 then [] else [(''bytes_saved'', JNum (f64_of_int (dr_BytesSaved r)))]))"

fun decode_dedup :: "json option \<Rightarrow> (string \<times> int) option" where
  "decode_dedup (Some JNull) = Some ([], 0)"
| "decode_dedup (Some (JObj kvs)) =
     (case (field_str (jfield kvs ''oid''), field_int (jfield kvs ''size'')) of
        (Some oid, Some n) \<Rightarrow> Some (oid, n) | _ \<Rightarrow> None)"
| "decode_dedup _ = None"

text \<open>\<open>show_err\<close> is the error's text.\<close>

definition handleLFSDedup ::
    "(bytes \<Rightarrow> string) \<Rightarrow> (dedup_error \<Rightarrow> string) \<Rightarrow> dedup_io \<Rightarrow> http_method \<Rightarrow> json option \<Rightarrow> bw_service \<times> fs
     \<Rightarrow> http_response \<times> bw_service \<times> fs" where
  "handleLFSDedup sha256 show_err io meth body s =
     (if meth \<noteq> POST then (HttpError 405 ''method not allowed'', s)
      else case decode_dedup body of
        None \<Rightarrow> (HttpError 400 ''invalid JSON'', s)
      | Some (oid, sz) \<Rightarrow>
          (case DeduplicateLFSObject sha256 io oid sz s of
             (Inl e, s') \<Rightarrow> (HttpError 500 (show_err e), s')
           | (Inr r, s') \<Rightarrow> (HttpJson 200 (dedup_json r), s')))"

section \<open>Contents are preserved\<close>

text \<open>A change of names after which every readable name still reads the same bytes.\<close>

definition same_contents :: "fs \<Rightarrow> fs \<Rightarrow> bool" where
  "same_contents f f' \<longleftrightarrow> fs_data f' = fs_data f \<and>
     (\<forall>q. node_at f q \<noteq> None \<longrightarrow> node_at f' q = node_at f q \<or>
        (\<exists>i j. node_at f q = Some (File i) \<and> node_at f' q = Some (File j) \<and> fs_data f i = fs_data f j))"

lemma same_contents_refl [simp]: "same_contents f f"
  by (simp add: same_contents_def)

lemma same_contents_new: "node_at f p = None \<Longrightarrow> same_contents f (set_node p n f)"
  by (auto simp: same_contents_def)

lemma same_contents_trans: "same_contents f g \<Longrightarrow> same_contents g h \<Longrightarrow> same_contents f h"
  unfolding same_contents_def by (metis fs_node.inject(1) option.discI option.inject)

lemma same_contents_read:
  assumes "same_contents f f'" "fs_read f p = Inr b"
  shows "fs_read f' p = Inr b"
proof -
  have res: "fs_resolve k f q = Inr r \<Longrightarrow> fs_resolve k f' q = Inr r" for k q r
  proof (induction k arbitrary: q)
    case (Suc k)
    have node: "node_at f q \<noteq> None" using Suc.prems by (auto split: if_splits option.splits)
    with assms(1) consider "node_at f' q = node_at f q"
      | i j where "node_at f q = Some (File i)" "node_at f' q = Some (File j)"
      unfolding same_contents_def by blast
    then show ?case
      by cases (use Suc in \<open>auto split: option.splits fs_node.splits if_splits\<close>)
  qed simp
  from assms(2) obtain q i where q: "fs_resolve (Suc max_symlinks) f p = Inr q" "node_at f q = Some (File i)" "b = fs_data f i"
    by (auto simp: fs_read_def fs_stat_def simp del: fs_resolve.simps split: sum.splits option.splits fs_node.splits)
  have "node_at f' q = node_at f q \<or> (\<exists>i j. node_at f q = Some (File i) \<and> node_at f' q = Some (File j) \<and> fs_data f i = fs_data f j)"
    and d: "fs_data f' = fs_data f"
    using assms(1) q(2) unfolding same_contents_def by blast+
  with q have "\<exists>j. node_at f' q = Some (File j) \<and> fs_data f j = b" by auto
  with res [OF q(1)] d show ?thesis
    by (auto simp: fs_read_def fs_stat_def simp del: fs_resolve.simps)
qed

lemma replace_by_link_same:
  assumes "node_at f existing = Some (File j)" "node_at f objPath = Some (File i)"
    and "fs_data f i = fs_data f j" "replace_by_link io existing objPath f = (ok, f')"
  shows "same_contents f f'"
proof -
  let ?tmp = "objPath @ ''.dedup-tmp''"
  have ne: "?tmp \<noteq> objPath" by simp
  show ?thesis
  proof (cases "node_at f ?tmp = None \<and> dio_link io")
    case False
    with assms(1,4) show ?thesis by (auto simp: replace_by_link_def fs_link_def Let_def split: if_splits)
  next
    case True
    let ?f1 = "set_node ?tmp (File j) f"
    have l: "fs_link (dio_link io) existing ?tmp f = Inr ?f1" using True assms(1) by (simp add: fs_link_def)
    have same1: "same_contents f ?f1" using True by (intro same_contents_new) simp
    have undone: "same_contents f (del_node ?tmp ?f1)"
      using True by (auto simp: same_contents_def)
    have moved: "same_contents f (del_node ?tmp (set_node objPath (File j) ?f1))"
      using True assms(2,3) ne by (auto simp: same_contents_def)
    show ?thesis
      using assms(4) l ne True assms(2) same1 undone moved
      by (auto simp: replace_by_link_def fs_rename_def fs_remove_def Let_def split: if_splits)
  qed
qed

lemma register_canonical_same:
  assumes "register_canonical io dd dp obj f = (r, f')"
  shows "same_contents f f'"
proof -
  have mk: "same_contents f f1" if "fs_mkdirall (dio_mkdir io) dd f = Inr f1" for f1
    using that by (auto simp: fs_mkdirall_def same_contents_new split: sum.splits fs_node.splits if_splits)
  have sl: "same_contents f1 f2" if "fs_symlink (dio_symlink io) obj dp f1 = Inr f2" for f1 f2
    using that by (auto simp: fs_symlink_def same_contents_new split: if_splits)
  show ?thesis
  proof (cases "fs_mkdirall (dio_mkdir io) dd f")
    case (Inl e)
    with assms show ?thesis by (simp add: register_canonical_def)
  next
    case (Inr f1)
    show ?thesis
    proof (cases "fs_symlink (dio_symlink io) obj dp f1")
      case (Inl e)
      with assms Inr mk show ?thesis by (simp add: register_canonical_def)
    next
      case (Inr f2)
      with assms \<open>fs_mkdirall (dio_mkdir io) dd f = Inr f1\<close> mk [of f1] sl [of f1 f2] show ?thesis
        by (auto simp: register_canonical_def intro: same_contents_trans)
    qed
  qed
qed

text \<open>
  The index is sound: a link for a digest leads to a regular file with that digest, and no two
  stored contents share a digest.
\<close>

definition index_sound :: "(bytes \<Rightarrow> string) \<Rightarrow> string \<Rightarrow> fs \<Rightarrow> bool" where
  "index_sound sha256 store f \<longleftrightarrow>
     (\<forall>b t. node_at f (path_join [dedup_dir store, sha256 b]) = Some (Symlink t) \<longrightarrow>
        (\<exists>i. node_at f t = Some (File i) \<and> sha256 (fs_data f i) = sha256 b))
     \<and> (\<forall>i j. sha256 (fs_data f i) = sha256 (fs_data f j) \<longrightarrow> fs_data f i = fs_data f j)"

lemma fs_read_file: "node_at f p = Some (File i) \<Longrightarrow> CHR 0x00 \<notin> set p \<Longrightarrow> fs_read f p = Inr (fs_data f i)"
  by (simp add: fs_read_def fs_stat_def fs_resolve_start)

text \<open>
  C19. Whatever the kernel grants or refuses, and whatever the outcome, deduplicating an object
  that is a regular file changes no content: every path that could be read still reads the same
  bytes, provided the index leads to files with the digests it names and digests do not collide.
\<close>

theorem dedup_preserves_contents:
  assumes "DeduplicateLFSObject sha256 io oid sz (sv, f) = (res, sv', f')"
    and "index_sound sha256 (bc_LFSStorePath (bs_cfg sv)) f"
    and "\<And>n. node_at f (lfs_path (bc_LFSStorePath (bs_cfg sv)) oid) = Some n \<Longrightarrow> \<exists>i. n = File i"
    and "fs_read f p = Inr b"
  shows "fs_read f' p = Inr b"
proof -
  let ?store = "bc_LFSStorePath (bs_cfg sv)"
  let ?obj = "lfs_path ?store oid"
  have same: "same_contents f f'"
  proof (cases "bc_LFSDedupEnabled (bs_cfg sv) \<and> ?store \<noteq> [] \<and> \<not> length oid < 4 \<and> fs_stat f ?obj \<noteq> Inl ENOENT")
    case False
    with assms(1) show ?thesis by (auto simp: DeduplicateLFSObject_def Let_def split: if_splits)
  next
    case True
    show ?thesis
    proof (cases "sha256File sha256 (dio_read io) ?obj f")
      case (Inl e)
      with True assms(1) show ?thesis by (simp add: DeduplicateLFSObject_def Let_def)
    next
      case (Inr hash)
      then obtain c where c: "fs_read f ?obj = Inr c" "hash = sha256 c"
        by (auto simp: sha256File_def split: sum.splits if_splits)
      then obtain n where n: "node_at f ?obj = Some n" "CHR 0x00 \<notin> set ?obj"
        using fs_read_present by blast
      with assms(3) obtain i where i: "node_at f ?obj = Some (File i)" by blast
      with c n have ci: "c = fs_data f i" using fs_read_file [OF i n(2)] by simp
      define found where "found = (case fs_readlink f (path_join [dedup_dir ?store, hash]) of
          Inl _ \<Rightarrow> (False, [], f)
        | Inr existing \<Rightarrow> (let (ok, f1) = replace_by_link io existing ?obj f in (ok, existing, f1)))"
      obtain ok ex f1 where fd: "found = (ok, ex, f1)" by (metis prod_cases3)
      have s1: "same_contents f f1"
      proof (cases "fs_readlink f (path_join [dedup_dir ?store, hash])")
        case (Inl e)
        with fd show ?thesis by (simp add: found_def)
      next
        case (Inr t)
        then have "node_at f (path_join [dedup_dir ?store, sha256 c]) = Some (Symlink t)"
          by (auto simp: fs_readlink_def c split: option.splits fs_node.splits)
        with assms(2) obtain j where j: "node_at f t = Some (File j)" "sha256 (fs_data f j) = sha256 (fs_data f i)"
          unfolding index_sound_def ci by blast
        with assms(2) have "fs_data f i = fs_data f j" unfolding index_sound_def by metis
        moreover have "replace_by_link io t ?obj f = (ok, f1)"
          using fd Inr by (auto simp: found_def split: prod.splits)
        ultimately show ?thesis using replace_by_link_same [OF j(1) i] by blast
      qed
      obtain r f2 where reg: "register_canonical io (dedup_dir ?store) (path_join [dedup_dir ?store, hash]) ?obj f1 = (r, f2)"
        by fastforce
      have "f' = f1 \<or> f' = f2"
        using assms(1) True Inr fd reg unfolding found_def
        by (auto simp: DeduplicateLFSObject_def Let_def split: if_splits sum.splits)
      with s1 register_canonical_same [OF reg] show ?thesis by (auto intro: same_contents_trans)
    qed
  qed
  then show ?thesis using assms(4) by (rule same_contents_read)
qed

definition demo_sha :: "bytes \<Rightarrow> string" where
  "demo_sha b = replicate (length b) (CHR ''a'')"

text \<open>A store with one object \<^verbatim>\<open>abcd\<close> that is its own canonical copy.\<close>

definition demo_store :: fs where
  "demo_store = \<lparr>fs_names = [(''/s/ab/cd/abcd'', File 1), (''/s/.dedup'', Dir),
     (''/s/.dedup/aa'', Symlink ''/s/ab/cd/abcd'')], fs_data = (\<lambda>i. if i = 1 then [1, 2] else [])\<rparr>"

definition demo_dio :: dedup_io where
  "demo_dio = \<lparr>dio_read = True, dio_link = True, dio_rename = True, dio_remove = True, dio_mkdir = True, dio_symlink = True\<rparr>"

lemma demo_dedup_paths:
  "lfs_path (bc_LFSStorePath (bs_cfg demo_sv_bw)) ''abcd'' = ''/s/ab/cd/abcd''"
  "dedup_dir (bc_LFSStorePath (bs_cfg demo_sv_bw)) = ''/s/.dedup''"
  "path_join [''/s/.dedup'', ''aa''] = ''/s/.dedup/aa''"
  by code_simp+

lemma demo_index: "index_sound demo_sha (bc_LFSStorePath (bs_cfg demo_sv_bw)) demo_store"
proof -
  have "node_at demo_store (path_join [dedup_dir (bc_LFSStorePath (bs_cfg demo_sv_bw)), demo_sha b]) = Some (Symlink t)
      \<Longrightarrow> t = ''/s/ab/cd/abcd'' \<and> length b = 2" for b t
  proof -
    assume n: "node_at demo_store (path_join [dedup_dir (bc_LFSStorePath (bs_cfg demo_sv_bw)), demo_sha b]) = Some (Symlink t)"
    show "t = ''/s/ab/cd/abcd'' \<and> length b = 2"
    proof (cases "b = []")
      case True
      have "path_join [''/s/.dedup'', []] = ''/s/.dedup''" by code_simp
      with n True show ?thesis
        unfolding demo_dedup_paths by (simp add: demo_sha_def node_at_def tbl_find_def demo_store_def)
    next
      case False
      have plain: "\<forall>c \<in> set ([''s'', ''.dedup''] @ [demo_sha b]). plain_comp c"
        using False by (cases b) (auto simp: plain_comp_def demo_sha_def)
      have "path_join [''/s/.dedup'', demo_sha b] = ''/s/.dedup/'' @ demo_sha b"
        using path_join_abs [OF plain] by (simp add: abs_path_def)
      with n show ?thesis
        unfolding demo_dedup_paths
        by (auto simp: node_at_def tbl_find_def demo_store_def split: if_splits)
          (auto simp: demo_sha_def Cons_replicate_eq)
    qed
  qed
  then show ?thesis
    unfolding index_sound_def
    by (fastforce simp: node_at_def tbl_find_def demo_store_def demo_sha_def)
qed

theorem dedup_preserves_contents_witness:
  "fs_read (snd (snd (DeduplicateLFSObject demo_sha demo_dio ''abcd'' 2 (demo_sv_bw, demo_store)))) ''/s/.dedup/aa'' = Inr [1, 2]"
proof -
  obtain res sv' f' where h: "DeduplicateLFSObject demo_sha demo_dio ''abcd'' 2 (demo_sv_bw, demo_store) = (res, sv', f')"
    by (metis prod_cases3)
  have "fs_read demo_store ''/s/.dedup/aa'' = Inr [1, 2]"
    by (simp add: fs_read_def fs_stat_def fs_resolve_start node_at_def tbl_find_def demo_store_def numeral_eq_Suc)
  with dedup_preserves_contents [OF h demo_index] have "fs_read f' ''/s/.dedup/aa'' = Inr [1, 2]"
    unfolding demo_dedup_paths by (simp add: node_at_def tbl_find_def demo_store_def)
  with h show ?thesis by simp
qed

section \<open>Deduplicating the canonical copy\<close>

text \<open>
  Deduplicating an object that is itself the registered copy is reported as a duplicate of
  itself: the link and the rename are between two names of one file, so the rename does nothing
  and the temporary name stays. No space is saved, yet the statistics count all of it, and the
  next call on the object finds the leftover name and reports no duplicate.
\<close>

theorem dedup_of_canonical_copy:
  assumes "bc_LFSDedupEnabled (bs_cfg sv)" "bc_LFSStorePath (bs_cfg sv) \<noteq> []" "4 \<le> length oid"
    and obj: "obj = lfs_path (bc_LFSStorePath (bs_cfg sv)) oid" "node_at f obj = Some (File i)" "CHR 0x00 \<notin> set obj"
    and idx: "node_at f (path_join [dedup_dir (bc_LFSStorePath (bs_cfg sv)), sha256 (fs_data f i)]) = Some (Symlink obj)"
    and "node_at f (obj @ ''.dedup-tmp'') = None" "dio_read io" "dio_link io" "dio_rename io"
  shows "DeduplicateLFSObject sha256 io oid sz (sv, f) =
    (Inr \<lparr>dr_OID = oid, dr_SizeBytes = sz, dr_Duplicate = True, dr_LinkedFrom = obj, dr_BytesSaved = sz\<rparr>,
     sv\<lparr>bs_stats := dedup_hit sz (bs_stats sv)\<rparr>, set_node (obj @ ''.dedup-tmp'') (File i) f)"
proof -
  have read: "fs_read f obj = Inr (fs_data f i)" using obj(2,3) by (rule fs_read_file)
  have stat: "fs_stat f obj \<noteq> Inl ENOENT" using read by (auto simp: fs_read_def)
  have hash: "sha256File sha256 (dio_read io) obj f = Inr (sha256 (fs_data f i))"
    using read assms(9) by (simp add: sha256File_def)
  have link: "replace_by_link io obj obj f = (True, set_node (obj @ ''.dedup-tmp'') (File i) f)"
    using assms(8,10,11) obj(2) by (simp add: replace_by_link_def fs_link_def fs_rename_def Let_def)
  have rl: "fs_readlink f (path_join [dedup_dir (bc_LFSStorePath (bs_cfg sv)), sha256 (fs_data f i)]) = Inr obj"
    using idx by (simp add: fs_readlink_def)
  show ?thesis
    using assms(1-3) stat hash link rl
    by (simp add: DeduplicateLFSObject_def Let_def flip: obj(1))
qed

theorem dedup_of_canonical_copy_witness:
  "snd (snd (DeduplicateLFSObject demo_sha demo_dio ''abcd'' 2 (demo_sv_bw, demo_store)))
    = set_node ''/s/ab/cd/abcd.dedup-tmp'' (File 1) demo_store"
proof -
  have "path_join [dedup_dir (bc_LFSStorePath (bs_cfg demo_sv_bw)), demo_sha (fs_data demo_store 1)] = ''/s/.dedup/aa''"
  proof -
    have "demo_sha (fs_data demo_store 1) = ''aa''" by (simp add: demo_sha_def demo_store_def numeral_eq_Suc)
    then show ?thesis unfolding demo_dedup_paths(2) by (simp add: demo_dedup_paths(3))
  qed
  then show ?thesis
    using dedup_of_canonical_copy [OF _ _ _ demo_dedup_paths(1) [symmetric], of demo_store 1 demo_sha demo_dio 2]
    by (simp add: demo_sv_bw_def demo_bw_def demo_dio_def demo_store_def node_at_def tbl_find_def)
qed

section \<open>Where an object is looked for\<close>

text \<open>
  For an id of hex digits the object is inside the store; the length check does not ensure this,
  and an id with dots and slashes leads out of it.
\<close>

lemma lfs_path_inside:
  assumes "\<forall>c \<in> set cs. plain_comp c" "cs \<noteq> []" "4 \<le> length oid" "\<forall>c \<in> set oid. hex_val c \<noteq> None"
  shows "lfs_path (abs_path cs) oid = abs_path (cs @ [take 2 oid, take 2 (drop 2 oid), oid])"
proof -
  have hex: "plain_comp w" if "w \<noteq> []" "set w \<subseteq> set oid" for w
  proof -
    have "hex_val (CHR ''.'') = None" "hex_val (CHR ''/'') = None" by code_simp+
    then have "CHR ''.'' \<notin> set w" "CHR ''/'' \<notin> set w" using assms(4) that(2) by (metis subsetD)+
    with that(1) show ?thesis by (auto simp: plain_comp_def)
  qed
  have "set (take 2 oid) \<subseteq> set oid" "set (take 2 (drop 2 oid)) \<subseteq> set oid"
    by (auto dest: in_set_takeD in_set_dropD)
  moreover have "take 2 oid \<noteq> []" "take 2 (drop 2 oid) \<noteq> []" "oid \<noteq> []" using assms(3) by auto
  ultimately have "\<forall>c \<in> set (cs @ [take 2 oid, take 2 (drop 2 oid), oid]). plain_comp c"
    using assms(1) hex by auto
  from path_join_abs [OF this _ assms(2)] show ?thesis by (simp add: lfs_path_def)
qed

lemma lfs_path_outside: "lfs_path ''/srv/lfs'' ''../../../etc/passwd'' = ''/etc/passwd''"
  by code_simp

end
