(* ===== verification/Config.thy ===== *)
theory Config
  imports Http GoPath
begin

text \<open>
  Layered configuration, \<^verbatim>\<open>abstraction/config/loader.go\<close> and \<^verbatim>\<open>validate.go\<close>: the configuration
  tree, the merge of the YAML layers, the environment overrides and the validation. The YAML
  decoder is a parameter (it is a third-party package); so is the expansion of variables in the
  text of a layer, which is applied to the whole file before it.
\<close>

section \<open>The configuration tree\<close>

record gitlab_config =
  gl_Domain :: string
  gl_Edition :: string
  gl_AdminEmail :: string
  gl_AdminPassword :: string

record storage_credentials =
  cr_AccessKeyID :: string
  cr_SecretAccessKey :: string
  cr_GCSKeyFile :: string
  cr_AzureConnectionString :: string
  cr_AzureAccountName :: string
  cr_AzureAccountKey :: string

record storage_config =
  sc_Backend :: string
  sc_Path :: string
  sc_Provider :: string
  sc_Bucket :: string
  sc_Region :: string
  sc_Endpoint :: string
  sc_Credentials :: storage_credentials

record build_config =
  bu_Backend :: string
  bu_Socket :: string
  bu_CachePool :: string
  bu_ProjectID :: string
  bu_Token :: string
  bu_BuildKitVersion :: string

record runner_config =
  rn_Backend :: string
  rn_VMProfile :: string
  rn_Concurrent :: int
  rn_Org :: string
  rn_Token :: string
  rn_BlacksmithAPIURL :: string

record lfs_config =
  lf_Server :: string
  lf_Backend :: string
  lf_Path :: string
  lf_Encryption :: bool
  lf_EncryptionKey :: string

record ipfs_config =
  ip_Enabled :: bool
  ip_Node :: string
  ip_Gateway :: string

record environment_config =
  en_Backend :: string
  en_WorkspaceImage :: string
  en_IDE :: string
  en_IDEPort :: int
  en_Network :: string
  en_Token :: string
  en_GitpodDomain :: string

record cloud_config =
  cl_Enabled :: bool
  cl_Provider :: string

record registry_config =
  rg_Backend :: string
  rg_URL :: string

record adblock_config =
  ad_Enabled :: bool
  ad_ListenAddr :: string
  ad_ListsDir :: string
  ad_FilterCI :: bool
  ad_FilterWorkspaces :: bool

record rewards_section =
  rs_Enabled :: bool
  rs_PublisherID :: string
  rs_WalletAddress :: string
  rs_UpholdClientID :: string
  rs_UpholdClientSecret :: string
  rs_MinPayoutBAT :: f64
  rs_ListenAddr :: string
  rs_WebhookSecret :: string
  rs_DBPath :: string
  rs_BandwidthAddr :: string
  rs_EthRPCURL :: string
  rs_EthPrivateKey :: string
  rs_EthChainID :: int

record bandwidth_section =
  bn_Enabled :: bool
  bn_ListenAddr :: string
  bn_UpstreamGitLab :: string
  bn_CompressionLevel :: int
  bn_LFSDedupEnabled :: bool
  bn_ArtifactMaxSizeMB :: int
  bn_ArtifactRetentionDays :: int
  bn_CacheMaxSizeGB :: int
  bn_DBPath :: string

record config =
  cf_GitLab :: gitlab_config
  cf_Storage :: storage_config
  cf_Build :: build_config
  cf_Runner :: runner_config
  cf_LFS :: lfs_config
  cf_IPFS :: ipfs_config
  cf_Environment :: environment_config
  cf_Cloud :: cloud_config
  cf_Registry :: registry_config
  cf_Adblock :: adblock_config
  cf_Rewards :: rewards_section
  cf_Bandwidth :: bandwidth_section

definition zero_config :: config where
  "zero_config = \<lparr>
     cf_GitLab = \<lparr>gl_Domain = [], gl_Edition = [], gl_AdminEmail = [], gl_AdminPassword = []\<rparr>,
     cf_Storage = \<lparr>sc_Backend = [], sc_Path = [], sc_Provider = [], sc_Bucket = [], sc_Region = [], sc_Endpoint = [], sc_Credentials = \<lparr>cr_AccessKeyID = [], cr_SecretAccessKey = [], cr_GCSKeyFile = [], cr_AzureConnectionString = [], cr_AzureAccountName = [], cr_AzureAccountKey = []\<rparr>\<rparr>,
     cf_Build = \<lparr>bu_Backend = [], bu_Socket = [], bu_CachePool = [], bu_ProjectID = [], bu_Token = [], bu_BuildKitVersion = []\<rparr>,
     cf_Runner = \<lparr>rn_Backend = [], rn_VMProfile = [], rn_Concurrent = 0, rn_Org = [], rn_Token = [], rn_BlacksmithAPIURL = []\<rparr>,
     cf_LFS = \<lparr>lf_Server = [], lf_Backend = [], lf_Path = [], lf_Encryption = False, lf_EncryptionKey = []\<rparr>,
     cf_IPFS = \<lparr>ip_Enabled = False, ip_Node = [], ip_Gateway = []\<rparr>,
     cf_Environment = \<lparr>en_Backend = [], en_WorkspaceImage = [], en_IDE = [], en_IDEPort = 0, en_Network = [], en_Token = [], en_GitpodDomain = []\<rparr>,
     cf_Cloud = \<lparr>cl_Enabled = False, cl_Provider = []\<rparr>,
     cf_Registry = \<lparr>rg_Backend = [], rg_URL = []\<rparr>,
     cf_Adblock = \<lparr>ad_Enabled = False, ad_ListenAddr = [], ad_ListsDir = [], ad_FilterCI = False, ad_FilterWorkspaces = False\<rparr>,
     cf_Rewards = \<lparr>rs_Enabled = False, rs_PublisherID = [], rs_WalletAddress = [], rs_UpholdClientID = [], rs_UpholdClientSecret = [], rs_MinPayoutBAT = f64_zero, rs_ListenAddr = [], rs_WebhookSecret = [], rs_DBPath = [], rs_BandwidthAddr = [], rs_EthRPCURL = [], rs_EthPrivateKey = [], rs_EthChainID = 0\<rparr>,
     cf_Bandwidth = \<lparr>bn_Enabled = False, bn_ListenAddr = [], bn_UpstreamGitLab = [], bn_CompressionLevel = 0, bn_LFSDedupEnabled = False, bn_ArtifactMaxSizeMB = 0, bn_ArtifactRetentionDays = 0, bn_CacheMaxSizeGB = 0, bn_DBPath = []\<rparr>\<rparr>"

section \<open>Scanning numbers\<close>

text \<open>
  \<^verbatim>\<open>Sscanf\<close> with \<^verbatim>\<open>%d\<close>: spaces, a sign, digits; what follows the digits is not looked at. An
  integer out of range is an error.
\<close>

definition scan_space :: "char \<Rightarrow> bool" where
  "scan_space c \<longleftrightarrow> c = CHR '' '' \<or> (of_char c :: nat) \<in> {9, 11, 12, 13}"

definition scan_int :: "string \<Rightarrow> int option" where
  "scan_int s =
     (let s = dropWhile scan_space s;
          (neg, s) = (case s of [] \<Rightarrow> (False, []) | c # cs \<Rightarrow>
             if c = CHR ''-'' then (True, cs) else if c = CHR ''+'' then (False, cs) else (False, c # cs));
          ds = takeWhile is_digit s;
          n = (if neg then - int (read_nat ds) else int (read_nat ds))
      in if ds = [] \<or> \<not> in64 n then None else Some n)"

text \<open>
  \<^verbatim>\<open>%f\<close> in decimal notation: sign, digits, a fraction, an exponent; the value rounded to the
  nearest double. (The spellings of infinity, NaN and hexadecimal floats are not modelled.)
\<close>

definition f64_of_decimal :: "int \<Rightarrow> int \<Rightarrow> f64" where
  \<comment> \<open>the double nearest to \<open>n * 10 ^ k\<close>\<close>
  "f64_of_decimal n k =
     (if 0 \<le> k then to_f64 (rnd 53 (n * 10 ^ nat k) 0)
      else f64_div (Fin n 0) (Fin (10 ^ nat (- k)) 0))"

definition scan_float :: "string \<Rightarrow> f64 option" where
  "scan_float s =
     (let s = dropWhile scan_space s;
          (neg, s) = (case s of [] \<Rightarrow> (False, []) | c # cs \<Rightarrow>
             if c = CHR ''-'' then (True, cs) else if c = CHR ''+'' then (False, cs) else (False, c # cs));
          ds = takeWhile is_digit s; s = dropWhile is_digit s;
          fs = (case s of [] \<Rightarrow> [] | c # cs \<Rightarrow> if c = CHR ''.'' then takeWhile is_digit cs else []);
          s = (case s of [] \<Rightarrow> [] | c # cs \<Rightarrow> if c = CHR ''.'' then dropWhile is_digit cs else c # cs);
          ex = (case s of [] \<Rightarrow> Some 0 | c # cs \<Rightarrow>
             if c = CHR ''e'' \<or> c = CHR ''E'' then scan_int cs else Some 0);
          n = int (read_nat (ds @ fs))
      in if ds @ fs = [] then None
         else case ex of None \<Rightarrow> None
           | Some k \<Rightarrow> Some (f64_of_decimal (if neg then - n else n) (k - int (length fs))))"

section \<open>Environment overrides\<close>

text \<open>
  The environment is the function \<^verbatim>\<open>os.Getenv\<close>; an unset variable reads as the empty string.
  The tables below are the ones of \<^verbatim>\<open>applyEnvOverrides\<close>, each entry with the update of its field.
\<close>

definition env_name :: "string \<Rightarrow> string" where
  "env_name s = ''GITLAB_ENHANCED_'' @ s"

text \<open>Setting a field of one section.\<close>

definition on_GitLab :: "('v \<Rightarrow> gitlab_config \<Rightarrow> gitlab_config) \<Rightarrow> 'v \<Rightarrow> config \<Rightarrow> config" where
  "on_GitLab h = (\<lambda>v c. c\<lparr>cf_GitLab := h v (cf_GitLab c)\<rparr>)"

definition on_Storage :: "('v \<Rightarrow> storage_config \<Rightarrow> storage_config) \<Rightarrow> 'v \<Rightarrow> config \<Rightarrow> config" where
  "on_Storage h = (\<lambda>v c. c\<lparr>cf_Storage := h v (cf_Storage c)\<rparr>)"

definition on_Build :: "('v \<Rightarrow> build_config \<Rightarrow> build_config) \<Rightarrow> 'v \<Rightarrow> config \<Rightarrow> config" where
  "on_Build h = (\<lambda>v c. c\<lparr>cf_Build := h v (cf_Build c)\<rparr>)"

definition on_Runner :: "('v \<Rightarrow> runner_config \<Rightarrow> runner_config) \<Rightarrow> 'v \<Rightarrow> config \<Rightarrow> config" where
  "on_Runner h = (\<lambda>v c. c\<lparr>cf_Runner := h v (cf_Runner c)\<rparr>)"

definition on_LFS :: "('v \<Rightarrow> lfs_config \<Rightarrow> lfs_config) \<Rightarrow> 'v \<Rightarrow> config \<Rightarrow> config" where
  "on_LFS h = (\<lambda>v c. c\<lparr>cf_LFS := h v (cf_LFS c)\<rparr>)"

definition on_IPFS :: "('v \<Rightarrow> ipfs_config \<Rightarrow> ipfs_config) \<Rightarrow> 'v \<Rightarrow> config \<Rightarrow> config" where
  "on_IPFS h = (\<lambda>v c. c\<lparr>cf_IPFS := h v (cf_IPFS c)\<rparr>)"

definition on_Environment :: "('v \<Rightarrow> environment_config \<Rightarrow> environment_config) \<Rightarrow> 'v \<Rightarrow> config \<Rightarrow> config" where
  "on_Environment h = (\<lambda>v c. c\<lparr>cf_Environment := h v (cf_Environment c)\<rparr>)"

definition on_Cloud :: "('v \<Rightarrow> cloud_config \<Rightarrow> cloud_config) \<Rightarrow> 'v \<Rightarrow> config \<Rightarrow> config" where
  "on_Cloud h = (\<lambda>v c. c\<lparr>cf_Cloud := h v (cf_Cloud c)\<rparr>)"

definition on_Adblock :: "('v \<Rightarrow> adblock_config \<Rightarrow> adblock_config) \<Rightarrow> 'v \<Rightarrow> config \<Rightarrow> config" where
  "on_Adblock h = (\<lambda>v c. c\<lparr>cf_Adblock := h v (cf_Adblock c)\<rparr>)"

definition on_Rewards :: "('v \<Rightarrow> rewards_section \<Rightarrow> rewards_section) \<Rightarrow> 'v \<Rightarrow> config \<Rightarrow> config" where
  "on_Rewards h = (\<lambda>v c. c\<lparr>cf_Rewards := h v (cf_Rewards c)\<rparr>)"

definition on_Bandwidth :: "('v \<Rightarrow> bandwidth_section \<Rightarrow> bandwidth_section) \<Rightarrow> 'v \<Rightarrow> config \<Rightarrow> config" where
  "on_Bandwidth h = (\<lambda>v c. c\<lparr>cf_Bandwidth := h v (cf_Bandwidth c)\<rparr>)"

lemmas on_section_defs = on_GitLab_def on_Storage_def on_Build_def on_Runner_def on_LFS_def on_IPFS_def on_Environment_def on_Cloud_def on_Adblock_def on_Rewards_def on_Bandwidth_def

definition string_overrides :: "(string \<times> (string \<Rightarrow> config \<Rightarrow> config)) list" where
  "string_overrides = [
     (''GITLAB_DOMAIN'', on_GitLab (\<lambda>v s. s\<lparr>gl_Domain := v\<rparr>)),
     (''GITLAB_ADMIN_EMAIL'', on_GitLab (\<lambda>v s. s\<lparr>gl_AdminEmail := v\<rparr>)),
     (''GITLAB_ADMIN_PASSWORD'', on_GitLab (\<lambda>v s. s\<lparr>gl_AdminPassword := v\<rparr>)),
     (''STORAGE_BACKEND'', on_Storage (\<lambda>v s. s\<lparr>sc_Backend := v\<rparr>)),
     (''STORAGE_PATH'', on_Storage (\<lambda>v s. s\<lparr>sc_Path := v\<rparr>)),
     (''BUILD_BACKEND'', on_Build (\<lambda>v s. s\<lparr>bu_Backend := v\<rparr>)),
     (''BUILD_BUILDKIT_VERSION'', on_Build (\<lambda>v s. s\<lparr>bu_BuildKitVersion := v\<rparr>)),
     (''RUNNER_BACKEND'', on_Runner (\<lambda>v s. s\<lparr>rn_Backend := v\<rparr>)),
     (''RUNNER_BLACKSMITH_API_URL'', on_Runner (\<lambda>v s. s\<lparr>rn_BlacksmithAPIURL := v\<rparr>)),
     (''LFS_SERVER'', on_LFS (\<lambda>v s. s\<lparr>lf_Server := v\<rparr>)),
     (''LFS_BACKEND'', on_LFS (\<lambda>v s. s\<lparr>lf_Backend := v\<rparr>)),
     (''LFS_ENCRYPTION_KEY'', on_LFS (\<lambda>v s. s\<lparr>lf_EncryptionKey := v\<rparr>)),
     (''ENVIRONMENT_BACKEND'', on_Environment (\<lambda>v s. s\<lparr>en_Backend := v\<rparr>)),
     (''CLOUD_PROVIDER'', on_Cloud (\<lambda>v s. s\<lparr>cl_Provider := v\<rparr>)),
     (''ADBLOCK_LISTEN_ADDR'', on_Adblock (\<lambda>v s. s\<lparr>ad_ListenAddr := v\<rparr>)),
     (''ADBLOCK_LISTS_DIR'', on_Adblock (\<lambda>v s. s\<lparr>ad_ListsDir := v\<rparr>)),
     (''REWARDS_PUBLISHER_ID'', on_Rewards (\<lambda>v s. s\<lparr>rs_PublisherID := v\<rparr>)),
     (''REWARDS_WALLET_ADDRESS'', on_Rewards (\<lambda>v s. s\<lparr>rs_WalletAddress := v\<rparr>)),
     (''REWARDS_UPHOLD_CLIENT_ID'', on_Rewards (\<lambda>v s. s\<lparr>rs_UpholdClientID := v\<rparr>)),
     (''REWARDS_UPHOLD_CLIENT_SECRET'', on_Rewards (\<lambda>v s. s\<lparr>rs_UpholdClientSecret := v\<rparr>)),
     (''REWARDS_LISTEN_ADDR'', on_Rewards (\<lambda>v s. s\<lparr>rs_ListenAddr := v\<rparr>)),
     (''REWARDS_WEBHOOK_SECRET'', on_Rewards (\<lambda>v s. s\<lparr>rs_WebhookSecret := v\<rparr>)),
     (''REWARDS_DB_PATH'', on_Rewards (\<lambda>v s. s\<lparr>rs_DBPath := v\<rparr>)),
     (''REWARDS_BANDWIDTH_ADDR'', on_Rewards (\<lambda>v s. s\<lparr>rs_BandwidthAddr := v\<rparr>)),
     (''REWARDS_ETH_RPC_URL'', on_Rewards (\<lambda>v s. s\<lparr>rs_EthRPCURL := v\<rparr>)),
     (''REWARDS_ETH_PRIVATE_KEY'', on_Rewards (\<lambda>v s. s\<lparr>rs_EthPrivateKey := v\<rparr>)),
     (''BANDWIDTH_LISTEN_ADDR'', on_Bandwidth (\<lambda>v s. s\<lparr>bn_ListenAddr := v\<rparr>)),
     (''BANDWIDTH_UPSTREAM_GITLAB'', on_Bandwidth (\<lambda>v s. s\<lparr>bn_UpstreamGitLab := v\<rparr>)),
     (''BANDWIDTH_DB_PATH'', on_Bandwidth (\<lambda>v s. s\<lparr>bn_DBPath := v\<rparr>))]"

definition bool_overrides :: "(string \<times> (bool \<Rightarrow> config \<Rightarrow> config)) list" where
  "bool_overrides = [
     (''CLOUD_ENABLED'', on_Cloud (\<lambda>v s. s\<lparr>cl_Enabled := v\<rparr>)),
     (''IPFS_ENABLED'', on_IPFS (\<lambda>v s. s\<lparr>ip_Enabled := v\<rparr>)),
     (''ADBLOCK_ENABLED'', on_Adblock (\<lambda>v s. s\<lparr>ad_Enabled := v\<rparr>)),
     (''ADBLOCK_FILTER_CI'', on_Adblock (\<lambda>v s. s\<lparr>ad_FilterCI := v\<rparr>)),
     (''ADBLOCK_FILTER_WORKSPACES'', on_Adblock (\<lambda>v s. s\<lparr>ad_FilterWorkspaces := v\<rparr>)),
     (''REWARDS_ENABLED'', on_Rewards (\<lambda>v s. s\<lparr>rs_Enabled := v\<rparr>)),
     (''BANDWIDTH_ENABLED'', on_Bandwidth (\<lambda>v s. s\<lparr>bn_Enabled := v\<rparr>)),
     (''BANDWIDTH_LFS_DEDUP_ENABLED'', on_Bandwidth (\<lambda>v s. s\<lparr>bn_LFSDedupEnabled := v\<rparr>)),
     (''LFS_ENCRYPTION'', on_LFS (\<lambda>v s. s\<lparr>lf_Encryption := v\<rparr>))]"

definition int_overrides :: "(string \<times> (int \<Rightarrow> config \<Rightarrow> config)) list" where
  "int_overrides = [
     (''RUNNER_CONCURRENT'', on_Runner (\<lambda>v s. s\<lparr>rn_Concurrent := v\<rparr>)),
     (''ENVIRONMENT_IDE_PORT'', on_Environment (\<lambda>v s. s\<lparr>en_IDEPort := v\<rparr>)),
     (''BANDWIDTH_COMPRESSION_LEVEL'', on_Bandwidth (\<lambda>v s. s\<lparr>bn_CompressionLevel := v\<rparr>)),
     (''BANDWIDTH_ARTIFACT_MAX_SIZE_MB'', on_Bandwidth (\<lambda>v s. s\<lparr>bn_ArtifactMaxSizeMB := v\<rparr>)),
     (''BANDWIDTH_ARTIFACT_RETENTION_DAYS'', on_Bandwidth (\<lambda>v s. s\<lparr>bn_ArtifactRetentionDays := v\<rparr>)),
     (''BANDWIDTH_CACHE_MAX_SIZE_GB'', on_Bandwidth (\<lambda>v s. s\<lparr>bn_CacheMaxSizeGB := v\<rparr>))]"

definition override_string :: "(string \<Rightarrow> string) \<Rightarrow> string \<times> (string \<Rightarrow> config \<Rightarrow> config) \<Rightarrow> config \<Rightarrow> config" where
  "override_string env p c = (let v = env (env_name (fst p)) in if v \<noteq> [] then snd p v c else c)"

definition override_bool :: "(string \<Rightarrow> string) \<Rightarrow> string \<times> (bool \<Rightarrow> config \<Rightarrow> config) \<Rightarrow> config \<Rightarrow> config" where
  "override_bool env p c =
     (let v = to_lower (env (env_name (fst p))) in if v = ''true'' \<or> v = ''1'' then snd p True c else c)"

definition override_int :: "(string \<Rightarrow> string) \<Rightarrow> string \<times> (int \<Rightarrow> config \<Rightarrow> config) \<Rightarrow> config \<Rightarrow> config" where
  "override_int env p c =
     (let v = env (env_name (fst p)) in
      if v \<noteq> [] then (case scan_int v of Some n \<Rightarrow> snd p n c | None \<Rightarrow> c) else c)"

definition override_chain_id :: "(string \<Rightarrow> string) \<Rightarrow> config \<Rightarrow> config" where
  "override_chain_id env c =
     (let v = env (env_name ''REWARDS_ETH_CHAIN_ID'') in
      if v \<noteq> [] then (case scan_int v of Some n \<Rightarrow> c\<lparr>cf_Rewards := (cf_Rewards c)\<lparr>rs_EthChainID := n\<rparr>\<rparr> | None \<Rightarrow> c) else c)"

definition override_min_payout :: "(string \<Rightarrow> string) \<Rightarrow> config \<Rightarrow> config" where
  "override_min_payout env c =
     (let v = env (env_name ''REWARDS_MIN_PAYOUT_BAT'') in
      if v \<noteq> [] then (case scan_float v of Some x \<Rightarrow> c\<lparr>cf_Rewards := (cf_Rewards c)\<lparr>rs_MinPayoutBAT := x\<rparr>\<rparr> | None \<Rightarrow> c) else c)"

text \<open>
  The string table is a Go map, walked in an unspecified order: the order is the argument
  \<open>order\<close>, a list of the table's entries.
\<close>

definition applyEnvOverrides ::
    "(string \<Rightarrow> string) \<Rightarrow> (string \<times> (string \<Rightarrow> config \<Rightarrow> config)) list \<Rightarrow> config \<Rightarrow> config" where
  "applyEnvOverrides env order c =
     (let c = fold (override_string env) order c;
          c = fold (override_bool env) bool_overrides c;
          c = fold (override_int env) int_overrides c;
          c = override_chain_id env c
      in override_min_payout env c)"

section \<open>Loading\<close>

datatype read_result = ReadMissing | ReadError string | ReadOk string

datatype load_config_error = ReadFailed string string | YamlFailed string string

definition mergeFile ::
    "(string \<Rightarrow> string) \<Rightarrow> (string \<Rightarrow> config \<Rightarrow> string + config) \<Rightarrow> (string \<Rightarrow> read_result) \<Rightarrow> string \<Rightarrow> config
     \<Rightarrow> (load_config_error, config) result" where
  "mergeFile expand yaml files path cfg =
     (case files path of
        ReadMissing \<Rightarrow> Inr cfg
      | ReadError e \<Rightarrow> Inl (ReadFailed path e)
      | ReadOk data \<Rightarrow> (case yaml (expand data) cfg of Inl e \<Rightarrow> Inl (YamlFailed path e) | Inr c \<Rightarrow> Inr c))"

definition Load ::
    "(string \<Rightarrow> string) \<Rightarrow> (string \<Rightarrow> config \<Rightarrow> string + config) \<Rightarrow> (string \<Rightarrow> read_result) \<Rightarrow> (string \<Rightarrow> string)
     \<Rightarrow> (string \<times> (string \<Rightarrow> config \<Rightarrow> config)) list \<Rightarrow> string \<Rightarrow> (load_config_error, config) result" where
  "Load expand yaml files env order root =
     (case mergeFile expand yaml files (path_join [root, ''config'', ''defaults.yaml'']) zero_config of
        Inl e \<Rightarrow> Inl e
      | Inr cfg \<Rightarrow>
          (case mergeFile expand yaml files (path_join [root, ''config'', ''local.yaml'']) cfg of
             Inl e \<Rightarrow> Inl e
           | Inr cfg \<Rightarrow>
               (case (if cl_Enabled (cf_Cloud cfg)
                      then mergeFile expand yaml files (path_join [root, ''config'', ''cloud.yaml'']) cfg
                      else Inr cfg) of
                  Inl e \<Rightarrow> Inl e
                | Inr cfg \<Rightarrow> Inr (applyEnvOverrides env order cfg))))"

section \<open>Validation\<close>

text \<open>One constructor per message; the argument is what the message quotes.\<close>

datatype issue =
    DomainRequired | EditionInvalid string
  | StorageProviderRequired | StorageBucketRequired | StorageEndpointRequired string
  | StorageProviderUnknown string | StorageBackendUnknown string
  | BuildProjectRequired | BuildTokenRequired | BuildBackendUnknown string
  | RunnerTokenRequired | RunnerURLRequired | RunnerBackendUnknown string
  | LFSServerUnknown string | LFSKeyRequired
  | CloudProviderRequired | CloudProviderUnknown string
  | WebhookSecretRequired | NoPayoutMethod | UpholdSecretRequired | EthRPCRequired | EthKeyRequired
  | MinPayoutNegative f64
  | CompressionLevelRange int | ArtifactSizeNegative int | ArtifactDaysNegative int

definition validateGitLab :: "config \<Rightarrow> issue list" where
  "validateGitLab c =
     (if gl_Domain (cf_GitLab c) = [] then [DomainRequired] else [])
     @ (let e = gl_Edition (cf_GitLab c) in
        if e \<noteq> [] \<and> e \<noteq> ''ce'' \<and> e \<noteq> ''ee'' then [EditionInvalid e] else [])"

definition validateStorage :: "config \<Rightarrow> issue list" where
  "validateStorage c =
     (let s = cf_Storage c; b = sc_Backend s in
      if b = [] \<or> b = ''local'' then []
      else if b = ''cloud'' then
        (if sc_Provider s = [] then [StorageProviderRequired] else [])
        @ (if sc_Bucket s = [] then [StorageBucketRequired] else [])
        @ (let p = to_lower (sc_Provider s) in
           if p = ''minio'' \<or> p = ''ceph'' \<or> p = ''r2''
           then (if sc_Endpoint s = [] then [StorageEndpointRequired (sc_Provider s)] else [])
           else if p = ''aws'' \<or> p = ''gcs'' \<or> p = ''azure'' \<or> p = [] then []
           else [StorageProviderUnknown (sc_Provider s)])
      else if b = ''ipfs'' \<or> b = ''chain'' then []
      else [StorageBackendUnknown b])"

definition validateBuild :: "config \<Rightarrow> issue list" where
  "validateBuild c =
     (let s = cf_Build c; b = bu_Backend s in
      if b = [] \<or> b = ''incus'' then []
      else if b = ''depot'' then
        (if bu_ProjectID s = [] then [BuildProjectRequired] else [])
        @ (if bu_Token s = [] then [BuildTokenRequired] else [])
      else [BuildBackendUnknown b])"

definition validateRunner :: "config \<Rightarrow> issue list" where
  "validateRunner c =
     (let s = cf_Runner c; b = rn_Backend s in
      if b = [] \<or> b = ''incus'' then []
      else if b = ''blacksmith'' then
        (if rn_Token s = [] then [RunnerTokenRequired] else [])
        @ (if rn_BlacksmithAPIURL s = [] then [RunnerURLRequired] else [])
      else [RunnerBackendUnknown b])"

definition validateLFS :: "config \<Rightarrow> issue list" where
  "validateLFS c =
     (let s = cf_LFS c; v = lf_Server s in
      (if v = [] \<or> v = ''rudolfs'' \<or> v = ''giftless'' \<or> v = ''lfs-test-server'' then [] else [LFSServerUnknown v])
      @ (if lf_Encryption s \<and> lf_EncryptionKey s = [] then [LFSKeyRequired] else []))"

definition validateCloud :: "config \<Rightarrow> issue list" where
  "validateCloud c =
     (let s = cf_Cloud c; p = to_lower (cl_Provider s) in
      if \<not> cl_Enabled s then []
      else if p = ''aws'' \<or> p = ''gcp'' \<or> p = ''azure'' then []
      else if p = [] then [CloudProviderRequired]
      else [CloudProviderUnknown (cl_Provider s)])"

definition validateRewards :: "config \<Rightarrow> issue list" where
  "validateRewards c =
     (let r = cf_Rewards c; custodial = rs_UpholdClientID r \<noteq> []; nonCustodial = rs_WalletAddress r \<noteq> [] in
      if \<not> rs_Enabled r then []
      else
        (if rs_WebhookSecret r = [] then [WebhookSecretRequired] else [])
        @ (if \<not> custodial \<and> \<not> nonCustodial then [NoPayoutMethod] else [])
        @ (if custodial \<and> rs_UpholdClientSecret r = [] then [UpholdSecretRequired] else [])
        @ (if nonCustodial \<and> \<not> custodial
           then (if rs_EthRPCURL r = [] then [EthRPCRequired] else [])
                @ (if rs_EthPrivateKey r = [] then [EthKeyRequired] else [])
           else [])
        @ (if f64_less (rs_MinPayoutBAT r) f64_zero then [MinPayoutNegative (rs_MinPayoutBAT r)] else []))"

definition validateBandwidth :: "config \<Rightarrow> issue list" where
  "validateBandwidth c =
     (let b = cf_Bandwidth c in
      if \<not> bn_Enabled b then []
      else
        (if bn_CompressionLevel b < 0 \<or> 9 < bn_CompressionLevel b then [CompressionLevelRange (bn_CompressionLevel b)] else [])
        @ (if bn_ArtifactMaxSizeMB b < 0 then [ArtifactSizeNegative (bn_ArtifactMaxSizeMB b)] else [])
        @ (if bn_ArtifactRetentionDays b < 0 then [ArtifactDaysNegative (bn_ArtifactRetentionDays b)] else []))"

text \<open>\<^const>\<open>None\<close> is a valid configuration.\<close>

definition Validate :: "config \<Rightarrow> issue list option" where
  "Validate c =
     (let issues = validateGitLab c @ validateStorage c @ validateBuild c @ validateRunner c @ validateLFS c
        @ validateCloud c @ validateRewards c @ validateBandwidth c
      in if issues \<noteq> [] then Some issues else None)"

lemma Validate_None:
  "Validate c = None \<longleftrightarrow> validateGitLab c = [] \<and> validateStorage c = [] \<and> validateBuild c = []
    \<and> validateRunner c = [] \<and> validateLFS c = [] \<and> validateCloud c = [] \<and> validateRewards c = []
    \<and> validateBandwidth c = []"
  by (auto simp: Validate_def Let_def)

end
