(* ===== verification/ConfigProps.thy ===== *)
theory ConfigProps
  imports Config "HOL-Library.Multiset"
begin

text \<open>
  Properties of the configuration: the environment overrides do not depend on the order in which
  they are applied and can only switch features on, and a validated rewards section gives the
  rewards service a payout method.
\<close>

section \<open>Overrides do not depend on the order\<close>

text \<open>Two different entries of the string table set different fields.\<close>

definition commuting :: "(string \<times> ('v \<Rightarrow> config \<Rightarrow> config)) \<Rightarrow> (string \<times> ('v \<Rightarrow> config \<Rightarrow> config)) \<Rightarrow> bool" where
  "commuting p q \<longleftrightarrow> (\<forall>v w c. snd p v (snd q w c) = snd q w (snd p v c))"

lemma sorted_wrt_cases:
  "sorted_wrt P xs \<Longrightarrow> x \<in> set xs \<Longrightarrow> y \<in> set xs \<Longrightarrow> x = y \<or> P x y \<or> P y x"
  by (induction xs) auto

lemma commuting_sections:
  "commuting (m, on_GitLab f_GitLab) (n, on_Storage f_Storage)"
  "commuting (m, on_GitLab f_GitLab) (n, on_Build f_Build)"
  "commuting (m, on_GitLab f_GitLab) (n, on_Runner f_Runner)"
  "commuting (m, on_GitLab f_GitLab) (n, on_LFS f_LFS)"
  "commuting (m, on_GitLab f_GitLab) (n, on_IPFS f_IPFS)"
  "commuting (m, on_GitLab f_GitLab) (n, on_Environment f_Environment)"
  "commuting (m, on_GitLab f_GitLab) (n, on_Cloud f_Cloud)"
  "commuting (m, on_GitLab f_GitLab) (n, on_Adblock f_Adblock)"
  "commuting (m, on_GitLab f_GitLab) (n, on_Rewards f_Rewards)"
  "commuting (m, on_GitLab f_GitLab) (n, on_Bandwidth f_Bandwidth)"
  "commuting (m, on_Storage f_Storage) (n, on_Build f_Build)"
  "commuting (m, on_Storage f_Storage) (n, on_Runner f_Runner)"
  "commuting (m, on_Storage f_Storage) (n, on_LFS f_LFS)"
  "commuting (m, on_Storage f_Storage) (n, on_IPFS f_IPFS)"
  "commuting (m, on_Storage f_Storage) (n, on_Environment f_Environment)"
  "commuting (m, on_Storage f_Storage) (n, on_Cloud f_Cloud)"
  "commuting (m, on_Storage f_Storage) (n, on_Adblock f_Adblock)"
  "commuting (m, on_Storage f_Storage) (n, on_Rewards f_Rewards)"
  "commuting (m, on_Storage f_Storage) (n, on_Bandwidth f_Bandwidth)"
  "commuting (m, on_Build f_Build) (n, on_Runner f_Runner)"
  "commuting (m, on_Build f_Build) (n, on_LFS f_LFS)"
  "commuting (m, on_Build f_Build) (n, on_IPFS f_IPFS)"
  "commuting (m, on_Build f_Build) (n, on_Environment f_Environment)"
  "commuting (m, on_Build f_Build) (n, on_Cloud f_Cloud)"
  "commuting (m, on_Build f_Build) (n, on_Adblock f_Adblock)"
  "commuting (m, on_Build f_Build) (n, on_Rewards f_Rewards)"
  "commuting (m, on_Build f_Build) (n, on_Bandwidth f_Bandwidth)"
  "commuting (m, on_Runner f_Runner) (n, on_LFS f_LFS)"
  "commuting (m, on_Runner f_Runner) (n, on_IPFS f_IPFS)"
  "commuting (m, on_Runner f_Runner) (n, on_Environment f_Environment)"
  "commuting (m, on_Runner f_Runner) (n, on_Cloud f_Cloud)"
  "commuting (m, on_Runner f_Runner) (n, on_Adblock f_Adblock)"
  "commuting (m, on_Runner f_Runner) (n, on_Rewards f_Rewards)"
  "commuting (m, on_Runner f_Runner) (n, on_Bandwidth f_Bandwidth)"
  "commuting (m, on_LFS f_LFS) (n, on_IPFS f_IPFS)"
  "commuting (m, on_LFS f_LFS) (n, on_Environment f_Environment)"
  "commuting (m, on_LFS f_LFS) (n, on_Cloud f_Cloud)"
  "commuting (m, on_LFS f_LFS) (n, on_Adblock f_Adblock)"
  "commuting (m, on_LFS f_LFS) (n, on_Rewards f_Rewards)"
  "commuting (m, on_LFS f_LFS) (n, on_Bandwidth f_Bandwidth)"
  "commuting (m, on_IPFS f_IPFS) (n, on_Environment f_Environment)"
  "commuting (m, on_IPFS f_IPFS) (n, on_Cloud f_Cloud)"
  "commuting (m, on_IPFS f_IPFS) (n, on_Adblock f_Adblock)"
  "commuting (m, on_IPFS f_IPFS) (n, on_Rewards f_Rewards)"
  "commuting (m, on_IPFS f_IPFS) (n, on_Bandwidth f_Bandwidth)"
  "commuting (m, on_Environment f_Environment) (n, on_Cloud f_Cloud)"
  "commuting (m, on_Environment f_Environment) (n, on_Adblock f_Adblock)"
  "commuting (m, on_Environment f_Environment) (n, on_Rewards f_Rewards)"
  "commuting (m, on_Environment f_Environment) (n, on_Bandwidth f_Bandwidth)"
  "commuting (m, on_Cloud f_Cloud) (n, on_Adblock f_Adblock)"
  "commuting (m, on_Cloud f_Cloud) (n, on_Rewards f_Rewards)"
  "commuting (m, on_Cloud f_Cloud) (n, on_Bandwidth f_Bandwidth)"
  "commuting (m, on_Adblock f_Adblock) (n, on_Rewards f_Rewards)"
  "commuting (m, on_Adblock f_Adblock) (n, on_Bandwidth f_Bandwidth)"
  "commuting (m, on_Rewards f_Rewards) (n, on_Bandwidth f_Bandwidth)"
  by (simp_all add: commuting_def on_section_defs)

lemma commuting_same_section:
  "(\<And>v w s. f_GitLab v (h_GitLab w s) = h_GitLab w (f_GitLab v s)) \<Longrightarrow> commuting (m, on_GitLab f_GitLab) (n, on_GitLab h_GitLab)"
  "(\<And>v w s. f_Storage v (h_Storage w s) = h_Storage w (f_Storage v s)) \<Longrightarrow> commuting (m, on_Storage f_Storage) (n, on_Storage h_Storage)"
  "(\<And>v w s. f_Build v (h_Build w s) = h_Build w (f_Build v s)) \<Longrightarrow> commuting (m, on_Build f_Build) (n, on_Build h_Build)"
  "(\<And>v w s. f_Runner v (h_Runner w s) = h_Runner w (f_Runner v s)) \<Longrightarrow> commuting (m, on_Runner f_Runner) (n, on_Runner h_Runner)"
  "(\<And>v w s. f_LFS v (h_LFS w s) = h_LFS w (f_LFS v s)) \<Longrightarrow> commuting (m, on_LFS f_LFS) (n, on_LFS h_LFS)"
  "(\<And>v w s. f_IPFS v (h_IPFS w s) = h_IPFS w (f_IPFS v s)) \<Longrightarrow> commuting (m, on_IPFS f_IPFS) (n, on_IPFS h_IPFS)"
  "(\<And>v w s. f_Environment v (h_Environment w s) = h_Environment w (f_Environment v s)) \<Longrightarrow> commuting (m, on_Environment f_Environment) (n, on_Environment h_Environment)"
  "(\<And>v w s. f_Cloud v (h_Cloud w s) = h_Cloud w (f_Cloud v s)) \<Longrightarrow> commuting (m, on_Cloud f_Cloud) (n, on_Cloud h_Cloud)"
  "(\<And>v w s. f_Adblock v (h_Adblock w s) = h_Adblock w (f_Adblock v s)) \<Longrightarrow> commuting (m, on_Adblock f_Adblock) (n, on_Adblock h_Adblock)"
  "(\<And>v w s. f_Rewards v (h_Rewards w s) = h_Rewards w (f_Rewards v s)) \<Longrightarrow> commuting (m, on_Rewards f_Rewards) (n, on_Rewards h_Rewards)"
  "(\<And>v w s. f_Bandwidth v (h_Bandwidth w s) = h_Bandwidth w (f_Bandwidth v s)) \<Longrightarrow> commuting (m, on_Bandwidth f_Bandwidth) (n, on_Bandwidth h_Bandwidth)"
  by (simp_all add: commuting_def on_section_defs)

lemma string_overrides_commute: "sorted_wrt commuting string_overrides"
  by (simp add: string_overrides_def commuting_sections commuting_same_section)

lemma override_string_commute:
  assumes "p \<in> set string_overrides" "q \<in> set string_overrides"
  shows "override_string env p \<circ> override_string env q = override_string env q \<circ> override_string env p"
proof -
  have "p = q \<or> commuting p q \<or> commuting q p"
    using sorted_wrt_cases [OF string_overrides_commute assms] .
  then show ?thesis by (auto simp: fun_eq_iff override_string_def commuting_def Let_def)
qed

text \<open>
  The string overrides are kept in a Go map, walked in an unspecified order: whatever the
  order, the resulting configuration is the same.
\<close>

theorem env_overrides_order_irrelevant:
  assumes "mset order = mset string_overrides"
  shows "applyEnvOverrides env order c = applyEnvOverrides env string_overrides c"
proof -
  have set: "set order = set string_overrides" using assms by (rule mset_eq_setD)
  have "fold (override_string env) order = fold (override_string env) string_overrides"
    by (rule fold_multiset_equiv [OF _ assms]) (simp add: set override_string_commute)
  then show ?thesis by (simp add: applyEnvOverrides_def)
qed

theorem env_overrides_order_irrelevant_witness:
  "applyEnvOverrides (\<lambda>_. ''x'') (rev string_overrides) zero_config
    = applyEnvOverrides (\<lambda>_. ''x'') string_overrides zero_config"
  by (rule env_overrides_order_irrelevant) simp

section \<open>Booleans\<close>

definition enabled_flags :: "config \<Rightarrow> bool list" where
  "enabled_flags c = [cl_Enabled (cf_Cloud c), ip_Enabled (cf_IPFS c), ad_Enabled (cf_Adblock c),
     ad_FilterCI (cf_Adblock c), ad_FilterWorkspaces (cf_Adblock c), rs_Enabled (cf_Rewards c),
     bn_Enabled (cf_Bandwidth c), bn_LFSDedupEnabled (cf_Bandwidth c), lf_Encryption (cf_LFS c)]"

lemma flags_plain:
  "enabled_flags (on_GitLab g1 v c) = enabled_flags c" "enabled_flags (on_Storage g2 v c) = enabled_flags c"
  "enabled_flags (on_Build g3 v c) = enabled_flags c" "enabled_flags (on_Runner g4 v c) = enabled_flags c"
  "enabled_flags (on_Environment g5 v c) = enabled_flags c"
  by (simp_all add: enabled_flags_def on_section_defs)

lemma flags_section:
  "(\<And>s. lf_Encryption (h1 v s) = lf_Encryption s) \<Longrightarrow> enabled_flags (on_LFS h1 v c) = enabled_flags c"
  "(\<And>s. cl_Enabled (h2 v s) = cl_Enabled s) \<Longrightarrow> enabled_flags (on_Cloud h2 v c) = enabled_flags c"
  "(\<And>s. ad_Enabled (h3 v s) = ad_Enabled s \<and> ad_FilterCI (h3 v s) = ad_FilterCI s
    \<and> ad_FilterWorkspaces (h3 v s) = ad_FilterWorkspaces s) \<Longrightarrow> enabled_flags (on_Adblock h3 v c) = enabled_flags c"
  "(\<And>s. rs_Enabled (h4 v s) = rs_Enabled s) \<Longrightarrow> enabled_flags (on_Rewards h4 v c) = enabled_flags c"
  "(\<And>s. bn_Enabled (h5 v s) = bn_Enabled s \<and> bn_LFSDedupEnabled (h5 v s) = bn_LFSDedupEnabled s)
    \<Longrightarrow> enabled_flags (on_Bandwidth h5 v c) = enabled_flags c"
  by (simp_all add: enabled_flags_def on_section_defs)

lemma flags_entries:
  "\<forall>p \<in> set string_overrides. \<forall>v c. enabled_flags (snd p v c) = enabled_flags c"
  "\<forall>p \<in> set int_overrides. \<forall>v c. enabled_flags (snd p v c) = enabled_flags c"
  by (simp_all add: string_overrides_def int_overrides_def flags_plain flags_section)

lemma flags_string: "p \<in> set string_overrides \<Longrightarrow> enabled_flags (override_string env p c) = enabled_flags c"
  using flags_entries(1) by (simp add: override_string_def Let_def)

lemma flags_int: "p \<in> set int_overrides \<Longrightarrow> enabled_flags (override_int env p c) = enabled_flags c"
  using flags_entries(2) by (simp add: override_int_def Let_def split: option.split)

lemma flags_fold:
  "(\<And>p c. p \<in> set ps \<Longrightarrow> enabled_flags (f p c) = enabled_flags c) \<Longrightarrow> enabled_flags (fold f ps c) = enabled_flags c"
  by (induction ps arbitrary: c) simp_all

lemma flags_rest:
  "enabled_flags (override_chain_id env c) = enabled_flags c" "enabled_flags (override_min_payout env c) = enabled_flags c"
  by (simp_all add: override_chain_id_def override_min_payout_def enabled_flags_def Let_def split: option.split)

definition truthy :: "string \<Rightarrow> bool" where
  "truthy v \<longleftrightarrow> to_lower v = ''true'' \<or> to_lower v = ''1''"

lemma override_bool_or:
  "override_bool env (n, on_Cloud (\<lambda>v s. s\<lparr>cl_Enabled := v\<rparr>)) c
    = c\<lparr>cf_Cloud := (cf_Cloud c)\<lparr>cl_Enabled := cl_Enabled (cf_Cloud c) \<or> truthy (env (env_name n))\<rparr>\<rparr>"
  "override_bool env (n, on_IPFS (\<lambda>v s. s\<lparr>ip_Enabled := v\<rparr>)) c
    = c\<lparr>cf_IPFS := (cf_IPFS c)\<lparr>ip_Enabled := ip_Enabled (cf_IPFS c) \<or> truthy (env (env_name n))\<rparr>\<rparr>"
  "override_bool env (n, on_Adblock (\<lambda>v s. s\<lparr>ad_Enabled := v\<rparr>)) c
    = c\<lparr>cf_Adblock := (cf_Adblock c)\<lparr>ad_Enabled := ad_Enabled (cf_Adblock c) \<or> truthy (env (env_name n))\<rparr>\<rparr>"
  "override_bool env (n, on_Adblock (\<lambda>v s. s\<lparr>ad_FilterCI := v\<rparr>)) c
    = c\<lparr>cf_Adblock := (cf_Adblock c)\<lparr>ad_FilterCI := ad_FilterCI (cf_Adblock c) \<or> truthy (env (env_name n))\<rparr>\<rparr>"
  "override_bool env (n, on_Adblock (\<lambda>v s. s\<lparr>ad_FilterWorkspaces := v\<rparr>)) c
    = c\<lparr>cf_Adblock := (cf_Adblock c)\<lparr>ad_FilterWorkspaces := ad_FilterWorkspaces (cf_Adblock c) \<or> truthy (env (env_name n))\<rparr>\<rparr>"
  "override_bool env (n, on_Rewards (\<lambda>v s. s\<lparr>rs_Enabled := v\<rparr>)) c
    = c\<lparr>cf_Rewards := (cf_Rewards c)\<lparr>rs_Enabled := rs_Enabled (cf_Rewards c) \<or> truthy (env (env_name n))\<rparr>\<rparr>"
  "override_bool env (n, on_Bandwidth (\<lambda>v s. s\<lparr>bn_Enabled := v\<rparr>)) c
    = c\<lparr>cf_Bandwidth := (cf_Bandwidth c)\<lparr>bn_Enabled := bn_Enabled (cf_Bandwidth c) \<or> truthy (env (env_name n))\<rparr>\<rparr>"
  "override_bool env (n, on_Bandwidth (\<lambda>v s. s\<lparr>bn_LFSDedupEnabled := v\<rparr>)) c
    = c\<lparr>cf_Bandwidth := (cf_Bandwidth c)\<lparr>bn_LFSDedupEnabled := bn_LFSDedupEnabled (cf_Bandwidth c) \<or> truthy (env (env_name n))\<rparr>\<rparr>"
  "override_bool env (n, on_LFS (\<lambda>v s. s\<lparr>lf_Encryption := v\<rparr>)) c
    = c\<lparr>cf_LFS := (cf_LFS c)\<lparr>lf_Encryption := lf_Encryption (cf_LFS c) \<or> truthy (env (env_name n))\<rparr>\<rparr>"
  by (simp_all add: override_bool_def on_section_defs truthy_def Let_def)

lemma flags_bool:
  "enabled_flags (fold (override_bool env) bool_overrides c)
    = map2 (\<lambda>b (n, u). b \<or> truthy (env (env_name n))) (enabled_flags c) bool_overrides"
  by (simp add: bool_overrides_def override_bool_or enabled_flags_def)

text \<open>
  After the environment overrides a feature is on exactly when the files turned it on or its
  variable reads \<^verbatim>\<open>true\<close> or \<^verbatim>\<open>1\<close>: no value of a variable turns a feature off. (Each flag is paired
  with its own variable.)
\<close>

theorem env_flags_only_turn_on:
  assumes "set order \<subseteq> set string_overrides"
  shows "enabled_flags (applyEnvOverrides env order c)
    = map2 (\<lambda>b n. b \<or> truthy (env (env_name n))) (enabled_flags c)
        [''CLOUD_ENABLED'', ''IPFS_ENABLED'', ''ADBLOCK_ENABLED'', ''ADBLOCK_FILTER_CI'', ''ADBLOCK_FILTER_WORKSPACES'',
         ''REWARDS_ENABLED'', ''BANDWIDTH_ENABLED'', ''BANDWIDTH_LFS_DEDUP_ENABLED'', ''LFS_ENCRYPTION'']"
proof -
  have s: "enabled_flags (fold (override_string env) order c) = enabled_flags c"
    by (rule flags_fold) (use assms flags_string in blast)
  have i: "enabled_flags (fold (override_int env) int_overrides d) = enabled_flags d" for d
    by (rule flags_fold) (rule flags_int)
  show ?thesis
    unfolding applyEnvOverrides_def Let_def flags_rest i flags_bool s
    by (simp add: bool_overrides_def enabled_flags_def)
qed

theorem env_flags_only_turn_on_witness:
  "enabled_flags (applyEnvOverrides (\<lambda>n. if n = ''GITLAB_ENHANCED_IPFS_ENABLED'' then ''TRUE'' else ''false'') [] zero_config)
    = [False, True, False, False, False, False, False, False, False]"
proof -
  have "to_lower ''false'' = ''false''" "to_lower ''TRUE'' = ''true''" by code_simp+
  then show ?thesis
    using env_flags_only_turn_on [of "[]" "\<lambda>n. if n = ''GITLAB_ENHANCED_IPFS_ENABLED'' then ''TRUE'' else ''false''" zero_config]
    by (simp add: enabled_flags_def zero_config_def env_name_def truthy_def)
qed

end
