(* ===== verification/Storage.thy ===== *)
theory Storage
  imports GoPath
begin

text \<open>
  The storage interface, \<^verbatim>\<open>abstraction/storage/interface.go\<close>: a backend is a record of operations
  over its own store, a chain is a list of backends each with its store. The locale
  \<open>blob_backend\<close> states what a backend promises about contents; the chain is its client.
  (Modification times are not modelled.)
\<close>

section \<open>Objects, errors, backends\<close>

datatype storage_error =
    NoBackendAvailable
  | NotFound
  | OpError string
  | ChainPut string storage_error
  | ChainDelete string storage_error
  | ChainRead string

record object =
  ob_Key :: string
  ob_Size :: int
  ob_ContentType :: string

text \<open>A reader: its content, or the error reading it meets.\<close>

type_synonym reader = "(string, bytes) result"

record 's backend =
  be_Name :: string
  be_Available :: "'s \<Rightarrow> bool \<times> 's"
  be_Put :: "string \<Rightarrow> bytes \<Rightarrow> 's \<Rightarrow> storage_error option \<times> 's"
  be_Get :: "string \<Rightarrow> 's \<Rightarrow> (storage_error, reader \<times> object) result \<times> 's"
  be_Delete :: "string \<Rightarrow> 's \<Rightarrow> storage_error option \<times> 's"
  be_Stat :: "string \<Rightarrow> 's \<Rightarrow> (storage_error, object) result \<times> 's"
  be_List :: "string \<Rightarrow> 's \<Rightarrow> (storage_error, object list) result \<times> 's"

type_synonym 's chain = "('s backend \<times> 's) list"

section \<open>The chain\<close>

fun chain_Available :: "'s chain \<Rightarrow> bool \<times> 's chain" where
  "chain_Available [] = (False, [])"
| "chain_Available ((b, s) # c) =
     (case be_Available b s of
        (True, s1) \<Rightarrow> (True, (b, s1) # c)
      | (False, s1) \<Rightarrow> (case chain_Available c of (r, c') \<Rightarrow> (r, (b, s1) # c')))"

text \<open>An operation on the first available backend (\<^verbatim>\<open>active\<close>), if there is one.\<close>

fun chain_active :: "('s backend \<Rightarrow> 's \<Rightarrow> 'a \<times> 's) \<Rightarrow> 's chain \<Rightarrow> 'a option \<times> 's chain" where
  "chain_active f [] = (None, [])"
| "chain_active f ((b, s) # c) =
     (case be_Available b s of
        (True, s1) \<Rightarrow> (case f b s1 of (r, s2) \<Rightarrow> (Some r, (b, s2) # c))
      | (False, s1) \<Rightarrow> (case chain_active f c of (r, c') \<Rightarrow> (r, (b, s1) # c')))"

text \<open>
  The loop of \<^verbatim>\<open>Put\<close> and of \<^verbatim>\<open>Delete\<close>: \<open>op\<close> on every available backend, the first error wrapped
  by \<open>wrap\<close>, and the number of successes.
\<close>

fun fan_out ::
    "(string \<Rightarrow> storage_error \<Rightarrow> storage_error) \<Rightarrow> ('s backend \<Rightarrow> 's \<Rightarrow> storage_error option \<times> 's)
     \<Rightarrow> storage_error option \<Rightarrow> nat \<Rightarrow> 's chain \<Rightarrow> (storage_error option \<times> nat) \<times> 's chain" where
  "fan_out wrap op firstErr n [] = ((firstErr, n), [])"
| "fan_out wrap op firstErr n ((b, s) # c) =
     (case be_Available b s of
        (False, s1) \<Rightarrow> (case fan_out wrap op firstErr n c of (r, c') \<Rightarrow> (r, (b, s1) # c'))
      | (True, s1) \<Rightarrow>
          (case op b s1 of
             (Some e, s2) \<Rightarrow>
               (case fan_out wrap op (if firstErr = None then Some (wrap (be_Name b) e) else firstErr) n c of
                  (r, c') \<Rightarrow> (r, (b, s2) # c'))
           | (None, s2) \<Rightarrow> (case fan_out wrap op firstErr (Suc n) c of (r, c') \<Rightarrow> (r, (b, s2) # c'))))"

definition chain_Put :: "string \<Rightarrow> reader \<Rightarrow> 's chain \<Rightarrow> storage_error option \<times> 's chain" where
  "chain_Put key r c =
     (case r of
        Inl e \<Rightarrow> (Some (ChainRead e), c)
      | Inr data \<Rightarrow>
          (case fan_out ChainPut (\<lambda>b. be_Put b key data) None 0 c of
             ((firstErr, wrote), c') \<Rightarrow>
               (if wrote = 0 then (if firstErr \<noteq> None then firstErr else Some NoBackendAvailable)
                else firstErr, c')))"

definition chain_Delete :: "string \<Rightarrow> 's chain \<Rightarrow> storage_error option \<times> 's chain" where
  "chain_Delete key c =
     (case fan_out ChainDelete (\<lambda>b. be_Delete b key) None 0 c of
        ((firstErr, deleted), c') \<Rightarrow>
          (if deleted = 0 \<and> firstErr = None then Some NoBackendAvailable else firstErr, c'))"

definition first_or_none :: "(storage_error, 'a) result option \<Rightarrow> (storage_error, 'a) result" where
  "first_or_none r = (case r of None \<Rightarrow> Inl NoBackendAvailable | Some x \<Rightarrow> x)"

definition chain_Get :: "string \<Rightarrow> 's chain \<Rightarrow> (storage_error, reader \<times> object) result \<times> 's chain" where
  "chain_Get key c = (case chain_active (\<lambda>b. be_Get b key) c of (r, c') \<Rightarrow> (first_or_none r, c'))"

definition chain_Stat :: "string \<Rightarrow> 's chain \<Rightarrow> (storage_error, object) result \<times> 's chain" where
  "chain_Stat key c = (case chain_active (\<lambda>b. be_Stat b key) c of (r, c') \<Rightarrow> (first_or_none r, c'))"

definition chain_List :: "string \<Rightarrow> 's chain \<Rightarrow> (storage_error, object list) result \<times> 's chain" where
  "chain_List prefix c = (case chain_active (\<lambda>b. be_List b prefix) c of (r, c') \<Rightarrow> (first_or_none r, c'))"

definition chain_Name :: string where
  "chain_Name = ''chain''"

section \<open>What a backend promises\<close>

text \<open>
  \<open>content k s\<close> is what is stored under \<open>k\<close>; \<open>sane\<close> the states the backend can be in, \<open>valid\<close>
  the keys the promise is for. A put that succeeds stores the data; one that fails, and a put or
  delete of another key, leaves a key's content alone; looking does not change contents.
\<close>

locale blob_backend =
  fixes b :: "'s backend" and content :: "string \<Rightarrow> 's \<Rightarrow> bytes option" and valid :: "string \<Rightarrow> bool"
    and sane :: "'s \<Rightarrow> bool" and up :: "'s \<Rightarrow> bool"
  assumes avail: "sane s \<Longrightarrow> be_Available b s = (a, s') \<Longrightarrow> a = up s \<and> sane s' \<and> up s' = up s \<and> content k s' = content k s"
    and put_ok: "sane s \<Longrightarrow> valid k \<Longrightarrow> up s \<Longrightarrow> be_Put b k d s = (None, s') \<Longrightarrow> content k s' = Some d"
    and put_fail: "sane s \<Longrightarrow> valid k \<Longrightarrow> up s \<Longrightarrow> be_Put b k d s = (Some e, s') \<Longrightarrow> content k s' = content k s"
    and put_other: "sane s \<Longrightarrow> valid k \<Longrightarrow> valid k' \<Longrightarrow> up s \<Longrightarrow> k' \<noteq> k \<Longrightarrow> be_Put b k d s = (r, s')
      \<Longrightarrow> content k' s' = content k' s"
    and put_inv: "sane s \<Longrightarrow> valid k \<Longrightarrow> up s \<Longrightarrow> be_Put b k d s = (r, s') \<Longrightarrow> sane s' \<and> up s'"
    and get_content: "sane s \<Longrightarrow> valid k \<Longrightarrow> be_Get b k s = (g, s') \<Longrightarrow>
      (\<exists>ob. g = Inr (Inr d, ob)) \<longleftrightarrow> content k s = Some d"
    and get_inv: "sane s \<Longrightarrow> valid k \<Longrightarrow> be_Get b k s = (g, s') \<Longrightarrow> sane s' \<and> up s' = up s \<and> content k' s' = content k' s"
    and delete_ok: "sane s \<Longrightarrow> valid k \<Longrightarrow> up s \<Longrightarrow> be_Delete b k s = (None, s') \<Longrightarrow> content k s' = None"
    and delete_other: "sane s \<Longrightarrow> valid k \<Longrightarrow> valid k' \<Longrightarrow> up s \<Longrightarrow> k' \<noteq> k \<Longrightarrow> be_Delete b k s = (r, s')
      \<Longrightarrow> content k' s' = content k' s"
    and delete_inv: "sane s \<Longrightarrow> valid k \<Longrightarrow> up s \<Longrightarrow> be_Delete b k s = (r, s') \<Longrightarrow> sane s' \<and> up s'"
begin

text \<open>What was put is read back, through any number of reads of any keys in between.\<close>

lemma put_then_get:
  assumes "sane s" "valid k" "up s" "be_Put b k d s = (None, s')" "be_Get b k s' = (g, s'')"
  shows "\<exists>ob. g = Inr (Inr d, ob)"
  using get_content [OF _ assms(2,5)] put_ok [OF assms(1-4)] put_inv [OF assms(1-4)] by blast

lemma delete_then_get:
  assumes "sane s" "valid k" "up s" "be_Delete b k s = (None, s')" "be_Get b k s' = (g, s'')"
  shows "\<nexists>d ob. g = Inr (Inr d, ob)"
  using get_content [OF _ assms(2,5)] delete_ok [OF assms(1-4)] delete_inv [OF assms(1-4)] by fastforce

text \<open>Putting the same data again changes no content.\<close>

lemma put_idempotent:
  assumes "sane s" "valid k" "valid k'" "up s" "be_Put b k d s = (None, s1)" "be_Put b k d s1 = (r, s2)"
  shows "content k' s2 = content k' s1"
proof (cases "k' = k")
  case True
  note i = put_inv [OF assms(1,2,4,5)]
  show ?thesis
  proof (cases r)
    case None
    then show ?thesis using True i put_ok [OF _ assms(2) _ assms(6) [unfolded None]] put_ok [OF assms(1,2,4,5)] by simp
  next
    case (Some e)
    then show ?thesis using True i put_fail [OF _ assms(2) _ assms(6) [unfolded Some]] by simp
  qed
next
  case False
  then show ?thesis using put_inv [OF assms(1,2,4,5)] put_other [OF _ assms(2,3) _ False assms(6)] by simp
qed

end

end
