(* ===== verification/CloudStore.thy ===== *)
theory CloudStore
  imports Storage
begin

text \<open>
  The cloud backend, \<^verbatim>\<open>abstraction/storage/cloud.go\<close>: the bucket URL of a provider, the bucket
  opened once on first use, and the operations on it. The bucket itself is the third-party
  \<^verbatim>\<open>gocloud.dev/blob\<close> and a parameter; its errors are texts.
\<close>

section \<open>Options and the bucket URL\<close>

record cloud_options =
  co_Provider :: string
  co_Bucket :: string
  co_Region :: string
  co_Endpoint :: string
  co_AccessKeyID :: string
  co_SecretAccessKey :: string
  co_GCSKeyFile :: string
  co_AzureConnectionString :: string
  co_AzureAccountName :: string
  co_AzureAccountKey :: string

text \<open>\<^verbatim>\<open>url.Values.Encode\<close>: the pairs sorted by key, both parts escaped.\<close>

definition unreserved :: "char \<Rightarrow> bool" where
  "unreserved c = (let n = (of_char c :: nat) in
     (48 \<le> n \<and> n \<le> 57) \<or> (65 \<le> n \<and> n \<le> 90) \<or> (97 \<le> n \<and> n \<le> 122) \<or> n = 45 \<or> n = 95 \<or> n = 46 \<or> n = 126)"

definition upper_hex :: "nat \<Rightarrow> char" where
  "upper_hex n = (if n < 10 then char_of (48 + n) else char_of (55 + n))"

definition query_escape :: "string \<Rightarrow> string" where
  "query_escape s = concat (map (\<lambda>c.
     if unreserved c then [c] else if c = CHR '' '' then ''+''
     else (let n = (of_char c :: nat) in CHR ''%'' # [upper_hex (n div 16), upper_hex (n mod 16)])) s)"

definition encode_query :: "(string \<times> string) list \<Rightarrow> string" where
  "encode_query kvs = join_with ''&'' (map (\<lambda>(k, v). query_escape k @ ''='' @ query_escape v) kvs)"

datatype cloud_error = BucketRequired | ProviderRequired | EndpointRequired string | UnknownProvider string

definition with_query :: "string \<Rightarrow> (string \<times> string) list \<Rightarrow> string" where
  "with_query u q = (if q = [] then u else u @ ''?'' @ encode_query q)"

text \<open>The pairs are listed in the order of their keys.\<close>

definition buildBucketURL :: "cloud_options \<Rightarrow> (cloud_error, string) result" where
  "buildBucketURL opts =
     (let p = to_lower (co_Provider opts) in
      if p = ''aws'' then
        Inr (with_query (''s3://'' @ co_Bucket opts)
          ((if co_AccessKeyID opts \<noteq> [] then [(''awssdk'', ''v2'')] else [])
           @ (if co_Region opts \<noteq> [] then [(''region'', co_Region opts)] else [])))
      else if p = ''minio'' \<or> p = ''ceph'' \<or> p = ''r2'' then
        (if co_Endpoint opts = [] then Inl (EndpointRequired (co_Provider opts))
         else Inr (''s3://'' @ co_Bucket opts @ ''?'' @ encode_query
           ([(''endpoint'', co_Endpoint opts),
             (''region'', if co_Region opts \<noteq> [] then co_Region opts else ''us-east-1'')]
            @ (if p = ''r2'' then [] else [(''s3ForcePathStyle'', ''true'')]))))
      else if p = ''gcs'' then Inr (''gs://'' @ co_Bucket opts)
      else if p = ''azure'' then
        Inr (with_query (''azblob://'' @ co_Bucket opts)
          (if co_AzureAccountName opts \<noteq> [] then [(''storage_account'', co_AzureAccountName opts)] else []))
      else Inl (UnknownProvider (co_Provider opts)))"

record cloud_backend =
  cb_provider :: string
  cb_bucketURL :: string
  cb_bucketName :: string

definition NewCloudBackend :: "cloud_options \<Rightarrow> (cloud_error, cloud_backend) result" where
  "NewCloudBackend opts =
     (if co_Bucket opts = [] then Inl BucketRequired
      else if co_Provider opts = [] then Inl ProviderRequired
      else case buildBucketURL opts of
             Inl e \<Rightarrow> Inl e
           | Inr u \<Rightarrow> Inr \<lparr>cb_provider = co_Provider opts, cb_bucketURL = u, cb_bucketName = co_Bucket opts\<rparr>)"

definition cloud_Name :: "cloud_backend \<Rightarrow> string" where
  "cloud_Name b = ''cloud:'' @ cb_provider b @ ''://'' @ cb_bucketName b"

section \<open>Operations\<close>

text \<open>The library's bucket: opening it by URL and using it.\<close>

record 's bucket_api =
  ba_open :: "string \<Rightarrow> 's \<Rightarrow> (string, unit) result \<times> 's"
  ba_exists :: "string \<Rightarrow> 's \<Rightarrow> 's"
  ba_write :: "string \<Rightarrow> int \<Rightarrow> bytes \<Rightarrow> 's \<Rightarrow> (string, unit) result \<times> 's"
  ba_read :: "string \<Rightarrow> 's \<Rightarrow> (string, bytes \<times> string) result \<times> 's"
  ba_delete :: "string \<Rightarrow> 's \<Rightarrow> (string, unit) result \<times> 's"
  ba_attributes :: "string \<Rightarrow> 's \<Rightarrow> (string, int \<times> string) result \<times> 's"
  ba_list :: "string \<Rightarrow> 's \<Rightarrow> (string, (string \<times> int) list) result \<times> 's"

text \<open>The outcome of the one attempt to open the bucket, and the state of the service.\<close>

record 's cloud_state =
  cs_opened :: "(string, unit) result option"
  cs_net :: 's

definition cloud_open :: "'s bucket_api \<Rightarrow> cloud_backend \<Rightarrow> 's cloud_state \<Rightarrow> (string, unit) result \<times> 's cloud_state" where
  "cloud_open api b s =
     (case cs_opened s of
        Some r \<Rightarrow> (r, s)
      | None \<Rightarrow> (case ba_open api (cb_bucketURL b) (cs_net s) of (r, n) \<Rightarrow> (r, \<lparr>cs_opened = Some r, cs_net = n\<rparr>)))"

definition isCloudNotFound :: "string \<Rightarrow> bool" where
  "isCloudNotFound err = contains_sub err ''code=NotFound''"

definition bufferSize :: "int \<Rightarrow> int" where
  "bufferSize size' = (let mb = 2 ^ 20; mx = 64 * mb; buf = sgn size' * (\<bar>size'\<bar> div 10) in
     if mx < buf then mx else if buf < mb then mb else buf)"

text \<open>An operation after the bucket has been opened.\<close>

definition with_bucket ::
    "'s bucket_api \<Rightarrow> cloud_backend \<Rightarrow> (string \<Rightarrow> 'a) \<Rightarrow> ('s \<Rightarrow> 'a \<times> 's) \<Rightarrow> 's cloud_state \<Rightarrow> 'a \<times> 's cloud_state" where
  "with_bucket api b fail op s =
     (case cloud_open api b s of
        (Inl e, s1) \<Rightarrow> (fail e, s1)
      | (Inr _, s1) \<Rightarrow> (case op (cs_net s1) of (r, n) \<Rightarrow> (r, s1\<lparr>cs_net := n\<rparr>)))"

definition cloud_Available :: "'s bucket_api \<Rightarrow> cloud_backend \<Rightarrow> 's cloud_state \<Rightarrow> bool \<times> 's cloud_state" where
  "cloud_Available api b = with_bucket api b (\<lambda>e. False) (\<lambda>n. (True, ba_exists api ''.gitlab-enhanced-probe'' n))"

definition cloud_Put :: "'s bucket_api \<Rightarrow> cloud_backend \<Rightarrow> string \<Rightarrow> bytes \<Rightarrow> int \<Rightarrow> 's cloud_state
    \<Rightarrow> storage_error option \<times> 's cloud_state" where
  "cloud_Put api b key data size' = with_bucket api b (\<lambda>e. Some (OpError e))
     (\<lambda>n. case ba_write api key (if 0 < size' then bufferSize size' else 0) data n of
            (Inl e, n') \<Rightarrow> (Some (OpError e), n') | (Inr _, n') \<Rightarrow> (None, n'))"

definition cloud_Get :: "'s bucket_api \<Rightarrow> cloud_backend \<Rightarrow> string \<Rightarrow> 's cloud_state
    \<Rightarrow> (storage_error, reader \<times> object) result \<times> 's cloud_state" where
  "cloud_Get api b key = with_bucket api b (\<lambda>e. Inl (OpError e))
     (\<lambda>n. case ba_read api key n of
            (Inl e, n') \<Rightarrow> (Inl (if isCloudNotFound e then NotFound else OpError e), n')
          | (Inr (d, ct), n') \<Rightarrow> (Inr (Inr d, \<lparr>ob_Key = key, ob_Size = int (length d), ob_ContentType = ct\<rparr>), n'))"

definition cloud_Delete :: "'s bucket_api \<Rightarrow> cloud_backend \<Rightarrow> string \<Rightarrow> 's cloud_state
    \<Rightarrow> storage_error option \<times> 's cloud_state" where
  "cloud_Delete api b key = with_bucket api b (\<lambda>e. Some (OpError e))
     (\<lambda>n. case ba_delete api key n of
            (Inl e, n') \<Rightarrow> (if isCloudNotFound e then None else Some (OpError e), n')
          | (Inr _, n') \<Rightarrow> (None, n'))"

definition cloud_Stat :: "'s bucket_api \<Rightarrow> cloud_backend \<Rightarrow> string \<Rightarrow> 's cloud_state
    \<Rightarrow> (storage_error, object) result \<times> 's cloud_state" where
  "cloud_Stat api b key = with_bucket api b (\<lambda>e. Inl (OpError e))
     (\<lambda>n. case ba_attributes api key n of
            (Inl e, n') \<Rightarrow> (Inl (if isCloudNotFound e then NotFound else OpError e), n')
          | (Inr (sz, ct), n') \<Rightarrow> (Inr \<lparr>ob_Key = key, ob_Size = sz, ob_ContentType = ct\<rparr>, n'))"

definition cloud_List :: "'s bucket_api \<Rightarrow> cloud_backend \<Rightarrow> string \<Rightarrow> 's cloud_state
    \<Rightarrow> (storage_error, object list) result \<times> 's cloud_state" where
  "cloud_List api b prefix = with_bucket api b (\<lambda>e. Inl (OpError e))
     (\<lambda>n. case ba_list api prefix n of
            (Inl e, n') \<Rightarrow> (Inl (OpError e), n')
          | (Inr os, n') \<Rightarrow> (Inr (map (\<lambda>(k, sz). \<lparr>ob_Key = k, ob_Size = sz, ob_ContentType = []\<rparr>) os), n'))"

section \<open>The bucket is opened once\<close>

lemma cloud_open_cached [simp]: "cs_opened s = Some r \<Longrightarrow> cloud_open api b s = (r, s)"
  by (simp add: cloud_open_def)

lemma cloud_open_caches: "cloud_open api b s = (r, s') \<Longrightarrow> cs_opened s' = Some r"
  by (auto simp: cloud_open_def split: option.splits prod.splits)

lemma with_bucket_opened: "cs_opened (snd (with_bucket api b fail op s)) = Some (fst (cloud_open api b s))"
  by (auto simp: with_bucket_def split: prod.splits sum.splits dest: cloud_open_caches)

text \<open>After a failed attempt every operation fails with the same text and nothing is contacted.\<close>

lemma with_bucket_failed: "cs_opened s = Some (Inl e) \<Longrightarrow> with_bucket api b fail op s = (fail e, s)"
  by (simp add: with_bucket_def)

lemma bufferSize_range: "2 ^ 20 \<le> bufferSize n \<and> bufferSize n \<le> 64 * 2 ^ 20"
  by (simp add: bufferSize_def Let_def)

end
