(* ===== verification/IpfsStore.thy ===== *)
theory IpfsStore
  imports Storage Json
begin

text \<open>
  The IPFS backend, \<^verbatim>\<open>abstraction/storage/ipfs.go\<close>: the paths it uses in the node's mutable file
  system and the requests of each operation. The node is a transport with its own state;
  \<open>url_ok\<close> is whether \<^verbatim>\<open>net/url\<close> accepts a URL. Keys are put into the query as they are.
\<close>

record ipfs_response =
  ir_status :: nat
  ir_body :: bytes
  ir_json :: "json option"

type_synonym 's ipfs_http = "string \<Rightarrow> (string \<times> bytes) option \<Rightarrow> 's \<Rightarrow> (string, ipfs_response) result \<times> 's"

definition trim_right_slash :: "string \<Rightarrow> string" where
  "trim_right_slash s = rev (dropWhile (\<lambda>c. c = CHR ''/'') (rev s))"

definition NewIPFSBackend :: "string \<Rightarrow> string" where
  "NewIPFSBackend nodeURL =
     trim_right_slash (if nodeURL = [] then ''http://127.0.0.1:5001'' else nodeURL)"

definition ipfs_Name :: "string \<Rightarrow> string" where
  "ipfs_Name node = ''ipfs:'' @ node"

definition mfsKey :: "string \<Rightarrow> string" where
  "mfsKey key = (if has_prefix key ''/'' then ''/gitlab-enhanced'' @ key else ''/gitlab-enhanced/'' @ key)"

text \<open>What precedes the last slash.\<close>

definition before_last_slash :: "string \<Rightarrow> string" where
  "before_last_slash p = rev (drop 1 (dropWhile (\<lambda>c. c \<noteq> CHR ''/'') (rev p)))"

definition api_url :: "string \<Rightarrow> string \<Rightarrow> string \<Rightarrow> string \<Rightarrow> string" where
  "api_url node cmd arg flags = node @ ''/api/v0/'' @ cmd @ ''?arg='' @ arg @ flags"

definition ipfs_Available :: "'s ipfs_http \<Rightarrow> (string \<Rightarrow> bool) \<Rightarrow> string \<Rightarrow> 's \<Rightarrow> bool \<times> 's" where
  "ipfs_Available http url_ok node s =
     (let u = node @ ''/api/v0/version'' in
      if \<not> url_ok u then (False, s)
      else case http u None s of
             (Inl _, s') \<Rightarrow> (False, s')
           | (Inr r, s') \<Rightarrow> (ir_status r = 200, s'))"

text \<open>
  A POST whose answer is classified by \<open>f\<close>. A URL that does not parse is an error of the
  operation; only the request that makes the directory in \<^verbatim>\<open>Put\<close> ignores it.
\<close>

definition ipfs_call ::
    "'s ipfs_http \<Rightarrow> (string \<Rightarrow> bool) \<Rightarrow> string \<Rightarrow> (string \<times> bytes) option \<Rightarrow> (string \<Rightarrow> 'a) \<Rightarrow> (ipfs_response \<Rightarrow> 'a)
     \<Rightarrow> 's \<Rightarrow> 'a \<times> 's" where
  "ipfs_call http url_ok u body fail f s =
     (if \<not> url_ok u then (fail ''bad url'', s)
      else case http u body s of
             (Inl e, s') \<Rightarrow> (fail e, s')
           | (Inr r, s') \<Rightarrow> (f r, s'))"

text \<open>The \<^verbatim>\<open>mkdir\<close> request is used even when building it failed: then it is nil and sending it panics.\<close>

definition ipfs_Put ::
    "'s ipfs_http \<Rightarrow> (string \<Rightarrow> bool) \<Rightarrow> string \<Rightarrow> string \<Rightarrow> bytes \<Rightarrow> 's \<Rightarrow> storage_error option go \<times> 's" where
  "ipfs_Put http url_ok node key data s =
     (let mfsPath = mfsKey key; dir = before_last_slash mfsPath;
          write = (\<lambda>s. case ipfs_call http url_ok (api_url node ''files/write'' mfsPath ''&create=true&truncate=true'')
              (Some (key, data)) (\<lambda>e. Some (OpError e))
              (\<lambda>r. if ir_status r \<noteq> 200 then Some (OpError ''ipfs write'') else None) s of
            (r, s') \<Rightarrow> (Ret r, s'))
      in if dir = [] then write s
         else (let u = api_url node ''files/mkdir'' dir ''&parents=true'' in
               if \<not> url_ok u then (Panic, s)
               else case http u None s of
                      (Inl e, s') \<Rightarrow> (Ret (Some (OpError e)), s')
                    | (Inr _, s') \<Rightarrow> write s'))"

definition ipfs_Stat ::
    "'s ipfs_http \<Rightarrow> (string \<Rightarrow> bool) \<Rightarrow> string \<Rightarrow> string \<Rightarrow> 's \<Rightarrow> (storage_error, object) result \<times> 's" where
  "ipfs_Stat http url_ok node key =
     ipfs_call http url_ok (api_url node ''files/stat'' (mfsKey key) []) None (\<lambda>e. Inl (OpError e))
       (\<lambda>r. if ir_status r = 500 then Inl NotFound
            else if ir_status r \<noteq> 200 then Inl (OpError ''ipfs stat'')
            else case ir_json r of
                   Some (JObj kvs) \<Rightarrow>
                     (case field_int (jfield kvs ''size'') of
                        Some n \<Rightarrow> Inr \<lparr>ob_Key = key, ob_Size = n, ob_ContentType = []\<rparr>
                      | None \<Rightarrow> Inl (OpError ''decoding''))
                 | Some JNull \<Rightarrow> Inr \<lparr>ob_Key = key, ob_Size = 0, ob_ContentType = []\<rparr>
                 | _ \<Rightarrow> Inl (OpError ''decoding''))"

definition ipfs_Get ::
    "'s ipfs_http \<Rightarrow> (string \<Rightarrow> bool) \<Rightarrow> string \<Rightarrow> string \<Rightarrow> 's \<Rightarrow> (storage_error, reader \<times> object) result \<times> 's" where
  "ipfs_Get http url_ok node key s =
     (case ipfs_Stat http url_ok node key s of
        (Inl e, s1) \<Rightarrow> (Inl e, s1)
      | (Inr ob, s1) \<Rightarrow>
          ipfs_call http url_ok (api_url node ''files/read'' (mfsKey key) []) None (\<lambda>e. Inl (OpError e))
            (\<lambda>r. if ir_status r = 500 then Inl NotFound
                 else if ir_status r \<noteq> 200 then Inl (OpError ''ipfs read'')
                 else Inr (Inr (ir_body r), ob)) s1)"

definition ipfs_Delete ::
    "'s ipfs_http \<Rightarrow> (string \<Rightarrow> bool) \<Rightarrow> string \<Rightarrow> string \<Rightarrow> 's \<Rightarrow> storage_error option \<times> 's" where
  "ipfs_Delete http url_ok node key =
     ipfs_call http url_ok (api_url node ''files/rm'' (mfsKey key) ''&recursive=true'') None (\<lambda>e. Some (OpError e))
       (\<lambda>r. if ir_status r = 500 then None
            else if ir_status r \<noteq> 200 then Some (OpError ''ipfs rm'') else None)"

fun decode_entry :: "json \<Rightarrow> (string \<times> int) option" where
  "decode_entry JNull = Some ([], 0)"
| "decode_entry (JObj kvs) =
     (case (field_str (jfield kvs ''name''), field_int (jfield kvs ''size'')) of
        (Some n, Some z) \<Rightarrow> Some (n, z) | _ \<Rightarrow> None)"
| "decode_entry _ = None"

fun decode_entries :: "json option \<Rightarrow> (string \<times> int) list option" where
  "decode_entries (Some JNull) = Some []"
| "decode_entries (Some (JObj kvs)) =
     (case jfield kvs ''entries'' of
        None \<Rightarrow> Some []
      | Some (JArr es) \<Rightarrow>
          (if list_all (\<lambda>e. decode_entry e \<noteq> None) es then Some (map (\<lambda>e. the (decode_entry e)) es) else None)
      | Some _ \<Rightarrow> None)"
| "decode_entries _ = None"

definition ipfs_List ::
    "'s ipfs_http \<Rightarrow> (string \<Rightarrow> bool) \<Rightarrow> string \<Rightarrow> string \<Rightarrow> 's \<Rightarrow> (storage_error, object list) result \<times> 's" where
  "ipfs_List http url_ok node prefix =
     ipfs_call http url_ok (api_url node ''files/ls'' (mfsKey prefix) ''&long=true'') None (\<lambda>e. Inl (OpError e))
       (\<lambda>r. if ir_status r = 500 then Inr []
            else if ir_status r \<noteq> 200 then Inl (OpError ''ipfs ls'')
            else case decode_entries (ir_json r) of
                   None \<Rightarrow> Inl (OpError ''decoding'')
                 | Some es \<Rightarrow> Inr (map (\<lambda>(name, z). \<lparr>ob_Key = trim_prefix (prefix @ ''/'' @ name) ''/'',
                                                   ob_Size = z, ob_ContentType = []\<rparr>) es))"

section \<open>Keys\<close>

lemma mfsKey_slash: "\<not> has_prefix k ''/'' \<Longrightarrow> mfsKey (CHR ''/'' # k) = mfsKey k"
  by (simp add: mfsKey_def)

lemma before_last_slash_append: "CHR ''/'' \<notin> set k \<Longrightarrow> before_last_slash (p @ CHR ''/'' # k) = p"
proof -
  assume k: "CHR ''/'' \<notin> set k"
  have "dropWhile (\<lambda>c. c \<noteq> CHR ''/'') (rev k @ CHR ''/'' # rev p) = dropWhile (\<lambda>c. c \<noteq> CHR ''/'') (CHR ''/'' # rev p)"
    by (rule dropWhile_append2) (use k in auto)
  then show ?thesis by (simp add: before_last_slash_def)
qed

lemma mfsKey_inj: "\<not> has_prefix k ''/'' \<Longrightarrow> \<not> has_prefix k' ''/'' \<Longrightarrow> mfsKey k = mfsKey k' \<longleftrightarrow> k = k'"
  by (simp add: mfsKey_def)

end
