(* ===== verification/LocalStore.thy ===== *)
theory LocalStore
  imports Storage PosixFs "HOL-Library.List_Lexorder" "HOL-Library.Char_ord"
begin

text \<open>
  The local backend, \<^verbatim>\<open>abstraction/storage/local.go\<close>, over the file system of \<^verbatim>\<open>PosixFs\<close>: objects
  are files under a root directory, written to a temporary name and renamed. It provides the
  interface \<open>blob_backend\<close> for keys made of plain path components.
\<close>

section \<open>Directories and new files\<close>

text \<open>\<^verbatim>\<open>filepath.Dir\<close>: up to the last slash, cleaned.\<close>

definition path_dir :: "string \<Rightarrow> string" where
  "path_dir p = path_clean (rev (dropWhile (\<lambda>c. c \<noteq> CHR ''/'') (rev p)))"

text \<open>The directories \<^verbatim>\<open>MkdirAll\<close> looks at, outermost first.\<close>

definition dir_prefixes :: "string \<Rightarrow> string list" where
  "dir_prefixes p = (let cs = filter (\<lambda>c. c \<noteq> []) (split_on (CHR ''/'') p)
     in map (\<lambda>i. abs_path (take i cs)) [1..<Suc (length cs)])"

fun mkdirs :: "bool \<Rightarrow> string list \<Rightarrow> fs \<Rightarrow> (fs_error, unit) result \<times> fs" where
  "mkdirs ok [] f = (Inr (), f)"
| "mkdirs ok (p # ps) f =
     (case node_at f p of
        None \<Rightarrow> if ok then mkdirs ok ps (set_node p Dir f) else (Inl Refused, f)
      | Some _ \<Rightarrow> (case fs_stat f p of Inr Dir \<Rightarrow> mkdirs ok ps f | _ \<Rightarrow> (Inl ENOTDIR, f)))"

fun inode_of :: "fs_node \<Rightarrow> nat" where
  "inode_of (File i) = i"
| "inode_of _ = 0"

definition fresh_inode :: "fs \<Rightarrow> nat" where
  "fresh_inode f = Suc (fold max (map (inode_of \<circ> snd) (fs_names f)) 0)"

text \<open>A new file with the given content.\<close>

definition create_file :: "string \<Rightarrow> bytes \<Rightarrow> fs \<Rightarrow> fs" where
  "create_file p d f = (let i = fresh_inode f in (set_node p (File i) f)\<lparr>fs_data := (fs_data f)(i := d)\<rparr>)"

section \<open>The backend\<close>

text \<open>
  The outcomes of the calls of one \<^verbatim>\<open>Put\<close>: the random numbers \<^verbatim>\<open>CreateTemp\<close> tries, whether the
  kernel grants each call, and after how many bytes copying fails, if it does.
\<close>

record local_io =
  lio_mkdir :: bool
  lio_suffixes :: "nat list"
  lio_create :: bool
  lio_copy :: "nat option"
  lio_close :: bool
  lio_rename :: bool
  lio_remove :: bool

definition local_path :: "string \<Rightarrow> string \<Rightarrow> string" where
  "local_path root key = path_join [root, key]"

definition local_Name :: "string \<Rightarrow> string" where
  "local_Name root = ''local:'' @ root"

definition local_Available :: "string \<Rightarrow> fs \<Rightarrow> bool \<times> fs" where
  "local_Available root f = (fs_stat f root = Inr Dir, f)"

definition temp_name :: "string \<Rightarrow> nat \<Rightarrow> string" where
  "temp_name dir suffix = dir @ ''/.tmp-'' @ show_nat suffix"

definition remove_temp :: "local_io \<Rightarrow> string \<Rightarrow> fs \<Rightarrow> fs" where
  "remove_temp io t f = (case fs_remove (lio_remove io) t f of Inr f' \<Rightarrow> f' | Inl _ \<Rightarrow> f)"

definition local_Put :: "local_io \<Rightarrow> string \<Rightarrow> string \<Rightarrow> bytes \<Rightarrow> fs \<Rightarrow> storage_error option \<times> fs" where
  "local_Put io root key data f =
     (let p = local_path root key; d = path_dir p in
      case mkdirs (lio_mkdir io) (dir_prefixes d) f of
        (Inl _, f1) \<Rightarrow> (Some (OpError ''mkdir''), f1)
      | (Inr _, f1) \<Rightarrow>
          (case find (\<lambda>x. node_at f1 (temp_name d x) = None) (lio_suffixes io) of
             None \<Rightarrow> (Some (OpError ''createtemp''), f1)
           | Some x \<Rightarrow>
               (let t = temp_name d x in
                if \<not> lio_create io then (Some (OpError ''createtemp''), f1)
                else case lio_copy io of
                  Some n \<Rightarrow> (Some (OpError ''copy''), remove_temp io t (create_file t (take n data) f1))
                | None \<Rightarrow>
                    (let f2 = create_file t data f1 in
                     if \<not> lio_close io then (Some (OpError ''close''), remove_temp io t f2)
                     else case fs_rename (lio_rename io) t p f2 of
                       Inl _ \<Rightarrow> (Some (OpError ''rename''), remove_temp io t f2)
                     | Inr f3 \<Rightarrow> (None, remove_temp io t f3)))))"

text \<open>
  \<open>dirsize\<close> is the size the system reports for a directory. Opening a directory succeeds;
  reading it does not.
\<close>

definition node_size :: "int \<Rightarrow> fs \<Rightarrow> fs_node \<Rightarrow> int" where
  "node_size dirsize f n = (case n of File i \<Rightarrow> int (length (fs_data f i)) | _ \<Rightarrow> dirsize)"

definition local_Stat :: "int \<Rightarrow> string \<Rightarrow> string \<Rightarrow> fs \<Rightarrow> (storage_error, object) result \<times> fs" where
  "local_Stat dirsize root key f =
     (case fs_stat f (local_path root key) of
        Inl ENOENT \<Rightarrow> Inl NotFound
      | Inl _ \<Rightarrow> Inl (OpError ''stat'')
      | Inr n \<Rightarrow> Inr \<lparr>ob_Key = key, ob_Size = node_size dirsize f n, ob_ContentType = []\<rparr>, f)"

definition local_Get :: "int \<Rightarrow> bool \<Rightarrow> string \<Rightarrow> string \<Rightarrow> fs \<Rightarrow> (storage_error, reader \<times> object) result \<times> fs" where
  "local_Get dirsize open_ok root key f =
     (case fs_stat f (local_path root key) of
        Inl ENOENT \<Rightarrow> Inl NotFound
      | Inl _ \<Rightarrow> Inl (OpError ''open'')
      | Inr n \<Rightarrow>
          if \<not> open_ok then Inl (OpError ''open'')
          else Inr (case n of File i \<Rightarrow> Inr (fs_data f i) | _ \<Rightarrow> Inl ''is a directory'',
                    \<lparr>ob_Key = key, ob_Size = node_size dirsize f n, ob_ContentType = []\<rparr>), f)"

definition local_Delete :: "bool \<Rightarrow> string \<Rightarrow> string \<Rightarrow> fs \<Rightarrow> storage_error option \<times> fs" where
  "local_Delete ok root key f =
     (case fs_remove ok (local_path root key) f of
        Inr f' \<Rightarrow> (None, f')
      | Inl ENOENT \<Rightarrow> (None, f)
      | Inl _ \<Rightarrow> (Some (OpError ''remove''), f))"

text \<open>
  \<^verbatim>\<open>Walk\<close> visits a tree in the order of its names, directory by directory, without following
  links; \<^verbatim>\<open>Rel\<close> of a path below the root cuts the root off.
\<close>

definition walk_files :: "fs \<Rightarrow> string \<Rightarrow> (string \<times> fs_node) list" where
  "walk_files f base =
     sort_key (\<lambda>(p, n). split_on (CHR ''/'') p)
       (filter (\<lambda>(p, n). n \<noteq> Dir \<and> (p = base \<or> (node_at f base = Some Dir \<and> has_prefix p (base @ ''/'')))) (fs_names f))"

definition lstat_size :: "fs \<Rightarrow> fs_node \<Rightarrow> int" where
  "lstat_size f n = (case n of File i \<Rightarrow> int (length (fs_data f i)) | Symlink t \<Rightarrow> int (length t) | Dir \<Rightarrow> 0)"

definition local_List :: "string \<Rightarrow> string \<Rightarrow> fs \<Rightarrow> (storage_error, object list) result \<times> fs" where
  "local_List root prefix f =
     (let base = path_join [root, prefix] in
      (Inr (map (\<lambda>(p, n). \<lparr>ob_Key = (if p = root then ''.'' else drop (Suc (length root)) p),
                            ob_Size = lstat_size f n, ob_ContentType = []\<rparr>) (walk_files f base)), f))"

definition local_backend :: "local_io \<Rightarrow> int \<Rightarrow> bool \<Rightarrow> bool \<Rightarrow> string \<Rightarrow> fs backend" where
  "local_backend io dirsize open_ok remove_ok root =
     \<lparr>be_Name = local_Name root, be_Available = local_Available root, be_Put = local_Put io root,
      be_Get = local_Get dirsize open_ok root, be_Delete = local_Delete remove_ok root,
      be_Stat = local_Stat dirsize root, be_List = local_List root\<rparr>"

section \<open>Contents\<close>

definition content_at :: "fs \<Rightarrow> string \<Rightarrow> bytes option" where
  "content_at f p = (case node_at f p of Some (File i) \<Rightarrow> Some (fs_data f i) | _ \<Rightarrow> None)"

definition no_links :: "fs \<Rightarrow> bool" where
  "no_links f \<longleftrightarrow> (\<forall>p t. node_at f p \<noteq> Some (Symlink t))"

lemma fs_stat_no_links:
  "no_links f \<Longrightarrow> fs_stat f p = (if CHR 0x00 \<in> set p then Inl EINVAL
     else case node_at f p of None \<Rightarrow> Inl ENOENT | Some n \<Rightarrow> Inr n)"
  by (auto simp: fs_stat_def fs_resolve_start no_links_def split: option.split fs_node.split)

lemma fold_max_ge: "m \<le> fold max xs m" for m :: nat
proof (induction xs arbitrary: m)
  case (Cons y ys)
  have "m \<le> max y m" by simp
  also have "\<dots> \<le> fold max ys (max y m)" by (rule Cons.IH)
  finally show ?case by simp
qed simp

lemma fold_max_member: "x \<in> set xs \<Longrightarrow> x \<le> fold max xs m" for m :: nat
proof (induction xs arbitrary: m)
  case (Cons y ys)
  show ?case
  proof (cases "x = y")
    case True
    have "x \<le> max y m" using True by simp
    also have "\<dots> \<le> fold max ys (max y m)" by (rule fold_max_ge)
    finally show ?thesis by simp
  qed (use Cons in simp)
qed simp

lemma fresh_inode_unused: "node_at f p \<noteq> Some (File (fresh_inode f))"
proof
  assume "node_at f p = Some (File (fresh_inode f))"
  then have "(p, File (fresh_inode f)) \<in> set (fs_names f)"
    by (auto simp: node_at_def dest: tbl_find_key)
  then have "fresh_inode f \<in> set (map (inode_of \<circ> snd) (fs_names f))" by force
  from fold_max_member [OF this, of 0] show False by (simp add: fresh_inode_def)
qed

lemma content_create [simp]: "content_at (create_file p d f) q = (if q = p then Some d else content_at f q)"
  using fresh_inode_unused [of f q]
  by (auto simp: content_at_def create_file_def node_at_def set_node_def Let_def fs_tbl.lookup_upsert
      split: option.split fs_node.split)

lemma node_create: "node_at (create_file p d f) q = (if q = p then Some (File (fresh_inode f)) else node_at f q)"
  by (simp add: create_file_def node_at_def set_node_def Let_def fs_tbl.lookup_upsert)

lemma content_del [simp]: "content_at (del_node p f) q = (if q = p then None else content_at f q)"
  by (simp add: content_at_def split: option.split fs_node.split)

lemma content_set_file: "content_at (set_node p (File i) f) q = (if q = p then Some (fs_data f i) else content_at f q)"
  by (simp add: content_at_def split: option.split fs_node.split)

text \<open>Making directories changes no content and keeps every existing name.\<close>

lemma mkdirs_frame:
  assumes "mkdirs ok ps f = (r, f')"
  shows "fs_data f' = fs_data f \<and> (\<forall>q. node_at f' q = node_at f q \<or> node_at f q = None \<and> node_at f' q = Some Dir)"
  using assms
proof (induction ps arbitrary: f)
  case Nil
  then show ?case by simp
next
  case (Cons p ps)
  show ?case
  proof (cases "node_at f p")
    case None
    show ?thesis
    proof (cases ok)
      case True
      with None Cons.prems have "mkdirs ok ps (set_node p Dir f) = (r, f')" by simp
      from Cons.IH [OF this] None show ?thesis by (auto split: if_splits)
    next
      case False
      with None Cons.prems show ?thesis by simp
    qed
  next
    case (Some n)
    then have "f' = f \<or> mkdirs ok ps f = (r, f')"
      using Cons.prems by (auto split: sum.splits fs_node.splits)
    with Cons.IH show ?thesis by auto
  qed
qed

lemma mkdirs_content:
  assumes "mkdirs ok ps f = (r, f')"
  shows "content_at f' q = content_at f q"
proof -
  from mkdirs_frame [OF assms] have d: "fs_data f' = fs_data f"
    and "node_at f' q = node_at f q \<or> node_at f q = None \<and> node_at f' q = Some Dir" by blast+
  then show ?thesis by (elim disjE) (simp_all add: content_at_def split: option.split fs_node.split)
qed

lemma mkdirs_keeps:
  assumes "mkdirs ok ps f = (r, f')"
  shows "no_links f \<Longrightarrow> no_links f'" "node_at f q = Some n \<Longrightarrow> node_at f' q = Some n"
  using mkdirs_frame [OF assms] unfolding no_links_def
  by (metis fs_node.distinct(5) option.inject, metis option.discI)

section \<open>Keys and paths\<close>

definition good_root :: "string \<Rightarrow> bool" where
  "good_root root \<longleftrightarrow> (\<exists>rcs. rcs \<noteq> [] \<and> (\<forall>c \<in> set rcs. plain_comp c \<and> CHR 0x00 \<notin> set c) \<and> root = abs_path rcs)"

definition valid_key :: "string \<Rightarrow> bool" where
  "valid_key k \<longleftrightarrow> (\<exists>cs. cs \<noteq> [] \<and> (\<forall>c \<in> set cs. plain_comp c \<and> CHR 0x00 \<notin> set c) \<and> k = join_with ''/'' cs
     \<and> \<not> has_prefix (last cs) ''.tmp-'')"

lemma local_path_key:
  assumes "\<forall>c \<in> set (rcs @ cs). plain_comp c" "rcs \<noteq> []" "cs \<noteq> []"
  shows "local_path (abs_path rcs) (join_with ''/'' cs) = abs_path (rcs @ cs)"
proof -
  have ne: "join_with ''/'' cs \<noteq> []"
    using assms(1,3) by (cases cs; cases "tl cs") (auto simp: plain_comp_def)
  have "abs_path rcs @ ''/'' @ join_with ''/'' cs = abs_path (rcs @ cs)"
    using join_with_append [OF assms(2,3), of "''/''"] by (simp add: abs_path_def)
  then show ?thesis
    using ne clean_abs_path [OF assms(1)] by (simp add: local_path_def path_join_def abs_path_def)
qed

lemma join_with_snoc: "cs \<noteq> [] \<Longrightarrow> join_with sep (cs @ [c]) = join_with sep cs @ sep @ c"
  using join_with_append [of cs "[c]" sep] by simp

lemma dropWhile_key_rev:
  assumes "CHR ''/'' \<notin> set c"
  shows "rev (dropWhile (\<lambda>c. c \<noteq> CHR ''/'') (rev (s @ CHR ''/'' # c))) = s @ ''/''"
proof -
  have "dropWhile (\<lambda>c. c \<noteq> CHR ''/'') (rev c @ CHR ''/'' # rev s) = dropWhile (\<lambda>c. c \<noteq> CHR ''/'') (CHR ''/'' # rev s)"
    by (rule dropWhile_append2) (use assms in auto)
  then show ?thesis by simp
qed

lemma path_clean_trailing:
  assumes "\<forall>c \<in> set cs. plain_comp c" "cs \<noteq> []"
  shows "path_clean (abs_path cs @ ''/'') = abs_path cs"
proof -
  have s: "split_on (CHR ''/'') (s @ ''/'') = split_on (CHR ''/'') s @ [[]]" for s
    by (induction s) (auto split: list.split)
  have j: "split_on (CHR ''/'') (join_with ''/'' cs) = cs"
    using assms by (intro split_on_join) (auto simp: plain_comp_def)
  have skip: "clean_comps r st (xs @ [[]]) = clean_comps r st xs" for r st xs
    by (induction r st xs rule: clean_comps.induct) (auto split: list.splits)
  show ?thesis
    using clean_comps_plain [OF assms(1), of True "[]"] s [of "join_with ''/'' cs"] j
    by (simp add: path_clean_def abs_path_def skip)
qed

lemma path_dir_abs:
  assumes "\<forall>c \<in> set (cs @ [c]). plain_comp c" "cs \<noteq> []"
  shows "path_dir (abs_path (cs @ [c])) = abs_path cs"
proof -
  have "abs_path (cs @ [c]) = abs_path cs @ CHR ''/'' # c"
    using assms(2) by (simp add: abs_path_def join_with_snoc)
  moreover have "CHR ''/'' \<notin> set c" using assms(1) by (simp add: plain_comp_def)
  ultimately have "path_dir (abs_path (cs @ [c])) = path_clean (abs_path cs @ ''/'')"
    unfolding path_dir_def using dropWhile_key_rev [of c "abs_path cs"] by argo
  then show ?thesis using path_clean_trailing assms by simp
qed

lemma plain_temp: "plain_comp (''.tmp-'' @ show_nat n)"
proof -
  have "CHR ''/'' \<notin> set (show_nat n)" using show_nat_digits [of "CHR ''/''" n] by (auto simp: is_digit_def)
  then show ?thesis by (auto simp: plain_comp_def)
qed

text \<open>The path of a valid key, and the temporary names beside it.\<close>

lemma key_paths:
  assumes "good_root root" "valid_key k"
  obtains rcs cs where "rcs \<noteq> []" "cs \<noteq> []" "\<forall>c \<in> set (rcs @ cs). plain_comp c \<and> CHR 0x00 \<notin> set c"
    "root = abs_path rcs" "k = join_with ''/'' cs" "\<not> has_prefix (last cs) ''.tmp-''"
    "local_path root k = abs_path (rcs @ cs)"
    "\<And>n. temp_name (path_dir (local_path root k)) n = abs_path (rcs @ butlast cs @ [''.tmp-'' @ show_nat n])"
proof -
  obtain rcs where r: "rcs \<noteq> []" "\<forall>c \<in> set rcs. plain_comp c \<and> CHR 0x00 \<notin> set c" "root = abs_path rcs"
    using assms(1) by (auto simp: good_root_def)
  obtain cs where c: "cs \<noteq> []" "\<forall>c \<in> set cs. plain_comp c \<and> CHR 0x00 \<notin> set c" "k = join_with ''/'' cs"
    "\<not> has_prefix (last cs) ''.tmp-''"
    using assms(2) by (auto simp: valid_key_def)
  have plain: "\<forall>x \<in> set (rcs @ cs). plain_comp x" using r c by auto
  have path: "local_path root k = abs_path (rcs @ cs)"
    using local_path_key [OF plain r(1) c(1)] r(3) c(3) by simp
  have split: "rcs @ cs = (rcs @ butlast cs) @ [last cs]" using c(1) by simp
  have dir: "path_dir (local_path root k) = abs_path (rcs @ butlast cs)"
    unfolding path split by (rule path_dir_abs [OF plain [unfolded split]]) (use r(1) in simp)
  have temp: "temp_name (path_dir (local_path root k)) n = abs_path (rcs @ butlast cs @ [''.tmp-'' @ show_nat n])" for n
    using r(1) join_with_snoc [of "rcs @ butlast cs" "''/''"] by (simp add: dir temp_name_def abs_path_def)
  have "\<forall>x \<in> set (rcs @ cs). plain_comp x \<and> CHR 0x00 \<notin> set x" using r c by auto
  with that r(1,3) c(1,3,4) path temp show thesis by blast
qed

section \<open>The backend keeps its promises\<close>

definition local_content :: "string \<Rightarrow> string \<Rightarrow> fs \<Rightarrow> bytes option" where
  "local_content root k f = content_at f (local_path root k)"

definition local_inv :: "string \<Rightarrow> fs \<Rightarrow> bool" where
  "local_inv root f \<longleftrightarrow> good_root root \<and> no_links f"

definition local_up :: "string \<Rightarrow> fs \<Rightarrow> bool" where
  "local_up root f \<longleftrightarrow> fs_stat f root = Inr Dir"

lemma abs_path_no_nul:
  assumes "\<forall>c \<in> set cs. CHR 0x00 \<notin> set c"
  shows "CHR 0x00 \<notin> set (abs_path cs)"
proof -
  have "CHR 0x00 \<notin> set (join_with ''/'' cs)"
    using assms by (induction "''/''" cs rule: join_with.induct) auto
  then show ?thesis by (simp add: abs_path_def)
qed

text \<open>Three kinds of paths that never meet: the root, the path of a key, a temporary name.\<close>

lemma paths_distinct:
  assumes "good_root root" "valid_key k" "valid_key k'"
  shows "local_path root k \<noteq> root" "temp_name (path_dir (local_path root k)) n \<noteq> root"
    "temp_name (path_dir (local_path root k)) n \<noteq> local_path root k'"
    "k \<noteq> k' \<Longrightarrow> local_path root k \<noteq> local_path root k'"
    "CHR 0x00 \<notin> set (local_path root k)" "CHR 0x00 \<notin> set root"
proof -
  obtain rcs cs where k: "cs \<noteq> []" "\<forall>c \<in> set (rcs @ cs). plain_comp c \<and> CHR 0x00 \<notin> set c"
    "root = abs_path rcs" "k = join_with ''/'' cs"
    "local_path root k = abs_path (rcs @ cs)"
    "\<And>n. temp_name (path_dir (local_path root k)) n = abs_path (rcs @ butlast cs @ [''.tmp-'' @ show_nat n])"
    using key_paths [OF assms(1,2)] by metis
  obtain rcs' cs' where k': "cs' \<noteq> []" "\<forall>c \<in> set (rcs' @ cs'). plain_comp c \<and> CHR 0x00 \<notin> set c"
    "root = abs_path rcs'" "k' = join_with ''/'' cs'" "\<not> has_prefix (last cs') ''.tmp-''"
    "local_path root k' = abs_path (rcs' @ cs')"
    using key_paths [OF assms(1,3)] by metis
  have r: "rcs' = rcs" using abs_path_inj [of rcs' rcs] k k' by simp
  have p: "\<forall>c \<in> set (rcs @ cs). plain_comp c" "\<forall>c \<in> set (rcs @ cs'). plain_comp c" "\<forall>c \<in> set rcs. plain_comp c"
    using k(2) k'(2) r by auto
  have t: "\<forall>c \<in> set (rcs @ butlast cs @ [''.tmp-'' @ show_nat n]). plain_comp c"
    using p(1) plain_temp by (auto dest: in_set_butlastD)
  show "local_path root k \<noteq> root" using abs_path_inj [OF p(1,3)] k by auto
  show "temp_name (path_dir (local_path root k)) n \<noteq> root" using abs_path_inj [OF t p(3)] unfolding k(6) by (auto simp: k(3))
  show "temp_name (path_dir (local_path root k)) n \<noteq> local_path root k'"
  proof
    assume "temp_name (path_dir (local_path root k)) n = local_path root k'"
    then have "butlast cs @ [''.tmp-'' @ show_nat n] = cs'"
      using abs_path_inj [OF t p(2)] k' r unfolding k(6) by simp
    then have "last cs' = ''.tmp-'' @ show_nat n" by (metis last_snoc)
    with k'(5) show False by simp
  qed
  show "k \<noteq> k' \<Longrightarrow> local_path root k \<noteq> local_path root k'"
    using abs_path_inj [OF p(1,2)] k(4,5) k'(4,6) r by auto
  have "\<forall>c \<in> set (rcs @ cs). CHR 0x00 \<notin> set c" using k(2) by blast
  from abs_path_no_nul [OF this] show "CHR 0x00 \<notin> set (local_path root k)" unfolding k(5) .
  have "\<forall>c \<in> set rcs. CHR 0x00 \<notin> set c" using k(2) by simp
  from abs_path_no_nul [OF this] show "CHR 0x00 \<notin> set root" by (simp add: k(3))
qed

lemma local_up_node: "local_inv root f \<Longrightarrow> valid_key k \<Longrightarrow> local_up root f \<longleftrightarrow> node_at f root = Some Dir"
  using paths_distinct(6) [of root k k]
  by (auto simp: local_up_def local_inv_def fs_stat_no_links split: option.split)

text \<open>
  What a put does to names other than the object's and a temporary one, whatever its outcome:
  contents stay, directories stay, no link appears.
\<close>

definition put_frame :: "string \<Rightarrow> string \<Rightarrow> fs \<Rightarrow> fs \<Rightarrow> bool" where
  "put_frame p t f f' \<longleftrightarrow> (no_links f \<longrightarrow> no_links f')
     \<and> (\<forall>q. q \<noteq> t \<longrightarrow> q \<noteq> p \<longrightarrow> content_at f' q = content_at f q)
     \<and> (\<forall>q. q \<noteq> t \<longrightarrow> node_at f q = Some Dir \<longrightarrow> node_at f' q = Some Dir)"

lemma put_frame_mkdirs: "mkdirs ok ps f = (r, f') \<Longrightarrow> put_frame p t f f'"
  by (simp add: put_frame_def mkdirs_content mkdirs_keeps)

lemma put_frame_trans: "put_frame p t f g \<Longrightarrow> put_frame p t g h \<Longrightarrow> put_frame p t f h"
  by (simp add: put_frame_def)

lemma put_frame_create: "put_frame p t f (create_file t d f)"
  by (simp add: put_frame_def node_create no_links_def)

lemma put_frame_remove: "put_frame p t f (remove_temp io t f)"
  by (auto simp: put_frame_def remove_temp_def fs_remove_def no_links_def split: option.split)

lemma remove_temp_content: "q \<noteq> t \<Longrightarrow> content_at (remove_temp io t f) q = content_at f q"
  by (auto simp: remove_temp_def fs_remove_def split: option.split)

lemma rename_file:
  assumes "node_at f t = Some (File i)" "fs_rename ok t p f = Inr f'" "node_at f p \<noteq> Some (File i)" "t \<noteq> p"
  shows "put_frame p t f f'" "content_at f' p = Some (fs_data f i)"
proof -
  have f': "f' = del_node t (set_node p (File i) f)" and nd: "node_at f p \<noteq> Some Dir"
    using assms by (auto simp: fs_rename_def split: if_splits)
  show "content_at f' p = Some (fs_data f i)" using assms(4) by (simp add: f' content_set_file)
  show "put_frame p t f f'"
    using nd by (auto simp: f' put_frame_def content_set_file no_links_def)
qed

lemma local_Put_cases:
  assumes "local_Put io root k d f = (r, f')" "local_path root k = p"
    and tp: "\<And>n. temp_name (path_dir p) n \<noteq> p"
  obtains (failed) t e where "t \<in> range (temp_name (path_dir p))" "r = Some e" "put_frame p t f f'"
      "content_at f' p = content_at f p"
  | (stored) t where "t \<in> range (temp_name (path_dir p))" "r = None" "put_frame p t f f'" "content_at f' p = Some d"
proof -
  obtain mr f1 where m: "mkdirs (lio_mkdir io) (dir_prefixes (path_dir p)) f = (mr, f1)" by fastforce
  note m1 = put_frame_mkdirs [OF m] mkdirs_content [OF m]
  show thesis
  proof (cases "mr = Inl ENOTDIR \<or> (\<exists>e. mr = Inl e)")
    case True
    then have "r = Some (OpError ''mkdir'')" "f' = f1"
      using assms(1) m by (auto simp: local_Put_def assms(2) Let_def)
    with m1 show thesis by (intro failed [of "temp_name (path_dir p) 0"]) auto
  next
    case False
    then have mr: "mr = Inr ()" by (cases mr) auto
    show thesis
    proof (cases "find (\<lambda>x. node_at f1 (temp_name (path_dir p) x) = None) (lio_suffixes io)")
      case None
      then have "r = Some (OpError ''createtemp'')" "f' = f1"
        using assms(1) m mr by (auto simp: local_Put_def assms(2) Let_def)
      with m1 show thesis by (intro failed [of "temp_name (path_dir p) 0"]) auto
    next
      case (Some x)
      define t where "t = temp_name (path_dir p) x"
      have t: "t \<in> range (temp_name (path_dir p))" "t \<noteq> p" using tp by (auto simp: t_def)
      have tn: "node_at f1 t = None" using Some by (auto simp: find_Some_iff t_def)
      note run = assms(1) [unfolded local_Put_def assms(2) Let_def m mr prod.case sum.case Some option.case, folded t_def]
      have fr: "put_frame p t f (remove_temp io t (create_file t dd f1))" for dd
        by (rule put_frame_trans [OF m1(1) put_frame_trans [OF put_frame_create put_frame_remove]])
      have fail: thesis if "r = Some e" "f' = remove_temp io t (create_file t dd f1)" for e dd
        using t that m1(2) fr by (intro failed [of t]) (auto simp: remove_temp_content)
      show thesis
      proof (cases "lio_create io")
        case False
        with run t m1 show thesis by (intro failed [of t]) auto
      next
        case True
        show thesis
        proof (cases "lio_copy io")
          case (Some n)
          with run True show thesis by (intro fail [of _ "take n d"]) auto
        next
          case None
          show thesis
          proof (cases "lio_close io")
            case False
            with run True None show thesis by (intro fail [of _ d]) auto
          next
            case close: True
            let ?f2 = "create_file t d f1"
            show thesis
            proof (cases "fs_rename (lio_rename io) t p ?f2")
              case (Inl e)
              with run True None close show thesis by (intro fail [of _ d]) auto
            next
              case (Inr f3)
              have i: "node_at ?f2 t = Some (File (fresh_inode f1))" by (simp add: node_create)
              have ne: "node_at ?f2 p \<noteq> Some (File (fresh_inode f1))" using t(2) fresh_inode_unused by (auto simp: node_create)
              note rf = rename_file [OF i Inr ne t(2)]
              have "fs_data ?f2 (fresh_inode f1) = d" by (simp add: create_file_def Let_def)
              moreover have "r = None" "f' = remove_temp io t f3" using run True None close Inr by auto
              moreover have "put_frame p t f f3"
                by (rule put_frame_trans [OF m1(1) put_frame_trans [OF put_frame_create rf(1)]])
              ultimately show thesis using t rf(2) put_frame_trans [OF _ put_frame_remove]
                by (intro stored [of t]) (auto simp: remove_temp_content)
            qed
          qed
        qed
      qed
    qed
  qed
qed

lemma local_Put_up:
  assumes "local_inv root f" "valid_key k" "local_up root f" "local_Put io root k d f = (r, f')"
  shows "local_inv root f' \<and> local_up root f'
    \<and> (r = None \<longrightarrow> local_content root k f' = Some d)
    \<and> (r \<noteq> None \<longrightarrow> local_content root k f' = local_content root k f)
    \<and> (\<forall>k'. valid_key k' \<longrightarrow> k' \<noteq> k \<longrightarrow> local_content root k' f' = local_content root k' f)"
proof -
  have g: "good_root root" and nl: "no_links f" using assms(1) by (simp_all add: local_inv_def)
  have dir: "node_at f root = Some Dir" using assms(3) local_up_node [OF assms(1,2)] by simp
  have tp: "temp_name (path_dir (local_path root k)) n \<noteq> local_path root k" for n
    by (rule paths_distinct(3) [OF g assms(2) assms(2)])
  have fr: "local_inv root f' \<and> local_up root f' \<and> (\<forall>k'. valid_key k' \<longrightarrow> k' \<noteq> k \<longrightarrow> local_content root k' f' = local_content root k' f)"
    if t: "t \<in> range (temp_name (path_dir (local_path root k)))" and fr: "put_frame (local_path root k) t f f'" for t
  proof -
    obtain n where n: "t = temp_name (path_dir (local_path root k)) n" using t by blast
    have "root \<noteq> t" using paths_distinct(2) [OF g assms(2) assms(2)] n by metis
    with fr dir nl have root: "node_at f' root = Some Dir" "no_links f'" by (simp_all add: put_frame_def)
    then have i: "local_inv root f'" using g by (simp add: local_inv_def)
    have "content_at f' (local_path root k') = content_at f (local_path root k')" if "valid_key k'" "k' \<noteq> k" for k'
    proof -
      have "local_path root k' \<noteq> t" using paths_distinct(3) [OF g assms(2) that(1)] n by metis
      moreover have "local_path root k' \<noteq> local_path root k" using paths_distinct(4) [OF g that(1) assms(2)] that(2) by blast
      ultimately show ?thesis using fr by (simp add: put_frame_def)
    qed
    then show ?thesis using i root local_up_node [OF i assms(2)] by (simp add: local_content_def)
  qed
  show ?thesis
    using assms(4) refl tp
  proof (cases rule: local_Put_cases)
    case (failed t e)
    with fr [OF failed(1,3)] show ?thesis by (simp add: local_content_def)
  next
    case (stored t)
    with fr [OF stored(1,3)] show ?thesis by (simp add: local_content_def)
  qed
qed

lemma local_Get_content:
  assumes "local_inv root f" "valid_key k" "local_Get ds True root k f = (g, f')"
  shows "f' = f" "(\<exists>ob. g = Inr (Inr d, ob)) \<longleftrightarrow> local_content root k f = Some d"
proof -
  have nl: "no_links f" and p: "CHR 0x00 \<notin> set (local_path root k)"
    using assms(1,2) paths_distinct(5) [of root k k] by (auto simp: local_inv_def)
  show "f' = f" using assms(3) by (simp add: local_Get_def)
  show "(\<exists>ob. g = Inr (Inr d, ob)) \<longleftrightarrow> local_content root k f = Some d"
    using assms(3) p
    by (cases "node_at f (local_path root k)")
      (auto simp: local_Get_def fs_stat_no_links [OF nl] local_content_def content_at_def split: fs_node.splits)
qed

lemma local_Delete_effect:
  assumes "local_inv root f" "valid_key k" "local_up root f" "local_Delete ok root k f = (r, f')"
  shows "local_inv root f' \<and> local_up root f' \<and> (r = None \<longrightarrow> local_content root k f' = None)
    \<and> (\<forall>k'. valid_key k' \<longrightarrow> k' \<noteq> k \<longrightarrow> local_content root k' f' = local_content root k' f)"
proof -
  have g: "good_root root" and nl: "no_links f" using assms(1) by (simp_all add: local_inv_def)
  have dir: "node_at f root = Some Dir" using assms(3) local_up_node [OF assms(1,2)] by simp
  have cases: "f' = f \<and> (r = None \<longrightarrow> node_at f (local_path root k) = None) \<or> f' = del_node (local_path root k) f \<and> r = None"
    using assms(4) by (cases "node_at f (local_path root k)") (auto simp: local_Delete_def fs_remove_def split: if_splits)
  have ne: "local_path root k \<noteq> root" by (rule paths_distinct(1) [OF g assms(2) assms(2)])
  have i: "local_inv root f'" using cases g nl by (auto simp: local_inv_def no_links_def split: if_splits)
  have "node_at f' root = Some Dir" using cases dir ne by auto
  then have u: "local_up root f'" using local_up_node [OF i assms(2)] by simp
  have "content_at f' (local_path root k') = content_at f (local_path root k')" if "valid_key k'" "k' \<noteq> k" for k'
    using cases paths_distinct(4) [OF g that(1) assms(2)] that(2) by auto
  moreover have "r = None \<Longrightarrow> content_at f' (local_path root k) = None" using cases by (auto simp: content_at_def)
  ultimately show ?thesis using i u by (simp add: local_content_def)
qed

interpretation local: blob_backend "local_backend io ds True ok root" "local_content root" valid_key
    "local_inv root" "local_up root" for io ds ok root
proof
  fix s a s' k
  assume "local_inv root s" "be_Available (local_backend io ds True ok root) s = (a, s')"
  then show "a = local_up root s \<and> local_inv root s' \<and> local_up root s' = local_up root s
      \<and> local_content root k s' = local_content root k s"
    by (auto simp: local_backend_def local_Available_def local_up_def)
next
  fix s k d s'
  assume "local_inv root s" "valid_key k" "local_up root s" "be_Put (local_backend io ds True ok root) k d s = (None, s')"
  then show "local_content root k s' = Some d" using local_Put_up [of root s k io d None s'] by (simp add: local_backend_def)
next
  fix s k d e s'
  assume "local_inv root s" "valid_key k" "local_up root s" "be_Put (local_backend io ds True ok root) k d s = (Some e, s')"
  then show "local_content root k s' = local_content root k s"
    using local_Put_up [of root s k io d "Some e" s'] by (simp add: local_backend_def)
next
  fix s k k' d r s'
  assume "local_inv root s" "valid_key k" "valid_key k'" "local_up root s" "k' \<noteq> k"
    "be_Put (local_backend io ds True ok root) k d s = (r, s')"
  then show "local_content root k' s' = local_content root k' s"
    using local_Put_up [of root s k io d r s'] by (simp add: local_backend_def)
next
  fix s k d r s'
  assume "local_inv root s" "valid_key k" "local_up root s" "be_Put (local_backend io ds True ok root) k d s = (r, s')"
  then show "local_inv root s' \<and> local_up root s'"
    using local_Put_up [of root s k io d r s'] by (simp add: local_backend_def)
next
  fix s k g s' d
  assume "local_inv root s" "valid_key k" "be_Get (local_backend io ds True ok root) k s = (g, s')"
  then show "(\<exists>ob. g = Inr (Inr d, ob)) \<longleftrightarrow> local_content root k s = Some d"
    using local_Get_content(2) [of root s k ds g s' d] by (simp add: local_backend_def)
next
  fix s k g s' k'
  assume "local_inv root s" "valid_key k" "be_Get (local_backend io ds True ok root) k s = (g, s')"
  then show "local_inv root s' \<and> local_up root s' = local_up root s \<and> local_content root k' s' = local_content root k' s"
    using local_Get_content(1) [of root s k ds g s'] by (simp add: local_backend_def)
next
  fix s k s'
  assume "local_inv root s" "valid_key k" "local_up root s" "be_Delete (local_backend io ds True ok root) k s = (None, s')"
  then show "local_content root k s' = None"
    using local_Delete_effect [of root s k ok None s'] by (simp add: local_backend_def)
next
  fix s k k' r s'
  assume "local_inv root s" "valid_key k" "valid_key k'" "local_up root s" "k' \<noteq> k"
    "be_Delete (local_backend io ds True ok root) k s = (r, s')"
  then show "local_content root k' s' = local_content root k' s"
    using local_Delete_effect [of root s k ok r s'] by (simp add: local_backend_def)
next
  fix s k r s'
  assume "local_inv root s" "valid_key k" "local_up root s" "be_Delete (local_backend io ds True ok root) k s = (r, s')"
  then show "local_inv root s' \<and> local_up root s'"
    using local_Delete_effect [of root s k ok r s'] by (simp add: local_backend_def)
qed

end
