(* ===== verification/ChainProps.thy ===== *)
theory ChainProps
  imports LocalStore
begin

text \<open>
  The chain as a client of \<open>blob_backend\<close>: what a put does to every backend, what is read back,
  and what happens to a backend that was down. Witnesses run on local backends.
\<close>

section \<open>Chains of lawful backends\<close>

definition lawful ::
    "('s backend \<Rightarrow> string \<Rightarrow> 's \<Rightarrow> bytes option) \<Rightarrow> (string \<Rightarrow> bool) \<Rightarrow> ('s backend \<Rightarrow> 's \<Rightarrow> bool)
     \<Rightarrow> ('s backend \<Rightarrow> 's \<Rightarrow> bool) \<Rightarrow> 's chain \<Rightarrow> bool" where
  "lawful content valid sane up c \<longleftrightarrow>
     (\<forall>(b, s) \<in> set c. blob_backend b (content b) valid (sane b) (up b) \<and> sane b s)"

text \<open>What one put does to one backend of the chain.\<close>

definition put_one ::
    "('s backend \<Rightarrow> string \<Rightarrow> 's \<Rightarrow> bytes option) \<Rightarrow> (string \<Rightarrow> bool) \<Rightarrow> ('s backend \<Rightarrow> 's \<Rightarrow> bool)
     \<Rightarrow> ('s backend \<Rightarrow> 's \<Rightarrow> bool) \<Rightarrow> string \<Rightarrow> bytes \<Rightarrow> 's backend \<times> 's \<Rightarrow> 's backend \<times> 's \<Rightarrow> bool" where
  "put_one content valid sane up k d x y \<longleftrightarrow>
     (case (x, y) of ((b, s), (b', s')) \<Rightarrow> b' = b \<and> sane b s' \<and> up b s' = up b s
       \<and> (content b k s' = Some d \<or> content b k s' = content b k s)
       \<and> (\<not> up b s \<longrightarrow> content b k s' = content b k s)
       \<and> (\<forall>k'. valid k' \<longrightarrow> k' \<noteq> k \<longrightarrow> content b k' s' = content b k' s))"

lemma fan_out_put:
  assumes "lawful content valid sane up c" "valid k"
    and "fan_out ChainPut (\<lambda>b. be_Put b k d) err n c = ((err', n'), c')"
  shows "list_all2 (put_one content valid sane up k d) c c' \<and> n \<le> n'
    \<and> (err' = None \<longrightarrow> err = None \<and> (\<forall>(b, s) \<in> set c'. up b s \<longrightarrow> content b k s = Some d)
         \<and> n' = n + length (filter (\<lambda>(b, s). up b s) c))
    \<and> (err \<noteq> None \<longrightarrow> err' = err)"
  using assms
proof (induction c arbitrary: err n c')
  case Nil
  then show ?case by simp
next
  case (Cons x c)
  obtain b s where x: "x = (b, s)" by fastforce
  have law: "blob_backend b (content b) valid (sane b) (up b)" and sane: "sane b s" and rest: "lawful content valid sane up c"
    using Cons.prems(1) x by (auto simp: lawful_def)
  obtain a s1 where a: "be_Available b s = (a, s1)" by fastforce
  note av = blob_backend.avail [OF law sane a]
  show ?case
  proof (cases a)
    case False
    obtain r c'' where f: "fan_out ChainPut (\<lambda>b. be_Put b k d) err n c = (r, c'')" by fastforce
    with Cons.prems(3) a x False have r: "r = (err', n')" "c' = (b, s1) # c''" by simp_all
    have down: "\<not> up b s" "\<not> up b s1" using av False by simp_all
    have one: "put_one content valid sane up k d (b, s) (b, s1)" using av by (simp add: put_one_def)
    note ih = Cons.IH [OF rest Cons.prems(2) f [unfolded r(1)]]
    show ?thesis
      unfolding x r(2) list_all2_Cons
    proof (intro conjI impI)
      show "put_one content valid sane up k d (b, s) (b, s1)" by (rule one)
      show "list_all2 (put_one content valid sane up k d) c c''" "n \<le> n'" using ih by blast+
      show "err = None" if "err' = None" using ih that by blast
      show "\<forall>(b, s) \<in> set ((b, s1) # c''). up b s \<longrightarrow> content b k s = Some d" if "err' = None"
        using ih that down(2) by simp
      show "n' = n + length (filter (\<lambda>(b, s). up b s) ((b, s) # c))" if "err' = None"
        using ih that down(1) by simp
      show "err' = err" if "err \<noteq> None" using ih that by blast
    qed
  next
    case True
    then have s1: "sane b s1" "up b s1" "up b s" "\<And>k. content b k s1 = content b k s" using av by auto
    obtain e s2 where p: "be_Put b k d s1 = (e, s2)" by fastforce
    note keep = blob_backend.put_inv [OF law s1(1) Cons.prems(2) s1(2) p]
    have other: "content b k' s2 = content b k' s" if "valid k'" "k' \<noteq> k" for k'
      using blob_backend.put_other [OF law s1(1) Cons.prems(2) that(1) s1(2) that(2) p] s1(4) by simp
    show ?thesis
    proof (cases e)
      case None
      have stored: "content b k s2 = Some d"
        using blob_backend.put_ok [OF law s1(1) Cons.prems(2) s1(2) p [unfolded None]] .
      obtain r c'' where f: "fan_out ChainPut (\<lambda>b. be_Put b k d) err (Suc n) c = (r, c'')" by fastforce
      with Cons.prems(3) a x True p None have r: "r = (err', n')" "c' = (b, s2) # c''" by simp_all
      have "put_one content valid sane up k d (b, s) (b, s2)" using stored keep other s1 by (simp add: put_one_def)
      note ih = Cons.IH [OF rest Cons.prems(2) f [unfolded r(1)]]
      show ?thesis
        unfolding x r(2) list_all2_Cons
      proof (intro conjI impI)
        show "put_one content valid sane up k d (b, s) (b, s2)" by fact
        show "list_all2 (put_one content valid sane up k d) c c''" using ih by blast
        show "n \<le> n'" using ih by simp
        show "err = None" if "err' = None" using ih that by blast
        show "\<forall>(b, s) \<in> set ((b, s2) # c''). up b s \<longrightarrow> content b k s = Some d" if "err' = None"
          using ih that stored by simp
        show "n' = n + length (filter (\<lambda>(b, s). up b s) ((b, s) # c))" if "err' = None"
          using ih that s1(3) by simp
        show "err' = err" if "err \<noteq> None" using ih that by blast
      qed
    next
      case (Some er)
      have kept: "content b k s2 = content b k s"
        using blob_backend.put_fail [OF law s1(1) Cons.prems(2) s1(2) p [unfolded Some]] s1(4) by simp
      let ?e = "if err = None then Some (ChainPut (be_Name b) er) else err"
      obtain r c'' where f: "fan_out ChainPut (\<lambda>b. be_Put b k d) ?e n c = (r, c'')" by fastforce
      with Cons.prems(3) a x True p Some have r: "r = (err', n')" "c' = (b, s2) # c''" by simp_all
      have "put_one content valid sane up k d (b, s) (b, s2)" using kept keep other s1 by (simp add: put_one_def)
      note ih = Cons.IH [OF rest Cons.prems(2) f [unfolded r(1)]]
      have ne: "?e \<noteq> None" by simp
      then have err: "err' = ?e" using ih by blast
      then have no: "err' \<noteq> None" using ne by simp
      show ?thesis
        unfolding x r(2) list_all2_Cons
      proof (intro conjI impI)
        show "put_one content valid sane up k d (b, s) (b, s2)" by fact
        show "list_all2 (put_one content valid sane up k d) c c''" "n \<le> n'" using ih by blast+
        show "err' = err" if "err \<noteq> None" using err that by simp
      qed (use no in blast)+
    qed
  qed
qed

lemma chain_active_first:
  assumes "lawful content valid sane up c" "list_ex (\<lambda>(b, s). up b s) c"
  shows "\<exists>b s s1. (b, s) \<in> set c \<and> up b s \<and> sane b s1 \<and> (\<forall>k. content b k s1 = content b k s)
    \<and> blob_backend b (content b) valid (sane b) (up b) \<and> fst (chain_active f c) = Some (fst (f b s1))"
  using assms
proof (induction c)
  case Nil
  then show ?case by simp
next
  case (Cons x c)
  obtain b s where x: "x = (b, s)" by fastforce
  have law: "blob_backend b (content b) valid (sane b) (up b)" and sane: "sane b s" and rest: "lawful content valid sane up c"
    using Cons.prems(1) x by (auto simp: lawful_def)
  obtain a s1 where a: "be_Available b s = (a, s1)" by fastforce
  note av = blob_backend.avail [OF law sane a]
  show ?case
  proof (cases a)
    case True
    have "fst (chain_active f (x # c)) = Some (fst (f b s1))"
      using a x True by (simp split: prod.split)
    moreover have "up b s" "sane b s1" "\<forall>k. content b k s1 = content b k s" using av True by auto
    ultimately show ?thesis using x law by (intro exI [of _ b] exI [of _ s] exI [of _ s1]) simp
  next
    case False
    then have "\<not> up b s" using av by simp
    with Cons.prems(2) x have "list_ex (\<lambda>(b, s). up b s) c" by simp
    moreover have "fst (chain_active f (x # c)) = fst (chain_active f c)"
      using a x False by (simp split: prod.split)
    ultimately show ?thesis using Cons.IH [OF rest] by fastforce
  qed
qed

lemma put_one_state:
  assumes "list_all2 (put_one content valid sane up k d) c c'" "lawful content valid sane up c"
  shows "lawful content valid sane up c'" "list_ex (\<lambda>(b, s). up b s) c' = list_ex (\<lambda>(b, s). up b s) c"
  using assms by (induction rule: list_all2_induct) (auto simp: lawful_def put_one_def)

text \<open>
  C25. A put on a chain treats each backend by itself: every backend that is up ends with the
  data under the key or as it was, one that is down ends as it was, no other valid key changes
  anywhere. When the put reports no error, at least one backend is up and every backend that is
  up has the data.
\<close>

theorem chain_put_everywhere:
  assumes "lawful content valid sane up c" "valid k" "chain_Put k (Inr d) c = (err, c')"
  shows "list_all2 (put_one content valid sane up k d) c c'
    \<and> (err = None \<longrightarrow> list_ex (\<lambda>(b, s). up b s) c \<and> (\<forall>(b, s) \<in> set c'. up b s \<longrightarrow> content b k s = Some d))"
proof -
  obtain e n where f: "fan_out ChainPut (\<lambda>b. be_Put b k d) None 0 c = ((e, n), c')"
    and err: "err = (if n = 0 then (if e \<noteq> None then e else Some NoBackendAvailable) else e)"
    using assms(3) by (auto simp: chain_Put_def split: prod.splits)
  note spec = fan_out_put [OF assms(1,2) f]
  have "list_ex (\<lambda>(b, s). up b s) c" if "err = None"
  proof -
    have "n \<noteq> 0" "e = None" using err that by (auto split: if_splits)
    then have "filter (\<lambda>(b, s). up b s) c \<noteq> []" using spec by auto
    then show ?thesis by (auto simp: list_ex_iff filter_empty_conv)
  qed
  moreover have "e = None" if "err = None" using err that by (auto split: if_splits)
  ultimately show ?thesis using spec by simp
qed

text \<open>
  What a put without error stored is what the chain reads back: the first backend that is up
  has it.
\<close>

theorem chain_put_then_get:
  assumes "lawful content valid sane up c" "valid k" "chain_Put k (Inr d) c = (None, c')"
  shows "\<exists>ob. fst (chain_Get k c') = Inr (Inr d, ob)"
proof -
  obtain e n where f: "fan_out ChainPut (\<lambda>b. be_Put b k d) None 0 c = ((e, n), c')"
    and n: "n \<noteq> 0" "e = None"
    using assms(3) by (auto simp: chain_Put_def split: prod.splits if_splits)
  note spec = fan_out_put [OF assms(1,2) f]
  have all2: "list_all2 (put_one content valid sane up k d) c c'" using spec by blast
  have stored: "\<forall>(b, s) \<in> set c'. up b s \<longrightarrow> content b k s = Some d" using spec n(2) by blast
  note st = put_one_state [OF all2 assms(1)]
  have "filter (\<lambda>(b, s). up b s) c \<noteq> []" using spec n by auto
  then have "list_ex (\<lambda>(b, s). up b s) c'" unfolding st(2) by (auto simp: list_ex_iff filter_empty_conv)
  then obtain b s s1 where first: "(b, s) \<in> set c'" "up b s" "sane b s1"
    "content b k s1 = content b k s" "blob_backend b (content b) valid (sane b) (up b)"
    "fst (chain_active (\<lambda>b. be_Get b k) c') = Some (fst (be_Get b k s1))"
    using chain_active_first [OF st(1)] by metis
  obtain g s2 where g: "be_Get b k s1 = (g, s2)" by fastforce
  have "content b k s1 = Some d" using stored first by auto
  with blob_backend.get_content [OF first(5,3) assms(2) g] obtain ob where "g = Inr (Inr d, ob)" by blast
  then show ?thesis using first(6) g by (auto simp: chain_Get_def first_or_none_def split: prod.split)
qed

text \<open>
  A backend that is down during a put is not brought up to date: when it comes back as the
  first of the chain, with what it had, the put that reported success is not what is read. The
  old data is, or nothing, though another backend has the new data.
\<close>

theorem chain_stale_after_outage:
  assumes "lawful content valid sane up ((b, s) # c)" "valid k" "\<not> up b s"
    and "chain_Put k (Inr d) ((b, s) # c) = (None, (b, s') # c')"
    and "sane b s''" "up b s''" "content b k s'' = content b k s'"
  shows "(\<exists>ob. fst (chain_Get k ((b, s'') # c')) = Inr (Inr x, ob)) \<longleftrightarrow> content b k s = Some x"
proof -
  obtain e n where f: "fan_out ChainPut (\<lambda>b. be_Put b k d) None 0 ((b, s) # c) = ((e, n), (b, s') # c')"
    using assms(4) by (auto simp: chain_Put_def split: prod.splits)
  from fan_out_put [OF assms(1,2) f] assms(3) have old: "content b k s' = content b k s"
    by (simp add: put_one_def)
  have law: "blob_backend b (content b) valid (sane b) (up b)" using assms(1) by (simp add: lawful_def)
  obtain a s1 where a: "be_Available b s'' = (a, s1)" by fastforce
  note av = blob_backend.avail [OF law assms(5) a]
  obtain g s2 where g: "be_Get b k s1 = (g, s2)" by fastforce
  have s1: "sane b s1" "content b k s1 = content b k s" "a" using av assms(6,7) old by auto
  have "fst (chain_Get k ((b, s'') # c')) = g" using a s1(3) g by (simp add: chain_Get_def first_or_none_def)
  with blob_backend.get_content [OF law s1(1) assms(2) g, of x] s1(2) show ?thesis by simp
qed

section \<open>A chain of local backends\<close>

definition demo_lio :: local_io where
  "demo_lio = \<lparr>lio_mkdir = True, lio_suffixes = [7], lio_create = True, lio_copy = None, lio_close = True,
     lio_rename = True, lio_remove = True\<rparr>"

definition demo_root :: fs where
  "demo_root = \<lparr>fs_names = [(''/s'', Dir)], fs_data = (\<lambda>i. [])\<rparr>"

definition demo_local :: "fs backend" where
  "demo_local = local_backend demo_lio 0 True True ''/s''"

definition demo_chain :: "fs chain" where
  "demo_chain = [(demo_local, demo_root)]"

text \<open>The first backend's root is missing, the second's is there.\<close>

definition demo_down :: fs where
  "demo_down = \<lparr>fs_names = [], fs_data = (\<lambda>i. [])\<rparr>"

definition demo_back :: fs where
  "demo_back = demo_root"

lemma demo_good_root: "good_root ''/s''"
  by (simp add: good_root_def abs_path_def plain_comp_def exI [of _ "[''s'']"])

lemma demo_valid_key: "valid_key ''k''"
  by (simp add: valid_key_def plain_comp_def exI [of _ "[''k'']"])

lemma demo_sane: "local_inv ''/s'' demo_root" "local_inv ''/s'' demo_down"
  by (simp_all add: local_inv_def demo_good_root no_links_def node_at_def tbl_find_def demo_root_def demo_down_def)

lemma demo_lawful:
  "lawful (\<lambda>b. local_content ''/s'') valid_key (\<lambda>b. local_inv ''/s'') (\<lambda>b. local_up ''/s'') demo_chain"
  "lawful (\<lambda>b. local_content ''/s'') valid_key (\<lambda>b. local_inv ''/s'') (\<lambda>b. local_up ''/s'')
     ((demo_local, demo_down) # demo_chain)"
  using local.blob_backend_axioms demo_sane by (simp_all add: lawful_def demo_chain_def demo_local_def)

lemma demo_put: "fst (chain_Put ''k'' (Inr [1]) demo_chain) = None"
  by code_simp

lemma demo_put_down: "fst (chain_Put ''k'' (Inr [1]) ((demo_local, demo_down) # demo_chain)) = None"
  by code_simp

lemma demo_up: "local_up ''/s'' demo_root"
  by (simp add: local_up_def fs_stat_def fs_resolve_start node_at_def tbl_find_def demo_root_def)

theorem chain_put_everywhere_witness:
  "map (\<lambda>(b, s). local_content ''/s'' ''k'' s) (snd (chain_Put ''k'' (Inr [1]) demo_chain)) = [Some [1]]"
proof -
  obtain c' where c: "chain_Put ''k'' (Inr [1]) demo_chain = (None, c')" using demo_put by (metis prod.collapse)
  from chain_put_everywhere [OF demo_lawful(1) demo_valid_key c]
  have "map (\<lambda>(b, s). local_content ''/s'' ''k'' s) c' = [Some [1]]"
    using demo_up by (auto simp: demo_chain_def list_all2_Cons1 put_one_def)
  with c show ?thesis by simp
qed

theorem chain_put_then_get_witness:
  "\<exists>ob. fst (chain_Get ''k'' (snd (chain_Put ''k'' (Inr [1]) demo_chain))) = Inr (Inr [1], ob)"
proof -
  obtain c' where c: "chain_Put ''k'' (Inr [1]) demo_chain = (None, c')" using demo_put by (metis prod.collapse)
  from chain_put_then_get [OF demo_lawful(1) demo_valid_key c] c show ?thesis by simp
qed

theorem chain_stale_after_outage_witness:
  "\<nexists>ob. fst (chain_Get ''k'' ((demo_local, demo_root) # tl (snd (chain_Put ''k'' (Inr [1]) ((demo_local, demo_down) # demo_chain)))))
     = Inr (Inr [1], ob)"
proof -
  have down: "\<not> local_up ''/s'' demo_down" by (simp add: local_up_def fs_stat_def fs_resolve_start node_at_def tbl_find_def demo_down_def)
  note up = demo_up
  have p: "chain_Put ''k'' (Inr [1]) ((demo_local, demo_down) # demo_chain)
      = (None, (demo_local, demo_down) # tl (snd (chain_Put ''k'' (Inr [1]) ((demo_local, demo_down) # demo_chain))))"
    (is "?l = _")
  proof -
    have "snd ?l = (demo_local, demo_down) # tl (snd ?l)"
      using down by (simp add: chain_Put_def demo_local_def local_backend_def local_Available_def local_up_def split: prod.split)
    with demo_put_down show ?thesis by (metis prod.collapse)
  qed
  have "local_content ''/s'' ''k'' demo_root = None" "local_content ''/s'' ''k'' demo_down = None"
    using paths_distinct(1) [OF demo_good_root demo_valid_key demo_valid_key]
    by (simp_all add: local_content_def content_at_def node_at_def tbl_find_def demo_root_def demo_down_def)
  with chain_stale_after_outage [OF demo_lawful(2) demo_valid_key down p demo_sane(1) up, of "[1]"]
  show ?thesis by simp
qed

end
