(* ===== verification/Commands.thy ===== *)
theory Commands
  imports Config RewardsPayout BandwidthProps
begin

text \<open>
  The commands that start the two services, \<^verbatim>\<open>cmd/gitlab-enhanced/cmd_rewards.go\<close> and
  \<^verbatim>\<open>cmd_bandwidth.go\<close>: load and validate the configuration, then construct the service from its
  section. What validation guarantees to the services is proved here.
\<close>

section \<open>Loading and validating\<close>

datatype command_error =
    LoadError load_config_error
  | ConfigInvalid "issue list"
  | ServiceDisabled
  | RewardsNewError new_error
  | BandwidthNewError bw_new_error

definition loadConfig ::
    "(string \<Rightarrow> string) \<Rightarrow> (string \<Rightarrow> config \<Rightarrow> string + config) \<Rightarrow> (string \<Rightarrow> read_result) \<Rightarrow> (string \<Rightarrow> string)
     \<Rightarrow> (string \<times> (string \<Rightarrow> config \<Rightarrow> config)) list \<Rightarrow> string \<Rightarrow> (command_error, config) result" where
  "loadConfig expand yaml files env order root =
     (case Load expand yaml files env order root of
        Inl e \<Rightarrow> Inl (LoadError e)
      | Inr cfg \<Rightarrow> (case Validate cfg of Some is \<Rightarrow> Inl (ConfigInvalid is) | None \<Rightarrow> Inr cfg))"

section \<open>Starting the services\<close>

definition rewards_serve_config :: "config \<Rightarrow> rewards_config" where
  "rewards_serve_config cfg = (let r = cf_Rewards cfg in
     \<lparr>rc_Enabled = rs_Enabled r, rc_PublisherID = rs_PublisherID r, rc_WalletAddress = rs_WalletAddress r,
      rc_UpholdClientID = rs_UpholdClientID r, rc_UpholdClientSecret = rs_UpholdClientSecret r,
      rc_MinPayoutBAT = rs_MinPayoutBAT r, rc_ListenAddr = rs_ListenAddr r, rc_WebhookSecret = rs_WebhookSecret r,
      rc_DBPath = rs_DBPath r, rc_BandwidthAddr = rs_BandwidthAddr r, rc_EthRPCURL = rs_EthRPCURL r,
      rc_EthPrivateKey = rs_EthPrivateKey r, rc_EthChainID = rs_EthChainID r, rc_UpholdAPIBase = []\<rparr>)"

definition rewards_serve ::
    "(command_error, config) result \<Rightarrow> (string \<Rightarrow> (string, rewards_db) result) \<Rightarrow> (command_error, rewards_service) result" where
  "rewards_serve loaded open_store =
     (case loaded of
        Inl e \<Rightarrow> Inl e
      | Inr cfg \<Rightarrow>
          if \<not> rs_Enabled (cf_Rewards cfg) then Inl ServiceDisabled
          else (case new_rewards (rewards_serve_config cfg) open_store of
                  Inl e \<Rightarrow> Inl (RewardsNewError e) | Inr sv \<Rightarrow> Inr sv))"

definition bandwidthUpstream :: "config \<Rightarrow> string" where
  "bandwidthUpstream cfg =
     (if bn_UpstreamGitLab (cf_Bandwidth cfg) \<noteq> [] then bn_UpstreamGitLab (cf_Bandwidth cfg)
      else ''http://'' @ gl_Domain (cf_GitLab cfg))"

definition bandwidth_serve_config :: "config \<Rightarrow> bw_config" where
  "bandwidth_serve_config cfg = (let b = cf_Bandwidth cfg in
     \<lparr>bc_Enabled = bn_Enabled b, bc_ListenAddr = bn_ListenAddr b, bc_CompressionLevel = bn_CompressionLevel b,
      bc_LFSDedupEnabled = bn_LFSDedupEnabled b, bc_LFSStorePath = lf_Path (cf_LFS cfg),
      bc_ArtifactMaxSizeMB = bn_ArtifactMaxSizeMB b, bc_ArtifactRetentionDays = bn_ArtifactRetentionDays b,
      bc_CacheMaxSizeGB = bn_CacheMaxSizeGB b, bc_UpstreamGitLab = bandwidthUpstream cfg, bc_DBPath = bn_DBPath b\<rparr>)"

definition bandwidth_serve ::
    "(command_error, config) result \<Rightarrow> (string \<Rightarrow> (string, artifact_record list) result)
     \<Rightarrow> (command_error, bw_service) result" where
  "bandwidth_serve loaded open_store =
     (case loaded of
        Inl e \<Rightarrow> Inl e
      | Inr cfg \<Rightarrow>
          if \<not> bn_Enabled (cf_Bandwidth cfg) then Inl ServiceDisabled
          else (case new_bandwidth (bandwidth_serve_config cfg) open_store of
                  Inl e \<Rightarrow> Inl (BandwidthNewError e) | Inr sv \<Rightarrow> Inr sv))"

lemma loadConfig_valid: "loadConfig expand yaml files env order root = Inr cfg \<Longrightarrow> Validate cfg = None"
  by (auto simp: loadConfig_def split: sum.splits option.splits)

lemma rewards_serve_started:
  assumes "rewards_serve (loadConfig expand yaml files env order root) open_store = Inr sv"
  obtains cfg where "Validate cfg = None" "rs_Enabled (cf_Rewards cfg)"
    "new_rewards (rewards_serve_config cfg) open_store = Inr sv"
  using assms loadConfig_valid [of expand yaml files env order root]
  by (auto simp: rewards_serve_def split: sum.splits if_splits)

lemma new_rewards_keeps:
  assumes "new_rewards cfg open_store = Inr sv"
  shows "rc_UpholdClientID (sv_cfg sv) = rc_UpholdClientID cfg" "rc_UpholdClientSecret (sv_cfg sv) = rc_UpholdClientSecret cfg"
    "rc_EthRPCURL (sv_cfg sv) = rc_EthRPCURL cfg" "rc_EthPrivateKey (sv_cfg sv) = rc_EthPrivateKey cfg"
    "rc_WebhookSecret (sv_cfg sv) = rc_WebhookSecret cfg"
  using assms by (auto simp: new_rewards_def Let_def split: if_splits sum.splits)

lemma submitPayout_has_method:
  assumes "(rc_UpholdClientID rc \<noteq> [] \<and> rc_UpholdClientSecret rc \<noteq> [])
      \<or> (rc_UpholdClientID rc = [] \<and> rc_EthRPCURL rc \<noteq> [] \<and> rc_EthPrivateKey rc \<noteq> [])"
  shows "fst (submitPayout env rc reward wallet s) \<noteq> Ret (Inl NoMethod)"
  using assms
proof
  assume "rc_UpholdClientID rc \<noteq> [] \<and> rc_UpholdClientSecret rc \<noteq> []"
  moreover have "fst (submitUpholdPayout (pe_http env) rc reward wallet s) \<noteq> Inl NoMethod"
    by (auto simp: submitUpholdPayout_def Let_def split: prod.splits sum.splits)
  ultimately show ?thesis by (auto simp: submitPayout_def split: prod.splits)
next
  assume "rc_UpholdClientID rc = [] \<and> rc_EthRPCURL rc \<noteq> [] \<and> rc_EthPrivateKey rc \<noteq> []"
  then show ?thesis by (auto simp: submitPayout_def Let_def split: prod.splits go.splits sum.splits)
qed

lemma validateRewards_method:
  assumes "validateRewards c = []" "rs_Enabled (cf_Rewards c)"
  shows "rs_WebhookSecret (cf_Rewards c) \<noteq> []"
    "(rs_UpholdClientID (cf_Rewards c) \<noteq> [] \<and> rs_UpholdClientSecret (cf_Rewards c) \<noteq> [])
      \<or> (rs_UpholdClientID (cf_Rewards c) = [] \<and> rs_EthRPCURL (cf_Rewards c) \<noteq> [] \<and> rs_EthPrivateKey (cf_Rewards c) \<noteq> [])"
  using assms unfolding validateRewards_def Let_def by (auto split: if_splits)

text \<open>
  A rewards service started by the command, from whatever files and environment, has a
  webhook secret to check and a payout method: submitting a payout never ends with the
  no-method error.
\<close>

theorem started_rewards_can_pay:
  assumes "rewards_serve (loadConfig expand yaml files env order root) open_store = Inr sv"
  shows "fst (submitPayout penv (sv_cfg sv) reward wallet s) \<noteq> Ret (Inl NoMethod) \<and> rc_WebhookSecret (sv_cfg sv) \<noteq> []"
proof -
  obtain cfg where cfg: "Validate cfg = None" "rs_Enabled (cf_Rewards cfg)"
    and new: "new_rewards (rewards_serve_config cfg) open_store = Inr sv"
    using assms by (rule rewards_serve_started)
  note keeps = new_rewards_keeps [OF new]
  have "validateRewards cfg = []" using cfg(1) by (simp add: Validate_None)
  note m = validateRewards_method [OF this cfg(2)]
  have "(rc_UpholdClientID (sv_cfg sv) \<noteq> [] \<and> rc_UpholdClientSecret (sv_cfg sv) \<noteq> [])
      \<or> (rc_UpholdClientID (sv_cfg sv) = [] \<and> rc_EthRPCURL (sv_cfg sv) \<noteq> [] \<and> rc_EthPrivateKey (sv_cfg sv) \<noteq> [])"
    using m(2) unfolding keeps by (simp add: rewards_serve_config_def Let_def)
  moreover have "rc_WebhookSecret (sv_cfg sv) \<noteq> []"
    using m(1) unfolding keeps by (simp add: rewards_serve_config_def Let_def)
  ultimately show ?thesis by (intro conjI submitPayout_has_method)
qed

definition demo_valid_config :: config where
  "demo_valid_config = zero_config\<lparr>cf_GitLab := (cf_GitLab zero_config)\<lparr>gl_Domain := ''d''\<rparr>,
     cf_Rewards := (cf_Rewards zero_config)\<lparr>rs_Enabled := True, rs_WebhookSecret := ''s3'', rs_WalletAddress := ''0x1'',
       rs_UpholdClientID := ''id'', rs_UpholdClientSecret := ''sec''\<rparr>,
     cf_Bandwidth := (cf_Bandwidth zero_config)\<lparr>bn_Enabled := True\<rparr>\<rparr>"

text \<open>A layer whose text decodes to the whole demo configuration, with an empty environment.\<close>

definition demo_loaded :: "(command_error, config) result" where
  "demo_loaded = loadConfig (\<lambda>t. t) (\<lambda>t c. Inr demo_valid_config) (\<lambda>p. ReadOk []) (\<lambda>v. []) [] ''/r''"

lemma demo_valid: "Validate demo_valid_config = None"
  by (simp add: Validate_None demo_valid_config_def zero_config_def validateGitLab_def validateStorage_def
      validateBuild_def validateRunner_def validateLFS_def validateCloud_def validateRewards_def validateBandwidth_def
      dy_less_def align_def)

lemma demo_loaded_eq: "demo_loaded = Inr demo_valid_config"
proof -
  have "fold (override_bool (\<lambda>v. [])) bool_overrides c = c" for c
    by (simp add: bool_overrides_def override_bool_def to_lower_def)
  moreover have "fold (override_int (\<lambda>v. [])) int_overrides c = c" for c
    by (simp add: int_overrides_def override_int_def)
  moreover have "\<not> cl_Enabled (cf_Cloud demo_valid_config)"
    by (simp add: demo_valid_config_def zero_config_def)
  ultimately show ?thesis
    by (simp add: demo_loaded_def loadConfig_def Load_def mergeFile_def applyEnvOverrides_def override_chain_id_def
        override_min_payout_def demo_valid Let_def)
qed

definition demo_store_open :: "string \<Rightarrow> (string, rewards_db) result" where
  "demo_store_open p = Inr \<lparr>db_wallets = [], db_rewards = [], db_settings = []\<rparr>"

lemma demo_serve: "\<exists>sv. rewards_serve demo_loaded demo_store_open = Inr sv \<and> rc_WebhookSecret (sv_cfg sv) = ''s3''"
  unfolding demo_loaded_eq
  by (simp add: rewards_serve_def new_rewards_def rewards_serve_config_def demo_store_open_def
      demo_valid_config_def zero_config_def Let_def)

theorem started_rewards_can_pay_witness:
  "\<exists>sv. rewards_serve demo_loaded demo_store_open = Inr sv
    \<and> fst (submitPayout (\<lparr>pe_rpc = (\<lambda>u r s. (Inl ''down'', s)), pe_undef = (\<lambda>_. 0), pe_keccak = (\<lambda>b. b), pe_sign = (\<lambda>k h. []),
        pe_http = (\<lambda>rq s. (Inl ''down'', s))\<rparr> :: unit pay_env) (sv_cfg sv)
        \<lparr>rw_ID = [], rw_Event = \<lparr>ev_Type = [], ev_ProjectID = 0, ev_ProjectPath = [], ev_Username = [], ev_Email = [], ev_ObjectID = 0\<rparr>,
         rw_AmountBAT = f64_zero, rw_QueuedAt = 0, rw_PaidAt = None, rw_TxHash = [], rw_Status = StPending\<rparr>
        \<lparr>wl_Username = [], wl_WalletAddress = [], wl_RegisteredAt = 0, wl_UpholdCardID = []\<rparr> ()) \<noteq> Ret (Inl NoMethod)"
proof -
  obtain sv where "rewards_serve demo_loaded demo_store_open = Inr sv" using demo_serve by blast
  then show ?thesis
    by (intro exI [of _ sv] conjI) (assumption, rule started_rewards_can_pay [OF _, THEN conjunct1], simp add: demo_loaded_def)
qed

section \<open>The compression level\<close>

text \<open>
  A bandwidth service started by the command never has the level 0 that the configuration
  documents as no compression: 0 becomes the default level, -1, and any other level is between 1
  and 9. With a gzip encoder that accepts these levels, every buffered compressible answer that
  fits is compressed; there is no way to switch compression off.
\<close>

theorem started_bandwidth_compresses:
  assumes "bandwidth_serve (loadConfig expand yaml files env order root) open_store = Inr sv"
    and "\<And>level b. level = - 1 \<or> 1 \<le> level \<and> level \<le> 9 \<Longrightarrow> gzip level b \<noteq> None"
    and "contains_sub acc ''gzip''" "\<not> contains_sub path ''/lfs/objects/''"
    and "isCompressible (hdr_get (bw_header (fold buf_apply next (start_buffer fresh_writer))) ''Content-Type'')"
    and "length (body_ops next) \<le> maxCompressBufferBytes"
  shows "hdr_get (wr_header (fst (compressionMiddleware gzip (bs_cfg sv) acc path next st fresh_writer))) ''Content-Encoding'' = ''gzip''"
proof -
  obtain cfg where valid: "Validate cfg = None" and en: "bn_Enabled (cf_Bandwidth cfg)"
    and new: "new_bandwidth (bandwidth_serve_config cfg) open_store = Inr sv"
    using assms(1) loadConfig_valid [of expand yaml files env order root]
    by (auto simp: bandwidth_serve_def split: sum.splits if_splits)
  have "validateBandwidth cfg = []" using valid by (simp add: Validate_None)
  then have range: "0 \<le> bn_CompressionLevel (cf_Bandwidth cfg)" "bn_CompressionLevel (cf_Bandwidth cfg) \<le> 9"
    using en by (auto simp: validateBandwidth_def Let_def split: if_splits)
  have "bc_CompressionLevel (bs_cfg sv) = (if bn_CompressionLevel (cf_Bandwidth cfg) = 0 then - 1
      else bn_CompressionLevel (cf_Bandwidth cfg))"
    using new en by (auto simp: new_bandwidth_def bandwidth_serve_config_def Let_def split: if_splits sum.splits)
  then have level: "bc_CompressionLevel (bs_cfg sv) = - 1 \<or> 1 \<le> bc_CompressionLevel (bs_cfg sv) \<and> bc_CompressionLevel (bs_cfg sv) \<le> 9"
    using range by auto
  let ?buf = "fold buf_apply next (start_buffer fresh_writer)"
  obtain c where c: "gzip (bc_CompressionLevel (bs_cfg sv)) (bw_body ?buf) = Some c" using assms(2) [OF level] by blast
  have buf: "fold buf_apply next \<lparr>bw_header = wr_header fresh_writer, bw_body = [], bw_code = 200, bw_overflow = False\<rparr> = ?buf"
    by (simp add: start_buffer_def)
  have o: "\<not> bw_overflow ?buf" using assms(6) start_buffer_result(3) by (simp add: not_less)
  show ?thesis
    using assms(3-5) c o unfolding compressionMiddleware_def Let_def buf
    by (simp add: wr_Write_def wr_WriteHeader_def fresh_writer_def Let_def split: option.split)
qed

theorem started_bandwidth_compresses_witness:
  "\<exists>sv. bandwidth_serve demo_loaded (\<lambda>p. Inr []) = Inr sv
    \<and> hdr_get (wr_header (fst (compressionMiddleware demo_gzip (bs_cfg sv) ''gzip'' ''/'' demo_page zero_stats fresh_writer)))
        ''Content-Encoding'' = ''gzip''"
proof -
  have "\<exists>sv. bandwidth_serve demo_loaded (\<lambda>p. Inr []) = Inr sv"
    unfolding demo_loaded_eq
    by (simp add: bandwidth_serve_def new_bandwidth_def bandwidth_serve_config_def demo_valid_config_def
        zero_config_def Let_def)
  then obtain sv where sv: "bandwidth_serve demo_loaded (\<lambda>p. Inr []) = Inr sv" ..
  have "hdr_get (bw_header (fold buf_apply demo_page (start_buffer fresh_writer))) ''Content-Type'' = ''text/html''"
    by (simp add: demo_page_def buf_Write_def start_buffer_def maxCompressBufferBytes_def)
  then have "isCompressible (hdr_get (bw_header (fold buf_apply demo_page (start_buffer fresh_writer))) ''Content-Type'')"
    by (simp add: isCompressible_def)
  then have "hdr_get (wr_header (fst (compressionMiddleware demo_gzip (bs_cfg sv) ''gzip'' ''/'' demo_page zero_stats fresh_writer)))
        ''Content-Encoding'' = ''gzip''"
    by (intro started_bandwidth_compresses [OF sv [unfolded demo_loaded_def]])
      (simp_all add: demo_gzip_def demo_page_def maxCompressBufferBytes_def)
  with sv show ?thesis by blast
qed

end
