(* ===== verification/Registry.thy ===== *)
theory Registry
  imports CloudStore IpfsStore ChainProps Commands
begin

text \<open>
  Choosing the storage backend from the configuration, \<^verbatim>\<open>abstraction/storage/registry.go\<close>, and
  what a validated configuration still needs for the choice to succeed.
\<close>

datatype backend_choice =
    UseLocal string
  | UseIPFS string
  | UseCloud cloud_backend
  | UseChain "backend_choice list"

datatype registry_error =
    LocalPathMissing
  | IPFSDisabled
  | CloudDisabled
  | ProviderMissing
  | BucketMissing
  | CloudBackendError cloud_error
  | ChainCloudError registry_error
  | ChainEmpty
  | UnknownBackend string

definition cloud_opts :: "storage_config \<Rightarrow> cloud_options" where
  "cloud_opts s = \<lparr>co_Provider = sc_Provider s, co_Bucket = sc_Bucket s, co_Region = sc_Region s,
     co_Endpoint = sc_Endpoint s, co_AccessKeyID = cr_AccessKeyID (sc_Credentials s),
     co_SecretAccessKey = cr_SecretAccessKey (sc_Credentials s), co_GCSKeyFile = cr_GCSKeyFile (sc_Credentials s),
     co_AzureConnectionString = cr_AzureConnectionString (sc_Credentials s),
     co_AzureAccountName = cr_AzureAccountName (sc_Credentials s),
     co_AzureAccountKey = cr_AzureAccountKey (sc_Credentials s)\<rparr>"

definition cloudBackendFromConfig :: "config \<Rightarrow> (registry_error, cloud_backend) result" where
  "cloudBackendFromConfig cfg =
     (let s = cf_Storage cfg in
      if sc_Provider s = [] then Inl ProviderMissing
      else if sc_Bucket s = [] then Inl BucketMissing
      else case NewCloudBackend (cloud_opts s) of Inl e \<Rightarrow> Inl (CloudBackendError e) | Inr b \<Rightarrow> Inr b)"

definition buildChain :: "config \<Rightarrow> (registry_error, backend_choice list) result" where
  "buildChain cfg =
     (let s = cf_Storage cfg;
          chain = (if sc_Path s \<noteq> [] then [UseLocal (sc_Path s)] else [])
            @ (if ip_Enabled (cf_IPFS cfg) then [UseIPFS (NewIPFSBackend (ip_Node (cf_IPFS cfg)))] else [])
      in case (if cl_Enabled (cf_Cloud cfg) \<and> sc_Provider s \<noteq> [] \<and> sc_Bucket s \<noteq> []
               then (case cloudBackendFromConfig cfg of Inl e \<Rightarrow> Inl (ChainCloudError e) | Inr cb \<Rightarrow> Inr (chain @ [UseCloud cb]))
               else Inr chain) of
           Inl e \<Rightarrow> Inl e
         | Inr chain \<Rightarrow> if chain = [] then Inl ChainEmpty else Inr chain)"

definition FromConfig :: "config \<Rightarrow> (registry_error, backend_choice) result" where
  "FromConfig cfg =
     (let b = sc_Backend (cf_Storage cfg) in
      if b = ''local'' \<or> b = [] then
        (if sc_Path (cf_Storage cfg) = [] then Inl LocalPathMissing else Inr (UseLocal (sc_Path (cf_Storage cfg))))
      else if b = ''ipfs'' then
        (if \<not> ip_Enabled (cf_IPFS cfg) then Inl IPFSDisabled else Inr (UseIPFS (NewIPFSBackend (ip_Node (cf_IPFS cfg)))))
      else if b = ''cloud'' then
        (if \<not> cl_Enabled (cf_Cloud cfg) then Inl CloudDisabled
         else case cloudBackendFromConfig cfg of Inl e \<Rightarrow> Inl e | Inr cb \<Rightarrow> Inr (UseCloud cb))
      else if b = ''chain'' then (case buildChain cfg of Inl e \<Rightarrow> Inl e | Inr c \<Rightarrow> Inr (UseChain c))
      else Inl (UnknownBackend b))"

section \<open>Validation and the choice\<close>

lemma buildBucketURL_ok:
  "(\<exists>u. buildBucketURL opts = Inr u) \<longleftrightarrow>
     to_lower (co_Provider opts) \<in> {''aws'', ''gcs'', ''azure''}
     \<or> to_lower (co_Provider opts) \<in> {''minio'', ''ceph'', ''r2''} \<and> co_Endpoint opts \<noteq> []"
  by (auto simp: buildBucketURL_def Let_def)

text \<open>The conditions validation leaves open: the switches and paths that live elsewhere.\<close>

definition storage_complete :: "config \<Rightarrow> bool" where
  "storage_complete c \<longleftrightarrow>
     (let b = sc_Backend (cf_Storage c); s = cf_Storage c in
      (b = [] \<or> b = ''local'' \<longrightarrow> sc_Path s \<noteq> [])
      \<and> (b = ''ipfs'' \<longrightarrow> ip_Enabled (cf_IPFS c))
      \<and> (b = ''cloud'' \<longrightarrow> cl_Enabled (cf_Cloud c))
      \<and> (b = ''chain'' \<longrightarrow>
           (sc_Path s \<noteq> [] \<or> ip_Enabled (cf_IPFS c) \<or> (cl_Enabled (cf_Cloud c) \<and> sc_Provider s \<noteq> [] \<and> sc_Bucket s \<noteq> []))
           \<and> (cl_Enabled (cf_Cloud c) \<and> sc_Provider s \<noteq> [] \<and> sc_Bucket s \<noteq> [] \<longrightarrow>
                (\<exists>u. buildBucketURL (cloud_opts s) = Inr u))))"

lemma cloudBackendFromConfig_ok:
  "(\<exists>b. cloudBackendFromConfig c = Inr b) \<longleftrightarrow> sc_Provider (cf_Storage c) \<noteq> [] \<and> sc_Bucket (cf_Storage c) \<noteq> []
     \<and> (\<exists>u. buildBucketURL (cloud_opts (cf_Storage c)) = Inr u)"
  by (auto simp: cloudBackendFromConfig_def NewCloudBackend_def Let_def cloud_opts_def split: sum.splits)

lemma validated_cloud_url:
  assumes "validateStorage c = []" "sc_Backend (cf_Storage c) = ''cloud''"
  shows "sc_Provider (cf_Storage c) \<noteq> [] \<and> sc_Bucket (cf_Storage c) \<noteq> [] \<and> (\<exists>u. buildBucketURL (cloud_opts (cf_Storage c)) = Inr u)"
  using assms unfolding validateStorage_def buildBucketURL_ok
  by (auto simp: Let_def cloud_opts_def to_lower_def split: if_splits)

text \<open>
  For a configuration that passes validation, choosing the storage backend succeeds exactly
  when the conditions validation does not look at hold: a path for the local backend, the
  switches of IPFS and cloud, and at least one usable member of a chain. So a validated
  configuration can still fail here, the default one among them.
\<close>

theorem validated_storage_choice:
  assumes "Validate c = None"
  shows "(\<exists>b. FromConfig c = Inr b) \<longleftrightarrow> storage_complete c"
proof -
  have v: "validateStorage c = []" using assms by (simp add: Validate_None)
  let ?b = "sc_Backend (cf_Storage c)"
  consider "?b = []" | "?b = ''local''" | "?b = ''ipfs''" | "?b = ''cloud''" | "?b = ''chain''"
    using v by (auto simp: validateStorage_def Let_def split: if_splits)
  then show ?thesis
  proof cases
    case 4
    have "\<exists>b. cloudBackendFromConfig c = Inr b"
      using validated_cloud_url [OF v 4] cloudBackendFromConfig_ok by blast
    with 4 show ?thesis by (auto simp: FromConfig_def storage_complete_def Let_def split: sum.splits)
  next
    case 5
    let ?use = "cl_Enabled (cf_Cloud c) \<and> sc_Provider (cf_Storage c) \<noteq> [] \<and> sc_Bucket (cf_Storage c) \<noteq> []"
    show ?thesis
    proof (cases ?use)
      case True
      then show ?thesis
        using 5 cloudBackendFromConfig_ok [of c]
        by (cases "cloudBackendFromConfig c") (auto simp: FromConfig_def buildChain_def storage_complete_def Let_def)
    next
      case False
      then have "(\<exists>b. FromConfig c = Inr b) \<longleftrightarrow> sc_Path (cf_Storage c) \<noteq> [] \<or> ip_Enabled (cf_IPFS c)"
        using 5 by (auto simp: FromConfig_def buildChain_def Let_def)
      with False 5 show ?thesis by (simp add: storage_complete_def Let_def) blast
    qed
  qed (auto simp: FromConfig_def storage_complete_def Let_def)
qed

theorem validated_storage_choice_witness: "\<not> (\<exists>b. FromConfig demo_valid_config = Inr b)"
  using validated_storage_choice [OF demo_valid]
  by (simp add: storage_complete_def demo_valid_config_def zero_config_def)

end
