(* ===== verification/GoTime.thy ===== *)
theory GoTime
  imports GoFloat
begin

text \<open>
  What the code uses of package \<^verbatim>\<open>time\<close>: an instant is its nanoseconds since the Unix epoch, a
  duration is a signed 64-bit number of nanoseconds, \<^verbatim>\<open>Sub\<close> and \<^verbatim>\<open>Since\<close> saturate, RFC 3339
  keeps whole seconds, and \<^verbatim>\<open>ParseDuration\<close> reads strings like \<^verbatim>\<open>1h30m\<close>.
\<close>

definition second :: int where
  "second = 10 ^ 9"

definition max_duration :: int where
  "max_duration = 2 ^ 63 - 1"

text \<open>The zero \<^verbatim>\<open>time.Time\<close>: midnight of the first of January of the year 1.\<close>

definition time_zero :: int where
  "time_zero = - 62135596800 * second"

definition time_Sub :: "int \<Rightarrow> int \<Rightarrow> int" where
  "time_Sub t u = max (- (2 ^ 63)) (min max_duration (t - u))"

definition to_rfc3339 :: "int \<Rightarrow> int" where
  "to_rfc3339 t = t div second"

definition of_rfc3339 :: "int \<Rightarrow> int" where
  "of_rfc3339 s = s * second"

lemma rfc3339_zero [simp]: "of_rfc3339 (to_rfc3339 time_zero) = time_zero"
  by (simp add: of_rfc3339_def to_rfc3339_def time_zero_def second_def)

text \<open>Every clock reading of this century lies further from the zero time than a duration reaches.\<close>

lemma time_Sub_zero: "0 \<le> now \<Longrightarrow> time_Sub now time_zero = max_duration"
  by (simp add: time_Sub_def time_zero_def second_def max_duration_def)

section \<open>Parsing durations\<close>

text \<open>\<^verbatim>\<open>leadingInt\<close>: the value of the leading digits and the rest; \<^const>\<open>None\<close> beyond \<open>2 ^ 63\<close>.\<close>

fun leading_int :: "nat \<Rightarrow> string \<Rightarrow> (nat \<times> string) option" where
  "leading_int x [] = Some (x, [])"
| "leading_int x (c # cs) =
     (if \<not> is_digit c then Some (x, c # cs)
      else if 2 ^ 63 div 10 < x then None
      else (let x' = x * 10 + digit_val c in if 2 ^ 63 < x' then None else leading_int x' cs))"

text \<open>\<^verbatim>\<open>leadingFraction\<close>: digits past the overflow are skipped and no longer scale.\<close>

fun leading_fraction :: "bool \<Rightarrow> nat \<Rightarrow> nat \<Rightarrow> string \<Rightarrow> (nat \<times> nat) \<times> string" where
  "leading_fraction over x k [] = ((x, k), [])"
| "leading_fraction over x k (c # cs) =
     (if \<not> is_digit c then ((x, k), c # cs)
      else if over \<or> (2 ^ 63 - 1) div 10 < x then leading_fraction True x k cs
      else (let x' = x * 10 + digit_val c in
            if 2 ^ 63 < x' then leading_fraction True x k cs else leading_fraction False x' (Suc k) cs))"

definition unit_map :: "(string \<times> nat) list" where
  "unit_map = [(''ns'', 1), (''us'', 10 ^ 3), ([CHR 0xC2, CHR 0xB5, CHR ''s''], 10 ^ 3),
     ([CHR 0xCE, CHR 0xBC, CHR ''s''], 10 ^ 3), (''ms'', 10 ^ 6), (''s'', 10 ^ 9),
     (''m'', 60 * 10 ^ 9), (''h'', 3600 * 10 ^ 9)]"

definition unit_char :: "char \<Rightarrow> bool" where
  "unit_char c \<longleftrightarrow> c \<noteq> CHR ''.'' \<and> \<not> is_digit c"

text \<open>One number with its unit: the nanoseconds it adds and the rest.\<close>

definition duration_term :: "string \<Rightarrow> (nat \<times> string) option" where
  "duration_term s =
     (if s = [] \<or> unit_char (hd s) then None
      else case leading_int 0 s of
        None \<Rightarrow> None
      | Some (v, s1) \<Rightarrow>
          (let pre = (s1 \<noteq> s);
               ((f, k), s2) = (if s1 \<noteq> [] \<and> hd s1 = CHR ''.'' then leading_fraction False 0 0 (tl s1) else ((0, 0), s1));
               post = (s1 \<noteq> [] \<and> hd s1 = CHR ''.'' \<and> s2 \<noteq> tl s1);
               u = takeWhile unit_char s2; rest = dropWhile unit_char s2
           in if \<not> pre \<and> \<not> post then None
              else case map_of unit_map u of
                None \<Rightarrow> None
              | Some unit \<Rightarrow>
                  (if 2 ^ 63 div unit < v then None
                   else (let w = v * unit
                       + (if 0 < f then nat (f64_to_int (f64_mul (f64_of_int (int f)) (f64_div (f64_of_int (int unit)) (f64_of_int (10 ^ k))))) else 0)
                     in if 2 ^ 63 < w then None else Some (w, rest)))))"

text \<open>Each term takes at least its unit, so the length of the string is enough fuel.\<close>

fun duration_terms :: "nat \<Rightarrow> nat \<Rightarrow> string \<Rightarrow> nat option" where
  "duration_terms fuel d [] = Some d"
| "duration_terms 0 d (c # cs) = None"
| "duration_terms (Suc fuel) d (c # cs) =
     (case duration_term (c # cs) of
        None \<Rightarrow> None
      | Some (v, rest) \<Rightarrow> if 2 ^ 63 < d + v then None else duration_terms fuel (d + v) rest)"

definition ParseDuration :: "string \<Rightarrow> int option" where
  "ParseDuration s =
     (let neg = (s \<noteq> [] \<and> hd s = CHR ''-'');
          t = (if s \<noteq> [] \<and> (hd s = CHR ''-'' \<or> hd s = CHR ''+'') then tl s else s)
      in if t = ''0'' then Some 0
         else if t = [] then None
         else case duration_terms (length t) 0 t of
           None \<Rightarrow> None
         | Some d \<Rightarrow> if neg then Some (- int d) else if 2 ^ 63 - 1 < d then None else Some (int d))"

end
