(* ===== verification/GarmGitLab.thy ===== *)
theory GarmGitLab
  imports Http GoTime "HOL-Library.Monad_Syntax"
begin

text \<open>
  The GitLab side of the runner pools, \<^verbatim>\<open>garm-gitlab/internal/gitlab\<close>: the runner API client of
  \<^verbatim>\<open>runner.go\<close> over an HTTP transport with its own state, and the job webhook of \<^verbatim>\<open>webhook.go\<close>,
  which feeds a bounded channel. \<open>url_ok\<close> is whether \<^verbatim>\<open>net/url\<close> accepts a URL, \<open>parse_time\<close> the
  JSON decoder of \<^verbatim>\<open>time.Time\<close>.
\<close>

section \<open>The runner API\<close>

record runner_info =
  ri_ID :: int
  ri_Token :: string
  ri_Description :: string
  ri_TagList :: "string list"
  ri_Active :: bool
  ri_Locked :: bool

record runner_status =
  rs_ID :: int
  rs_Description :: string
  rs_Active :: bool
  rs_Online :: bool
  rs_Status :: string
  rs_TagList :: "string list"
  rs_RunUntagged :: bool
  rs_Locked :: bool
  rs_IPAddress :: string
  rs_ContactedAt :: int

text \<open>\<^verbatim>\<open>maximum_timeout\<close> is omitted when zero, which it always is here.\<close>

record registration_request =
  rq_Token :: string
  rq_Description :: string
  rq_TagList :: string
  rq_RunUntagged :: bool
  rq_Locked :: bool

definition registration_json :: "registration_request \<Rightarrow> json" where
  "registration_json r = JObj [(''token'', JStr (rq_Token r)), (''description'', JStr (rq_Description r)),
     (''tag_list'', JStr (rq_TagList r)), (''run_untagged'', JBool (rq_RunUntagged r)), (''locked'', JBool (rq_Locked r))]"

record gl_client =
  gl_baseURL :: string
  gl_adminToken :: string

definition NewClient :: "string \<Rightarrow> string \<Rightarrow> gl_client" where
  "NewClient baseURL adminToken = \<lparr>gl_baseURL = baseURL, gl_adminToken = adminToken\<rparr>"

record gl_request =
  gq_method :: string
  gq_url :: string
  gq_header :: header
  gq_body :: "json option"

record gl_response =
  gr_status :: nat
  gr_body :: string
  gr_json :: "json option"

type_synonym 's gl_http = "gl_request \<Rightarrow> 's \<Rightarrow> (string, gl_response) result \<times> 's"

datatype gl_error = CreateRequest string | TransportFailed string | HttpStatus nat string | DecodeFailed

definition decode_runner_info :: "(string \<times> json) list \<Rightarrow> runner_info option" where
  "decode_runner_info m = do {
     i \<leftarrow> field_int (jfield m ''id'');
     t \<leftarrow> field_str (jfield m ''token'');
     d \<leftarrow> field_str (jfield m ''description'');
     tags \<leftarrow> field_strs (jfield m ''tag_list'');
     a \<leftarrow> field_bool (jfield m ''active'');
     l \<leftarrow> field_bool (jfield m ''locked'');
     Some \<lparr>ri_ID = i, ri_Token = t, ri_Description = d, ri_TagList = tags, ri_Active = a, ri_Locked = l\<rparr>
   }"

fun field_time :: "(string \<Rightarrow> int option) \<Rightarrow> json option \<Rightarrow> int option" where
  "field_time parse_time None = Some time_zero"
| "field_time parse_time (Some (JStr t)) = parse_time t"
| "field_time parse_time (Some _) = None"

definition decode_runner_status :: "(string \<Rightarrow> int option) \<Rightarrow> (string \<times> json) list \<Rightarrow> runner_status option" where
  "decode_runner_status parse_time m = do {
     i \<leftarrow> field_int (jfield m ''id'');
     d \<leftarrow> field_str (jfield m ''description'');
     a \<leftarrow> field_bool (jfield m ''active'');
     n \<leftarrow> field_bool (jfield m ''online'');
     st \<leftarrow> field_str (jfield m ''status'');
     tags \<leftarrow> field_strs (jfield m ''tag_list'');
     u \<leftarrow> field_bool (jfield m ''run_untagged'');
     l \<leftarrow> field_bool (jfield m ''locked'');
     ip \<leftarrow> field_str (jfield m ''ip_address'');
     c \<leftarrow> field_time parse_time (jfield m ''contacted_at'');
     Some \<lparr>rs_ID = i, rs_Description = d, rs_Active = a, rs_Online = n, rs_Status = st, rs_TagList = tags,
       rs_RunUntagged = u, rs_Locked = l, rs_IPAddress = ip, rs_ContactedAt = c\<rparr>
   }"

text \<open>Sending a request; what the answer means is left to the operation.\<close>

definition gl_send ::
    "'s gl_http \<Rightarrow> (string \<Rightarrow> bool) \<Rightarrow> gl_request \<Rightarrow> (gl_response \<Rightarrow> (gl_error, 'a) result) \<Rightarrow> 's
     \<Rightarrow> (gl_error, 'a) result \<times> 's" where
  "gl_send http url_ok rq f s =
     (if \<not> url_ok (gq_url rq) then (Inl (CreateRequest (gq_url rq)), s)
      else case http rq s of
             (Inl e, s') \<Rightarrow> (Inl (TransportFailed e), s')
           | (Inr r, s') \<Rightarrow> (f r, s'))"

definition json_header :: header where
  "json_header = [(''Content-Type'', ''application/json'')]"

definition RegisterRunner ::
    "'s gl_http \<Rightarrow> (string \<Rightarrow> bool) \<Rightarrow> gl_client \<Rightarrow> string \<Rightarrow> string \<Rightarrow> string \<Rightarrow> bool \<Rightarrow> 's
     \<Rightarrow> (gl_error, runner_info) result \<times> 's" where
  "RegisterRunner http url_ok c registrationToken description tagList runUntagged =
     gl_send http url_ok
       \<lparr>gq_method = ''POST'', gq_url = gl_baseURL c @ ''/api/v4/runners'', gq_header = json_header,
        gq_body = Some (registration_json \<lparr>rq_Token = registrationToken, rq_Description = description,
          rq_TagList = tagList, rq_RunUntagged = runUntagged, rq_Locked = True\<rparr>)\<rparr>
       (\<lambda>r. if gr_status r \<noteq> 201 then Inl (HttpStatus (gr_status r) (gr_body r))
            else case decode_struct decode_runner_info (gr_json r) of
                   None \<Rightarrow> Inl DecodeFailed
                 | Some info \<Rightarrow> Inr info)"

text \<open>
  After a successful deletion the log line slices \<^verbatim>\<open>runnerToken[:8]\<close>, which panics on a shorter
  token; the request has been made by then.
\<close>

definition DeleteRunner ::
    "'s gl_http \<Rightarrow> (string \<Rightarrow> bool) \<Rightarrow> gl_client \<Rightarrow> string \<Rightarrow> 's \<Rightarrow> (gl_error, unit) result go \<times> 's" where
  "DeleteRunner http url_ok c runnerToken s =
     (case gl_send http url_ok
         \<lparr>gq_method = ''DELETE'', gq_url = gl_baseURL c @ ''/api/v4/runners'', gq_header = json_header,
          gq_body = Some (JObj [(''token'', JStr runnerToken)])\<rparr>
         (\<lambda>r. if gr_status r \<noteq> 204 then Inl (HttpStatus (gr_status r) (gr_body r)) else Inr ()) s of
        (Inl e, s') \<Rightarrow> (Ret (Inl e), s')
      | (Inr _, s') \<Rightarrow> (if length runnerToken < 8 then Panic else Ret (Inr ()), s'))"

definition GetRunnerStatus ::
    "(string \<Rightarrow> int option) \<Rightarrow> 's gl_http \<Rightarrow> (string \<Rightarrow> bool) \<Rightarrow> gl_client \<Rightarrow> int \<Rightarrow> 's
     \<Rightarrow> (gl_error, runner_status) result \<times> 's" where
  "GetRunnerStatus parse_time http url_ok c runnerID =
     gl_send http url_ok
       \<lparr>gq_method = ''GET'', gq_url = gl_baseURL c @ ''/api/v4/runners/'' @ show_int runnerID,
        gq_header = [(''Private-Token'', gl_adminToken c)], gq_body = None\<rparr>
       (\<lambda>r. if gr_status r \<noteq> 200 then Inl (HttpStatus (gr_status r) (gr_body r))
            else case decode_struct (decode_runner_status parse_time) (gr_json r) of
                   None \<Rightarrow> Inl DecodeFailed
                 | Some st \<Rightarrow> Inr st)"

fun decode_statuses :: "(string \<Rightarrow> int option) \<Rightarrow> json option \<Rightarrow> runner_status list option" where
  "decode_statuses parse_time (Some JNull) = Some []"
| "decode_statuses parse_time (Some (JArr xs)) =
     all_some (map (\<lambda>x. decode_struct (decode_runner_status parse_time) (Some x)) xs)"
| "decode_statuses parse_time _ = None"

text \<open>The status of the answer is not looked at.\<close>

definition ListIdleRunners ::
    "(string \<Rightarrow> int option) \<Rightarrow> 's gl_http \<Rightarrow> (string \<Rightarrow> bool) \<Rightarrow> gl_client \<Rightarrow> int \<Rightarrow> 's
     \<Rightarrow> (gl_error, runner_status list) result \<times> 's" where
  "ListIdleRunners parse_time http url_ok c groupID =
     gl_send http url_ok
       \<lparr>gq_method = ''GET'',
        gq_url = gl_baseURL c @ ''/api/v4/groups/'' @ show_int groupID @ ''/runners?status=online&per_page=100'',
        gq_header = [(''Private-Token'', gl_adminToken c)], gq_body = None\<rparr>
       (\<lambda>r. case decode_statuses parse_time (gr_json r) of
              None \<Rightarrow> Inl DecodeFailed
            | Some runners \<Rightarrow> Inr (filter (\<lambda>x. rs_Status x = ''online'') runners))"

end
