(* ===== verification/GarmWebhook.thy ===== *)
theory GarmWebhook
  imports GarmGitLab
begin

text \<open>
  The job webhook of the runner pools, \<^verbatim>\<open>garm-gitlab/internal/gitlab/webhook.go\<close>: the event, the
  token check, and the handler, which puts a decoded event into a channel of bounded capacity or
  drops it. \<^verbatim>\<open>main.go\<close> makes the channel with capacity 64.
\<close>

section \<open>Job events\<close>

record job_user =
  ju_ID :: int
  ju_Name :: string

record job_commit =
  jc_ID :: int
  jc_SHA :: string
  jc_Message :: string

record job_repository =
  jr_Name :: string
  jr_HTTPURL :: string
  jr_SSHURL :: string
  jr_VisibilityLevel :: int

record job_event =
  je_ObjectKind :: string
  je_Ref :: string
  je_Tag :: bool
  je_BeforeSHA :: string
  je_SHA :: string
  je_BuildID :: int
  je_BuildName :: string
  je_BuildStage :: string
  je_BuildStatus :: string
  je_BuildCreatedAt :: int
  je_BuildStartedAt :: int
  je_BuildFinishedAt :: int
  je_BuildDuration :: f64
  je_BuildAllowFailure :: bool
  je_BuildFailureReason :: string
  je_PipelineID :: int
  je_RunnerID :: int
  je_RunnerDescription :: string
  je_RunnerTags :: "string list"
  je_ProjectID :: int
  je_ProjectName :: string
  je_User :: job_user
  je_Commit :: job_commit
  je_Repository :: job_repository

definition JobStatusPending :: string where
  "JobStatusPending = ''pending''"

definition decode_user :: "(string \<times> json) list \<Rightarrow> job_user option" where
  "decode_user m = do {
     i \<leftarrow> field_int (jfield m ''id'');
     n \<leftarrow> field_str (jfield m ''name'');
     Some \<lparr>ju_ID = i, ju_Name = n\<rparr>
   }"

definition decode_commit :: "(string \<times> json) list \<Rightarrow> job_commit option" where
  "decode_commit m = do {
     i \<leftarrow> field_int (jfield m ''id'');
     h \<leftarrow> field_str (jfield m ''sha'');
     t \<leftarrow> field_str (jfield m ''message'');
     Some \<lparr>jc_ID = i, jc_SHA = h, jc_Message = t\<rparr>
   }"

definition decode_repository :: "(string \<times> json) list \<Rightarrow> job_repository option" where
  "decode_repository m = do {
     n \<leftarrow> field_str (jfield m ''name'');
     h \<leftarrow> field_str (jfield m ''git_http_url'');
     g \<leftarrow> field_str (jfield m ''git_ssh_url'');
     v \<leftarrow> field_int (jfield m ''visibility_level'');
     Some \<lparr>jr_Name = n, jr_HTTPURL = h, jr_SSHURL = g, jr_VisibilityLevel = v\<rparr>
   }"

definition decode_job_event :: "(string \<Rightarrow> int option) \<Rightarrow> (string \<times> json) list \<Rightarrow> job_event option" where
  "decode_job_event parse_time m = do {
     kind \<leftarrow> field_str (jfield m ''object_kind'');
     ref \<leftarrow> field_str (jfield m ''ref'');
     tag \<leftarrow> field_bool (jfield m ''tag'');
     before \<leftarrow> field_str (jfield m ''before_sha'');
     sha \<leftarrow> field_str (jfield m ''sha'');
     bid \<leftarrow> field_int (jfield m ''build_id'');
     bname \<leftarrow> field_str (jfield m ''build_name'');
     stage \<leftarrow> field_str (jfield m ''build_stage'');
     status \<leftarrow> field_str (jfield m ''build_status'');
     created \<leftarrow> field_time parse_time (jfield m ''build_created_at'');
     started \<leftarrow> field_time parse_time (jfield m ''build_started_at'');
     finished \<leftarrow> field_time parse_time (jfield m ''build_finished_at'');
     dur \<leftarrow> field_num (jfield m ''build_duration'');
     allow \<leftarrow> field_bool (jfield m ''build_allow_failure'');
     reason \<leftarrow> field_str (jfield m ''build_failure_reason'');
     pipeline \<leftarrow> field_int (jfield m ''pipeline_id'');
     runner \<leftarrow> field_int (jfield m ''runner_id'');
     rdesc \<leftarrow> field_str (jfield m ''runner_description'');
     tags \<leftarrow> field_strs (jfield m ''runner_tags'');
     project \<leftarrow> field_int (jfield m ''project_id'');
     pname \<leftarrow> field_str (jfield m ''project_name'');
     user \<leftarrow> field_struct decode_user (jfield m ''user'');
     commit \<leftarrow> field_struct decode_commit (jfield m ''commit'');
     repo \<leftarrow> field_struct decode_repository (jfield m ''repository'');
     Some \<lparr>je_ObjectKind = kind, je_Ref = ref, je_Tag = tag, je_BeforeSHA = before, je_SHA = sha,
       je_BuildID = bid, je_BuildName = bname, je_BuildStage = stage, je_BuildStatus = status,
       je_BuildCreatedAt = created, je_BuildStartedAt = started, je_BuildFinishedAt = finished,
       je_BuildDuration = dur, je_BuildAllowFailure = allow, je_BuildFailureReason = reason,
       je_PipelineID = pipeline, je_RunnerID = runner, je_RunnerDescription = rdesc, je_RunnerTags = tags,
       je_ProjectID = project, je_ProjectName = pname, je_User = user, je_Commit = commit, je_Repository = repo\<rparr>
   }"

section \<open>The handler\<close>

record webhook_handler =
  wh_secret :: string
  wh_capacity :: nat

text \<open>A request: a body that cannot be read, or the JSON value of its first MiB if there is one.\<close>

record job_request =
  jq_method :: http_method
  jq_token :: string
  jq_event :: string
  jq_body :: "(unit, json option) result"

datatype token_error = MissingToken | TokenMismatch

definition validateToken :: "webhook_handler \<Rightarrow> job_request \<Rightarrow> token_error option" where
  "validateToken h rq =
     (if wh_secret h = [] then None
      else if jq_token rq = [] then Some MissingToken
      else if jq_token rq \<noteq> wh_secret h then Some TokenMismatch
      else None)"

definition validateHMAC :: "(string \<Rightarrow> bytes \<Rightarrow> bytes) \<Rightarrow> string \<Rightarrow> string \<Rightarrow> bytes \<Rightarrow> bool" where
  "validateHMAC hmac_sha256 secret signature body \<longleftrightarrow>
     ''sha256='' @ hex_encode (hmac_sha256 secret body) = signature"

text \<open>The non-blocking send.\<close>

definition try_send :: "nat \<Rightarrow> 'e \<Rightarrow> 'e list \<Rightarrow> 'e list" where
  "try_send capacity e ch = (if length ch < capacity then ch @ [e] else ch)"

definition webhook_ServeHTTP ::
    "(string \<Rightarrow> int option) \<Rightarrow> webhook_handler \<Rightarrow> job_request \<Rightarrow> job_event list \<Rightarrow> http_response \<times> job_event list" where
  "webhook_ServeHTTP parse_time h rq ch =
     (if jq_method rq \<noteq> POST then (HttpError 405 ''method not allowed'', ch)
      else if validateToken h rq \<noteq> None then (HttpError 401 ''unauthorized'', ch)
      else if jq_event rq \<noteq> ''Job Hook'' then (HttpEmpty 200, ch)
      else case jq_body rq of
        Inl _ \<Rightarrow> (HttpError 400 ''failed to read body'', ch)
      | Inr body \<Rightarrow>
          (case decode_struct (decode_job_event parse_time) body of
             None \<Rightarrow> (HttpError 400 ''bad request'', ch)
           | Some event \<Rightarrow> (HttpEmpty 200, try_send (wh_capacity h) event ch)))"

section \<open>Delivery\<close>

text \<open>The event a request carries when the handler accepts it.\<close>

definition accepted_event :: "(string \<Rightarrow> int option) \<Rightarrow> webhook_handler \<Rightarrow> job_request \<Rightarrow> job_event option" where
  "accepted_event parse_time h rq =
     (if jq_method rq = POST \<and> validateToken h rq = None \<and> jq_event rq = ''Job Hook''
      then (case jq_body rq of Inl _ \<Rightarrow> None | Inr body \<Rightarrow> decode_struct (decode_job_event parse_time) body)
      else None)"

lemma ServeHTTP_channel:
  "snd (webhook_ServeHTTP parse_time h rq ch) =
     (case accepted_event parse_time h rq of None \<Rightarrow> ch | Some e \<Rightarrow> try_send (wh_capacity h) e ch)"
  by (auto simp: webhook_ServeHTTP_def accepted_event_def split: sum.splits option.splits)

lemma ServeHTTP_accepted:
  "accepted_event parse_time h rq = Some e \<Longrightarrow> fst (webhook_ServeHTTP parse_time h rq ch) = HttpEmpty 200"
  by (auto simp: webhook_ServeHTTP_def accepted_event_def split: sum.splits option.splits if_splits)

text \<open>A run of requests with nothing received from the channel in between.\<close>

definition serve_all :: "(string \<Rightarrow> int option) \<Rightarrow> webhook_handler \<Rightarrow> job_request list \<Rightarrow> job_event list \<Rightarrow> job_event list" where
  "serve_all parse_time h rqs ch = fold (\<lambda>rq c. snd (webhook_ServeHTTP parse_time h rq c)) rqs ch"

definition accepted_events :: "(string \<Rightarrow> int option) \<Rightarrow> webhook_handler \<Rightarrow> job_request list \<Rightarrow> job_event list" where
  "accepted_events parse_time h rqs = List.map_filter (accepted_event parse_time h) rqs"

lemma serve_all_take:
  assumes "length ch \<le> wh_capacity h"
  shows "serve_all parse_time h rqs ch = take (wh_capacity h) (ch @ accepted_events parse_time h rqs)"
  using assms
proof (induction rqs arbitrary: ch)
  case Nil
  then show ?case by (simp add: serve_all_def accepted_events_def map_filter_simps)
next
  case (Cons rq rqs)
  show ?case
  proof (cases "accepted_event parse_time h rq")
    case None
    with Cons show ?thesis
      by (simp add: serve_all_def accepted_events_def map_filter_simps ServeHTTP_channel)
  next
    case (Some e)
    show ?thesis
    proof (cases "length ch < wh_capacity h")
      case True
      with Some Cons.IH [of "ch @ [e]"] show ?thesis
        by (simp add: serve_all_def accepted_events_def map_filter_simps ServeHTTP_channel try_send_def)
    next
      case False
      with Cons.prems have "length ch = wh_capacity h" by simp
      with Some Cons.IH [of ch] show ?thesis
        by (simp add: serve_all_def accepted_events_def map_filter_simps ServeHTTP_channel try_send_def)
    qed
  qed
qed

definition demo_hook_handler :: webhook_handler where
  "demo_hook_handler = \<lparr>wh_secret = ''s3cret'', wh_capacity = 64\<rparr>"

definition demo_job :: "string \<Rightarrow> job_request" where
  "demo_job name = \<lparr>jq_method = POST, jq_token = ''s3cret'', jq_event = ''Job Hook'',
     jq_body = Inr (Some (JObj [(''build_status'', JStr ''pending''), (''build_name'', JStr name)]))\<rparr>"

text \<open>
  While the pool manager takes nothing from the channel, a burst of deliveries leaves in it
  the accepted events in order, cut off at the capacity: every later one is dropped, although it
  is answered 200 like the others, so GitLab will not send it again. Rejected requests leave no
  trace.
\<close>

theorem webhook_burst_drops:
  assumes "length ch \<le> wh_capacity h" "rq \<in> set rqs" "accepted_event parse_time h rq = Some e"
  shows "serve_all parse_time h rqs ch = take (wh_capacity h) (ch @ accepted_events parse_time h rqs)
    \<and> length (serve_all parse_time h rqs ch) \<le> wh_capacity h
    \<and> (\<forall>ch'. fst (webhook_ServeHTTP parse_time h rq ch') = HttpEmpty 200)"
  using assms by (simp add: serve_all_take ServeHTTP_accepted)

theorem webhook_burst_drops_witness:
  "length (serve_all (\<lambda>_. None) demo_hook_handler (replicate 65 (demo_job ''build'')) []) = 64"
proof -
  have "\<not> Option.is_none (accepted_event (\<lambda>_. None) demo_hook_handler (demo_job ''build''))"
    by code_simp
  then obtain e where acc: "accepted_event (\<lambda>_. None) demo_hook_handler (demo_job ''build'') = Some e"
    by (auto simp: Option.is_none_def)
  then have evs: "accepted_events (\<lambda>_. None) demo_hook_handler (replicate n (demo_job ''build'')) = replicate n e" for n
    by (induction n) (simp_all add: accepted_events_def map_filter_simps)
  have "serve_all (\<lambda>_. None) demo_hook_handler (replicate 65 (demo_job ''build'')) []
      = take 64 ([] @ replicate 65 e)"
    using webhook_burst_drops [of "[]" demo_hook_handler "demo_job ''build''" "replicate 65 (demo_job ''build'')", OF _ _ acc]
    by (simp add: demo_hook_handler_def evs [unfolded demo_hook_handler_def])
  then show ?thesis by simp
qed

end
