(* ===== verification/GarmStore.thy ===== *)
theory GarmStore
  imports SqlTable GoTime
begin

text \<open>
  The instance store of the runner pools, \<^verbatim>\<open>garm-gitlab/internal/store/store.go\<close>: a SQLite table
  keyed by instance name. \<^verbatim>\<open>store.Instance\<close> and \<^verbatim>\<open>pool.Instance\<close> have the same fields, which the
  pool copies one by one: both are the record \<open>instance_rec\<close>. A row keeps the two times as RFC 3339
  text, that is in whole seconds. Whether the database accepts a statement is an argument.
\<close>

record instance_rec =
  in_ID :: string
  in_RunnerID :: int
  in_RunnerToken :: string
  in_PoolID :: string
  in_CreatedAt :: int
  in_LastJobAt :: int
  in_Status :: string

record instance_row =
  row_id :: string
  row_runner_id :: int
  row_runner_token :: string
  row_pool_id :: string
  row_created_at :: int
  row_last_job_at :: int
  row_status :: string

interpretation instances_tbl: keyed_table row_id "tbl_upsert row_id" "tbl_delete row_id" "tbl_find row_id" "tbl_ok row_id"
  by (rule tbl_keyed)

text \<open>The pool's in-memory map is a table of the same kind, keyed by the instance's name.\<close>

interpretation instance_map: keyed_table in_ID "tbl_upsert in_ID" "tbl_delete in_ID" "tbl_find in_ID" "tbl_ok in_ID"
  by (rule tbl_keyed)

definition to_row :: "instance_rec \<Rightarrow> instance_row" where
  "to_row i = \<lparr>row_id = in_ID i, row_runner_id = in_RunnerID i, row_runner_token = in_RunnerToken i,
     row_pool_id = in_PoolID i, row_created_at = to_rfc3339 (in_CreatedAt i),
     row_last_job_at = to_rfc3339 (in_LastJobAt i), row_status = in_Status i\<rparr>"

definition of_row :: "instance_row \<Rightarrow> instance_rec" where
  "of_row r = \<lparr>in_ID = row_id r, in_RunnerID = row_runner_id r, in_RunnerToken = row_runner_token r,
     in_PoolID = row_pool_id r, in_CreatedAt = of_rfc3339 (row_created_at r),
     in_LastJobAt = of_rfc3339 (row_last_job_at r), in_Status = row_status r\<rparr>"

datatype store_error = SaveFailed string | DeleteFailed string | UpdateFailed string | ListFailed

type_synonym instance_store = "instance_row list"

definition SaveInstance :: "bool \<Rightarrow> instance_rec \<Rightarrow> instance_store \<Rightarrow> store_error option \<times> instance_store" where
  "SaveInstance ok i t = (if ok then (None, tbl_upsert row_id (to_row i) t) else (Some (SaveFailed (in_ID i)), t))"

definition store_DeleteInstance :: "bool \<Rightarrow> string \<Rightarrow> instance_store \<Rightarrow> store_error option \<times> instance_store" where
  "store_DeleteInstance ok k t = (if ok then (None, tbl_delete row_id k t) else (Some (DeleteFailed k), t))"

definition UpdateStatus :: "bool \<Rightarrow> string \<Rightarrow> string \<Rightarrow> instance_store \<Rightarrow> store_error option \<times> instance_store" where
  "UpdateStatus ok k status t =
     (if ok then (None, tbl_update row_id k (\<lambda>r. r\<lparr>row_status := status\<rparr>) t) else (Some (UpdateFailed k), t))"

definition UpdateLastJobAt :: "bool \<Rightarrow> string \<Rightarrow> int \<Rightarrow> instance_store \<Rightarrow> store_error option \<times> instance_store" where
  "UpdateLastJobAt ok k time t =
     (if ok then (None, tbl_update row_id k (\<lambda>r. r\<lparr>row_last_job_at := to_rfc3339 time\<rparr>) t) else (Some (UpdateFailed k), t))"

definition ListByPool :: "bool \<Rightarrow> string \<Rightarrow> instance_store \<Rightarrow> (store_error, instance_rec list) result" where
  "ListByPool ok poolID t =
     (if ok then Inr (map of_row (filter (\<lambda>r. row_pool_id r = poolID) t)) else Inl ListFailed)"

text \<open>RFC 3339 text of these years sorts as the times do.\<close>

definition ListAll :: "bool \<Rightarrow> instance_store \<Rightarrow> (store_error, instance_rec list) result" where
  "ListAll ok t = (if ok then Inr (map of_row (sort_key row_created_at t)) else Inl ListFailed)"

section \<open>Rows and instances\<close>

text \<open>What a restart makes of an instance: its times lose the fraction of a second.\<close>

definition stored :: "instance_rec \<Rightarrow> instance_rec" where
  "stored i = of_row (to_row i)"

lemma to_row_sel [simp]: "row_id (to_row i) = in_ID i" "row_pool_id (to_row i) = in_PoolID i"
  "row_status (to_row i) = in_Status i"
  by (simp_all add: to_row_def)

lemma stored_sel [simp]: "in_ID (stored i) = in_ID i" "in_RunnerToken (stored i) = in_RunnerToken i"
  "in_RunnerID (stored i) = in_RunnerID i" "in_PoolID (stored i) = in_PoolID i" "in_Status (stored i) = in_Status i"
  by (simp_all add: stored_def of_row_def to_row_def)

lemma stored_stored [simp]: "stored (stored i) = stored i"
  by (simp add: stored_def of_row_def to_row_def of_rfc3339_def to_rfc3339_def second_def)

lemma stored_times: "in_CreatedAt (stored i) \<le> in_CreatedAt i" "in_CreatedAt i < in_CreatedAt (stored i) + second"
  by (simp_all add: stored_def of_row_def to_row_def of_rfc3339_def to_rfc3339_def second_def)

end
