(* ===== verification/GarmProvider.thy ===== *)
theory GarmProvider
  imports GoTime
begin

text \<open>
  The Incus provider of the runner pools, \<^verbatim>\<open>garm-gitlab/internal/provider/incus.go\<close>: the interface
  the pool uses, and its implementation over the Incus server's API. The server is a parameter
  with its own state; a call that starts an operation and waits for it is one call with three
  kinds of outcome.
\<close>

datatype op_result = ApiError string | WaitError string | OpDone "f64 option"

record instances_post =
  ip_Name :: string
  ip_Config :: "string \<rightharpoonup> string"
  ip_Profiles :: "string list"
  ip_Alias :: string

record 's incus_server =
  is_Create :: "instances_post \<Rightarrow> 's \<Rightarrow> op_result \<times> 's"
  is_UpdateState :: "string \<Rightarrow> string \<Rightarrow> int \<Rightarrow> bool \<Rightarrow> 's \<Rightarrow> op_result \<times> 's"
  is_GetState :: "string \<Rightarrow> 's \<Rightarrow> (string, string) result \<times> 's"
  is_Exec :: "string \<Rightarrow> string list \<Rightarrow> string \<Rightarrow> 's \<Rightarrow> (op_result \<times> string) \<times> 's"
  is_Delete :: "string \<Rightarrow> 's \<Rightarrow> op_result \<times> 's"

datatype provider_error =
    CreateCall string | CreateWait string | StartCall string | StartWait string
  | WaitTimeout string int string | ContextDone string
  | ExecCall string | ExecWait string | ExitCode int string
  | DeleteCall string | DeleteWait string

record create_request =
  cq_InstanceID :: string
  cq_Image :: string
  cq_Profile :: string
  cq_Privileged :: bool
  cq_ExtraConfig :: "string \<rightharpoonup> string"

definition instance_config :: "create_request \<Rightarrow> string \<rightharpoonup> string" where
  "instance_config rq =
     (if cq_Privileged rq
      then (cq_ExtraConfig rq)(''security.privileged'' \<mapsto> ''true'', ''security.nesting'' \<mapsto> ''true'')
      else cq_ExtraConfig rq)"

definition instance_profiles :: "create_request \<Rightarrow> string list" where
  "instance_profiles rq =
     (if cq_Profile rq \<noteq> [] \<and> cq_Profile rq \<noteq> ''default'' then [''default'', cq_Profile rq] else [''default''])"

definition incus_CreateInstance :: "'s incus_server \<Rightarrow> create_request \<Rightarrow> 's \<Rightarrow> provider_error option \<times> 's" where
  "incus_CreateInstance srv rq s =
     (case is_Create srv \<lparr>ip_Name = cq_InstanceID rq, ip_Config = instance_config rq,
         ip_Profiles = instance_profiles rq, ip_Alias = cq_Image rq\<rparr> s of
        (ApiError e, s1) \<Rightarrow> (Some (CreateCall e), s1)
      | (WaitError e, s1) \<Rightarrow> (Some (CreateWait e), s1)
      | (OpDone _, s1) \<Rightarrow>
          (case is_UpdateState srv (cq_InstanceID rq) ''start'' (- 1) False s1 of
             (ApiError e, s2) \<Rightarrow> (Some (StartCall e), s2)
           | (WaitError e, s2) \<Rightarrow> (Some (StartWait e), s2)
           | (OpDone _, s2) \<Rightarrow> (None, s2)))"

text \<open>
  The polling loop: one entry per tick, the clock when the answer is looked at; the context is
  cancelled after the last one. A failed poll does not look at the deadline.
\<close>

fun incus_WaitForInstance ::
    "'s incus_server \<Rightarrow> string \<Rightarrow> int \<Rightarrow> int \<Rightarrow> int list \<Rightarrow> 's \<Rightarrow> provider_error option \<times> 's" where
  "incus_WaitForInstance srv k timeout deadline [] s = (Some (ContextDone k), s)"
| "incus_WaitForInstance srv k timeout deadline (now # ticks) s =
     (case is_GetState srv k s of
        (Inl _, s') \<Rightarrow> incus_WaitForInstance srv k timeout deadline ticks s'
      | (Inr status, s') \<Rightarrow>
          if status = ''Running'' then (None, s')
          else if deadline < now then (Some (WaitTimeout k timeout status), s')
          else incus_WaitForInstance srv k timeout deadline ticks s')"

definition incus_RunCommand :: "'s incus_server \<Rightarrow> string \<Rightarrow> string \<Rightarrow> 's \<Rightarrow> provider_error option \<times> 's" where
  "incus_RunCommand srv k script s =
     (case is_Exec srv k [''bash''] script s of
        ((ApiError e, _), s1) \<Rightarrow> (Some (ExecCall e), s1)
      | ((WaitError e, _), s1) \<Rightarrow> (Some (ExecWait e), s1)
      | ((OpDone (Some code), stderr), s1) \<Rightarrow>
          (if \<not> f64_eq code f64_zero then Some (ExitCode (f64_to_int code) stderr) else None, s1)
      | ((OpDone None, _), s1) \<Rightarrow> (None, s1))"

text \<open>The outcome of the forced stop is only logged.\<close>

definition incus_DeleteInstance :: "'s incus_server \<Rightarrow> string \<Rightarrow> 's \<Rightarrow> provider_error option \<times> 's" where
  "incus_DeleteInstance srv k s =
     (let s1 = snd (is_UpdateState srv k ''stop'' 30 True s) in
      case is_Delete srv k s1 of
        (ApiError e, s2) \<Rightarrow> (Some (DeleteCall e), s2)
      | (WaitError e, s2) \<Rightarrow> (Some (DeleteWait e), s2)
      | (OpDone _, s2) \<Rightarrow> (None, s2))"

section \<open>The interface\<close>

text \<open>\<^verbatim>\<open>IncusProvider\<close>, the calls of the pool.\<close>

record 's incus_provider =
  pv_CreateInstance :: "create_request \<Rightarrow> 's \<Rightarrow> provider_error option \<times> 's"
  pv_WaitForInstance :: "string \<Rightarrow> int \<Rightarrow> 's \<Rightarrow> provider_error option \<times> 's"
  pv_RunCommand :: "string \<Rightarrow> string \<Rightarrow> 's \<Rightarrow> provider_error option \<times> 's"
  pv_DeleteInstance :: "string \<Rightarrow> 's \<Rightarrow> provider_error option \<times> 's"

text \<open>\<open>now\<close> reads the clock, \<open>ticks\<close> gives the ticks up to the cancellation of the context.\<close>

definition incus_client :: "'s incus_server \<Rightarrow> ('s \<Rightarrow> int) \<Rightarrow> ('s \<Rightarrow> int list) \<Rightarrow> 's incus_provider" where
  "incus_client srv now ticks =
     \<lparr>pv_CreateInstance = incus_CreateInstance srv,
      pv_WaitForInstance = (\<lambda>k timeout s. incus_WaitForInstance srv k timeout (now s + timeout) (ticks s) s),
      pv_RunCommand = incus_RunCommand srv,
      pv_DeleteInstance = incus_DeleteInstance srv\<rparr>"

end
