(* ===== verification/GarmConfig.thy ===== *)
theory GarmConfig
  imports GoTime
begin

text \<open>
  The configuration of the runner pools, \<^verbatim>\<open>garm-gitlab/internal/config/config.go\<close>: its sections,
  loading over a TOML decoder, and validation, which also fills in the GitLab URL of a pool that
  names none.
\<close>

record pool_config =
  pc_ID :: string
  pc_GitLabURL :: string
  pc_RegistrationToken :: string
  pc_Tags :: "string list"
  pc_RunUntagged :: bool
  pc_Image :: string
  pc_IncusProfile :: string
  pc_Privileged :: bool
  pc_ExtraConfig :: "(string \<times> string) list"
  pc_MinIdle :: int
  pc_MaxRunners :: int
  pc_IdleTimeout :: int

record api_config =
  ap_ListenAddress :: string
  ap_WebhookSecret :: string

record gitlab_section =
  gs_URL :: string
  gs_Token :: string

record garm_config =
  gc_API :: api_config
  gc_GitLab :: gitlab_section
  gc_Pools :: "pool_config list"

text \<open>\<^verbatim>\<open>UnmarshalText\<close> of the duration wrapper.\<close>

definition UnmarshalText :: "string \<Rightarrow> int option" where
  "UnmarshalText txt = ParseDuration txt"

datatype garm_config_error =
    ListenAddressRequired | GitLabURLRequired | GitLabTokenRequired | NoPools
  | PoolIdRequired nat | PoolIdDuplicate nat string
  | RegistrationTokenRequired string | ImageRequired string
  | MaxRunnersNotPositive string | MinIdleNegative string | MinIdleAboveMax string int int

definition pool_error :: "pool_config \<Rightarrow> garm_config_error option" where
  "pool_error p =
     (if pc_RegistrationToken p = [] then Some (RegistrationTokenRequired (pc_ID p))
      else if pc_Image p = [] then Some (ImageRequired (pc_ID p))
      else if pc_MaxRunners p \<le> 0 then Some (MaxRunnersNotPositive (pc_ID p))
      else if pc_MinIdle p < 0 then Some (MinIdleNegative (pc_ID p))
      else if pc_MaxRunners p < pc_MinIdle p then Some (MinIdleAboveMax (pc_ID p) (pc_MinIdle p) (pc_MaxRunners p))
      else None)"

definition backfill_url :: "string \<Rightarrow> pool_config \<Rightarrow> pool_config" where
  "backfill_url url p = (if pc_GitLabURL p = [] then p\<lparr>pc_GitLabURL := url\<rparr> else p)"

text \<open>The loop over the pools: index, ids seen so far, pools left.\<close>

fun validate_pools ::
    "string \<Rightarrow> nat \<Rightarrow> string list \<Rightarrow> pool_config list \<Rightarrow> (garm_config_error, pool_config list) result" where
  "validate_pools url i seen [] = Inr []"
| "validate_pools url i seen (p # ps) =
     (if pc_ID p = [] then Inl (PoolIdRequired i)
      else if pc_ID p \<in> set seen then Inl (PoolIdDuplicate i (pc_ID p))
      else case pool_error p of
        Some e \<Rightarrow> Inl e
      | None \<Rightarrow>
          (case validate_pools url (Suc i) (pc_ID p # seen) ps of
             Inl e \<Rightarrow> Inl e
           | Inr ps' \<Rightarrow> Inr (backfill_url url p # ps')))"

definition validate :: "garm_config \<Rightarrow> (garm_config_error, garm_config) result" where
  "validate c =
     (if ap_ListenAddress (gc_API c) = [] then Inl ListenAddressRequired
      else if gs_URL (gc_GitLab c) = [] then Inl GitLabURLRequired
      else if gs_Token (gc_GitLab c) = [] then Inl GitLabTokenRequired
      else if gc_Pools c = [] then Inl NoPools
      else case validate_pools (gs_URL (gc_GitLab c)) 0 [] (gc_Pools c) of
        Inl e \<Rightarrow> Inl e
      | Inr ps \<Rightarrow> Inr (c\<lparr>gc_Pools := ps\<rparr>))"

datatype garm_load_error = OpenConfig string | ParseConfig string | InvalidConfig garm_config_error

text \<open>The TOML decoder is given the wrapper's \<^verbatim>\<open>UnmarshalText\<close>.\<close>

definition garm_Load ::
    "((string \<Rightarrow> int option) \<Rightarrow> string \<Rightarrow> (string, garm_config) result) \<Rightarrow> (string, string) result
     \<Rightarrow> (garm_load_error, garm_config) result" where
  "garm_Load toml file =
     (case file of
        Inl e \<Rightarrow> Inl (OpenConfig e)
      | Inr txt \<Rightarrow>
          (case toml UnmarshalText txt of
             Inl e \<Rightarrow> Inl (ParseConfig e)
           | Inr cfg \<Rightarrow> (case validate cfg of Inl e \<Rightarrow> Inl (InvalidConfig e) | Inr c \<Rightarrow> Inr c)))"

section \<open>What a validated configuration guarantees\<close>

definition pool_valid :: "pool_config \<Rightarrow> bool" where
  "pool_valid p \<longleftrightarrow> pc_ID p \<noteq> [] \<and> pc_GitLabURL p \<noteq> [] \<and> pc_RegistrationToken p \<noteq> [] \<and> pc_Image p \<noteq> []
     \<and> 0 < pc_MaxRunners p \<and> 0 \<le> pc_MinIdle p \<and> pc_MinIdle p \<le> pc_MaxRunners p"

lemma backfill_url_sel [simp]:
  "pc_ID (backfill_url url p) = pc_ID p" "pc_RegistrationToken (backfill_url url p) = pc_RegistrationToken p"
  "pc_Image (backfill_url url p) = pc_Image p" "pc_MaxRunners (backfill_url url p) = pc_MaxRunners p"
  "pc_MinIdle (backfill_url url p) = pc_MinIdle p"
  by (simp_all add: backfill_url_def)

lemma pool_error_None: "pool_error p = None \<longleftrightarrow> pc_RegistrationToken p \<noteq> [] \<and> pc_Image p \<noteq> []
    \<and> 0 < pc_MaxRunners p \<and> 0 \<le> pc_MinIdle p \<and> pc_MinIdle p \<le> pc_MaxRunners p"
  by (auto simp: pool_error_def)

lemma validate_pools_ok:
  "validate_pools url i seen ps = Inr qs \<longleftrightarrow>
     qs = map (backfill_url url) ps \<and> (\<forall>p \<in> set ps. pc_ID p \<noteq> [] \<and> pool_error p = None)
     \<and> distinct (map pc_ID ps) \<and> set (map pc_ID ps) \<inter> set seen = {}"
proof (induction ps arbitrary: i seen qs)
  case Nil
  then show ?case by auto
next
  case (Cons p ps)
  have ih: "(\<exists>ys. validate_pools url (Suc i) (pc_ID p # seen) ps = Inr ys) \<longleftrightarrow>
      (\<forall>p \<in> set ps. pc_ID p \<noteq> [] \<and> pool_error p = None) \<and> distinct (map pc_ID ps)
      \<and> set (map pc_ID ps) \<inter> set (pc_ID p # seen) = {}"
    using Cons.IH by blast
  show ?case
  proof (cases "validate_pools url (Suc i) (pc_ID p # seen) ps")
    case (Inl e)
    with ih show ?thesis by (auto split: option.split)
  next
    case (Inr ys)
    with ih Cons.IH [of "Suc i" "pc_ID p # seen" ys] show ?thesis by (auto split: option.split)
  qed
qed

lemma validate_ok:
  "validate c = Inr d \<longleftrightarrow>
     ap_ListenAddress (gc_API c) \<noteq> [] \<and> gs_URL (gc_GitLab c) \<noteq> [] \<and> gs_Token (gc_GitLab c) \<noteq> []
     \<and> gc_Pools c \<noteq> [] \<and> distinct (map pc_ID (gc_Pools c))
     \<and> (\<forall>p \<in> set (gc_Pools c). pc_ID p \<noteq> [] \<and> pool_error p = None)
     \<and> d = c\<lparr>gc_Pools := map (backfill_url (gs_URL (gc_GitLab c))) (gc_Pools c)\<rparr>"
proof (cases "validate_pools (gs_URL (gc_GitLab c)) 0 [] (gc_Pools c)")
  case (Inl e)
  with validate_pools_ok [of "gs_URL (gc_GitLab c)" 0 "[]" "gc_Pools c"] show ?thesis
    by (auto simp: validate_def)
next
  case (Inr ps)
  with validate_pools_ok [of "gs_URL (gc_GitLab c)" 0 "[]" "gc_Pools c" ps] show ?thesis
    by (auto simp: validate_def)
qed

lemma validate_pools_valid: "validate c = Inr d \<Longrightarrow> p \<in> set (gc_Pools d) \<Longrightarrow> pool_valid p"
  by (auto simp: validate_ok pool_valid_def pool_error_None backfill_url_def)

end
