(* ===== verification/GarmScripts.thy ===== *)
theory GarmScripts
  imports GarmConfig Http
begin

text \<open>
  The shell scripts the pool runs inside a new instance, \<^verbatim>\<open>pool.go\<close>: the installation of
  \<^verbatim>\<open>gitlab-runner\<close> with the embedded executor scripts, and its registration and start.
\<close>

abbreviation dq :: string where
  "dq \<equiv> [CHR 0x22]"

definition text_lines :: "string list \<Rightarrow> string" where
  "text_lines ls = concat (map (\<lambda>l. l @ newline) ls)"

fun joinTags :: "string list \<Rightarrow> string" where
  "joinTags [] = []"
| "joinTags [t] = t"
| "joinTags (t # ts) = t @ '','' @ joinTags ts"

definition executorBaseScript :: string where
  "executorBaseScript = text_lines [
     ''#!/usr/bin/env bash'',
     ''CONTAINER_ID='' @ dq @ ''runner-${CUSTOM_ENV_CI_RUNNER_ID}-project-${CUSTOM_ENV_CI_PROJECT_ID}-concurrent-${CUSTOM_ENV_CI_CONCURRENT_PROJECT_ID}-${CUSTOM_ENV_CI_JOB_ID}'' @ dq,
     ''CONTAINER_IMAGE='' @ dq @ ''${CUSTOM_ENV_GARM_INCUS_IMAGE:-ubuntu:noble}'' @ dq,
     ''CONTAINER_PRIVILEGED='' @ dq @ ''${CUSTOM_ENV_GARM_INCUS_PRIVILEGED:-false}'' @ dq]"

definition executorPrepareScript :: string where
  "executorPrepareScript = text_lines [
     ''#!/usr/bin/env bash'',
     ''currentDir='' @ dq @ ''$(cd '' @ dq @ ''$(dirname '' @ dq @ ''${BASH_SOURCE[0]}'' @ dq @ '')'' @ dq @ '' && pwd)'' @ dq,
     ''source '' @ dq @ ''${currentDir}/base.sh'' @ dq,
     ''set -eo pipefail'',
     [],
     ''echo '' @ dq @ ''Preparing container: ${CONTAINER_ID}'' @ dq,
     ''LAUNCH_ARGS='' @ dq @ ''--ephemeral'' @ dq,
     ''if [ '' @ dq @ ''${CONTAINER_PRIVILEGED}'' @ dq @ '' = '' @ dq @ ''true'' @ dq @ '' ]; then'',
     ''  LAUNCH_ARGS='' @ dq @ ''${LAUNCH_ARGS} --config security.privileged=true --config security.nesting=true'' @ dq,
     ''fi'',
     [],
     ''incus launch '' @ dq @ ''${CONTAINER_IMAGE}'' @ dq @ '' '' @ dq @ ''${CONTAINER_ID}'' @ dq @ '' ${LAUNCH_ARGS}'',
     [],
     ''# Wait for network'',
     ''for i in $(seq 1 30); do'',
     ''  incus exec '' @ dq @ ''${CONTAINER_ID}'' @ dq @ '' -- sh -c '' @ dq @ ''ping -c1 8.8.8.8 >/dev/null 2>&1'' @ dq @ '' && break'',
     ''  sleep 2'',
     ''done'',
     [],
     ''# Install dependencies for live-build if privileged'',
     ''if [ '' @ dq @ ''${CONTAINER_PRIVILEGED}'' @ dq @ '' = '' @ dq @ ''true'' @ dq @ '' ]; then'',
     ''  incus exec '' @ dq @ ''${CONTAINER_ID}'' @ dq @ '' -- sh -c '' @ dq,
     ''    apt-get update -qq &&'',
     ''    apt-get install -y --no-install-recommends live-build debootstrap squashfs-tools xorriso'',
     ''  '' @ dq,
     ''fi'']"

definition executorRunScript :: string where
  "executorRunScript = text_lines [
     ''#!/usr/bin/env bash'',
     ''currentDir='' @ dq @ ''$(cd '' @ dq @ ''$(dirname '' @ dq @ ''${BASH_SOURCE[0]}'' @ dq @ '')'' @ dq @ '' && pwd)'' @ dq,
     ''source '' @ dq @ ''${currentDir}/base.sh'' @ dq,
     ''set -eo pipefail'',
     [],
     ''incus exec '' @ dq @ ''${CONTAINER_ID}'' @ dq @ '' -- bash < '' @ dq @ ''${1}'' @ dq]"

definition executorCleanupScript :: string where
  "executorCleanupScript = text_lines [
     ''#!/usr/bin/env bash'',
     ''currentDir='' @ dq @ ''$(cd '' @ dq @ ''$(dirname '' @ dq @ ''${BASH_SOURCE[0]}'' @ dq @ '')'' @ dq @ '' && pwd)'' @ dq,
     ''source '' @ dq @ ''${currentDir}/base.sh'' @ dq,
     ''set -eo pipefail'',
     [],
     ''echo '' @ dq @ ''Cleaning up container: ${CONTAINER_ID}'' @ dq,
     ''incus delete --force '' @ dq @ ''${CONTAINER_ID}'' @ dq @ '' 2>/dev/null || true'']"

definition installGitLabRunnerScript :: "pool_config \<Rightarrow> string" where
  "installGitLabRunnerScript cfg =
     text_lines [
     ''#!/bin/sh'',
     ''set -e'',
     ''# Install gitlab-runner'',
     ''curl -fsSL https://packages.gitlab.com/install/repositories/runner/gitlab-runner/script.deb.sh | bash'',
     ''apt-get install -y gitlab-runner'',
     [],
     ''# Install Incus executor scripts'',
     ''mkdir -p /opt/garm-gitlab/executor'',
     ''cat > /opt/garm-gitlab/executor/base.sh << '' @ [CHR 0x27] @ ''EOF'' @ [CHR 0x27]]
      @ executorBaseScript
      @ newline
      @ text_lines [
     ''EOF'',
     ''cat > /opt/garm-gitlab/executor/prepare.sh << '' @ [CHR 0x27] @ ''EOF'' @ [CHR 0x27]]
      @ executorPrepareScript
      @ newline
      @ text_lines [
     ''EOF'',
     ''cat > /opt/garm-gitlab/executor/run.sh << '' @ [CHR 0x27] @ ''EOF'' @ [CHR 0x27]]
      @ executorRunScript
      @ newline
      @ text_lines [
     ''EOF'',
     ''cat > /opt/garm-gitlab/executor/cleanup.sh << '' @ [CHR 0x27] @ ''EOF'' @ [CHR 0x27]]
      @ executorCleanupScript
      @ newline
      @ text_lines [
     ''EOF'',
     ''chmod +x /opt/garm-gitlab/executor/*.sh'']"

definition startGitLabRunnerScript :: "string \<Rightarrow> pool_config \<Rightarrow> string" where
  "startGitLabRunnerScript runnerToken cfg =
     ''#!/bin/sh'' @ newline @ ''set -e'' @ newline @ ''gitlab-runner register '' @ [CHR 0x5C] @ newline @ ''  --non-interactive '' @ [CHR 0x5C] @ newline @ ''  --url '' @ dq
      @ pc_GitLabURL cfg @ dq @ '' '' @ [CHR 0x5C] @ newline @ ''  --token '' @ dq
      @ runnerToken @ dq @ '' '' @ [CHR 0x5C] @ newline @ ''  --executor custom '' @ [CHR 0x5C] @ newline @ ''  --custom-prepare-exec /opt/garm-gitlab/executor/prepare.sh '' @ [CHR 0x5C] @ newline @ ''  --custom-run-exec /opt/garm-gitlab/executor/run.sh '' @ [CHR 0x5C] @ newline @ ''  --custom-cleanup-exec /opt/garm-gitlab/executor/cleanup.sh '' @ [CHR 0x5C] @ newline @ ''  --description '' @ dq
      @ pc_ID cfg @ dq @ '' '' @ [CHR 0x5C] @ newline @ ''  --tag-list '' @ dq
      @ joinTags (pc_Tags cfg) @ dq @ newline @ newline @ ''gitlab-runner start'' @ newline"

end
