(* ===== verification/GarmPool.thy ===== *)
theory GarmPool
  imports GarmWebhook GarmStore GarmProvider GarmScripts
begin

text \<open>
  The runner pools, \<^verbatim>\<open>garm-gitlab/internal/pool/pool.go\<close>: a pool keeps a map of its instances in
  memory and a copy of it in the store, creates instances for pending jobs and in a reconcile
  loop, and removes idle ones. Provider, GitLab and clock are parameters that share one world.
\<close>

section \<open>State\<close>

text \<open>\<open>pe_save_ok\<close> and \<open>pe_delete_ok\<close>: whether the store accepts the write for an instance.\<close>

record 's pool_env =
  pe_provider :: "'s incus_provider"
  pe_http :: "'s gl_http"
  pe_url_ok :: "string \<Rightarrow> bool"
  pe_client :: gl_client
  pe_now :: "'s \<Rightarrow> int"
  pe_save_ok :: "string \<Rightarrow> bool"
  pe_delete_ok :: "string \<Rightarrow> bool"

record 's pool_state =
  pt_instances :: "instance_rec list"
  pt_store :: instance_store
  pt_world :: 's

datatype garm_error =
    CreateFailed string provider_error
  | WaitFailed string provider_error
  | InstallFailed string provider_error
  | RegisterFailed string gl_error
  | StartFailed string provider_error
  | DestroyFailed string provider_error

section \<open>Creating an instance\<close>

definition instance_name :: "string \<Rightarrow> int \<Rightarrow> string" where
  "instance_name pool now = ''garm-gitlab-'' @ pool @ ''-'' @ show_int now"

definition pool_request :: "pool_config \<Rightarrow> string \<Rightarrow> create_request" where
  "pool_request cfg k = \<lparr>cq_InstanceID = k, cq_Image = pc_Image cfg, cq_Profile = pc_IncusProfile cfg,
     cq_Privileged = pc_Privileged cfg, cq_ExtraConfig = map_of (pc_ExtraConfig cfg)\<rparr>"

text \<open>The clean-up of the error paths: the outcome of the deletion is ignored.\<close>

definition drop_instance :: "'s pool_env \<Rightarrow> string \<Rightarrow> 's \<Rightarrow> 's" where
  "drop_instance env k w = snd (pv_DeleteInstance (pe_provider env) k w)"

text \<open>
  The five calls of \<^verbatim>\<open>createInstance\<close>, up to a registered runner that has been started. A failed
  first call returns at once, without a deletion.
\<close>

definition provision ::
    "'s pool_env \<Rightarrow> pool_config \<Rightarrow> string \<Rightarrow> 's \<Rightarrow> (garm_error, runner_info) result go \<times> 's" where
  "provision env cfg k w =
     (let pv = pe_provider env in
      case pv_CreateInstance pv (pool_request cfg k) w of
        (Some e, w1) \<Rightarrow> (Ret (Inl (CreateFailed k e)), w1)
      | (None, w1) \<Rightarrow>
          (case pv_WaitForInstance pv k (120 * second) w1 of
             (Some e, w2) \<Rightarrow> (Ret (Inl (WaitFailed k e)), drop_instance env k w2)
           | (None, w2) \<Rightarrow>
               (case pv_RunCommand pv k (installGitLabRunnerScript cfg) w2 of
                  (Some e, w3) \<Rightarrow> (Ret (Inl (InstallFailed k e)), drop_instance env k w3)
                | (None, w3) \<Rightarrow>
                    (case RegisterRunner (pe_http env) (pe_url_ok env) (pe_client env) (pc_RegistrationToken cfg)
                        k (joinTags (pc_Tags cfg)) (pc_RunUntagged cfg) w3 of
                       (Inl e, w4) \<Rightarrow> (Ret (Inl (RegisterFailed k e)), drop_instance env k w4)
                     | (Inr info, w4) \<Rightarrow>
                         (case pv_RunCommand pv k (startGitLabRunnerScript (ri_Token info) cfg) w4 of
                            (None, w5) \<Rightarrow> (Ret (Inr info), w5)
                          | (Some e, w5) \<Rightarrow>
                              (case DeleteRunner (pe_http env) (pe_url_ok env) (pe_client env) (ri_Token info) w5 of
                                 (Panic, w6) \<Rightarrow> (Panic, w6)
                               | (Ret _, w6) \<Rightarrow> (Ret (Inl (StartFailed k e)), drop_instance env k w6)))))))"

definition new_instance :: "pool_config \<Rightarrow> string \<Rightarrow> runner_info \<Rightarrow> int \<Rightarrow> instance_rec" where
  "new_instance cfg k info now = \<lparr>in_ID = k, in_RunnerID = ri_ID info, in_RunnerToken = ri_Token info,
     in_PoolID = pc_ID cfg, in_CreatedAt = now, in_LastJobAt = time_zero, in_Status = ''idle''\<rparr>"

text \<open>The new instance is saved, which may fail, and then put into the map.\<close>

definition add_instance :: "'s pool_env \<Rightarrow> instance_rec \<Rightarrow> 's pool_state \<Rightarrow> 's pool_state" where
  "add_instance env i st =
     st\<lparr>pt_store := snd (SaveInstance (pe_save_ok env (in_ID i)) i (pt_store st)),
        pt_instances := tbl_upsert in_ID i (pt_instances st)\<rparr>"

definition createInstance ::
    "'s pool_env \<Rightarrow> pool_config \<Rightarrow> 's pool_state \<Rightarrow> garm_error option go \<times> 's pool_state" where
  "createInstance env cfg st =
     (let k = instance_name (pc_ID cfg) (pe_now env (pt_world st)) in
      case provision env cfg k (pt_world st) of
        (Panic, w) \<Rightarrow> (Panic, st\<lparr>pt_world := w\<rparr>)
      | (Ret (Inl e), w) \<Rightarrow> (Ret (Some e), st\<lparr>pt_world := w\<rparr>)
      | (Ret (Inr info), w) \<Rightarrow>
          (Ret None, add_instance env (new_instance cfg k info (pe_now env w)) (st\<lparr>pt_world := w\<rparr>)))"

lemma createInstance_error:
  assumes "createInstance env cfg st = (Ret (Some e), st')"
  obtains w where "provision env cfg (instance_name (pc_ID cfg) (pe_now env (pt_world st))) (pt_world st) = (Ret (Inl e), w)"
    "st' = st\<lparr>pt_world := w\<rparr>"
  using assms by (auto simp: createInstance_def Let_def split: prod.splits go.splits sum.splits)

lemma createInstance_ok:
  assumes "createInstance env cfg st = (Ret None, st')"
  obtains info w where
    "provision env cfg (instance_name (pc_ID cfg) (pe_now env (pt_world st))) (pt_world st) = (Ret (Inr info), w)"
    "st' = add_instance env (new_instance cfg (instance_name (pc_ID cfg) (pe_now env (pt_world st))) info (pe_now env w))
       (st\<lparr>pt_world := w\<rparr>)"
  using assms by (auto simp: createInstance_def Let_def split: prod.splits go.splits sum.splits)

lemma add_instance_sel [simp]:
  "pt_instances (add_instance env i st) = tbl_upsert in_ID i (pt_instances st)"
  "pt_world (add_instance env i st) = pt_world st"
  "pt_store (add_instance env i st) =
     (if pe_save_ok env (in_ID i) then tbl_upsert row_id (to_row i) (pt_store st) else pt_store st)"
  by (simp_all add: add_instance_def SaveInstance_def)

lemma new_instance_sel [simp]:
  "in_ID (new_instance cfg k info now) = k" "in_PoolID (new_instance cfg k info now) = pc_ID cfg"
  "in_LastJobAt (new_instance cfg k info now) = time_zero" "in_Status (new_instance cfg k info now) = ''idle''"
  "in_CreatedAt (new_instance cfg k info now) = now" "in_RunnerToken (new_instance cfg k info now) = ri_Token info"
  by (simp_all add: new_instance_def)

section \<open>Scaling up\<close>

definition idle :: "instance_rec \<Rightarrow> bool" where
  "idle i \<longleftrightarrow> in_Status i = ''idle''"

definition countIdle :: "instance_rec list \<Rightarrow> int" where
  "countIdle xs = int (length (filter idle xs))"

definition matchesTags :: "pool_config \<Rightarrow> string list \<Rightarrow> bool" where
  "matchesTags cfg jobTags \<longleftrightarrow> list_all (\<lambda>t. t \<in> set jobTags) (pc_Tags cfg)"

text \<open>The decision, taken under the lock, which is released before the instance is created.\<close>

definition scale_up_wanted :: "pool_config \<Rightarrow> instance_rec list \<Rightarrow> bool" where
  "scale_up_wanted cfg xs \<longleftrightarrow> \<not> 0 < countIdle xs \<and> int (length xs) < pc_MaxRunners cfg"

definition scaleUpIfNeeded ::
    "'s pool_env \<Rightarrow> pool_config \<Rightarrow> 's pool_state \<Rightarrow> garm_error option go \<times> 's pool_state" where
  "scaleUpIfNeeded env cfg st =
     (if scale_up_wanted cfg (pt_instances st) then createInstance env cfg st else (Ret None, st))"

text \<open>The pools a job event starts a goroutine for.\<close>

definition dispatch :: "pool_config list \<Rightarrow> job_event \<Rightarrow> pool_config list" where
  "dispatch pools event =
     (if je_BuildStatus event \<noteq> JobStatusPending then []
      else filter (\<lambda>cfg. matchesTags cfg (je_RunnerTags event)) pools)"

section \<open>Scaling down\<close>

text \<open>A failure to deregister the runner is only logged; so is one to delete the row.\<close>

definition destroyInstance ::
    "'s pool_env \<Rightarrow> instance_rec \<Rightarrow> 's pool_state \<Rightarrow> garm_error option go \<times> 's pool_state" where
  "destroyInstance env i st =
     (case DeleteRunner (pe_http env) (pe_url_ok env) (pe_client env) (in_RunnerToken i) (pt_world st) of
        (Panic, w) \<Rightarrow> (Panic, st\<lparr>pt_world := w\<rparr>)
      | (Ret _, w) \<Rightarrow>
          (case pv_DeleteInstance (pe_provider env) (in_ID i) w of
             (Some e, w') \<Rightarrow> (Ret (Some (DestroyFailed (in_ID i) e)), st\<lparr>pt_world := w'\<rparr>)
           | (None, w') \<Rightarrow>
               (Ret None, st\<lparr>pt_world := w',
                  pt_store := snd (store_DeleteInstance (pe_delete_ok env (in_ID i)) (in_ID i) (pt_store st)),
                  pt_instances := tbl_delete in_ID (in_ID i) (pt_instances st)\<rparr>)))"

definition expired :: "pool_config \<Rightarrow> int \<Rightarrow> instance_rec \<Rightarrow> bool" where
  "expired cfg now i \<longleftrightarrow> idle i \<and> pc_IdleTimeout cfg < time_Sub now (in_LastJobAt i)"

text \<open>At most \<open>n\<close> of the candidates; one that cannot be destroyed is passed over.\<close>

fun destroy_some ::
    "'s pool_env \<Rightarrow> int \<Rightarrow> instance_rec list \<Rightarrow> 's pool_state \<Rightarrow> unit go \<times> 's pool_state" where
  "destroy_some env n [] st = (Ret (), st)"
| "destroy_some env n (i # is) st =
     (if n \<le> 0 then (Ret (), st)
      else case destroyInstance env i st of
        (Panic, st') \<Rightarrow> (Panic, st')
      | (Ret (Some _), st') \<Rightarrow> destroy_some env n is st'
      | (Ret None, st') \<Rightarrow> destroy_some env (n - 1) is st')"

text \<open>The map is walked in an unspecified order, \<open>order\<close>.\<close>

definition scaleDownIdle ::
    "'s pool_env \<Rightarrow> (instance_rec list \<Rightarrow> instance_rec list) \<Rightarrow> pool_config \<Rightarrow> int \<Rightarrow> 's pool_state
     \<Rightarrow> unit go \<times> 's pool_state" where
  "scaleDownIdle env order cfg n st =
     destroy_some env n (filter (expired cfg (pe_now env (pt_world st))) (order (pt_instances st))) st"

section \<open>Reconciling\<close>

text \<open>The loop up to \<^verbatim>\<open>MinIdle\<close> on its own counters; the counter of idle instances comes back.\<close>

function scale_to_min ::
    "'s pool_env \<Rightarrow> pool_config \<Rightarrow> int \<Rightarrow> int \<Rightarrow> 's pool_state \<Rightarrow> int go \<times> 's pool_state" where
  "scale_to_min env cfg n current st =
     (if n < pc_MinIdle cfg \<and> current < pc_MaxRunners cfg
      then (case createInstance env cfg st of
              (Panic, st') \<Rightarrow> (Panic, st')
            | (Ret (Some _), st') \<Rightarrow> (Ret n, st')
            | (Ret None, st') \<Rightarrow> scale_to_min env cfg (n + 1) (current + 1) st')
      else (Ret n, st))"
  by pat_completeness auto
termination
  by (relation "measure (\<lambda>(_, cfg, n, _, _). nat (pc_MinIdle cfg - n))") auto

declare scale_to_min.simps [simp del]

definition reconcile ::
    "'s pool_env \<Rightarrow> (instance_rec list \<Rightarrow> instance_rec list) \<Rightarrow> pool_config \<Rightarrow> 's pool_state
     \<Rightarrow> unit go \<times> 's pool_state" where
  "reconcile env order cfg st =
     (let xs = pt_instances st in
      case scale_to_min env cfg (countIdle xs) (int (length xs)) st of
        (Panic, st') \<Rightarrow> (Panic, st')
      | (Ret n, st') \<Rightarrow>
          if pc_MinIdle cfg < n then scaleDownIdle env order cfg (n - pc_MinIdle cfg) st' else (Ret (), st'))"

section \<open>The manager\<close>

record pool =
  pl_cfg :: pool_config
  pl_instances :: "instance_rec list"

definition loadFromStore :: "bool \<Rightarrow> string \<Rightarrow> instance_store \<Rightarrow> (store_error, instance_rec list) result" where
  "loadFromStore ok poolID t =
     (case ListByPool ok poolID t of Inl e \<Rightarrow> Inl e | Inr xs \<Rightarrow> Inr (fold (tbl_upsert in_ID) xs []))"

fun load_pools :: "(string \<Rightarrow> bool) \<Rightarrow> instance_store \<Rightarrow> pool_config list \<Rightarrow> pool list \<Rightarrow> (store_error, pool list) result" where
  "load_pools ok t [] ps = Inr ps"
| "load_pools ok t (c # cs) ps =
     (case loadFromStore (ok (pc_ID c)) (pc_ID c) t of
        Inl e \<Rightarrow> Inl e
      | Inr xs \<Rightarrow> load_pools ok t cs (tbl_upsert (pc_ID \<circ> pl_cfg) \<lparr>pl_cfg = c, pl_instances = xs\<rparr> ps))"

definition NewManager :: "(string \<Rightarrow> bool) \<Rightarrow> instance_store \<Rightarrow> pool_config list \<Rightarrow> (store_error, pool list) result" where
  "NewManager ok t cfg = load_pools ok t cfg []"

text \<open>\<^verbatim>\<open>Run\<close> receives one event at a time from the channel: the goroutines it starts, in order.\<close>

definition run_events :: "pool list \<Rightarrow> job_event list \<Rightarrow> pool_config list" where
  "run_events ps events = concat (map (dispatch (map pl_cfg ps)) events)"

section \<open>A concrete world\<close>

text \<open>
  A server and a GitLab for the witnesses: the state is a clock that every call advances;
  \<open>startable\<close> is whether an instance starts.
\<close>

definition demo_server :: "bool \<Rightarrow> int incus_server" where
  "demo_server startable =
     \<lparr>is_Create = (\<lambda>p s. (OpDone None, s + 1)),
      is_UpdateState = (\<lambda>k a t f s. (if a = ''start'' \<and> \<not> startable then ApiError ''no memory'' else OpDone None, s + 1)),
      is_GetState = (\<lambda>k s. (Inr ''Running'', s + 1)),
      is_Exec = (\<lambda>k c x s. ((OpDone None, []), s + 1)),
      is_Delete = (\<lambda>k s. (OpDone None, s + 1))\<rparr>"

definition demo_gitlab :: "int gl_http" where
  "demo_gitlab rq s =
     (Inr (if gq_method rq = ''POST''
           then \<lparr>gr_status = 201, gr_body = [], gr_json = Some (JObj [(''id'', JNum (Fin 7 0)), (''token'', JStr ''glrt-12345'')])\<rparr>
           else \<lparr>gr_status = 204, gr_body = [], gr_json = None\<rparr>), s + 1)"

definition demo_pool :: pool_config where
  "demo_pool = \<lparr>pc_ID = ''p'', pc_GitLabURL = ''https://g'', pc_RegistrationToken = ''t'', pc_Tags = [''linux''],
     pc_RunUntagged = False, pc_Image = ''ubuntu:noble'', pc_IncusProfile = [], pc_Privileged = False,
     pc_ExtraConfig = [], pc_MinIdle = 0, pc_MaxRunners = 1, pc_IdleTimeout = 600 * second\<rparr>"

definition demo_pool_env :: "int pool_env" where
  "demo_pool_env = \<lparr>pe_provider = incus_client (demo_server True) id (\<lambda>s. [s]), pe_http = demo_gitlab,
     pe_url_ok = (\<lambda>u. True), pe_client = NewClient ''https://g'' ''pat'', pe_now = id,
     pe_save_ok = (\<lambda>k. True), pe_delete_ok = (\<lambda>k. True)\<rparr>"

definition demo_start :: "int pool_state" where
  "demo_start = \<lparr>pt_instances = [], pt_store = [], pt_world = 5\<rparr>"

end
