(* ===== verification/GarmRollback.thy ===== *)
theory GarmRollback
  imports GarmPool
begin

text \<open>
  What a failed creation leaves behind. The locale \<open>instance_provider\<close> states what the pool's
  calls do to the set of instances that exist, and \<open>pool_world\<close> adds that the calls to GitLab do
  not touch it; the clean-up of \<open>createInstance\<close> is proved in it. The laws hold for the Incus
  client over any server: a ghost list beside the server's state records, from its answers, which
  instances it has accepted and not deleted.
\<close>

section \<open>The interface\<close>

locale instance_provider =
  fixes pv :: "'w incus_provider"
    and live :: "'w \<Rightarrow> string set"
    and half_made :: "provider_error \<Rightarrow> bool"
  assumes create_ok: "pv_CreateInstance pv rq w = (None, w') \<Longrightarrow> live w' = insert (cq_InstanceID rq) (live w)"
    and create_err: "pv_CreateInstance pv rq w = (Some e, w') \<Longrightarrow>
      live w' = (if half_made e then insert (cq_InstanceID rq) (live w) else live w)"
    and wait_live: "pv_WaitForInstance pv k t w = (r, w') \<Longrightarrow> live w' = live w"
    and run_live: "pv_RunCommand pv k script w = (r, w') \<Longrightarrow> live w' = live w"
    and delete_live: "pv_DeleteInstance pv k w = (r, w') \<Longrightarrow>
      live w' = (if r = None then live w - {k} else live w)"

locale pool_world = instance_provider pv live half_made
  for pv :: "'w incus_provider" and live half_made +
  fixes http :: "'w gl_http"
  assumes http_live: "http rq w = (r, w') \<Longrightarrow> live w' = live w"
begin

lemma send_live: "gl_send http url_ok rq f w = (r, w') \<Longrightarrow> live w' = live w"
  by (auto simp: gl_send_def split: if_splits prod.splits sum.splits dest: http_live)

lemma register_live: "RegisterRunner http url_ok c rt d tags u w = (r, w') \<Longrightarrow> live w' = live w"
  unfolding RegisterRunner_def by (rule send_live)

lemma delete_runner_live: "DeleteRunner http url_ok c tok w = (r, w') \<Longrightarrow> live w' = live w"
  by (auto simp: DeleteRunner_def split: prod.splits sum.splits if_splits dest: send_live)

text \<open>The clean-up removes the instance when the provider deletes what it is asked to.\<close>

lemma drop_live:
  assumes "pe_provider env = pv" "\<And>k w. fst (pv_DeleteInstance pv k w) = None"
  shows "live (drop_instance env k w) = live w - {k}"
proof -
  have "pv_DeleteInstance pv k w = (None, snd (pv_DeleteInstance pv k w))"
    using assms(2) [of k w] by (metis prod.collapse)
  from delete_live [OF this] show ?thesis by (simp add: drop_instance_def assms(1))
qed

lemma provision_live:
  assumes env: "pe_provider env = pv" "pe_http env = http"
    and del: "\<And>k w. fst (pv_DeleteInstance pv k w) = None"
    and run: "provision env cfg k w = (r, w')"
  shows "case r of
      Panic \<Rightarrow> live w' = insert k (live w)
    | Ret (Inr _) \<Rightarrow> live w' = insert k (live w)
    | Ret (Inl e) \<Rightarrow> live w' =
        (case e of CreateFailed _ p \<Rightarrow> if half_made p then insert k (live w) else live w | _ \<Rightarrow> live w - {k})"
proof -
  note drop = drop_live [OF env(1) del]
  obtain r1 w1 where c: "pv_CreateInstance pv (pool_request cfg k) w = (r1, w1)" by fastforce
  have k: "cq_InstanceID (pool_request cfg k) = k" by (simp add: pool_request_def)
  show ?thesis
  proof (cases r1)
    case (Some e)
    with run c create_err [of "pool_request cfg k" w e w1] show ?thesis
      by (auto simp: provision_def env k)
  next
    case None
    with c create_ok [of "pool_request cfg k" w w1] have l1: "live w1 = insert k (live w)" by (simp add: k)
    obtain r2 w2 where w: "pv_WaitForInstance pv k (120 * second) w1 = (r2, w2)" by fastforce
    with l1 have l2: "live w2 = insert k (live w)" by (simp add: wait_live)
    obtain r3 w3 where i: "pv_RunCommand pv k (installGitLabRunnerScript cfg) w2 = (r3, w3)" by fastforce
    with l2 have l3: "live w3 = insert k (live w)" by (simp add: run_live)
    obtain r4 w4 where g: "RegisterRunner http (pe_url_ok env) (pe_client env) (pc_RegistrationToken cfg) k
        (joinTags (pc_Tags cfg)) (pc_RunUntagged cfg) w3 = (r4, w4)" by fastforce
    with l3 have l4: "live w4 = insert k (live w)" by (simp add: register_live)
    show ?thesis
    proof (cases r4)
      case (Inl e)
      with run c w i g None l2 l3 l4 show ?thesis
        by (auto simp: provision_def env drop Let_def split: option.splits)
    next
      case (Inr info)
      obtain r5 w5 where s: "pv_RunCommand pv k (startGitLabRunnerScript (ri_Token info) cfg) w4 = (r5, w5)" by fastforce
      with l4 have l5: "live w5 = insert k (live w)" by (simp add: run_live)
      obtain r6 w6 where d: "DeleteRunner http (pe_url_ok env) (pe_client env) (ri_Token info) w5 = (r6, w6)" by fastforce
      with l5 have l6: "live w6 = insert k (live w)" by (simp add: delete_runner_live)
      from run c w i g Inr s d None l2 l3 l4 l5 l6 show ?thesis
        by (auto simp: provision_def env drop Let_def split: option.splits go.splits)
    qed
  qed
qed

end

section \<open>The Incus client\<close>

text \<open>The server with the ghost list: a refused call changes nothing, a failed wait may have created.\<close>

definition traced :: "'s incus_server \<Rightarrow> ('s \<times> string list) incus_server" where
  "traced srv =
     \<lparr>is_Create = (\<lambda>p (s, l). case is_Create srv p s of
          (ApiError e, s') \<Rightarrow> (ApiError e, (s', l))
        | (r, s') \<Rightarrow> (r, (s', ip_Name p # l))),
      is_UpdateState = (\<lambda>k a t f (s, l). case is_UpdateState srv k a t f s of (r, s') \<Rightarrow> (r, (s', l))),
      is_GetState = (\<lambda>k (s, l). case is_GetState srv k s of (r, s') \<Rightarrow> (r, (s', l))),
      is_Exec = (\<lambda>k c x (s, l). case is_Exec srv k c x s of (r, s') \<Rightarrow> (r, (s', l))),
      is_Delete = (\<lambda>k (s, l). case is_Delete srv k s of
          (OpDone m, s') \<Rightarrow> (OpDone m, (s', removeAll k l))
        | (r, s') \<Rightarrow> (r, (s', l)))\<rparr>"

definition accepted :: "'s \<times> string list \<Rightarrow> string set" where
  "accepted w = set (snd w)"

fun start_failed :: "provider_error \<Rightarrow> bool" where
  "start_failed (CreateWait _) = True"
| "start_failed (StartCall _) = True"
| "start_failed (StartWait _) = True"
| "start_failed _ = False"

lemma traced_wait: "accepted (snd (incus_WaitForInstance (traced srv) k t d ticks w)) = accepted w"
proof (induction ticks arbitrary: w)
  case Nil
  then show ?case by simp
next
  case (Cons now ticks)
  obtain s l where w: "w = (s, l)" by fastforce
  obtain r s' where g: "is_GetState srv k s = (r, s')" by fastforce
  have t: "is_GetState (traced srv) k (s, l) = (r, (s', l))" using g by (simp add: traced_def)
  show ?case
    by (cases r) (use t Cons.IH [of "(s', l)"] in \<open>simp_all add: w accepted_def\<close>)
qed

lemma traced_lawful:
  "instance_provider (incus_client (traced srv) now ticks) accepted start_failed"
proof
  fix rq w w'
  assume "pv_CreateInstance (incus_client (traced srv) now ticks) rq w = (None, w')"
  then show "accepted w' = insert (cq_InstanceID rq) (accepted w)"
    by (cases w) (auto simp: incus_client_def incus_CreateInstance_def traced_def accepted_def
        split: prod.splits op_result.splits)
next
  fix rq w e w'
  assume "pv_CreateInstance (incus_client (traced srv) now ticks) rq w = (Some e, w')"
  then show "accepted w' = (if start_failed e then insert (cq_InstanceID rq) (accepted w) else accepted w)"
    by (cases w) (auto simp: incus_client_def incus_CreateInstance_def traced_def accepted_def
        split: prod.splits op_result.splits)
next
  fix k t w r w'
  assume "pv_WaitForInstance (incus_client (traced srv) now ticks) k t w = (r, w')"
  then show "accepted w' = accepted w"
    using traced_wait [of srv k t "now w + t" "ticks w" w] by (simp add: incus_client_def)
next
  fix k script w r w'
  assume "pv_RunCommand (incus_client (traced srv) now ticks) k script w = (r, w')"
  then show "accepted w' = accepted w"
    by (cases w) (auto simp: incus_client_def incus_RunCommand_def traced_def accepted_def
        split: prod.splits op_result.splits option.splits if_splits)
next
  fix k w r w'
  assume "pv_DeleteInstance (incus_client (traced srv) now ticks) k w = (r, w')"
  then show "accepted w' = (if r = None then accepted w - {k} else accepted w)"
    by (cases w) (auto simp: incus_client_def incus_DeleteInstance_def traced_def accepted_def Let_def
        split: prod.splits op_result.splits)
qed

interpretation incus: instance_provider "incus_client (traced srv) now ticks" accepted start_failed
  for srv now ticks
  by (rule traced_lawful)

text \<open>GitLab's part of the world, beside the ghost list.\<close>

definition beside :: "'s gl_http \<Rightarrow> ('s \<times> string list) gl_http" where
  "beside http = (\<lambda>rq (s, l). case http rq s of (r, s') \<Rightarrow> (r, (s', l)))"

interpretation incus_gitlab: pool_world "incus_client (traced srv) now ticks" accepted start_failed "beside http"
  for srv now ticks http
  by unfold_locales (auto simp: beside_def accepted_def split: prod.splits)

text \<open>The errors after which the new instance is still there.\<close>

fun leaked :: "garm_error \<Rightarrow> bool" where
  "leaked (CreateFailed _ e) = start_failed e"
| "leaked _ = False"

text \<open>
  C31. A creation that fails changes neither the map nor the store, and when the server deletes
  what it is asked to delete it leaves no new instance on the server, with one exception: if the
  instance was made and could not be started (or the wait for its creation failed) it stays, known
  to nobody. A creation that succeeds leaves exactly the new instance.
\<close>

theorem failed_creation_cleanup:
  assumes "createInstance env cfg st = (Ret r, st')"
    and env: "pe_provider env = incus_client (traced srv) now ticks" "pe_http env = beside http"
    and del: "\<And>k s. \<exists>m s'. is_Delete srv k s = (OpDone m, s')"
    and k: "k = instance_name (pc_ID cfg) (pe_now env (pt_world st))" "k \<notin> accepted (pt_world st)"
  shows "case r of
      Some e \<Rightarrow> pt_instances st' = pt_instances st \<and> pt_store st' = pt_store st
        \<and> accepted (pt_world st') = (if leaked e then insert k (accepted (pt_world st)) else accepted (pt_world st))
    | None \<Rightarrow> tbl_find in_ID k (pt_instances st') \<noteq> None \<and> accepted (pt_world st') = insert k (accepted (pt_world st))"
proof -
  have del': "fst (pv_DeleteInstance (incus_client (traced srv) now ticks) k w) = None" for k w
  proof -
    obtain s l where w: "w = (s, l)" by fastforce
    obtain r s1 where u: "is_UpdateState srv k ''stop'' 30 True s = (r, s1)" by fastforce
    obtain m s2 where "is_Delete srv k s1 = (OpDone m, s2)" using del by blast
    with u show ?thesis by (simp add: w incus_client_def incus_DeleteInstance_def traced_def)
  qed
  show ?thesis
  proof (cases r)
    case None
    with assms(1) have "createInstance env cfg st = (Ret None, st')" by simp
    then obtain info w where p: "provision env cfg k (pt_world st) = (Ret (Inr info), w)"
      and st': "st' = add_instance env (new_instance cfg k info (pe_now env w)) (st\<lparr>pt_world := w\<rparr>)"
      unfolding k(1) by (rule createInstance_ok)
    from incus_gitlab.provision_live [OF env del' p] None show ?thesis by (simp add: st')
  next
    case (Some e)
    with assms(1) have "createInstance env cfg st = (Ret (Some e), st')" by simp
    then obtain w where p: "provision env cfg k (pt_world st) = (Ret (Inl e), w)" and st': "st' = st\<lparr>pt_world := w\<rparr>"
      unfolding k(1) by (rule createInstance_error)
    from incus_gitlab.provision_live [OF env del' p] k(2) Some show ?thesis
      by (cases e) (simp_all add: st')
  qed
qed

definition demo_traced_env :: "(int \<times> string list) pool_env" where
  "demo_traced_env = \<lparr>pe_provider = incus_client (traced (demo_server False)) fst (\<lambda>w. [fst w]), pe_http = beside demo_gitlab,
     pe_url_ok = (\<lambda>u. True), pe_client = NewClient ''https://g'' ''pat'', pe_now = fst,
     pe_save_ok = (\<lambda>k. True), pe_delete_ok = (\<lambda>k. True)\<rparr>"

definition demo_traced_start :: "(int \<times> string list) pool_state" where
  "demo_traced_start = \<lparr>pt_instances = [], pt_store = [], pt_world = (5, [])\<rparr>"

lemma demo_traced_create:
  "fst (createInstance demo_traced_env demo_pool demo_traced_start)
    = Ret (Some (CreateFailed ''garm-gitlab-p-5'' (StartCall ''no memory'')))"
  by code_simp

theorem failed_creation_cleanup_witness:
  "accepted (pt_world (snd (createInstance demo_traced_env demo_pool demo_traced_start))) = {''garm-gitlab-p-5''}"
proof -
  let ?k = "''garm-gitlab-p-5''"
  have name: "?k = instance_name (pc_ID demo_pool) (pe_now demo_traced_env (pt_world demo_traced_start))"
    by code_simp
  have env: "pe_provider demo_traced_env = incus_client (traced (demo_server False)) fst (\<lambda>w. [fst w])"
    "pe_http demo_traced_env = beside demo_gitlab" "accepted (pt_world demo_traced_start) = {}"
    by (simp_all add: demo_traced_env_def demo_traced_start_def accepted_def)
  have del: "\<exists>m s'. is_Delete (demo_server False) k s = (OpDone m, s')" for k s
    by (simp add: demo_server_def)
  obtain st' where c: "createInstance demo_traced_env demo_pool demo_traced_start
      = (Ret (Some (CreateFailed ?k (StartCall ''no memory''))), st')"
    using demo_traced_create by (metis prod.collapse)
  from failed_creation_cleanup [OF c env(1,2) del name] c show ?thesis by (simp add: env(3))
qed

end
