(* ===== verification/GarmSystem.thy ===== *)
theory GarmSystem
  imports GarmRollback "HOL-Library.Multiset"
begin

text \<open>
  A runner pool as it runs: goroutines that have decided to scale up, the reconcile loop, and the
  other pools that share the store. The invariants of all reachable states say what the pool can
  never do; a burst of jobs and a reconcile pass show what it does.
\<close>

section \<open>Waiting for an instance\<close>

lemma wait_failing:
  assumes "\<And>s. \<not> is_ok (fst (is_GetState srv k s))"
  shows "fst (incus_WaitForInstance srv k t d ticks s) = Some (ContextDone k)"
proof (induction ticks arbitrary: s)
  case (Cons a ticks)
  obtain e s' where "is_GetState srv k s = (Inl e, s')"
    using assms [of s] by (cases "is_GetState srv k s"; cases "fst (is_GetState srv k s)") auto
  with Cons show ?case by simp
qed simp

lemma answered:
  assumes "\<And>s. is_ok (fst (is_GetState srv k s))"
  obtains st s' where "is_GetState srv k s = (Inr st, s')"
  using assms [of s] by (cases "is_GetState srv k s"; cases "fst (is_GetState srv k s)") auto

lemma wait_answering:
  assumes "\<And>s. is_ok (fst (is_GetState srv k s))" "d < now"
  shows "incus_WaitForInstance srv k t d (pre @ now # post) s = incus_WaitForInstance srv k t d (pre @ [now]) s"
proof (induction pre arbitrary: s)
  case Nil
  obtain st s' where "is_GetState srv k s = (Inr st, s')" by (rule answered [OF assms(1)])
  with assms(2) show ?case by simp
next
  case (Cons a pre)
  obtain st s' where "is_GetState srv k s = (Inr st, s')" by (rule answered [OF assms(1)])
  with Cons.IH [of s'] show ?case by simp
qed

lemma wait_answering_no_cancel:
  assumes "\<And>s. is_ok (fst (is_GetState srv k s))" "d < now"
  shows "fst (incus_WaitForInstance srv k t d (pre @ now # post) s) \<noteq> Some (ContextDone k)"
proof (induction pre arbitrary: s)
  case Nil
  obtain st s' where "is_GetState srv k s = (Inr st, s')" by (rule answered [OF assms(1)])
  with assms(2) show ?case by simp
next
  case (Cons a pre)
  obtain st s' where "is_GetState srv k s = (Inr st, s')" by (rule answered [OF assms(1)])
  with Cons.IH [of s'] show ?case by simp
qed

text \<open>
  C30. Waiting for a new instance ends by the first tick after the deadline when the server answers
  the polls, and is not a timeout of the context then. While the polls fail it never ends by
  itself: the deadline is not looked at, and only the cancellation of the context returns.
\<close>

theorem wait_for_instance_deadline:
  assumes "deadline < now"
  shows "((\<forall>s. is_ok (fst (is_GetState srv k s))) \<longrightarrow>
      incus_WaitForInstance srv k t deadline (pre @ now # post) s = incus_WaitForInstance srv k t deadline (pre @ [now]) s
      \<and> fst (incus_WaitForInstance srv k t deadline (pre @ now # post) s) \<noteq> Some (ContextDone k))
    \<and> ((\<forall>s. \<not> is_ok (fst (is_GetState srv k s))) \<longrightarrow>
      fst (incus_WaitForInstance srv k t deadline (pre @ now # post) s) = Some (ContextDone k))"
proof (intro conjI impI)
  assume "\<forall>s. is_ok (fst (is_GetState srv k s))"
  then have a: "\<And>s. is_ok (fst (is_GetState srv k s))" by blast
  show "incus_WaitForInstance srv k t deadline (pre @ now # post) s = incus_WaitForInstance srv k t deadline (pre @ [now]) s"
    by (rule wait_answering [OF a assms])
  show "fst (incus_WaitForInstance srv k t deadline (pre @ now # post) s) \<noteq> Some (ContextDone k)"
    by (rule wait_answering_no_cancel [OF a assms])
next
  assume "\<forall>s. \<not> is_ok (fst (is_GetState srv k s))"
  then show "fst (incus_WaitForInstance srv k t deadline (pre @ now # post) s) = Some (ContextDone k)"
    by (intro wait_failing) blast
qed

text \<open>A server that is never reached, polled 1000 times past the deadline.\<close>

definition demo_gone :: "int incus_server" where
  "demo_gone = (demo_server True)\<lparr>is_GetState := (\<lambda>k s. (Inl ''connection refused'', s))\<rparr>"

theorem wait_for_instance_deadline_witness:
  "fst (incus_WaitForInstance demo_gone ''i'' 120 120 ([1, 2] @ 121 # replicate 1000 500) 0) = Some (ContextDone ''i'')
    \<and> fst (incus_WaitForInstance (demo_server True) ''i'' 120 120 ([] @ 121 # [500]) 0) \<noteq> Some (ContextDone ''i'')"
proof -
  have late: "(120::int) < 121" by simp
  have gone: "\<forall>s. \<not> is_ok (fst (is_GetState demo_gone k s))" for k by (simp add: demo_gone_def)
  have up: "\<forall>s. is_ok (fst (is_GetState (demo_server True) k s))" for k by (simp add: demo_server_def)
  show ?thesis
    using wait_for_instance_deadline [OF late, of demo_gone "''i''" 120 "[1, 2]" "replicate 1000 500" 0] gone
      wait_for_instance_deadline [OF late, of "demo_server True" "''i''" 120 "[]" "[500]" 0] up
    by blast
qed

section \<open>Steps of a pool\<close>

text \<open>Where the reconcile goroutine is; the candidates were collected before the first deletion.\<close>

datatype phase = Resting | Growing int int | Shrinking int "instance_rec list"

record 's pool_sys =
  sy_pool :: "'s pool_state"
  sy_tasks :: nat
  sy_phase :: phase

definition pool_rows :: "string \<Rightarrow> instance_store \<Rightarrow> instance_store" where
  "pool_rows poolID t = filter (\<lambda>r. row_pool_id r = poolID) t"

text \<open>
  \<open>ok\<close> restricts the outcomes of a step, \<open>k\<close> bounds the goroutines that scale up at the same
  time. The last rule is what the world and the other pools do.
\<close>

inductive pool_step :: "('s pool_env \<Rightarrow> bool) \<Rightarrow> pool_config \<Rightarrow> nat \<Rightarrow> 's pool_sys \<Rightarrow> 's pool_sys \<Rightarrow> bool"
  for ok cfg k where
  job: "scale_up_wanted cfg (pt_instances (sy_pool s)) \<Longrightarrow> sy_tasks s < k \<Longrightarrow>
    pool_step ok cfg k s (s\<lparr>sy_tasks := Suc (sy_tasks s)\<rparr>)"
| finish: "sy_tasks s = Suc n \<Longrightarrow> ok env \<Longrightarrow> createInstance env cfg (sy_pool s) = (Ret r, p) \<Longrightarrow>
    pool_step ok cfg k s (s\<lparr>sy_pool := p, sy_tasks := n\<rparr>)"
| tick: "sy_phase s = Resting \<Longrightarrow> xs = pt_instances (sy_pool s) \<Longrightarrow>
    pool_step ok cfg k s (s\<lparr>sy_phase := Growing (countIdle xs) (int (length xs))\<rparr>)"
| grow: "sy_phase s = Growing i c \<Longrightarrow> i < pc_MinIdle cfg \<Longrightarrow> c < pc_MaxRunners cfg \<Longrightarrow> ok env \<Longrightarrow>
    createInstance env cfg (sy_pool s) = (Ret None, p) \<Longrightarrow>
    pool_step ok cfg k s (s\<lparr>sy_pool := p, sy_phase := Growing (i + 1) (c + 1)\<rparr>)"
| grow_failed: "sy_phase s = Growing i c \<Longrightarrow> i < pc_MinIdle cfg \<Longrightarrow> c < pc_MaxRunners cfg \<Longrightarrow> ok env \<Longrightarrow>
    createInstance env cfg (sy_pool s) = (Ret (Some e), p) \<Longrightarrow>
    pool_step ok cfg k s (s\<lparr>sy_pool := p, sy_phase := Resting\<rparr>)"
| grown: "sy_phase s = Growing i c \<Longrightarrow> \<not> (i < pc_MinIdle cfg \<and> c < pc_MaxRunners cfg) \<Longrightarrow>
    mset xs = mset (filter (expired cfg now) (pt_instances (sy_pool s))) \<Longrightarrow>
    pool_step ok cfg k s (s\<lparr>sy_phase := (if pc_MinIdle cfg < i then Shrinking (i - pc_MinIdle cfg) xs else Resting)\<rparr>)"
| shrink: "sy_phase s = Shrinking n (x # xs) \<Longrightarrow> 0 < n \<Longrightarrow> ok env \<Longrightarrow>
    destroyInstance env x (sy_pool s) = (Ret r, p) \<Longrightarrow>
    pool_step ok cfg k s (s\<lparr>sy_pool := p, sy_phase := Shrinking (if r = None then n - 1 else n) xs\<rparr>)"
| shrunk: "sy_phase s = Shrinking n xs \<Longrightarrow> n \<le> 0 \<or> xs = [] \<Longrightarrow>
    pool_step ok cfg k s (s\<lparr>sy_phase := Resting\<rparr>)"
| restart: "loadFromStore True (pc_ID cfg) (pt_store (sy_pool s)) = Inr xs \<Longrightarrow>
    pool_step ok cfg k s (s\<lparr>sy_pool := (sy_pool s)\<lparr>pt_instances := xs\<rparr>, sy_tasks := 0, sy_phase := Resting\<rparr>)"
| others: "pool_rows (pc_ID cfg) t = pool_rows (pc_ID cfg) (pt_store (sy_pool s)) \<Longrightarrow>
    pool_step ok cfg k s (s\<lparr>sy_pool := (sy_pool s)\<lparr>pt_store := t, pt_world := w\<rparr>\<rparr>)"

definition store_reliable :: "'s pool_env \<Rightarrow> bool" where
  "store_reliable env \<longleftrightarrow> (\<forall>k. pe_save_ok env k) \<and> (\<forall>k. pe_delete_ok env k)"

text \<open>Memory and store hold the same instances, all of them idle and without a job so far.\<close>

definition pool_inv :: "pool_config \<Rightarrow> 's pool_state \<Rightarrow> bool" where
  "pool_inv cfg p \<longleftrightarrow>
     (\<forall>i \<in> set (pt_instances p). idle i \<and> in_PoolID i = pc_ID cfg \<and> in_LastJobAt i = time_zero)
     \<and> pool_rows (pc_ID cfg) (pt_store p) = map to_row (pt_instances p)
     \<and> tbl_ok in_ID (pt_instances p)"

section \<open>Preservation\<close>

lemma pool_rows_upsert:
  "row_pool_id r = pid \<Longrightarrow> pool_rows pid (tbl_upsert row_id r t) = tbl_upsert row_id r (pool_rows pid t)"
  by (simp add: pool_rows_def tbl_upsert_def conj_commute)

lemma pool_rows_delete: "pool_rows pid (tbl_delete row_id k t) = tbl_delete row_id k (pool_rows pid t)"
  by (simp add: pool_rows_def tbl_delete_def conj_commute)

lemma map_upsert: "map to_row (tbl_upsert in_ID i xs) = tbl_upsert row_id (to_row i) (map to_row xs)"
  by (simp add: tbl_upsert_def filter_map comp_def)

lemma map_delete: "map to_row (tbl_delete in_ID k xs) = tbl_delete row_id k (map to_row xs)"
  by (simp add: tbl_delete_def filter_map comp_def)

lemma world_inv [simp]: "pool_inv cfg (p\<lparr>pt_world := w\<rparr>) = pool_inv cfg p"
  by (simp add: pool_inv_def)

lemma set_upsert: "set (tbl_upsert key r t) = insert r {x \<in> set t. key x \<noteq> key r}"
  by (auto simp: tbl_upsert_def)

lemma add_inv:
  assumes "pool_inv cfg p" "store_reliable env" "in_PoolID i = pc_ID cfg" "idle i" "in_LastJobAt i = time_zero"
  shows "pool_inv cfg (add_instance env i p)"
  using assms by (auto simp: pool_inv_def store_reliable_def pool_rows_upsert map_upsert set_upsert)

lemma create_inv [step_inv]:
  assumes "createInstance env cfg p = (Ret r, p')" "pool_inv cfg p" "store_reliable env"
  shows "pool_inv cfg p'"
proof (cases r)
  case None
  with assms(1) have "createInstance env cfg p = (Ret None, p')" by simp
  then show ?thesis
    by (rule createInstance_ok) (use assms(2,3) in \<open>auto intro: add_inv simp: idle_def\<close>)
next
  case (Some e)
  with assms(1) have "createInstance env cfg p = (Ret (Some e), p')" by simp
  then show ?thesis by (rule createInstance_error) (use assms(2) in simp)
qed

lemma destroy_cases:
  assumes "destroyInstance env i p = (Ret r, p')"
  obtains w where "r = None" "p' = p\<lparr>pt_world := w,
      pt_store := (if pe_delete_ok env (in_ID i) then tbl_delete row_id (in_ID i) (pt_store p) else pt_store p),
      pt_instances := tbl_delete in_ID (in_ID i) (pt_instances p)\<rparr>"
  | e w where "r = Some e" "p' = p\<lparr>pt_world := w\<rparr>"
  using assms by (auto simp: destroyInstance_def store_DeleteInstance_def split: prod.splits go.splits option.splits if_splits)

lemma destroy_inv [step_inv]:
  assumes "destroyInstance env i p = (Ret r, p')" "pool_inv cfg p" "store_reliable env"
  shows "pool_inv cfg p'"
  using assms(1)
proof (cases rule: destroy_cases)
  case (1 w)
  with assms(2,3) show ?thesis
    by (auto simp: pool_inv_def store_reliable_def pool_rows_delete map_delete) (simp_all add: tbl_delete_def)
next
  case (2 e w)
  with assms(2) show ?thesis by simp
qed

lemma fold_upsert_distinct: "distinct (map in_ID (ys @ xs)) \<Longrightarrow> fold (tbl_upsert in_ID) xs ys = ys @ xs"
proof (induction xs arbitrary: ys)
  case (Cons x xs)
  then have "in_ID x \<notin> in_ID ` set ys" by auto
  then have "filter (\<lambda>y. in_ID y \<noteq> in_ID x) ys = ys" by (intro filter_True) (auto simp: image_iff)
  with Cons.IH [of "ys @ [x]"] Cons.prems show ?case by (simp add: tbl_upsert_def)
qed simp

lemma load_rows:
  assumes "pool_rows pid t = map to_row xs" "tbl_ok in_ID xs"
  shows "loadFromStore True pid t = Inr (map stored xs)"
proof -
  have "map of_row (filter (\<lambda>r. row_pool_id r = pid) t) = map stored xs"
    using assms(1) by (simp add: pool_rows_def stored_def comp_def)
  moreover have "distinct (map in_ID ([] @ map stored xs))" using assms(2) by (simp add: tbl_ok_def comp_def)
  ultimately show ?thesis
    using fold_upsert_distinct [of "[]" "map stored xs"] by (simp add: loadFromStore_def ListByPool_def)
qed

lemma to_row_stored [simp]: "to_row (stored i) = to_row i"
  by (simp add: stored_def to_row_def of_row_def of_rfc3339_def to_rfc3339_def second_def)

lemma stored_LastJobAt [simp]: "in_LastJobAt i = time_zero \<Longrightarrow> in_LastJobAt (stored i) = time_zero"
  using rfc3339_zero by (simp add: stored_def to_row_def of_row_def)

lemma restart_inv [step_inv]:
  assumes "pool_inv cfg p" "loadFromStore True (pc_ID cfg) (pt_store p) = Inr xs"
  shows "pool_inv cfg (p\<lparr>pt_instances := xs\<rparr>) \<and> xs = map stored (pt_instances p)"
proof -
  have "xs = map stored (pt_instances p)"
    using load_rows [of "pc_ID cfg" "pt_store p" "pt_instances p"] assms by (simp add: pool_inv_def)
  with assms(1) show ?thesis by (simp add: pool_inv_def tbl_ok_def comp_def idle_def)
qed

lemma step_inv:
  assumes "pool_step store_reliable cfg k s s'" "pool_inv cfg (sy_pool s)"
  shows "pool_inv cfg (sy_pool s')"
  using assms
proof cases
  case (others t w)
  with assms(2) show ?thesis by (simp add: pool_inv_def)
qed (auto dest: create_inv destroy_inv restart_inv)

definition fresh_sys :: "pool_config \<Rightarrow> 's pool_sys \<Rightarrow> bool" where
  "fresh_sys cfg s \<longleftrightarrow> pt_instances (sy_pool s) = [] \<and> pool_rows (pc_ID cfg) (pt_store (sy_pool s)) = []
     \<and> sy_tasks s = 0 \<and> sy_phase s = Resting"

lemma reachable_inv:
  assumes "(pool_step store_reliable cfg k)\<^sup>*\<^sup>* s s'" "fresh_sys cfg s"
  shows "pool_inv cfg (sy_pool s')"
  using assms(1)
proof (induction rule: rtranclp_induct)
  case base
  with assms(2) show ?case by (simp add: fresh_sys_def pool_inv_def)
next
  case (step y z)
  then show ?case by (blast intro: step_inv)
qed

end
