(* ===== verification/GarmProps.thy ===== *)
theory GarmProps
  imports GarmSystem
begin

text \<open>
  What a runner pool does and cannot do: the invariant of its reachable states, restarts, the
  number of its instances, bursts of jobs, and what a reconcile pass removes.
\<close>

section \<open>A run\<close>

definition demo_sys :: "int pool_sys" where
  "demo_sys = \<lparr>sy_pool = demo_start, sy_tasks = 0, sy_phase = Resting\<rparr>"

definition demo_made :: "int pool_state" where
  "demo_made = snd (createInstance demo_pool_env demo_pool demo_start)"

definition demo_sys_made :: "int pool_sys" where
  "demo_sys_made = \<lparr>sy_pool = demo_made, sy_tasks = 0, sy_phase = Resting\<rparr>"

lemma demo_create: "createInstance demo_pool_env demo_pool demo_start = (Ret None, demo_made)"
proof -
  have "fst (createInstance demo_pool_env demo_pool demo_start) = Ret None" by code_simp
  then show ?thesis by (metis demo_made_def prod.collapse)
qed

lemma demo_instances: "map in_ID (pt_instances demo_made) = [''garm-gitlab-p-5'']"
  unfolding demo_made_def by code_simp

lemma demo_reliable: "store_reliable demo_pool_env"
  by (simp add: store_reliable_def demo_pool_env_def)

lemma demo_fresh: "fresh_sys demo_pool demo_sys"
  by (simp add: fresh_sys_def demo_sys_def demo_start_def pool_rows_def)

lemma demo_reach: "(pool_step store_reliable demo_pool 1)\<^sup>*\<^sup>* demo_sys demo_sys_made"
proof -
  let ?mid = "demo_sys\<lparr>sy_tasks := Suc 0\<rparr>"
  have "scale_up_wanted demo_pool (pt_instances (sy_pool demo_sys))"
    by (simp add: scale_up_wanted_def countIdle_def demo_sys_def demo_start_def demo_pool_def)
  then have one: "pool_step store_reliable demo_pool 1 demo_sys ?mid"
    using pool_step.job [of demo_pool demo_sys 1] by (simp add: demo_sys_def)
  have "pool_step store_reliable demo_pool 1 ?mid demo_sys_made"
    using pool_step.finish [of ?mid 0 store_reliable demo_pool_env demo_pool None demo_made 1] demo_create demo_reliable
    by (simp add: demo_sys_def demo_sys_made_def)
  with one show ?thesis by (meson rtranclp.simps)
qed

section \<open>The invariant\<close>

text \<open>
  C32. In every state a pool reaches from an empty start while the store accepts its writes, under
  any events, failures and restarts: every instance is still marked idle and has never run a job,
  and the store holds exactly the instances in memory. The other statuses are never set.
\<close>

theorem pool_reachable_inv:
  assumes "(pool_step store_reliable cfg k)\<^sup>*\<^sup>* s s'" "fresh_sys cfg s"
  shows "(\<forall>i \<in> set (pt_instances (sy_pool s')). in_Status i = ''idle'' \<and> in_LastJobAt i = time_zero)
    \<and> pool_rows (pc_ID cfg) (pt_store (sy_pool s')) = map to_row (pt_instances (sy_pool s'))
    \<and> distinct (map in_ID (pt_instances (sy_pool s')))"
  using reachable_inv [OF assms] by (auto simp: pool_inv_def idle_def tbl_ok_def)

theorem pool_reachable_inv_witness:
  "map row_status (pool_rows ''p'' (pt_store demo_made)) = [''idle'']"
proof -
  note inv = pool_reachable_inv [OF demo_reach demo_fresh]
  obtain i where "pt_instances demo_made = [i]" using demo_instances by auto
  with inv show ?thesis by (simp add: demo_sys_made_def demo_pool_def)
qed





section \<open>How many instances\<close>

text \<open>Instances, goroutines that will add one, and what the reconcile loop can still add.\<close>

definition still_growing :: "pool_config \<Rightarrow> phase \<Rightarrow> nat" where
  "still_growing cfg ph = (case ph of Growing i c \<Rightarrow> nat (min (pc_MinIdle cfg - i) (pc_MaxRunners cfg - c)) | _ \<Rightarrow> 0)"

definition bounded_sys :: "pool_config \<Rightarrow> nat \<Rightarrow> 's pool_sys \<Rightarrow> bool" where
  "bounded_sys cfg k s \<longleftrightarrow> pool_inv cfg (sy_pool s) \<and> sy_tasks s \<le> k
     \<and> (\<forall>i c. sy_phase s = Growing i c \<longrightarrow> 0 \<le> i)
     \<and> length (pt_instances (sy_pool s)) + sy_tasks s + still_growing cfg (sy_phase s) \<le> nat (pc_MinIdle cfg) + k"

lemma all_idle: "pool_inv cfg p \<Longrightarrow> countIdle (pt_instances p) = int (length (pt_instances p))"
  by (simp add: pool_inv_def countIdle_def filter_True)

lemma wanted_empty:
  "pool_inv cfg p \<Longrightarrow> scale_up_wanted cfg (pt_instances p) \<longleftrightarrow> pt_instances p = [] \<and> 0 < pc_MaxRunners cfg"
  by (auto simp: scale_up_wanted_def all_idle)

lemma length_upsert: "length (tbl_upsert key r t) \<le> Suc (length t)"
  using length_filter_le by (auto simp: tbl_upsert_def)

lemma length_delete: "length (tbl_delete key k t) \<le> length t"
  by (simp add: tbl_delete_def)

lemma create_length:
  assumes "createInstance env cfg p = (Ret r, p')"
  shows "length (pt_instances p') \<le> length (pt_instances p) + (if r = None then 1 else 0)"
proof (cases r)
  case None
  with assms have "createInstance env cfg p = (Ret None, p')" by simp
  then show ?thesis
  proof (rule createInstance_ok)
    fix info w
    assume "p' = add_instance env (new_instance cfg (instance_name (pc_ID cfg) (pe_now env (pt_world p))) info (pe_now env w)) (p\<lparr>pt_world := w\<rparr>)"
    then show ?thesis using length_upsert [of in_ID _ "pt_instances p"] None by simp
  qed
next
  case (Some e)
  with assms have "createInstance env cfg p = (Ret (Some e), p')" by simp
  then show ?thesis by (rule createInstance_error) simp
qed

lemma destroy_length:
  "destroyInstance env i p = (Ret r, p') \<Longrightarrow> length (pt_instances p') \<le> length (pt_instances p)"
  by (erule destroy_cases) (simp_all add: length_delete)

lemma bounded_step:
  assumes "pool_step store_reliable cfg k s s'" "bounded_sys cfg k s"
  shows "bounded_sys cfg k s'"
proof -
  have inv: "pool_inv cfg (sy_pool s')" using assms by (auto simp: bounded_sys_def intro: step_inv)
  from assms(2) have b: "pool_inv cfg (sy_pool s)" "sy_tasks s \<le> k" "\<forall>i c. sy_phase s = Growing i c \<longrightarrow> 0 \<le> i"
    "length (pt_instances (sy_pool s)) + sy_tasks s + still_growing cfg (sy_phase s) \<le> nat (pc_MinIdle cfg) + k"
    by (simp_all add: bounded_sys_def)
  have grow: "still_growing cfg (sy_phase s) \<le> nat (pc_MinIdle cfg)"
    using b(3) by (auto simp: still_growing_def split: phase.split)
  show ?thesis
    using assms(1)
  proof cases
    case job
    with wanted_empty [OF b(1)] grow b inv show ?thesis by (simp add: bounded_sys_def)
  next
    case (finish n env r p)
    with create_length [OF finish(4)] b inv show ?thesis by (auto simp: bounded_sys_def split: if_splits)
  next
    case (tick xs)
    with b inv all_idle [OF b(1)] show ?thesis by (auto simp: bounded_sys_def still_growing_def)
  next
    case (grow i c env p)
    with create_length [OF grow(6)] b inv show ?thesis by (auto simp: bounded_sys_def still_growing_def)
  next
    case (grow_failed i c env e p)
    with create_length [OF grow_failed(6)] b inv show ?thesis by (auto simp: bounded_sys_def still_growing_def)
  next
    case (grown i c xs now)
    with b inv show ?thesis by (auto simp: bounded_sys_def still_growing_def)
  next
    case (shrink n x xs env r p)
    with destroy_length [OF shrink(5)] b inv show ?thesis by (auto simp: bounded_sys_def still_growing_def)
  next
    case (shrunk n xs)
    with b inv show ?thesis by (auto simp: bounded_sys_def still_growing_def)
  next
    case (restart xs)
    with restart_inv [OF b(1) restart(2)] b inv show ?thesis by (auto simp: bounded_sys_def still_growing_def)
  next
    case (others t w)
    with b inv show ?thesis by (auto simp: bounded_sys_def)
  qed
qed

text \<open>
  As no instance ever leaves the idle state, a job starts one only when the pool is empty; with
  at most \<open>k\<close> scale-ups at the same time a reachable pool has at most \<^verbatim>\<open>MinIdle + k\<close> instances,
  whatever \<^verbatim>\<open>MaxRunners\<close> allows and however many jobs wait.
\<close>

theorem pool_size_bound:
  assumes "(pool_step store_reliable cfg k)\<^sup>*\<^sup>* s s'" "fresh_sys cfg s"
  shows "length (pt_instances (sy_pool s')) \<le> nat (pc_MinIdle cfg) + k
    \<and> (scale_up_wanted cfg (pt_instances (sy_pool s')) \<longrightarrow> pt_instances (sy_pool s') = [])"
proof -
  have "bounded_sys cfg k s'"
    using assms(1)
  proof (induction rule: rtranclp_induct)
    case base
    with assms(2) show ?case by (simp add: bounded_sys_def fresh_sys_def pool_inv_def still_growing_def)
  next
    case (step y z)
    then show ?case by (blast intro: bounded_step)
  qed
  then show ?thesis using wanted_empty by (auto simp: bounded_sys_def)
qed

theorem pool_size_bound_witness:
  "\<not> scale_up_wanted (demo_pool\<lparr>pc_MaxRunners := 50\<rparr>) (pt_instances demo_made) \<and> length (pt_instances demo_made) \<le> 1"
proof -
  note b = pool_size_bound [OF demo_reach demo_fresh]
  from b have "length (pt_instances demo_made) \<le> 1" by (simp add: demo_sys_made_def demo_pool_def)
  moreover from reachable_inv [OF demo_reach demo_fresh] have "\<not> scale_up_wanted (demo_pool\<lparr>pc_MaxRunners := 50\<rparr>) (pt_instances demo_made)"
    using demo_instances all_idle [of demo_pool demo_made] by (auto simp: scale_up_wanted_def demo_sys_made_def)
  ultimately show ?thesis by simp
qed

section \<open>A burst of jobs\<close>

lemma instance_name_inj [simp]: "instance_name pool a = instance_name pool b \<longleftrightarrow> a = b"
  by (simp add: instance_name_def)

lemma jobs_arrive:
  assumes "pt_instances (sy_pool s) = []" "0 < pc_MaxRunners cfg" "sy_tasks s + n \<le> k"
  shows "(pool_step ok cfg k)\<^sup>*\<^sup>* s (s\<lparr>sy_tasks := sy_tasks s + n\<rparr>)"
  using assms(3)
proof (induction n)
  case 0
  then show ?case by simp
next
  case (Suc n)
  let ?m = "s\<lparr>sy_tasks := sy_tasks s + n\<rparr>"
  have "pool_step ok cfg k ?m (?m\<lparr>sy_tasks := Suc (sy_tasks ?m)\<rparr>)"
    using Suc.prems assms(1,2) by (intro pool_step.job) (simp_all add: scale_up_wanted_def countIdle_def)
  then have "pool_step ok cfg k ?m (s\<lparr>sy_tasks := sy_tasks s + Suc n\<rparr>)" by simp
  with Suc.IH Suc.prems show ?case by (auto intro: rtranclp.rtrancl_into_rtrancl)
qed

text \<open>Every instance was named by an earlier reading of the clock.\<close>

definition named_before :: "string \<Rightarrow> int \<Rightarrow> instance_rec list \<Rightarrow> bool" where
  "named_before pool now xs \<longleftrightarrow> (\<forall>i \<in> set xs. \<exists>t < now. in_ID i = instance_name pool t)"

lemma create_grows:
  assumes "createInstance env cfg p = (Ret None, p')" "named_before (pc_ID cfg) (pe_now env (pt_world p)) (pt_instances p)"
    "pe_now env (pt_world p) < pe_now env (pt_world p')"
  shows "length (pt_instances p') = Suc (length (pt_instances p))
    \<and> named_before (pc_ID cfg) (pe_now env (pt_world p')) (pt_instances p')"
  using assms(1)
proof (rule createInstance_ok)
  fix info w
  let ?t = "pe_now env (pt_world p)"
  let ?i = "new_instance cfg (instance_name (pc_ID cfg) ?t) info (pe_now env w)"
  assume "p' = add_instance env ?i (p\<lparr>pt_world := w\<rparr>)"
  then have xs: "pt_instances p' = tbl_upsert in_ID ?i (pt_instances p)" by simp
  have "\<forall>i \<in> set (pt_instances p). in_ID i \<noteq> in_ID ?i" using assms(2) by (auto simp: named_before_def)
  then have "pt_instances p' = pt_instances p @ [?i]" by (simp add: xs tbl_upsert_def filter_True)
  with assms(2,3) show ?thesis by (auto simp: named_before_def intro: less_trans)
qed

lemma jobs_finish:
  assumes "\<And>p. \<exists>p'. createInstance env cfg p = (Ret None, p') \<and> pe_now env (pt_world p) < pe_now env (pt_world p')" "ok env"
  shows "sy_tasks s = n \<Longrightarrow> named_before (pc_ID cfg) (pe_now env (pt_world (sy_pool s))) (pt_instances (sy_pool s)) \<Longrightarrow>
    \<exists>s'. (pool_step ok cfg k)\<^sup>*\<^sup>* s s' \<and> length (pt_instances (sy_pool s')) = length (pt_instances (sy_pool s)) + n"
proof (induction n arbitrary: s)
  case 0
  then show ?case by auto
next
  case (Suc n)
  obtain p' where c: "createInstance env cfg (sy_pool s) = (Ret None, p')" "pe_now env (pt_world (sy_pool s)) < pe_now env (pt_world p')"
    using assms(1) by blast
  note g = create_grows [OF c(1) Suc.prems(2) c(2)]
  let ?m = "s\<lparr>sy_pool := p', sy_tasks := n\<rparr>"
  have step: "pool_step ok cfg k s ?m"
    using pool_step.finish [where s = s and n = n and ok = ok and env = env and cfg = cfg and r = None and p = p' and k = k]
      Suc.prems(1) assms(2) c(1) by simp
  obtain s' where "(pool_step ok cfg k)\<^sup>*\<^sup>* ?m s'" "length (pt_instances (sy_pool s')) = length (pt_instances p') + n"
    using Suc.IH [of ?m] g by auto
  with step g show ?case by (auto intro: converse_rtranclp_into_rtranclp)
qed

text \<open>
  The decision to scale up and the creation are not one step: \<open>n\<close> jobs that arrive while an
  empty pool is still creating give it \<open>n\<close> instances, for every \<open>n\<close>, whatever \<^verbatim>\<open>MaxRunners\<close> is.
\<close>

theorem burst_exceeds_cap:
  fixes env :: "'s pool_env" and s :: "'s pool_sys"
  assumes "\<And>p. \<exists>p'. createInstance env cfg p = (Ret None, p') \<and> pe_now env (pt_world p) < pe_now env (pt_world p')"
    and "store_reliable env" "fresh_sys cfg s" "0 < pc_MaxRunners cfg"
  shows "\<exists>s'. (pool_step store_reliable cfg n)\<^sup>*\<^sup>* s s' \<and> length (pt_instances (sy_pool s')) = n"
proof -
  from assms(3) have s: "pt_instances (sy_pool s) = []" "sy_tasks s = 0" by (simp_all add: fresh_sys_def)
  have arrive: "(pool_step store_reliable cfg n)\<^sup>*\<^sup>* s (s\<lparr>sy_tasks := n\<rparr>)"
    using jobs_arrive [OF s(1) assms(4), of n n store_reliable] s(2) by simp
  obtain s' where "(pool_step store_reliable cfg n)\<^sup>*\<^sup>* (s\<lparr>sy_tasks := n\<rparr>) s'" "length (pt_instances (sy_pool s')) = n"
    using jobs_finish [where env = env and cfg = cfg and ok = store_reliable and s = "s\<lparr>sy_tasks := n\<rparr>" and n = n and k = n]
      assms(1,2) s(1) by (auto simp: named_before_def)
  with rtranclp_trans [OF arrive] show ?thesis by blast
qed

lemma demo_server_calls:
  "incus_CreateInstance (demo_server True) rq w = (None, w + 2)"
  "incus_WaitForInstance (demo_server True) k t d [n] w = (None, w + 1)"
  "incus_RunCommand (demo_server True) k x w = (None, w + 1)"
  "incus_DeleteInstance (demo_server True) k w = (None, w + 2)"
  by (simp_all add: incus_CreateInstance_def incus_RunCommand_def incus_DeleteInstance_def demo_server_def)

lemma demo_register:
  "RegisterRunner demo_gitlab (\<lambda>u. True) c rt d tags u w =
     (Inr \<lparr>ri_ID = 7, ri_Token = ''glrt-12345'', ri_Description = [], ri_TagList = [], ri_Active = False, ri_Locked = False\<rparr>, w + 1)"
  by (simp add: RegisterRunner_def gl_send_def demo_gitlab_def decode_runner_info_def jfield_def
      to_lower_def lower_char_def dy_eq_def dy_trunc_def align_def in64_def)

lemma demo_delete_runner: "DeleteRunner demo_gitlab (\<lambda>u. True) c tok w = (if length tok < 8 then Panic else Ret (Inr ()), w + 1)"
  by (simp add: DeleteRunner_def gl_send_def demo_gitlab_def)

lemma demo_always_creates:
  "\<exists>p'. createInstance demo_pool_env demo_pool p = (Ret None, p') \<and> pe_now demo_pool_env (pt_world p) < pe_now demo_pool_env (pt_world p')"
  by (simp add: createInstance_def provision_def demo_pool_env_def incus_client_def demo_server_calls demo_register Let_def
      del: incus_WaitForInstance.simps)

theorem burst_exceeds_cap_witness:
  "pc_MaxRunners demo_pool = 1
    \<and> (\<exists>s'. (pool_step store_reliable demo_pool 20)\<^sup>*\<^sup>* demo_sys s' \<and> length (pt_instances (sy_pool s')) = 20)"
  using burst_exceeds_cap [OF demo_always_creates demo_reliable demo_fresh, of 20] by (simp add: demo_pool_def)

section \<open>Reconciling\<close>

lemma length_delete_one:
  "x \<in> set t \<Longrightarrow> distinct (map key t) \<Longrightarrow> length (tbl_delete key (key x) t) = length t - 1"
proof (induction t)
  case (Cons a t)
  show ?case
  proof (cases "x = a")
    case True
    with Cons.prems have "\<forall>y \<in> set t. key y \<noteq> key x" by (auto simp: image_iff)
    with True show ?thesis by (simp add: tbl_delete_def filter_True)
  next
    case False
    with Cons have "x \<in> set t" "key a \<noteq> key x" by auto
    with Cons show ?thesis by (cases t) (simp_all add: tbl_delete_def)
  qed
qed simp

lemma destroy_some_all:
  assumes "distinct (map in_ID xs)" "set xs \<subseteq> set (pt_instances p)" "tbl_ok in_ID (pt_instances p)" "n \<le> length xs"
    and "\<And>i q. i \<in> set xs \<Longrightarrow> \<exists>q'. destroyInstance env i q = (Ret None, q')"
  shows "\<exists>q. destroy_some env (int n) xs p = (Ret (), q) \<and> length (pt_instances q) = length (pt_instances p) - n
      \<and> set (pt_instances q) \<subseteq> set (pt_instances p)"
  using assms
proof (induction xs arbitrary: p n)
  case Nil
  then show ?case by simp
next
  case (Cons x xs)
  show ?case
  proof (cases n)
    case 0
    then show ?thesis by simp
  next
    case (Suc m)
    obtain q where d: "destroyInstance env x p = (Ret None, q)" using Cons.prems(5) by fastforce
    then have q: "pt_instances q = tbl_delete in_ID (in_ID x) (pt_instances p)"
      by (rule destroy_cases) auto
    have "length (pt_instances q) = length (pt_instances p) - 1"
      unfolding q using Cons.prems(2,3) by (intro length_delete_one) (simp_all add: tbl_ok_def)
    moreover have sub: "set xs \<subseteq> set (pt_instances q)"
    proof
      fix y assume "y \<in> set xs"
      with Cons.prems(1,2) have "in_ID y \<noteq> in_ID x" "y \<in> set (pt_instances p)" by (auto simp: image_iff)
      then show "y \<in> set (pt_instances q)" by (simp add: q tbl_delete_def)
    qed
    moreover have ok: "tbl_ok in_ID (pt_instances q)" using Cons.prems(3) by (simp add: q)
    moreover have "set (pt_instances q) \<subseteq> set (pt_instances p)" by (auto simp: q tbl_delete_def)
    moreover obtain q' where "destroy_some env (int m) xs q = (Ret (), q')"
      "length (pt_instances q') = length (pt_instances q) - m" "set (pt_instances q') \<subseteq> set (pt_instances q)"
      using Cons.IH [of q m] Cons.prems sub ok Suc by auto
    ultimately show ?thesis using Suc d by auto
  qed
qed

text \<open>
  A reconcile pass removes every instance above \<^verbatim>\<open>MinIdle\<close> at once, also one that was created
  this moment or is running a job: \<^verbatim>\<open>LastJobAt\<close> is never set, and the time since the zero time is
  above every \<^verbatim>\<open>IdleTimeout\<close> but the largest. In every reachable state, whatever order the map is
  walked in.
\<close>

theorem reconcile_removes_fresh:
  assumes "(pool_step store_reliable cfg k)\<^sup>*\<^sup>* s s'" "fresh_sys cfg s"
    and "pc_IdleTimeout cfg < max_duration" "0 \<le> pe_now env (pt_world (sy_pool s'))"
    and "0 \<le> pc_MinIdle cfg" "pc_MinIdle cfg < int (length (pt_instances (sy_pool s')))"
    and "\<And>xs. mset (order xs) = mset xs"
    and "\<And>i q. i \<in> set (pt_instances (sy_pool s')) \<Longrightarrow> \<exists>q'. destroyInstance env i q = (Ret None, q')"
  shows "\<exists>q. reconcile env order cfg (sy_pool s') = (Ret (), q) \<and> int (length (pt_instances q)) = pc_MinIdle cfg
    \<and> set (pt_instances q) \<subseteq> set (pt_instances (sy_pool s'))"
proof -
  let ?p = "sy_pool s'"
  have inv: "pool_inv cfg ?p" by (rule reachable_inv [OF assms(1,2)])
  have set: "set (order (pt_instances ?p)) = set (pt_instances ?p)" by (rule mset_eq_setD [OF assms(7)])
  have "expired cfg (pe_now env (pt_world ?p)) i" if "i \<in> set (pt_instances ?p)" for i
    using inv that assms(3,4) by (simp add: expired_def pool_inv_def time_Sub_zero)
  with set have cand: "filter (expired cfg (pe_now env (pt_world ?p))) (order (pt_instances ?p)) = order (pt_instances ?p)"
    by (simp add: filter_True)
  have len: "length (order (pt_instances ?p)) = length (pt_instances ?p)"
    using assms(7) by (metis size_mset)
  have "mset (map in_ID (order (pt_instances ?p))) = mset (map in_ID (pt_instances ?p))" by (simp add: assms(7))
  then have dist: "distinct (map in_ID (order (pt_instances ?p)))"
    using inv by (metis mset_eq_imp_distinct_iff pool_inv_def tbl_ok_def)
  let ?n = "nat (int (length (pt_instances ?p)) - pc_MinIdle cfg)"
  have "\<exists>q. destroy_some env (int ?n) (order (pt_instances ?p)) ?p = (Ret (), q)
      \<and> length (pt_instances q) = length (pt_instances ?p) - ?n \<and> set (pt_instances q) \<subseteq> set (pt_instances ?p)"
    by (rule destroy_some_all [OF dist]) (use set inv len assms(5,8) in \<open>simp_all add: pool_inv_def nat_le_iff\<close>)
  then obtain q where q: "destroy_some env (int ?n) (order (pt_instances ?p)) ?p = (Ret (), q)"
    "length (pt_instances q) = length (pt_instances ?p) - ?n" "set (pt_instances q) \<subseteq> set (pt_instances ?p)"
    by blast
  have "scale_to_min env cfg (int (length (pt_instances ?p))) (int (length (pt_instances ?p))) ?p = (Ret (int (length (pt_instances ?p))), ?p)"
    using assms(6) by (simp add: scale_to_min.simps)
  with q assms(5,6) show ?thesis
    by (simp add: reconcile_def Let_def all_idle [OF inv] scaleDownIdle_def cand)
qed

lemma demo_destroys:
  assumes "8 \<le> length (in_RunnerToken i)"
  shows "\<exists>q'. destroyInstance demo_pool_env i q = (Ret None, q')"
  using assms by (simp add: destroyInstance_def demo_pool_env_def incus_client_def demo_server_calls demo_delete_runner)

theorem reconcile_removes_fresh_witness:
  "\<exists>q. reconcile demo_pool_env rev demo_pool demo_made = (Ret (), q) \<and> pt_instances q = []"
proof -
  have toks: "map in_RunnerToken (pt_instances demo_made) = [''glrt-12345'']"
    unfolding demo_made_def by code_simp
  have tok: "8 \<le> length (in_RunnerToken i)" if "i \<in> set (pt_instances demo_made)" for i
  proof -
    from that toks have "in_RunnerToken i \<in> {''glrt-12345''}" by (metis image_eqI list.set_map set_simps empty_set)
    then show ?thesis by simp
  qed
  have clock: "0 \<le> pe_now demo_pool_env (pt_world demo_made)"
    unfolding demo_made_def by code_simp
  have len: "length (pt_instances demo_made) = 1" using demo_instances by (metis length_map One_nat_def length_Cons list.size(3))
  have "\<exists>q. reconcile demo_pool_env rev demo_pool (sy_pool demo_sys_made) = (Ret (), q)
      \<and> int (length (pt_instances q)) = pc_MinIdle demo_pool
      \<and> set (pt_instances q) \<subseteq> set (pt_instances (sy_pool demo_sys_made))"
    by (rule reconcile_removes_fresh [OF demo_reach demo_fresh])
      (use tok clock len in \<open>auto simp: demo_sys_made_def intro: demo_destroys, auto simp: demo_pool_def max_duration_def second_def\<close>)
  then show ?thesis by (auto simp: demo_sys_made_def demo_pool_def)
qed

section \<open>Keeping the minimum\<close>

lemma scale_to_min_reaches:
  assumes "\<And>p. \<exists>p'. createInstance env cfg p = (Ret None, p') \<and> pe_now env (pt_world p) < pe_now env (pt_world p')"
    and "pc_MinIdle cfg \<le> pc_MaxRunners cfg"
  shows "n = int (length (pt_instances p)) \<Longrightarrow> n \<le> pc_MinIdle cfg \<Longrightarrow>
    named_before (pc_ID cfg) (pe_now env (pt_world p)) (pt_instances p) \<Longrightarrow>
    \<exists>q. scale_to_min env cfg n n p = (Ret (pc_MinIdle cfg), q) \<and> int (length (pt_instances q)) = pc_MinIdle cfg"
proof (induction "nat (pc_MinIdle cfg - n)" arbitrary: n p)
  case 0
  then show ?case by (simp add: scale_to_min.simps)
next
  case (Suc m)
  then have less: "n < pc_MinIdle cfg" by linarith
  obtain p' where c: "createInstance env cfg p = (Ret None, p')" "pe_now env (pt_world p) < pe_now env (pt_world p')"
    using assms(1) by blast
  note g = create_grows [OF c(1) Suc.prems(3) c(2)]
  have "\<exists>q. scale_to_min env cfg (n + 1) (n + 1) p' = (Ret (pc_MinIdle cfg), q) \<and> int (length (pt_instances q)) = pc_MinIdle cfg"
    by (rule Suc.hyps(1)) (use Suc.hyps(2) Suc.prems g less in auto)
  with less assms(2) c(1) show ?case by (subst scale_to_min.simps) simp
qed

text \<open>
  C37. For every pool of a configuration that loads, a reconcile pass on a reachable pool with at
  most \<^verbatim>\<open>MinIdle\<close> instances brings it to exactly \<^verbatim>\<open>MinIdle\<close> when the creations succeed and the clock
  advances: the checks of the configuration are what makes the cap allow it.
\<close>

theorem reconcile_reaches_minimum:
  assumes "garm_Load toml file = Inr conf" "cfg \<in> set (gc_Pools conf)"
    and "(pool_step store_reliable cfg k)\<^sup>*\<^sup>* s s'" "fresh_sys cfg s"
    and "\<And>p. \<exists>p'. createInstance env cfg p = (Ret None, p') \<and> pe_now env (pt_world p) < pe_now env (pt_world p')"
    and "named_before (pc_ID cfg) (pe_now env (pt_world (sy_pool s'))) (pt_instances (sy_pool s'))"
    and "int (length (pt_instances (sy_pool s'))) \<le> pc_MinIdle cfg"
  shows "\<exists>q. reconcile env order cfg (sy_pool s') = (Ret (), q) \<and> int (length (pt_instances q)) = pc_MinIdle cfg"
proof -
  obtain c where "validate c = Inr conf"
    using assms(1) by (auto simp: garm_Load_def split: sum.splits)
  then have valid: "pool_valid cfg" using assms(2) by (rule validate_pools_valid)
  obtain q where "scale_to_min env cfg (int (length (pt_instances (sy_pool s')))) (int (length (pt_instances (sy_pool s')))) (sy_pool s')
      = (Ret (pc_MinIdle cfg), q)" "int (length (pt_instances q)) = pc_MinIdle cfg"
    using scale_to_min_reaches [OF assms(5) _ refl assms(7,6)] valid by (auto simp: pool_valid_def)
  then show ?thesis
    by (simp add: reconcile_def Let_def all_idle [OF reachable_inv [OF assms(3,4)]])
qed

definition demo_pool2 :: pool_config where
  "demo_pool2 = demo_pool\<lparr>pc_MinIdle := 2, pc_MaxRunners := 3\<rparr>"

definition demo_garm :: garm_config where
  "demo_garm = \<lparr>gc_API = \<lparr>ap_ListenAddress = '':8080'', ap_WebhookSecret = []\<rparr>,
     gc_GitLab = \<lparr>gs_URL = ''https://g'', gs_Token = ''pat''\<rparr>, gc_Pools = [demo_pool2]\<rparr>"

lemma demo_always_creates2:
  "\<exists>p'. createInstance demo_pool_env demo_pool2 p = (Ret None, p') \<and> pe_now demo_pool_env (pt_world p) < pe_now demo_pool_env (pt_world p')"
  by (simp add: createInstance_def provision_def demo_pool_env_def incus_client_def demo_server_calls demo_register Let_def
      del: incus_WaitForInstance.simps)

theorem reconcile_reaches_minimum_witness:
  "\<exists>q. reconcile demo_pool_env rev demo_pool2 demo_start = (Ret (), q) \<and> int (length (pt_instances q)) = 2"
proof -
  have load: "garm_Load (\<lambda>_ _. Inr demo_garm) (Inr ''x'') = Inr demo_garm"
    by (simp add: garm_Load_def validate_def demo_garm_def demo_pool2_def demo_pool_def pool_error_def backfill_url_def)
  have mem: "demo_pool2 \<in> set (gc_Pools demo_garm)" by (simp add: demo_garm_def)
  have fresh: "fresh_sys demo_pool2 demo_sys"
    by (simp add: fresh_sys_def demo_sys_def demo_start_def pool_rows_def)
  have "\<exists>q. reconcile demo_pool_env rev demo_pool2 (sy_pool demo_sys) = (Ret (), q)
      \<and> int (length (pt_instances q)) = pc_MinIdle demo_pool2"
    by (rule reconcile_reaches_minimum [OF load mem _ fresh demo_always_creates2, of 0])
      (simp_all add: named_before_def demo_sys_def demo_start_def demo_pool2_def demo_pool_def)
  then show ?thesis by (simp add: demo_sys_def demo_pool2_def)
qed

end
