(* ===== verification/RingBuffer.thy ===== *)
theory RingBuffer
  imports GoStrings
begin

text \<open>
  The ring buffer that records a terminal's output,
  \<^verbatim>\<open>environments/supervisor/pkg/terminal/ring-buffer.go\<close>, and its refinement of the list of
  bytes written: it keeps the last \<^verbatim>\<open>size\<close> of them. The counter of bytes is an \<^verbatim>\<open>int64\<close>.
\<close>

record ring_buffer =
  rb_data :: bytes
  rb_size :: nat
  rb_writeCursor :: nat
  rb_written :: int

definition NewRingBuffer :: "int \<Rightarrow> (string, ring_buffer) result" where
  "NewRingBuffer sz =
     (if sz \<le> 0 then Inl ''Size must be positive''
      else Inr \<lparr>rb_data = replicate (nat sz) 0, rb_size = nat sz, rb_writeCursor = 0, rb_written = 0\<rparr>)"

text \<open>The bytes of one call that are kept, and the two copies that place them.\<close>

definition rb_kept :: "nat \<Rightarrow> bytes \<Rightarrow> bytes" where
  "rb_kept sz buf = (if sz < length buf then drop (length buf - sz) buf else buf)"

definition rb_place :: "bytes \<Rightarrow> nat \<Rightarrow> nat \<Rightarrow> bytes \<Rightarrow> bytes" where
  "rb_place data sz cursor buf =
     (let remain = sz - cursor;
          data = copy_range data cursor (length data) buf
      in if remain < length buf then copy_range data 0 (length data) (drop remain buf) else data)"

definition rb_Write :: "bytes \<Rightarrow> ring_buffer \<Rightarrow> nat \<times> ring_buffer" where
  "rb_Write buf b =
     (let n = length buf; kept = rb_kept (rb_size b) buf in
      (n, b\<lparr>rb_written := wrap64 (rb_written b + int n),
            rb_data := rb_place (rb_data b) (rb_size b) (rb_writeCursor b) kept,
            rb_writeCursor := (rb_writeCursor b + length kept) mod rb_size b\<rparr>))"

definition rb_Size :: "ring_buffer \<Rightarrow> nat" where
  "rb_Size b = rb_size b"

definition rb_TotalWritten :: "ring_buffer \<Rightarrow> int" where
  "rb_TotalWritten b = rb_written b"

definition rb_Bytes :: "ring_buffer \<Rightarrow> bytes" where
  "rb_Bytes b =
     (if int (rb_size b) \<le> rb_written b \<and> rb_writeCursor b = 0 then rb_data b
      else if int (rb_size b) < rb_written b
      then (let out = replicate (rb_size b) 0;
                out = copy_range out 0 (length out) (drop (rb_writeCursor b) (rb_data b))
            in copy_range out (rb_size b - rb_writeCursor b) (length out) (take (rb_writeCursor b) (rb_data b)))
      else take (rb_writeCursor b) (rb_data b))"

definition rb_Reset :: "ring_buffer \<Rightarrow> ring_buffer" where
  "rb_Reset b = b\<lparr>rb_writeCursor := 0, rb_written := 0\<rparr>"

section \<open>The list of bytes behind it\<close>

definition last_bytes :: "nat \<Rightarrow> bytes \<Rightarrow> bytes" where
  "last_bytes n h = drop (length h - n) h"

lemma last_bytes_append_long: "n \<le> length b \<Longrightarrow> last_bytes n (a @ b) = last_bytes n b"
  by (simp add: last_bytes_def)

lemma last_bytes_all: "length h \<le> n \<Longrightarrow> last_bytes n h = h"
  by (simp add: last_bytes_def)

lemma last_bytes_append: "length b \<le> n \<Longrightarrow> last_bytes n (a @ b) = drop (length (last_bytes n a) + length b - n) (last_bytes n a) @ b"
  by (cases "length a \<le> n") (auto simp: last_bytes_def add.commute)

lemma length_last_bytes [simp]: "length (last_bytes n h) = min n (length h)"
  by (simp add: last_bytes_def)

text \<open>The ring read from the cursor on, and the two cases of the placement.\<close>

definition rotated :: "nat \<Rightarrow> bytes \<Rightarrow> bytes" where
  "rotated c d = drop c d @ take c d"

lemma place_within:
  assumes "length d = sz" "c < sz" "length p \<le> sz - c"
  shows "rb_place d sz c p = take c d @ p @ drop (c + length p) d"
  using assms by (simp add: rb_place_def copy_range_def)

lemma place_around:
  assumes "length d = sz" "c < sz" "length p \<le> sz" "sz - c < length p"
  shows "rb_place d sz c p = drop (sz - c) p @ drop (length p - (sz - c)) (take c d) @ take (sz - c) p"
proof -
  let ?q = "drop (sz - c) p"
  have first: "copy_range d c (length d) p = take c d @ take (sz - c) p"
    using assms by (simp add: copy_range_def Let_def)
  have q: "length ?q \<le> c" using assms by simp
  have "copy_range (take c d @ take (sz - c) p) 0 sz ?q = ?q @ drop (length ?q) (take c d @ take (sz - c) p)"
    using assms by (simp add: copy_range_def Let_def)
  also have "drop (length ?q) (take c d @ take (sz - c) p) = drop (length p - (sz - c)) (take c d) @ take (sz - c) p"
    using assms q by simp
  finally show ?thesis using assms first by (simp add: rb_place_def Let_def)
qed

lemma rotated_place:
  assumes "length d = sz" "c < sz" "length p \<le> sz"
  shows "rotated ((c + length p) mod sz) (rb_place d sz c p) = drop (length p) (rotated c d) @ p"
proof (cases "length p \<le> sz - c")
  case True
  show ?thesis
  proof (cases "c + length p = sz")
    case True
    with assms show ?thesis by (simp add: place_within rotated_def)
  next
    case False
    with True assms have "(c + length p) mod sz = c + length p" by simp
    with True assms show ?thesis by (simp add: place_within rotated_def add.commute)
  qed
next
  case False
  then have ge: "sz \<le> c + length p" "c + length p - sz < sz" "sz - c < length p" using assms by linarith+
  then have m: "(c + length p) mod sz = c + length p - sz" by (simp add: le_mod_geq)
  have l: "length p - (sz - c) = c + length p - sz" using ge assms(2) by linarith
  have q: "length (drop (sz - c) p) = c + length p - sz" using l by simp
  have "rb_place d sz c p = drop (sz - c) p @ drop (c + length p - sz) (take c d) @ take (sz - c) p"
    using place_around [OF assms ge(3)] by (simp add: l)
  then have "rotated (c + length p - sz) (rb_place d sz c p)
      = (drop (c + length p - sz) (take c d) @ take (sz - c) p) @ drop (sz - c) p"
    using q by (simp add: rotated_def)
  also have "\<dots> = drop (c + length p - sz) (take c d) @ p" by simp
  also have "drop (c + length p - sz) (take c d) = drop (length p) (rotated c d)"
    using assms ge l by (simp add: rotated_def)
  finally show ?thesis by (simp add: m)
qed

lemma length_place:
  assumes "length d = sz" "c < sz" "length p \<le> sz"
  shows "length (rb_place d sz c p) = sz"
  using assms by (cases "length p \<le> sz - c") (simp_all add: place_within place_around)

text \<open>The abstraction relation: \<open>h\<close> is what was written since the last reset.\<close>

definition rb_holds :: "ring_buffer \<Rightarrow> bytes \<Rightarrow> bool" where
  "rb_holds b h \<longleftrightarrow> 0 < rb_size b \<and> length (rb_data b) = rb_size b \<and> rb_writeCursor b < rb_size b
     \<and> rb_written b = int (length h) \<and> (length h = rb_size b \<longrightarrow> rb_writeCursor b = 0)
     \<and> (if rb_size b \<le> length h then rotated (rb_writeCursor b) (rb_data b) = last_bytes (rb_size b) h
        else rb_writeCursor b = length h \<and> take (length h) (rb_data b) = h)"

lemma holds_new: "NewRingBuffer sz = Inr b \<Longrightarrow> rb_holds b []"
  by (auto simp: NewRingBuffer_def rb_holds_def split: if_splits)

lemma holds_reset: "rb_holds b h \<Longrightarrow> rb_holds (rb_Reset b) []"
  by (simp add: rb_holds_def rb_Reset_def)

lemma kept_last: "rb_kept n buf = last_bytes n buf"
  by (simp add: rb_kept_def last_bytes_def)

lemma holds_write:
  assumes "rb_holds b h" "int (length h) + int (length buf) < 2 ^ 63"
  shows "rb_holds (snd (rb_Write buf b)) (h @ buf) \<and> fst (rb_Write buf b) = length buf"
proof -
  let ?n = "rb_size b" and ?c = "rb_writeCursor b" and ?d = "rb_data b"
  let ?p = "last_bytes ?n buf"
  let ?c' = "(?c + length ?p) mod ?n" and ?d' = "rb_place ?d ?n ?c ?p"
  from assms(1) have b: "0 < ?n" "length ?d = ?n" "?c < ?n" "rb_written b = int (length h)" by (simp_all add: rb_holds_def)
  have p: "length ?p \<le> ?n" by simp
  have wr: "wrap64 (rb_written b + int (length buf)) = int (length (h @ buf))"
    using assms(2) b(4) by (simp add: wrap64_small)
  have rot: "rotated ?c' ?d' = drop (length ?p) (rotated ?c ?d) @ ?p" by (rule rotated_place [OF b(2,3) p])
  have "if ?n \<le> length (h @ buf) then rotated ?c' ?d' = last_bytes ?n (h @ buf)
    else ?c' = length (h @ buf) \<and> take (length (h @ buf)) ?d' = h @ buf"
  proof (cases "?n \<le> length buf")
    case True
    then have "length ?p = ?n" by simp
    then have "drop (length ?p) (rotated ?c ?d) = []" using b(2,3) by (simp add: rotated_def)
    with rot True show ?thesis by (simp add: last_bytes_append_long)
  next
    case False
    then have pb: "?p = buf" "length buf < ?n" by (simp_all add: last_bytes_all)
    show ?thesis
    proof (cases "?n \<le> length h")
      case True
      with assms(1) have "rotated ?c ?d = last_bytes ?n h" by (simp add: rb_holds_def)
      with rot True pb last_bytes_append [of buf ?n h] show ?thesis by (simp add: min_def)
    next
      case False
      with assms(1) have h: "?c = length h" "take (length h) ?d = h" by (simp_all add: rb_holds_def)
      show ?thesis
      proof (cases "?n \<le> length (h @ buf)")
        case True
        have "drop (length buf) (rotated ?c ?d) = drop (length buf + length h - ?n) h"
        proof -
          have "length buf - (?n - length h) = length buf + length h - ?n" using \<open>\<not> ?n \<le> length h\<close> by linarith
          with h True pb(2) b(2) show ?thesis by (simp add: rotated_def add.commute)
        qed
        with rot True pb last_bytes_append [of buf ?n h] False show ?thesis
          by (simp add: last_bytes_all min_def add.commute)
      next
        case False
        with h pb b show ?thesis by (simp add: place_within)
      qed
    qed
  qed
  moreover have "?c' = 0" if "length (h @ buf) = ?n"
  proof (cases "length h = ?n")
    case True
    with that assms(1) show ?thesis by (simp add: rb_holds_def last_bytes_def)
  next
    case False
    with that assms(1) have "?c = length h" "length ?p = length buf" by (auto simp: rb_holds_def)
    with that show ?thesis by simp
  qed
  ultimately show ?thesis
    using b p wr length_place [OF b(2,3) p]
    by (simp add: rb_holds_def rb_Write_def Let_def kept_last del: length_last_bytes split: if_splits)
qed

lemma holds_bytes:
  assumes "rb_holds b h"
  shows "rb_Bytes b = last_bytes (rb_size b) h"
proof -
  let ?n = "rb_size b" and ?c = "rb_writeCursor b" and ?d = "rb_data b"
  from assms have b: "length ?d = ?n" "?c < ?n" "rb_written b = int (length h)" by (simp_all add: rb_holds_def)
  consider "?n \<le> length h" "?c = 0" | "?n < length h" "?c \<noteq> 0" | "length h = ?n" "?c \<noteq> 0" | "length h < ?n"
    by linarith
  then show ?thesis
  proof cases
    case 1
    with assms show ?thesis by (simp add: rb_holds_def rb_Bytes_def rotated_def)
  next
    case 2
    then have "rb_Bytes b = rotated ?c ?d"
      using b by (simp add: rb_Bytes_def copy_range_def rotated_def)
    with assms 2 show ?thesis by (simp add: rb_holds_def)
  next
    case 3
    then show ?thesis using assms by (simp add: rb_holds_def rb_Bytes_def)
  next
    case 4
    with assms show ?thesis by (simp add: rb_holds_def rb_Bytes_def last_bytes_all)
  qed
qed

section \<open>Runs\<close>

datatype rb_op = WriteOp bytes | ResetOp

fun rb_apply :: "rb_op \<Rightarrow> ring_buffer \<Rightarrow> ring_buffer" where
  "rb_apply (WriteOp buf) b = snd (rb_Write buf b)"
| "rb_apply ResetOp b = rb_Reset b"

fun log_apply :: "rb_op \<Rightarrow> bytes \<Rightarrow> bytes" where
  "log_apply (WriteOp buf) h = h @ buf"
| "log_apply ResetOp h = []"

fun op_bytes :: "rb_op \<Rightarrow> nat" where
  "op_bytes (WriteOp buf) = length buf"
| "op_bytes ResetOp = 0"

lemma holds_run:
  assumes "rb_holds b h" "int (length h) + int (sum_list (map op_bytes ops)) < 2 ^ 63"
  shows "rb_holds (fold rb_apply ops b) (fold log_apply ops h) \<and> rb_size (fold rb_apply ops b) = rb_size b"
  using assms
proof (induction ops arbitrary: b h)
  case Nil
  then show ?case by simp
next
  case (Cons x ops)
  show ?case
  proof (cases x)
    case (WriteOp buf)
    with Cons.prems have w: "rb_holds (snd (rb_Write buf b)) (h @ buf)" by (intro holds_write [THEN conjunct1]) auto
    with WriteOp Cons.IH [OF w] Cons.prems(2) show ?thesis by (simp add: rb_Write_def Let_def)
  next
    case ResetOp
    with Cons.IH [OF holds_reset [OF Cons.prems(1)]] Cons.prems(2) show ?thesis by (simp add: rb_Reset_def)
  qed
qed

text \<open>
  C38. The ring buffer refines the list of bytes: after any sequence of writes of any lengths and
  resets, its bytes are the last \<^verbatim>\<open>size\<close> bytes written since the last reset, in order, and the counter
  is their number, as long as the total stays in an \<^verbatim>\<open>int64\<close>.
\<close>

theorem ring_buffer_refines_log:
  assumes "NewRingBuffer sz = Inr b" "int (sum_list (map op_bytes ops)) < 2 ^ 63"
  shows "rb_Bytes (fold rb_apply ops b) = last_bytes (nat sz) (fold log_apply ops [])
    \<and> rb_TotalWritten (fold rb_apply ops b) = int (length (fold log_apply ops []))"
proof -
  have size: "rb_size b = nat sz" using assms(1) by (auto simp: NewRingBuffer_def split: if_splits)
  have run: "rb_holds (fold rb_apply ops b) (fold log_apply ops [])" "rb_size (fold rb_apply ops b) = nat sz"
    using holds_run [OF holds_new [OF assms(1)], of ops] assms(2) size by simp_all
  from run(1) have "rb_written (fold rb_apply ops b) = int (length (fold log_apply ops []))" by (simp add: rb_holds_def)
  with holds_bytes [OF run(1)] run(2) show ?thesis by (simp add: rb_TotalWritten_def)
qed

theorem ring_buffer_refines_log_witness:
  "\<exists>b. NewRingBuffer 4 = Inr b
    \<and> rb_Bytes (fold rb_apply [WriteOp [9], ResetOp, WriteOp [1, 2, 3], WriteOp [4, 5, 6, 7, 8, 10], WriteOp [11]] b) = [7, 8, 10, 11]"
proof -
  obtain b where b: "NewRingBuffer 4 = Inr b" by (simp add: NewRingBuffer_def)
  from ring_buffer_refines_log [OF b, of "[WriteOp [9], ResetOp, WriteOp [1, 2, 3], WriteOp [4, 5, 6, 7, 8, 10], WriteOp [11]]"] b
  show ?thesis by (simp add: last_bytes_def)
qed

end
