(* ===== verification/Notify.thy ===== *)
theory Notify
  imports SqlTable GoStrings
begin

text \<open>
  The notification service of the workspace supervisor,
  \<^verbatim>\<open>environments/supervisor/pkg/supervisor/notification.go\<close>. Notifications and subscriptions are
  objects other goroutines keep a pointer to, so the state has a table of objects beside the ids
  the service's two maps hold. A channel is the list of what is buffered in it. An operation is
  what one call does under the mutex, or one receive of a waiting call. Ids are \<^verbatim>\<open>uint64\<close>.
\<close>

type_synonym id = "64 word"

record notify_request =
  nq_Message :: string
  nq_Actions :: "string list"

record subscribe_response =
  sr_RequestId :: id
  sr_Request :: notify_request

text \<open>A response is the action the user took; the response channel has capacity one.\<close>

record pending_notification =
  pn_message :: subscribe_response
  pn_responses :: "string list"
  pn_closed :: bool

record subscription =
  sb_id :: id
  sb_channel :: "subscribe_response list"
  sb_capacity :: nat
  sb_closed :: bool

record notification_service =
  ns_nextSubscriptionID :: id
  ns_subscriptions :: "id list"
  ns_nextNotificationID :: id
  ns_pending :: "id list"
  ns_notifications :: "pending_notification list"
  ns_subscribers :: "subscription list"

datatype status = ResourceExhausted | Aborted | Canceled | DeadlineExceeded | InvalidArgument

definition NotifierMaxPendingNotifications :: nat where
  "NotifierMaxPendingNotifications = 120"

definition SubscriberMaxPendingNotifications :: nat where
  "SubscriberMaxPendingNotifications = 100"

definition NewNotificationService :: notification_service where
  "NewNotificationService = \<lparr>ns_nextSubscriptionID = 0, ns_subscriptions = [], ns_nextNotificationID = 0,
     ns_pending = [], ns_notifications = [], ns_subscribers = []\<rparr>"

definition pn_id :: "pending_notification \<Rightarrow> id" where
  "pn_id p = sr_RequestId (pn_message p)"

definition close_pending :: "pending_notification \<Rightarrow> pending_notification" where
  "close_pending p = p\<lparr>pn_closed := True\<rparr>"

definition close_subscription :: "subscription \<Rightarrow> subscription" where
  "close_subscription s = s\<lparr>sb_closed := True\<rparr>"

text \<open>Map insertion and deletion of a key.\<close>

definition add_id :: "id \<Rightarrow> id list \<Rightarrow> id list" where
  "add_id i xs = (if i \<in> set xs then xs else xs @ [i])"

section \<open>Notifying\<close>

definition sub_full :: "subscription \<Rightarrow> bool" where
  "sub_full s \<longleftrightarrow> sb_capacity s \<le> length (sb_channel s)"

text \<open>
  The loop over the subscriptions: each gets the message unless its buffer is full, and then is
  removed and closed. The order in which the map is walked does not matter.
\<close>

definition offer :: "id list \<Rightarrow> subscribe_response \<Rightarrow> subscription \<Rightarrow> subscription" where
  "offer registered msg s =
     (if sb_id s \<notin> set registered then s
      else if sub_full s then close_subscription s
      else s\<lparr>sb_channel := sb_channel s @ [msg]\<rparr>)"

definition keeps_up :: "notification_service \<Rightarrow> id \<Rightarrow> bool" where
  "keeps_up ns i \<longleftrightarrow> (case tbl_find sb_id i (ns_subscribers ns) of None \<Rightarrow> True | Some s \<Rightarrow> \<not> sub_full s)"

definition new_pending :: "id \<Rightarrow> notify_request \<Rightarrow> pending_notification" where
  "new_pending i rq =
     (if nq_Actions rq = []
      then \<lparr>pn_message = \<lparr>sr_RequestId = i, sr_Request = rq\<rparr>, pn_responses = [[]], pn_closed = True\<rparr>
      else \<lparr>pn_message = \<lparr>sr_RequestId = i, sr_Request = rq\<rparr>, pn_responses = [], pn_closed = False\<rparr>)"

definition notifySubscribers :: "notify_request \<Rightarrow> notification_service \<Rightarrow> id \<times> notification_service" where
  "notifySubscribers rq ns =
     (let i = ns_nextNotificationID ns; msg = \<lparr>sr_RequestId = i, sr_Request = rq\<rparr> in
      (i, ns\<lparr>ns_nextNotificationID := i + 1,
             ns_subscribers := map (offer (ns_subscriptions ns) msg) (ns_subscribers ns),
             ns_subscriptions := filter (keeps_up ns) (ns_subscriptions ns),
             ns_notifications := tbl_upsert pn_id (new_pending i rq) (ns_notifications ns),
             ns_pending := add_id i (ns_pending ns)\<rparr>))"

text \<open>
  A call to \<^verbatim>\<open>Notify\<close> up to its \<^verbatim>\<open>select\<close>: refused, or waiting for the notification it made. The
  length is read without the mutex, so in a run other calls may come between the two halves.
\<close>

definition Notify :: "notify_request \<Rightarrow> notification_service \<Rightarrow> (status, id) result \<times> notification_service" where
  "Notify rq ns =
     (if NotifierMaxPendingNotifications \<le> length (ns_pending ns) then (Inl ResourceExhausted, ns)
      else case notifySubscribers rq ns of (i, ns') \<Rightarrow> (Inr i, ns'))"

text \<open>The first case of the \<^verbatim>\<open>select\<close>: \<^const>\<open>None\<close> while it is not ready.\<close>

definition notify_receive ::
    "id \<Rightarrow> notification_service \<Rightarrow> (status, string) result option \<times> notification_service" where
  "notify_receive i ns =
     (case tbl_find pn_id i (ns_notifications ns) of
        None \<Rightarrow> (None, ns)
      | Some p \<Rightarrow>
          (case pn_responses p of
             r # rs \<Rightarrow> (Some (Inr r), ns\<lparr>ns_notifications := tbl_update pn_id i (\<lambda>p. p\<lparr>pn_responses := rs\<rparr>) (ns_notifications ns)\<rparr>)
           | [] \<Rightarrow> (if pn_closed p then Some (Inl Aborted) else None, ns)))"

text \<open>The second case, when the context is done.\<close>

definition notify_cancel :: "id \<Rightarrow> notification_service \<Rightarrow> status \<times> notification_service" where
  "notify_cancel i ns =
     (if i \<in> set (ns_pending ns)
      then (Canceled, ns\<lparr>ns_pending := removeAll i (ns_pending ns),
                         ns_notifications := tbl_update pn_id i close_pending (ns_notifications ns)\<rparr>)
      else (Canceled, ns))"

section \<open>Subscribing\<close>

definition pending_of :: "notification_service \<Rightarrow> pending_notification list" where
  "pending_of ns = List.map_filter (\<lambda>i. tbl_find pn_id i (ns_notifications ns)) (ns_pending ns)"

definition actionless :: "notification_service \<Rightarrow> id \<Rightarrow> bool" where
  "actionless ns i \<longleftrightarrow> (case tbl_find pn_id i (ns_notifications ns) of
     None \<Rightarrow> True | Some p \<Rightarrow> nq_Actions (sr_Request (pn_message p)) = [])"

text \<open>The pending notifications go into the new channel in the order the map is walked, \<open>order\<close>.\<close>

definition subscribeLocked ::
    "(pending_notification list \<Rightarrow> pending_notification list) \<Rightarrow> notification_service \<Rightarrow> id \<times> notification_service" where
  "subscribeLocked order ns =
     (let i = ns_nextSubscriptionID ns;
          s = \<lparr>sb_id = i, sb_channel = map pn_message (order (pending_of ns)),
               sb_capacity = max SubscriberMaxPendingNotifications (length (ns_pending ns)), sb_closed = False\<rparr>
      in (i, ns\<lparr>ns_nextSubscriptionID := i + 1,
                ns_pending := filter (\<lambda>j. \<not> actionless ns j) (ns_pending ns),
                ns_subscribers := tbl_upsert sb_id s (ns_subscribers ns),
                ns_subscriptions := add_id i (ns_subscriptions ns)\<rparr>))"

text \<open>One turn of the loop of \<^verbatim>\<open>Subscribe\<close>: nothing to receive, the end of the call, or a message.\<close>

definition subscribe_receive ::
    "id \<Rightarrow> notification_service \<Rightarrow> (status, subscribe_response) result option \<times> notification_service" where
  "subscribe_receive i ns =
     (case tbl_find sb_id i (ns_subscribers ns) of
        None \<Rightarrow> (None, ns)
      | Some s \<Rightarrow>
          (case sb_channel s of
             [] \<Rightarrow> (if sb_closed s then Some (Inl Aborted) else None, ns)
           | m # _ \<Rightarrow>
               (if sb_closed s then Some (Inl Aborted) else Some (Inr m),
                ns\<lparr>ns_subscribers := tbl_update sb_id i (\<lambda>s. s\<lparr>sb_channel := tl (sb_channel s)\<rparr>) (ns_subscribers ns)\<rparr>)))"

definition unsubscribeLocked :: "id \<Rightarrow> notification_service \<Rightarrow> notification_service" where
  "unsubscribeLocked i ns =
     (if i \<in> set (ns_subscriptions ns)
      then ns\<lparr>ns_subscriptions := removeAll i (ns_subscriptions ns),
              ns_subscribers := tbl_update sb_id i close_subscription (ns_subscribers ns)\<rparr>
      else ns)"

section \<open>Responding\<close>

definition isActionAllowed :: "string \<Rightarrow> notify_request \<Rightarrow> bool" where
  "isActionAllowed action rq \<longleftrightarrow> action = [] \<or> action \<in> set (nq_Actions rq)"

text \<open>
  How a call of \<^verbatim>\<open>Respond\<close> ends: it returns, with an error or without; it dereferences a nil
  pointer; or it sends to a response channel whose one slot is taken, and waits for ever with the
  mutex held.
\<close>

datatype respond_outcome = Returns "status option" | NilPointer | Blocks

text \<open>
  The request's response may be missing. Its action is read on every path: for the log entry of a
  late response, else to see whether the action is allowed.
\<close>

definition Respond :: "id \<Rightarrow> string option \<Rightarrow> notification_service \<Rightarrow> respond_outcome \<times> notification_service" where
  "Respond i resp ns =
     (if i \<notin> set (ns_pending ns)
      then (case resp of None \<Rightarrow> (NilPointer, ns) | Some _ \<Rightarrow> (Returns (Some DeadlineExceeded), ns))
      else case tbl_find pn_id i (ns_notifications ns) of
        None \<Rightarrow> (NilPointer, ns)
      | Some p \<Rightarrow>
          (case resp of
             None \<Rightarrow> (NilPointer, ns)
           | Some action \<Rightarrow>
               (if \<not> isActionAllowed action (sr_Request (pn_message p)) then (Returns (Some InvalidArgument), ns)
                else if pn_closed p then (Returns None, ns\<lparr>ns_pending := removeAll i (ns_pending ns)\<rparr>)
                else if pn_responses p \<noteq> [] then (Blocks, ns)
                else (Returns None, ns\<lparr>ns_pending := removeAll i (ns_pending ns),
                        ns_notifications := tbl_update pn_id i (\<lambda>p. close_pending (p\<lparr>pn_responses := [action]\<rparr>)) (ns_notifications ns)\<rparr>))))"

end
