(* ===== verification/NotifyProps.thy ===== *)
theory NotifyProps
  imports Notify
begin

text \<open>
  Runs of the notification service: its calls in any order, as the mutex lets them through. A
  response is never stuck, and notifications without actions use up the service.
\<close>

interpretation pending_tbl: keyed_table pn_id "tbl_upsert pn_id" "tbl_delete pn_id" "tbl_find pn_id" "tbl_ok pn_id"
  by (rule tbl_keyed)

interpretation subscribers_tbl: keyed_table sb_id "tbl_upsert sb_id" "tbl_delete sb_id" "tbl_find sb_id" "tbl_ok sb_id"
  by (rule tbl_keyed)

text \<open>\<open>OpAdmit\<close> is the second half of a \<^verbatim>\<open>Notify\<close> that read the length before other operations ran.\<close>

datatype notify_op =
    OpNotify notify_request | OpAdmit notify_request | OpReceive id | OpCancel id
  | OpSubscribe "nat list" | OpSubReceive id | OpUnsubscribe id
  | OpRespond id "string option"

text \<open>The order in which a map is walked, given by sort keys for the positions.\<close>

definition walk :: "nat list \<Rightarrow> 'a list \<Rightarrow> 'a list" where
  "walk keys xs = map snd (sort_key (\<lambda>(n, _). n) (zip (keys @ replicate (length xs) 0) xs))"

lemma length_walk [simp]: "length (walk keys xs) = length xs"
  by (simp add: walk_def)

fun run_op :: "notify_op \<Rightarrow> notification_service \<Rightarrow> notification_service" where
  "run_op (OpNotify rq) ns = snd (Notify rq ns)"
| "run_op (OpAdmit rq) ns = snd (notifySubscribers rq ns)"
| "run_op (OpReceive i) ns = snd (notify_receive i ns)"
| "run_op (OpCancel i) ns = snd (notify_cancel i ns)"
| "run_op (OpSubscribe keys) ns = snd (subscribeLocked (walk keys) ns)"
| "run_op (OpSubReceive i) ns = snd (subscribe_receive i ns)"
| "run_op (OpUnsubscribe i) ns = unsubscribeLocked i ns"
| "run_op (OpRespond i a) ns = snd (Respond i a ns)"

definition run_ops :: "notify_op list \<Rightarrow> notification_service \<Rightarrow> notification_service" where
  "run_ops ops ns = fold run_op ops ns"

section \<open>Invariant\<close>

definition pending_ok :: "pending_notification \<Rightarrow> bool" where
  "pending_ok p \<longleftrightarrow> length (pn_responses p) \<le> 1 \<and> (\<not> pn_closed p \<longrightarrow> pn_responses p = [] \<and> nq_Actions (sr_Request (pn_message p)) \<noteq> [])"

definition notify_inv :: "notification_service \<Rightarrow> bool" where
  "notify_inv ns \<longleftrightarrow>
     (\<forall>i \<in> set (ns_pending ns). tbl_find pn_id i (ns_notifications ns) \<noteq> None)
     \<and> (\<forall>p \<in> set (ns_notifications ns). pending_ok p)
     \<and> (\<forall>s \<in> set (ns_subscribers ns). length (sb_channel s) \<le> sb_capacity s)"

lemma find_update_Some:
  assumes "\<And>p. pn_id (f p) = pn_id p"
  shows "tbl_find pn_id i (tbl_update pn_id j f t) = None \<longleftrightarrow> tbl_find pn_id i t = None"
    and "(\<exists>p. tbl_find pn_id i (tbl_update pn_id j f t) = Some p) \<longleftrightarrow> (\<exists>p. tbl_find pn_id i t = Some p)"
  using assms by (auto simp: tbl_find_update)

lemma pn_id_updates [simp]: "pn_id (p\<lparr>pn_responses := rs\<rparr>) = pn_id p" "pn_id (close_pending p) = pn_id p"
  "pn_id (new_pending i rq) = i"
  by (simp_all add: pn_id_def close_pending_def new_pending_def)

lemma update_image: "set (tbl_update key k f t) = (\<lambda>p. if key p = k then f p else p) ` set t"
  by (simp add: tbl_update_def)

lemma new_pending_ok: "pending_ok (new_pending i rq)"
  by (simp add: new_pending_def pending_ok_def)

lemma admit_inv:
  assumes "notify_inv ns"
  shows "notify_inv (snd (notifySubscribers rq ns))"
proof -
  have n: "\<forall>p \<in> set (tbl_upsert pn_id (new_pending (ns_nextNotificationID ns) rq) (ns_notifications ns)). pending_ok p"
    using assms by (auto simp: notify_inv_def tbl_upsert_def new_pending_ok)
  have s: "\<forall>s \<in> set (map (offer r m) (ns_subscribers ns)). length (sb_channel s) \<le> sb_capacity s" for r m
    using assms by (auto simp: notify_inv_def offer_def sub_full_def close_subscription_def)
  show ?thesis
    using assms n s by (auto simp: notifySubscribers_def Let_def notify_inv_def add_id_def)
qed

lemma notify_step_inv: "notify_inv ns \<Longrightarrow> notify_inv (snd (Notify rq ns))"
  using admit_inv [of ns rq] by (simp add: Notify_def split_def)

lemma receive_inv: "notify_inv ns \<Longrightarrow> notify_inv (snd (notify_receive i ns))"
  by (fastforce simp: notify_receive_def notify_inv_def find_update_Some pending_ok_def update_image
      dest!: tbl_find_key split: option.split list.split)

lemma close_pending_simps [simp]:
  "pn_responses (close_pending p) = pn_responses p" "pn_closed (close_pending p)"
  "pn_message (close_pending p) = pn_message p"
  by (simp_all add: close_pending_def)

lemma cancel_inv: "notify_inv ns \<Longrightarrow> notify_inv (snd (notify_cancel i ns))"
  by (auto simp: notify_cancel_def notify_inv_def find_update_Some update_image pending_ok_def)

lemma subscribe_inv: "notify_inv ns \<Longrightarrow> notify_inv (snd (subscribeLocked (walk keys) ns))"
proof -
  assume inv: "notify_inv ns"
  have "length (pending_of ns) \<le> length (ns_pending ns)"
    by (simp add: pending_of_def List.map_filter_def)
  with inv show ?thesis
    by (auto simp: subscribeLocked_def Let_def notify_inv_def tbl_upsert_def intro: le_trans [OF length_filter_le])
qed

lemma subscribe_receive_inv: "notify_inv ns \<Longrightarrow> notify_inv (snd (subscribe_receive i ns))"
  by (auto simp: subscribe_receive_def notify_inv_def tbl_update_def dest!: tbl_find_key split: option.split list.split)

lemma unsubscribe_inv: "notify_inv ns \<Longrightarrow> notify_inv (unsubscribeLocked i ns)"
  by (auto simp: unsubscribeLocked_def notify_inv_def tbl_update_def close_subscription_def)

lemma respond_inv: "notify_inv ns \<Longrightarrow> notify_inv (snd (Respond i a ns))"
  by (auto simp: Respond_def notify_inv_def find_update_Some update_image pending_ok_def split: option.splits)

lemma run_inv: "notify_inv ns \<Longrightarrow> notify_inv (run_ops ops ns)"
proof (induction ops arbitrary: ns)
  case (Cons x ops)
  then have "notify_inv (run_op x ns)"
    by (cases x) (simp_all add: notify_step_inv admit_inv receive_inv cancel_inv subscribe_inv subscribe_receive_inv unsubscribe_inv respond_inv)
  with Cons.IH show ?case by (simp add: run_ops_def)
qed (simp add: run_ops_def)

lemma new_inv [simp]: "notify_inv NewNotificationService"
  by (simp add: notify_inv_def NewNotificationService_def)

lemma respond_pending:
  assumes "i \<in> set (ns_pending ns)" "tbl_find pn_id i (ns_notifications ns) = Some p" "pending_ok p"
  shows "fst (Respond i (Some a) ns) = Returns (if isActionAllowed a (sr_Request (pn_message p)) then None else Some InvalidArgument)"
    and "set (ns_pending (snd (Respond i (Some a) ns))) =
      (if isActionAllowed a (sr_Request (pn_message p)) then set (ns_pending ns) - {i} else set (ns_pending ns))"
proof -
  have "pn_closed p \<or> pn_responses p = []"
    using assms(3) by (auto simp: pending_ok_def)
  then show "fst (Respond i (Some a) ns) = Returns (if isActionAllowed a (sr_Request (pn_message p)) then None else Some InvalidArgument)"
    and "set (ns_pending (snd (Respond i (Some a) ns))) =
      (if isActionAllowed a (sr_Request (pn_message p)) then set (ns_pending ns) - {i} else set (ns_pending ns))"
    using assms(1, 2) by (auto simp: Respond_def)
qed

text \<open>Whatever it answers to, a request without a response ends in a nil dereference.\<close>

lemma respond_nil: "Respond i None ns = (NilPointer, ns)"
  by (simp add: Respond_def split: option.split)

lemma pending_found:
  "notify_inv ns \<Longrightarrow> i \<in> set (ns_pending ns) \<Longrightarrow> \<exists>p. tbl_find pn_id i (ns_notifications ns) = Some p \<and> pending_ok p"
  using tbl_find_key [of pn_id i "ns_notifications ns"] by (fastforce simp: notify_inv_def)

lemma respond_late: "i \<notin> set (ns_pending ns) \<Longrightarrow> Respond i (Some a) ns = (Returns (Some DeadlineExceeded), ns)"
  by (simp add: Respond_def)

lemma respond_result:
  assumes "notify_inv ns"
  shows "fst (Respond i (Some a) ns) =
     (if i \<notin> set (ns_pending ns) then Returns (Some DeadlineExceeded)
      else if isActionAllowed a (sr_Request (pn_message (the (tbl_find pn_id i (ns_notifications ns)))))
      then Returns None else Returns (Some InvalidArgument))
     \<and> set (ns_pending (snd (Respond i (Some a) ns))) =
         (if fst (Respond i (Some a) ns) = Returns None then set (ns_pending ns) - {i} else set (ns_pending ns))"
proof (cases "i \<in> set (ns_pending ns)")
  case True
  from pending_found [OF assms this] obtain p
    where p: "tbl_find pn_id i (ns_notifications ns) = Some p" "pending_ok p" by blast
  show ?thesis using True p by (simp add: respond_pending [OF True p])
qed (simp add: respond_late)

text \<open>
  C39. After any calls in any order, \<^verbatim>\<open>Respond\<close> never blocks: the one slot of the response
  channel it sends to is free. A request without a response ends in a nil dereference, whatever it
  answers to, and changes nothing. Any other returns: a permitted answer to a pending notification
  ends it, an answer that is not among its actions leaves it pending, and an answer to anything
  else is too late.
\<close>

theorem respond_never_blocks:
  "let ns = run_ops ops NewNotificationService; (r, ns') = Respond i resp ns in
     r = (case resp of
            None \<Rightarrow> NilPointer
          | Some a \<Rightarrow>
              if i \<notin> set (ns_pending ns) then Returns (Some DeadlineExceeded)
              else if isActionAllowed a (sr_Request (pn_message (the (tbl_find pn_id i (ns_notifications ns)))))
              then Returns None else Returns (Some InvalidArgument))
     \<and> set (ns_pending ns') = (if r = Returns None then set (ns_pending ns) - {i} else set (ns_pending ns))"
proof (cases resp)
  case None
  then show ?thesis by (simp add: respond_nil)
next
  case (Some a)
  then show ?thesis
    using respond_result [OF run_inv [OF new_inv, of ops], of i a] by (simp add: Let_def split_def)
qed

section \<open>Notifications without actions\<close>

fun unanswering :: "notify_op \<Rightarrow> bool" where
  "unanswering (OpNotify rq) \<longleftrightarrow> nq_Actions rq = []"
| "unanswering (OpReceive _) \<longleftrightarrow> True"
| "unanswering (OpSubReceive _) \<longleftrightarrow> True"
| "unanswering (OpUnsubscribe _) \<longleftrightarrow> True"
| "unanswering _ \<longleftrightarrow> False"

fun is_notify :: "notify_op \<Rightarrow> bool" where
  "is_notify (OpNotify _) \<longleftrightarrow> True"
| "is_notify _ \<longleftrightarrow> False"

text \<open>Ids are handed out in order, and none twice before the counter wraps.\<close>

definition ids_below :: "nat \<Rightarrow> notification_service \<Rightarrow> bool" where
  "ids_below n ns \<longleftrightarrow> unat (ns_nextNotificationID ns) \<le> n \<and> (\<forall>i \<in> set (ns_pending ns). i < ns_nextNotificationID ns)"

lemma admit_ids:
  assumes "ids_below n ns" "Suc n < 2 ^ 64"
  shows "ids_below (Suc n) (snd (notifySubscribers rq ns))"
    and "length (ns_pending (snd (notifySubscribers rq ns))) = Suc (length (ns_pending ns))"
proof -
  have w: "unat (ns_nextNotificationID ns + 1) = Suc (unat (ns_nextNotificationID ns))"
    using assms by (simp add: ids_below_def unat_word_ariths)
  have "i < ns_nextNotificationID ns + 1" if "i < ns_nextNotificationID ns \<or> i = ns_nextNotificationID ns" for i
    using that w by (auto simp: word_less_nat_alt)
  then show "ids_below (Suc n) (snd (notifySubscribers rq ns))"
    using assms w by (auto simp: ids_below_def notifySubscribers_def Let_def add_id_def)
  show "length (ns_pending (snd (notifySubscribers rq ns))) = Suc (length (ns_pending ns))"
    using assms by (auto simp: ids_below_def notifySubscribers_def Let_def add_id_def)
qed

lemma op_ids:
  assumes "ids_below n ns" "Suc n < 2 ^ 64"
  shows "ids_below (Suc n) (run_op x ns)"
proof (cases x)
  case (OpNotify rq)
  then show ?thesis using assms admit_ids(1) [OF assms] by (auto simp: Notify_def split_def ids_below_def)
next
  case (OpAdmit rq)
  then show ?thesis using admit_ids(1) [OF assms] by simp
qed (use assms in \<open>auto simp: ids_below_def notify_receive_def notify_cancel_def subscribeLocked_def Let_def
       subscribe_receive_def unsubscribeLocked_def Respond_def split: option.splits list.split\<close>)

lemma run_ids:
  "ids_below n ns \<Longrightarrow> n + length ops < 2 ^ 64 \<Longrightarrow> ids_below (n + length ops) (run_ops ops ns)"
proof (induction ops arbitrary: n ns)
  case (Cons x ops)
  then have "ids_below (Suc n) (run_op x ns)" by (simp add: op_ids)
  from Cons.IH [OF this] Cons.prems show ?case by (simp add: run_ops_def)
qed (simp add: run_ops_def)

lemma unanswering_op:
  assumes "ids_below n ns" "Suc n < 2 ^ 64" "unanswering x"
  shows "min 120 (length (ns_pending ns) + (if is_notify x then 1 else 0)) \<le> length (ns_pending (run_op x ns))"
proof (cases x)
  case (OpNotify rq)
  then show ?thesis using admit_ids(2) [OF assms(1, 2), of rq]
    by (simp add: Notify_def split_def NotifierMaxPendingNotifications_def)
qed (use assms in \<open>auto simp: notify_receive_def subscribe_receive_def unsubscribeLocked_def split: option.split list.split\<close>)

lemma unanswering_run:
  assumes "ids_below n ns" "n + length ops < 2 ^ 64" "list_all unanswering ops"
  shows "min 120 (length (ns_pending ns) + length (filter is_notify ops)) \<le> length (ns_pending (run_ops ops ns))"
  using assms
proof (induction ops arbitrary: n ns)
  case (Cons x ops)
  then have ids: "ids_below (Suc n) (run_op x ns)" by (simp add: op_ids)
  have "min 120 (length (ns_pending (run_op x ns)) + length (filter is_notify ops))
      \<le> length (ns_pending (run_ops ops (run_op x ns)))"
    by (rule Cons.IH [OF ids]) (use Cons.prems in simp_all)
  moreover have "min 120 (length (ns_pending ns) + (if is_notify x then 1 else 0)) \<le> length (ns_pending (run_op x ns))"
    using Cons.prems by (intro unanswering_op [of n]) simp_all
  ultimately show ?case by (simp add: run_ops_def split: if_splits)
qed (simp add: run_ops_def)

text \<open>
  A notification without actions is answered at once, but stays among the pending ones until
  a new subscription or a \<^verbatim>\<open>Respond\<close> removes it. So after any history, a stretch of 120 such
  notifications, however many of them are delivered to the subscribers and read by them, leaves the
  service refusing every further notification, of any kind, until somebody subscribes or responds.
\<close>

theorem actionless_notifications_exhaust:
  assumes "length history + length ops < 2 ^ 64" "list_all unanswering ops" "120 \<le> length (filter is_notify ops)"
  shows "Notify rq (run_ops (history @ ops) NewNotificationService)
    = (Inl ResourceExhausted, run_ops (history @ ops) NewNotificationService)"
proof -
  let ?ns = "run_ops history NewNotificationService"
  have "ids_below (length history) ?ns"
    using run_ids [of 0 NewNotificationService history] assms(1)
    by (simp add: ids_below_def NewNotificationService_def)
  from unanswering_run [OF this assms(1, 2)] assms(3)
  have "120 \<le> length (ns_pending (run_ops ops ?ns))" by simp
  then show ?thesis by (simp add: Notify_def NotifierMaxPendingNotifications_def run_ops_def)
qed

theorem actionless_notifications_exhaust_witness:
  "Notify \<lparr>nq_Message = ''rebuild?'', nq_Actions = [''yes'']\<rparr>
     (run_ops ([OpSubscribe []] @ concat (replicate 120
        [OpNotify \<lparr>nq_Message = ''saved'', nq_Actions = []\<rparr>, OpSubReceive 0])) NewNotificationService)
   = (Inl ResourceExhausted, run_ops ([OpSubscribe []] @ concat (replicate 120
        [OpNotify \<lparr>nq_Message = ''saved'', nq_Actions = []\<rparr>, OpSubReceive 0])) NewNotificationService)"
  by (rule actionless_notifications_exhaust)
     (simp_all add: length_concat filter_concat sum_list_replicate list_all_iff)

end
