(* ===== verification/ForgeParams.thy ===== *)
theory ForgeParams
  imports GoStrings GoTime
begin

text \<open>
  The types of the garm runner manager, \<^verbatim>\<open>ci/runners/garm/params/params.go\<close>, and their methods.
  Named string types are strings, a \<^verbatim>\<open>uint\<close> is a natural number, a UUID is its canonical text and
  a nil pointer is \<^const>\<open>None\<close>. The lists of entities a credential refers back to are left out, as
  nothing here reads them; so are the JSON tags.
\<close>

section \<open>Constants\<close>

abbreviation GithubEndpointType :: string where "GithubEndpointType \<equiv> ''github''"
abbreviation GiteaEndpointType :: string where "GiteaEndpointType \<equiv> ''gitea''"

abbreviation ForgeEntityTypeRepository :: string where "ForgeEntityTypeRepository \<equiv> ''repository''"
abbreviation ForgeEntityTypeOrganization :: string where "ForgeEntityTypeOrganization \<equiv> ''organization''"
abbreviation ForgeEntityTypeEnterprise :: string where "ForgeEntityTypeEnterprise \<equiv> ''enterprise''"

abbreviation PoolBalancerTypeRoundRobin :: string where "PoolBalancerTypeRoundRobin \<equiv> ''roundrobin''"
abbreviation PoolBalancerTypePack :: string where "PoolBalancerTypePack \<equiv> ''pack''"

abbreviation RunnerIdle :: string where "RunnerIdle \<equiv> ''idle''"
abbreviation RunnerPending :: string where "RunnerPending \<equiv> ''pending''"
abbreviation RunnerTerminated :: string where "RunnerTerminated \<equiv> ''terminated''"
abbreviation RunnerInstalling :: string where "RunnerInstalling \<equiv> ''installing''"
abbreviation RunnerFailed :: string where "RunnerFailed \<equiv> ''failed''"
abbreviation RunnerActive :: string where "RunnerActive \<equiv> ''active''"
abbreviation RunnerOffline :: string where "RunnerOffline \<equiv> ''offline''"
abbreviation RunnerOnline :: string where "RunnerOnline \<equiv> ''online''"
abbreviation RunnerUnknown :: string where "RunnerUnknown \<equiv> ''unknown''"

abbreviation InstanceRunning :: string where "InstanceRunning \<equiv> ''running''"
abbreviation InstanceStopped :: string where "InstanceStopped \<equiv> ''stopped''"
abbreviation InstanceError :: string where "InstanceError \<equiv> ''error''"
abbreviation InstancePendingDelete :: string where "InstancePendingDelete \<equiv> ''pending_delete''"
abbreviation InstancePendingForceDelete :: string where "InstancePendingForceDelete \<equiv> ''pending_force_delete''"
abbreviation InstanceDeleting :: string where "InstanceDeleting \<equiv> ''deleting''"
abbreviation InstanceDeleted :: string where "InstanceDeleted \<equiv> ''deleted''"
abbreviation InstancePendingCreate :: string where "InstancePendingCreate \<equiv> ''pending_create''"
abbreviation InstanceCreating :: string where "InstanceCreating \<equiv> ''creating''"
abbreviation InstanceStatusUnknown :: string where "InstanceStatusUnknown \<equiv> ''unknown''"

definition RunnerStatus_IsValid :: "string \<Rightarrow> bool" where
  "RunnerStatus_IsValid s \<longleftrightarrow> s \<in> set [RunnerIdle, RunnerPending, RunnerTerminated, RunnerInstalling,
     RunnerFailed, RunnerActive, RunnerOffline, RunnerUnknown, RunnerOnline]"

section \<open>Status transitions\<close>

definition InstanceStatusTransitions :: "(string \<times> string list) list" where
  "InstanceStatusTransitions =
     [(InstanceRunning, [InstancePendingDelete, InstancePendingForceDelete, InstanceStopped, InstanceStatusUnknown]),
      (InstanceStopped, [InstancePendingDelete, InstancePendingForceDelete, InstanceRunning, InstanceStatusUnknown]),
      (InstanceError, [InstancePendingDelete, InstancePendingForceDelete, InstanceStatusUnknown, InstanceDeleting]),
      (InstancePendingDelete, [InstanceDeleting, InstancePendingForceDelete]),
      (InstancePendingForceDelete, [InstanceDeleting]),
      (InstanceDeleting, [InstanceError, InstanceDeleted]),
      (InstanceDeleted, []),
      (InstancePendingCreate, [InstancePendingDelete, InstanceCreating, InstancePendingForceDelete]),
      (InstanceCreating, [InstanceError, InstanceRunning]),
      (InstanceStatusUnknown, [InstanceRunning, InstanceStopped, InstanceError, InstancePendingDelete,
         InstancePendingForceDelete, InstanceDeleting, InstanceDeleted, InstancePendingCreate, InstanceCreating])]"

definition RunnerStatusTransitions :: "(string \<times> string list) list" where
  "RunnerStatusTransitions =
     [(RunnerPending, [RunnerFailed, RunnerInstalling, RunnerTerminated, RunnerPending]),
      (RunnerInstalling, [RunnerFailed, RunnerIdle, RunnerTerminated, RunnerInstalling]),
      (RunnerIdle, [RunnerOffline, RunnerActive, RunnerTerminated, RunnerIdle]),
      (RunnerActive, [RunnerTerminated, RunnerActive]),
      (RunnerFailed, [RunnerTerminated, RunnerFailed]),
      (RunnerOffline, [RunnerIdle, RunnerActive, RunnerTerminated, RunnerOffline]),
      (RunnerTerminated, [RunnerTerminated])]"

section \<open>Endpoints and credentials\<close>

record forge_endpoint =
  gep_Name :: string
  gep_Description :: string
  gep_APIBaseURL :: string
  gep_UploadBaseURL :: string
  gep_BaseURL :: string
  gep_CACertBundle :: bytes
  gep_CreatedAt :: int
  gep_UpdatedAt :: int
  gep_ToolsMetadataURL :: string
  gep_UseInternalToolsMetadata :: "bool option"
  gep_EndpointType :: string

record github_rate_limit =
  grl_Limit :: int
  grl_Used :: int
  grl_Remaining :: int
  grl_Reset :: int

definition ResetAt :: "github_rate_limit \<Rightarrow> int" where
  "ResetAt g = (if grl_Reset g = 0 then time_zero else grl_Reset g * second)"

record forge_credentials =
  gk_ID :: nat
  gk_Name :: string
  gk_Description :: string
  gk_APIBaseURL :: string
  gk_UploadBaseURL :: string
  gk_BaseURL :: string
  gk_CABundle :: bytes
  gk_AuthType :: string
  gk_ForgeType :: string
  gk_Endpoint :: forge_endpoint
  gk_CreatedAt :: int
  gk_UpdatedAt :: int
  gk_RateLimit :: "github_rate_limit option"
  gk_CredentialsPayload :: bytes

section \<open>Entities\<close>

record pool_manager_status =
  gms_IsRunning :: bool
  gms_FailureReason :: string

record forge_entity =
  ge_Owner :: string
  ge_Name :: string
  ge_ID :: string
  ge_EntityType :: string
  ge_Credentials :: forge_credentials
  ge_PoolBalancerType :: string
  ge_PoolManagerStatus :: pool_manager_status
  ge_CreatedAt :: int
  ge_UpdatedAt :: int
  ge_AgentMode :: bool
  ge_WebhookSecret :: string

definition GetForgeType :: "forge_entity \<Rightarrow> (string, string) result" where
  "GetForgeType g =
     (if gk_ForgeType (ge_Credentials g) = [] then Inl ''credentials forge type is empty''
      else Inr (gk_ForgeType (ge_Credentials g)))"

definition ForgeURL :: "forge_entity \<Rightarrow> string" where
  "ForgeURL g =
     (let baseURL = rev (dropWhile (\<lambda>c. c = CHR ''/'') (rev (gk_BaseURL (ge_Credentials g)))) in
      if gk_ForgeType (ge_Credentials g) = GiteaEndpointType then gep_APIBaseURL (gk_Endpoint (ge_Credentials g))
      else if ge_EntityType g = ForgeEntityTypeRepository then baseURL @ ''/'' @ ge_Owner g @ ''/'' @ ge_Name g
      else if ge_EntityType g = ForgeEntityTypeOrganization then baseURL @ ''/'' @ ge_Owner g
      else if ge_EntityType g = ForgeEntityTypeEnterprise then baseURL @ ''/enterprises/'' @ ge_Owner g
      else [])"

definition GetPoolBalancerType :: "forge_entity \<Rightarrow> string" where
  "GetPoolBalancerType g = (if ge_PoolBalancerType g = [] then PoolBalancerTypeRoundRobin else ge_PoolBalancerType g)"

definition LabelScope :: "forge_entity \<Rightarrow> string" where
  "LabelScope g =
     (if ge_EntityType g = ForgeEntityTypeRepository then ''Repository''
      else if ge_EntityType g = ForgeEntityTypeOrganization then ''Organization''
      else if ge_EntityType g = ForgeEntityTypeEnterprise then ''Enterprise'' else [])"

definition entity_String :: "forge_entity \<Rightarrow> string" where
  "entity_String g =
     (if ge_EntityType g = ForgeEntityTypeRepository then ge_Owner g @ ''/'' @ ge_Name g
      else if ge_EntityType g \<in> {ForgeEntityTypeOrganization, ForgeEntityTypeEnterprise} then ge_Owner g else [])"

text \<open>The entity named by a pool's or scale set's reference: only id and type are set.\<close>

definition no_endpoint :: forge_endpoint where
  "no_endpoint = \<lparr>gep_Name = [], gep_Description = [], gep_APIBaseURL = [], gep_UploadBaseURL = [], gep_BaseURL = [],
     gep_CACertBundle = [], gep_CreatedAt = time_zero, gep_UpdatedAt = time_zero, gep_ToolsMetadataURL = [],
     gep_UseInternalToolsMetadata = None, gep_EndpointType = []\<rparr>"

definition no_credentials :: forge_credentials where
  "no_credentials = \<lparr>gk_ID = 0, gk_Name = [], gk_Description = [], gk_APIBaseURL = [], gk_UploadBaseURL = [],
     gk_BaseURL = [], gk_CABundle = [], gk_AuthType = [], gk_ForgeType = [], gk_Endpoint = no_endpoint,
     gk_CreatedAt = time_zero, gk_UpdatedAt = time_zero, gk_RateLimit = None, gk_CredentialsPayload = []\<rparr>"

definition entity_ref :: "string \<Rightarrow> string \<Rightarrow> forge_entity" where
  "entity_ref i ty = \<lparr>ge_Owner = [], ge_Name = [], ge_ID = i, ge_EntityType = ty, ge_Credentials = no_credentials,
     ge_PoolBalancerType = [], ge_PoolManagerStatus = \<lparr>gms_IsRunning = False, gms_FailureReason = []\<rparr>,
     ge_CreatedAt = time_zero, ge_UpdatedAt = time_zero, ge_AgentMode = False, ge_WebhookSecret = []\<rparr>"

lemma entity_ref_sel [simp]: "ge_ID (entity_ref i ty) = i" "ge_EntityType (entity_ref i ty) = ty"
  by (simp_all add: entity_ref_def)

section \<open>Jobs, instances, pools and scale sets\<close>

record garm_job =
  gj_ID :: int
  gj_WorkflowJobID :: int
  gj_ScaleSetJobID :: string
  gj_RunID :: int
  gj_Action :: string
  gj_Conclusion :: string
  gj_Status :: string
  gj_Name :: string
  gj_StartedAt :: int
  gj_CompletedAt :: int
  gj_GithubRunnerID :: int
  gj_RunnerName :: string
  gj_RunnerGroupID :: int
  gj_RunnerGroupName :: string
  gj_RepositoryName :: string
  gj_RepositoryOwner :: string
  gj_WorkflowRunURL :: string
  gj_Labels :: "string list"
  gj_RepoID :: "string option"
  gj_OrgID :: "string option"
  gj_EnterpriseID :: "string option"
  gj_LockedBy :: string
  gj_CreatedAt :: int
  gj_UpdatedAt :: int

definition Job_BelongsTo :: "garm_job \<Rightarrow> forge_entity \<Rightarrow> bool" where
  "Job_BelongsTo j e \<longleftrightarrow>
     (if ge_EntityType e = ForgeEntityTypeRepository then gj_RepoID j = Some (ge_ID e)
      else if ge_EntityType e = ForgeEntityTypeEnterprise then gj_EnterpriseID j = Some (ge_ID e)
      else if ge_EntityType e = ForgeEntityTypeOrganization then gj_OrgID j = Some (ge_ID e)
      else False)"

record status_message =
  gsm_CreatedAt :: int
  gsm_Message :: string
  gsm_EventType :: string
  gsm_EventLevel :: string

record garm_address =
  gad_Address :: string
  gad_Type :: string

record garm_instance =
  gi_ID :: string
  gi_ProviderID :: string
  gi_ProviderName :: string
  gi_AgentID :: int
  gi_Name :: string
  gi_OSType :: string
  gi_OSName :: string
  gi_OSVersion :: string
  gi_OSArch :: string
  gi_Addresses :: "garm_address list"
  gi_Status :: string
  gi_RunnerStatus :: string
  gi_PoolID :: string
  gi_ScaleSetID :: nat
  gi_ProviderFault :: bytes
  gi_StatusMessages :: "status_message list"
  gi_CreatedAt :: int
  gi_UpdatedAt :: int
  gi_GitHubRunnerGroup :: string
  gi_Job :: "garm_job option"
  gi_Heartbeat :: int
  gi_HasShell :: bool
  gi_Generation :: "64 word"
  gi_CallbackURL :: string
  gi_MetadataURL :: string
  gi_CreateAttempt :: int
  gi_TokenFetched :: bool
  gi_AditionalLabels :: "string list"
  gi_JitConfiguration :: "(string \<times> string) list"

record garm_tag =
  gt_ID :: string
  gt_Name :: string

record garm_pool =
  gp_Prefix :: string
  gp_ID :: string
  gp_ProviderName :: string
  gp_MaxRunners :: nat
  gp_MinIdleRunners :: nat
  gp_Image :: string
  gp_Flavor :: string
  gp_OSType :: string
  gp_OSArch :: string
  gp_Tags :: "garm_tag list"
  gp_Enabled :: bool
  gp_Instances :: "garm_instance list"
  gp_EnableShell :: bool
  gp_Generation :: "64 word"
  gp_RepoID :: string
  gp_RepoName :: string
  gp_OrgID :: string
  gp_OrgName :: string
  gp_EnterpriseID :: string
  gp_EnterpriseName :: string
  gp_Endpoint :: forge_endpoint
  gp_RunnerBootstrapTimeout :: nat
  gp_CreatedAt :: int
  gp_UpdatedAt :: int
  gp_ExtraSpecs :: bytes
  gp_GitHubRunnerGroup :: string
  gp_Priority :: nat
  gp_TemplateID :: nat
  gp_TemplateName :: string

definition PoolType :: "garm_pool \<Rightarrow> string" where
  "PoolType p = (if gp_RepoID p \<noteq> [] then ForgeEntityTypeRepository
     else if gp_OrgID p \<noteq> [] then ForgeEntityTypeOrganization
     else if gp_EnterpriseID p \<noteq> [] then ForgeEntityTypeEnterprise else [])"

definition Pool_BelongsTo :: "garm_pool \<Rightarrow> forge_entity \<Rightarrow> bool" where
  "Pool_BelongsTo p e \<longleftrightarrow>
     (if PoolType p = ForgeEntityTypeRepository then gp_RepoID p = ge_ID e
      else if PoolType p = ForgeEntityTypeOrganization then gp_OrgID p = ge_ID e
      else if PoolType p = ForgeEntityTypeEnterprise then gp_EnterpriseID p = ge_ID e else False)"

definition max_int :: int where
  "max_int = 2 ^ 63 - 1"

definition MinIdleRunnersAsInt :: "garm_pool \<Rightarrow> int" where
  "MinIdleRunnersAsInt p = min max_int (int (gp_MinIdleRunners p))"

definition MaxRunnersAsInt :: "garm_pool \<Rightarrow> int" where
  "MaxRunnersAsInt p = min max_int (int (gp_MaxRunners p))"

definition Pool_GetEntity :: "garm_pool \<Rightarrow> (string, forge_entity) result" where
  "Pool_GetEntity p =
     (if PoolType p = ForgeEntityTypeRepository then Inr (entity_ref (gp_RepoID p) ForgeEntityTypeRepository)
      else if PoolType p = ForgeEntityTypeOrganization then Inr (entity_ref (gp_OrgID p) ForgeEntityTypeOrganization)
      else if PoolType p = ForgeEntityTypeEnterprise then Inr (entity_ref (gp_EnterpriseID p) ForgeEntityTypeEnterprise)
      else Inl ''pool has no associated entity'')"

definition DefaultRunnerBootstrapTimeout :: nat where
  "DefaultRunnerBootstrapTimeout = 20"

definition RunnerTimeout :: "garm_pool \<Rightarrow> nat" where
  "RunnerTimeout p = (if gp_RunnerBootstrapTimeout p = 0 then DefaultRunnerBootstrapTimeout else gp_RunnerBootstrapTimeout p)"

definition GetRunnerPrefix :: "string \<Rightarrow> string" where
  "GetRunnerPrefix p = (if p = [] then ''garm'' else p)"

text \<open>A pool serves a job when it has every label of it, whatever the case.\<close>

definition HasRequiredLabels :: "garm_pool \<Rightarrow> string list \<Rightarrow> bool" where
  "HasRequiredLabels p labels \<longleftrightarrow>
     length labels \<le> length (gp_Tags p)
     \<and> list_all (\<lambda>l. to_lower l \<in> set (map (to_lower \<circ> gt_Name) (gp_Tags p))) labels"

record garm_scale_set =
  gs_Prefix :: string
  gs_CreatedAt :: int
  gs_UpdatedAt :: int
  gs_ID :: nat
  gs_ScaleSetID :: int
  gs_Name :: string
  gs_DisableUpdate :: bool
  gs_State :: string
  gs_ExtendedState :: string
  gs_ProviderName :: string
  gs_MaxRunners :: nat
  gs_MinIdleRunners :: nat
  gs_Image :: string
  gs_Flavor :: string
  gs_OSType :: string
  gs_OSArch :: string
  gs_Enabled :: bool
  gs_Instances :: "garm_instance list"
  gs_DesiredRunnerCount :: int
  gs_EnableShell :: bool
  gs_Generation :: "64 word"
  gs_Endpoint :: forge_endpoint
  gs_RunnerBootstrapTimeout :: nat
  gs_ExtraSpecs :: bytes
  gs_GitHubRunnerGroup :: string
  gs_Tags :: "garm_tag list"
  gs_StatusMessages :: "status_message list"
  gs_RepoID :: string
  gs_RepoName :: string
  gs_OrgID :: string
  gs_OrgName :: string
  gs_EnterpriseID :: string
  gs_EnterpriseName :: string
  gs_TemplateID :: nat
  gs_TemplateName :: string
  gs_LastMessageID :: int

definition ScaleSetType :: "garm_scale_set \<Rightarrow> string" where
  "ScaleSetType p = (if gs_RepoID p \<noteq> [] then ForgeEntityTypeRepository
     else if gs_OrgID p \<noteq> [] then ForgeEntityTypeOrganization
     else if gs_EnterpriseID p \<noteq> [] then ForgeEntityTypeEnterprise else [])"

definition ScaleSet_BelongsTo :: "garm_scale_set \<Rightarrow> forge_entity \<Rightarrow> bool" where
  "ScaleSet_BelongsTo p e \<longleftrightarrow>
     (if ScaleSetType p = ForgeEntityTypeRepository then gs_RepoID p = ge_ID e
      else if ScaleSetType p = ForgeEntityTypeOrganization then gs_OrgID p = ge_ID e
      else if ScaleSetType p = ForgeEntityTypeEnterprise then gs_EnterpriseID p = ge_ID e else False)"

definition ScaleSet_GetEntity :: "garm_scale_set \<Rightarrow> (string, forge_entity) result" where
  "ScaleSet_GetEntity p =
     (if ScaleSetType p = ForgeEntityTypeRepository then Inr (entity_ref (gs_RepoID p) ForgeEntityTypeRepository)
      else if ScaleSetType p = ForgeEntityTypeOrganization then Inr (entity_ref (gs_OrgID p) ForgeEntityTypeOrganization)
      else if ScaleSetType p = ForgeEntityTypeEnterprise then Inr (entity_ref (gs_EnterpriseID p) ForgeEntityTypeEnterprise)
      else Inl ''scale set has no associated entity'')"

text \<open>\<^verbatim>\<open>GitHubLabels\<close>: the name as the system label, then each further tag name once.\<close>

fun other_labels :: "string list \<Rightarrow> garm_tag list \<Rightarrow> (string \<times> string) list" where
  "other_labels seen [] = []"
| "other_labels seen (t # ts) =
     (if gt_Name t \<in> set seen then other_labels seen ts
      else (gt_Name t, []) # other_labels (gt_Name t # seen) ts)"

definition GitHubLabels :: "garm_scale_set \<Rightarrow> (string \<times> string) list" where
  "GitHubLabels p = (gs_Name p, ''System'') # other_labels [gs_Name p] (gs_Tags p)"

section \<open>Repositories, organizations and enterprises\<close>

record entity_event =
  gev_ID :: nat
  gev_CreatedAt :: int
  gev_EventType :: string
  gev_EventLevel :: string
  gev_Message :: string

record garm_repository =
  gr_ID :: string
  gr_Owner :: string
  gr_Name :: string
  gr_Pools :: "garm_pool list"
  gr_CredentialsName :: string
  gr_CredentialsID :: nat
  gr_Credentials :: forge_credentials
  gr_AgentMode :: bool
  gr_PoolManagerStatus :: pool_manager_status
  gr_PoolBalancerType :: string
  gr_Endpoint :: forge_endpoint
  gr_CreatedAt :: int
  gr_UpdatedAt :: int
  gr_Events :: "entity_event list"
  gr_WebhookSecret :: string

definition Repository_GetEntity :: "garm_repository \<Rightarrow> (string, forge_entity) result" where
  "Repository_GetEntity r =
     (if gr_ID r = [] then Inl ''repository has no ID''
      else Inr \<lparr>ge_Owner = gr_Owner r, ge_Name = gr_Name r, ge_ID = gr_ID r, ge_EntityType = ForgeEntityTypeRepository,
        ge_Credentials = gr_Credentials r, ge_PoolBalancerType = gr_PoolBalancerType r,
        ge_PoolManagerStatus = gr_PoolManagerStatus r, ge_CreatedAt = gr_CreatedAt r, ge_UpdatedAt = gr_UpdatedAt r,
        ge_AgentMode = gr_AgentMode r, ge_WebhookSecret = gr_WebhookSecret r\<rparr>)"

definition Repository_GetCredentialsName :: "garm_repository \<Rightarrow> string" where
  "Repository_GetCredentialsName r =
     (if gr_CredentialsName r \<noteq> [] then gr_CredentialsName r else gk_Name (gr_Credentials r))"

definition Repository_GetBalancerType :: "garm_repository \<Rightarrow> string" where
  "Repository_GetBalancerType r =
     (if gr_PoolBalancerType r = [] then PoolBalancerTypeRoundRobin else gr_PoolBalancerType r)"

definition Repository_String :: "garm_repository \<Rightarrow> string" where
  "Repository_String r = gr_Owner r @ ''/'' @ gr_Name r"

text \<open>Organizations and enterprises have the same fields; their entity has the name as its owner.\<close>

record garm_organization =
  go_ID :: string
  go_Name :: string
  go_Pools :: "garm_pool list"
  go_CredentialsName :: string
  go_Credentials :: forge_credentials
  go_CredentialsID :: nat
  go_PoolManagerStatus :: pool_manager_status
  go_PoolBalancerType :: string
  go_Endpoint :: forge_endpoint
  go_CreatedAt :: int
  go_UpdatedAt :: int
  go_Events :: "entity_event list"
  go_AgentMode :: bool
  go_WebhookSecret :: string

type_synonym garm_enterprise = garm_organization

definition owner_entity :: "string \<Rightarrow> garm_organization \<Rightarrow> forge_entity" where
  "owner_entity ty o' =
     \<lparr>ge_Owner = go_Name o', ge_Name = [], ge_ID = go_ID o', ge_EntityType = ty,
       ge_Credentials = go_Credentials o', ge_PoolBalancerType = go_PoolBalancerType o',
       ge_PoolManagerStatus = go_PoolManagerStatus o', ge_CreatedAt = go_CreatedAt o', ge_UpdatedAt = go_UpdatedAt o',
       ge_AgentMode = go_AgentMode o', ge_WebhookSecret = go_WebhookSecret o'\<rparr>"

definition Organization_GetEntity :: "garm_organization \<Rightarrow> (string, forge_entity) result" where
  "Organization_GetEntity o' =
     (if go_ID o' = [] then Inl ''organization has no ID'' else Inr (owner_entity ForgeEntityTypeOrganization o'))"

definition Enterprise_GetEntity :: "garm_enterprise \<Rightarrow> (string, forge_entity) result" where
  "Enterprise_GetEntity e =
     (if go_ID e = [] then Inl ''enterprise has no ID'' else Inr (owner_entity ForgeEntityTypeEnterprise e))"

definition Organization_GetBalancerType :: "garm_organization \<Rightarrow> string" where
  "Organization_GetBalancerType o' =
     (if go_PoolBalancerType o' = [] then PoolBalancerTypeRoundRobin else go_PoolBalancerType o')"

text \<open>A runner application for download; every field is a pointer.\<close>

record runner_download =
  rd_OS :: "string option"
  rd_Architecture :: "string option"
  rd_DownloadURL :: "string option"
  rd_Filename :: "string option"
  rd_TempDownloadToken :: "string option"
  rd_SHA256Checksum :: "string option"

section \<open>Users, templates and the controller\<close>

record garm_user =
  gu_ID :: string
  gu_CreatedAt :: int
  gu_UpdatedAt :: int
  gu_Email :: string
  gu_Username :: string
  gu_FullName :: string
  gu_Enabled :: bool
  gu_IsAdmin :: bool
  gu_Password :: string
  gu_Generation :: nat

record garm_template =
  gtp_ID :: nat
  gtp_CreatedAt :: int
  gtp_UpdatedAt :: int
  gtp_Name :: string
  gtp_Description :: string
  gtp_OSType :: string
  gtp_ForgeType :: string
  gtp_Data :: bytes
  gtp_Owner :: string

record garm_agent_tool =
  gat_ID :: nat
  gat_Name :: string
  gat_Size :: int
  gat_SHA256SUM :: string
  gat_Description :: string
  gat_CreatedAt :: int
  gat_UpdatedAt :: int
  gat_FileType :: string
  gat_Version :: string
  gat_OSType :: string
  gat_OSArch :: string
  gat_DownloadURL :: string
  gat_Origin :: string
  gat_Source :: string

record controller_info =
  gci_ControllerID :: string
  gci_Hostname :: string
  gci_MetadataURL :: string
  gci_CallbackURL :: string
  gci_WebhookURL :: string
  gci_ControllerWebhookURL :: string
  gci_AgentURL :: string
  gci_GARMAgentReleasesURL :: string
  gci_SyncGARMAgentTools :: bool
  gci_MinimumJobAgeBackoff :: nat
  gci_Version :: string
  gci_CACertBundle :: bytes
  gci_CachedGARMAgentReleaseFetchedAt :: "int option"
  gci_CachedGARMAgentRelease :: bytes
  gci_CachedGARMAgentTools :: "(string \<rightharpoonup> garm_agent_tool) option"

definition JobBackoff :: "controller_info \<Rightarrow> int" where
  "JobBackoff c = (if gci_MinimumJobAgeBackoff c = 0 then 0 else wrap64 (wrap64 (int (gci_MinimumJobAgeBackoff c)) * second))"

definition GetCachedAgentTool :: "int \<Rightarrow> string \<Rightarrow> string \<Rightarrow> controller_info \<Rightarrow> garm_agent_tool option" where
  "GetCachedAgentTool now osType osArch c =
     (case gci_CachedGARMAgentReleaseFetchedAt c of
        None \<Rightarrow> None
      | Some fetched \<Rightarrow>
          if 24 * 3600 * second < time_Sub now fetched then None
          else (case gci_CachedGARMAgentTools c of
                  None \<Rightarrow> None
                | Some tools \<Rightarrow> tools (osType @ ''/'' @ osArch)))"

end
