(* ===== verification/ForgeWatcher.thy ===== *)
theory ForgeWatcher
  imports ForgeParams SqlTable
begin

text \<open>
  The database watcher of garm, \<^verbatim>\<open>ci/runners/garm/database/watcher\<close>: change payloads, the filters a
  consumer sets, and how a payload gets from the producer through the goroutines that send it to
  the consumers' channels of capacity one.
\<close>

datatype garm_payload =
    PRepository garm_repository | POrganization garm_organization | PEnterprise garm_enterprise
  | PPool garm_pool | PScaleSet garm_scale_set | PInstance garm_instance | PJob garm_job | PUser garm_user
  | PCredentials forge_credentials | PEndpoint forge_endpoint | PTemplate garm_template
  | PController controller_info | POther string

abbreviation RepositoryEntityType :: string where "RepositoryEntityType \<equiv> ''repository''"
abbreviation OrganizationEntityType :: string where "OrganizationEntityType \<equiv> ''organization''"
abbreviation EnterpriseEntityType :: string where "EnterpriseEntityType \<equiv> ''enterprise''"
abbreviation PoolEntityType :: string where "PoolEntityType \<equiv> ''pool''"
abbreviation UserEntityType :: string where "UserEntityType \<equiv> ''user''"
abbreviation InstanceEntityType :: string where "InstanceEntityType \<equiv> ''instance''"
abbreviation JobEntityType :: string where "JobEntityType \<equiv> ''job''"
abbreviation ControllerEntityType :: string where "ControllerEntityType \<equiv> ''controller''"
abbreviation GithubCredentialsEntityType :: string where "GithubCredentialsEntityType \<equiv> ''github_credentials''"
abbreviation GiteaCredentialsEntityType :: string where "GiteaCredentialsEntityType \<equiv> ''gitea_credentials''"
abbreviation GithubEndpointEntityType :: string where "GithubEndpointEntityType \<equiv> ''github_endpoint''"
abbreviation ScaleSetEntityType :: string where "ScaleSetEntityType \<equiv> ''scaleset''"
abbreviation TemplateEntityType :: string where "TemplateEntityType \<equiv> ''template''"
abbreviation FileObjectEntityType :: string where "FileObjectEntityType \<equiv> ''file_object''"

datatype operation_type = CreateOperation | UpdateOperation | DeleteOperation

record change_payload =
  chp_EntityType :: string
  chp_Operation :: operation_type
  chp_Payload :: garm_payload

type_synonym payload_filter = "change_payload \<Rightarrow> bool"

section \<open>Filters\<close>

definition WithAny :: "payload_filter list \<Rightarrow> payload_filter" where
  "WithAny fs p \<longleftrightarrow> list_ex (\<lambda>f. f p) fs"

definition WithAll :: "payload_filter list \<Rightarrow> payload_filter" where
  "WithAll fs p \<longleftrightarrow> list_all (\<lambda>f. f p) fs"

definition WithEntityTypeFilter :: "string \<Rightarrow> payload_filter" where
  "WithEntityTypeFilter ty p \<longleftrightarrow> chp_EntityType p = ty"

definition WithOperationTypeFilter :: "operation_type \<Rightarrow> payload_filter" where
  "WithOperationTypeFilter op p \<longleftrightarrow> chp_Operation p = op"

text \<open>Does the owner's id of a pool or scale set match the entity, by the entity's type?\<close>

definition owner_matches :: "forge_entity \<Rightarrow> string \<Rightarrow> string \<Rightarrow> string \<Rightarrow> bool" where
  "owner_matches e repoID orgID enterpriseID \<longleftrightarrow>
     (if ge_EntityType e = ForgeEntityTypeRepository then repoID = ge_ID e
      else if ge_EntityType e = ForgeEntityTypeOrganization then orgID = ge_ID e
      else if ge_EntityType e = ForgeEntityTypeEnterprise then enterpriseID = ge_ID e
      else False)"

definition WithEntityPoolFilter :: "forge_entity \<Rightarrow> payload_filter" where
  "WithEntityPoolFilter e p \<longleftrightarrow>
     chp_EntityType p = PoolEntityType
     \<and> (case chp_Payload p of PPool q \<Rightarrow> owner_matches e (gp_RepoID q) (gp_OrgID q) (gp_EnterpriseID q) | _ \<Rightarrow> False)"

definition WithEntityScaleSetFilter :: "forge_entity \<Rightarrow> payload_filter" where
  "WithEntityScaleSetFilter e p \<longleftrightarrow>
     (case GetForgeType e of
        Inl _ \<Rightarrow> False
      | Inr ty \<Rightarrow> ty \<noteq> GiteaEndpointType \<and> chp_EntityType p = ScaleSetEntityType
          \<and> (case chp_Payload p of PScaleSet q \<Rightarrow> owner_matches e (gs_RepoID q) (gs_OrgID q) (gs_EnterpriseID q)
              | _ \<Rightarrow> False))"

definition WithEntityFilter :: "forge_entity \<Rightarrow> payload_filter" where
  "WithEntityFilter e p \<longleftrightarrow>
     chp_EntityType p = ge_EntityType e
     \<and> (if chp_EntityType p = RepositoryEntityType
        then (case chp_Payload p of PRepository r \<Rightarrow> gr_ID r = ge_ID e | _ \<Rightarrow> False)
        else if chp_EntityType p = OrganizationEntityType
        then (case chp_Payload p of POrganization r \<Rightarrow> go_ID r = ge_ID e | _ \<Rightarrow> False)
        else if chp_EntityType p = EnterpriseEntityType
        then (case chp_Payload p of PEnterprise r \<Rightarrow> go_ID r = ge_ID e | _ \<Rightarrow> False)
        else False)"

definition WithEntityJobFilter :: "forge_entity \<Rightarrow> payload_filter" where
  "WithEntityJobFilter e p \<longleftrightarrow>
     chp_EntityType p = JobEntityType
     \<and> (case chp_Payload p of
          PJob j \<Rightarrow> (if ge_EntityType e = ForgeEntityTypeRepository then gj_RepoID j = Some (ge_ID e)
                     else if ge_EntityType e = ForgeEntityTypeOrganization then gj_OrgID j = Some (ge_ID e)
                     else if ge_EntityType e = ForgeEntityTypeEnterprise then gj_EnterpriseID j = Some (ge_ID e)
                     else False)
        | _ \<Rightarrow> False)"

definition WithForgeCredentialsFilter :: "forge_credentials \<Rightarrow> payload_filter" where
  "WithForgeCredentialsFilter creds p \<longleftrightarrow>
     chp_EntityType p \<in> {GithubCredentialsEntityType, GiteaCredentialsEntityType}
     \<and> (case chp_Payload p of
          PCredentials k \<Rightarrow> gk_ForgeType k = gk_ForgeType creds \<and> gk_ID k = gk_ID creds | _ \<Rightarrow> False)"

definition WithUserIDFilter :: "string \<Rightarrow> payload_filter" where
  "WithUserIDFilter uid p \<longleftrightarrow>
     chp_EntityType p = UserEntityType \<and> (case chp_Payload p of PUser u \<Rightarrow> gu_ID u = uid | _ \<Rightarrow> False)"

definition WithNone :: payload_filter where
  "WithNone p \<longleftrightarrow> False"

definition WithEverything :: payload_filter where
  "WithEverything p \<longleftrightarrow> True"

definition WithExcludeEntityTypeFilter :: "string \<Rightarrow> payload_filter" where
  "WithExcludeEntityTypeFilter ty p \<longleftrightarrow> chp_EntityType p \<noteq> ty"

definition WithScaleSetFilter :: "garm_scale_set \<Rightarrow> payload_filter" where
  "WithScaleSetFilter ss p \<longleftrightarrow>
     chp_EntityType p = ScaleSetEntityType \<and> (case chp_Payload p of PScaleSet q \<Rightarrow> gs_ID q = gs_ID ss | _ \<Rightarrow> False)"

definition WithScaleSetInstanceFilter :: "garm_scale_set \<Rightarrow> payload_filter" where
  "WithScaleSetInstanceFilter ss p \<longleftrightarrow>
     chp_EntityType p = InstanceEntityType
     \<and> (case chp_Payload p of PInstance i \<Rightarrow> gi_ScaleSetID i \<noteq> 0 \<and> gi_ScaleSetID i = gs_ID ss | _ \<Rightarrow> False)"

definition WithEntityTypeAndCallbackFilter :: "string \<Rightarrow> (change_payload \<Rightarrow> (string, bool) result) \<Rightarrow> payload_filter" where
  "WithEntityTypeAndCallbackFilter ty callback p \<longleftrightarrow> chp_EntityType p = ty \<and> callback p = Inr True"

definition WithInstanceStatusFilter :: "string list \<Rightarrow> payload_filter" where
  "WithInstanceStatusFilter statuses p \<longleftrightarrow>
     chp_EntityType p = InstanceEntityType \<and> (case chp_Payload p of PInstance i \<Rightarrow> gi_Status i \<in> set statuses | _ \<Rightarrow> False)"

definition WithInstanceFilter :: "garm_instance \<Rightarrow> payload_filter" where
  "WithInstanceFilter inst p \<longleftrightarrow>
     chp_EntityType p = InstanceEntityType \<and> (case chp_Payload p of PInstance i \<Rightarrow> gi_Name i = gi_Name inst | _ \<Rightarrow> False)"

section \<open>Producers and consumers\<close>

text \<open>
  A consumer with the payloads other goroutines are about to send to it. Each holds the consumer's
  mutex while it sends, and which of them gets it first is up to the scheduler.
\<close>

record garm_consumer =
  gc_id :: string
  gc_filters :: "payload_filter list"
  gc_messages :: "change_payload list"
  gc_closed :: bool
  gc_senders :: "change_payload list"

record garm_producer =
  gpr_id :: string
  gpr_messages :: "change_payload list"
  gpr_closed :: bool

record garm_watcher =
  gw_producers :: "garm_producer list"
  gw_consumers :: "garm_consumer list"
  gw_closed :: bool

datatype watcher_error = ErrProducerAlreadyRegistered | ErrConsumerAlreadyRegistered | ErrProducerClosed
  | ErrProducerTimeoutErr

definition RegisterProducer :: "string \<Rightarrow> garm_watcher \<Rightarrow> watcher_error option \<times> garm_watcher" where
  "RegisterProducer i w =
     (if tbl_find gpr_id i (gw_producers w) \<noteq> None then (Some ErrProducerAlreadyRegistered, w)
      else (None, w\<lparr>gw_producers := tbl_upsert gpr_id \<lparr>gpr_id = i, gpr_messages = [], gpr_closed = False\<rparr> (gw_producers w)\<rparr>))"

definition RegisterConsumer :: "string \<Rightarrow> payload_filter list \<Rightarrow> garm_watcher \<Rightarrow> watcher_error option \<times> garm_watcher" where
  "RegisterConsumer i fs w =
     (if tbl_find gc_id i (gw_consumers w) \<noteq> None then (Some ErrConsumerAlreadyRegistered, w)
      else (None, w\<lparr>gw_consumers := tbl_upsert gc_id
        \<lparr>gc_id = i, gc_filters = fs, gc_messages = [], gc_closed = False, gc_senders = []\<rparr> (gw_consumers w)\<rparr>))"

text \<open>\<^verbatim>\<open>producer.Notify\<close>: a full channel makes the call wait a second and then give up.\<close>

definition producer_Notify :: "change_payload \<Rightarrow> garm_producer \<Rightarrow> watcher_error option \<times> garm_producer" where
  "producer_Notify p pr =
     (if gpr_closed pr then (Some ErrProducerClosed, pr)
      else if gpr_messages pr \<noteq> [] then (Some ErrProducerTimeoutErr, pr)
      else (None, pr\<lparr>gpr_messages := [p]\<rparr>))"

text \<open>\<^verbatim>\<open>serviceProducer\<close> takes a payload and starts a goroutine for every consumer.\<close>

definition serviceProducer :: "string \<Rightarrow> garm_watcher \<Rightarrow> garm_watcher" where
  "serviceProducer i w =
     (case tbl_find gpr_id i (gw_producers w) of
        None \<Rightarrow> w
      | Some pr \<Rightarrow>
          (case gpr_messages pr of
             [] \<Rightarrow> w
           | p # ps \<Rightarrow> w\<lparr>gw_producers := tbl_update gpr_id i (\<lambda>pr. pr\<lparr>gpr_messages := tl (gpr_messages pr)\<rparr>) (gw_producers w),
                          gw_consumers := map (\<lambda>c. c\<lparr>gc_senders := gc_senders c @ [p]\<rparr>) (gw_consumers w)\<rparr>))"

definition wants :: "garm_consumer \<Rightarrow> change_payload \<Rightarrow> bool" where
  "wants c p \<longleftrightarrow> \<not> gc_closed c \<and> (gc_filters c = [] \<or> list_all (\<lambda>f. f p) (gc_filters c))"

definition drop_nth :: "nat \<Rightarrow> 'a list \<Rightarrow> 'a list" where
  "drop_nth n xs = take n xs @ drop (Suc n) xs"

text \<open>
  \<^verbatim>\<open>consumer.Send\<close> by the n-th of the goroutines: dropped when closed or filtered out, sent when the
  channel has room, and otherwise dropped after a second.
\<close>

definition consumer_Send :: "nat \<Rightarrow> garm_consumer \<Rightarrow> garm_consumer" where
  "consumer_Send n c =
     (if length (gc_senders c) \<le> n then c
      else (let p = gc_senders c ! n; c' = c\<lparr>gc_senders := drop_nth n (gc_senders c)\<rparr> in
            if wants c p \<and> gc_messages c = [] then c'\<lparr>gc_messages := [p]\<rparr> else c'))"

definition consumer_receive :: "garm_consumer \<Rightarrow> change_payload option \<times> garm_consumer" where
  "consumer_receive c = (case gc_messages c of [] \<Rightarrow> (None, c) | p # ps \<Rightarrow> (Some p, c\<lparr>gc_messages := ps\<rparr>))"

definition consumer_Close :: "garm_consumer \<Rightarrow> garm_consumer" where
  "consumer_Close c = c\<lparr>gc_closed := True\<rparr>"

definition SetFilters :: "payload_filter list \<Rightarrow> garm_consumer \<Rightarrow> garm_consumer" where
  "SetFilters fs c = c\<lparr>gc_filters := fs\<rparr>"

definition watcher_Close :: "garm_watcher \<Rightarrow> garm_watcher" where
  "watcher_Close w =
     (if gw_closed w then w
      else w\<lparr>gw_closed := True, gw_producers := map (\<lambda>p. p\<lparr>gpr_closed := True\<rparr>) (gw_producers w),
             gw_consumers := map consumer_Close (gw_consumers w)\<rparr>)"

end
