(* ===== verification/ForgeDb.thy ===== *)
theory ForgeDb
  imports ForgeWatcher
begin

text \<open>
  The database of the garm runner manager, \<^verbatim>\<open>ci/runners/garm/database/sql\<close>: the tables of pools,
  instances, tags and entities, the conversion of rows to the types of \<^verbatim>\<open>params\<close>, every operation
  on instances, and the payloads the operations hand to the watcher. A JSON column is its decoded
  value. Parsing of UUIDs, encryption, the clock, fresh ids and the fate of a statement are arguments.
\<close>

section \<open>Rows\<close>

record instance_model =
  im_ID :: string
  im_CreatedAt :: int
  im_UpdatedAt :: int
  im_ProviderID :: "string option"
  im_Name :: string
  im_AgentID :: int
  im_OSType :: string
  im_OSArch :: string
  im_OSName :: string
  im_OSVersion :: string
  im_Addresses :: "garm_address list"
  im_Status :: string
  im_RunnerStatus :: string
  im_Heartbeat :: int
  im_CallbackURL :: string
  im_MetadataURL :: string
  im_ProviderFault :: bytes
  im_CreateAttempt :: int
  im_TokenFetched :: bool
  im_JitConfiguration :: bytes
  im_GitHubRunnerGroup :: string
  im_AditionalLabels :: "string list"
  im_Capabilities :: "bool option"
  im_Generation :: "64 word"
  im_PoolID :: "string option"
  im_ScaleSetFkID :: "nat option"
  im_StatusMessages :: "(nat \<times> status_message) list"
  im_Job :: "garm_job option"

record pool_model =
  pm_ID :: string
  pm_CreatedAt :: int
  pm_UpdatedAt :: int
  pm_ProviderName :: string
  pm_RunnerPrefix :: string
  pm_MaxRunners :: nat
  pm_MinIdleRunners :: nat
  pm_RunnerBootstrapTimeout :: nat
  pm_Image :: string
  pm_Flavor :: string
  pm_OSType :: string
  pm_OSArch :: string
  pm_Tags :: "garm_tag list"
  pm_Enabled :: bool
  pm_ExtraSpecs :: bytes
  pm_GitHubRunnerGroup :: string
  pm_EnableShell :: bool
  pm_Generation :: "64 word"
  pm_RepoID :: "string option"
  pm_OrgID :: "string option"
  pm_EnterpriseID :: "string option"
  pm_TemplateID :: "nat option"
  pm_Priority :: nat

text \<open>What the joins of pools and instances read of the other tables.\<close>

record entity_model =
  em_ID :: string
  em_Type :: string
  em_Owner :: string
  em_Name :: string
  em_Endpoint :: forge_endpoint

record garm_db =
  gd_instances :: "instance_model list"
  gd_pools :: "pool_model list"
  gd_tags :: "garm_tag list"
  gd_entities :: "entity_model list"
  gd_scalesets :: "(nat \<times> string) list"
  gd_templates :: "(nat \<times> string) list"
  gd_sent :: "change_payload list"

text \<open>
  One call's surroundings: the clock, the ids the row hooks draw, the parser of UUIDs, sealing
  of secrets, whether the write is refused, and whether the producer takes the payload.
\<close>

record db_env =
  de_now :: int
  de_newID :: string
  de_newSerial :: nat
  de_uuid :: "string \<Rightarrow> string option"
  de_seal :: "(string \<times> string) list \<Rightarrow> (string, bytes) result"
  de_unseal :: "bytes \<Rightarrow> (string, (string \<times> string) list) result"
  de_refused :: "string option"
  de_notified :: bool

datatype garm_db_error = GNotFound | GBadRequest string | GConflict string | GDbError string

definition sendNotify :: "db_env \<Rightarrow> string \<Rightarrow> operation_type \<Rightarrow> garm_payload \<Rightarrow> garm_db \<Rightarrow> garm_db" where
  "sendNotify env ty op p db =
     (if de_notified env
      then db\<lparr>gd_sent := gd_sent db @ [\<lparr>chp_EntityType = ty, chp_Operation = op, chp_Payload = p\<rparr>]\<rparr>
      else db)"

section \<open>Conversion of instances\<close>

definition provider_of_pool :: "garm_db \<Rightarrow> string \<Rightarrow> string" where
  "provider_of_pool db i = (case tbl_find pm_ID i (gd_pools db) of None \<Rightarrow> [] | Some p \<Rightarrow> pm_ProviderName p)"

definition provider_of_scale_set :: "garm_db \<Rightarrow> nat \<Rightarrow> string" where
  "provider_of_scale_set db i = (case tbl_find fst i (gd_scalesets db) of None \<Rightarrow> [] | Some p \<Rightarrow> snd p)"

definition some_str :: "string option \<Rightarrow> string" where
  "some_str o' = (case o' of None \<Rightarrow> [] | Some s \<Rightarrow> s)"

definition jit_of :: "db_env \<Rightarrow> bytes \<Rightarrow> (string, (string \<times> string) list) result" where
  "jit_of env b = (if b = [] then Inr [] else de_unseal env b)"

definition base_instance :: "garm_db \<Rightarrow> instance_model \<Rightarrow> (string \<times> string) list \<Rightarrow> garm_instance" where
  "base_instance db m jit =
     \<lparr>gi_ID = im_ID m, gi_ProviderID = some_str (im_ProviderID m),
      gi_ProviderName =
        (case im_PoolID m of
           Some p \<Rightarrow> provider_of_pool db p
         | None \<Rightarrow> (case im_ScaleSetFkID m of Some s \<Rightarrow> provider_of_scale_set db s | None \<Rightarrow> [])),
      gi_AgentID = im_AgentID m, gi_Name = im_Name m, gi_OSType = im_OSType m, gi_OSName = im_OSName m,
      gi_OSVersion = im_OSVersion m, gi_OSArch = im_OSArch m, gi_Addresses = im_Addresses m,
      gi_Status = im_Status m, gi_RunnerStatus = im_RunnerStatus m,
      gi_PoolID = some_str (im_PoolID m),
      gi_ScaleSetID = (case im_ScaleSetFkID m of None \<Rightarrow> 0 | Some s \<Rightarrow> s),
      gi_ProviderFault = im_ProviderFault m, gi_StatusMessages = map snd (im_StatusMessages m),
      gi_CreatedAt = im_CreatedAt m, gi_UpdatedAt = im_UpdatedAt m, gi_GitHubRunnerGroup = im_GitHubRunnerGroup m,
      gi_Job = im_Job m, gi_Heartbeat = im_Heartbeat m,
      gi_HasShell = (case im_Capabilities m of None \<Rightarrow> False | Some b \<Rightarrow> b),
      gi_Generation = im_Generation m, gi_CallbackURL = im_CallbackURL m, gi_MetadataURL = im_MetadataURL m,
      gi_CreateAttempt = im_CreateAttempt m, gi_TokenFetched = im_TokenFetched m,
      gi_AditionalLabels = im_AditionalLabels m, gi_JitConfiguration = jit\<rparr>"

definition sqlToParamsInstance :: "db_env \<Rightarrow> garm_db \<Rightarrow> instance_model \<Rightarrow> (garm_db_error, garm_instance) result" where
  "sqlToParamsInstance env db m =
     (case jit_of env (im_JitConfiguration m) of
        Inl e \<Rightarrow> Inl (GDbError e)
      | Inr jit \<Rightarrow>
          (let ret = base_instance db m jit in
           if gi_ScaleSetID ret = 0 \<and> gi_PoolID ret = [] then Inl (GDbError ''missing pool or scale set id'')
           else if gi_ScaleSetID ret \<noteq> 0 \<and> gi_PoolID ret \<noteq> [] then Inl (GDbError ''both pool and scale set ids are set'')
           else Inr ret))"

section \<open>Reading instances\<close>

definition getPoolByID :: "db_env \<Rightarrow> string \<Rightarrow> garm_db \<Rightarrow> (garm_db_error, pool_model) result" where
  "getPoolByID env i db =
     (case de_uuid env i of
        None \<Rightarrow> Inl (GBadRequest ''error parsing id'')
      | Some u \<Rightarrow> (case tbl_find pm_ID u (gd_pools db) of None \<Rightarrow> Inl GNotFound | Some p \<Rightarrow> Inr p))"

text \<open>An argument that parses as a UUID is looked up as the id, any other as the name.\<close>

definition getInstance :: "db_env \<Rightarrow> string \<Rightarrow> garm_db \<Rightarrow> (garm_db_error, instance_model) result" where
  "getInstance env s db =
     (case (case de_uuid env s of
              Some u \<Rightarrow> tbl_find im_ID u (gd_instances db)
            | None \<Rightarrow> tbl_find im_Name s (gd_instances db)) of
        None \<Rightarrow> Inl GNotFound
      | Some m \<Rightarrow> Inr m)"

definition GetInstance :: "db_env \<Rightarrow> string \<Rightarrow> garm_db \<Rightarrow> (garm_db_error, garm_instance) result" where
  "GetInstance env s db =
     (case getInstance env s db of Inl e \<Rightarrow> Inl e | Inr m \<Rightarrow> sqlToParamsInstance env db m)"

definition getPoolInstanceByName :: "db_env \<Rightarrow> string \<Rightarrow> string \<Rightarrow> garm_db \<Rightarrow> (garm_db_error, instance_model) result" where
  "getPoolInstanceByName env poolID name db =
     (case getPoolByID env poolID db of
        Inl e \<Rightarrow> Inl e
      | Inr p \<Rightarrow>
          (case find (\<lambda>m. im_Name m = name \<and> im_PoolID m = Some (pm_ID p)) (gd_instances db) of
             None \<Rightarrow> Inl GNotFound
           | Some m \<Rightarrow> Inr m))"

fun convert_all :: "db_env \<Rightarrow> garm_db \<Rightarrow> instance_model list \<Rightarrow> (garm_db_error, garm_instance list) result" where
  "convert_all env db [] = Inr []"
| "convert_all env db (m # ms) =
     (case sqlToParamsInstance env db m of
        Inl e \<Rightarrow> Inl e
      | Inr i \<Rightarrow> (case convert_all env db ms of Inl e \<Rightarrow> Inl e | Inr is \<Rightarrow> Inr (i # is)))"

text \<open>
  The batches of a listing, read at increasing offsets in one transaction, are one pass. A listing
  loads neither the addresses nor the status messages of an instance.
\<close>

definition listed_instance :: "instance_model \<Rightarrow> instance_model" where
  "listed_instance m = m\<lparr>im_Addresses := [], im_StatusMessages := []\<rparr>"

definition listInstancesBatched ::
    "db_env \<Rightarrow> (instance_model \<Rightarrow> bool) \<Rightarrow> garm_db \<Rightarrow> (garm_db_error, garm_instance list) result" where
  "listInstancesBatched env P db = convert_all env db (map listed_instance (filter P (gd_instances db)))"

definition outdated :: "garm_db \<Rightarrow> instance_model \<Rightarrow> bool" where
  "outdated db m \<longleftrightarrow>
     (case im_PoolID m of
        None \<Rightarrow> False
      | Some i \<Rightarrow> (case tbl_find pm_ID i (gd_pools db) of None \<Rightarrow> False | Some p \<Rightarrow> im_Generation m < pm_Generation p))"

definition ListPoolInstances :: "db_env \<Rightarrow> string \<Rightarrow> bool \<Rightarrow> garm_db \<Rightarrow> (garm_db_error, garm_instance list) result" where
  "ListPoolInstances env poolID outdatedOnly db =
     (case de_uuid env poolID of
        None \<Rightarrow> Inl (GBadRequest ''error parsing id'')
      | Some u \<Rightarrow> listInstancesBatched env
          (\<lambda>m. im_PoolID m = Some u \<and> (outdatedOnly \<longrightarrow> outdated db m)) db)"

definition ListAllInstances :: "db_env \<Rightarrow> garm_db \<Rightarrow> (garm_db_error, garm_instance list) result" where
  "ListAllInstances env db = listInstancesBatched env (\<lambda>_. True) db"

definition PoolInstanceCount :: "db_env \<Rightarrow> string \<Rightarrow> garm_db \<Rightarrow> (garm_db_error, nat) result" where
  "PoolInstanceCount env poolID db =
     (case getPoolByID env poolID db of
        Inl e \<Rightarrow> Inl e
      | Inr p \<Rightarrow> Inr (length (filter (\<lambda>m. im_PoolID m = Some (pm_ID p)) (gd_instances db))))"

section \<open>Creating and deleting instances\<close>

record create_instance_params =
  cip_Name :: string
  cip_OSType :: string
  cip_OSArch :: string
  cip_Status :: string
  cip_RunnerStatus :: string
  cip_CallbackURL :: string
  cip_MetadataURL :: string
  cip_GitHubRunnerGroup :: string
  cip_AgentID :: int
  cip_AditionalLabels :: "string list"
  cip_JitConfiguration :: "(string \<times> string) list"
  cip_Generation :: "64 word"

definition new_instance_model :: "db_env \<Rightarrow> pool_model \<Rightarrow> create_instance_params \<Rightarrow> bytes \<Rightarrow> instance_model" where
  "new_instance_model env p param secret =
     \<lparr>im_ID = de_newID env, im_CreatedAt = de_now env, im_UpdatedAt = de_now env, im_ProviderID = None,
      im_Name = cip_Name param, im_AgentID = cip_AgentID param, im_OSType = cip_OSType param,
      im_OSArch = cip_OSArch param, im_OSName = [], im_OSVersion = [], im_Addresses = [],
      im_Status = cip_Status param, im_RunnerStatus = cip_RunnerStatus param, im_Heartbeat = time_zero,
      im_CallbackURL = cip_CallbackURL param, im_MetadataURL = cip_MetadataURL param, im_ProviderFault = [],
      im_CreateAttempt = 0, im_TokenFetched = False, im_JitConfiguration = secret,
      im_GitHubRunnerGroup = cip_GitHubRunnerGroup param, im_AditionalLabels = cip_AditionalLabels param,
      im_Capabilities = None, im_Generation = cip_Generation param, im_PoolID = Some (pm_ID p),
      im_ScaleSetFkID = None, im_StatusMessages = [], im_Job = None\<rparr>"

definition insert_instance :: "db_env \<Rightarrow> instance_model \<Rightarrow> garm_db \<Rightarrow> (garm_db_error, garm_db) result" where
  "insert_instance env m db =
     (case de_refused env of
        Some e \<Rightarrow> Inl (GDbError e)
      | None \<Rightarrow>
          if im_Name m \<in> im_Name ` set (gd_instances db) \<or> im_ID m \<in> im_ID ` set (gd_instances db)
          then Inl (GDbError ''UNIQUE constraint failed'')
          else Inr (db\<lparr>gd_instances := gd_instances db @ [m]\<rparr>))"

definition seal_jit :: "db_env \<Rightarrow> (string \<times> string) list \<Rightarrow> (string, bytes) result" where
  "seal_jit env jit = (if jit = [] then Inr [] else de_seal env jit)"

definition create_in_pool :: "db_env \<Rightarrow> pool_model \<Rightarrow> create_instance_params \<Rightarrow> garm_db \<Rightarrow> (garm_db_error, garm_db) result" where
  "create_in_pool env p param db =
     (if min (2 ^ 63 - 1) (int (pm_MaxRunners p)) \<le> int (length (filter (\<lambda>m. im_PoolID m = Some (pm_ID p)) (gd_instances db)))
      then Inl (GConflict (''max runners reached for pool '' @ pm_ID p))
      else (case seal_jit env (cip_JitConfiguration param) of
              Inl e \<Rightarrow> Inl (GDbError e)
            | Inr secret \<Rightarrow> insert_instance env (new_instance_model env p param secret) db))"

definition CreateInstance :: "db_env \<Rightarrow> string \<Rightarrow> create_instance_params \<Rightarrow> garm_db \<Rightarrow>
    (garm_db_error, garm_instance) result \<times> garm_db" where
  "CreateInstance env poolID param db =
     (case getPoolByID env poolID db of
        Inl e \<Rightarrow> (Inl e, db)
      | Inr p \<Rightarrow>
          (case create_in_pool env p param db of
             Inl e \<Rightarrow> (Inl e, db)
           | Inr db' \<Rightarrow>
               (case GetInstance env (cip_Name param) db' of
                  Inl e \<Rightarrow> (Inl e, db')
                | Inr i \<Rightarrow> (Inr i, sendNotify env InstanceEntityType CreateOperation (PInstance i) db'))))"

text \<open>The payload of a deletion names the instance and little else.\<close>

definition deleted_instance :: "instance_model \<Rightarrow> string \<Rightarrow> nat \<Rightarrow> garm_instance" where
  "deleted_instance m poolID ssID =
     \<lparr>gi_ID = im_ID m, gi_ProviderID = some_str (im_ProviderID m), gi_ProviderName = [], gi_AgentID = im_AgentID m,
      gi_Name = im_Name m, gi_OSType = [], gi_OSName = [], gi_OSVersion = [], gi_OSArch = [], gi_Addresses = [],
      gi_Status = [], gi_RunnerStatus = [], gi_PoolID = poolID, gi_ScaleSetID = ssID, gi_ProviderFault = [],
      gi_StatusMessages = [], gi_CreatedAt = time_zero, gi_UpdatedAt = time_zero, gi_GitHubRunnerGroup = [],
      gi_Job = None, gi_Heartbeat = time_zero, gi_HasShell = False, gi_Generation = 0, gi_CallbackURL = [],
      gi_MetadataURL = [], gi_CreateAttempt = 0, gi_TokenFetched = False, gi_AditionalLabels = [],
      gi_JitConfiguration = []\<rparr>"

definition DeleteInstance :: "db_env \<Rightarrow> string \<Rightarrow> string \<Rightarrow> garm_db \<Rightarrow> garm_db_error option \<times> garm_db" where
  "DeleteInstance env poolID name db =
     (case getPoolInstanceByName env poolID name db of
        Inl GNotFound \<Rightarrow> (None, db)
      | Inl e \<Rightarrow> (Some e, db)
      | Inr m \<Rightarrow>
          (case de_refused env of
             Some e \<Rightarrow> (Some (GDbError e), db)
           | None \<Rightarrow>
               (let payload = (case im_PoolID m of
                      Some p \<Rightarrow> deleted_instance m p 0
                    | None \<Rightarrow> deleted_instance m [] (case im_ScaleSetFkID m of None \<Rightarrow> 0 | Some s \<Rightarrow> s));
                    db' = db\<lparr>gd_instances := tbl_delete im_ID (im_ID m) (gd_instances db)\<rparr>
                in (None, sendNotify env InstanceEntityType DeleteOperation (PInstance payload) db'))))"

text \<open>
  \<^verbatim>\<open>DeleteInstanceByName\<close>: the deferred function looks at the \<^verbatim>\<open>err\<close> of the lookup, so the deletion is
  announced even when the statement fails and an error is returned.
\<close>

definition DeleteInstanceByName :: "db_env \<Rightarrow> string \<Rightarrow> garm_db \<Rightarrow> garm_db_error option \<times> garm_db" where
  "DeleteInstanceByName env name db =
     (case getInstance env name db of
        Inl GNotFound \<Rightarrow> (None, db)
      | Inl e \<Rightarrow> (Some e, db)
      | Inr m \<Rightarrow>
          (let payload = deleted_instance m (some_str (im_PoolID m)) (case im_ScaleSetFkID m of None \<Rightarrow> 0 | Some s \<Rightarrow> s);
               notify = sendNotify env InstanceEntityType DeleteOperation (PInstance payload)
           in case de_refused env of
                Some e \<Rightarrow> (Some (GDbError e), notify db)
              | None \<Rightarrow> (None, notify (db\<lparr>gd_instances := tbl_delete im_ID (im_ID m) (gd_instances db)\<rparr>))))"

text \<open>
  At most thirty status messages are kept, those with the greatest ids. The id of a message is a random
  UUID; the natural number that stands for it here is its place in the order of UUIDs.
\<close>

definition maxStatusMessages :: nat where
  "maxStatusMessages = 30"

definition trim_messages :: "(nat \<times> status_message) list \<Rightarrow> (nat \<times> status_message) list" where
  "trim_messages ms =
     (if maxStatusMessages < length ms
      then (let cutoff = rev (sort (map fst ms)) ! (maxStatusMessages - 1) in filter (\<lambda>m. cutoff \<le> fst m) ms)
      else ms)"

definition AddInstanceEvent :: "db_env \<Rightarrow> string \<Rightarrow> string \<Rightarrow> string \<Rightarrow> string \<Rightarrow> garm_db \<Rightarrow> garm_db_error option \<times> garm_db" where
  "AddInstanceEvent env name event level message db =
     (case getInstance env name db of
        Inl e \<Rightarrow> (Some e, db)
      | Inr m \<Rightarrow>
          (case de_refused env of
             Some e \<Rightarrow> (Some (GDbError e), db)
           | None \<Rightarrow>
               (let msg = \<lparr>gsm_CreatedAt = de_now env, gsm_Message = message, gsm_EventType = event, gsm_EventLevel = level\<rparr>
                in (None, db\<lparr>gd_instances := tbl_update im_ID (im_ID m)
                     (\<lambda>m. m\<lparr>im_StatusMessages := trim_messages (im_StatusMessages m @ [(de_newSerial env, msg)])\<rparr>)
                     (gd_instances db)\<rparr>))))"

section \<open>Updating instances\<close>

record update_instance_params =
  uip_ProviderID :: string
  uip_OSName :: string
  uip_OSVersion :: string
  uip_Addresses :: "garm_address list"
  uip_Status :: string
  uip_RunnerStatus :: string
  uip_ProviderFault :: bytes
  uip_Heartbeat :: "int option"
  uip_AgentID :: int
  uip_CreateAttempt :: int
  uip_TokenFetched :: "bool option"
  uip_JitConfiguration :: "(string \<times> string) list option"
  uip_Capabilities :: "bool option"

definition validateAgentID :: "int \<Rightarrow> int \<Rightarrow> garm_db_error option" where
  "validateAgentID current new =
     (if current \<noteq> 0 \<and> new \<noteq> 0 \<and> current \<noteq> new then Some (GBadRequest ''agent ID mismatch'') else None)"

definition validate_transition :: "string \<Rightarrow> (string \<times> string list) list \<Rightarrow> string \<Rightarrow> string \<Rightarrow> garm_db_error option" where
  "validate_transition what table current new =
     (if new = [] \<or> new = current then None
      else case map_of table current of
             None \<Rightarrow> Some (GDbError (''Instance is in invalid state: '' @ current))
           | Some allowed \<Rightarrow>
               if new \<in> set allowed then None
               else Some (GBadRequest (''invalid '' @ what @ '' status transition from '' @ current @ '' to '' @ new)))"

definition validateRunnerStatusTransition :: "string \<Rightarrow> string \<Rightarrow> garm_db_error option" where
  "validateRunnerStatusTransition = validate_transition ''runner'' RunnerStatusTransitions"

definition validateInstanceStatusTransition :: "string \<Rightarrow> string \<Rightarrow> garm_db_error option" where
  "validateInstanceStatusTransition = validate_transition ''instance'' InstanceStatusTransitions"

definition keep_if :: "bool \<Rightarrow> 'a \<Rightarrow> 'a \<Rightarrow> 'a" where
  "keep_if b old new = (if b then old else new)"

definition or_old :: "'a option \<Rightarrow> 'a \<Rightarrow> 'a" where
  "or_old o' old = (case o' of None \<Rightarrow> old | Some x \<Rightarrow> x)"

definition applyInstanceUpdates :: "db_env \<Rightarrow> update_instance_params \<Rightarrow> instance_model \<Rightarrow> (garm_db_error, instance_model) result" where
  "applyInstanceUpdates env p m =
     (case (case uip_JitConfiguration p of None \<Rightarrow> Inr (im_JitConfiguration m) | Some jit \<Rightarrow> de_seal env jit) of
        Inl e \<Rightarrow> Inl (GDbError e)
      | Inr secret \<Rightarrow> Inr (m\<lparr>
          im_AgentID := keep_if (uip_AgentID p = 0) (im_AgentID m) (uip_AgentID p),
          im_ProviderID := keep_if (uip_ProviderID p = []) (im_ProviderID m) (Some (uip_ProviderID p)),
          im_OSName := keep_if (uip_OSName p = []) (im_OSName m) (uip_OSName p),
          im_OSVersion := keep_if (uip_OSVersion p = []) (im_OSVersion m) (uip_OSVersion p),
          im_RunnerStatus := keep_if (uip_RunnerStatus p = []) (im_RunnerStatus m) (uip_RunnerStatus p),
          im_Heartbeat := or_old (uip_Heartbeat p) (im_Heartbeat m),
          im_Status := keep_if (uip_Status p = []) (im_Status m) (uip_Status p),
          im_CreateAttempt := keep_if (uip_CreateAttempt p = 0) (im_CreateAttempt m) (uip_CreateAttempt p),
          im_TokenFetched := or_old (uip_TokenFetched p) (im_TokenFetched m),
          im_Capabilities := keep_if (uip_Capabilities p = None) (im_Capabilities m) (uip_Capabilities p),
          im_JitConfiguration := secret,
          im_ProviderFault := uip_ProviderFault p\<rparr>))"

definition check_update :: "bool \<Rightarrow> update_instance_params \<Rightarrow> instance_model \<Rightarrow> garm_db_error option" where
  "check_update force p m =
     (if force then None
      else case validateAgentID (im_AgentID m) (uip_AgentID p) of
        Some e \<Rightarrow> Some e
      | None \<Rightarrow> (case validateRunnerStatusTransition (im_RunnerStatus m) (uip_RunnerStatus p) of
          Some e \<Rightarrow> Some e
        | None \<Rightarrow> validateInstanceStatusTransition (im_Status m) (uip_Status p)))"

definition provider_id_taken :: "instance_model \<Rightarrow> garm_db \<Rightarrow> bool" where
  "provider_id_taken m db \<longleftrightarrow>
     im_ProviderID m \<noteq> None
     \<and> list_ex (\<lambda>x. im_ID x \<noteq> im_ID m \<and> im_ProviderID x = im_ProviderID m) (gd_instances db)"

definition save_instance :: "db_env \<Rightarrow> update_instance_params \<Rightarrow> instance_model \<Rightarrow> garm_db \<Rightarrow> (garm_db_error, garm_db) result" where
  "save_instance env p m db =
     (case de_refused env of
        Some e \<Rightarrow> Inl (GDbError e)
      | None \<Rightarrow>
          if provider_id_taken m db then Inl (GDbError ''UNIQUE constraint failed'')
          else Inr (db\<lparr>gd_instances := tbl_update im_ID (im_ID m)
            (\<lambda>_. m\<lparr>im_UpdatedAt := de_now env,
                  im_Addresses := keep_if (uip_Addresses p = []) (im_Addresses m) (uip_Addresses p)\<rparr>) (gd_instances db)\<rparr>))"

definition updateInstance :: "db_env \<Rightarrow> bool \<Rightarrow> string \<Rightarrow> update_instance_params \<Rightarrow> garm_db \<Rightarrow>
    (garm_db_error, garm_instance) result \<times> garm_db" where
  "updateInstance env force name p db =
     (case getInstance env name db of
        Inl e \<Rightarrow> (Inl e, db)
      | Inr m \<Rightarrow>
          (case check_update force p m of
             Some e \<Rightarrow> (Inl e, db)
           | None \<Rightarrow>
               (case applyInstanceUpdates env p m of
                  Inl e \<Rightarrow> (Inl e, db)
                | Inr m' \<Rightarrow>
                    (case save_instance env p m' db of
                       Inl e \<Rightarrow> (Inl e, db)
                     | Inr db' \<Rightarrow>
                         (case GetInstance env name db' of
                            Inl e \<Rightarrow> (Inl e, db')
                          | Inr i \<Rightarrow> (Inr i, sendNotify env InstanceEntityType UpdateOperation (PInstance i) db'))))))"

definition UpdateInstance :: "db_env \<Rightarrow> string \<Rightarrow> update_instance_params \<Rightarrow> garm_db \<Rightarrow>
    (garm_db_error, garm_instance) result \<times> garm_db" where
  "UpdateInstance env = updateInstance env False"

definition ForceUpdateInstance :: "db_env \<Rightarrow> string \<Rightarrow> update_instance_params \<Rightarrow> garm_db \<Rightarrow>
    (garm_db_error, garm_instance) result \<times> garm_db" where
  "ForceUpdateInstance env = updateInstance env True"

end
