(* ===== verification/ForgeDbPools.thy ===== *)
theory ForgeDbPools
  imports ForgeDb
begin

text \<open>
  The operations on pools, \<^verbatim>\<open>database/sql/pools.go\<close> and \<^verbatim>\<open>updatePool\<close> of \<^verbatim>\<open>util.go\<close>. A pool's tags are
  rows of one table shared by all pools, compared without regard to case.
\<close>

section \<open>Conversion\<close>

definition entity_row :: "garm_db \<Rightarrow> string \<Rightarrow> string option \<Rightarrow> entity_model option" where
  "entity_row db ty i =
     (case i of None \<Rightarrow> None | Some i \<Rightarrow> find (\<lambda>e. em_ID e = i \<and> em_Type e = ty) (gd_entities db))"

definition owner_fields :: "(entity_model \<Rightarrow> bool) \<Rightarrow> (entity_model \<Rightarrow> string) \<Rightarrow> string option \<Rightarrow> entity_model option \<Rightarrow> string \<times> string" where
  "owner_fields named label i row =
     (case (i, row) of (Some i, Some e) \<Rightarrow> if named e then (i, label e) else ([], []) | _ \<Rightarrow> ([], []))"

text \<open>
  A repository's id is copied whether or not its row is loaded, an organization's or enterprise's
  only when it has a name.
\<close>

definition repo_label :: "entity_model option \<Rightarrow> string" where
  "repo_label row =
     (case row of None \<Rightarrow> [] | Some e \<Rightarrow> if em_Owner e \<noteq> [] \<and> em_Name e \<noteq> [] then em_Owner e @ ''/'' @ em_Name e else [])"

definition template_fields :: "garm_db \<Rightarrow> nat option \<Rightarrow> nat \<times> string" where
  "template_fields db t =
     (case t of
        None \<Rightarrow> (0, [])
      | Some i \<Rightarrow> if i = 0 then (0, []) else (i, case tbl_find fst i (gd_templates db) of None \<Rightarrow> [] | Some n \<Rightarrow> snd n))"

definition pool_endpoint :: "entity_model option \<Rightarrow> entity_model option \<Rightarrow> entity_model option \<Rightarrow> forge_endpoint" where
  "pool_endpoint repo org ent =
     (let ep = (case repo of None \<Rightarrow> no_endpoint | Some e \<Rightarrow> em_Endpoint e);
          ep = (case org of Some e \<Rightarrow> if em_Name e \<noteq> [] then em_Endpoint e else ep | None \<Rightarrow> ep)
      in case ent of Some e \<Rightarrow> if em_Name e \<noteq> [] then em_Endpoint e else ep | None \<Rightarrow> ep)"

text \<open>The instances loaded with a pool come without their own pool, job, addresses and messages.\<close>

definition bare_instance :: "instance_model \<Rightarrow> instance_model" where
  "bare_instance m = (listed_instance m)\<lparr>im_Job := None\<rparr>"

definition convert_bare :: "db_env \<Rightarrow> garm_db \<Rightarrow> instance_model list \<Rightarrow> (garm_db_error, garm_instance list) result" where
  "convert_bare env db insts = convert_all env (db\<lparr>gd_pools := [], gd_scalesets := []\<rparr>) (map bare_instance insts)"

definition sqlToCommonPool :: "db_env \<Rightarrow> garm_db \<Rightarrow> instance_model list \<Rightarrow> pool_model \<Rightarrow> (garm_db_error, garm_pool) result" where
  "sqlToCommonPool env db insts p =
     (let repo = entity_row db ForgeEntityTypeRepository (pm_RepoID p);
          org = entity_row db ForgeEntityTypeOrganization (pm_OrgID p);
          ent = entity_row db ForgeEntityTypeEnterprise (pm_EnterpriseID p);
          named = (\<lambda>e. em_Name e \<noteq> []);
          (orgID, orgName) = owner_fields named em_Name (pm_OrgID p) org;
          (entID, entName) = owner_fields named em_Name (pm_EnterpriseID p) ent;
          (tplID, tplName) = template_fields db (pm_TemplateID p)
      in case convert_bare env db insts of
           Inl e \<Rightarrow> Inl e
         | Inr is \<Rightarrow> Inr
             \<lparr>gp_Prefix = pm_RunnerPrefix p, gp_ID = pm_ID p, gp_ProviderName = pm_ProviderName p,
              gp_MaxRunners = pm_MaxRunners p, gp_MinIdleRunners = pm_MinIdleRunners p, gp_Image = pm_Image p,
              gp_Flavor = pm_Flavor p, gp_OSType = pm_OSType p, gp_OSArch = pm_OSArch p, gp_Tags = pm_Tags p,
              gp_Enabled = pm_Enabled p, gp_Instances = is, gp_EnableShell = pm_EnableShell p,
              gp_Generation = pm_Generation p, gp_RepoID = some_str (pm_RepoID p), gp_RepoName = repo_label repo,
              gp_OrgID = orgID, gp_OrgName = orgName, gp_EnterpriseID = entID, gp_EnterpriseName = entName,
              gp_Endpoint = pool_endpoint repo org ent, gp_RunnerBootstrapTimeout = pm_RunnerBootstrapTimeout p,
              gp_CreatedAt = pm_CreatedAt p, gp_UpdatedAt = pm_UpdatedAt p, gp_ExtraSpecs = pm_ExtraSpecs p,
              gp_GitHubRunnerGroup = pm_GitHubRunnerGroup p, gp_Priority = pm_Priority p,
              gp_TemplateID = tplID, gp_TemplateName = tplName\<rparr>)"

definition instances_of :: "garm_db \<Rightarrow> string \<Rightarrow> instance_model list" where
  "instances_of db i = filter (\<lambda>m. im_PoolID m = Some i) (gd_instances db)"

definition GetPoolByID :: "db_env \<Rightarrow> string \<Rightarrow> garm_db \<Rightarrow> (garm_db_error, garm_pool) result" where
  "GetPoolByID env i db =
     (case getPoolByID env i db of Inl e \<Rightarrow> Inl e | Inr p \<Rightarrow> sqlToCommonPool env db (instances_of db (pm_ID p)) p)"

section \<open>Listing\<close>

fun convert_pools :: "db_env \<Rightarrow> garm_db \<Rightarrow> pool_model list \<Rightarrow> (garm_db_error, garm_pool list) result" where
  "convert_pools env db [] = Inr []"
| "convert_pools env db (p # ps) =
     (case sqlToCommonPool env db [] p of
        Inl e \<Rightarrow> Inl e
      | Inr q \<Rightarrow> (case convert_pools env db ps of Inl e \<Rightarrow> Inl e | Inr qs \<Rightarrow> Inr (q # qs)))"

text \<open>A listing omits the column of extra specs and does not load templates.\<close>

definition listed :: "pool_model \<Rightarrow> pool_model" where
  "listed p = p\<lparr>pm_ExtraSpecs := []\<rparr>"

definition ListAllPools :: "db_env \<Rightarrow> garm_db \<Rightarrow> (garm_db_error, garm_pool list) result" where
  "ListAllPools env db = convert_pools env (db\<lparr>gd_templates := []\<rparr>) (map listed (gd_pools db))"

definition owner_column :: "string \<Rightarrow> (pool_model \<Rightarrow> string option) option" where
  "owner_column ty =
     (if ty = ForgeEntityTypeRepository then Some pm_RepoID
      else if ty = ForgeEntityTypeOrganization then Some pm_OrgID
      else if ty = ForgeEntityTypeEnterprise then Some pm_EnterpriseID else None)"

definition hasGithubEntity :: "db_env \<Rightarrow> string \<Rightarrow> string \<Rightarrow> garm_db \<Rightarrow> garm_db_error option" where
  "hasGithubEntity env ty i db =
     (case de_uuid env i of
        None \<Rightarrow> Some (GBadRequest ''error parsing id'')
      | Some u \<Rightarrow>
          if owner_column ty = None then Some (GBadRequest ''error invalid entity type'')
          else if entity_row db ty (Some u) = None then Some GNotFound else None)"

definition listEntityPools :: "db_env \<Rightarrow> string \<Rightarrow> string \<Rightarrow> garm_db \<Rightarrow> (garm_db_error, pool_model list) result" where
  "listEntityPools env ty i db =
     (case hasGithubEntity env ty i db of
        Some e \<Rightarrow> Inl e
      | None \<Rightarrow> (case owner_column ty of
          None \<Rightarrow> Inl (GDbError ''invalid entityType'')
        | Some col \<Rightarrow> Inr (map listed (filter (\<lambda>p. col p = Some i) (gd_pools db)))))"

text \<open>The owner is loaded without its endpoint.\<close>

definition ListEntityPools :: "db_env \<Rightarrow> forge_entity \<Rightarrow> garm_db \<Rightarrow> (garm_db_error, garm_pool list) result" where
  "ListEntityPools env e db =
     (case listEntityPools env (ge_EntityType e) (ge_ID e) db of
        Inl er \<Rightarrow> Inl er
      | Inr ps \<Rightarrow> convert_pools env (db\<lparr>gd_templates := [],
          gd_entities := map (\<lambda>x. x\<lparr>em_Endpoint := no_endpoint\<rparr>) (filter (\<lambda>x. em_Type x = ge_EntityType e) (gd_entities db))\<rparr>) ps)"

definition ListEntityInstances :: "db_env \<Rightarrow> forge_entity \<Rightarrow> garm_db \<Rightarrow> (garm_db_error, garm_instance list) result" where
  "ListEntityInstances env e db =
     (case listEntityPools env (ge_EntityType e) (ge_ID e) db of
        Inl er \<Rightarrow> Inl er
      | Inr ps \<Rightarrow> convert_all env db (map listed_instance (concat (map (\<lambda>p. instances_of db (pm_ID p)) ps))))"

text \<open>
  The pools of an entity that have as many of the wanted tags as there are wanted tags, highest
  priority first. A tag wanted twice is counted twice on one side only. The pools come without their
  owner, so of the owner's id only a repository's survives.
\<close>

definition matching_tags :: "string list \<Rightarrow> pool_model \<Rightarrow> nat" where
  "matching_tags tags p = length (filter (\<lambda>t. to_lower (gt_Name t) \<in> set (map to_lower tags)) (pm_Tags p))"

definition findPoolByTags :: "db_env \<Rightarrow> string \<Rightarrow> string \<Rightarrow> string list \<Rightarrow> garm_db \<Rightarrow> (garm_db_error, garm_pool list) result" where
  "findPoolByTags env i ty tags db =
     (if tags = [] then Inl (GBadRequest ''missing tags'')
      else case de_uuid env i of
        None \<Rightarrow> Inl (GBadRequest ''error parsing id'')
      | Some u \<Rightarrow> (case owner_column ty of
          None \<Rightarrow> Inl (GDbError ''invalid poolType'')
        | Some col \<Rightarrow>
            (let ps = filter (\<lambda>p. col p = Some u \<and> pm_Enabled p \<and> 0 < matching_tags tags p
                               \<and> matching_tags tags p = length tags) (gd_pools db)
             in if ps = [] then Inl GNotFound
                else convert_pools env (db\<lparr>gd_entities := [], gd_templates := []\<rparr>) (rev (sort_key pm_Priority (rev ps))))))"

definition FindPoolsMatchingAllTags :: "db_env \<Rightarrow> string \<Rightarrow> string \<Rightarrow> string list \<Rightarrow> garm_db \<Rightarrow> (garm_db_error, garm_pool list) result" where
  "FindPoolsMatchingAllTags env ty i tags db =
     (if tags = [] then Inl (GBadRequest ''missing tags'')
      else case findPoolByTags env i ty tags db of
        Inl GNotFound \<Rightarrow> Inr []
      | r \<Rightarrow> r)"

section \<open>Creating and deleting\<close>

text \<open>Tags are found or made one by one; a new tag's id continues the fresh id of the call.\<close>

definition getOrCreateTag :: "db_env \<Rightarrow> nat \<Rightarrow> string \<Rightarrow> garm_db \<Rightarrow> garm_tag \<times> garm_db" where
  "getOrCreateTag env n name db =
     (case find (\<lambda>t. to_lower (gt_Name t) = to_lower name) (gd_tags db) of
        Some t \<Rightarrow> (t, db)
      | None \<Rightarrow> (let t = \<lparr>gt_ID = de_newID env @ show_nat n, gt_Name = name\<rparr> in (t, db\<lparr>gd_tags := gd_tags db @ [t]\<rparr>)))"

fun get_tags :: "db_env \<Rightarrow> nat \<Rightarrow> string list \<Rightarrow> garm_db \<Rightarrow> garm_tag list \<times> garm_db" where
  "get_tags env n [] db = ([], db)"
| "get_tags env n (t # ts) db =
     (case getOrCreateTag env n t db of
        (tag, db1) \<Rightarrow> (case get_tags env (Suc n) ts db1 of (tags, db2) \<Rightarrow> (tag # tags, db2)))"

record create_pool_params =
  cpp_Prefix :: string
  cpp_ProviderName :: string
  cpp_MaxRunners :: nat
  cpp_MinIdleRunners :: nat
  cpp_Image :: string
  cpp_Flavor :: string
  cpp_OSType :: string
  cpp_OSArch :: string
  cpp_Tags :: "string list"
  cpp_Enabled :: bool
  cpp_RunnerBootstrapTimeout :: nat
  cpp_ExtraSpecs :: bytes
  cpp_EnableShell :: bool
  cpp_GitHubRunnerGroup :: string
  cpp_Priority :: nat
  cpp_TemplateID :: "nat option"

definition new_pool_model :: "db_env \<Rightarrow> string \<Rightarrow> string \<Rightarrow> create_pool_params \<Rightarrow> garm_tag list \<Rightarrow> pool_model" where
  "new_pool_model env ty entityID p tags =
     (let owner = (\<lambda>k. if ty = k then Some entityID else None) in
      \<lparr>pm_ID = de_newID env, pm_CreatedAt = de_now env, pm_UpdatedAt = de_now env, pm_ProviderName = cpp_ProviderName p,
       pm_RunnerPrefix = GetRunnerPrefix (cpp_Prefix p), pm_MaxRunners = cpp_MaxRunners p,
       pm_MinIdleRunners = cpp_MinIdleRunners p, pm_RunnerBootstrapTimeout = cpp_RunnerBootstrapTimeout p,
       pm_Image = cpp_Image p, pm_Flavor = cpp_Flavor p, pm_OSType = cpp_OSType p, pm_OSArch = cpp_OSArch p,
       pm_Tags = remdups tags, pm_Enabled = cpp_Enabled p, pm_ExtraSpecs = cpp_ExtraSpecs p,
       pm_GitHubRunnerGroup = cpp_GitHubRunnerGroup p, pm_EnableShell = cpp_EnableShell p, pm_Generation = 0,
       pm_RepoID = owner ForgeEntityTypeRepository, pm_OrgID = owner ForgeEntityTypeOrganization,
       pm_EnterpriseID = owner ForgeEntityTypeEnterprise, pm_TemplateID = cpp_TemplateID p, pm_Priority = cpp_Priority p\<rparr>)"

definition CreateEntityPool :: "db_env \<Rightarrow> forge_entity \<Rightarrow> create_pool_params \<Rightarrow> garm_db \<Rightarrow>
    (garm_db_error, garm_pool) result \<times> garm_db" where
  "CreateEntityPool env e p db =
     (if cpp_Tags p = [] then (Inl (GBadRequest ''no tags specified''), db)
      else case de_uuid env (ge_ID e) of
        None \<Rightarrow> (Inl (GBadRequest ''error parsing id''), db)
      | Some entityID \<Rightarrow>
          (case hasGithubEntity env (ge_EntityType e) (ge_ID e) db of
             Some er \<Rightarrow> (Inl er, db)
           | None \<Rightarrow>
               (case de_refused env of
                  Some er \<Rightarrow> (Inl (GDbError er), db)
                | None \<Rightarrow>
                    (case get_tags env 0 (cpp_Tags p) db of
                       (tags, db1) \<Rightarrow>
                         (let m = new_pool_model env (ge_EntityType e) entityID p tags;
                              db2 = db1\<lparr>gd_pools := gd_pools db1 @ [m]\<rparr>
                          in case GetPoolByID env (pm_ID m) db2 of
                               Inl er \<Rightarrow> (Inl er, db2)
                             | Inr q \<Rightarrow> (Inr q, sendNotify env PoolEntityType CreateOperation (PPool q) db2))))))"

text \<open>
  Both deletions announce a pool of which only the id is set. A pool that still has instances is
  kept by the foreign key of their rows.
\<close>

definition pool_in_use :: "garm_db \<Rightarrow> string \<Rightarrow> bool" where
  "pool_in_use db i \<longleftrightarrow> list_ex (\<lambda>m. im_PoolID m = Some i) (gd_instances db)"

definition bare_pool :: "string \<Rightarrow> garm_pool" where
  "bare_pool i = \<lparr>gp_Prefix = [], gp_ID = i, gp_ProviderName = [], gp_MaxRunners = 0, gp_MinIdleRunners = 0, gp_Image = [],
     gp_Flavor = [], gp_OSType = [], gp_OSArch = [], gp_Tags = [], gp_Enabled = False, gp_Instances = [],
     gp_EnableShell = False, gp_Generation = 0, gp_RepoID = [], gp_RepoName = [], gp_OrgID = [], gp_OrgName = [],
     gp_EnterpriseID = [], gp_EnterpriseName = [], gp_Endpoint = no_endpoint, gp_RunnerBootstrapTimeout = 0,
     gp_CreatedAt = time_zero, gp_UpdatedAt = time_zero, gp_ExtraSpecs = [], gp_GitHubRunnerGroup = [], gp_Priority = 0,
     gp_TemplateID = 0, gp_TemplateName = []\<rparr>"

definition DeletePoolByID :: "db_env \<Rightarrow> string \<Rightarrow> garm_db \<Rightarrow> garm_db_error option \<times> garm_db" where
  "DeletePoolByID env poolID db =
     (case getPoolByID env poolID db of
        Inl e \<Rightarrow> (Some e, db)
      | Inr p \<Rightarrow>
          (case de_refused env of
             Some e \<Rightarrow> (Some (GDbError e), db)
           | None \<Rightarrow>
               if pool_in_use db (pm_ID p) then (Some (GDbError ''FOREIGN KEY constraint failed''), db)
               else (None, sendNotify env PoolEntityType DeleteOperation (PPool (bare_pool poolID))
                 (db\<lparr>gd_pools := tbl_delete pm_ID (pm_ID p) (gd_pools db)\<rparr>))))"

definition DeleteEntityPool :: "db_env \<Rightarrow> forge_entity \<Rightarrow> string \<Rightarrow> garm_db \<Rightarrow> garm_db_error option \<times> garm_db" where
  "DeleteEntityPool env e poolID db =
     (case de_uuid env (ge_ID e) of
        None \<Rightarrow> (Some (GBadRequest ''error parsing id''), db)
      | Some entityID \<Rightarrow> (case de_uuid env poolID of
          None \<Rightarrow> (Some (GBadRequest ''error parsing pool id''), db)
        | Some u \<Rightarrow> (case owner_column (ge_EntityType e) of
            None \<Rightarrow> (Some (GDbError ''invalid entityType''), db)
          | Some col \<Rightarrow> (case de_refused env of
              Some er \<Rightarrow> (Some (GDbError er), db)
            | None \<Rightarrow>
                (let mine = (\<lambda>p. pm_ID p = u \<and> col p = Some entityID) in
                 if list_ex mine (gd_pools db) \<and> pool_in_use db u
                 then (Some (GDbError ''FOREIGN KEY constraint failed''), db)
                 else (None, sendNotify env PoolEntityType DeleteOperation (PPool (bare_pool poolID))
                   (db\<lparr>gd_pools := filter (\<lambda>p. \<not> mine p) (gd_pools db)\<rparr>)))))))"

section \<open>Updating\<close>

record update_pool_params =
  upp_Prefix :: string
  upp_Tags :: "string list"
  upp_Enabled :: "bool option"
  upp_MaxRunners :: "nat option"
  upp_MinIdleRunners :: "nat option"
  upp_RunnerBootstrapTimeout :: "nat option"
  upp_Image :: string
  upp_Flavor :: string
  upp_OSType :: string
  upp_OSArch :: string
  upp_ExtraSpecs :: "bytes option"
  upp_EnableShell :: "bool option"
  upp_GitHubRunnerGroup :: "string option"
  upp_Priority :: "nat option"
  upp_TemplateID :: "nat option"

definition set_str :: "string \<Rightarrow> string \<Rightarrow> string" where
  "set_str new old = (if new = [] then old else new)"

text \<open>The columns an update changes, and whether one of them makes existing runners outdated.\<close>

definition bumps_generation :: "update_pool_params \<Rightarrow> pool_model \<Rightarrow> bool" where
  "bumps_generation u p \<longleftrightarrow>
     set_str (upp_Flavor u) (pm_Flavor p) \<noteq> pm_Flavor p
     \<or> or_old (upp_EnableShell u) (pm_EnableShell p) \<noteq> pm_EnableShell p
     \<or> set_str (upp_Image u) (pm_Image p) \<noteq> pm_Image p
     \<or> set_str (upp_OSArch u) (pm_OSArch p) \<noteq> pm_OSArch p
     \<or> set_str (upp_OSType u) (pm_OSType p) \<noteq> pm_OSType p
     \<or> or_old (upp_ExtraSpecs u) (pm_ExtraSpecs p) \<noteq> pm_ExtraSpecs p
     \<or> or_old (upp_GitHubRunnerGroup u) (pm_GitHubRunnerGroup p) \<noteq> pm_GitHubRunnerGroup p"

definition new_timeout :: "nat option \<Rightarrow> nat \<Rightarrow> nat" where
  "new_timeout t old = (case t of None \<Rightarrow> old | Some n \<Rightarrow> if 0 < n then n else old)"

definition pool_updates :: "update_pool_params \<Rightarrow> pool_model \<Rightarrow> pool_model" where
  "pool_updates u p = p\<lparr>
     pm_Enabled := or_old (upp_Enabled u) (pm_Enabled p),
     pm_Flavor := set_str (upp_Flavor u) (pm_Flavor p),
     pm_EnableShell := or_old (upp_EnableShell u) (pm_EnableShell p),
     pm_Image := set_str (upp_Image u) (pm_Image p),
     pm_RunnerPrefix := set_str (upp_Prefix u) (pm_RunnerPrefix p),
     pm_MaxRunners := or_old (upp_MaxRunners u) (pm_MaxRunners p),
     pm_TemplateID := (if upp_TemplateID u = None then pm_TemplateID p else upp_TemplateID u),
     pm_MinIdleRunners := or_old (upp_MinIdleRunners u) (pm_MinIdleRunners p),
     pm_OSArch := set_str (upp_OSArch u) (pm_OSArch p),
     pm_OSType := set_str (upp_OSType u) (pm_OSType p),
     pm_ExtraSpecs := or_old (upp_ExtraSpecs u) (pm_ExtraSpecs p),
     pm_RunnerBootstrapTimeout := new_timeout (upp_RunnerBootstrapTimeout u) (pm_RunnerBootstrapTimeout p),
     pm_GitHubRunnerGroup := or_old (upp_GitHubRunnerGroup u) (pm_GitHubRunnerGroup p),
     pm_Priority := or_old (upp_Priority u) (pm_Priority p),
     pm_Generation := (if bumps_generation u p then pm_Generation p + 1 else pm_Generation p)\<rparr>"

definition updatePool :: "db_env \<Rightarrow> update_pool_params \<Rightarrow> pool_model \<Rightarrow> garm_db \<Rightarrow> nat \<times> garm_db" where
  "updatePool env u p db =
     (let q = pool_updates u p;
          (rows, q) = (if q \<noteq> p then (1, q\<lparr>pm_UpdatedAt := de_now env\<rparr>) else (0, p))
      in if upp_Tags u = [] then (rows, db\<lparr>gd_pools := tbl_update pm_ID (pm_ID p) (\<lambda>_. q) (gd_pools db)\<rparr>)
         else (case get_tags env 0 (upp_Tags u) db of
                 (tags, db1) \<Rightarrow>
                   (1, db1\<lparr>gd_pools := tbl_update pm_ID (pm_ID p) (\<lambda>_. q\<lparr>pm_Tags := remdups tags\<rparr>) (gd_pools db1)\<rparr>)))"

definition getEntityPool :: "db_env \<Rightarrow> string \<Rightarrow> string \<Rightarrow> string \<Rightarrow> garm_db \<Rightarrow> (garm_db_error, pool_model) result" where
  "getEntityPool env ty entityID poolID db =
     (if entityID = [] then Inl (GBadRequest ''error missing entity id'')
      else case de_uuid env poolID of
        None \<Rightarrow> Inl (GBadRequest ''error parsing id'')
      | Some u \<Rightarrow> (case owner_column ty of
          None \<Rightarrow> Inl (GDbError ''invalid entityType'')
        | Some col \<Rightarrow> (case find (\<lambda>p. pm_ID p = u \<and> col p = Some entityID) (gd_pools db) of
            None \<Rightarrow> Inl GNotFound
          | Some p \<Rightarrow> Inr p)))"

definition GetEntityPool :: "db_env \<Rightarrow> forge_entity \<Rightarrow> string \<Rightarrow> garm_db \<Rightarrow> (garm_db_error, garm_pool) result" where
  "GetEntityPool env e poolID db =
     (case getEntityPool env (ge_EntityType e) (ge_ID e) poolID db of
        Inl er \<Rightarrow> Inl er
      | Inr p \<Rightarrow> sqlToCommonPool env db (instances_of db (pm_ID p)) p)"

text \<open>The transaction converts the updated pool and is rolled back when one of its instances does not convert.\<close>

definition UpdateEntityPool :: "db_env \<Rightarrow> forge_entity \<Rightarrow> string \<Rightarrow> update_pool_params \<Rightarrow> garm_db \<Rightarrow>
    (garm_db_error, garm_pool) result \<times> garm_db" where
  "UpdateEntityPool env e poolID u db =
     (case getEntityPool env (ge_EntityType e) (ge_ID e) poolID db of
        Inl er \<Rightarrow> (Inl er, db)
      | Inr p \<Rightarrow>
          (case de_refused env of
             Some er \<Rightarrow> (Inl (GDbError er), db)
           | None \<Rightarrow>
               (case convert_bare env db (instances_of db (pm_ID p)) of
                  Inl er \<Rightarrow> (Inl er, db)
                | Inr _ \<Rightarrow>
               (case updatePool env u p db of
                  (rows, db') \<Rightarrow>
                    (case GetPoolByID env poolID db' of
                       Inl er \<Rightarrow> (Inl er, db')
                     | Inr q \<Rightarrow> (Inr q, if 0 < rows then sendNotify env PoolEntityType UpdateOperation (PPool q) db' else db'))))))"

end
