(* ===== verification/ForgeCache.thy ===== *)
theory ForgeCache
  imports ForgeParams SqlTable
begin

text \<open>
  The in-memory caches of the garm runner manager, \<^verbatim>\<open>ci/runners/garm/cache\<close>: one state for the
  package's global variables, one definition per method, each what a call does under its mutex.
  A Go map is a keyed table; the order of its rows stands for the unspecified order of iteration,
  and what is sorted afterwards is sorted here. A clock reading is an argument.
\<close>

record runner_group_entry =
  rge_Name :: string
  rge_RunnerGroupID :: int
  rge_time :: int

record entity_item =
  gei_Entity :: forge_entity
  gei_Pools :: "string list"
  gei_ScaleSets :: "nat list"
  gei_RunnerGroups :: "runner_group_entry list"

record entity_tools =
  get_updatedAt :: int
  get_expiresAt :: int
  get_err :: "string option"
  get_entity :: forge_entity
  get_tools :: "runner_download list"

text \<open>A forge client is an opaque handle.\<close>

record forge_caches =
  fc_entities :: "entity_item list"
  fc_pools :: "garm_pool list"
  fc_scalesets :: "garm_scale_set list"
  fc_github :: "forge_credentials list"
  fc_gitea :: "forge_credentials list"
  fc_endpoints :: "forge_endpoint list"
  fc_instances :: "garm_instance list"
  fc_templates :: "garm_template list"
  fc_tools :: "entity_tools list"
  fc_clients :: "(string \<times> nat) list"
  fc_controller :: "controller_info option"

definition empty_caches :: forge_caches where
  "empty_caches = \<lparr>fc_entities = [], fc_pools = [], fc_scalesets = [], fc_github = [], fc_gitea = [],
     fc_endpoints = [], fc_instances = [], fc_templates = [], fc_tools = [], fc_clients = [], fc_controller = None\<rparr>"

definition item_id :: "entity_item \<Rightarrow> string" where
  "item_id it = ge_ID (gei_Entity it)"

definition tools_id :: "entity_tools \<Rightarrow> string" where
  "tools_id t = ge_ID (get_entity t)"

definition find_item :: "string \<Rightarrow> forge_caches \<Rightarrow> entity_item option" where
  "find_item i c = tbl_find item_id i (fc_entities c)"

definition drop_keys :: "('r \<Rightarrow> 'k) \<Rightarrow> 'k list \<Rightarrow> 'r list \<Rightarrow> 'r list" where
  "drop_keys key ks t = filter (\<lambda>r. key r \<notin> set ks) t"

definition add_key :: "'k \<Rightarrow> 'k list \<Rightarrow> 'k list" where
  "add_key k ks = (if k \<in> set ks then ks else ks @ [k])"

definition sortByCreationDate :: "('r \<Rightarrow> int) \<Rightarrow> 'r list \<Rightarrow> 'r list" where
  "sortByCreationDate created xs = sort_key created xs"

definition sortByID :: "('r \<Rightarrow> nat) \<Rightarrow> 'r list \<Rightarrow> 'r list" where
  "sortByID i xs = sort_key i xs"

section \<open>Credentials\<close>

text \<open>The credentials of every entity whose credentials have the same numeric id are replaced.\<close>

definition set_item_credentials :: "forge_credentials \<Rightarrow> entity_item \<Rightarrow> entity_item" where
  "set_item_credentials creds it =
     (if gk_ID (ge_Credentials (gei_Entity it)) = gk_ID creds
      then it\<lparr>gei_Entity := (gei_Entity it)\<lparr>ge_Credentials := creds\<rparr>\<rparr> else it)"

definition cache_UpdateCredentialsInAffectedEntities :: "forge_credentials \<Rightarrow> forge_caches \<Rightarrow> forge_caches" where
  "cache_UpdateCredentialsInAffectedEntities creds c =
     c\<lparr>fc_entities := map (set_item_credentials creds) (fc_entities c)\<rparr>"

definition cache_SetGithubCredentials :: "forge_credentials \<Rightarrow> forge_caches \<Rightarrow> forge_caches" where
  "cache_SetGithubCredentials creds c =
     cache_UpdateCredentialsInAffectedEntities creds (c\<lparr>fc_github := tbl_upsert gk_ID creds (fc_github c)\<rparr>)"

definition cache_SetGiteaCredentials :: "forge_credentials \<Rightarrow> forge_caches \<Rightarrow> forge_caches" where
  "cache_SetGiteaCredentials creds c =
     cache_UpdateCredentialsInAffectedEntities creds (c\<lparr>fc_gitea := tbl_upsert gk_ID creds (fc_gitea c)\<rparr>)"

definition cache_GetGithubCredentials :: "nat \<Rightarrow> forge_caches \<Rightarrow> forge_credentials option" where
  "cache_GetGithubCredentials i c = tbl_find gk_ID i (fc_github c)"

definition cache_GetGiteaCredentials :: "nat \<Rightarrow> forge_caches \<Rightarrow> forge_credentials option" where
  "cache_GetGiteaCredentials i c = tbl_find gk_ID i (fc_gitea c)"

definition cache_DeleteGithubCredentials :: "nat \<Rightarrow> forge_caches \<Rightarrow> forge_caches" where
  "cache_DeleteGithubCredentials i c = c\<lparr>fc_github := tbl_delete gk_ID i (fc_github c)\<rparr>"

definition cache_DeleteGiteaCredentials :: "nat \<Rightarrow> forge_caches \<Rightarrow> forge_caches" where
  "cache_DeleteGiteaCredentials i c = c\<lparr>fc_gitea := tbl_delete gk_ID i (fc_gitea c)\<rparr>"

definition cache_GetAllGithubCredentials :: "forge_caches \<Rightarrow> forge_credentials list" where
  "cache_GetAllGithubCredentials c = sortByID gk_ID (fc_github c)"

definition cache_GetAllGiteaCredentials :: "forge_caches \<Rightarrow> forge_credentials list" where
  "cache_GetAllGiteaCredentials c = sortByID gk_ID (fc_gitea c)"

definition cache_SetCredentialsRateLimit :: "nat \<Rightarrow> github_rate_limit \<Rightarrow> forge_caches \<Rightarrow> forge_caches" where
  "cache_SetCredentialsRateLimit i rl c =
     c\<lparr>fc_github := tbl_update gk_ID i (\<lambda>k. k\<lparr>gk_RateLimit := Some rl\<rparr>) (fc_github c)\<rparr>"

text \<open>
  \<^verbatim>\<open>UpdateCredentialsUsingEndpoint\<close> is called on the Gitea credentials only. The loop overwrites
  rows of the map it walks, each under its own key.
\<close>

definition cache_UpdateCredentialsUsingEndpoint :: "forge_endpoint \<Rightarrow> forge_caches \<Rightarrow> forge_caches" where
  "cache_UpdateCredentialsUsingEndpoint ep c =
     fold (\<lambda>k. cache_SetGiteaCredentials (k\<lparr>gk_Endpoint := ep\<rparr>))
       (filter (\<lambda>k. gep_Name (gk_Endpoint k) = gep_Name ep) (fc_gitea c)) c"

section \<open>Endpoints\<close>

definition cache_SetEndpoint :: "forge_endpoint \<Rightarrow> forge_caches \<Rightarrow> forge_caches" where
  "cache_SetEndpoint ep c =
     cache_UpdateCredentialsUsingEndpoint ep (c\<lparr>fc_endpoints := tbl_upsert gep_Name ep (fc_endpoints c)\<rparr>)"

definition cache_GetEndpoint :: "string \<Rightarrow> forge_caches \<Rightarrow> forge_endpoint option" where
  "cache_GetEndpoint n c = tbl_find gep_Name n (fc_endpoints c)"

definition cache_RemoveEndpoint :: "string \<Rightarrow> forge_caches \<Rightarrow> forge_caches" where
  "cache_RemoveEndpoint n c = c\<lparr>fc_endpoints := tbl_delete gep_Name n (fc_endpoints c)\<rparr>"

section \<open>Entities\<close>

definition with_current_credentials :: "forge_caches \<Rightarrow> forge_entity \<Rightarrow> forge_entity" where
  "with_current_credentials c e =
     (let creds = (if gk_ForgeType (ge_Credentials e) = GithubEndpointType
                   then cache_GetGithubCredentials (gk_ID (ge_Credentials e)) c
                   else if gk_ForgeType (ge_Credentials e) = GiteaEndpointType
                   then cache_GetGiteaCredentials (gk_ID (ge_Credentials e)) c else None)
      in case creds of None \<Rightarrow> e | Some k \<Rightarrow> e\<lparr>ge_Credentials := k\<rparr>)"

definition cache_GetEntity :: "string \<Rightarrow> forge_caches \<Rightarrow> forge_entity option" where
  "cache_GetEntity i c = map_option (\<lambda>it. with_current_credentials c (gei_Entity it)) (find_item i c)"

definition new_item :: "forge_entity \<Rightarrow> entity_item" where
  "new_item e = \<lparr>gei_Entity = e, gei_Pools = [], gei_ScaleSets = [], gei_RunnerGroups = []\<rparr>"

definition cache_SetEntity :: "forge_entity \<Rightarrow> forge_caches \<Rightarrow> forge_caches" where
  "cache_SetEntity e c =
     (case find_item (ge_ID e) c of
        None \<Rightarrow> c\<lparr>fc_entities := tbl_upsert item_id (new_item e) (fc_entities c)\<rparr>
      | Some it \<Rightarrow> c\<lparr>fc_entities := tbl_upsert item_id (it\<lparr>gei_Entity := e\<rparr>) (fc_entities c)\<rparr>)"

definition pool_of_entity :: "string \<Rightarrow> garm_pool \<Rightarrow> bool" where
  "pool_of_entity i p \<longleftrightarrow> (case Pool_GetEntity p of Inl _ \<Rightarrow> False | Inr e \<Rightarrow> ge_ID e = i)"

definition scale_set_of_entity :: "string \<Rightarrow> garm_scale_set \<Rightarrow> bool" where
  "scale_set_of_entity i p \<longleftrightarrow> (case ScaleSet_GetEntity p of Inl _ \<Rightarrow> False | Inr e \<Rightarrow> ge_ID e = i)"

definition cache_ReplaceEntityPools :: "string \<Rightarrow> garm_pool list \<Rightarrow> forge_caches \<Rightarrow> forge_caches" where
  "cache_ReplaceEntityPools i pools c =
     (case find_item i c of
        None \<Rightarrow> c
      | Some it \<Rightarrow>
          let own = filter (pool_of_entity i) pools in
          c\<lparr>fc_pools := fold (tbl_upsert gp_ID) own (drop_keys gp_ID (gei_Pools it) (fc_pools c)),
            fc_entities := tbl_upsert item_id (it\<lparr>gei_Pools := fold add_key (map gp_ID own) []\<rparr>) (fc_entities c)\<rparr>)"

definition cache_ReplaceEntityScaleSets :: "string \<Rightarrow> garm_scale_set list \<Rightarrow> forge_caches \<Rightarrow> forge_caches" where
  "cache_ReplaceEntityScaleSets i sets c =
     (case find_item i c of
        None \<Rightarrow> c
      | Some it \<Rightarrow>
          let own = filter (scale_set_of_entity i) sets in
          c\<lparr>fc_scalesets := fold (tbl_upsert gs_ID) own (drop_keys gs_ID (gei_ScaleSets it) (fc_scalesets c)),
            fc_entities := tbl_upsert item_id (it\<lparr>gei_ScaleSets := fold add_key (map gs_ID own) []\<rparr>) (fc_entities c)\<rparr>)"

definition cache_DeleteEntity :: "string \<Rightarrow> forge_caches \<Rightarrow> forge_caches" where
  "cache_DeleteEntity i c =
     (case find_item i c of
        None \<Rightarrow> c
      | Some it \<Rightarrow>
          c\<lparr>fc_pools := drop_keys gp_ID (gei_Pools it) (fc_pools c),
            fc_scalesets := drop_keys gs_ID (gei_ScaleSets it) (fc_scalesets c),
            fc_entities := tbl_delete item_id i (fc_entities c)\<rparr>)"

definition cache_SetEntityPool :: "string \<Rightarrow> garm_pool \<Rightarrow> forge_caches \<Rightarrow> forge_caches" where
  "cache_SetEntityPool i p c =
     (if \<not> pool_of_entity i p then c
      else case find_item i c of
        None \<Rightarrow> c
      | Some it \<Rightarrow>
          c\<lparr>fc_pools := tbl_upsert gp_ID p (fc_pools c),
            fc_entities := tbl_upsert item_id (it\<lparr>gei_Pools := add_key (gp_ID p) (gei_Pools it)\<rparr>) (fc_entities c)\<rparr>)"

definition cache_SetEntityScaleSet :: "string \<Rightarrow> garm_scale_set \<Rightarrow> forge_caches \<Rightarrow> forge_caches" where
  "cache_SetEntityScaleSet i p c =
     (if \<not> scale_set_of_entity i p then c
      else case find_item i c of
        None \<Rightarrow> c
      | Some it \<Rightarrow>
          c\<lparr>fc_scalesets := tbl_upsert gs_ID p (fc_scalesets c),
            fc_entities := tbl_upsert item_id (it\<lparr>gei_ScaleSets := add_key (gs_ID p) (gei_ScaleSets it)\<rparr>) (fc_entities c)\<rparr>)"

definition cache_DeleteEntityPool :: "string \<Rightarrow> string \<Rightarrow> forge_caches \<Rightarrow> forge_caches" where
  "cache_DeleteEntityPool i poolID c =
     (let c' = (case find_item i c of
                  None \<Rightarrow> c
                | Some it \<Rightarrow> c\<lparr>fc_entities := tbl_upsert item_id
                     (it\<lparr>gei_Pools := removeAll poolID (gei_Pools it)\<rparr>) (fc_entities c)\<rparr>)
      in c'\<lparr>fc_pools := tbl_delete gp_ID poolID (fc_pools c')\<rparr>)"

definition cache_DeleteEntityScaleSet :: "string \<Rightarrow> nat \<Rightarrow> forge_caches \<Rightarrow> forge_caches" where
  "cache_DeleteEntityScaleSet i ssID c =
     (let c' = (case find_item i c of
                  None \<Rightarrow> c
                | Some it \<Rightarrow> c\<lparr>fc_entities := tbl_upsert item_id
                     (it\<lparr>gei_ScaleSets := removeAll ssID (gei_ScaleSets it)\<rparr>) (fc_entities c)\<rparr>)
      in c'\<lparr>fc_scalesets := tbl_delete gs_ID ssID (fc_scalesets c')\<rparr>)"

definition cache_GetPoolByID :: "string \<Rightarrow> forge_caches \<Rightarrow> garm_pool option" where
  "cache_GetPoolByID i c = tbl_find gp_ID i (fc_pools c)"

definition cache_GetScaleSetByID :: "nat \<Rightarrow> forge_caches \<Rightarrow> garm_scale_set option" where
  "cache_GetScaleSetByID i c = tbl_find gs_ID i (fc_scalesets c)"

definition entity_of :: "(string, forge_entity) result \<Rightarrow> forge_caches \<Rightarrow> forge_entity option" where
  "entity_of r c = (case r of Inl _ \<Rightarrow> None | Inr e \<Rightarrow> map_option gei_Entity (find_item (ge_ID e) c))"

definition cache_GetEntityForPool :: "string \<Rightarrow> forge_caches \<Rightarrow> forge_entity option" where
  "cache_GetEntityForPool i c =
     (case cache_GetPoolByID i c of None \<Rightarrow> None | Some p \<Rightarrow> entity_of (Pool_GetEntity p) c)"

definition cache_GetEntityForScaleSet :: "nat \<Rightarrow> forge_caches \<Rightarrow> forge_entity option" where
  "cache_GetEntityForScaleSet i c =
     (case cache_GetScaleSetByID i c of None \<Rightarrow> None | Some p \<Rightarrow> entity_of (ScaleSet_GetEntity p) c)"

definition cache_GetEntityPool :: "string \<Rightarrow> string \<Rightarrow> forge_caches \<Rightarrow> garm_pool option" where
  "cache_GetEntityPool i poolID c =
     (case find_item i c of
        None \<Rightarrow> None
      | Some it \<Rightarrow> if poolID \<in> set (gei_Pools it) then cache_GetPoolByID poolID c else None)"

definition cache_GetEntityScaleSet :: "string \<Rightarrow> nat \<Rightarrow> forge_caches \<Rightarrow> garm_scale_set option" where
  "cache_GetEntityScaleSet i ssID c =
     (case find_item i c of
        None \<Rightarrow> None
      | Some it \<Rightarrow> if ssID \<in> set (gei_ScaleSets it) then cache_GetScaleSetByID ssID c else None)"

definition item_pools :: "forge_caches \<Rightarrow> entity_item \<Rightarrow> garm_pool list" where
  "item_pools c it = List.map_filter (\<lambda>k. cache_GetPoolByID k c) (gei_Pools it)"

definition cache_GetEntityPools :: "string \<Rightarrow> forge_caches \<Rightarrow> garm_pool list" where
  "cache_GetEntityPools i c =
     (case find_item i c of None \<Rightarrow> [] | Some it \<Rightarrow> sortByCreationDate gp_CreatedAt (item_pools c it))"

definition cache_FindPoolsMatchingAllTags :: "string \<Rightarrow> string list \<Rightarrow> forge_caches \<Rightarrow> garm_pool list" where
  "cache_FindPoolsMatchingAllTags i tags c =
     (case find_item i c of
        None \<Rightarrow> []
      | Some it \<Rightarrow> sortByCreationDate gp_CreatedAt (filter (\<lambda>p. HasRequiredLabels p tags) (item_pools c it)))"

definition cache_GetEntityScaleSets :: "string \<Rightarrow> forge_caches \<Rightarrow> garm_scale_set list" where
  "cache_GetEntityScaleSets i c =
     (case find_item i c of
        None \<Rightarrow> []
      | Some it \<Rightarrow> sortByID gs_ID (List.map_filter (\<lambda>k. cache_GetScaleSetByID k c) (gei_ScaleSets it)))"

definition cache_GetEntitiesUsingEndpoint :: "forge_endpoint \<Rightarrow> forge_caches \<Rightarrow> forge_entity list" where
  "cache_GetEntitiesUsingEndpoint ep c =
     sortByCreationDate ge_CreatedAt
       (filter (\<lambda>e. gep_Name (gk_Endpoint (ge_Credentials e)) = gep_Name ep) (map gei_Entity (fc_entities c)))"

definition cache_GetEntitiesUsingCredentials :: "forge_credentials \<Rightarrow> forge_caches \<Rightarrow> forge_entity list" where
  "cache_GetEntitiesUsingCredentials creds c =
     sortByCreationDate ge_CreatedAt
       (filter (\<lambda>e. gk_ForgeType (ge_Credentials e) = gk_ForgeType creds \<and> gk_ID (ge_Credentials e) = gk_ID creds)
          (map gei_Entity (fc_entities c)))"

definition cache_GetAllEntities :: "forge_caches \<Rightarrow> forge_entity list" where
  "cache_GetAllEntities c =
     sortByCreationDate ge_CreatedAt (map (\<lambda>it. with_current_credentials c (gei_Entity it)) (fc_entities c))"

definition cache_GetAllPools :: "forge_caches \<Rightarrow> garm_pool list" where
  "cache_GetAllPools c = sortByCreationDate gp_CreatedAt (fc_pools c)"

definition cache_GetAllScaleSets :: "forge_caches \<Rightarrow> garm_scale_set list" where
  "cache_GetAllScaleSets c = sortByID gs_ID (fc_scalesets c)"

text \<open>Runner groups are forgotten an hour after they were set.\<close>

definition cache_SetEntityRunnerGroup :: "int \<Rightarrow> string \<Rightarrow> string \<Rightarrow> int \<Rightarrow> forge_caches \<Rightarrow> forge_caches" where
  "cache_SetEntityRunnerGroup now i name gid c =
     c\<lparr>fc_entities := tbl_update item_id i
         (\<lambda>it. it\<lparr>gei_RunnerGroups := tbl_upsert rge_Name
            \<lparr>rge_Name = name, rge_RunnerGroupID = gid, rge_time = now\<rparr> (gei_RunnerGroups it)\<rparr>) (fc_entities c)\<rparr>"

definition cache_GetEntityRunnerGroup ::
    "int \<Rightarrow> string \<Rightarrow> string \<Rightarrow> forge_caches \<Rightarrow> int option \<times> forge_caches" where
  "cache_GetEntityRunnerGroup now i name c =
     (case find_item i c of
        None \<Rightarrow> (None, c)
      | Some it \<Rightarrow>
          (case tbl_find rge_Name name (gei_RunnerGroups it) of
             None \<Rightarrow> (None, c)
           | Some g \<Rightarrow>
               if rge_time g + 3600 * second < now
               then (None, c\<lparr>fc_entities := tbl_update item_id i
                 (\<lambda>it. it\<lparr>gei_RunnerGroups := tbl_delete rge_Name name (gei_RunnerGroups it)\<rparr>) (fc_entities c)\<rparr>)
               else (Some (rge_RunnerGroupID g), c)))"

section \<open>Instances\<close>

definition cache_SetInstanceCache :: "garm_instance \<Rightarrow> forge_caches \<Rightarrow> forge_caches" where
  "cache_SetInstanceCache i c = c\<lparr>fc_instances := tbl_upsert gi_Name i (fc_instances c)\<rparr>"

definition cache_GetInstanceCache :: "string \<Rightarrow> forge_caches \<Rightarrow> garm_instance option" where
  "cache_GetInstanceCache n c = tbl_find gi_Name n (fc_instances c)"

definition cache_DeleteInstanceCache :: "string \<Rightarrow> forge_caches \<Rightarrow> forge_caches" where
  "cache_DeleteInstanceCache n c = c\<lparr>fc_instances := tbl_delete gi_Name n (fc_instances c)\<rparr>"

definition cache_GetAllInstancesCache :: "forge_caches \<Rightarrow> garm_instance list" where
  "cache_GetAllInstancesCache c = sortByCreationDate gi_CreatedAt (fc_instances c)"

definition cache_GetInstancesForPool :: "string \<Rightarrow> forge_caches \<Rightarrow> garm_instance list" where
  "cache_GetInstancesForPool poolID c =
     sortByCreationDate gi_CreatedAt (filter (\<lambda>i. gi_PoolID i = poolID) (fc_instances c))"

definition cache_GetInstancesForScaleSet :: "nat \<Rightarrow> forge_caches \<Rightarrow> garm_instance list" where
  "cache_GetInstancesForScaleSet ssID c =
     sortByCreationDate gi_CreatedAt (filter (\<lambda>i. gi_ScaleSetID i = ssID) (fc_instances c))"

definition cache_GetEntityInstances :: "string \<Rightarrow> forge_caches \<Rightarrow> garm_instance list" where
  "cache_GetEntityInstances i c =
     filter (\<lambda>n. gi_PoolID n \<in> set (map gp_ID (cache_GetEntityPools i c))) (cache_GetAllInstancesCache c)"

definition ref_id :: "(string, forge_entity) result option \<Rightarrow> string option" where
  "ref_id r = (case r of None \<Rightarrow> Some [] | Some (Inl _) \<Rightarrow> None | Some (Inr e) \<Rightarrow> Some (ge_ID e))"

definition cache_GetEntityForInstance :: "string \<Rightarrow> forge_caches \<Rightarrow> forge_entity option" where
  "cache_GetEntityForInstance n c =
     (case cache_GetInstanceCache n c of
        None \<Rightarrow> None
      | Some i \<Rightarrow>
          (let entityID =
             (if 0 < gi_ScaleSetID i then ref_id (map_option ScaleSet_GetEntity (cache_GetScaleSetByID (gi_ScaleSetID i) c))
              else if gi_PoolID i \<noteq> [] then ref_id (map_option Pool_GetEntity (cache_GetPoolByID (gi_PoolID i) c))
              else None)
           in case entityID of
                None \<Rightarrow> None
              | Some e \<Rightarrow> if e = [] then None else cache_GetEntity e c))"

section \<open>Templates, tools, clients and the controller\<close>

definition cache_SetTemplateCache :: "garm_template \<Rightarrow> forge_caches \<Rightarrow> forge_caches" where
  "cache_SetTemplateCache t c = c\<lparr>fc_templates := tbl_upsert gtp_ID t (fc_templates c)\<rparr>"

definition cache_GetTemplate :: "nat \<Rightarrow> forge_caches \<Rightarrow> garm_template option" where
  "cache_GetTemplate i c = tbl_find gtp_ID i (fc_templates c)"

definition cache_ListTemplates :: "string option \<Rightarrow> string option \<Rightarrow> forge_caches \<Rightarrow> garm_template list" where
  "cache_ListTemplates osType forgeType c =
     filter (\<lambda>t. (osType = None \<or> osType = Some (gtp_OSType t)) \<and> (forgeType = None \<or> forgeType = Some (gtp_ForgeType t)))
       (fc_templates c)"

definition cache_DeleteTemplate :: "nat \<Rightarrow> forge_caches \<Rightarrow> forge_caches" where
  "cache_DeleteTemplate i c = c\<lparr>fc_templates := tbl_delete gtp_ID i (fc_templates c)\<rparr>"

definition cache_GetGithubToolsCache ::
    "int \<Rightarrow> string \<Rightarrow> forge_caches \<Rightarrow> (string, runner_download list) result \<times> forge_caches" where
  "cache_GetGithubToolsCache now i c =
     (case tbl_find tools_id i (fc_tools c) of
        None \<Rightarrow> (Inl (''no cache found for entity '' @ i), c)
      | Some t \<Rightarrow>
          if gk_ForgeType (ge_Credentials (get_entity t)) = GithubEndpointType \<and> get_expiresAt t - 300 * second < now
          then (Inl (''cache expired for entity '' @ i), c\<lparr>fc_tools := tbl_delete tools_id i (fc_tools c)\<rparr>)
          else (case get_err t of Some e \<Rightarrow> Inl e | None \<Rightarrow> Inr (get_tools t), c))"

definition cache_SetGithubToolsCache :: "int \<Rightarrow> forge_entity \<Rightarrow> runner_download list \<Rightarrow> forge_caches \<Rightarrow> forge_caches" where
  "cache_SetGithubToolsCache now e tools c =
     c\<lparr>fc_tools := tbl_upsert tools_id
         \<lparr>get_updatedAt = now,
          get_expiresAt = (if gk_ForgeType (ge_Credentials e) = GithubEndpointType then now + 3600 * second else time_zero),
          get_err = None, get_entity = e, get_tools = tools\<rparr> (fc_tools c)\<rparr>"

definition cache_SetGithubToolsCacheError :: "int \<Rightarrow> forge_entity \<Rightarrow> string \<Rightarrow> forge_caches \<Rightarrow> forge_caches" where
  "cache_SetGithubToolsCacheError now e err c =
     (case tbl_find tools_id (ge_ID e) (fc_tools c) of
        None \<Rightarrow> c\<lparr>fc_tools := tbl_upsert tools_id
          \<lparr>get_updatedAt = now, get_expiresAt = time_zero, get_err = Some err, get_entity = e, get_tools = []\<rparr> (fc_tools c)\<rparr>
      | Some t \<Rightarrow> c\<lparr>fc_tools := tbl_upsert tools_id (t\<lparr>get_err := Some err\<rparr>) (fc_tools c)\<rparr>)"

definition cache_DeleteGithubToolsCache :: "string \<Rightarrow> forge_caches \<Rightarrow> forge_caches" where
  "cache_DeleteGithubToolsCache i c = c\<lparr>fc_tools := tbl_delete tools_id i (fc_tools c)\<rparr>"

definition cache_SetGithubClient :: "string \<Rightarrow> nat \<Rightarrow> forge_caches \<Rightarrow> forge_caches" where
  "cache_SetGithubClient i h c = c\<lparr>fc_clients := tbl_upsert fst (i, h) (fc_clients c)\<rparr>"

definition cache_GetGithubClient :: "string \<Rightarrow> forge_caches \<Rightarrow> nat option" where
  "cache_GetGithubClient i c = map_option snd (tbl_find fst i (fc_clients c))"

definition cache_DeleteGithubClient :: "string \<Rightarrow> forge_caches \<Rightarrow> forge_caches" where
  "cache_DeleteGithubClient i c = c\<lparr>fc_clients := tbl_delete fst i (fc_clients c)\<rparr>"

definition cache_SetControllerCache :: "controller_info \<Rightarrow> forge_caches \<Rightarrow> forge_caches" where
  "cache_SetControllerCache ci c = c\<lparr>fc_controller := Some ci\<rparr>"

end
