(* ===== verification/ForgeCacheWorker.thy ===== *)
theory ForgeCacheWorker
  imports ForgeCache ForgeWatcher
begin

text \<open>
  The worker that keeps the caches in step with the database,
  \<^verbatim>\<open>ci/runners/garm/workers/cache/cache.go\<close>: what it loads at its start and what each change
  payload does. The tools updaters it starts per entity are their ids; \<open>cw_resets\<close> records the
  updaters it told to refresh.
\<close>

record cache_worker =
  cw_caches :: forge_caches
  cw_toolsWorkes :: "string list"
  cw_resets :: "string list"

abbreviation on_caches :: "(forge_caches \<Rightarrow> forge_caches) \<Rightarrow> cache_worker \<Rightarrow> cache_worker" where
  "on_caches f w \<equiv> w\<lparr>cw_caches := f (cw_caches w)\<rparr>"

section \<open>Loading\<close>

definition setCacheForEntity ::
    "(string, forge_entity) result \<Rightarrow> garm_pool list \<Rightarrow> garm_scale_set list \<Rightarrow> cache_worker \<Rightarrow> string option \<times> cache_worker" where
  "setCacheForEntity r pools sets w =
     (case r of
        Inl e \<Rightarrow> (Some e, w)
      | Inr e \<Rightarrow> (None, on_caches (\<lambda>c.
          cache_ReplaceEntityScaleSets (ge_ID e) (filter (\<lambda>s. ScaleSet_BelongsTo s e) sets)
            (cache_ReplaceEntityPools (ge_ID e) (filter (\<lambda>p. Pool_BelongsTo p e) pools) (cache_SetEntity e c))) w))"

fun set_all :: "(string, forge_entity) result list \<Rightarrow> garm_pool list \<Rightarrow> garm_scale_set list \<Rightarrow> cache_worker \<Rightarrow>
    string option \<times> cache_worker" where
  "set_all [] pools sets w = (None, w)"
| "set_all (r # rs) pools sets w =
     (case setCacheForEntity r pools sets w of
        (Some e, w') \<Rightarrow> (Some e, w')
      | (None, w') \<Rightarrow> set_all rs pools sets w')"

text \<open>
  What the store's queries return: the endpoints of either kind, whose failure is only logged, and
  the lists whose failure ends the load.
\<close>

record store_lists =
  sl_GiteaEndpoints :: "(string, forge_endpoint list) result"
  sl_GithubEndpoints :: "(string, forge_endpoint list) result"
  sl_Pools :: "(string, garm_pool list) result"
  sl_ScaleSets :: "(string, garm_scale_set list) result"
  sl_Repositories :: "(string, garm_repository list) result"
  sl_Organizations :: "(string, garm_organization list) result"
  sl_Enterprises :: "(string, garm_enterprise list) result"

definition load_endpoints :: "(string, forge_endpoint list) result \<Rightarrow> cache_worker \<Rightarrow> cache_worker" where
  "load_endpoints r w = (case r of Inl _ \<Rightarrow> w | Inr eps \<Rightarrow> on_caches (fold cache_SetEndpoint eps) w)"

definition loadAllEntities :: "store_lists \<Rightarrow> cache_worker \<Rightarrow> string option \<times> cache_worker" where
  "loadAllEntities sl w0 =
     (let w = load_endpoints (sl_GithubEndpoints sl) (load_endpoints (sl_GiteaEndpoints sl) w0) in
      case sl_Pools sl of Inl e \<Rightarrow> (Some e, w)
      | Inr pools \<Rightarrow> (case sl_ScaleSets sl of Inl e \<Rightarrow> (Some e, w)
      | Inr sets \<Rightarrow> (case sl_Repositories sl of Inl e \<Rightarrow> (Some e, w)
      | Inr repos \<Rightarrow> (case sl_Organizations sl of Inl e \<Rightarrow> (Some e, w)
      | Inr orgs \<Rightarrow> (case sl_Enterprises sl of Inl e \<Rightarrow> (Some e, w)
      | Inr ents \<Rightarrow>
          (case set_all (map Repository_GetEntity repos @ map Organization_GetEntity orgs @ map Enterprise_GetEntity ents)
                  pools sets w of
             (Some e, w') \<Rightarrow> (Some e, w')
           | (None, w') \<Rightarrow> (None, w'\<lparr>cw_toolsWorkes :=
               fold add_key (map ge_ID (cache_GetAllEntities (cw_caches w'))) (cw_toolsWorkes w')\<rparr>)))))))"

definition loadAllInstances :: "(string, garm_instance list) result \<Rightarrow> cache_worker \<Rightarrow> string option \<times> cache_worker" where
  "loadAllInstances r w = (case r of Inl e \<Rightarrow> (Some e, w) | Inr is \<Rightarrow> (None, on_caches (fold cache_SetInstanceCache is) w))"

definition loadAllGithubCredentials :: "(string, forge_credentials list) result \<Rightarrow> cache_worker \<Rightarrow> string option \<times> cache_worker" where
  "loadAllGithubCredentials r w =
     (case r of Inl e \<Rightarrow> (Some e, w) | Inr ks \<Rightarrow> (None, on_caches (fold cache_SetGithubCredentials ks) w))"

definition loadAllGiteaCredentials :: "(string, forge_credentials list) result \<Rightarrow> cache_worker \<Rightarrow> string option \<times> cache_worker" where
  "loadAllGiteaCredentials r w =
     (case r of Inl e \<Rightarrow> (Some e, w) | Inr ks \<Rightarrow> (None, on_caches (fold cache_SetGiteaCredentials ks) w))"

section \<open>Events\<close>

definition reset_workers :: "forge_entity list \<Rightarrow> cache_worker \<Rightarrow> cache_worker" where
  "reset_workers es w =
     w\<lparr>cw_resets := cw_resets w @ filter (\<lambda>i. i \<in> set (cw_toolsWorkes w)) (map ge_ID es)\<rparr>"

definition handleEntityEvent :: "(string, forge_entity) result \<Rightarrow> operation_type \<Rightarrow> cache_worker \<Rightarrow> cache_worker" where
  "handleEntityEvent r op w =
     (case r of
        Inl _ \<Rightarrow> w
      | Inr e \<Rightarrow>
          (case op of
             DeleteOperation \<Rightarrow>
               (on_caches (\<lambda>c. cache_DeleteGithubToolsCache (ge_ID e)
                  (cache_DeleteGithubClient (ge_ID e) (cache_DeleteEntity (ge_ID e) c))) w)
               \<lparr>cw_toolsWorkes := removeAll (ge_ID e) (cw_toolsWorkes w)\<rparr>
           | _ \<Rightarrow>
               (let old = cache_GetEntity (ge_ID e) (cw_caches w); w' = on_caches (cache_SetEntity e) w in
                if ge_ID e \<notin> set (cw_toolsWorkes w) then w'\<lparr>cw_toolsWorkes := cw_toolsWorkes w @ [ge_ID e]\<rparr>
                else (case old of
                        None \<Rightarrow> w'
                      | Some o' \<Rightarrow> if gk_ID (ge_Credentials o') \<noteq> gk_ID (ge_Credentials e)
                                   then reset_workers [e] w' else w'))))"

definition handleRepositoryEvent :: "change_payload \<Rightarrow> cache_worker \<Rightarrow> cache_worker" where
  "handleRepositoryEvent ev w =
     (case chp_Payload ev of PRepository r \<Rightarrow> handleEntityEvent (Repository_GetEntity r) (chp_Operation ev) w | _ \<Rightarrow> w)"

definition handleOrgEvent :: "change_payload \<Rightarrow> cache_worker \<Rightarrow> cache_worker" where
  "handleOrgEvent ev w =
     (case chp_Payload ev of POrganization r \<Rightarrow> handleEntityEvent (Organization_GetEntity r) (chp_Operation ev) w | _ \<Rightarrow> w)"

definition handleEnterpriseEvent :: "change_payload \<Rightarrow> cache_worker \<Rightarrow> cache_worker" where
  "handleEnterpriseEvent ev w =
     (case chp_Payload ev of PEnterprise r \<Rightarrow> handleEntityEvent (Enterprise_GetEntity r) (chp_Operation ev) w | _ \<Rightarrow> w)"

definition handlePoolEvent :: "change_payload \<Rightarrow> cache_worker \<Rightarrow> cache_worker" where
  "handlePoolEvent ev w =
     (case chp_Payload ev of
        PPool p \<Rightarrow>
          (case Pool_GetEntity p of
             Inl _ \<Rightarrow> w
           | Inr e \<Rightarrow> on_caches (case chp_Operation ev of
               DeleteOperation \<Rightarrow> cache_DeleteEntityPool (ge_ID e) (gp_ID p)
             | _ \<Rightarrow> cache_SetEntityPool (ge_ID e) p) w)
      | _ \<Rightarrow> w)"

definition handleScaleSetEvent :: "change_payload \<Rightarrow> cache_worker \<Rightarrow> cache_worker" where
  "handleScaleSetEvent ev w =
     (case chp_Payload ev of
        PScaleSet p \<Rightarrow>
          (case ScaleSet_GetEntity p of
             Inl _ \<Rightarrow> w
           | Inr e \<Rightarrow> on_caches (case chp_Operation ev of
               DeleteOperation \<Rightarrow> cache_DeleteEntityScaleSet (ge_ID e) (gs_ID p)
             | _ \<Rightarrow> cache_SetEntityScaleSet (ge_ID e) p) w)
      | _ \<Rightarrow> w)"

definition handleInstanceEvent :: "change_payload \<Rightarrow> cache_worker \<Rightarrow> cache_worker" where
  "handleInstanceEvent ev w =
     (case chp_Payload ev of
        PInstance i \<Rightarrow> on_caches (case chp_Operation ev of
            DeleteOperation \<Rightarrow> cache_DeleteInstanceCache (gi_Name i) | _ \<Rightarrow> cache_SetInstanceCache i) w
      | _ \<Rightarrow> w)"

definition handleTemplateEvent :: "change_payload \<Rightarrow> cache_worker \<Rightarrow> cache_worker" where
  "handleTemplateEvent ev w =
     (case chp_Payload ev of
        PTemplate t \<Rightarrow> on_caches (case chp_Operation ev of
            DeleteOperation \<Rightarrow> cache_DeleteTemplate (gtp_ID t) | _ \<Rightarrow> cache_SetTemplateCache t) w
      | _ \<Rightarrow> w)"

definition handleCredentialsEvent :: "change_payload \<Rightarrow> cache_worker \<Rightarrow> cache_worker" where
  "handleCredentialsEvent ev w =
     (case chp_Payload ev of
        PCredentials k \<Rightarrow>
          (case chp_Operation ev of
             DeleteOperation \<Rightarrow>
               (if gk_ForgeType k = GithubEndpointType then on_caches (cache_DeleteGithubCredentials (gk_ID k)) w
                else if gk_ForgeType k = GiteaEndpointType then on_caches (cache_DeleteGiteaCredentials (gk_ID k)) w
                else w)
           | _ \<Rightarrow>
               (if gk_ForgeType k \<notin> {GithubEndpointType, GiteaEndpointType} then w
                else (let w' = on_caches (if gk_ForgeType k = GithubEndpointType then cache_SetGithubCredentials k
                                          else cache_SetGiteaCredentials k) w
                      in reset_workers (cache_GetEntitiesUsingCredentials k (cw_caches w')) w')))
      | _ \<Rightarrow> w)"

definition handleEndpointEvent :: "change_payload \<Rightarrow> cache_worker \<Rightarrow> cache_worker" where
  "handleEndpointEvent ev w =
     (case chp_Payload ev of
        PEndpoint ep \<Rightarrow>
          (case chp_Operation ev of
             DeleteOperation \<Rightarrow> on_caches (cache_RemoveEndpoint (gep_Name ep)) w
           | _ \<Rightarrow> (let w' = on_caches (cache_SetEndpoint ep) w
                   in reset_workers (cache_GetEntitiesUsingEndpoint ep (cw_caches w')) w'))
      | _ \<Rightarrow> w)"

definition handleControllerInfoEvent :: "change_payload \<Rightarrow> cache_worker \<Rightarrow> cache_worker" where
  "handleControllerInfoEvent ev w =
     (case chp_Payload ev of PController ci \<Rightarrow> on_caches (cache_SetControllerCache ci) w | _ \<Rightarrow> w)"

definition handleEvent :: "change_payload \<Rightarrow> cache_worker \<Rightarrow> cache_worker" where
  "handleEvent ev w =
     (let ty = chp_EntityType ev in
      if ty = PoolEntityType then handlePoolEvent ev w
      else if ty = ScaleSetEntityType then handleScaleSetEvent ev w
      else if ty = InstanceEntityType then handleInstanceEvent ev w
      else if ty = RepositoryEntityType then handleRepositoryEvent ev w
      else if ty = OrganizationEntityType then handleOrgEvent ev w
      else if ty = EnterpriseEntityType then handleEnterpriseEvent ev w
      else if ty \<in> {GithubCredentialsEntityType, GiteaCredentialsEntityType} then handleCredentialsEvent ev w
      else if ty = ControllerEntityType then handleControllerInfoEvent ev w
      else if ty = TemplateEntityType then handleTemplateEvent ev w
      else if ty = GithubEndpointEntityType then handleEndpointEvent ev w
      else w)"

end
