(* ===== verification/ForgeCoherence.thy ===== *)
theory ForgeCoherence
  imports ForgeDbPools ForgeCacheWorker
begin

text \<open>
  The database and the cache worker together: what the caches hold after the worker has handled
  everything the database announced.
\<close>

interpretation instance_rows: keyed_table im_ID "tbl_upsert im_ID" "tbl_delete im_ID" "tbl_find im_ID" "tbl_ok im_ID"
  by (rule tbl_keyed)

interpretation cached_instances: keyed_table gi_Name "tbl_upsert gi_Name" "tbl_delete gi_Name" "tbl_find gi_Name" "tbl_ok gi_Name"
  by (rule tbl_keyed)

section \<open>Operations on instances\<close>

datatype instance_op =
    OpCreate db_env string create_instance_params
  | OpDelete db_env string string
  | OpDeleteByName db_env string
  | OpUpdate db_env bool string update_instance_params

fun instance_step :: "instance_op \<Rightarrow> garm_db \<Rightarrow> garm_db" where
  "instance_step (OpCreate env poolID p) db = snd (CreateInstance env poolID p db)"
| "instance_step (OpDelete env poolID n) db = snd (DeleteInstance env poolID n db)"
| "instance_step (OpDeleteByName env n) db = snd (DeleteInstanceByName env n db)"
| "instance_step (OpUpdate env force n p) db = snd (updateInstance env force n p db)"

definition run_instance_ops :: "instance_op list \<Rightarrow> garm_db \<Rightarrow> garm_db" where
  "run_instance_ops ops db = fold instance_step ops db"

text \<open>
  All calls use the same parser and key, every payload is taken, and what was sealed can be opened.
  A deletion by name is in addition one whose statement the database does not refuse: the deferred
  function of \<^verbatim>\<open>DeleteInstanceByName\<close> looks at an error variable that the failing
  statement does not set, and announces a deletion that has not happened.
\<close>

definition env_agrees :: "db_env \<Rightarrow> db_env \<Rightarrow> bool" where
  "env_agrees env0 env \<longleftrightarrow> de_uuid env = de_uuid env0 \<and> de_unseal env = de_unseal env0 \<and> de_notified env
     \<and> (\<forall>jit b. de_seal env jit = Inr b \<longrightarrow> is_ok (de_unseal env0 b))"

fun op_ok :: "db_env \<Rightarrow> instance_op \<Rightarrow> bool" where
  "op_ok env0 (OpCreate env poolID p) \<longleftrightarrow> env_agrees env0 env \<and> de_uuid env0 (cip_Name p) = None"
| "op_ok env0 (OpDelete env poolID n) \<longleftrightarrow> env_agrees env0 env"
| "op_ok env0 (OpDeleteByName env n) \<longleftrightarrow> env_agrees env0 env \<and> de_refused env = None"
| "op_ok env0 (OpUpdate env force n p) \<longleftrightarrow> env_agrees env0 env"

text \<open>What the conversion of a row depends on.\<close>

lemma base_instance_cong:
  assumes "gd_pools db = gd_pools db'" "gd_scalesets db = gd_scalesets db'"
  shows "base_instance db = base_instance db'"
proof -
  have "provider_of_pool db = provider_of_pool db'" "provider_of_scale_set db = provider_of_scale_set db'"
    using assms by (simp_all add: fun_eq_iff provider_of_pool_def provider_of_scale_set_def)
  then show ?thesis by (intro ext) (simp add: base_instance_def split: option.split)
qed

lemma convert_cong:
  assumes "de_unseal env = de_unseal env'" "gd_pools db = gd_pools db'" "gd_scalesets db = gd_scalesets db'"
  shows "sqlToParamsInstance env db m = sqlToParamsInstance env' db' m"
  unfolding sqlToParamsInstance_def jit_of_def assms(1) base_instance_cong [OF assms(2, 3)] by (rule refl)

definition row_view :: "db_env \<Rightarrow> garm_db \<Rightarrow> instance_model \<Rightarrow> garm_instance" where
  "row_view env db m = (case sqlToParamsInstance env db m of Inr i \<Rightarrow> i | Inl _ \<Rightarrow> base_instance db m [])"

definition instances_inv :: "db_env \<Rightarrow> garm_db \<Rightarrow> bool" where
  "instances_inv env0 db \<longleftrightarrow>
     tbl_ok im_ID (gd_instances db) \<and> tbl_ok im_Name (gd_instances db)
     \<and> (\<forall>m \<in> set (gd_instances db). is_ok (sqlToParamsInstance env0 db m) \<and> de_uuid env0 (im_Name m) = None)
     \<and> (\<forall>p \<in> set (gd_pools db). pm_ID p \<noteq> [])"

definition mirrored :: "db_env \<Rightarrow> garm_db \<Rightarrow> forge_caches \<Rightarrow> bool" where
  "mirrored env0 db c \<longleftrightarrow>
     (\<forall>n. cache_GetInstanceCache n c = map_option (row_view env0 db) (tbl_find im_Name n (gd_instances db)))"

lemma is_ok_Inr: "is_ok r \<longleftrightarrow> (\<exists>x. r = Inr x)"
  by (cases r) auto

lemma row_view_name: "is_ok (sqlToParamsInstance env db m) \<Longrightarrow> gi_Name (row_view env db m) = im_Name m"
  by (auto simp: row_view_def sqlToParamsInstance_def base_instance_def is_ok_Inr Let_def split: sum.splits if_splits)

text \<open>One announced change of an instance, as the worker handles it.\<close>

lemma handle_instance:
  "cw_caches (handleEvent \<lparr>chp_EntityType = InstanceEntityType, chp_Operation = op, chp_Payload = PInstance i\<rparr> w)
   = (if op = DeleteOperation then cache_DeleteInstanceCache (gi_Name i) (cw_caches w)
      else cache_SetInstanceCache i (cw_caches w))"
  by (cases op) (simp_all add: handleEvent_def handleInstanceEvent_def Let_def)

lemma cached_set: "cache_GetInstanceCache n (cache_SetInstanceCache i c) = (if n = gi_Name i then Some i else cache_GetInstanceCache n c)"
  by (simp add: cache_GetInstanceCache_def cache_SetInstanceCache_def)

lemma cached_delete: "cache_GetInstanceCache n (cache_DeleteInstanceCache k c) = (if n = k then None else cache_GetInstanceCache n c)"
  by (simp add: cache_GetInstanceCache_def cache_DeleteInstanceCache_def)

text \<open>The four things an operation can do to the table and the channel.\<close>

inductive effect :: "db_env \<Rightarrow> garm_db \<Rightarrow> garm_db \<Rightarrow> bool" for env0 where
  unchanged: "effect env0 db db"
| inserted: "\<lbrakk>im_Name m \<notin> im_Name ` set (gd_instances db); im_ID m \<notin> im_ID ` set (gd_instances db);
    de_uuid env0 (im_Name m) = None; sqlToParamsInstance env0 db m = Inr i\<rbrakk> \<Longrightarrow>
    effect env0 db (db\<lparr>gd_instances := gd_instances db @ [m],
      gd_sent := gd_sent db @ [\<lparr>chp_EntityType = InstanceEntityType, chp_Operation = CreateOperation, chp_Payload = PInstance i\<rparr>]\<rparr>)"
| deleted: "\<lbrakk>m \<in> set (gd_instances db); gi_Name i = im_Name m\<rbrakk> \<Longrightarrow>
    effect env0 db (db\<lparr>gd_instances := tbl_delete im_ID (im_ID m) (gd_instances db),
      gd_sent := gd_sent db @ [\<lparr>chp_EntityType = InstanceEntityType, chp_Operation = DeleteOperation, chp_Payload = PInstance i\<rparr>]\<rparr>)"
| updated: "\<lbrakk>m \<in> set (gd_instances db); im_ID m' = im_ID m; im_Name m' = im_Name m; sqlToParamsInstance env0 db m' = Inr i\<rbrakk> \<Longrightarrow>
    effect env0 db (db\<lparr>gd_instances := tbl_update im_ID (im_ID m) (\<lambda>_. m') (gd_instances db),
      gd_sent := gd_sent db @ [\<lparr>chp_EntityType = InstanceEntityType, chp_Operation = UpdateOperation, chp_Payload = PInstance i\<rparr>]\<rparr>)"

lemma find_name_delete:
  assumes "tbl_ok im_ID t" "tbl_ok im_Name t" "m \<in> set t"
  shows "tbl_find im_Name n (tbl_delete im_ID (im_ID m) t) = (if n = im_Name m then None else tbl_find im_Name n t)"
proof -
  have "im_ID x = im_ID m \<longleftrightarrow> im_Name x = im_Name m" if "x \<in> set t" for x
    using that assms by (metis inj_on_eq_iff distinct_map tbl_ok_def)
  then have "tbl_delete im_ID (im_ID m) t = tbl_delete im_Name (im_Name m) t"
    by (simp add: tbl_delete_def cong: filter_cong)
  then show ?thesis by simp
qed

lemma find_name_update:
  assumes "tbl_ok im_ID t" "tbl_ok im_Name t" "m \<in> set t" "im_Name m' = im_Name m"
  shows "tbl_find im_Name n (tbl_update im_ID (im_ID m) (\<lambda>_. m') t) = (if n = im_Name m then Some m' else tbl_find im_Name n t)"
proof -
  have same: "im_ID x = im_ID m \<longleftrightarrow> im_Name x = im_Name m" if "x \<in> set t" for x
    using that assms by (metis inj_on_eq_iff distinct_map tbl_ok_def)
  have "tbl_find im_Name n (map (\<lambda>x. if im_ID x = im_ID m then m' else x) us)
      = (if n = im_Name m \<and> n \<in> im_Name ` set us then Some m' else tbl_find im_Name n us)" if "set us \<subseteq> set t" for us
    using that by (induction us) (auto simp: tbl_find_def assms(4) same)
  from this [of t] show ?thesis
    using assms(3) by (auto simp: tbl_update_def)
qed

section \<open>Every operation has one of the effects\<close>

lemma env_agrees_convert:
  assumes "env_agrees env0 env"
  shows "sqlToParamsInstance env db m = sqlToParamsInstance env0 db m"
  using assms by (intro convert_cong) (simp_all add: env_agrees_def)

lemma tbl_find_append: "tbl_find key k (t @ u) = (case tbl_find key k t of None \<Rightarrow> tbl_find key k u | Some r \<Rightarrow> Some r)"
  unfolding tbl_find_def by (rule find_append)

lemma tbl_find_append_new: "key m \<notin> key ` set t \<Longrightarrow> tbl_find key (key m) (t @ [m]) = Some m"
  by (simp add: tbl_find_append tbl_find_None [THEN iffD2]) (simp add: tbl_find_def)

lemma getInstance_mem: "getInstance env s db = Inr m \<Longrightarrow> m \<in> set (gd_instances db)"
  by (auto simp: getInstance_def dest: tbl_find_key split: option.splits)

lemma notified_send: "env_agrees env0 env \<Longrightarrow> sendNotify env ty op p db
    = db\<lparr>gd_sent := gd_sent db @ [\<lparr>chp_EntityType = ty, chp_Operation = op, chp_Payload = p\<rparr>]\<rparr>"
  by (simp add: sendNotify_def env_agrees_def)

lemma create_effect:
  assumes "instances_inv env0 db" "env_agrees env0 env" "de_uuid env0 (cip_Name p) = None"
  shows "effect env0 db (snd (CreateInstance env poolID p db))"
proof (cases "getPoolByID env poolID db")
  case (Inl e)
  then show ?thesis by (simp add: CreateInstance_def effect.unchanged)
next
  case pool: (Inr q)
  then have q: "pm_ID q \<noteq> []"
    using assms(1) by (auto simp: getPoolByID_def instances_inv_def dest: tbl_find_key split: option.splits)
  show ?thesis
  proof (cases "create_in_pool env q p db")
    case (Inl e)
    with pool show ?thesis by (simp add: CreateInstance_def effect.unchanged)
  next
    case created: (Inr db')
    then obtain secret where s: "seal_jit env (cip_JitConfiguration p) = Inr secret"
      and ins: "insert_instance env (new_instance_model env q p secret) db = Inr db'"
      by (auto simp: create_in_pool_def split: if_splits sum.splits)
    let ?m = "new_instance_model env q p secret"
    have m: "im_Name ?m = cip_Name p" "im_PoolID ?m = Some (pm_ID q)" "im_ScaleSetFkID ?m = None" "im_JitConfiguration ?m = secret"
      by (simp_all add: new_instance_model_def)
    from ins have new: "im_Name ?m \<notin> im_Name ` set (gd_instances db)" "im_ID ?m \<notin> im_ID ` set (gd_instances db)"
      and db': "db' = db\<lparr>gd_instances := gd_instances db @ [?m]\<rparr>"
      by (auto simp: insert_instance_def split: option.splits if_splits)
    have "is_ok (jit_of env0 secret)"
      using s assms(2) by (auto simp: seal_jit_def jit_of_def env_agrees_def split: if_splits)
    then obtain i where i: "sqlToParamsInstance env0 db ?m = Inr i"
      using q m by (auto simp: sqlToParamsInstance_def is_ok_Inr Let_def base_instance_def some_str_def)
    have view: "sqlToParamsInstance env db' ?m = Inr i"
      using i convert_cong [of env env0 db' db ?m] assms(2) db' by (simp add: env_agrees_def)
    have "getInstance env (cip_Name p) db' = Inr ?m"
      using assms(2, 3) db' tbl_find_append_new [OF new(1)] m by (simp add: getInstance_def env_agrees_def)
    then have "CreateInstance env poolID p db = (Inr i, sendNotify env InstanceEntityType CreateOperation (PInstance i) db')"
      using pool created view by (simp add: CreateInstance_def GetInstance_def)
    then show ?thesis
      using effect.inserted [OF new _ i] assms(2, 3) m db' by (simp add: notified_send)
  qed
qed

lemma deleted_instance_name [simp]: "gi_Name (deleted_instance m p s) = im_Name m"
  by (simp add: deleted_instance_def)

lemma delete_effect: "env_agrees env0 env \<Longrightarrow> effect env0 db (snd (DeleteInstance env poolID n db))"
proof (cases "getPoolInstanceByName env poolID n db")
  case (Inl e)
  then show ?thesis by (cases e) (simp_all add: DeleteInstance_def effect.unchanged)
next
  case (Inr m)
  assume "env_agrees env0 env"
  moreover have "m \<in> set (gd_instances db)"
    using Inr by (auto simp: getPoolInstanceByName_def find_Some_iff split: sum.splits option.splits)
  ultimately show ?thesis
    using Inr by (auto simp: DeleteInstance_def Let_def notified_send effect.unchanged intro!: effect.deleted split: option.split)
qed

lemma delete_by_name_effect:
  "env_agrees env0 env \<Longrightarrow> de_refused env = None \<Longrightarrow> effect env0 db (snd (DeleteInstanceByName env n db))"
proof (cases "getInstance env n db")
  case (Inl e)
  then show ?thesis by (cases e) (simp_all add: DeleteInstanceByName_def effect.unchanged)
next
  case (Inr m)
  assume "env_agrees env0 env" "de_refused env = None"
  with Inr getInstance_mem [OF Inr] show ?thesis
    by (auto simp: DeleteInstanceByName_def Let_def notified_send intro!: effect.deleted)
qed

lemma apply_updates_keys:
  "applyInstanceUpdates env p m = Inr m' \<Longrightarrow> im_ID m' = im_ID m \<and> im_Name m' = im_Name m
     \<and> im_PoolID m' = im_PoolID m \<and> im_ScaleSetFkID m' = im_ScaleSetFkID m"
  by (auto simp: applyInstanceUpdates_def split: sum.splits)

lemma apply_updates_jit:
  "env_agrees env0 env \<Longrightarrow> applyInstanceUpdates env p m = Inr m' \<Longrightarrow> is_ok (jit_of env0 (im_JitConfiguration m)) \<Longrightarrow>
     is_ok (jit_of env0 (im_JitConfiguration m'))"
  by (auto simp: applyInstanceUpdates_def env_agrees_def jit_of_def split: sum.splits option.splits if_splits)

lemma convert_ok_iff:
  "is_ok (sqlToParamsInstance env db m) \<longleftrightarrow> is_ok (jit_of env (im_JitConfiguration m))
     \<and> \<not> ((case im_ScaleSetFkID m of None \<Rightarrow> 0 | Some s \<Rightarrow> s) = 0 \<and> some_str (im_PoolID m) = [])
     \<and> \<not> ((case im_ScaleSetFkID m of None \<Rightarrow> 0 | Some s \<Rightarrow> s) \<noteq> 0 \<and> some_str (im_PoolID m) \<noteq> [])"
  by (auto simp: sqlToParamsInstance_def is_ok_def base_instance_def Let_def split: sum.splits)

lemma update_effect:
  assumes inv: "instances_inv env0 db" and env: "env_agrees env0 env"
  shows "effect env0 db (snd (updateInstance env force name p db))"
proof (cases "getInstance env name db")
  case (Inl e)
  then show ?thesis by (simp add: updateInstance_def effect.unchanged)
next
  case m: (Inr m)
  note mem = getInstance_mem [OF m]
  show ?thesis
  proof (cases "\<exists>m' db'. check_update force p m = None \<and> applyInstanceUpdates env p m = Inr m' \<and> save_instance env p m' db = Inr db'")
    case False
    with m show ?thesis by (auto simp: updateInstance_def effect.unchanged split: option.split sum.split)
  next
    case True
    then obtain m' db' where up: "check_update force p m = None" "applyInstanceUpdates env p m = Inr m'"
      "save_instance env p m' db = Inr db'" by blast
    let ?m = "m'\<lparr>im_UpdatedAt := de_now env, im_Addresses := keep_if (uip_Addresses p = []) (im_Addresses m') (uip_Addresses p)\<rparr>"
    have db': "db' = db\<lparr>gd_instances := tbl_update im_ID (im_ID m) (\<lambda>_. ?m) (gd_instances db)\<rparr>"
      using up(3) apply_updates_keys [OF up(2)] by (auto simp: save_instance_def split: option.splits if_splits)
    have keys: "im_ID ?m = im_ID m" "im_Name ?m = im_Name m" using apply_updates_keys [OF up(2)] by simp_all
    have "is_ok (sqlToParamsInstance env0 db m)" using inv mem by (auto simp: instances_inv_def)
    then have "is_ok (sqlToParamsInstance env0 db ?m)"
      using apply_updates_keys [OF up(2)] apply_updates_jit [OF env up(2)] by (auto simp: convert_ok_iff)
    then obtain i where i: "sqlToParamsInstance env0 db ?m = Inr i" by (auto simp: is_ok_Inr)
    have view: "sqlToParamsInstance env db' ?m = Inr i"
      using i convert_cong [of env env0 db' db ?m] env db' by (simp add: env_agrees_def)
    have ok: "tbl_ok im_ID (gd_instances db)" "tbl_ok im_Name (gd_instances db)" using inv by (auto simp: instances_inv_def)
    have "getInstance env name db' = Inr ?m"
    proof (cases "de_uuid env name")
      case None
      then have "tbl_find im_Name name (gd_instances db) = Some m"
        using m by (auto simp: getInstance_def split: option.splits)
      then have "im_Name m = name" by (auto dest: tbl_find_key)
      then show ?thesis using None db' find_name_update [OF ok mem keys(2)] by (simp add: getInstance_def)
    next
      case (Some u)
      then have f: "tbl_find im_ID u (gd_instances db) = Some m"
        using m by (auto simp: getInstance_def split: option.splits)
      then have "im_ID m = u" by (auto dest: tbl_find_key)
      moreover have "tbl_find im_ID u (map (\<lambda>x. if im_ID x = im_ID m then ?m else x) us) = Some ?m"
        if "m \<in> set us" "im_ID m = u" for us
        using that keys by (induction us) (auto simp: tbl_find_def)
      ultimately show ?thesis using Some db' mem by (simp add: getInstance_def tbl_update_def)
    qed
    then have "updateInstance env force name p db = (Inr i, sendNotify env InstanceEntityType UpdateOperation (PInstance i) db')"
      using m up view by (simp add: updateInstance_def GetInstance_def)
    then show ?thesis
      using effect.updated [OF mem keys i] db' env by (simp add: notified_send)
  qed
qed

lemma step_effect: "instances_inv env0 db \<Longrightarrow> op_ok env0 op \<Longrightarrow> effect env0 db (instance_step op db)"
  by (cases op) (simp_all add: create_effect delete_effect delete_by_name_effect update_effect)

section \<open>The cache mirrors the table\<close>

lemma effect_frame: "effect env0 db db' \<Longrightarrow> gd_pools db' = gd_pools db \<and> gd_scalesets db' = gd_scalesets db"
  by (induction rule: effect.induct) simp_all

lemma effect_inv:
  assumes "effect env0 db db'" "instances_inv env0 db"
  shows "instances_inv env0 db'"
proof -
  have conv: "sqlToParamsInstance env0 db' m = sqlToParamsInstance env0 db m" for m
    using effect_frame [OF assms(1)] by (intro convert_cong) simp_all
  show ?thesis
    using assms(1)
  proof cases
    case (inserted m i)
    with assms(2) conv show ?thesis by (auto simp: instances_inv_def tbl_ok_def)
  next
    case (deleted m i)
    with assms(2) conv show ?thesis by (auto simp: instances_inv_def tbl_ok_def tbl_delete_def intro: distinct_map_filter)
  next
    case (updated m m' i)
    have names: "map im_Name (tbl_update im_ID (im_ID m) (\<lambda>_. m') t) = map im_Name t" if "t = gd_instances db" for t
    proof -
      have "im_Name x = im_Name m" if "x \<in> set t" "im_ID x = im_ID m" for x
        using that \<open>t = _\<close> assms(2) updated(2) by (metis instances_inv_def inj_on_eq_iff distinct_map tbl_ok_def)
      then show ?thesis using updated by (simp add: tbl_update_def)
    qed
    have ids: "map im_ID (tbl_update im_ID (im_ID m) (\<lambda>_. m') (gd_instances db)) = map im_ID (gd_instances db)"
      using updated by (simp add: tbl_update_def)
    have "is_ok (sqlToParamsInstance env0 db x) \<and> de_uuid env0 (im_Name x) = None"
      if "x \<in> set (tbl_update im_ID (im_ID m) (\<lambda>_. m') (gd_instances db))" for x
      using set_tbl_update [OF that] updated assms(2) by (auto simp: instances_inv_def is_ok_Inr)
    with updated names [OF refl] ids assms(2) conv show ?thesis
      by (simp add: instances_inv_def tbl_ok_def)
  qed (use assms in simp)
qed

lemma row_view_cong: "gd_pools db' = gd_pools db \<Longrightarrow> gd_scalesets db' = gd_scalesets db \<Longrightarrow> row_view env0 db' = row_view env0 db"
  by (intro ext) (simp add: row_view_def convert_cong [of env0 env0 db' db] base_instance_cong [of db' db] split: sum.split)

lemma row_view_Inr: "sqlToParamsInstance env0 db m = Inr i \<Longrightarrow> row_view env0 db m = i"
  by (simp add: row_view_def)

definition worker_after :: "garm_db \<Rightarrow> cache_worker \<Rightarrow> cache_worker" where
  "worker_after db w = fold handleEvent (gd_sent db) w"

lemma effect_mirrored:
  assumes "effect env0 db db'" "instances_inv env0 db" "mirrored env0 db (cw_caches (worker_after db w))"
  shows "mirrored env0 db' (cw_caches (worker_after db' w))"
proof -
  have view: "row_view env0 db' = row_view env0 db"
    using effect_frame [OF assms(1)] by (intro row_view_cong) simp_all
  have ok: "tbl_ok im_ID (gd_instances db)" "tbl_ok im_Name (gd_instances db)"
    and conv: "\<And>m. m \<in> set (gd_instances db) \<Longrightarrow> is_ok (sqlToParamsInstance env0 db m)"
    using assms(2) by (auto simp: instances_inv_def)
  show ?thesis
    using assms(1)
  proof cases
    case (inserted m i)
    have "gi_Name i = im_Name m" using row_view_name [of env0 db m] inserted row_view_Inr by simp
    moreover have "tbl_find im_Name n (gd_instances db @ [m])
        = (if n = im_Name m then Some m else tbl_find im_Name n (gd_instances db))" for n
      using inserted tbl_find_append_new [of im_Name m "gd_instances db"]
      by (cases "n = im_Name m") (simp_all add: tbl_find_append, simp add: tbl_find_def split: option.split)
    ultimately show ?thesis
      using inserted assms(3) view
      by (simp add: mirrored_def worker_after_def handle_instance cached_set row_view_Inr)
  next
    case (deleted m i)
    then show ?thesis
      using assms(3) view find_name_delete [OF ok deleted(2)]
      by (simp add: mirrored_def worker_after_def handle_instance cached_delete)
  next
    case (updated m m' i)
    have "gi_Name i = im_Name m" using row_view_name [of env0 db m'] updated row_view_Inr by simp
    then show ?thesis
      using updated assms(3) view find_name_update [OF ok updated(2), of m']
      by (simp add: mirrored_def worker_after_def handle_instance cached_set row_view_Inr)
  qed (use assms in simp)
qed

lemma run_mirrored:
  assumes "instances_inv env0 db" "mirrored env0 db (cw_caches (worker_after db w))" "list_all (op_ok env0) ops"
  shows "instances_inv env0 (run_instance_ops ops db)
    \<and> mirrored env0 (run_instance_ops ops db) (cw_caches (worker_after (run_instance_ops ops db) w))"
  using assms
proof (induction ops arbitrary: db)
  case (Cons op ops)
  then have "effect env0 db (instance_step op db)" by (intro step_effect) simp_all
  with Cons show ?case
    using effect_inv effect_mirrored by (simp add: run_instance_ops_def)
qed (simp add: run_instance_ops_def)

lemma mirrored_lookup:
  assumes "instances_inv env0 db" "mirrored env0 db c" "de_uuid env0 n = None"
  shows "GetInstance env0 n db = (case cache_GetInstanceCache n c of None \<Rightarrow> Inl GNotFound | Some i \<Rightarrow> Inr i)"
proof (cases "tbl_find im_Name n (gd_instances db)")
  case None
  with assms show ?thesis by (simp add: GetInstance_def getInstance_def mirrored_def)
next
  case (Some m)
  then have "is_ok (sqlToParamsInstance env0 db m)" using assms(1) by (auto simp: instances_inv_def dest: tbl_find_key)
  then obtain i where "sqlToParamsInstance env0 db m = Inr i" by (auto simp: is_ok_Inr)
  with Some assms show ?thesis by (simp add: GetInstance_def getInstance_def mirrored_def row_view_Inr)
qed

text \<open>
  C4. The instance cache refines the table of instances: starting with no instance, after any
  creations, updates (forced or not) and deletions of instances, the cache worker that has handled
  what the database announced, in order, answers every lookup of a name exactly as the database
  does. An operation may be refused by its own checks, and the statement of a creation, an update
  or a deletion by pool and name may be refused by the database. The hypotheses are: the statement
  of \<^verbatim>\<open>DeleteInstanceByName\<close> is not refused (it would announce the deletion all the same), every
  payload is taken by the watcher, names are no UUIDs (the lookup tries a UUID as an id first),
  pools have an id, and what was sealed can be opened again.
\<close>

theorem instance_cache_refines_database:
  assumes "gd_instances db = []" "gd_sent db = []" "\<forall>p \<in> set (gd_pools db). pm_ID p \<noteq> []"
    and "fc_instances (cw_caches w) = []"
    and "list_all (op_ok env) ops" "de_uuid env name = None"
  shows "GetInstance env name (run_instance_ops ops db)
    = (case cache_GetInstanceCache name (cw_caches (fold handleEvent (gd_sent (run_instance_ops ops db)) w)) of
         None \<Rightarrow> Inl GNotFound | Some i \<Rightarrow> Inr i)"
proof -
  have "instances_inv env db" using assms by (simp add: instances_inv_def)
  moreover have "mirrored env db (cw_caches (worker_after db w))"
    using assms by (simp add: mirrored_def worker_after_def cache_GetInstanceCache_def tbl_find_def)
  ultimately have "instances_inv env (run_instance_ops ops db)
    \<and> mirrored env (run_instance_ops ops db) (cw_caches (worker_after (run_instance_ops ops db) w))"
    using assms(5) by (rule run_mirrored)
  then show ?thesis
    using assms(6) mirrored_lookup [of env "run_instance_ops ops db"] by (simp add: worker_after_def)
qed

end
