(* ===== verification/ForgeDemo.thy ===== *)
theory ForgeDemo
  imports ForgeCoherence
begin

text \<open>Concrete values of the garm manager's types, at which the witnesses apply the theorems.\<close>

definition demo_uuid :: "string \<Rightarrow> string option" where
  "demo_uuid s = (if s \<in> {''p1'', ''p2'', ''e1''} then Some s else None)"

definition demo_db_env :: "string \<Rightarrow> db_env" where
  "demo_db_env i = \<lparr>de_now = 7, de_newID = i, de_newSerial = 1, de_uuid = demo_uuid, de_seal = (\<lambda>_. Inr [1]),
     de_unseal = (\<lambda>_. Inr []), de_refused = None, de_notified = True\<rparr>"

definition demo_pool_model :: "string \<Rightarrow> nat \<Rightarrow> pool_model" where
  "demo_pool_model i n = \<lparr>pm_ID = i, pm_CreatedAt = 0, pm_UpdatedAt = 0, pm_ProviderName = ''incus'', pm_RunnerPrefix = ''garm'',
     pm_MaxRunners = n, pm_MinIdleRunners = 0, pm_RunnerBootstrapTimeout = 20, pm_Image = ''ubuntu'', pm_Flavor = ''small'',
     pm_OSType = ''linux'', pm_OSArch = ''amd64'', pm_Tags = [], pm_Enabled = True, pm_ExtraSpecs = [],
     pm_GitHubRunnerGroup = [], pm_EnableShell = False, pm_Generation = 0, pm_RepoID = Some ''e1'', pm_OrgID = None,
     pm_EnterpriseID = None, pm_TemplateID = None, pm_Priority = 0\<rparr>"

definition demo_garm_db :: garm_db where
  "demo_garm_db = \<lparr>gd_instances = [], gd_pools = [demo_pool_model ''p1'' 2], gd_tags = [], gd_entities = [],
     gd_scalesets = [], gd_templates = [], gd_sent = []\<rparr>"

definition demo_create_params :: "string \<Rightarrow> create_instance_params" where
  "demo_create_params n = \<lparr>cip_Name = n, cip_OSType = ''linux'', cip_OSArch = ''amd64'', cip_Status = InstancePendingCreate,
     cip_RunnerStatus = RunnerPending, cip_CallbackURL = [], cip_MetadataURL = [], cip_GitHubRunnerGroup = [], cip_AgentID = 0,
     cip_AditionalLabels = [], cip_JitConfiguration = [], cip_Generation = 0\<rparr>"

definition demo_status_params :: "string \<Rightarrow> string \<Rightarrow> update_instance_params" where
  "demo_status_params s r = \<lparr>uip_ProviderID = [], uip_OSName = [], uip_OSVersion = [], uip_Addresses = [], uip_Status = s,
     uip_RunnerStatus = r, uip_ProviderFault = [], uip_Heartbeat = None, uip_AgentID = 0, uip_CreateAttempt = 0,
     uip_TokenFetched = None, uip_JitConfiguration = None, uip_Capabilities = None\<rparr>"

definition demo_instance_ops :: "instance_op list" where
  "demo_instance_ops =
     [OpCreate (demo_db_env ''i1'') ''p1'' (demo_create_params ''r1''),
      OpCreate (demo_db_env ''i2'') ''p1'' (demo_create_params ''r2''),
      OpUpdate (demo_db_env []) False ''r1'' (demo_status_params InstanceCreating []),
      OpUpdate (demo_db_env []) True ''r2'' (demo_status_params InstanceDeleted RunnerTerminated),
      OpUpdate (demo_db_env []) False ''r2'' (demo_status_params InstanceRunning []),
      OpDelete (demo_db_env []) ''p1'' ''r2'']"

definition demo_worker :: cache_worker where
  "demo_worker = \<lparr>cw_caches = empty_caches, cw_toolsWorkes = [], cw_resets = []\<rparr>"

lemma demo_ops_ok: "list_all (op_ok (demo_db_env [])) demo_instance_ops"
  by (simp add: demo_instance_ops_def env_agrees_def demo_db_env_def demo_uuid_def demo_create_params_def)

lemma demo_pools_named: "\<forall>p \<in> set (gd_pools demo_garm_db). pm_ID p \<noteq> []"
  by (simp add: demo_garm_db_def demo_pool_model_def)

theorem instance_cache_refines_database_witness:
  "GetInstance (demo_db_env []) ''r1'' (run_instance_ops demo_instance_ops demo_garm_db)
    = (case cache_GetInstanceCache ''r1''
         (cw_caches (fold handleEvent (gd_sent (run_instance_ops demo_instance_ops demo_garm_db)) demo_worker)) of
         None \<Rightarrow> Inl GNotFound | Some i \<Rightarrow> Inr i)"
  by (rule instance_cache_refines_database [OF _ _ demo_pools_named _ demo_ops_ok])
     (simp_all add: demo_garm_db_def demo_worker_def empty_caches_def demo_db_env_def demo_uuid_def)

end
