(* ===== verification/ForgeDbProps.thy ===== *)
theory ForgeDbProps
  imports ForgeDemo
begin

text \<open>
  What the database guarantees over any sequence of calls on instances: the paths their states can
  take, the number of instances of a pool, and the types of the payloads it announces.
\<close>

section \<open>State machines of an instance and its runner\<close>

definition allowed_step :: "(string \<times> string list) list \<Rightarrow> (string \<times> string) set" where
  "allowed_step table = {(a, b). \<exists>bs. map_of table a = Some bs \<and> b \<in> set bs}"

lemma validate_transition_allowed:
  "validate_transition what table a b = None \<Longrightarrow> (a, keep_if (b = []) a b) \<in> (allowed_step table)\<^sup>*"
  by (auto simp: validate_transition_def keep_if_def allowed_step_def split: if_splits option.splits)

text \<open>A row and what became of it.\<close>

definition row_path :: "instance_model \<Rightarrow> instance_model \<Rightarrow> bool" where
  "row_path m m' \<longleftrightarrow> im_ID m' = im_ID m
     \<and> (im_Status m, im_Status m') \<in> (allowed_step InstanceStatusTransitions)\<^sup>*
     \<and> (im_RunnerStatus m, im_RunnerStatus m') \<in> (allowed_step RunnerStatusTransitions)\<^sup>*"

lemma row_path_refl [simp]: "row_path m m"
  by (simp add: row_path_def)

lemma row_kept: "m \<in> R \<Longrightarrow> R \<subseteq> S \<Longrightarrow> \<exists>m0 \<in> S. row_path m0 m"
  by (rule bexI [of _ m]) auto

lemma row_path_trans: "row_path m m' \<Longrightarrow> row_path m' m'' \<Longrightarrow> row_path m m''"
  by (auto simp: row_path_def)

fun is_checked :: "instance_op \<Rightarrow> bool" where
  "is_checked (OpCreate _ _ _) \<longleftrightarrow> False"
| "is_checked (OpUpdate _ force _ _) \<longleftrightarrow> \<not> force"
| "is_checked _ \<longleftrightarrow> True"

lemma sendNotify_tables [simp]:
  "gd_instances (sendNotify env ty op p db) = gd_instances db" "gd_pools (sendNotify env ty op p db) = gd_pools db"
  by (simp_all add: sendNotify_def)

lemma delete_rows:
  "set (gd_instances (snd (DeleteInstance env poolID n db))) \<subseteq> set (gd_instances db)"
  "set (gd_instances (snd (DeleteInstanceByName env n db))) \<subseteq> set (gd_instances db)"
  by (auto simp: DeleteInstance_def DeleteInstanceByName_def Let_def tbl_delete_def
      split: sum.splits option.splits garm_db_error.splits)

lemma checked_update_path:
  assumes "check_update False p m = None" "applyInstanceUpdates env p m = Inr m'"
  shows "row_path m m'"
proof -
  from assms(1) have "validateRunnerStatusTransition (im_RunnerStatus m) (uip_RunnerStatus p) = None"
    "validateInstanceStatusTransition (im_Status m) (uip_Status p) = None"
    by (auto simp: check_update_def split: option.splits)
  then show ?thesis
    using assms(2) validate_transition_allowed
    by (auto simp: row_path_def applyInstanceUpdates_def validateRunnerStatusTransition_def
        validateInstanceStatusTransition_def split: sum.splits)
qed

lemma update_rows:
  assumes "m' \<in> set (gd_instances (snd (updateInstance env False n p db)))"
  shows "\<exists>m \<in> set (gd_instances db). row_path m m'"
proof (cases "getInstance env n db")
  case (Inl e)
  with assms show ?thesis by (auto simp: updateInstance_def intro: row_kept)
next
  case (Inr m)
  note mem = getInstance_mem [OF Inr]
  show ?thesis
  proof (cases "gd_instances (snd (updateInstance env False n p db)) = gd_instances db")
    case True
    with assms show ?thesis by (auto intro: row_kept)
  next
    case False
    then obtain m1 db' where up: "check_update False p m = None" "applyInstanceUpdates env p m = Inr m1"
      and sv: "save_instance env p m1 db = Inr db'"
      and "gd_instances (snd (updateInstance env False n p db)) = gd_instances db'"
      using Inr by (auto simp: updateInstance_def split: option.splits sum.splits)
    then have "m' \<in> set (gd_instances db')" using assms by simp
    then consider "m' \<in> set (gd_instances db)"
      | "m' = m1\<lparr>im_UpdatedAt := de_now env, im_Addresses := keep_if (uip_Addresses p = []) (im_Addresses m1) (uip_Addresses p)\<rparr>"
      using sv by (auto simp: save_instance_def dest!: set_tbl_update split: option.splits if_splits)
    then show ?thesis
    proof cases
      case 2
      then have "row_path m m'" using checked_update_path [OF up] by (simp add: row_path_def)
      with mem show ?thesis by auto
    qed (auto intro: row_kept)
  qed
qed

lemma step_rows:
  assumes "is_checked op" "m' \<in> set (gd_instances (instance_step op db))"
  shows "\<exists>m \<in> set (gd_instances db). row_path m m'"
proof (cases op)
  case (OpUpdate env force n p)
  with assms show ?thesis using update_rows by simp
qed (use assms row_kept [OF _ delete_rows(1)] row_kept [OF _ delete_rows(2)] in auto)

lemma run_rows:
  "list_all is_checked ops \<Longrightarrow> m' \<in> set (gd_instances (run_instance_ops ops db)) \<Longrightarrow>
     \<exists>m \<in> set (gd_instances db). row_path m m'"
proof (induction ops arbitrary: db)
  case (Cons op ops)
  then obtain m1 where m1: "m1 \<in> set (gd_instances (instance_step op db))" "row_path m1 m'"
    using Cons.IH [of "instance_step op db"] by (auto simp: run_instance_ops_def)
  with Cons.prems obtain m where "m \<in> set (gd_instances db)" "row_path m m1"
    using step_rows [of op m1 db] by auto
  with m1 show ?case using row_path_trans by blast
qed (auto simp: run_instance_ops_def intro: row_kept)

text \<open>States closed under the allowed steps are never left.\<close>

lemma closed_states:
  assumes "(a, b) \<in> (allowed_step table)\<^sup>*" "a \<in> S"
    and "\<And>s. s \<in> S \<Longrightarrow> case map_of table s of None \<Rightarrow> True | Some bs \<Rightarrow> set bs \<subseteq> S"
  shows "b \<in> S"
  using assms(1, 2)
proof (induction rule: rtrancl_induct)
  case (step y z)
  then have "y \<in> S" by simp
  with step(2) assms(3) [of y] show ?case by (auto simp: allowed_step_def)
qed

lemma instance_deleted_final: "(InstanceDeleted, b) \<in> (allowed_step InstanceStatusTransitions)\<^sup>* \<Longrightarrow> b \<in> {InstanceDeleted}"
  by (erule closed_states) (auto simp: InstanceStatusTransitions_def)

lemma runner_terminated_final: "(RunnerTerminated, b) \<in> (allowed_step RunnerStatusTransitions)\<^sup>* \<Longrightarrow> b \<in> {RunnerTerminated}"
  by (erule closed_states) (auto simp: RunnerStatusTransitions_def)

lemma runner_active_ends: "(RunnerActive, b) \<in> (allowed_step RunnerStatusTransitions)\<^sup>* \<Longrightarrow> b \<in> {RunnerActive, RunnerTerminated}"
  by (erule closed_states) (auto simp: RunnerStatusTransitions_def)

lemma runner_failed_ends: "(RunnerFailed, b) \<in> (allowed_step RunnerStatusTransitions)\<^sup>* \<Longrightarrow> b \<in> {RunnerFailed, RunnerTerminated}"
  by (erule closed_states) (auto simp: RunnerStatusTransitions_def)

text \<open>
  C6. Whatever unforced updates and deletions are tried, in any order, an instance that is still in
  the table got to its status along the transition tables: a deleted instance stays deleted, a
  terminated runner terminated, and a runner that is active or failed is never idle again.
\<close>

theorem instance_states_follow_tables:
  assumes "list_all is_checked ops" "tbl_ok im_ID (gd_instances db)"
    and "m \<in> set (gd_instances db)" "m' \<in> set (gd_instances (run_instance_ops ops db))" "im_ID m' = im_ID m"
  shows "(im_Status m, im_Status m') \<in> (allowed_step InstanceStatusTransitions)\<^sup>*
    \<and> (im_RunnerStatus m, im_RunnerStatus m') \<in> (allowed_step RunnerStatusTransitions)\<^sup>*
    \<and> (im_Status m = InstanceDeleted \<longrightarrow> im_Status m' = InstanceDeleted)
    \<and> (im_RunnerStatus m = RunnerTerminated \<longrightarrow> im_RunnerStatus m' = RunnerTerminated)
    \<and> (im_RunnerStatus m = RunnerActive \<longrightarrow> im_RunnerStatus m' \<in> {RunnerActive, RunnerTerminated})
    \<and> (im_RunnerStatus m = RunnerFailed \<longrightarrow> im_RunnerStatus m' \<in> {RunnerFailed, RunnerTerminated})"
proof -
  obtain m0 where "m0 \<in> set (gd_instances db)" and path: "row_path m0 m'"
    using run_rows [OF assms(1, 4)] by blast
  moreover have "im_ID m0 = im_ID m" using path assms(5) by (simp add: row_path_def)
  ultimately have "m0 = m" using assms(2, 3) by (metis tbl_ok_def distinct_map inj_on_eq_iff)
  with path have s: "(im_Status m, im_Status m') \<in> (allowed_step InstanceStatusTransitions)\<^sup>*"
    and r: "(im_RunnerStatus m, im_RunnerStatus m') \<in> (allowed_step RunnerStatusTransitions)\<^sup>*"
    by (simp_all add: row_path_def)
  show ?thesis
    using s r instance_deleted_final [of "im_Status m'"] runner_terminated_final [of "im_RunnerStatus m'"]
      runner_active_ends [of "im_RunnerStatus m'"] runner_failed_ends [of "im_RunnerStatus m'"]
    by (intro conjI impI) simp_all
qed

section \<open>The number of instances\<close>

definition pool_count :: "string \<Rightarrow> garm_db \<Rightarrow> nat" where
  "pool_count i db = length (filter (\<lambda>m. im_PoolID m = Some i) (gd_instances db))"

lemma create_shape:
  "gd_instances (snd (CreateInstance env poolID p db)) = gd_instances db
   \<or> (\<exists>q secret. q \<in> set (gd_pools db) \<and> pool_count (pm_ID q) db < pm_MaxRunners q
        \<and> de_newID env \<notin> im_ID ` set (gd_instances db)
        \<and> gd_instances (snd (CreateInstance env poolID p db)) = gd_instances db @ [new_instance_model env q p secret])"
proof (cases "\<exists>q db'. getPoolByID env poolID db = Inr q \<and> create_in_pool env q p db = Inr db'")
  case False
  then have "snd (CreateInstance env poolID p db) = db"
    by (auto simp: CreateInstance_def split: sum.split)
  then show ?thesis by simp
next
  case True
  then obtain q db' where q: "getPoolByID env poolID db = Inr q" and c: "create_in_pool env q p db = Inr db'" by blast
  then obtain secret where "insert_instance env (new_instance_model env q p secret) db = Inr db'"
    and cnt: "pool_count (pm_ID q) db < pm_MaxRunners q"
    by (auto simp: create_in_pool_def pool_count_def split: if_splits sum.splits)
  then have db': "db' = db\<lparr>gd_instances := gd_instances db @ [new_instance_model env q p secret]\<rparr>"
    and new: "de_newID env \<notin> im_ID ` set (gd_instances db)"
    by (auto simp: insert_instance_def new_instance_model_def split: option.splits if_splits)
  have "q \<in> set (gd_pools db)" using q by (auto simp: getPoolByID_def dest: tbl_find_key split: option.splits)
  moreover have "gd_instances (snd (CreateInstance env poolID p db)) = gd_instances db'"
    using q c by (auto simp: CreateInstance_def split: sum.split)
  ultimately show ?thesis using db' new cnt by auto
qed

lemma update_shape:
  "gd_instances (snd (updateInstance env force n p db)) = gd_instances db
   \<or> (\<exists>m m'. m \<in> set (gd_instances db) \<and> im_ID m' = im_ID m \<and> im_PoolID m' = im_PoolID m
        \<and> gd_instances (snd (updateInstance env force n p db)) = tbl_update im_ID (im_ID m) (\<lambda>_. m') (gd_instances db))"
proof (cases "\<exists>m m' db'. getInstance env n db = Inr m \<and> check_update force p m = None
    \<and> applyInstanceUpdates env p m = Inr m' \<and> save_instance env p m' db = Inr db'")
  case False
  then have "snd (updateInstance env force n p db) = db"
    by (auto simp: updateInstance_def split: sum.split option.split)
  then show ?thesis by simp
next
  case True
  then obtain m m' db' where m: "getInstance env n db = Inr m" and ap: "check_update force p m = None"
    "applyInstanceUpdates env p m = Inr m'" and sv: "save_instance env p m' db = Inr db'" by blast
  let ?m = "m'\<lparr>im_UpdatedAt := de_now env, im_Addresses := keep_if (uip_Addresses p = []) (im_Addresses m') (uip_Addresses p)\<rparr>"
  have "gd_instances db' = tbl_update im_ID (im_ID m) (\<lambda>_. ?m) (gd_instances db)"
    using sv apply_updates_keys [OF ap(2)] by (auto simp: save_instance_def split: option.splits if_splits)
  moreover have "gd_instances (snd (updateInstance env force n p db)) = gd_instances db'"
    using m ap sv by (auto simp: updateInstance_def split: sum.split)
  ultimately show ?thesis
    using getInstance_mem [OF m] apply_updates_keys [OF ap(2)]
    by (intro disjI2 exI [of _ m] exI [of _ ?m]) simp
qed

lemma delete_shape:
  "\<exists>P. gd_instances (snd (DeleteInstance env poolID n db)) = filter P (gd_instances db)"
  "\<exists>P. gd_instances (snd (DeleteInstanceByName env n db)) = filter P (gd_instances db)"
proof -
  have all: "\<exists>P. gd_instances db = filter P (gd_instances db)" by (rule exI [of _ "\<lambda>_. True"]) simp
  have del: "\<exists>P. tbl_delete im_ID k (gd_instances db) = filter P (gd_instances db)" for k
    unfolding tbl_delete_def by blast
  show "\<exists>P. gd_instances (snd (DeleteInstance env poolID n db)) = filter P (gd_instances db)"
    using all del by (auto simp: DeleteInstance_def Let_def split: sum.splits option.splits garm_db_error.splits)
  show "\<exists>P. gd_instances (snd (DeleteInstanceByName env n db)) = filter P (gd_instances db)"
    using all del by (auto simp: DeleteInstanceByName_def Let_def split: sum.splits option.splits garm_db_error.splits)
qed

lemma step_pools [simp]: "gd_pools (instance_step op db) = gd_pools db"
proof (cases op)
  case (OpCreate env poolID p)
  have "create_in_pool env q p db = Inr db' \<Longrightarrow> gd_pools db' = gd_pools db" for q db'
    by (auto simp: create_in_pool_def insert_instance_def split: if_splits sum.splits option.splits)
  with OpCreate show ?thesis by (auto simp: CreateInstance_def split: sum.split)
next
  case (OpUpdate env force n p)
  have "save_instance env p m db = Inr db' \<Longrightarrow> gd_pools db' = gd_pools db" for m db'
    by (auto simp: save_instance_def split: if_splits option.splits)
  with OpUpdate show ?thesis by (auto simp: updateInstance_def split: sum.split option.split)
qed (auto simp: DeleteInstance_def DeleteInstanceByName_def Let_def split: sum.splits option.splits garm_db_error.splits)

definition pools_bounded :: "garm_db \<Rightarrow> bool" where
  "pools_bounded db \<longleftrightarrow> tbl_ok im_ID (gd_instances db) \<and> tbl_ok pm_ID (gd_pools db)
     \<and> (\<forall>p \<in> set (gd_pools db). pool_count (pm_ID p) db \<le> pm_MaxRunners p)"

lemma bounded_filter:
  assumes "pools_bounded db" "gd_pools db' = gd_pools db" "gd_instances db' = filter P (gd_instances db)"
  shows "pools_bounded db'"
proof -
  have "pool_count i db' \<le> pool_count i db" for i
    using assms(3) by (simp add: pool_count_def) (metis (no_types, lifting) filter_filter length_filter_le conj_commute filter_cong)
  with assms show ?thesis by (auto simp: pools_bounded_def tbl_ok_def intro: distinct_map_filter order_trans)
qed

lemma bounded_update:
  assumes "pools_bounded db" "gd_pools db' = gd_pools db" "m \<in> set (gd_instances db)" "im_ID m' = im_ID m" "im_PoolID m' = im_PoolID m"
    and upd: "gd_instances db' = tbl_update im_ID (im_ID m) (\<lambda>_. m') (gd_instances db)"
  shows "pools_bounded db'"
proof -
  have "x = m" if "x \<in> set (gd_instances db)" "im_ID x = im_ID m" for x
    using that assms(1, 3) by (metis pools_bounded_def tbl_ok_def distinct_map inj_on_eq_iff)
  then have same: "map im_PoolID (gd_instances db') = map im_PoolID (gd_instances db)"
    using assms(5) by (auto simp: upd tbl_update_def)
  have cnt: "pool_count i d = length (filter (\<lambda>x. x = Some i) (map im_PoolID (gd_instances d)))" for i d
    by (simp add: pool_count_def filter_map o_def)
  have "pool_count i db' = pool_count i db" for i
    unfolding cnt same by (rule refl)
  moreover have "map im_ID (gd_instances db') = map im_ID (gd_instances db)"
    using assms(4) by (auto simp: upd tbl_update_def)
  ultimately show ?thesis using assms(1, 2) by (simp add: pools_bounded_def tbl_ok_def)
qed

lemma bounded_insert:
  assumes "pools_bounded db" "gd_pools db' = gd_pools db" "q \<in> set (gd_pools db)" "pool_count (pm_ID q) db < pm_MaxRunners q"
    and "de_newID env \<notin> im_ID ` set (gd_instances db)" "gd_instances db' = gd_instances db @ [new_instance_model env q p secret]"
  shows "pools_bounded db'"
proof -
  have new: "im_PoolID (new_instance_model env q p secret) = Some (pm_ID q)" "im_ID (new_instance_model env q p secret) = de_newID env"
    by (simp_all add: new_instance_model_def)
  have cnt: "pool_count i db' = pool_count i db + (if i = pm_ID q then 1 else 0)" for i
    using assms(6) new by (simp add: pool_count_def)
  have "pool_count (pm_ID x) db' \<le> pm_MaxRunners x" if "x \<in> set (gd_pools db)" for x
  proof (cases "pm_ID x = pm_ID q")
    case True
    then have "x = q" using that assms(1, 3) by (metis pools_bounded_def tbl_ok_def distinct_map inj_on_eq_iff)
    then show ?thesis using assms(4) cnt by simp
  next
    case False
    then show ?thesis using that assms(1) cnt by (simp add: pools_bounded_def)
  qed
  then show ?thesis using assms(1, 2, 5, 6) new by (simp add: pools_bounded_def tbl_ok_def)
qed

lemma step_bounded: "pools_bounded db \<Longrightarrow> pools_bounded (instance_step op db)"
proof (cases op)
  case (OpCreate env poolID p)
  assume b: "pools_bounded db"
  from create_shape [of env poolID p db] show ?thesis
  proof
    assume "gd_instances (snd (CreateInstance env poolID p db)) = gd_instances db"
    then show ?thesis using b step_pools [of op db] OpCreate by (simp add: pools_bounded_def pool_count_def)
  next
    assume "\<exists>q secret. q \<in> set (gd_pools db) \<and> pool_count (pm_ID q) db < pm_MaxRunners q
      \<and> de_newID env \<notin> im_ID ` set (gd_instances db)
      \<and> gd_instances (snd (CreateInstance env poolID p db)) = gd_instances db @ [new_instance_model env q p secret]"
    then obtain q secret where "q \<in> set (gd_pools db)" "pool_count (pm_ID q) db < pm_MaxRunners q"
      "de_newID env \<notin> im_ID ` set (gd_instances db)"
      "gd_instances (instance_step op db) = gd_instances db @ [new_instance_model env q p secret]"
      using OpCreate by auto
    then show ?thesis by (rule bounded_insert [OF b step_pools])
  qed
next
  case (OpUpdate env force n p)
  assume b: "pools_bounded db"
  from update_shape [of env force n p db] show ?thesis
  proof
    assume "gd_instances (snd (updateInstance env force n p db)) = gd_instances db"
    then show ?thesis using b step_pools [of op db] OpUpdate by (simp add: pools_bounded_def pool_count_def)
  next
    assume "\<exists>m m'. m \<in> set (gd_instances db) \<and> im_ID m' = im_ID m \<and> im_PoolID m' = im_PoolID m
      \<and> gd_instances (snd (updateInstance env force n p db)) = tbl_update im_ID (im_ID m) (\<lambda>_. m') (gd_instances db)"
    then obtain m m' where "m \<in> set (gd_instances db)" "im_ID m' = im_ID m" "im_PoolID m' = im_PoolID m"
      "gd_instances (instance_step op db) = tbl_update im_ID (im_ID m) (\<lambda>_. m') (gd_instances db)"
      using OpUpdate by auto
    then show ?thesis by (rule bounded_update [OF b step_pools])
  qed
next
  case (OpDelete env poolID n)
  assume b: "pools_bounded db"
  obtain P where "gd_instances (instance_step op db) = filter P (gd_instances db)"
    using delete_shape(1) [of env poolID n db] OpDelete by auto
  then show ?thesis by (rule bounded_filter [OF b step_pools])
next
  case (OpDeleteByName env n)
  assume b: "pools_bounded db"
  obtain P where "gd_instances (instance_step op db) = filter P (gd_instances db)"
    using delete_shape(2) [of env n db] OpDeleteByName by auto
  then show ?thesis by (rule bounded_filter [OF b step_pools])
qed

lemma run_bounded: "pools_bounded db \<Longrightarrow> pools_bounded (run_instance_ops ops db)"
  by (induction ops arbitrary: db) (simp_all add: run_instance_ops_def step_bounded)

lemma run_pools [simp]: "gd_pools (run_instance_ops ops db) = gd_pools db"
  by (induction ops arbitrary: db) (simp_all add: run_instance_ops_def)

text \<open>
  No sequence of calls on instances, forced updates and refused statements included, takes a
  pool above its maximum number of runners.
\<close>

theorem pool_never_exceeds_maximum:
  assumes "tbl_ok pm_ID (gd_pools db)" "gd_instances db = []" "p \<in> set (gd_pools db)"
  shows "length (filter (\<lambda>m. im_PoolID m = Some (pm_ID p)) (gd_instances (run_instance_ops ops db))) \<le> pm_MaxRunners p"
proof -
  have "pools_bounded db" using assms by (simp add: pools_bounded_def pool_count_def)
  from run_bounded [OF this, of ops] assms(3) show ?thesis
    by (auto simp: pools_bounded_def pool_count_def)
qed

theorem pool_never_exceeds_maximum_witness:
  "length (filter (\<lambda>m. im_PoolID m = Some (pm_ID (demo_pool_model ''p1'' 2)))
     (gd_instances (run_instance_ops demo_instance_ops demo_garm_db))) \<le> pm_MaxRunners (demo_pool_model ''p1'' 2)"
  by (rule pool_never_exceeds_maximum) (simp_all add: demo_garm_db_def tbl_ok_def)

text \<open>An active runner's instance, which an update tries to make idle and another terminates.\<close>

definition demo_active_row :: instance_model where
  "demo_active_row = (new_instance_model (demo_db_env ''i1'') (demo_pool_model ''p1'' 2) (demo_create_params ''r1'') [])
     \<lparr>im_Status := InstanceRunning, im_RunnerStatus := RunnerActive\<rparr>"

definition demo_active_db :: garm_db where
  "demo_active_db = demo_garm_db\<lparr>gd_instances := [demo_active_row]\<rparr>"

lemma demo_idle_refused: "instance_step (OpUpdate (demo_db_env []) False ''r1'' (demo_status_params [] RunnerIdle)) demo_active_db = demo_active_db"
proof -
  have "getInstance (demo_db_env []) ''r1'' demo_active_db = Inr demo_active_row"
    by (simp add: getInstance_def demo_db_env_def demo_uuid_def demo_active_db_def demo_active_row_def
        tbl_find_def new_instance_model_def demo_create_params_def)
  moreover have "\<exists>e. check_update False (demo_status_params [] RunnerIdle) demo_active_row = Some e"
    by (simp add: check_update_def demo_status_params_def demo_active_row_def validateAgentID_def
        validateRunnerStatusTransition_def validate_transition_def RunnerStatusTransitions_def)
  ultimately show ?thesis by (auto simp: updateInstance_def)
qed

theorem instance_states_follow_tables_witness:
  "(im_Status demo_active_row, im_Status demo_active_row) \<in> (allowed_step InstanceStatusTransitions)\<^sup>*
    \<and> (im_RunnerStatus demo_active_row, im_RunnerStatus demo_active_row) \<in> (allowed_step RunnerStatusTransitions)\<^sup>*
    \<and> im_RunnerStatus demo_active_row \<in> {RunnerActive, RunnerTerminated}"
proof -
  have "im_RunnerStatus demo_active_row = RunnerActive" by (simp add: demo_active_row_def)
  then show ?thesis
    using instance_states_follow_tables [of "[OpUpdate (demo_db_env []) False ''r1'' (demo_status_params [] RunnerIdle)]"
        demo_active_db demo_active_row demo_active_row] demo_idle_refused
    by (simp add: run_instance_ops_def tbl_ok_def demo_active_db_def)
qed

section \<open>The types of the payloads\<close>

datatype pool_op =
    OpCreatePool db_env forge_entity create_pool_params
  | OpDeletePoolByID db_env string
  | OpDeleteEntityPool db_env forge_entity string
  | OpUpdatePool db_env forge_entity string update_pool_params

fun pool_step :: "pool_op \<Rightarrow> garm_db \<Rightarrow> garm_db" where
  "pool_step (OpCreatePool env e p) db = snd (CreateEntityPool env e p db)"
| "pool_step (OpDeletePoolByID env i) db = snd (DeletePoolByID env i db)"
| "pool_step (OpDeleteEntityPool env e i) db = snd (DeleteEntityPool env e i db)"
| "pool_step (OpUpdatePool env e i u) db = snd (UpdateEntityPool env e i u db)"

datatype db_op = OnInstance instance_op | OnPool pool_op | OnEvent db_env string string string string

fun db_step :: "db_op \<Rightarrow> garm_db \<Rightarrow> garm_db" where
  "db_step (OnInstance op) db = instance_step op db"
| "db_step (OnPool op) db = pool_step op db"
| "db_step (OnEvent env n ev lvl msg) db = snd (AddInstanceEvent env n ev lvl msg db)"

text \<open>
  The payload has the type consumers assert, and a created or updated instance belongs to a pool
  or to a scale set and not to both.
\<close>

definition well_typed :: "change_payload \<Rightarrow> bool" where
  "well_typed p \<longleftrightarrow>
     (case chp_Payload p of
        PInstance i \<Rightarrow> chp_EntityType p = InstanceEntityType
          \<and> (chp_Operation p = DeleteOperation \<or> (gi_ScaleSetID i = 0) \<noteq> (gi_PoolID i = []))
      | PPool _ \<Rightarrow> chp_EntityType p = PoolEntityType
      | _ \<Rightarrow> False)"

lemma convert_one_owner: "sqlToParamsInstance env db m = Inr i \<Longrightarrow> (gi_ScaleSetID i = 0) \<noteq> (gi_PoolID i = [])"
  by (auto simp: sqlToParamsInstance_def Let_def split: sum.splits if_splits)

lemma GetInstance_one_owner: "GetInstance env n db = Inr i \<Longrightarrow> (gi_ScaleSetID i = 0) \<noteq> (gi_PoolID i = [])"
  by (auto simp: GetInstance_def dest: convert_one_owner split: sum.splits)

lemma sent_typed:
  assumes "well_typed \<lparr>chp_EntityType = ty, chp_Operation = op, chp_Payload = p\<rparr>" "list_all well_typed (gd_sent db)"
  shows "list_all well_typed (gd_sent (sendNotify env ty op p db))"
  using assms by (simp add: sendNotify_def)

lemma create_in_pool_sent: "create_in_pool env q p db = Inr db' \<Longrightarrow> gd_sent db' = gd_sent db"
  by (auto simp: create_in_pool_def insert_instance_def split: if_splits sum.splits option.splits)

lemma save_instance_sent: "save_instance env p m db = Inr db' \<Longrightarrow> gd_sent db' = gd_sent db"
  by (auto simp: save_instance_def split: if_splits option.splits)

lemma tag_sent: "gd_sent (snd (getOrCreateTag env n t db)) = gd_sent db"
  by (simp add: getOrCreateTag_def Let_def split: option.split)

lemma get_tags_sent: "gd_sent (snd (get_tags env n ts db)) = gd_sent db"
  by (induction ts arbitrary: n db) (simp_all add: split_def tag_sent)

lemma instance_step_typed: "list_all well_typed (gd_sent db) \<Longrightarrow> list_all well_typed (gd_sent (instance_step op db))"
proof (cases op)
  case (OpCreate env poolID p)
  assume "list_all well_typed (gd_sent db)"
  with OpCreate show ?thesis
    by (auto simp: CreateInstance_def well_typed_def intro!: sent_typed dest: GetInstance_one_owner create_in_pool_sent split: sum.splits)
next
  case (OpUpdate env force n p)
  assume "list_all well_typed (gd_sent db)"
  with OpUpdate show ?thesis
    by (auto simp: updateInstance_def well_typed_def intro!: sent_typed dest: GetInstance_one_owner save_instance_sent
        split: sum.splits option.splits)
next
  case (OpDelete env poolID n)
  assume "list_all well_typed (gd_sent db)"
  with OpDelete show ?thesis
    by (auto simp: DeleteInstance_def Let_def well_typed_def intro!: sent_typed split: sum.splits option.splits garm_db_error.splits)
next
  case (OpDeleteByName env n)
  assume "list_all well_typed (gd_sent db)"
  with OpDeleteByName show ?thesis
    by (auto simp: DeleteInstanceByName_def Let_def well_typed_def intro!: sent_typed split: sum.splits option.splits garm_db_error.splits)
qed

lemma create_pool_sent:
  "list_all well_typed (gd_sent db) \<Longrightarrow> list_all well_typed (gd_sent (snd (CreateEntityPool env e p db)))"
  using get_tags_sent [of env 0 "cpp_Tags p" db]
  by (auto simp: CreateEntityPool_def Let_def well_typed_def intro!: sent_typed split: sum.split option.split prod.split)

lemma update_pool_sent:
  "list_all well_typed (gd_sent db) \<Longrightarrow> list_all well_typed (gd_sent (snd (UpdateEntityPool env e i u db)))"
proof -
  assume ok: "list_all well_typed (gd_sent db)"
  have "gd_sent (snd (updatePool env u p db)) = gd_sent db" for p
    using get_tags_sent [of env 0 "upp_Tags u" db] by (auto simp: updatePool_def Let_def split: prod.split)
  then have "list_all well_typed (gd_sent db')" if "updatePool env u p db = (rows, db')" for p rows db'
    using ok that by (metis snd_conv)
  with ok show ?thesis
    by (auto simp: UpdateEntityPool_def well_typed_def intro!: sent_typed split: sum.split option.split prod.split)
qed

lemma pool_step_typed: "list_all well_typed (gd_sent db) \<Longrightarrow> list_all well_typed (gd_sent (pool_step op db))"
proof (cases op)
  case (OpDeletePoolByID env i)
  assume "list_all well_typed (gd_sent db)"
  with OpDeletePoolByID show ?thesis
    by (auto simp: DeletePoolByID_def well_typed_def intro!: sent_typed split: sum.split option.split)
next
  case (OpDeleteEntityPool env e i)
  assume "list_all well_typed (gd_sent db)"
  with OpDeleteEntityPool show ?thesis
    by (auto simp: DeleteEntityPool_def well_typed_def intro!: sent_typed split: option.split)
qed (simp_all add: create_pool_sent update_pool_sent)

lemma db_step_typed: "list_all well_typed (gd_sent db) \<Longrightarrow> list_all well_typed (gd_sent (db_step op db))"
  by (cases op) (auto simp: instance_step_typed pool_step_typed AddInstanceEvent_def Let_def split: sum.split option.split)

text \<open>
  C22. Type soundness of the change channel: whatever calls on pools and instances are made, every
  payload the database announces has the dynamic type its consumers assert for its entity type, and
  a created or updated instance in it belongs to exactly one of a pool and a scale set.
\<close>

theorem announced_payloads_well_typed:
  "list_all well_typed (gd_sent (fold db_step ops (db\<lparr>gd_sent := []\<rparr>)))"
proof -
  have "list_all well_typed (gd_sent d) \<Longrightarrow> list_all well_typed (gd_sent (fold db_step ops d))" for d
    by (induction ops arbitrary: d) (simp_all add: db_step_typed)
  then show ?thesis by simp
qed

end
