(* ===== verification/ForgeCacheProps.thy ===== *)
theory ForgeCacheProps
  imports ForgeDemo
begin

text \<open>
  The caches under any stream of change payloads: the index of pools by entity agrees with the
  table of pools; deletions of pools never arrive; credentials of one forge replace those of another.
\<close>

interpretation cached_items: keyed_table item_id "tbl_upsert item_id" "tbl_delete item_id" "tbl_find item_id" "tbl_ok item_id"
  by (rule tbl_keyed)

interpretation cached_pools: keyed_table gp_ID "tbl_upsert gp_ID" "tbl_delete gp_ID" "tbl_find gp_ID" "tbl_ok gp_ID"
  by (rule tbl_keyed)

section \<open>The index of pools\<close>

text \<open>The entities with the pools they list.\<close>

definition listed_pools :: "forge_caches \<Rightarrow> (string \<times> string list) set" where
  "listed_pools c = (\<lambda>it. (item_id it, gei_Pools it)) ` set (fc_entities c)"

text \<open>\<open>own\<close> is the entity each pool id belongs to.\<close>

definition index_ok :: "(string \<Rightarrow> string) \<Rightarrow> forge_caches \<Rightarrow> bool" where
  "index_ok own c \<longleftrightarrow>
     tbl_ok item_id (fc_entities c) \<and> tbl_ok gp_ID (fc_pools c)
     \<and> (\<forall>(i, ks) \<in> listed_pools c. distinct ks \<and> (\<forall>k \<in> set ks. own k = i \<and> k \<in> gp_ID ` set (fc_pools c)))
     \<and> (\<forall>p \<in> set (fc_pools c). pool_of_entity (own (gp_ID p)) p
          \<and> (\<exists>ks. (own (gp_ID p), ks) \<in> listed_pools c \<and> gp_ID p \<in> set ks))"

lemma index_cong:
  assumes "index_ok own c" "listed_pools c' = listed_pools c" "tbl_ok item_id (fc_entities c')" "fc_pools c' = fc_pools c"
  shows "index_ok own c'"
  using assms by (simp add: index_ok_def)

lemma listed_upsert:
  "listed_pools (c\<lparr>fc_entities := tbl_upsert item_id it (fc_entities c)\<rparr>)
   = {x \<in> listed_pools c. fst x \<noteq> item_id it} \<union> {(item_id it, gei_Pools it)}"
  by (force simp: listed_pools_def tbl_upsert_def)

lemma listed_frame [simp]:
  "listed_pools (c\<lparr>fc_pools := x\<rparr>) = listed_pools c" "listed_pools (c\<lparr>fc_scalesets := y\<rparr>) = listed_pools c"
  "listed_pools (c\<lparr>fc_pools := x, fc_entities := t\<rparr>) = listed_pools (c\<lparr>fc_entities := t\<rparr>)"
  "listed_pools (c\<lparr>fc_scalesets := y, fc_entities := t\<rparr>) = listed_pools (c\<lparr>fc_entities := t\<rparr>)"
  "listed_pools (c\<lparr>fc_entities := t, fc_pools := x\<rparr>) = listed_pools (c\<lparr>fc_entities := t\<rparr>)"
  "listed_pools (c\<lparr>fc_entities := t, fc_scalesets := y\<rparr>) = listed_pools (c\<lparr>fc_entities := t\<rparr>)"
  by (simp_all add: listed_pools_def)

lemma listed_find: "find_item i c = Some it \<Longrightarrow> (i, gei_Pools it) \<in> listed_pools c"
  by (auto simp: find_item_def listed_pools_def dest!: tbl_find_key)

lemma listed_none: "find_item i c = None \<longleftrightarrow> (\<forall>ks. (i, ks) \<notin> listed_pools c)"
  by (auto simp: find_item_def listed_pools_def tbl_find_None image_iff)

lemma listed_unique: "tbl_ok item_id (fc_entities c) \<Longrightarrow> (i, ks) \<in> listed_pools c \<Longrightarrow> (i, ks') \<in> listed_pools c \<Longrightarrow> ks = ks'"
  by (auto simp: listed_pools_def tbl_ok_def distinct_map inj_on_def)

lemma item_id_sel [simp]: "item_id (it\<lparr>gei_Pools := ks\<rparr>) = item_id it" "item_id (it\<lparr>gei_ScaleSets := ss\<rparr>) = item_id it"
  "item_id (it\<lparr>gei_Entity := e\<rparr>) = ge_ID e" "item_id (new_item e) = ge_ID e" "gei_Pools (new_item e) = []"
  by (simp_all add: item_id_def new_item_def)

lemma listed_same:
  assumes "tbl_ok item_id (fc_entities c)" "find_item i c = Some it" "item_id it' = i" "gei_Pools it' = gei_Pools it"
  shows "listed_pools (c\<lparr>fc_entities := tbl_upsert item_id it' (fc_entities c)\<rparr>) = listed_pools c"
proof -
  have in_it: "(i, gei_Pools it) \<in> listed_pools c" by (rule listed_find [OF assms(2)])
  have only: "x = (i, gei_Pools it)" if "x \<in> listed_pools c" "fst x = i" for x
    using listed_unique [OF assms(1), of i "snd x" "gei_Pools it"] that in_it by (cases x) simp
  show ?thesis unfolding listed_upsert assms(3, 4) using in_it only by blast
qed

text \<open>What does not touch the lists of pools keeps the index.\<close>

lemma index_set_entity: "index_ok own c \<Longrightarrow> index_ok own (cache_SetEntity e c)"
proof (cases "find_item (ge_ID e) c")
  case None
  assume ok: "index_ok own c"
  have "listed_pools (cache_SetEntity e c) = listed_pools c \<union> {(ge_ID e, [])}"
    using None listed_none [of "ge_ID e" c] by (auto simp: cache_SetEntity_def listed_upsert)
  with ok None show ?thesis by (auto simp: index_ok_def cache_SetEntity_def)
next
  case (Some it)
  assume ok: "index_ok own c"
  then have t: "tbl_ok item_id (fc_entities c)" by (simp add: index_ok_def)
  have "listed_pools (cache_SetEntity e c) = listed_pools c"
    using listed_same [OF t Some, of "it\<lparr>gei_Entity := e\<rparr>"] Some by (simp add: cache_SetEntity_def)
  with ok t Some show ?thesis by (auto simp: cache_SetEntity_def intro: index_cong)
qed

lemma index_set_scale_set: "index_ok own c \<Longrightarrow> index_ok own (cache_SetEntityScaleSet i s c)"
proof (cases "scale_set_of_entity i s \<and> find_item i c \<noteq> None")
  case True
  then obtain it where it: "find_item i c = Some it" by auto
  assume ok: "index_ok own c"
  then have t: "tbl_ok item_id (fc_entities c)" by (simp add: index_ok_def)
  let ?it = "it\<lparr>gei_ScaleSets := add_key (gs_ID s) (gei_ScaleSets it)\<rparr>"
  have i: "item_id it = i" using it by (auto simp: find_item_def dest: tbl_find_key)
  have "listed_pools (cache_SetEntityScaleSet i s c) = listed_pools (c\<lparr>fc_entities := tbl_upsert item_id ?it (fc_entities c)\<rparr>)"
    using True it by (simp add: cache_SetEntityScaleSet_def)
  also have "\<dots> = listed_pools c" using listed_same [OF t it, of ?it] i by simp
  finally show ?thesis using ok t True it by (auto simp: cache_SetEntityScaleSet_def intro: index_cong)
qed (auto simp: cache_SetEntityScaleSet_def split: option.split)

lemma index_delete_scale_set: "index_ok own c \<Longrightarrow> index_ok own (cache_DeleteEntityScaleSet i s c)"
proof (cases "find_item i c")
  case (Some it)
  assume ok: "index_ok own c"
  then have t: "tbl_ok item_id (fc_entities c)" by (simp add: index_ok_def)
  let ?it = "it\<lparr>gei_ScaleSets := removeAll s (gei_ScaleSets it)\<rparr>"
  have i: "item_id it = i" using Some by (auto simp: find_item_def dest: tbl_find_key)
  have "listed_pools (cache_DeleteEntityScaleSet i s c) = listed_pools (c\<lparr>fc_entities := tbl_upsert item_id ?it (fc_entities c)\<rparr>)"
    using Some by (simp add: cache_DeleteEntityScaleSet_def Let_def)
  also have "\<dots> = listed_pools c" using listed_same [OF t Some, of ?it] i by simp
  finally show ?thesis using ok t Some by (auto simp: cache_DeleteEntityScaleSet_def Let_def intro: index_cong)
qed (auto simp: cache_DeleteEntityScaleSet_def Let_def index_ok_def)

lemma set_item_credentials_sel [simp]:
  "item_id (set_item_credentials k it) = item_id it" "gei_Pools (set_item_credentials k it) = gei_Pools it"
  by (simp_all add: set_item_credentials_def item_id_def)

lemma index_update_credentials: "index_ok own c \<Longrightarrow> index_ok own (cache_UpdateCredentialsInAffectedEntities k c)"
  by (rule index_cong) (simp_all add: cache_UpdateCredentialsInAffectedEntities_def listed_pools_def image_image
      index_ok_def tbl_ok_def o_def)

lemma index_items: "index_ok own c \<Longrightarrow> tbl_ok item_id (fc_entities c)"
  by (simp add: index_ok_def)

lemma index_listed:
  assumes "index_ok own c" "(i, ks) \<in> listed_pools c"
  shows "distinct ks" "k \<in> set ks \<Longrightarrow> own k = i" "k \<in> set ks \<Longrightarrow> k \<in> gp_ID ` set (fc_pools c)"
proof -
  have "distinct ks \<and> (\<forall>k \<in> set ks. own k = i \<and> k \<in> gp_ID ` set (fc_pools c))"
    using assms unfolding index_ok_def by blast
  then show "distinct ks" "k \<in> set ks \<Longrightarrow> own k = i" "k \<in> set ks \<Longrightarrow> k \<in> gp_ID ` set (fc_pools c)" by blast+
qed

lemma keys_upsert: "key ` set (tbl_upsert key r t) = insert (key r) (key ` set t)"
  by (auto simp: tbl_upsert_def)

lemma keys_delete: "key ` set (tbl_delete key k t) = key ` set t - {k}"
  by (auto simp: tbl_delete_def)

lemma index_set_pool:
  assumes ok: "index_ok own c" and mine: "own (gp_ID p) = i"
  shows "index_ok own (cache_SetEntityPool i p c)"
proof (cases "pool_of_entity i p \<and> find_item i c \<noteq> None")
  case True
  then obtain it where it: "find_item i c = Some it" by auto
  have i: "item_id it = i" using it by (auto simp: find_item_def dest: tbl_find_key)
  let ?ks = "add_key (gp_ID p) (gei_Pools it)"
  let ?c = "cache_SetEntityPool i p c"
  have L: "listed_pools ?c = {x \<in> listed_pools c. fst x \<noteq> i} \<union> {(i, ?ks)}"
    using True it i by (simp add: cache_SetEntityPool_def listed_upsert)
  have P: "fc_pools ?c = tbl_upsert gp_ID p (fc_pools c)" "tbl_ok item_id (fc_entities ?c)"
    using True it index_items [OF ok] by (simp_all add: cache_SetEntityPool_def)
  have old: "(i, gei_Pools it) \<in> listed_pools c" by (rule listed_find [OF it])
  have lists: "distinct ks \<and> (\<forall>k \<in> set ks. own k = j \<and> k \<in> gp_ID ` set (fc_pools ?c))" if "(j, ks) \<in> listed_pools ?c" for j ks
  proof (cases "(j, ks) \<in> listed_pools c \<and> j \<noteq> i")
    case True
    then have "(j, ks) \<in> listed_pools c" by simp
    from index_listed [OF ok this] show ?thesis unfolding P keys_upsert by blast
  next
    case False
    with that have "j = i" "ks = ?ks" by (auto simp: L)
    with index_listed [OF ok old] mine show ?thesis unfolding P keys_upsert by (simp add: add_key_def)
  qed
  have owned: "pool_of_entity (own (gp_ID q)) q \<and> (\<exists>ks. (own (gp_ID q), ks) \<in> listed_pools ?c \<and> gp_ID q \<in> set ks)"
    if q: "q \<in> set (fc_pools ?c)" for q
  proof (cases "q = p")
    case True
    with \<open>pool_of_entity i p \<and> find_item i c \<noteq> None\<close> mine show ?thesis by (auto simp: L add_key_def)
  next
    case False
    then have "q \<in> set (fc_pools c)" using q by (auto simp: P tbl_upsert_def)
    with ok obtain ks where ks: "pool_of_entity (own (gp_ID q)) q" "(own (gp_ID q), ks) \<in> listed_pools c" "gp_ID q \<in> set ks"
      by (auto simp: index_ok_def)
    then show ?thesis using listed_unique [OF index_items [OF ok], of i ks "gei_Pools it"] old
      by (cases "own (gp_ID q) = i") (auto simp: L add_key_def)
  qed
  show ?thesis unfolding index_ok_def using lists owned P ok by (auto simp: index_ok_def)
next
  case False
  with ok show ?thesis by (auto simp: cache_SetEntityPool_def split: option.split)
qed

lemma index_delete_pool:
  assumes ok: "index_ok own c" and mine: "own k = i"
  shows "index_ok own (cache_DeleteEntityPool i k c)"
proof -
  let ?c = "cache_DeleteEntityPool i k c"
  have P: "fc_pools ?c = tbl_delete gp_ID k (fc_pools c)" "tbl_ok item_id (fc_entities ?c)"
    using index_items [OF ok] by (simp_all add: cache_DeleteEntityPool_def Let_def split: option.split)
  have L: "listed_pools ?c = (\<lambda>(j, ks). (j, if j = i then removeAll k ks else ks)) ` listed_pools c"
  proof (cases "find_item i c")
    case None
    then have "\<And>x. x \<in> listed_pools c \<Longrightarrow> fst x \<noteq> i" by (auto simp: listed_none)
    then show ?thesis using None by (force simp: cache_DeleteEntityPool_def)
  next
    case (Some it)
    have i: "item_id it = i" using Some by (auto simp: find_item_def dest: tbl_find_key)
    have "listed_pools ?c = {x \<in> listed_pools c. fst x \<noteq> i} \<union> {(i, removeAll k (gei_Pools it))}"
      using Some i by (simp add: cache_DeleteEntityPool_def Let_def listed_upsert)
    also have "\<dots> = (\<lambda>(j, ks). (j, if j = i then removeAll k ks else ks)) ` listed_pools c"
    proof -
      have only: "ks = gei_Pools it" if "(i, ks) \<in> listed_pools c" for ks
        by (rule listed_unique [OF index_items [OF ok] that listed_find [OF Some]])
      show ?thesis using listed_find [OF Some] by (force dest: only split: if_splits)
    qed
    finally show ?thesis .
  qed
  have "distinct ks \<and> (\<forall>x \<in> set ks. own x = j \<and> x \<in> gp_ID ` set (fc_pools ?c))" if m: "(j, ks) \<in> listed_pools ?c" for j ks
  proof -
    obtain ks' where ks': "(j, ks') \<in> listed_pools c" "ks = (if j = i then removeAll k ks' else ks')"
      using m unfolding L by (cases "j = i") auto
    note facts = index_listed [OF ok ks'(1)]
    have "x \<noteq> k" if "x \<in> set ks" for x using that ks'(2) facts(2) mine by (cases "j = i") auto
    then show ?thesis using facts ks'(2) unfolding P keys_delete by (simp add: distinct_removeAll split: if_splits)
  qed
  moreover have "pool_of_entity (own (gp_ID q)) q \<and> (\<exists>ks. (own (gp_ID q), ks) \<in> listed_pools ?c \<and> gp_ID q \<in> set ks)"
    if q: "q \<in> set (fc_pools ?c)" for q
  proof -
    have q': "q \<in> set (fc_pools c)" "gp_ID q \<noteq> k" using q by (auto simp: P tbl_delete_def)
    with ok obtain ks where ks: "pool_of_entity (own (gp_ID q)) q" "(own (gp_ID q), ks) \<in> listed_pools c" "gp_ID q \<in> set ks"
      by (auto simp: index_ok_def)
    then have "(own (gp_ID q), if own (gp_ID q) = i then removeAll k ks else ks) \<in> listed_pools ?c"
      unfolding L by (force)
    with ks q' show ?thesis by (cases "own (gp_ID q) = i") auto
  qed
  ultimately show ?thesis using P ok by (auto simp: index_ok_def)
qed

lemma index_delete_entity: "index_ok own c \<Longrightarrow> index_ok own (cache_DeleteEntity i c)"
proof (cases "find_item i c")
  case (Some it)
  assume ok: "index_ok own c"
  let ?c = "cache_DeleteEntity i c"
  have P: "fc_pools ?c = drop_keys gp_ID (gei_Pools it) (fc_pools c)" "tbl_ok item_id (fc_entities ?c)"
    using Some index_items [OF ok] by (simp_all add: cache_DeleteEntity_def)
  have L: "listed_pools ?c = {x \<in> listed_pools c. fst x \<noteq> i}"
    using Some by (force simp: cache_DeleteEntity_def listed_pools_def tbl_delete_def)
  have it: "(i, gei_Pools it) \<in> listed_pools c" by (rule listed_find [OF Some])
  have own_it: "own k = i" if "k \<in> set (gei_Pools it)" for k using ok it that by (auto simp: index_ok_def)
  have "distinct ks \<and> (\<forall>x \<in> set ks. own x = j \<and> x \<in> gp_ID ` set (fc_pools ?c))" if "(j, ks) \<in> listed_pools ?c" for j ks
  proof -
    have j: "(j, ks) \<in> listed_pools c" "j \<noteq> i" using that by (auto simp: L)
    then have a: "distinct ks" "\<And>x. x \<in> set ks \<Longrightarrow> own x = j \<and> x \<in> gp_ID ` set (fc_pools c)" using ok by (auto simp: index_ok_def)
    moreover have "x \<in> gp_ID ` set (fc_pools ?c)" if "x \<in> set ks" for x
      using a(2) [OF that] own_it j(2) by (auto simp: P drop_keys_def)
    ultimately show ?thesis by blast
  qed
  moreover have "pool_of_entity (own (gp_ID q)) q \<and> (\<exists>ks. (own (gp_ID q), ks) \<in> listed_pools ?c \<and> gp_ID q \<in> set ks)"
    if q: "q \<in> set (fc_pools ?c)" for q
  proof -
    have q': "q \<in> set (fc_pools c)" "gp_ID q \<notin> set (gei_Pools it)" using q by (auto simp: P drop_keys_def)
    with ok obtain ks where ks: "pool_of_entity (own (gp_ID q)) q" "(own (gp_ID q), ks) \<in> listed_pools c" "gp_ID q \<in> set ks"
      by (auto simp: index_ok_def)
    then have "own (gp_ID q) \<noteq> i" using listed_unique [OF index_items [OF ok] _ it] q'(2) by auto
    with ks show ?thesis by (auto simp: L)
  qed
  moreover have "tbl_ok gp_ID (fc_pools ?c)" using ok by (simp add: P index_ok_def drop_keys_def tbl_ok_def distinct_map_filter)
  ultimately show ?thesis using P by (auto simp: index_ok_def)
qed (auto simp: cache_DeleteEntity_def)

text \<open>The other tables do not matter.\<close>

definition same_index :: "forge_caches \<Rightarrow> forge_caches \<Rightarrow> bool" where
  "same_index c c' \<longleftrightarrow> fc_entities c' = fc_entities c \<and> fc_pools c' = fc_pools c"

lemma index_same: "index_ok own c \<Longrightarrow> same_index c c' \<Longrightarrow> index_ok own c'"
  by (simp add: same_index_def index_ok_def listed_pools_def)

lemma index_set_credentials: "index_ok own c \<Longrightarrow> index_ok own (cache_SetGithubCredentials k c)"
  "index_ok own c \<Longrightarrow> index_ok own (cache_SetGiteaCredentials k c)"
  unfolding cache_SetGithubCredentials_def cache_SetGiteaCredentials_def
  by (auto intro!: index_update_credentials intro: index_same simp: same_index_def)

lemma index_set_endpoint: "index_ok own c \<Longrightarrow> index_ok own (cache_SetEndpoint ep c)"
proof -
  assume ok: "index_ok own c"
  have "index_ok own (fold (\<lambda>k. cache_SetGiteaCredentials (k\<lparr>gk_Endpoint := ep\<rparr>)) ks c')" if "index_ok own c'" for ks c'
    using that by (induction ks arbitrary: c') (simp_all add: index_set_credentials)
  with ok show ?thesis unfolding cache_SetEndpoint_def cache_UpdateCredentialsUsingEndpoint_def
    by (simp add: index_same same_index_def)
qed

section \<open>The worker keeps the index\<close>

text \<open>\<open>own\<close> gives the entity of every pool a payload speaks of: pools do not change owners.\<close>

definition pools_owned :: "(string \<Rightarrow> string) \<Rightarrow> change_payload \<Rightarrow> bool" where
  "pools_owned own ev =
     (case chp_Payload ev of
        PPool p \<Rightarrow> (case Pool_GetEntity p of Inl _ \<Rightarrow> True | Inr e \<Rightarrow> own (gp_ID p) = ge_ID e)
      | _ \<Rightarrow> True)"

lemma index_pool_event:
  "index_ok own (cw_caches w) \<Longrightarrow> pools_owned own ev \<Longrightarrow> index_ok own (cw_caches (handlePoolEvent ev w))"
  by (auto simp: handlePoolEvent_def pools_owned_def index_set_pool index_delete_pool
      split: garm_payload.splits sum.splits operation_type.splits)

lemma index_scale_set_event: "index_ok own (cw_caches w) \<Longrightarrow> index_ok own (cw_caches (handleScaleSetEvent ev w))"
  by (auto simp: handleScaleSetEvent_def index_set_scale_set index_delete_scale_set
      split: garm_payload.splits sum.splits operation_type.splits)

lemma index_instance_event: "index_ok own (cw_caches w) \<Longrightarrow> index_ok own (cw_caches (handleInstanceEvent ev w))"
  by (auto simp: handleInstanceEvent_def same_index_def cache_SetInstanceCache_def cache_DeleteInstanceCache_def
      intro: index_same split: garm_payload.splits operation_type.splits)

lemma reset_workers_caches [simp]: "cw_caches (reset_workers es w) = cw_caches w"
  by (simp add: reset_workers_def)

lemma index_entity_event: "index_ok own (cw_caches w) \<Longrightarrow> index_ok own (cw_caches (handleEntityEvent r op w))"
proof (cases r)
  case (Inr e)
  assume ok: "index_ok own (cw_caches w)"
  have "index_ok own (cache_DeleteGithubToolsCache k (cache_DeleteGithubClient k c))" if "index_ok own c" for k c
    using that by (rule index_same)
      (simp add: same_index_def cache_DeleteGithubToolsCache_def cache_DeleteGithubClient_def)
  moreover have "index_ok own (cache_DeleteGithubToolsCache k (cache_DeleteGithubClient k (cache_DeleteEntity k (cw_caches w))))" for k
    using calculation index_delete_entity [OF ok] by blast
  moreover have "cw_caches (handleEntityEvent r op w) \<in>
      {cache_DeleteGithubToolsCache (ge_ID e) (cache_DeleteGithubClient (ge_ID e) (cache_DeleteEntity (ge_ID e) (cw_caches w))),
       cache_SetEntity e (cw_caches w)}"
    using Inr by (simp add: handleEntityEvent_def Let_def split: operation_type.split option.split)
  ultimately show ?thesis using index_set_entity [OF ok] by auto
qed (simp add: handleEntityEvent_def)

lemma index_credentials_event: "index_ok own (cw_caches w) \<Longrightarrow> index_ok own (cw_caches (handleCredentialsEvent ev w))"
proof (cases "chp_Payload ev")
  case (PCredentials k)
  assume ok: "index_ok own (cw_caches w)"
  have "index_ok own (cache_DeleteGithubCredentials i (cw_caches w))" "index_ok own (cache_DeleteGiteaCredentials i (cw_caches w))" for i
    by (rule index_same [OF ok], simp add: same_index_def cache_DeleteGithubCredentials_def cache_DeleteGiteaCredentials_def)+
  then show ?thesis using ok PCredentials
    by (simp add: handleCredentialsEvent_def Let_def index_set_credentials split: operation_type.split)
qed (simp_all add: handleCredentialsEvent_def)

lemma index_endpoint_event: "index_ok own (cw_caches w) \<Longrightarrow> index_ok own (cw_caches (handleEndpointEvent ev w))"
  by (auto simp: handleEndpointEvent_def Let_def index_set_endpoint same_index_def cache_RemoveEndpoint_def
      intro: index_same split: garm_payload.splits operation_type.splits)

lemma index_template_event: "index_ok own (cw_caches w) \<Longrightarrow> index_ok own (cw_caches (handleTemplateEvent ev w))"
  by (auto simp: handleTemplateEvent_def same_index_def cache_SetTemplateCache_def cache_DeleteTemplate_def
      intro: index_same split: garm_payload.splits operation_type.splits)

lemma index_controller_event: "index_ok own (cw_caches w) \<Longrightarrow> index_ok own (cw_caches (handleControllerInfoEvent ev w))"
  by (auto simp: handleControllerInfoEvent_def same_index_def cache_SetControllerCache_def
      intro: index_same split: garm_payload.splits)

lemma index_owner_events:
  "index_ok own (cw_caches w) \<Longrightarrow> index_ok own (cw_caches (handleRepositoryEvent ev w))"
  "index_ok own (cw_caches w) \<Longrightarrow> index_ok own (cw_caches (handleOrgEvent ev w))"
  "index_ok own (cw_caches w) \<Longrightarrow> index_ok own (cw_caches (handleEnterpriseEvent ev w))"
  by (simp_all add: handleRepositoryEvent_def handleOrgEvent_def handleEnterpriseEvent_def index_entity_event
      split: garm_payload.split)

lemmas index_events = index_pool_event index_scale_set_event index_instance_event index_owner_events
  index_credentials_event index_endpoint_event index_template_event index_controller_event

lemma index_event: "index_ok own (cw_caches w) \<Longrightarrow> pools_owned own ev \<Longrightarrow> index_ok own (cw_caches (handleEvent ev w))"
  by (simp add: handleEvent_def Let_def index_events)

lemma index_run: "index_ok own (cw_caches w) \<Longrightarrow> list_all (pools_owned own) evs \<Longrightarrow> index_ok own (cw_caches (fold handleEvent evs w))"
  by (induction evs arbitrary: w) (simp_all add: index_event)

lemma index_empty: "index_ok own empty_caches"
  by (simp add: index_ok_def empty_caches_def listed_pools_def)

lemma members_map_filter: "set (List.map_filter f ks) = {y. \<exists>k \<in> set ks. f k = Some y}"
  by (induction ks) (auto simp: List.map_filter_simps split: option.split)

lemma map_filter_find:
  assumes "tbl_ok gp_ID (fc_pools c)"
  shows "set (List.map_filter (\<lambda>k. cache_GetPoolByID k c) ks) = {p \<in> set (fc_pools c). gp_ID p \<in> set ks}"
proof -
  have "cache_GetPoolByID k c = Some p \<longleftrightarrow> p \<in> set (fc_pools c) \<and> gp_ID p = k" for k p
    unfolding cache_GetPoolByID_def by (rule tbl_find_iff [OF assms])
  then show ?thesis by (auto simp: members_map_filter)
qed

lemma map_filter_distinct:
  assumes "distinct ks"
  shows "distinct (map gp_ID (List.map_filter (\<lambda>k. cache_GetPoolByID k c) ks))"
proof -
  have "gp_ID ` set (List.map_filter (\<lambda>k. cache_GetPoolByID k c) ks) \<subseteq> set ks" for ks
    by (auto simp: members_map_filter cache_GetPoolByID_def dest: tbl_find_key)
  then show ?thesis using assms
    by (induction ks) (auto simp: List.map_filter_simps cache_GetPoolByID_def dest: tbl_find_key split: option.split)
qed

lemma indexed_pools:
  assumes ok: "index_ok own c"
  shows "set (cache_GetEntityPools i c) = {p \<in> set (cache_GetAllPools c). pool_of_entity i p} \<inter> (if find_item i c = None then {} else UNIV)"
    and "{p \<in> set (cache_GetAllPools c). pool_of_entity i p} \<noteq> {} \<Longrightarrow> find_item i c \<noteq> None"
    and "distinct (map gp_ID (cache_GetEntityPools i c))"
proof -
  have t: "tbl_ok gp_ID (fc_pools c)" using ok by (simp add: index_ok_def)
  have owner: "own (gp_ID p) = i" if "p \<in> set (fc_pools c)" "pool_of_entity i p" for p
    using ok that by (auto simp: index_ok_def pool_of_entity_def split: sum.splits)
  have listed: "\<exists>ks. (i, ks) \<in> listed_pools c \<and> gp_ID p \<in> set ks" if "p \<in> set (fc_pools c)" "pool_of_entity i p" for p
    using ok owner [OF that] that by (auto simp: index_ok_def)
  show some: "{p \<in> set (cache_GetAllPools c). pool_of_entity i p} \<noteq> {} \<Longrightarrow> find_item i c \<noteq> None"
    using listed listed_none [of i c] by (auto simp: cache_GetAllPools_def sortByCreationDate_def)
  have mem: "p \<in> set (fc_pools c) \<and> pool_of_entity i p \<longleftrightarrow> p \<in> set (fc_pools c) \<and> gp_ID p \<in> set (gei_Pools it)"
    if it: "find_item i c = Some it" for p it
  proof -
    note lf = listed_find [OF it]
    have "gp_ID p \<in> set (gei_Pools it)" if "p \<in> set (fc_pools c)" "pool_of_entity i p"
      using listed [OF that] listed_unique [OF index_items [OF ok] _ lf] by blast
    moreover have "pool_of_entity i p" if "p \<in> set (fc_pools c)" "gp_ID p \<in> set (gei_Pools it)"
      using index_listed(2) [OF ok lf that(2)] that(1) ok by (auto simp: index_ok_def)
    ultimately show ?thesis by blast
  qed
  show "set (cache_GetEntityPools i c) = {p \<in> set (cache_GetAllPools c). pool_of_entity i p} \<inter> (if find_item i c = None then {} else UNIV)"
  proof (cases "find_item i c")
    case (Some it)
    then show ?thesis using mem [OF Some]
      by (simp add: cache_GetEntityPools_def cache_GetAllPools_def sortByCreationDate_def item_pools_def map_filter_find [OF t])
  qed (simp add: cache_GetEntityPools_def)
  show "distinct (map gp_ID (cache_GetEntityPools i c))"
  proof (cases "find_item i c")
    case (Some it)
    have d: "distinct (gei_Pools it)" by (rule index_listed(1) [OF ok listed_find [OF Some]])
    show ?thesis using map_filter_distinct [OF d, of c] Some
      by (simp add: cache_GetEntityPools_def sortByCreationDate_def item_pools_def distinct_map)
  qed (simp add: cache_GetEntityPools_def)
qed

text \<open>
  C7. However the change payloads arrive, as long as no pool changes its owner, the pools that the
  caches list under an entity are exactly the cached pools that belong to it, once each and in the
  order of their creation, and asking for those with given tags is filtering that list: the
  per-entity index never disagrees with the table of pools.
\<close>

theorem entity_pools_agree:
  assumes "list_all (pools_owned own) evs" "index_ok own (cw_caches w)"
  defines "c \<equiv> cw_caches (fold handleEvent evs w)"
  shows "set (cache_GetEntityPools i c) = {p \<in> set (cache_GetAllPools c). pool_of_entity i p}
    \<and> distinct (map gp_ID (cache_GetEntityPools i c))
    \<and> sorted (map gp_CreatedAt (cache_GetEntityPools i c))
    \<and> cache_FindPoolsMatchingAllTags i tags c = filter (\<lambda>p. HasRequiredLabels p tags) (cache_GetEntityPools i c)"
proof -
  have ok: "index_ok own c" unfolding c_def by (rule index_run [OF assms(2, 1)])
  note ip = indexed_pools [OF ok, of i]
  have "set (cache_GetEntityPools i c) = {p \<in> set (cache_GetAllPools c). pool_of_entity i p}"
    using ip(1, 2) by (cases "find_item i c = None") auto
  moreover have "sorted (map gp_CreatedAt (cache_GetEntityPools i c))"
    by (simp add: cache_GetEntityPools_def sortByCreationDate_def split: option.split)
  moreover have "cache_FindPoolsMatchingAllTags i tags c = filter (\<lambda>p. HasRequiredLabels p tags) (cache_GetEntityPools i c)"
    by (simp add: cache_FindPoolsMatchingAllTags_def cache_GetEntityPools_def sortByCreationDate_def filter_sort split: option.split)
  ultimately show ?thesis using ip(3) by blast
qed

section \<open>At concrete payloads\<close>

definition demo_endpoint_event :: "string \<Rightarrow> garm_payload \<Rightarrow> operation_type \<Rightarrow> change_payload" where
  "demo_endpoint_event ty p op = \<lparr>chp_EntityType = ty, chp_Operation = op, chp_Payload = p\<rparr>"

definition demo_github :: forge_credentials where
  "demo_github = no_credentials\<lparr>gk_ID := 1, gk_Name := ''gh'', gk_ForgeType := GithubEndpointType\<rparr>"

definition demo_gitea :: forge_credentials where
  "demo_gitea = no_credentials\<lparr>gk_ID := 1, gk_Name := ''tea'', gk_ForgeType := GiteaEndpointType\<rparr>"

definition demo_repository :: "string \<Rightarrow> garm_repository" where
  "demo_repository i = \<lparr>gr_ID = i, gr_Owner = ''acme'', gr_Name = i, gr_Pools = [], gr_CredentialsName = ''gh'',
     gr_CredentialsID = 1, gr_Credentials = demo_github, gr_AgentMode = False,
     gr_PoolManagerStatus = \<lparr>gms_IsRunning = True, gms_FailureReason = []\<rparr>, gr_PoolBalancerType = [],
     gr_Endpoint = no_endpoint, gr_CreatedAt = 0, gr_UpdatedAt = 0, gr_Events = [], gr_WebhookSecret = []\<rparr>"

definition demo_cached_pool :: "string \<Rightarrow> string \<Rightarrow> int \<Rightarrow> garm_pool" where
  "demo_cached_pool i r t = (bare_pool i)\<lparr>gp_RepoID := r, gp_CreatedAt := t, gp_Tags := [\<lparr>gt_ID = [], gt_Name = ''X64''\<rparr>]\<rparr>"

definition demo_pool_events :: "change_payload list" where
  "demo_pool_events =
     [demo_endpoint_event RepositoryEntityType (PRepository (demo_repository ''r1'')) CreateOperation,
      demo_endpoint_event PoolEntityType (PPool (demo_cached_pool ''p1'' ''r1'' 5)) CreateOperation,
      demo_endpoint_event PoolEntityType (PPool (demo_cached_pool ''p2'' ''r1'' 3)) CreateOperation,
      demo_endpoint_event RepositoryEntityType (PRepository (demo_repository ''r2'')) CreateOperation,
      demo_endpoint_event PoolEntityType (PPool (demo_cached_pool ''p3'' ''r2'' 4)) CreateOperation,
      demo_endpoint_event PoolEntityType (PPool (demo_cached_pool ''p1'' ''r1'' 5)) UpdateOperation,
      demo_endpoint_event RepositoryEntityType (PRepository (demo_repository ''r2'')) DeleteOperation]"

definition demo_owner :: "string \<Rightarrow> string" where
  "demo_owner p = (if p = ''p3'' then ''r2'' else ''r1'')"

lemmas demo_cache_defs = demo_pool_events_def demo_endpoint_event_def demo_cached_pool_def demo_repository_def
  bare_pool_def demo_owner_def

theorem entity_pools_agree_witness:
  "map gp_ID (cache_GetEntityPools ''r1'' (cw_caches (fold handleEvent demo_pool_events demo_worker))) = [''p2'', ''p1'']
   \<and> distinct (map gp_ID (cache_GetEntityPools ''r1'' (cw_caches (fold handleEvent demo_pool_events demo_worker))))"
proof -
  have owned: "list_all (pools_owned demo_owner) demo_pool_events"
    by (simp add: demo_cache_defs pools_owned_def Pool_GetEntity_def PoolType_def)
  have ok: "index_ok demo_owner (cw_caches demo_worker)" by (simp add: demo_worker_def index_empty)
  note use = entity_pools_agree [OF owned ok, of "''r1''" "[]"]
  have "map gp_ID (cache_GetEntityPools ''r1'' (cw_caches (fold handleEvent demo_pool_events demo_worker))) = [''p2'', ''p1'']"
    by code_simp
  with use show ?thesis by blast
qed

section \<open>A deleted pool\<close>

lemma bare_pool_entity: "Pool_GetEntity (bare_pool i) = Inl ''pool has no associated entity''"
  by (simp add: Pool_GetEntity_def PoolType_def bare_pool_def)

lemma bare_pool_ignored:
  "handleEvent \<lparr>chp_EntityType = PoolEntityType, chp_Operation = op, chp_Payload = PPool (bare_pool i)\<rparr> w = w"
  by (simp add: handleEvent_def handlePoolEvent_def bare_pool_entity)

text \<open>
  A deletion of a pool that succeeds removes the row, but the payload it announces names no
  owner, so the worker cannot tell the entity and ignores it: whatever the caches held before,
  the pool stays cached and stays listed under its entity.
\<close>

theorem deleted_pool_stays_cached:
  assumes "fst (DeletePoolByID env i db) = None"
  shows "getPoolByID env i (snd (DeletePoolByID env i db)) = Inl GNotFound
    \<and> fold handleEvent (gd_sent (snd (DeletePoolByID env i db))) w = fold handleEvent (gd_sent db) w"
proof -
  from assms obtain p u where p: "de_uuid env i = Some u" "tbl_find pm_ID u (gd_pools db) = Some p" "de_refused env = None"
      "\<not> pool_in_use db (pm_ID p)"
    by (auto simp: DeletePoolByID_def getPoolByID_def split: option.splits if_splits)
  then have "pm_ID p = u" by (auto dest: tbl_find_key)
  with p show ?thesis
    by (simp add: DeletePoolByID_def getPoolByID_def sendNotify_def bare_pool_ignored)
qed

theorem deleted_pool_stays_cached_witness:
  "cache_GetPoolByID ''p1'' (cw_caches (fold handleEvent
      (gd_sent (snd (DeletePoolByID (demo_db_env []) ''p1'' (demo_garm_db\<lparr>gd_sent := demo_pool_events\<rparr>)))) demo_worker))
   = Some (demo_cached_pool ''p1'' ''r1'' 5)"
proof -
  have "fst (DeletePoolByID (demo_db_env []) ''p1'' (demo_garm_db\<lparr>gd_sent := demo_pool_events\<rparr>)) = None" by code_simp
  note use = deleted_pool_stays_cached [OF this, of demo_worker]
  have "cache_GetPoolByID ''p1'' (cw_caches (fold handleEvent demo_pool_events demo_worker)) = Some (demo_cached_pool ''p1'' ''r1'' 5)"
    by code_simp
  with use show ?thesis by (simp add: demo_garm_db_def)
qed

section \<open>Credentials of two forges\<close>

lemma find_item_gitea [simp]: "find_item i (c\<lparr>fc_gitea := x\<rparr>) = find_item i c"
  by (simp add: find_item_def)

lemma find_item_credentials: "find_item i (cache_UpdateCredentialsInAffectedEntities k c) = map_option (set_item_credentials k) (find_item i c)"
proof -
  have "find (\<lambda>x. item_id x = i) (map (set_item_credentials k) t) = map_option (set_item_credentials k) (find (\<lambda>x. item_id x = i) t)" for t
    by (induction t) simp_all
  then show ?thesis by (simp add: find_item_def cache_UpdateCredentialsInAffectedEntities_def tbl_find_def)
qed

text \<open>
  GitHub and Gitea credentials are numbered separately, yet storing one looks for affected
  entities by number alone: when Gitea credentials arrive whose number is that of the credentials of a
  cached GitHub entity, the entity is handed out with the Gitea credentials from then on.
\<close>

theorem gitea_credentials_reach_github_entity:
  assumes "find_item i (cw_caches w) = Some it"
    and "gk_ForgeType (ge_Credentials (gei_Entity it)) = GithubEndpointType"
    and "gk_ID (ge_Credentials (gei_Entity it)) = gk_ID k" "gk_ForgeType k = GiteaEndpointType"
    and "chp_EntityType ev = GiteaCredentialsEntityType" "chp_Payload ev = PCredentials k" "chp_Operation ev \<noteq> DeleteOperation"
  shows "cache_GetEntity i (cw_caches (handleEvent ev w)) = Some ((gei_Entity it)\<lparr>ge_Credentials := k\<rparr>)
    \<and> cache_GetGithubCredentials (gk_ID k) (cw_caches (handleEvent ev w)) = cache_GetGithubCredentials (gk_ID k) (cw_caches w)"
proof -
  have c: "cw_caches (handleEvent ev w) = cache_SetGiteaCredentials k (cw_caches w)"
    using assms by (simp add: handleEvent_def handleCredentialsEvent_def Let_def split: operation_type.split)
  have f: "find_item i (cache_SetGiteaCredentials k (cw_caches w)) = Some (it\<lparr>gei_Entity := (gei_Entity it)\<lparr>ge_Credentials := k\<rparr>\<rparr>)"
    using assms(1, 3) by (simp add: cache_SetGiteaCredentials_def find_item_credentials set_item_credentials_def)
  show ?thesis unfolding c using f assms(4)
    by (simp add: cache_GetEntity_def with_current_credentials_def cache_GetGiteaCredentials_def cache_GetGithubCredentials_def
        cache_SetGiteaCredentials_def cache_UpdateCredentialsInAffectedEntities_def)
qed

theorem gitea_credentials_reach_github_entity_witness:
  "map_option (\<lambda>e. gk_Name (ge_Credentials e))
     (cache_GetEntity ''r1'' (cw_caches (handleEvent
        (demo_endpoint_event GiteaCredentialsEntityType (PCredentials demo_gitea) CreateOperation)
        (fold handleEvent demo_pool_events demo_worker)))) = Some ''tea''"
proof -
  let ?w = "fold handleEvent demo_pool_events demo_worker"
  let ?ev = "demo_endpoint_event GiteaCredentialsEntityType (PCredentials demo_gitea) CreateOperation"
  have "find_item ''r1'' (cw_caches ?w) \<noteq> None \<and>
    (case find_item ''r1'' (cw_caches ?w) of None \<Rightarrow> False | Some it \<Rightarrow>
       gk_ForgeType (ge_Credentials (gei_Entity it)) = GithubEndpointType \<and> gk_ID (ge_Credentials (gei_Entity it)) = 1)"
    by code_simp
  then obtain it where it: "find_item ''r1'' (cw_caches ?w) = Some it"
    "gk_ForgeType (ge_Credentials (gei_Entity it)) = GithubEndpointType" "gk_ID (ge_Credentials (gei_Entity it)) = 1" by auto
  have "cache_GetEntity ''r1'' (cw_caches (handleEvent ?ev ?w)) = Some ((gei_Entity it)\<lparr>ge_Credentials := demo_gitea\<rparr>)"
    using gitea_credentials_reach_github_entity [OF it(1) it(2), of demo_gitea ?ev] it(3)
    by (simp add: demo_gitea_def demo_endpoint_event_def)
  then show ?thesis by (simp add: demo_gitea_def)
qed

section \<open>The error of a tools update\<close>

text \<open>
  The error of a failed tools update for a GitHub entity that has no cached tools yet is stored
  with no expiry date, so the next read calls the entry expired, drops it, and never shows the error;
  a Gitea entity's error is shown.
\<close>

theorem tools_error_reported_for_gitea_only:
  assumes "tbl_find tools_id (ge_ID e) (fc_tools c) = None" "time_zero \<le> now"
    and r: "r = cache_GetGithubToolsCache now (ge_ID e) (cache_SetGithubToolsCacheError t e err c)"
  shows "if gk_ForgeType (ge_Credentials e) = GithubEndpointType
    then fst r = Inl (''cache expired for entity '' @ ge_ID e) \<and> tbl_find tools_id (ge_ID e) (fc_tools (snd r)) = None
    else fst r = Inl err \<and> snd r = cache_SetGithubToolsCacheError t e err c"
  using assms(2) unfolding r cache_GetGithubToolsCache_def cache_SetGithubToolsCacheError_def assms(1)
  by (simp add: tools_id_def second_def)

theorem tools_error_reported_for_gitea_only_witness:
  "fst (cache_GetGithubToolsCache 10 ''r1'' (cache_SetGithubToolsCacheError 9
     ((entity_ref ''r1'' ForgeEntityTypeRepository)\<lparr>ge_Credentials := demo_github\<rparr>) ''401'' empty_caches))
   = Inl ''cache expired for entity r1''"
  using tools_error_reported_for_gitea_only
    [of "(entity_ref ''r1'' ForgeEntityTypeRepository)\<lparr>ge_Credentials := demo_github\<rparr>" empty_caches 10 _ 9 "''401''", OF _ _ refl]
  by (simp add: demo_github_def entity_ref_def empty_caches_def tbl_find_def time_zero_def second_def)

end
