(* ===== verification/ForgeLocks.thy ===== *)
theory ForgeLocks
  imports Complex_Main GoTime SqlTable
begin

text \<open>
  The named locks of garm, \<^verbatim>\<open>ci/runners/garm/locking\<close>: \<^verbatim>\<open>keyMutex\<close> as a store of lock objects that
  goroutines reach through a map of keys, one action per atomic step of a call, and the backoff of
  instance deletions.
\<close>

section \<open>Lock objects\<close>

record lock_object =
  lo_held :: bool
  lo_ident :: string
  lo_isLocked :: bool

record key_mutex =
  km_objects :: "lock_object list"
  km_muxes :: "(string \<times> nat) list"

definition new_locker :: key_mutex where
  "new_locker = \<lparr>km_objects = [], km_muxes = []\<rparr>"

definition new_lock :: lock_object where
  "new_lock = \<lparr>lo_held = False, lo_ident = [], lo_isLocked = False\<rparr>"

definition lock_at :: "string \<Rightarrow> key_mutex \<Rightarrow> nat option" where
  "lock_at k km = map_option snd (tbl_find fst k (km_muxes km))"

definition load_or_store :: "string \<Rightarrow> key_mutex \<Rightarrow> nat \<times> key_mutex" where
  "load_or_store k km =
     (case lock_at k km of
        Some a \<Rightarrow> (a, km)
      | None \<Rightarrow> (length (km_objects km),
          \<lparr>km_objects = km_objects km @ [new_lock], km_muxes = tbl_upsert fst (k, length (km_objects km)) (km_muxes km)\<rparr>))"

definition set_lock :: "nat \<Rightarrow> (lock_object \<Rightarrow> lock_object) \<Rightarrow> key_mutex \<Rightarrow> key_mutex" where
  "set_lock a f km = km\<lparr>km_objects := (km_objects km)[a := f (km_objects km ! a)]\<rparr>"

definition km_Delete :: "string \<Rightarrow> key_mutex \<Rightarrow> key_mutex" where
  "km_Delete k km = km\<lparr>km_muxes := tbl_delete fst k (km_muxes km)\<rparr>"

definition LockedBy :: "string \<Rightarrow> key_mutex \<Rightarrow> string option" where
  "LockedBy k km =
     (case lock_at k km of
        None \<Rightarrow> None
      | Some a \<Rightarrow> (if lo_ident (km_objects km ! a) = [] then None else Some (lo_ident (km_objects km ! a))))"

section \<open>Goroutines\<close>

text \<open>
  Where a goroutine is in a call: in \<^verbatim>\<open>TryLock\<close> the object loaded, the mutex taken, the name of
  the owner and then the flag set; in \<^verbatim>\<open>Unlock\<close> the object loaded, the name cleared, the flag
  swapped, the mutex released and the key deleted. Between calls it is outside.
\<close>

datatype lock_pc =
    Outside
  | Trying string string nat
  | Naming string string nat
  | Marking string nat
  | Clearing string nat bool
  | Swapping string nat bool
  | Releasing string nat bool
  | Removing string

text \<open>
  Beside the locks and the calls, the locks that were granted: the goroutine and the key of every
  \<^verbatim>\<open>TryLock\<close> that returned true and that the goroutine has not begun to unlock. The code keeps no
  such record, no step looks at it, and \<^verbatim>\<open>Unlock\<close> takes a key only, from whoever calls it.
\<close>

record lock_world =
  lw_mutex :: key_mutex
  lw_pc :: "lock_pc list"
  lw_granted :: "(nat \<times> string) list"

text \<open>
  A goroutine that is in no call starts one, with any key, or one that is in a call goes on with it.
  \<^verbatim>\<open>Lock\<close> is \<^verbatim>\<open>TryLock\<close> whose second step waits: the scheduler does not choose it while the
  mutex is held. A goroutine that has a lock may start another one that is to release it.
\<close>

datatype lock_action =
    StartLock nat string string
  | StartUnlock nat string bool
  | DeleteKey nat string
  | HandOver nat nat string
  | Go nat

definition goto_pc :: "nat \<Rightarrow> lock_pc \<Rightarrow> key_mutex \<Rightarrow> lock_world \<Rightarrow> lock_world" where
  "goto_pc t pc km w = w\<lparr>lw_mutex := km, lw_pc := (lw_pc w)[t := pc]\<rparr>"

definition after_unlock :: "string \<Rightarrow> bool \<Rightarrow> lock_pc" where
  "after_unlock k r = (if r then Removing k else Outside)"

definition grant :: "nat \<Rightarrow> string \<Rightarrow> lock_world \<Rightarrow> lock_world" where
  "grant t k w = w\<lparr>lw_granted := lw_granted w @ [(t, k)]\<rparr>"

definition give_back :: "nat \<Rightarrow> string \<Rightarrow> lock_world \<Rightarrow> lock_world" where
  "give_back t k w = w\<lparr>lw_granted := remove1 (t, k) (lw_granted w)\<rparr>"

definition go_step :: "nat \<Rightarrow> lock_world \<Rightarrow> lock_world" where
  "go_step t w =
     (let km = lw_mutex w in
      case lw_pc w ! t of
        Trying k i a \<Rightarrow>
          if lo_held (km_objects km ! a) then goto_pc t Outside km w
          else goto_pc t (Naming k i a) (set_lock a (\<lambda>l. l\<lparr>lo_held := True\<rparr>) km) w
      | Naming k i a \<Rightarrow> goto_pc t (Marking k a) (set_lock a (\<lambda>l. l\<lparr>lo_ident := i\<rparr>) km) w
      | Marking k a \<Rightarrow> grant t k (goto_pc t Outside (set_lock a (\<lambda>l. l\<lparr>lo_isLocked := True\<rparr>) km) w)
      | Clearing k a r \<Rightarrow> goto_pc t (Swapping k a r) (set_lock a (\<lambda>l. l\<lparr>lo_ident := []\<rparr>) km) w
      | Swapping k a r \<Rightarrow>
          if lo_isLocked (km_objects km ! a)
          then goto_pc t (Releasing k a r) (set_lock a (\<lambda>l. l\<lparr>lo_isLocked := False\<rparr>) km) w
          else goto_pc t (after_unlock k r) km w
      | Releasing k a r \<Rightarrow> goto_pc t (after_unlock k r) (set_lock a (\<lambda>l. l\<lparr>lo_held := False\<rparr>) km) w
      | Removing k \<Rightarrow> goto_pc t Outside (km_Delete k km) w
      | Outside \<Rightarrow> w)"

definition lock_exec :: "lock_action \<Rightarrow> lock_world \<Rightarrow> lock_world" where
  "lock_exec act w =
     (let idle = (\<lambda>t. t < length (lw_pc w) \<and> lw_pc w ! t = Outside) in
      case act of
        StartLock t k i \<Rightarrow>
          if idle t then (case load_or_store k (lw_mutex w) of (a, km) \<Rightarrow> goto_pc t (Trying k i a) km w) else w
      | StartUnlock t k r \<Rightarrow>
          if \<not> idle t then w
          else (case lock_at k (lw_mutex w) of
                  None \<Rightarrow> give_back t k w
                | Some a \<Rightarrow> give_back t k (goto_pc t (Clearing k a r) (lw_mutex w) w))
      | DeleteKey t k \<Rightarrow> if idle t then w\<lparr>lw_mutex := km_Delete k (lw_mutex w)\<rparr> else w
      | HandOver t u k \<Rightarrow>
          if (t, k) \<in> set (lw_granted w) \<and> u < length (lw_pc w) then grant u k (give_back t k w) else w
      | Go t \<Rightarrow> if t < length (lw_pc w) then go_step t w else w)"

definition idle_world :: "nat \<Rightarrow> lock_world" where
  "idle_world n = \<lparr>lw_mutex = new_locker, lw_pc = replicate n Outside, lw_granted = []\<rparr>"

text \<open>The key whose mutex a call of \<^verbatim>\<open>TryLock\<close> has taken, or a call of \<^verbatim>\<open>Unlock\<close> is releasing.\<close>

fun holds :: "lock_pc \<Rightarrow> string option" where
  "holds (Naming k i a) = Some k"
| "holds (Marking k a) = Some k"
| "holds (Clearing k a r) = Some k"
| "holds (Swapping k a r) = Some k"
| "holds (Releasing k a r) = Some k"
| "holds _ = None"

text \<open>How many goroutines have the key, granted or within a call.\<close>

definition holding :: "string \<Rightarrow> lock_world \<Rightarrow> nat" where
  "holding k w = count_list (map holds (lw_pc w)) (Some k) + count_list (map snd (lw_granted w)) k"

section \<open>Backoff of deletions\<close>

text \<open>
  The backoff starts at the consolidation interval of five seconds and grows by half, up to twenty
  minutes. The values are multiples of \<open>2 ^ -14\<close> below \<open>2 ^ 11\<close>, so doubles hold them exactly.
\<close>

definition maxBackoffSeconds :: rat where
  "maxBackoffSeconds = 1200"

definition PoolConsilitationInterval :: int where
  "PoolConsilitationInterval = 5 * second"

record instance_backoff =
  ibo_key :: string
  ibo_seconds :: rat
  ibo_last :: int

definition new_backoff :: "string \<Rightarrow> instance_backoff" where
  "new_backoff k = \<lparr>ibo_key = k, ibo_seconds = 0, ibo_last = time_zero\<rparr>"

definition ShouldProcess :: "int \<Rightarrow> string \<Rightarrow> instance_backoff list \<Rightarrow> (bool \<times> int) \<times> instance_backoff list" where
  "ShouldProcess now k bs =
     (case tbl_find ibo_key k bs of
        None \<Rightarrow> ((True, time_zero), tbl_upsert ibo_key (new_backoff k) bs)
      | Some b \<Rightarrow>
          if ibo_last b = time_zero \<or> ibo_seconds b = 0 then ((True, time_zero), bs)
          else (let deadline = ibo_last b + \<lfloor>ibo_seconds b\<rfloor> * second in ((deadline < now, deadline), bs)))"

definition backoff_Delete :: "string \<Rightarrow> instance_backoff list \<Rightarrow> instance_backoff list" where
  "backoff_Delete k bs = tbl_delete ibo_key k bs"

definition grow_backoff :: "rat \<Rightarrow> rat" where
  "grow_backoff s = (if s = 0 then 5 else min (s * (3 / 2)) maxBackoffSeconds)"

definition RecordFailure :: "int \<Rightarrow> string \<Rightarrow> instance_backoff list \<Rightarrow> instance_backoff list" where
  "RecordFailure now k bs =
     (let b = (case tbl_find ibo_key k bs of None \<Rightarrow> new_backoff k | Some b \<Rightarrow> b)
      in tbl_upsert ibo_key (b\<lparr>ibo_last := now, ibo_seconds := grow_backoff (ibo_seconds b)\<rparr>) bs)"

end
