(* ===== verification/ForgeLockProps.thy ===== *)
theory ForgeLockProps
  imports ForgeLocks
begin

text \<open>
  Mutual exclusion of the named locks for callers that unlock what they have locked and delete no
  key, what an unlock by another caller and a deletion do to it, and the bounds of the deletion
  backoff.
\<close>

section \<open>Mutual exclusion of disciplined callers\<close>

text \<open>The object a goroutine has loaded for its key.\<close>

fun loaded :: "lock_pc \<Rightarrow> (string \<times> nat) option" where
  "loaded (Trying k i a) = Some (k, a)"
| "loaded (Naming k i a) = Some (k, a)"
| "loaded (Marking k a) = Some (k, a)"
| "loaded (Clearing k a r) = Some (k, a)"
| "loaded (Swapping k a r) = Some (k, a)"
| "loaded (Releasing k a r) = Some (k, a)"
| "loaded _ = None"

fun removes :: "lock_pc \<Rightarrow> bool" where
  "removes (Clearing k a r) = r"
| "removes (Swapping k a r) = r"
| "removes (Releasing k a r) = r"
| "removes (Removing k) = True"
| "removes _ = False"

text \<open>The calls during which the flag is set.\<close>

fun flagged :: "lock_pc \<Rightarrow> string option" where
  "flagged (Clearing k a r) = Some k"
| "flagged (Swapping k a r) = Some k"
| "flagged _ = None"

definition obj :: "nat \<Rightarrow> lock_world \<Rightarrow> lock_object" where
  "obj a w = km_objects (lw_mutex w) ! a"

definition table_ok :: "key_mutex \<Rightarrow> bool" where
  "table_ok km \<longleftrightarrow> (\<forall>k a. lock_at k km = Some a \<longrightarrow> a < length (km_objects km))
     \<and> (\<forall>k k' a. lock_at k km = Some a \<longrightarrow> lock_at k' km = Some a \<longrightarrow> k = k')"

definition taken :: "lock_world \<Rightarrow> string \<Rightarrow> bool" where
  "taken w k \<longleftrightarrow> (\<exists>a. lock_at k (lw_mutex w) = Some a \<and> lo_held (obj a w))"

definition marked :: "lock_world \<Rightarrow> string \<Rightarrow> bool" where
  "marked w k \<longleftrightarrow> (\<exists>a. lock_at k (lw_mutex w) = Some a \<and> lo_held (obj a w) \<and> lo_isLocked (obj a w))"

definition pc_ok :: "lock_world \<Rightarrow> lock_pc \<Rightarrow> bool" where
  "pc_ok w pc \<longleftrightarrow> \<not> removes pc
     \<and> (\<forall>k a. loaded pc = Some (k, a) \<longrightarrow> lock_at k (lw_mutex w) = Some a)
     \<and> (\<forall>k. holds pc = Some k \<longrightarrow> taken w k)
     \<and> (\<forall>k. flagged pc = Some k \<longrightarrow> marked w k)"

definition lock_inv :: "lock_world \<Rightarrow> bool" where
  "lock_inv w \<longleftrightarrow> table_ok (lw_mutex w) \<and> (\<forall>t < length (lw_pc w). pc_ok w (lw_pc w ! t))
     \<and> (\<forall>k \<in> snd ` set (lw_granted w). marked w k) \<and> (\<forall>k. holding k w \<le> 1)"

text \<open>
  The discipline: whoever unlocks a key was granted it, or was handed it by the goroutine that was,
  and no key is deleted, by an unlock or on its own.
\<close>

fun disciplined :: "lock_action \<Rightarrow> lock_world \<Rightarrow> bool" where
  "disciplined (StartUnlock t k r) w \<longleftrightarrow> (t, k) \<in> set (lw_granted w) \<and> \<not> r"
| "disciplined (DeleteKey t k) w \<longleftrightarrow> False"
| "disciplined _ w \<longleftrightarrow> True"

fun disciplined_run :: "lock_action list \<Rightarrow> lock_world \<Rightarrow> bool" where
  "disciplined_run [] w \<longleftrightarrow> True"
| "disciplined_run (a # as) w \<longleftrightarrow> disciplined a w \<and> disciplined_run as (lock_exec a w)"

lemma flagged_holds: "flagged pc = Some k \<Longrightarrow> holds pc = Some k"
  by (cases pc) auto

lemma marked_taken: "marked w k \<Longrightarrow> taken w k"
  by (auto simp: marked_def taken_def)

lemma lock_at_set [simp]: "lock_at k (set_lock a f km) = lock_at k km"
  by (simp add: lock_at_def set_lock_def)

lemma objects_set [simp]: "length (km_objects (set_lock a f km)) = length (km_objects km)"
  by (simp add: set_lock_def)

lemma table_ok_set [simp]: "table_ok (set_lock a f km) \<longleftrightarrow> table_ok km"
  by (simp add: table_ok_def)

lemma world_sel [simp]:
  "lw_mutex (goto_pc t pc km w) = km" "lw_pc (goto_pc t pc km w) = (lw_pc w)[t := pc]"
  "lw_granted (goto_pc t pc km w) = lw_granted w"
  "lw_mutex (grant t k w) = lw_mutex w" "lw_pc (grant t k w) = lw_pc w" "lw_granted (grant t k w) = lw_granted w @ [(t, k)]"
  "lw_mutex (give_back t k w) = lw_mutex w" "lw_pc (give_back t k w) = lw_pc w"
  "lw_granted (give_back t k w) = remove1 (t, k) (lw_granted w)"
  by (simp_all add: goto_pc_def grant_def give_back_def)

lemma load_or_store_keeps:
  assumes tab: "table_ok km" and l: "load_or_store k km = (a, km')"
  shows "table_ok km'" "lock_at k km' = Some a" "lock_at j km = Some b \<Longrightarrow> lock_at j km' = Some b"
    "lock_at j km = Some b \<Longrightarrow> km_objects km' ! b = km_objects km ! b"
proof -
  have "table_ok km' \<and> lock_at k km' = Some a \<and> (\<forall>j b. lock_at j km = Some b \<longrightarrow>
      lock_at j km' = Some b \<and> km_objects km' ! b = km_objects km ! b)"
  proof (cases "lock_at k km")
    case (Some x)
    with l tab show ?thesis by (simp add: load_or_store_def)
  next
    case None
    have a: "a = length (km_objects km)" and at: "lock_at j km' = (if j = k then Some a else lock_at j km)"
      and ob: "km_objects km' = km_objects km @ [new_lock]" for j
      using l None by (auto simp: load_or_store_def lock_at_def)
    have old: "b < a" if "lock_at j km = Some b" for j b using tab that a by (simp add: table_ok_def)
    have "table_ok km'"
      unfolding table_ok_def at ob using tab old a by (auto simp: table_ok_def less_Suc_eq split: if_splits dest: old)
    moreover have "lock_at j km' = Some b \<and> km_objects km' ! b = km_objects km ! b" if "lock_at j km = Some b" for j b
      using that old [OF that] None a by (auto simp: at ob nth_append)
    ultimately show ?thesis using at by simp
  qed
  then show "table_ok km'" "lock_at k km' = Some a" "lock_at j km = Some b \<Longrightarrow> lock_at j km' = Some b"
    "lock_at j km = Some b \<Longrightarrow> km_objects km' ! b = km_objects km ! b" by blast+
qed

section \<open>Counting\<close>

lemma count_list_update:
  "t < length xs \<Longrightarrow> count_list (xs[t := y]) z + (if xs ! t = z then 1 else 0) = count_list xs z + (if y = z then 1 else 0)"
proof (induction xs arbitrary: t)
  case (Cons x xs)
  show ?case
  proof (cases t)
    case (Suc n)
    with Cons.prems Cons.IH [of n] show ?thesis by (auto split: if_splits)
  qed simp
qed simp

lemma count_list_remove1:
  "x \<in> set xs \<Longrightarrow> count_list (map f (remove1 x xs)) z + (if f x = z then 1 else 0) = count_list (map f xs) z"
  by (induction xs) auto

lemma count_list_nth: "t < length xs \<Longrightarrow> xs ! t = z \<Longrightarrow> 1 \<le> count_list xs z"
  by (metis One_nat_def Suc_leI count_list_0_iff neq0_conv nth_mem)

text \<open>Nobody but \<open>t\<close> has the key, and \<open>t\<close> at most within a call.\<close>

definition alone :: "string \<Rightarrow> nat \<Rightarrow> lock_world \<Rightarrow> bool" where
  "alone k t w \<longleftrightarrow> (\<forall>s < length (lw_pc w). s \<noteq> t \<longrightarrow> holds (lw_pc w ! s) \<noteq> Some k) \<and> k \<notin> snd ` set (lw_granted w)"

lemma holding_pc:
  "t < length (lw_pc w) \<Longrightarrow>
    count_list (map holds ((lw_pc w)[t := pc])) (Some k) + (if holds (lw_pc w ! t) = Some k then 1 else 0)
      = count_list (map holds (lw_pc w)) (Some k) + (if holds pc = Some k then 1 else 0)"
  using count_list_update [of t "map holds (lw_pc w)" "holds pc" "Some k"] by (simp add: map_update)

lemma alone_if_held:
  assumes "lock_inv w" "t < length (lw_pc w)" "holds (lw_pc w ! t) = Some k"
  shows "alone k t w"
  unfolding alone_def
proof (intro conjI allI impI notI)
  have one: "holding k w \<le> 1" using assms(1) by (simp add: lock_inv_def)
  have t: "1 \<le> count_list (map holds (lw_pc w)) (Some k)"
    using assms(2,3) count_list_nth [of t "map holds (lw_pc w)"] by simp
  fix s assume s: "s < length (lw_pc w)" "s \<noteq> t" "holds (lw_pc w ! s) = Some k"
  have "1 \<le> count_list (map holds ((lw_pc w)[t := Outside])) (Some k)"
    using s count_list_nth [of s "map holds ((lw_pc w)[t := Outside])"] by simp
  with one holding_pc [OF assms(2), of Outside k] assms(3) show False by (simp add: holding_def)
next
  assume k: "k \<in> snd ` set (lw_granted w)"
  have "holding k w \<le> 1" using assms(1) by (simp add: lock_inv_def)
  moreover have "1 \<le> count_list (map holds (lw_pc w)) (Some k)"
    using assms(2,3) count_list_nth [of t "map holds (lw_pc w)"] by simp
  moreover have "count_list (map snd (lw_granted w)) k \<noteq> 0" using k by (simp add: count_list_0_iff)
  ultimately show False by (simp add: holding_def)
qed

lemma alone_if_free:
  assumes "lock_inv w" "lock_at k (lw_mutex w) = Some a" "\<not> lo_held (obj a w)"
  shows "alone k t w" "holding k w = 0"
proof -
  have free: "\<not> taken w k" using assms(2,3) by (simp add: taken_def)
  then have "holds pc \<noteq> Some k" if "pc \<in> set (lw_pc w)" for pc
    using assms(1) that by (auto simp: lock_inv_def pc_ok_def in_set_conv_nth)
  moreover have g: "k \<notin> snd ` set (lw_granted w)"
    using assms(1) free marked_taken by (auto simp: lock_inv_def)
  ultimately show "alone k t w" "holding k w = 0"
    by (fastforce simp: alone_def holding_def count_list_0_iff)+
qed

section \<open>The invariant\<close>

text \<open>
  A step of \<open>t\<close>: the table keeps its keys, an object changes only when its key is nobody else's, and
  the new place of \<open>t\<close> and the new grants are in order.
\<close>

lemma lock_inv_step:
  assumes inv: "lock_inv w" and t: "t < length (lw_pc w)" and table: "table_ok (lw_mutex w')"
    and pcs: "lw_pc w' = (lw_pc w)[t := pc]"
    and keep: "\<And>k a. lock_at k (lw_mutex w) = Some a \<Longrightarrow> lock_at k (lw_mutex w') = Some a"
    and same: "\<And>k a. lock_at k (lw_mutex w) = Some a \<Longrightarrow> obj a w' = obj a w \<or> alone k t w"
    and new: "pc_ok w' pc"
    and grants: "\<And>k. k \<in> snd ` set (lw_granted w') \<Longrightarrow> k \<in> snd ` set (lw_granted w) \<or> marked w' k"
    and count: "\<And>k. holding k w' \<le> 1"
  shows "lock_inv w'"
  unfolding lock_inv_def
proof (intro conjI allI impI ballI)
  have still: "taken w k \<Longrightarrow> taken w' k" "marked w k \<Longrightarrow> marked w' k" if "\<not> alone k t w" for k
    using that keep same unfolding taken_def marked_def by metis+
  show "pc_ok w' (lw_pc w' ! s)" if "s < length (lw_pc w')" for s
  proof (cases "s = t")
    case True
    with t pcs new show ?thesis by simp
  next
    case False
    with that pcs have s: "s < length (lw_pc w)" "lw_pc w' ! s = lw_pc w ! s" by simp_all
    then have ok: "pc_ok w (lw_pc w ! s)" using inv by (simp add: lock_inv_def)
    have other: "\<not> alone k t w" if "holds (lw_pc w ! s) = Some k" for k
      using that s(1) False by (auto simp: alone_def)
    show ?thesis
      using ok keep still other unfolding s(2) pc_ok_def by (meson flagged_holds)
  qed
  show "marked w' k" if "k \<in> snd ` set (lw_granted w')" for k
  proof (cases "k \<in> snd ` set (lw_granted w)")
    case True
    then have "marked w k" "\<not> alone k t w" using inv by (auto simp: lock_inv_def alone_def)
    with still show ?thesis by blast
  qed (use grants [OF that] in blast)
qed (use table count in auto)

lemma obj_set [simp]: "table_ok (lw_mutex w) \<Longrightarrow> lock_at k (lw_mutex w) = Some a \<Longrightarrow>
    obj a (goto_pc t pc (set_lock a f (lw_mutex w)) w) = f (obj a w)"
  by (auto simp: obj_def set_lock_def table_ok_def)

lemma obj_grant [simp]: "obj a (grant t k w) = obj a w" "obj a (give_back t k w) = obj a w"
  by (simp_all add: obj_def)

lemma obj_other: "b \<noteq> a \<Longrightarrow> obj b (goto_pc t pc (set_lock a f (lw_mutex w)) w) = obj b w"
  by (simp add: obj_def set_lock_def)

text \<open>A write to the object of a key that is \<open>t\<close>'s.\<close>

lemma lock_inv_write:
  assumes inv: "lock_inv w" and t: "t < length (lw_pc w)" and a: "lock_at k (lw_mutex w) = Some a"
    and mine: "alone k t w"
    and w': "lw_mutex w' = set_lock a f (lw_mutex w)" "lw_pc w' = (lw_pc w)[t := pc]"
    and new: "pc_ok w' pc"
    and grants: "\<And>j. j \<in> snd ` set (lw_granted w') \<Longrightarrow> j \<in> snd ` set (lw_granted w) \<or> marked w' j"
    and count: "\<And>j. holding j w' \<le> 1"
  shows "lock_inv w'"
proof (rule lock_inv_step [OF inv t _ w'(2) _ _ new grants count])
  have tab: "table_ok (lw_mutex w)" using inv by (simp add: lock_inv_def)
  then show "table_ok (lw_mutex w')" by (simp add: w'(1))
  show "obj b w' = obj b w \<or> alone j t w" if "lock_at j (lw_mutex w) = Some b" for j b
  proof (cases "b = a")
    case True
    with a that tab have "j = k" by (auto simp: table_ok_def)
    with mine show ?thesis by simp
  qed (simp add: obj_def w'(1) set_lock_def)
qed (simp_all add: w')

text \<open>The count of a key after a step of \<open>t\<close>.\<close>

lemma holding_goto:
  assumes "t < length (lw_pc w)" "lw_pc w' = (lw_pc w)[t := pc]" "lw_granted w' = lw_granted w"
  shows "holding k w' + (if holds (lw_pc w ! t) = Some k then 1 else 0) = holding k w + (if holds pc = Some k then 1 else 0)"
  using holding_pc [OF assms(1), of pc k] assms(2,3) by (simp add: holding_def)

lemma holding_le:
  assumes "lock_inv w" "t < length (lw_pc w)" "lw_pc w' = (lw_pc w)[t := pc]" "lw_granted w' = lw_granted w"
    and "\<And>k. holds pc = Some k \<Longrightarrow> holds (lw_pc w ! t) = Some k \<or> holding k w = 0"
  shows "holding k w' \<le> Suc 0"
proof -
  have "holding k w \<le> 1" using assms(1) by (simp add: lock_inv_def)
  then show ?thesis using holding_goto [OF assms(2-4), of k] assms(5) [of k] by (auto split: if_splits)
qed

lemma lock_inv_go:
  assumes inv: "lock_inv w" and t: "t < length (lw_pc w)"
  shows "lock_inv (go_step t w)"
proof -
  have tab: "table_ok (lw_mutex w)" and ok: "pc_ok w (lw_pc w ! t)" using inv t by (simp_all add: lock_inv_def)
  note own = lock_inv_write [OF inv t]
  note le = holding_le [OF inv t]
  show ?thesis
  proof (cases "lw_pc w ! t")
    case (Trying k i a)
    then have a: "lock_at k (lw_mutex w) = Some a" using ok by (simp add: pc_ok_def)
    show ?thesis
    proof (cases "lo_held (km_objects (lw_mutex w) ! a)")
      case True
      have "lock_inv (goto_pc t Outside (lw_mutex w) w)"
        by (rule lock_inv_step [OF inv t]) (auto simp: tab pc_ok_def obj_def intro!: le)
      with Trying True show ?thesis by (simp add: go_step_def Let_def)
    next
      case False
      then have free: "\<not> lo_held (obj a w)" by (simp add: obj_def)
      have "lock_inv (goto_pc t (Naming k i a) (set_lock a (\<lambda>l. l\<lparr>lo_held := True\<rparr>) (lw_mutex w)) w)"
        by (rule own [OF a alone_if_free(1) [OF inv a free]])
          (use a tab alone_if_free(2) [OF inv a free] in \<open>auto simp: pc_ok_def taken_def intro!: le\<close>)
      with Trying False show ?thesis by (simp add: go_step_def Let_def)
    qed
  next
    case (Naming k i a)
    then have a: "lock_at k (lw_mutex w) = Some a" and h: "lo_held (obj a w)" using ok by (auto simp: pc_ok_def taken_def)
    have "lock_inv (goto_pc t (Marking k a) (set_lock a (\<lambda>l. l\<lparr>lo_ident := i\<rparr>) (lw_mutex w)) w)"
      by (rule own [OF a alone_if_held [OF inv t]])
        (use Naming a tab h in \<open>auto simp: pc_ok_def taken_def intro!: le\<close>)
    with Naming show ?thesis by (simp add: go_step_def Let_def)
  next
    case (Marking k a)
    then have a: "lock_at k (lw_mutex w) = Some a" and h: "lo_held (obj a w)" using ok by (auto simp: pc_ok_def taken_def)
    let ?w = "grant t k (goto_pc t Outside (set_lock a (\<lambda>l. l\<lparr>lo_isLocked := True\<rparr>) (lw_mutex w)) w)"
    have "holding j ?w = holding j w" for j
      using holding_pc [OF t, of Outside j] Marking by (auto simp: holding_def split: if_splits)
    then have "holding j ?w \<le> 1" for j using inv by (simp add: lock_inv_def)
    then have "lock_inv ?w"
      by (intro own [OF a alone_if_held [OF inv t]])
        (use Marking a tab h in \<open>auto simp: pc_ok_def marked_def\<close>)
    with Marking show ?thesis by (simp add: go_step_def Let_def)
  next
    case (Clearing k a r)
    then have a: "lock_at k (lw_mutex w) = Some a" and h: "lo_held (obj a w)" "lo_isLocked (obj a w)" "\<not> r"
      using ok by (auto simp: pc_ok_def marked_def)
    have "lock_inv (goto_pc t (Swapping k a r) (set_lock a (\<lambda>l. l\<lparr>lo_ident := []\<rparr>) (lw_mutex w)) w)"
      by (rule own [OF a alone_if_held [OF inv t]])
        (use Clearing a tab h in \<open>auto simp: pc_ok_def taken_def marked_def intro!: le\<close>)
    with Clearing show ?thesis by (simp add: go_step_def Let_def)
  next
    case (Swapping k a r)
    then have a: "lock_at k (lw_mutex w) = Some a" and h: "lo_held (obj a w)" "lo_isLocked (obj a w)" "\<not> r"
      using ok by (auto simp: pc_ok_def marked_def)
    have "lock_inv (goto_pc t (Releasing k a r) (set_lock a (\<lambda>l. l\<lparr>lo_isLocked := False\<rparr>) (lw_mutex w)) w)"
      by (rule own [OF a alone_if_held [OF inv t]])
        (use Swapping a tab h in \<open>auto simp: pc_ok_def taken_def intro!: le\<close>)
    with Swapping h show ?thesis by (simp add: go_step_def Let_def obj_def)
  next
    case (Releasing k a r)
    then have a: "lock_at k (lw_mutex w) = Some a" and h: "\<not> r" using ok by (auto simp: pc_ok_def)
    have "lock_inv (goto_pc t Outside (set_lock a (\<lambda>l. l\<lparr>lo_held := False\<rparr>) (lw_mutex w)) w)"
      by (rule own [OF a alone_if_held [OF inv t]])
        (use Releasing in \<open>auto simp: pc_ok_def intro!: le\<close>)
    with Releasing h show ?thesis by (simp add: go_step_def Let_def after_unlock_def)
  next
    case (Removing k)
    then show ?thesis using ok by (simp add: pc_ok_def)
  qed (use inv in \<open>simp add: go_step_def Let_def\<close>)
qed

lemma lock_inv_unlock:
  assumes inv: "lock_inv w" and t: "t < length (lw_pc w)" "lw_pc w ! t = Outside"
    and mine: "(t, k) \<in> set (lw_granted w)" and a: "lock_at k (lw_mutex w) = Some a"
  shows "lock_inv (give_back t k (goto_pc t (Clearing k a False) (lw_mutex w) w))" (is "lock_inv ?w")
proof (rule lock_inv_step [OF inv t(1)])
  have "marked w k" using inv mine by (force simp: lock_inv_def)
  then have "marked ?w k" by (simp add: marked_def obj_def)
  then show "pc_ok ?w (Clearing k a False)" using a by (auto simp: pc_ok_def marked_taken)
  show "j \<in> snd ` set (lw_granted w) \<or> marked ?w j" if "j \<in> snd ` set (lw_granted ?w)" for j
    using that set_remove1_subset [of "(t, k)" "lw_granted w"] by auto
  show "holding j ?w \<le> 1" for j
  proof -
    have "holding j ?w = holding j w"
      using holding_pc [OF t(1), of "Clearing k a False" j] count_list_remove1 [OF mine, of snd j] t(2)
      by (auto simp: holding_def split: if_splits)
    then show ?thesis using inv by (simp add: lock_inv_def)
  qed
qed (use inv in \<open>simp_all add: lock_inv_def obj_def\<close>)

lemma lock_inv_hand_over:
  assumes inv: "lock_inv w" and u: "u < length (lw_pc w)" and mine: "(t, k) \<in> set (lw_granted w)"
  shows "lock_inv (grant u k (give_back t k w))" (is "lock_inv ?w")
proof -
  have "holding j ?w = holding j w" for j
    using count_list_remove1 [OF mine, of snd j] by (auto simp: holding_def)
  moreover have "marked ?w j \<longleftrightarrow> marked w j" "taken ?w j \<longleftrightarrow> taken w j" for j
    by (simp_all add: marked_def taken_def)
  moreover have "snd ` set (lw_granted ?w) \<subseteq> snd ` set (lw_granted w)"
    using mine set_remove1_subset [of "(t, k)" "lw_granted w"] by force
  ultimately show ?thesis using inv by (auto simp: lock_inv_def pc_ok_def)
qed

lemma lock_inv_exec:
  assumes inv: "lock_inv w" and d: "disciplined act w"
  shows "lock_inv (lock_exec act w)"
proof (cases act)
  case (StartLock t k i)
  show ?thesis
  proof (cases "t < length (lw_pc w) \<and> lw_pc w ! t = Outside")
    case True
    obtain a km where l: "load_or_store k (lw_mutex w) = (a, km)" by fastforce
    have tab: "table_ok (lw_mutex w)" using inv by (simp add: lock_inv_def)
    note lk = load_or_store_keeps [OF tab l]
    have "lock_inv (goto_pc t (Trying k i a) km w)"
    proof (rule lock_inv_step [OF inv])
      show "holding j (goto_pc t (Trying k i a) km w) \<le> 1" for j
        using holding_le [OF inv, of t "goto_pc t (Trying k i a) km w" "Trying k i a" j] True by simp
    qed (use True lk in \<open>auto simp: pc_ok_def obj_def\<close>)
    then show ?thesis using True StartLock l by (simp add: lock_exec_def)
  qed (use inv StartLock in \<open>auto simp: lock_exec_def\<close>)
next
  case (StartUnlock t k r)
  with d have mine: "(t, k) \<in> set (lw_granted w)" "\<not> r" by simp_all
  then obtain a where "lock_at k (lw_mutex w) = Some a"
    using inv by (force simp: lock_inv_def marked_def)
  with inv mine StartUnlock lock_inv_unlock show ?thesis by (simp add: lock_exec_def)
next
  case (Go t)
  then show ?thesis using inv lock_inv_go by (simp add: lock_exec_def)
next
  case (HandOver t u k)
  then show ?thesis using inv lock_inv_hand_over by (simp add: lock_exec_def)
qed (use d in simp)

lemma lock_inv_idle: "lock_inv (idle_world n)"
  by (auto simp: lock_inv_def idle_world_def table_ok_def new_locker_def lock_at_def tbl_find_def pc_ok_def holding_def
      map_replicate_const count_list_0_iff)

lemma lock_inv_run: "disciplined_run acts w \<Longrightarrow> lock_inv w \<Longrightarrow> lock_inv (fold lock_exec acts w)"
  by (induction acts arbitrary: w) (simp_all add: lock_inv_exec)

text \<open>
  C24. As long as every unlock comes from a goroutine that was granted the key or handed it by the one
  that was, and no key is deleted, any interleaving of the atomic steps of any number of goroutines
  leaves at most one holder of a key (one that was granted it, one within \<^verbatim>\<open>TryLock\<close> that has
  the mutex, or one within \<^verbatim>\<open>Unlock\<close> that has not released it yet), and the mutex of every
  granted key is held. The lock itself enforces neither condition.
\<close>

theorem key_mutex_exclusive:
  assumes "disciplined_run acts (idle_world n)"
  shows "holding k (fold lock_exec acts (idle_world n)) \<le> 1
    \<and> (k \<in> snd ` set (lw_granted (fold lock_exec acts (idle_world n))) \<longrightarrow> taken (fold lock_exec acts (idle_world n)) k)"
  using lock_inv_run [OF assms lock_inv_idle] marked_taken by (auto simp: lock_inv_def)

text \<open>
  The first goroutine hands its lock to the third, which unlocks it; the second finds the key taken
  and gets it afterwards.
\<close>

definition demo_lock_run :: "lock_action list" where
  "demo_lock_run = [StartLock 0 ''r1'' ''a'', Go 0, Go 0, Go 0, StartLock 1 ''r1'' ''b'', HandOver 0 2 ''r1'', Go 1,
     StartUnlock 2 ''r1'' False, Go 2, Go 2, Go 2, StartLock 1 ''r1'' ''b'', Go 1, Go 1, Go 1]"

theorem key_mutex_exclusive_witness:
  "lw_granted (fold lock_exec demo_lock_run (idle_world 3)) = [(1, ''r1'')]
   \<and> holding ''r1'' (fold lock_exec demo_lock_run (idle_world 3)) \<le> 1"
proof
  show "lw_granted (fold lock_exec demo_lock_run (idle_world 3)) = [(1, ''r1'')]" by code_simp
  have "disciplined_run demo_lock_run (idle_world 3)" by code_simp
  from key_mutex_exclusive [OF this, of "''r1''"]
  show "holding ''r1'' (fold lock_exec demo_lock_run (idle_world 3)) \<le> 1" by blast
qed

section \<open>Other callers\<close>

text \<open>
  An unlock by a goroutine that was not granted the key releases it all the same. The start of the
  scale set worker does this: it ends the turn of every instance with \<^verbatim>\<open>Unlock\<close>, but has locked
  those it found in creation only. So the key is granted a second time, to the other caller, while the
  first still works under it.
\<close>

theorem foreign_unlock_breaks_exclusion:
  "\<exists>acts. lw_granted (fold lock_exec acts (idle_world 3)) = [(0, k), (1, k)]
     \<and> list_all (\<lambda>a. \<forall>t. a \<noteq> StartUnlock t k True \<and> a \<noteq> DeleteKey t k) acts"
proof -
  let ?acts = "[StartLock 0 k ''a'', Go 0, Go 0, Go 0, StartUnlock 2 k False, Go 2, Go 2, Go 2,
    StartLock 1 k ''b'', Go 1, Go 1, Go 1]"
  have "lw_granted (fold lock_exec ?acts (idle_world 3)) = [(0, k), (1, k)]"
    by (simp add: Let_def idle_world_def new_locker_def lock_exec_def go_step_def load_or_store_def lock_at_def grant_def
        give_back_def goto_pc_def set_lock_def new_lock_def after_unlock_def tbl_find_def tbl_upsert_def
        numeral_3_eq_3 numeral_2_eq_2)
  then show ?thesis by (intro exI [of _ ?acts]) simp
qed

text \<open>
  Unlocking with removal, as the managers do when an instance is gone or a stale job was
  checked, gives the key up for good: a goroutine that had already loaded the old lock object gets it
  when the owner lets go, a goroutine that comes after the deletion gets a new one, and both have the
  key at once, although every unlock came from its holder.
\<close>

theorem key_removal_breaks_exclusion:
  "\<exists>acts. let w = fold lock_exec acts (idle_world 3) in
     lw_granted w = [(1, k), (2, k)] \<and> LockedBy k (lw_mutex w) = Some ''c''"
proof -
  let ?acts = "[StartLock 0 k ''a'', Go 0, Go 0, Go 0, StartUnlock 0 k True, StartLock 1 k ''b'',
    Go 0, Go 0, Go 0, Go 1, Go 1, Go 1, Go 0, StartLock 2 k ''c'', Go 2, Go 2, Go 2]"
  have "let w = fold lock_exec ?acts (idle_world 3) in
      lw_granted w = [(1, k), (2, k)] \<and> LockedBy k (lw_mutex w) = Some ''c''"
    by (simp add: Let_def idle_world_def new_locker_def lock_exec_def go_step_def load_or_store_def lock_at_def grant_def
        give_back_def goto_pc_def set_lock_def km_Delete_def new_lock_def after_unlock_def tbl_find_def tbl_upsert_def tbl_delete_def
        LockedBy_def numeral_3_eq_3 numeral_2_eq_2)
  then show ?thesis by (rule exI)
qed

section \<open>Backoff\<close>

text \<open>After \<open>n\<close> failures in a row.\<close>

definition backoff_after :: "nat \<Rightarrow> rat" where
  "backoff_after n = (grow_backoff ^^ n) 0"

lemma grow_backoff_bounds: "s = 0 \<or> 5 \<le> s \<Longrightarrow> s \<le> 1200 \<Longrightarrow> 5 \<le> grow_backoff s \<and> grow_backoff s \<le> 1200 \<and> s \<le> grow_backoff s"
  by (auto simp: grow_backoff_def maxBackoffSeconds_def min_def)

lemma backoff_after_bounds: "(backoff_after n = 0 \<or> 5 \<le> backoff_after n) \<and> backoff_after n \<le> 1200"
  by (induction n) (use grow_backoff_bounds in \<open>auto simp: backoff_after_def\<close>)

lemma backoff_after_Suc: "backoff_after (Suc n) = grow_backoff (backoff_after n)"
  by (simp add: backoff_after_def)

lemma backoff_closed: "backoff_after (Suc n) = min (5 * (3 / 2) ^ n) 1200"
proof (induction n)
  case 0
  then show ?case by (simp add: backoff_after_def grow_backoff_def)
next
  case (Suc n)
  have "backoff_after (Suc n) \<noteq> 0" using Suc by (simp add: min_def)
  then have "backoff_after (Suc (Suc n)) = min (min (5 * (3 / 2) ^ n) 1200 * (3 / 2)) 1200"
    unfolding backoff_after_Suc [of "Suc n"] Suc by (simp add: grow_backoff_def maxBackoffSeconds_def Suc)
  also have "\<dots> = min (5 * (3 / 2) ^ Suc n) 1200" by (auto simp: min_def)
  finally show ?case .
qed

lemma backoff_capped: "15 \<le> n \<Longrightarrow> backoff_after n = 1200"
proof -
  assume n: "15 \<le> n"
  then obtain m where m: "n = Suc m" by (cases n) auto
  have "(3 / 2 :: rat) ^ 14 \<le> (3 / 2) ^ m" using n m by (intro power_increasing) auto
  moreover have "(1200 :: rat) \<le> 5 * (3 / 2) ^ 14" by (simp add: power_divide)
  ultimately show ?thesis unfolding m backoff_closed by linarith
qed

lemma recorded:
  "ts \<noteq> [] \<Longrightarrow> tbl_find ibo_key k (fold (\<lambda>t. RecordFailure t k) ts [])
     = Some \<lparr>ibo_key = k, ibo_seconds = backoff_after (length ts), ibo_last = last ts\<rparr>"
proof (induction ts rule: rev_induct)
  case (snoc t ts)
  show ?case
  proof (cases "ts = []")
    case True
    then show ?thesis by (simp add: RecordFailure_def Let_def new_backoff_def tbl_find_def tbl_upsert_def backoff_after_def)
  next
    case False
    with snoc show ?thesis by (simp add: RecordFailure_def Let_def backoff_after_Suc)
  qed
qed simp

text \<open>
  After \<open>n\<close> recorded failures in a row a deletion is put off until the whole seconds of
  \<open>5 * 1.5 ^ (n - 1)\<close>, at most twenty minutes, have passed since the last failure, so it is
  always tried again: no instance is given up.
\<close>

theorem deletion_backoff:
  assumes "ts \<noteq> []" "last ts \<noteq> time_zero"
  shows "fst (ShouldProcess now k (fold (\<lambda>t. RecordFailure t k) ts []))
      = (last ts + \<lfloor>min (5 * (3 / 2 :: rat) ^ (length ts - 1)) 1200\<rfloor> * second < now,
         last ts + \<lfloor>min (5 * (3 / 2 :: rat) ^ (length ts - 1)) 1200\<rfloor> * second)
    \<and> (last ts + 1200 * second < now \<longrightarrow> fst (fst (ShouldProcess now k (fold (\<lambda>t. RecordFailure t k) ts []))))"
proof -
  let ?b = "min (5 * (3 / 2 :: rat) ^ (length ts - 1)) 1200"
  obtain n where n: "length ts = Suc n" using assms(1) by (cases ts) auto
  have b: "backoff_after (length ts) = ?b" unfolding n backoff_closed by simp
  have nz: "?b \<noteq> 0" by (simp add: min_def)
  have eq: "fst (ShouldProcess now k (fold (\<lambda>t. RecordFailure t k) ts [])) = (last ts + \<lfloor>?b\<rfloor> * second < now, last ts + \<lfloor>?b\<rfloor> * second)"
    using recorded [OF assms(1), of k] assms(2) nz unfolding b by (simp add: ShouldProcess_def Let_def)
  have "\<lfloor>?b\<rfloor> \<le> 1200" by (simp add: floor_le_iff min_def)
  then have "\<lfloor>?b\<rfloor> * second \<le> 1200 * second" by (intro mult_right_mono) (simp_all add: second_def)
  with eq show ?thesis by auto
qed

theorem deletion_backoff_witness:
  "fst (ShouldProcess (20 * second) ''r1'' (fold (\<lambda>t. RecordFailure t ''r1'') [1 * second, 7 * second, 15 * second] []))
   = (False, 26 * second)"
proof -
  have f: "\<lfloor>45 / 4 :: rat\<rfloor> = 11" by (rule floor_unique) simp_all
  show ?thesis
    using deletion_backoff [of "[1 * second, 7 * second, 15 * second]" "20 * second" "''r1''"] f
    by (simp add: second_def time_zero_def)
qed

end
