(* ===== verification/ForgeJobs.thy ===== *)
theory ForgeJobs
  imports ForgeDbPools
begin

text \<open>
  The workflow jobs of the garm database, \<^verbatim>\<open>database/sql/jobs.go\<close>. A row that was soft-deleted is
  invisible to every query and is dropped. The column of labels is its decoded list. A conversion
  knows the name of the runner only when the query loaded the instance.
\<close>

abbreviation JobStatusQueued :: string where "JobStatusQueued \<equiv> ''queued''"
abbreviation JobStatusInProgress :: string where "JobStatusInProgress \<equiv> ''in_progress''"
abbreviation JobStatusCompleted :: string where "JobStatusCompleted \<equiv> ''completed''"

abbreviation uuid_Nil :: string where "uuid_Nil \<equiv> ''00000000-0000-0000-0000-000000000000''"

record job_model =
  jm_ID :: int
  jm_WorkflowJobID :: int
  jm_ScaleSetJobID :: string
  jm_RunID :: int
  jm_Action :: string
  jm_Conclusion :: string
  jm_Status :: string
  jm_Name :: string
  jm_StartedAt :: int
  jm_CompletedAt :: int
  jm_GithubRunnerID :: int
  jm_InstanceID :: "string option"
  jm_RunnerGroupID :: int
  jm_RunnerGroupName :: string
  jm_RepositoryName :: string
  jm_RepositoryOwner :: string
  jm_Labels :: "string list"
  jm_WorkflowRunURL :: string
  jm_RepoID :: "string option"
  jm_OrgID :: "string option"
  jm_EnterpriseID :: "string option"
  jm_LockedBy :: string
  jm_CreatedAt :: int
  jm_UpdatedAt :: int

text \<open>The database with its jobs; ids count up.\<close>

record job_store =
  js_db :: garm_db
  js_jobs :: "job_model list"
  js_lastID :: int

section \<open>Conversions\<close>

definition instance_row_name :: "garm_db \<Rightarrow> string \<Rightarrow> string" where
  "instance_row_name db i = (case tbl_find im_ID i (gd_instances db) of None \<Rightarrow> [] | Some m \<Rightarrow> im_Name m)"

definition sqlWorkflowJobToParamsJob :: "(string \<Rightarrow> string) \<Rightarrow> job_model \<Rightarrow> garm_job" where
  "sqlWorkflowJobToParamsJob runner j =
     \<lparr>gj_ID = jm_ID j, gj_WorkflowJobID = jm_WorkflowJobID j, gj_ScaleSetJobID = jm_ScaleSetJobID j,
      gj_RunID = jm_RunID j, gj_Action = jm_Action j, gj_Conclusion = jm_Conclusion j, gj_Status = jm_Status j,
      gj_Name = jm_Name j, gj_StartedAt = jm_StartedAt j, gj_CompletedAt = jm_CompletedAt j,
      gj_GithubRunnerID = jm_GithubRunnerID j,
      gj_RunnerName = (case jm_InstanceID j of None \<Rightarrow> [] | Some i \<Rightarrow> runner i),
      gj_RunnerGroupID = jm_RunnerGroupID j, gj_RunnerGroupName = jm_RunnerGroupName j,
      gj_RepositoryName = jm_RepositoryName j, gj_RepositoryOwner = jm_RepositoryOwner j,
      gj_WorkflowRunURL = jm_WorkflowRunURL j, gj_Labels = jm_Labels j, gj_RepoID = jm_RepoID j, gj_OrgID = jm_OrgID j,
      gj_EnterpriseID = jm_EnterpriseID j, gj_LockedBy = jm_LockedBy j, gj_CreatedAt = jm_CreatedAt j,
      gj_UpdatedAt = jm_UpdatedAt j\<rparr>"

abbreviation loaded_runner :: "job_store \<Rightarrow> string \<Rightarrow> string" where
  "loaded_runner st \<equiv> instance_row_name (js_db st)"

abbreviation not_loaded :: "string \<Rightarrow> string" where
  "not_loaded \<equiv> \<lambda>_. []"

definition instance_of_runner :: "db_env \<Rightarrow> string \<Rightarrow> garm_db \<Rightarrow> string option" where
  "instance_of_runner env name db =
     (if name = [] then None else case getInstance env name db of Inl _ \<Rightarrow> None | Inr m \<Rightarrow> Some (im_ID m))"

definition paramsJobToWorkflowJob :: "db_env \<Rightarrow> garm_job \<Rightarrow> garm_db \<Rightarrow> int \<Rightarrow> job_model" where
  "paramsJobToWorkflowJob env j db i =
     \<lparr>jm_ID = i, jm_WorkflowJobID = gj_WorkflowJobID j, jm_ScaleSetJobID = gj_ScaleSetJobID j,
      jm_RunID = gj_RunID j, jm_Action = gj_Action j, jm_Conclusion = gj_Conclusion j, jm_Status = gj_Status j,
      jm_Name = gj_Name j, jm_StartedAt = gj_StartedAt j, jm_CompletedAt = gj_CompletedAt j,
      jm_GithubRunnerID = gj_GithubRunnerID j, jm_InstanceID = instance_of_runner env (gj_RunnerName j) db,
      jm_RunnerGroupID = gj_RunnerGroupID j, jm_RunnerGroupName = gj_RunnerGroupName j,
      jm_RepositoryName = gj_RepositoryName j, jm_RepositoryOwner = gj_RepositoryOwner j, jm_Labels = gj_Labels j,
      jm_WorkflowRunURL = gj_WorkflowRunURL j, jm_RepoID = gj_RepoID j, jm_OrgID = gj_OrgID j,
      jm_EnterpriseID = gj_EnterpriseID j, jm_LockedBy = gj_LockedBy j, jm_CreatedAt = de_now env, jm_UpdatedAt = de_now env\<rparr>"

definition notify_job :: "db_env \<Rightarrow> operation_type \<Rightarrow> garm_job \<Rightarrow> job_store \<Rightarrow> job_store" where
  "notify_job env op j st = st\<lparr>js_db := sendNotify env JobEntityType op (PJob j) (js_db st)\<rparr>"

definition save_job :: "db_env \<Rightarrow> job_model \<Rightarrow> job_store \<Rightarrow> job_store" where
  "save_job env j st = st\<lparr>js_jobs := tbl_update jm_ID (jm_ID j) (\<lambda>_. j\<lparr>jm_UpdatedAt := de_now env\<rparr>) (js_jobs st)\<rparr>"

definition find_job :: "int \<Rightarrow> job_store \<Rightarrow> job_model option" where
  "find_job k st = find (\<lambda>j. jm_WorkflowJobID j = k) (js_jobs st)"

section \<open>Operations\<close>

definition GetJobByID :: "int \<Rightarrow> job_store \<Rightarrow> (garm_db_error, garm_job) result" where
  "GetJobByID k st =
     (case find_job k st of None \<Rightarrow> Inl GNotFound | Some j \<Rightarrow> Inr (sqlWorkflowJobToParamsJob (loaded_runner st) j))"

definition DeleteJob :: "db_env \<Rightarrow> int \<Rightarrow> job_store \<Rightarrow> garm_db_error option \<times> job_store" where
  "DeleteJob env k st =
     (case find_job k st of
        None \<Rightarrow> (None, st)
      | Some j \<Rightarrow>
          (case de_refused env of
             Some e \<Rightarrow> (Some (GDbError e), st)
           | None \<Rightarrow> (None, notify_job env DeleteOperation (sqlWorkflowJobToParamsJob (loaded_runner st) j)
               (st\<lparr>js_jobs := tbl_delete jm_ID (jm_ID j) (js_jobs st)\<rparr>))))"

text \<open>\<open>set_lock_of\<close> saves a job with a new owner of its lock and announces it.\<close>

definition set_lock_of :: "db_env \<Rightarrow> (string \<Rightarrow> string) \<Rightarrow> string \<Rightarrow> job_model \<Rightarrow> job_store \<Rightarrow> garm_db_error option \<times> job_store" where
  "set_lock_of env runner owner j st =
     (case de_refused env of
        Some e \<Rightarrow> (Some (GDbError e), st)
      | None \<Rightarrow> (let j' = j\<lparr>jm_LockedBy := owner, jm_UpdatedAt := de_now env\<rparr>
                 in (None, notify_job env UpdateOperation (sqlWorkflowJobToParamsJob runner j') (save_job env j' st))))"

definition LockJob :: "db_env \<Rightarrow> int \<Rightarrow> string \<Rightarrow> job_store \<Rightarrow> garm_db_error option \<times> job_store" where
  "LockJob env k entityID st =
     (case de_uuid env entityID of
        None \<Rightarrow> (Some (GDbError ''error parsing entity id''), st)
      | Some u \<Rightarrow>
          (case find_job k st of
             None \<Rightarrow> (Some GNotFound, st)
           | Some j \<Rightarrow>
               if jm_LockedBy j = entityID then (None, st)
               else if jm_LockedBy j \<noteq> uuid_Nil
               then (Some (GConflict (''job is locked by another entity '' @ jm_LockedBy j)), st)
               else set_lock_of env (loaded_runner st) u j st))"

definition BreakLockJobIsQueued :: "db_env \<Rightarrow> int \<Rightarrow> job_store \<Rightarrow> garm_db_error option \<times> job_store" where
  "BreakLockJobIsQueued env k st =
     (case find (\<lambda>j. jm_WorkflowJobID j = k \<and> jm_Status j = JobStatusQueued) (js_jobs st) of
        None \<Rightarrow> (None, st)
      | Some j \<Rightarrow> if jm_LockedBy j = uuid_Nil then (None, st) else set_lock_of env (loaded_runner st) uuid_Nil j st)"

definition UnlockJob :: "db_env \<Rightarrow> int \<Rightarrow> string \<Rightarrow> job_store \<Rightarrow> garm_db_error option \<times> job_store" where
  "UnlockJob env k entityID st =
     (case find_job k st of
        None \<Rightarrow> (Some GNotFound, st)
      | Some j \<Rightarrow>
          if jm_LockedBy j = uuid_Nil then (None, st)
          else if jm_LockedBy j \<noteq> entityID
          then (Some (GConflict (''job is locked by another entity '' @ jm_LockedBy j)), st)
          else set_lock_of env not_loaded uuid_Nil j st)"

definition same_job :: "garm_job \<Rightarrow> job_model \<Rightarrow> bool" where
  "same_job j m \<longleftrightarrow> (if gj_ScaleSetJobID j \<noteq> [] then jm_ScaleSetJobID m = gj_ScaleSetJobID j
                    else jm_WorkflowJobID m = gj_WorkflowJobID j)"

definition update_job :: "db_env \<Rightarrow> garm_job \<Rightarrow> garm_db \<Rightarrow> job_model \<Rightarrow> job_model" where
  "update_job env j db m = m\<lparr>
     jm_Status := gj_Status j, jm_Action := gj_Action j, jm_Conclusion := gj_Conclusion j,
     jm_StartedAt := gj_StartedAt j, jm_CompletedAt := gj_CompletedAt j, jm_GithubRunnerID := gj_GithubRunnerID j,
     jm_RunnerGroupID := gj_RunnerGroupID j, jm_RunnerGroupName := gj_RunnerGroupName j,
     jm_WorkflowRunURL := gj_WorkflowRunURL j,
     jm_RunID := (if gj_RunID j \<noteq> 0 \<and> jm_RunID m = 0 then gj_RunID j else jm_RunID m),
     jm_LockedBy := (if gj_LockedBy j \<noteq> uuid_Nil then gj_LockedBy j else jm_LockedBy m),
     jm_InstanceID := (case instance_of_runner env (gj_RunnerName j) db of None \<Rightarrow> jm_InstanceID m | Some i \<Rightarrow> Some i),
     jm_RepoID := (if gj_RepoID j \<noteq> None then gj_RepoID j else jm_RepoID m),
     jm_OrgID := (if gj_OrgID j \<noteq> None then gj_OrgID j else jm_OrgID m),
     jm_EnterpriseID := (if gj_EnterpriseID j \<noteq> None then gj_EnterpriseID j else jm_EnterpriseID m)\<rparr>"

text \<open>
  The payload of an update names the runner the row had before; that of a creation names none.
\<close>

definition CreateOrUpdateJob :: "db_env \<Rightarrow> garm_job \<Rightarrow> job_store \<Rightarrow> (garm_db_error, garm_job) result \<times> job_store" where
  "CreateOrUpdateJob env j st =
     (case de_refused env of
        Some e \<Rightarrow> (Inl (GDbError e), st)
      | None \<Rightarrow>
          (case find (same_job j) (js_jobs st) of
             Some m \<Rightarrow>
               (let m' = (update_job env j (js_db st) m)\<lparr>jm_UpdatedAt := de_now env\<rparr>;
                    old = (case jm_InstanceID m of None \<Rightarrow> [] | Some i \<Rightarrow> loaded_runner st i);
                    p = sqlWorkflowJobToParamsJob (\<lambda>_. old) m'
                in (Inr p, notify_job env UpdateOperation p (save_job env m' st)))
           | None \<Rightarrow>
               (let m = paramsJobToWorkflowJob env j (js_db st) (js_lastID st + 1);
                    p = sqlWorkflowJobToParamsJob not_loaded m
                in (Inr p, notify_job env CreateOperation p
                      (st\<lparr>js_jobs := js_jobs st @ [m], js_lastID := js_lastID st + 1\<rparr>)))))"

definition ListJobsByStatus :: "string \<Rightarrow> job_store \<Rightarrow> garm_job list" where
  "ListJobsByStatus s st =
     map (sqlWorkflowJobToParamsJob (loaded_runner st)) (filter (\<lambda>j. jm_Status j = s) (js_jobs st))"

definition job_owned :: "string \<Rightarrow> string \<Rightarrow> job_model \<Rightarrow> bool" where
  "job_owned ty u j \<longleftrightarrow>
     (if ty = ForgeEntityTypeOrganization then jm_OrgID j = Some u
      else if ty = ForgeEntityTypeRepository then jm_RepoID j = Some u
      else if ty = ForgeEntityTypeEnterprise then jm_EnterpriseID j = Some u else True)"

definition ListEntityJobsByStatus ::
    "db_env \<Rightarrow> string \<Rightarrow> string \<Rightarrow> string \<Rightarrow> job_store \<Rightarrow> (garm_db_error, garm_job list) result" where
  "ListEntityJobsByStatus env ty i s st =
     (case de_uuid env i of
        None \<Rightarrow> Inl (GDbError ''invalid UUID'')
      | Some u \<Rightarrow> Inr (map (sqlWorkflowJobToParamsJob (loaded_runner st))
          (filter (\<lambda>j. jm_Status j = s \<and> 0 < jm_WorkflowJobID j \<and> job_owned ty u j) (js_jobs st))))"

definition ListAllJobs :: "job_store \<Rightarrow> garm_job list" where
  "ListAllJobs st = map (sqlWorkflowJobToParamsJob (loaded_runner st)) (js_jobs st)"

definition inactionable :: "db_env \<Rightarrow> int \<Rightarrow> job_model \<Rightarrow> bool" where
  "inactionable env olderThan j \<longleftrightarrow>
     (jm_Status j \<noteq> JobStatusQueued \<and> jm_InstanceID j = None \<or> jm_Status j = JobStatusCompleted \<and> jm_InstanceID j \<noteq> None)
     \<and> (0 < olderThan \<longrightarrow> jm_CreatedAt j < de_now env - olderThan)"

definition DeleteInactionableJobs :: "db_env \<Rightarrow> int \<Rightarrow> job_store \<Rightarrow> garm_db_error option \<times> job_store" where
  "DeleteInactionableJobs env olderThan st =
     (let js = filter (inactionable env olderThan) (js_jobs st) in
      if js = [] then (None, st)
      else case de_refused env of
        Some e \<Rightarrow> (Some (GDbError e), st)
      | None \<Rightarrow> (None, fold (\<lambda>j. notify_job env DeleteOperation (sqlWorkflowJobToParamsJob (loaded_runner st) j)) js
          (st\<lparr>js_jobs := filter (\<lambda>j. jm_ID j \<notin> jm_ID ` set js) (js_jobs st)\<rparr>)))"

section \<open>Instances and their jobs\<close>

text \<open>A deleted instance takes its jobs with it, by the foreign key and without a payload.\<close>

definition cascade :: "garm_db \<Rightarrow> job_store \<Rightarrow> job_store" where
  "cascade db st = st\<lparr>js_db := db, js_jobs := filter (\<lambda>j. case jm_InstanceID j of
     None \<Rightarrow> True | Some i \<Rightarrow> i \<in> im_ID ` set (gd_instances db) \<or> i \<notin> im_ID ` set (gd_instances (js_db st))) (js_jobs st)\<rparr>"

definition on_db :: "(garm_db \<Rightarrow> 'r \<times> garm_db) \<Rightarrow> job_store \<Rightarrow> 'r \<times> job_store" where
  "on_db f st = (case f (js_db st) of (r, db) \<Rightarrow> (r, cascade db st))"

end
