(* ===== verification/ForgeManager.thy ===== *)
theory ForgeManager
  imports ForgeJobs ForgeLocks ForgeCache
begin

text \<open>
  The pool manager of an entity, \<^verbatim>\<open>runner/pool/pool.go\<close>: its state, and the operations that add,
  size and remove the runners of its pools. A call to the forge, to a provider or to the database
  reads its outcome from the environment at the number of calls made so far. The goroutines an
  operation starts for different instances are run one after the other, in the order it starts them.
\<close>

section \<open>State and environment\<close>

datatype manager_error = StoreErr garm_db_error | Unauthorized string | MgrErr string | MgrPanic

record provider_instance =
  pri_ProviderID :: string
  pri_Name :: string
  pri_OSName :: string
  pri_OSVersion :: string
  pri_Addresses :: "garm_address list"
  pri_Status :: string
  pri_ProviderFault :: bytes

record runner_label =
  rl_ID :: int
  rl_Name :: string
  rl_Type :: string

record forge_runner =
  fr_ID :: int
  fr_Name :: string
  fr_Status :: string
  fr_Labels :: "runner_label list"

text \<open>A runner as the scale set API names it; its status may be no string.\<close>

record runner_reference =
  rf_ID :: int
  rf_Name :: string
  rf_RunnerScaleSetID :: int
  rf_Status :: "string option"
  rf_Busy :: bool
  rf_Labels :: "(string \<times> string) list"

datatype provider_call = ProviderCreate string | ProviderDelete string | ProviderStart string

record pool_manager =
  pmg_entity :: forge_entity
  pmg_controllerInfo :: controller_info
  pmg_jobs :: "garm_job list"
  pmg_tools :: "runner_download list"
  pmg_checkedJobs :: "(int \<times> int) list"
  pmg_managerIsRunning :: bool
  pmg_managerErrorReason :: string
  pmg_backoff :: "instance_backoff list"
  pmg_consumerFilter :: payload_filter
  pmg_consumerClosed :: bool

text \<open>
  The manager with the database and what it asked of the outside: \<open>mw_removed\<close> the runners removed
  at the forge, \<open>mw_calls\<close> the calls to providers, \<open>mw_statuses\<close> the statuses the store was asked to write
  in the row of the entity (the columns of an entity that pools do not read are not modelled).
\<close>

record manager_world =
  mw_mgr :: pool_manager
  mw_store :: job_store
  mw_tick :: nat
  mw_removed :: "int list"
  mw_calls :: "provider_call list"
  mw_statuses :: "(string \<times> string \<times> pool_manager_status) list"

text \<open>
  The surroundings: the database's, the forge client (removal of a runner, a JIT configuration with
  the runner made for it, the state of a job), providers, locks, fresh names, the tools cache,
  the checks on the extra specs and certificates of a pool, the text of an error, and the two ways to
  list the runners at the forge (a page at a time, and with the scale set client when there is one).
\<close>

record manager_env =
  me_db :: "nat \<Rightarrow> db_env"
  me_RemoveEntityRunner :: "nat \<Rightarrow> int \<Rightarrow> manager_error option"
  me_GetEntityJITConfig :: "nat \<Rightarrow> string \<Rightarrow> (manager_error, (string \<times> string) list \<times> int) result"
  me_GetWorkflowJobByID :: "nat \<Rightarrow> int \<Rightarrow> (nat option, string) result"
  me_providers :: "string list"
  me_DisableJITConfig :: "string \<Rightarrow> bool"
  me_CreateInstance :: "nat \<Rightarrow> string \<Rightarrow> (manager_error, provider_instance) result"
  me_DeleteInstance :: "nat \<Rightarrow> string \<Rightarrow> manager_error option"
  me_StartInstance :: "nat \<Rightarrow> string \<Rightarrow> manager_error option"
  me_ListInstances :: "nat \<Rightarrow> string \<Rightarrow> (manager_error, provider_instance list) result"
  me_TryLock :: "nat \<Rightarrow> string \<Rightarrow> bool"
  me_NewID :: "nat \<Rightarrow> string"
  me_bootstrap :: "garm_pool \<Rightarrow> garm_instance \<Rightarrow> manager_error option"
  me_tools :: "nat \<Rightarrow> (string, runner_download list) result"
  me_fault :: "manager_error \<Rightarrow> bytes"
  me_ListEntityRunners :: "nat \<Rightarrow> int \<Rightarrow> (nat option, forge_runner list \<times> int) result"
  me_ListAllRunners :: "(nat \<Rightarrow> (string, runner_reference list) result) option"

definition env_now :: "manager_env \<Rightarrow> manager_world \<Rightarrow> db_env" where
  "env_now E w = me_db E (mw_tick w)"

definition next_tick :: "manager_world \<Rightarrow> manager_world" where
  "next_tick w = w\<lparr>mw_tick := Suc (mw_tick w)\<rparr>"

definition job_call :: "manager_env \<Rightarrow> (db_env \<Rightarrow> job_store \<Rightarrow> 'r \<times> job_store) \<Rightarrow> manager_world \<Rightarrow> 'r \<times> manager_world" where
  "job_call E f w = (case f (env_now E w) (mw_store w) of (r, st) \<Rightarrow> (r, next_tick (w\<lparr>mw_store := st\<rparr>)))"

definition db_call :: "manager_env \<Rightarrow> (db_env \<Rightarrow> garm_db \<Rightarrow> 'r \<times> garm_db) \<Rightarrow> manager_world \<Rightarrow> 'r \<times> manager_world" where
  "db_call E f = job_call E (\<lambda>env. on_db (f env))"

abbreviation mw_db :: "manager_world \<Rightarrow> garm_db" where
  "mw_db w \<equiv> js_db (mw_store w)"

abbreviation mw_entity :: "manager_world \<Rightarrow> forge_entity" where
  "mw_entity w \<equiv> pmg_entity (mw_mgr w)"

abbreviation on_mgr :: "(pool_manager \<Rightarrow> pool_manager) \<Rightarrow> manager_world \<Rightarrow> manager_world" where
  "on_mgr f w \<equiv> w\<lparr>mw_mgr := f (mw_mgr w)\<rparr>"

definition time_Since :: "manager_env \<Rightarrow> manager_world \<Rightarrow> int \<Rightarrow> int" where
  "time_Since E w t = time_Sub (de_now (env_now E w)) t"

definition minute :: int where
  "minute = 60 * second"

section \<open>Labels\<close>

definition poolIDLabelprefix :: string where "poolIDLabelprefix = ''runner-pool-id''"
definition controllerLabelPrefix :: string where "controllerLabelPrefix = ''runner-controller-id''"
definition jobLabelPrefix :: string where "jobLabelPrefix = ''in_response_to_job''"

definition poolLabel :: "string \<Rightarrow> string" where
  "poolLabel poolID = poolIDLabelprefix @ ''='' @ poolID"

definition controllerLabel :: "controller_info \<Rightarrow> string" where
  "controllerLabel ci = controllerLabelPrefix @ ''='' @ gci_ControllerID ci"

definition jobLabel :: "int \<Rightarrow> string" where
  "jobLabel i = jobLabelPrefix @ ''='' @ show_int i"

definition getLabelsForInstance :: "controller_info \<Rightarrow> garm_pool \<Rightarrow> string list" where
  "getLabelsForInstance ci p = map gt_Name (gp_Tags p) @ [controllerLabel ci, poolLabel (gp_ID p)]"

text \<open>\<^verbatim>\<open>strconv.ParseInt(s, 10, 64)\<close>.\<close>

definition parse_digits :: "string \<Rightarrow> nat option" where
  "parse_digits s = (if s \<noteq> [] \<and> list_all is_digit s then Some (read_nat s) else None)"

definition parse_int64 :: "string \<Rightarrow> int option" where
  "parse_int64 s =
     (let neg = (s \<noteq> [] \<and> hd s = CHR ''-'');
          ds = (if s \<noteq> [] \<and> hd s \<in> {CHR ''-'', CHR ''+''} then tl s else s)
      in case parse_digits ds of
           None \<Rightarrow> None
         | Some n \<Rightarrow> (let i = (if neg then - int n else int n) in if - (2 ^ 63) \<le> i \<and> i < 2 ^ 63 then Some i else None))"

text \<open>What follows the prefix and one more character of the first label that has the prefix.\<close>

definition label_value :: "string \<Rightarrow> string list \<Rightarrow> string option" where
  "label_value prefix labels =
     map_option (\<lambda>l. drop (min (length prefix + 1) (length l)) l) (find (\<lambda>l. has_prefix l prefix) labels)"

definition jobIDFromLabels :: "string list \<Rightarrow> int" where
  "jobIDFromLabels labels =
     (case label_value jobLabelPrefix labels of
        None \<Rightarrow> 0
      | Some v \<Rightarrow> (case parse_int64 v of None \<Rightarrow> 0 | Some i \<Rightarrow> i))"

definition controllerIDFromLabels :: "string list \<Rightarrow> string" where
  "controllerIDFromLabels labels = (case label_value controllerLabelPrefix labels of None \<Rightarrow> [] | Some v \<Rightarrow> v)"

definition isManagedRunner :: "string list \<Rightarrow> string \<Rightarrow> bool" where
  "isManagedRunner labels controllerID \<longleftrightarrow> controllerIDFromLabels labels = controllerID"

definition isEntityPool :: "forge_entity \<Rightarrow> garm_pool \<Rightarrow> bool" where
  "isEntityPool e p \<longleftrightarrow>
     (if ge_EntityType e = ForgeEntityTypeRepository then gp_RepoID p \<noteq> [] \<and> gp_RepoID p = ge_ID e
      else if ge_EntityType e = ForgeEntityTypeOrganization then gp_OrgID p \<noteq> [] \<and> gp_OrgID p = ge_ID e
      else if ge_EntityType e = ForgeEntityTypeEnterprise then gp_EnterpriseID p \<noteq> [] \<and> gp_EnterpriseID p = ge_ID e
      else False)"

definition getQueuedJobs :: "pool_manager \<Rightarrow> garm_job list" where
  "getQueuedJobs m = filter (\<lambda>j. gj_Status j = JobStatusQueued) (pmg_jobs m)"

section \<open>Running state and statuses of instances\<close>

definition SetPoolRunningState :: "bool \<Rightarrow> string \<Rightarrow> manager_world \<Rightarrow> manager_world" where
  "SetPoolRunningState b reason w =
     (let w' = on_mgr (\<lambda>m. m\<lparr>pmg_managerIsRunning := b, pmg_managerErrorReason := reason\<rparr>) w
      in w'\<lparr>mw_statuses := mw_statuses w' @ [(ge_EntityType (mw_entity w), ge_ID (mw_entity w),
           \<lparr>gms_IsRunning = b, gms_FailureReason = reason\<rparr>)]\<rparr>)"

definition manager_Status :: "pool_manager \<Rightarrow> pool_manager_status" where
  "manager_Status m = \<lparr>gms_IsRunning = pmg_managerIsRunning m, gms_FailureReason = pmg_managerErrorReason m\<rparr>"

definition updateTools :: "manager_env \<Rightarrow> manager_world \<Rightarrow> manager_error option \<times> manager_world" where
  "updateTools E w =
     (case me_tools E (mw_tick w) of
        Inl e \<Rightarrow> (Some (MgrErr e), SetPoolRunningState False e (next_tick w))
      | Inr tools \<Rightarrow> (None, SetPoolRunningState True [] (on_mgr (\<lambda>m. m\<lparr>pmg_tools := tools\<rparr>) (next_tick w))))"

definition no_update :: update_instance_params where
  "no_update = \<lparr>uip_ProviderID = [], uip_OSName = [], uip_OSVersion = [], uip_Addresses = [], uip_Status = [],
     uip_RunnerStatus = [], uip_ProviderFault = [], uip_Heartbeat = None, uip_AgentID = 0, uip_CreateAttempt = 0,
     uip_TokenFetched = None, uip_JitConfiguration = None, uip_Capabilities = None\<rparr>"

definition store_result :: "(garm_db_error, 'a) result \<Rightarrow> (manager_error, 'a) result" where
  "store_result r = (case r of Inl e \<Rightarrow> Inl (StoreErr e) | Inr x \<Rightarrow> Inr x)"

definition update_call :: "manager_env \<Rightarrow> bool \<Rightarrow> string \<Rightarrow> update_instance_params \<Rightarrow> manager_world \<Rightarrow>
    (garm_db_error, garm_instance) result \<times> manager_world" where
  "update_call E force name p = db_call E (\<lambda>env. updateInstance env force name p)"

definition setInstanceRunnerStatus :: "manager_env \<Rightarrow> string \<Rightarrow> string \<Rightarrow> manager_world \<Rightarrow>
    (garm_db_error, garm_instance) result \<times> manager_world" where
  "setInstanceRunnerStatus E name s = update_call E True name (no_update\<lparr>uip_RunnerStatus := s\<rparr>)"

definition setInstanceStatus :: "manager_env \<Rightarrow> string \<Rightarrow> string \<Rightarrow> bytes \<Rightarrow> bool \<Rightarrow> manager_world \<Rightarrow>
    (garm_db_error, garm_instance) result \<times> manager_world" where
  "setInstanceStatus E name s fault force = update_call E force name (no_update\<lparr>uip_Status := s, uip_ProviderFault := fault\<rparr>)"

section \<open>Adding runners\<close>

definition remove_runner :: "manager_env \<Rightarrow> int \<Rightarrow> manager_world \<Rightarrow> manager_error option \<times> manager_world" where
  "remove_runner E agent w =
     (me_RemoveEntityRunner E (mw_tick w) agent, next_tick (w\<lparr>mw_removed := mw_removed w @ [agent]\<rparr>))"

definition runner_params :: "controller_info \<Rightarrow> garm_pool \<Rightarrow> string \<Rightarrow> string list \<Rightarrow> (string \<times> string) list \<Rightarrow> int \<Rightarrow> create_instance_params" where
  "runner_params ci p name labels jit agent =
     \<lparr>cip_Name = name, cip_OSType = gp_OSType p, cip_OSArch = gp_OSArch p, cip_Status = InstancePendingCreate,
      cip_RunnerStatus = RunnerPending, cip_CallbackURL = gci_CallbackURL ci, cip_MetadataURL = gci_MetadataURL ci,
      cip_GitHubRunnerGroup = gp_GitHubRunnerGroup p, cip_AgentID = agent, cip_AditionalLabels = labels,
      cip_JitConfiguration = jit, cip_Generation = gp_Generation p\<rparr>"

text \<open>
  \<^verbatim>\<open>AddRunner\<close>: a runner made at the forge for a JIT configuration is removed again when the row
  cannot be created. (The first attempt is passed as \<^verbatim>\<open>CreateAttempt\<close>, but \<^verbatim>\<open>CreateInstance\<close> does not
  read it.)
\<close>

definition AddRunner :: "manager_env \<Rightarrow> string \<Rightarrow> string list \<Rightarrow> manager_world \<Rightarrow> manager_error option \<times> manager_world" where
  "AddRunner E poolID labels w =
     (case GetEntityPool (env_now E w) (mw_entity w) poolID (mw_db w) of
        Inl e \<Rightarrow> (Some (StoreErr e), w)
      | Inr pool \<Rightarrow>
          if gp_ProviderName pool \<notin> set (me_providers E)
          then (Some (MgrErr (''unknown provider '' @ gp_ProviderName pool)), w)
          else
            (let name = to_lower (GetRunnerPrefix (gp_Prefix pool) @ ''-'' @ me_NewID E (mw_tick w));
                 jit = (if me_DisableJITConfig E (gp_ProviderName pool) \<or> gk_ForgeType (ge_Credentials (mw_entity w)) = GiteaEndpointType
                        then Inr ([], None)
                        else (case me_GetEntityJITConfig E (mw_tick w) name of
                                Inl e \<Rightarrow> Inl e | Inr (c, agent) \<Rightarrow> Inr (c, Some agent)))
             in case jit of
                  Inl e \<Rightarrow> (Some e, next_tick w)
                | Inr (config, agent) \<Rightarrow>
                    (case db_call E (\<lambda>env. CreateInstance env poolID
                            (runner_params (pmg_controllerInfo (mw_mgr w)) pool name labels config
                               (case agent of None \<Rightarrow> 0 | Some a \<Rightarrow> a))) (next_tick w) of
                       (Inr _, w') \<Rightarrow> (None, w')
                     | (Inl e, w') \<Rightarrow>
                         (Some (StoreErr e), case agent of None \<Rightarrow> w' | Some a \<Rightarrow> snd (remove_runner E a w')))))"

definition addRunnerToPool :: "manager_env \<Rightarrow> garm_pool \<Rightarrow> string list \<Rightarrow> manager_world \<Rightarrow> manager_error option \<times> manager_world" where
  "addRunnerToPool E pool labels w =
     (if \<not> gp_Enabled pool then (Some (MgrErr (''pool '' @ gp_ID pool @ '' is disabled'')), w)
      else case PoolInstanceCount (env_now E w) (gp_ID pool) (mw_db w) of
        Inl e \<Rightarrow> (Some (StoreErr e), w)
      | Inr n \<Rightarrow>
          if wrap64 (int (gp_MaxRunners pool)) \<le> int n
          then (Some (MgrErr (''max workers reached for pool '' @ gp_ID pool)), w)
          else AddRunner E (gp_ID pool) labels w)"

fun add_runners :: "manager_env \<Rightarrow> string \<Rightarrow> nat \<Rightarrow> manager_world \<Rightarrow> manager_error option \<times> manager_world" where
  "add_runners E poolID 0 w = (None, w)"
| "add_runners E poolID (Suc n) w =
     (case AddRunner E poolID [] w of
        (Some e, w') \<Rightarrow> (Some e, w')
      | (None, w') \<Rightarrow> add_runners E poolID n w')"

definition idle_or_pending :: "garm_instance \<Rightarrow> bool" where
  "idle_or_pending i \<longleftrightarrow> gi_RunnerStatus i \<noteq> RunnerActive \<and> gi_RunnerStatus i \<noteq> RunnerTerminated"

text \<open>How many runners are missing, with the projected count kept within the maximum.\<close>

definition required_runners :: "garm_pool \<Rightarrow> garm_instance list \<Rightarrow> int" where
  "required_runners pool existing =
     (let idle = int (length (filter idle_or_pending existing)) in
      if idle < MinIdleRunnersAsInt pool
      then (let required = MinIdleRunnersAsInt pool - idle;
                count = wrap64 (int (length existing) + required);
                projected = (if 0 < count then nat count else 0)
            in if gp_MaxRunners pool < projected then wrap64 (required - (count - MaxRunnersAsInt pool)) else required)
      else 0)"

definition ensureIdleRunnersForOnePool :: "manager_env \<Rightarrow> garm_pool \<Rightarrow> manager_world \<Rightarrow> manager_error option \<times> manager_world" where
  "ensureIdleRunnersForOnePool E pool w =
     (if \<not> gp_Enabled pool \<or> gp_MinIdleRunners pool = 0 then (None, w)
      else case ListPoolInstances (env_now E w) (gp_ID pool) False (mw_db w) of
        Inl e \<Rightarrow> (Some (StoreErr e), w)
      | Inr existing \<Rightarrow>
          if gp_MaxRunners pool \<le> length existing then (None, w)
          else add_runners E (gp_ID pool) (nat (required_runners pool existing)) w)"

section \<open>Removing runners\<close>

text \<open>\<open>unless_gone\<close>: an error of an update, unless the row is gone.\<close>

definition unless_gone :: "(garm_db_error, 'a) result \<Rightarrow> manager_error option" where
  "unless_gone r = (case r of Inl e \<Rightarrow> (if e = GNotFound then None else Some (StoreErr e)) | Inr _ \<Rightarrow> None)"

definition remove_at_forge :: "manager_env \<Rightarrow> int \<Rightarrow> bool \<Rightarrow> manager_world \<Rightarrow> manager_error option \<times> manager_world" where
  "remove_at_forge E agent bypass w =
     (if agent = 0 then (None, w)
      else case remove_runner E agent w of
        (r, w') \<Rightarrow>
          (case r of
             None \<Rightarrow> (None, w')
           | Some e \<Rightarrow>
               (case e of
                  Unauthorized s \<Rightarrow> (if bypass then None else Some e, SetPoolRunningState False (''failed to remove runner: '' @ [CHR 34] @ s @ [CHR 34]) w')
                | _ \<Rightarrow> (if e = StoreErr GNotFound then None else Some e, w'))))"

definition pool_DeleteRunner :: "manager_env \<Rightarrow> garm_instance \<Rightarrow> bool \<Rightarrow> bool \<Rightarrow> manager_world \<Rightarrow> manager_error option \<times> manager_world" where
  "pool_DeleteRunner E runner force bypass w =
     (if \<not> pmg_managerIsRunning (mw_mgr w) \<and> \<not> bypass
      then (Some (StoreErr (GConflict (''pool manager is not running for '' @ entity_String (mw_entity w)))), w)
      else
        (case remove_at_forge E (gi_AgentID runner) bypass w of
           (stop, w1) \<Rightarrow>
             (if stop \<noteq> None then (stop, w1)
              else case setInstanceStatus E (gi_Name runner)
                     (if force then InstancePendingForceDelete else InstancePendingDelete) [] True w1 of
                (r, w2) \<Rightarrow> (unless_gone r, w2))))"

definition idle_workers :: "garm_instance list \<Rightarrow> garm_instance list" where
  "idle_workers = filter (\<lambda>i. gi_RunnerStatus i = RunnerIdle \<and> gi_Status i = InstanceRunning)"

text \<open>\<^verbatim>\<open>int(math.Ceil(surplus * 0.5))\<close>: counts of runners are far below \<open>2 ^ 53\<close>, so the product is exact.\<close>

definition num_scale_down :: "garm_pool \<Rightarrow> nat \<Rightarrow> nat \<Rightarrow> int" where
  "num_scale_down pool idle queued =
     (let surplus = int idle - (MinIdleRunnersAsInt pool + int queued) in if surplus \<le> 0 then 0 else (surplus + 1) div 2)"

text \<open>
  The runners to remove, one goroutine each; the first error is the one reported, after all
  have finished. A runner whose lock is taken is skipped.
\<close>

fun delete_runners :: "manager_env \<Rightarrow> garm_instance list \<Rightarrow> manager_world \<Rightarrow> manager_error option \<times> manager_world" where
  "delete_runners E [] w = (None, w)"
| "delete_runners E (i # is) w =
     (if \<not> me_TryLock E (mw_tick w) (gi_Name i) then delete_runners E is (next_tick w)
      else case pool_DeleteRunner E i False False (next_tick w) of
        (e, w1) \<Rightarrow> (case delete_runners E is w1 of (e', w2) \<Rightarrow> (if e = None then e' else e, w2)))"

text \<open>Jobs still queued after ten minutes that the pool could have served are taken for stale.\<close>

definition stale_for_pool :: "manager_env \<Rightarrow> garm_pool \<Rightarrow> manager_world \<Rightarrow> garm_job \<Rightarrow> bool" where
  "stale_for_pool E pool w j \<longleftrightarrow> 10 * minute < time_Since E w (gj_CreatedAt j) \<and> HasRequiredLabels pool (gj_Labels j)"

definition delete_job :: "manager_env \<Rightarrow> int \<Rightarrow> manager_world \<Rightarrow> manager_world" where
  "delete_job E k w = snd (job_call E (\<lambda>env. DeleteJob env k) w)"

definition delete_stale_jobs :: "manager_env \<Rightarrow> garm_pool \<Rightarrow> garm_job list \<Rightarrow> manager_world \<Rightarrow> manager_world" where
  "delete_stale_jobs E pool js w =
     fold (\<lambda>j w. if stale_for_pool E pool w j then delete_job E (gj_WorkflowJobID j) w else w) js w"

definition scaleDownOnePool :: "manager_env \<Rightarrow> garm_pool \<Rightarrow> manager_world \<Rightarrow> manager_error option \<times> manager_world" where
  "scaleDownOnePool E pool w =
     (if \<not> gp_Enabled pool then (None, w)
      else case ListPoolInstances (env_now E w) (gp_ID pool) False (mw_db w) of
        Inl e \<Rightarrow> (Some (StoreErr e), w)
      | Inr existing \<Rightarrow>
          (let idle = idle_workers existing;
               n = num_scale_down pool (length idle) (length (getQueuedJobs (mw_mgr w)))
           in if idle = [] \<or> n \<le> 0 then (None, w)
              else if int (length idle) < n then (Some (MgrErr ''invalid number of instances to scale down''), w)
              else
                (case delete_runners E (take (nat n) idle) w of
                   (err, w1) \<Rightarrow>
                     (case ListEntityJobsByStatus (env_now E w1) (ge_EntityType (mw_entity w1)) (ge_ID (mw_entity w1))
                             JobStatusQueued (mw_store w1) of
                        Inl e \<Rightarrow> if e \<noteq> GNotFound then (Some (StoreErr e), w1) else (err, w1)
                      | Inr queued \<Rightarrow> (err, delete_stale_jobs E pool queued w1)))))"

end
