(* ===== verification/ForgeDispatch.thy ===== *)
theory ForgeDispatch
  imports ForgeManager "HOL-Library.List_Lexorder" "HOL-Library.Char_ord"
begin

text \<open>
  How a pool manager reacts to jobs: webhooks (\<^verbatim>\<open>HandleWorkflowJob\<close> and the functions it calls), the
  consumer of queued jobs with the pool cursors of \<^verbatim>\<open>runner/pool/cache.go\<close>, and the check for stale jobs.
\<close>

section \<open>Webhook payloads\<close>

text \<open>The fields of \<^verbatim>\<open>params.WorkflowJob\<close> that the manager reads.\<close>

record workflow_job =
  wj_Action :: string
  wj_ID :: int
  wj_RunID :: int
  wj_Status :: string
  wj_Conclusion :: string
  wj_StartedAt :: int
  wj_CompletedAt :: int
  wj_Name :: string
  wj_Labels :: "string list"
  wj_RunnerID :: int
  wj_RunnerName :: string
  wj_RunnerGroupID :: int
  wj_RunnerGroupName :: string
  wj_RepositoryName :: string
  wj_RepositoryOwner :: string
  wj_RepositoryHTMLURL :: string
  wj_OrganizationLogin :: string
  wj_OrganizationName :: string
  wj_EnterpriseSlug :: string

definition GetOrgName :: "string \<Rightarrow> workflow_job \<Rightarrow> string" where
  "GetOrgName forge job = (if forge = GiteaEndpointType then wj_OrganizationName job else wj_OrganizationLogin job)"

text \<open>\<^verbatim>\<open>strings.EqualFold\<close> on ASCII.\<close>

definition EqualFold :: "string \<Rightarrow> string \<Rightarrow> bool" where
  "EqualFold s t \<longleftrightarrow> to_lower s = to_lower t"

definition ValidateOwner :: "forge_entity \<Rightarrow> workflow_job \<Rightarrow> garm_db_error option" where
  "ValidateOwner e job =
     (let wrong = Some (GBadRequest ''job not meant for this pool manager'') in
      if ge_EntityType e = ForgeEntityTypeRepository
      then (if \<not> EqualFold (wj_RepositoryName job) (ge_Name e) \<or> \<not> EqualFold (wj_RepositoryOwner job) (ge_Owner e)
            then wrong else None)
      else if ge_EntityType e = ForgeEntityTypeOrganization
      then (if \<not> EqualFold (GetOrgName (gk_ForgeType (ge_Credentials e)) job) (ge_Owner e) then wrong else None)
      else if ge_EntityType e = ForgeEntityTypeEnterprise
      then (if \<not> EqualFold (wj_EnterpriseSlug job) (ge_Owner e) then wrong else None)
      else Some (GBadRequest ''unknown entity type''))"

definition run_url :: "workflow_job \<Rightarrow> string" where
  "run_url job =
     (if wj_RepositoryHTMLURL job \<noteq> [] \<and> wj_RunID job \<noteq> 0
      then rev (dropWhile (\<lambda>c. c = CHR ''/'') (rev (wj_RepositoryHTMLURL job))) @ ''/actions/runs/'' @ show_int (wj_RunID job)
      else [])"

definition paramsWorkflowJobToParamsJob :: "db_env \<Rightarrow> forge_entity \<Rightarrow> workflow_job \<Rightarrow> (manager_error, garm_job) result" where
  "paramsWorkflowJobToParamsJob env e job =
     (case de_uuid env (ge_ID e) of
        None \<Rightarrow> Inl (MgrErr ''error parsing pool ID as UUID'')
      | Some u \<Rightarrow>
          (let owner = (\<lambda>ty. if ge_EntityType e = ty then Some u else None);
               j = \<lparr>gj_ID = 0, gj_WorkflowJobID = wj_ID job, gj_ScaleSetJobID = [], gj_RunID = wj_RunID job,
                 gj_Action = wj_Action job, gj_Conclusion = wj_Conclusion job, gj_Status = wj_Status job,
                 gj_Name = wj_Name job, gj_StartedAt = wj_StartedAt job, gj_CompletedAt = wj_CompletedAt job,
                 gj_GithubRunnerID = wj_RunnerID job, gj_RunnerName = wj_RunnerName job,
                 gj_RunnerGroupID = wj_RunnerGroupID job, gj_RunnerGroupName = wj_RunnerGroupName job,
                 gj_RepositoryName = wj_RepositoryName job, gj_RepositoryOwner = wj_RepositoryOwner job,
                 gj_WorkflowRunURL = run_url job, gj_Labels = wj_Labels job,
                 gj_RepoID = owner ForgeEntityTypeRepository, gj_OrgID = owner ForgeEntityTypeOrganization,
                 gj_EnterpriseID = owner ForgeEntityTypeEnterprise, gj_LockedBy = uuid_Nil,
                 gj_CreatedAt = time_zero, gj_UpdatedAt = time_zero\<rparr>
           in if ge_EntityType e \<in> {ForgeEntityTypeRepository, ForgeEntityTypeOrganization, ForgeEntityTypeEnterprise}
              then Inr j else Inl (MgrErr (''unknown pool type: '' @ ge_EntityType e))))"

section \<open>Recording jobs\<close>

definition shouldRecordJob :: "manager_env \<Rightarrow> garm_job \<Rightarrow> bool \<Rightarrow> manager_world \<Rightarrow> bool" where
  "shouldRecordJob E j isNew w =
     (if \<not> isNew then True
      else if gj_Status j = JobStatusQueued
      then (case FindPoolsMatchingAllTags (env_now E w) (ge_EntityType (mw_entity w)) (ge_ID (mw_entity w)) (gj_Labels j) (mw_db w) of
              Inl _ \<Rightarrow> False | Inr pools \<Rightarrow> pools \<noteq> [])
      else if gj_RunnerName j \<noteq> []
      then (case GetInstance (env_now E w) (gj_RunnerName j) (mw_db w) of Inl _ \<Rightarrow> False | Inr _ \<Rightarrow> True)
      else False)"

definition statusRank :: "string \<Rightarrow> nat" where
  "statusRank s = (if s = JobStatusQueued then 1 else if s = JobStatusInProgress then 2
                   else if s = JobStatusCompleted then 3 else 0)"

text \<open>
  \<^verbatim>\<open>persistJobToDB\<close> reads the known job and decides, then writes. The two are separate
  statements of the database with no lock or transaction around them; here the function runs from
  one to the other without another webhook in between (\<open>ForgeManagerProps\<close> has what two
  webhooks of one job do to each other otherwise).
\<close>

definition persist_check :: "manager_env \<Rightarrow> garm_job \<Rightarrow> manager_world \<Rightarrow> manager_error option" where
  "persist_check E j w =
     (if gj_WorkflowJobID j = 0 then Some (StoreErr (GBadRequest ''workflow job has no ID''))
      else
        (let existing = GetJobByID (gj_WorkflowJobID j) (mw_store w);
             isNew = (existing = Inl GNotFound);
             back = (case existing of Inr old \<Rightarrow> statusRank (gj_Action j) < statusRank (gj_Action old) | Inl _ \<Rightarrow> False);
             record_it = (if shouldRecordJob E j isNew w then None else Some (MgrErr ''job should not be recorded''))
         in case existing of
              Inl e \<Rightarrow> if e \<noteq> GNotFound then Some (StoreErr e) else record_it
            | Inr old \<Rightarrow> if back then Some (StoreErr (GBadRequest ''cannot transition job'')) else record_it))"

definition persist_write :: "manager_env \<Rightarrow> garm_job \<Rightarrow> manager_world \<Rightarrow> manager_error option \<times> manager_world" where
  "persist_write E j w =
     (case job_call E (\<lambda>env. CreateOrUpdateJob env j) w of
        (Inl e, w') \<Rightarrow> (Some (StoreErr e), w') | (Inr _, w') \<Rightarrow> (None, w'))"

definition persistJobToDB :: "manager_env \<Rightarrow> garm_job \<Rightarrow> manager_world \<Rightarrow> manager_error option \<times> manager_world" where
  "persistJobToDB E j w =
     (case persist_check E j w of Some e \<Rightarrow> (Some e, w) | None \<Rightarrow> persist_write E j w)"

section \<open>Acting on jobs\<close>

text \<open>The pool of an instance, when it is one of this entity.\<close>

definition entity_pool_of :: "manager_env \<Rightarrow> garm_instance \<Rightarrow> manager_world \<Rightarrow> garm_pool option" where
  "entity_pool_of E i w =
     (case GetPoolByID (env_now E w) (gi_PoolID i) (mw_db w) of
        Inl _ \<Rightarrow> None
      | Inr p \<Rightarrow> if isEntityPool (mw_entity w) p then Some p else None)"

definition handleCompletedJob :: "manager_env \<Rightarrow> garm_job \<Rightarrow> manager_world \<Rightarrow> manager_error option \<times> manager_world" where
  "handleCompletedJob E j w =
     (if gj_RunnerName j = [] then (None, w)
      else case GetInstance (env_now E w) (gj_RunnerName j) (mw_db w) of
        Inl _ \<Rightarrow> (None, w)
      | Inr i \<Rightarrow>
          (case entity_pool_of E i w of
             None \<Rightarrow> (None, w)
           | Some _ \<Rightarrow>
               (case setInstanceRunnerStatus E (gj_RunnerName j) RunnerTerminated w of
                  (Inl e, w1) \<Rightarrow> (unless_gone (Inl e :: (garm_db_error, unit) result), w1)
                | (Inr _, w1) \<Rightarrow>
                    (case setInstanceStatus E (gj_RunnerName j) InstancePendingDelete [] False w1 of
                       (r, w2) \<Rightarrow> (unless_gone r, w2)))))"

definition handleInProgressJob :: "manager_env \<Rightarrow> garm_job \<Rightarrow> manager_world \<Rightarrow> (int \<times> manager_error option) \<times> manager_world" where
  "handleInProgressJob E j w =
     (if gj_RunnerName j = [] then ((0, None), w)
      else case setInstanceRunnerStatus E (gj_RunnerName j) RunnerActive w of
        (Inl e, w1) \<Rightarrow> ((0, unless_gone (Inl e :: (garm_db_error, unit) result)), w1)
      | (Inr i, w1) \<Rightarrow>
          (case entity_pool_of E i w1 of
             None \<Rightarrow> ((0, None), w1)
           | Some p \<Rightarrow> ((jobIDFromLabels (gi_AditionalLabels i), None), snd (ensureIdleRunnersForOnePool E p w1))))"

definition runs_in_scale_set :: "manager_env \<Rightarrow> string \<Rightarrow> manager_world \<Rightarrow> bool" where
  "runs_in_scale_set E name w \<longleftrightarrow>
     name \<noteq> [] \<and> (case GetInstance (env_now E w) name (mw_db w) of Inl _ \<Rightarrow> False | Inr i \<Rightarrow> gi_ScaleSetID i \<noteq> 0)"

definition HandleWorkflowJob :: "manager_env \<Rightarrow> workflow_job \<Rightarrow> manager_world \<Rightarrow> manager_error option \<times> manager_world" where
  "HandleWorkflowJob E job w =
     (case ValidateOwner (mw_entity w) job of
        Some e \<Rightarrow> (Some (StoreErr e), w)
      | None \<Rightarrow>
          if wj_Labels job = [] then (None, w)
          else case paramsWorkflowJobToParamsJob (env_now E w) (mw_entity w) job of
            Inl e \<Rightarrow> (Some e, w)
          | Inr j \<Rightarrow>
              if wj_Action job \<in> {JobStatusInProgress, JobStatusCompleted} \<and> runs_in_scale_set E (gj_RunnerName j) w
              then (None, delete_job E (gj_WorkflowJobID j) w)
              else
                (case persistJobToDB E j w of
                   (Some e, w1) \<Rightarrow> (Some e, w1)
                 | (None, w1) \<Rightarrow>
                     if wj_Action job = JobStatusInProgress
                     then (case handleInProgressJob E j w1 of
                             ((triggeredBy, err), w2) \<Rightarrow>
                               (err, if triggeredBy \<noteq> 0 \<and> gj_WorkflowJobID j \<noteq> triggeredBy
                                     then snd (job_call E (\<lambda>env. BreakLockJobIsQueued env triggeredBy) w2) else w2))
                     else if wj_Action job = JobStatusCompleted then handleCompletedJob E j w1
                     else (None, w1)))"

section \<open>Cursors over pools\<close>

record pool_round_robin =
  rr_pools :: "garm_pool list"
  rr_next :: "32 word"

datatype next_pool = NextPool garm_pool | NoPoolsAvailable | NextPanic

text \<open>Go's remainder takes the sign of the dividend: a counter that wrapped to zero indexes at \<open>-1\<close>.\<close>

definition rr_Next :: "pool_round_robin \<Rightarrow> next_pool \<times> pool_round_robin" where
  "rr_Next rr =
     (if rr_pools rr = [] then (NoPoolsAvailable, rr)
      else
        (let n = rr_next rr + 1; i = uint n - 1; l = int (length (rr_pools rr));
             idx = (if i < 0 then - ((- i) mod l) else i mod l)
         in (if idx < 0 then NextPanic else NextPool (rr_pools rr ! nat idx), rr\<lparr>rr_next := n\<rparr>)))"

definition rr_Reset :: "pool_round_robin \<Rightarrow> pool_round_robin" where
  "rr_Reset rr = rr\<lparr>rr_next := 0\<rparr>"

text \<open>The cursors by key, the sorted tags joined.\<close>

type_synonym pools_for_tags = "(string \<times> pool_round_robin) list"

definition tags_key :: "string list \<Rightarrow> string" where
  "tags_key tags = join_with ''^'' (sort tags)"

definition pft_Get :: "string \<Rightarrow> string list \<Rightarrow> pools_for_tags \<Rightarrow> pool_round_robin option \<times> pools_for_tags" where
  "pft_Get balancer tags c =
     (case tbl_find fst (tags_key tags) c of
        None \<Rightarrow> (None, c)
      | Some (k, rr) \<Rightarrow>
          if balancer = PoolBalancerTypePack then (Some (rr_Reset rr), tbl_upsert fst (k, rr_Reset rr) c)
          else (Some rr, c))"

definition by_priority :: "garm_pool list \<Rightarrow> garm_pool list" where
  "by_priority ps = rev (sort_key gp_Priority (rev ps))"

definition pft_Add :: "string list \<Rightarrow> garm_pool list \<Rightarrow> pools_for_tags \<Rightarrow> pool_round_robin \<times> pools_for_tags" where
  "pft_Add tags pools c =
     (case tbl_find fst (tags_key tags) c of
        Some (k, rr) \<Rightarrow> (rr, c)
      | None \<Rightarrow> (let rr = \<lparr>rr_pools = by_priority pools, rr_next = 0\<rparr> in (rr, tbl_upsert fst (tags_key tags, rr) c)))"

section \<open>Consuming queued jobs\<close>

datatype attempt = RunnerCreated | NoRunner | AttemptPanic

text \<open>Pools are tried in the order of the cursor until one takes a runner, at most as often as there are pools.\<close>

fun try_pools :: "manager_env \<Rightarrow> string list \<Rightarrow> nat \<Rightarrow> pool_round_robin \<Rightarrow> manager_world \<Rightarrow>
    attempt \<times> pool_round_robin \<times> manager_world" where
  "try_pools E labels 0 rr w = (NoRunner, rr, w)"
| "try_pools E labels (Suc n) rr w =
     (case rr_Next rr of
        (NoPoolsAvailable, rr') \<Rightarrow> (NoRunner, rr', w)
      | (NextPanic, rr') \<Rightarrow> (AttemptPanic, rr', w)
      | (NextPool p, rr') \<Rightarrow>
          (case addRunnerToPool E p labels w of
             (None, w') \<Rightarrow> (RunnerCreated, rr', w')
           | (Some _, w') \<Rightarrow> try_pools E labels n rr' w'))"

text \<open>
  Looking a job's labels up sorts them in place, in the list the manager's map of jobs shares.
\<close>

definition sort_labels :: "int \<Rightarrow> manager_world \<Rightarrow> manager_world" where
  "sort_labels i = on_mgr (\<lambda>m. m\<lparr>pmg_jobs := tbl_update gj_ID i (\<lambda>j. j\<lparr>gj_Labels := sort (gj_Labels j)\<rparr>) (pmg_jobs m)\<rparr>)"

definition find_cursor :: "manager_env \<Rightarrow> garm_job \<Rightarrow> pools_for_tags \<Rightarrow> manager_world \<Rightarrow> pool_round_robin option \<times> pools_for_tags" where
  "find_cursor E j c w =
     (case pft_Get (GetPoolBalancerType (mw_entity w)) (gj_Labels j) c of
        (Some rr, c') \<Rightarrow> (Some rr, c')
      | (None, c') \<Rightarrow>
          (case FindPoolsMatchingAllTags (env_now E w) (ge_EntityType (mw_entity w)) (ge_ID (mw_entity w)) (sort (gj_Labels j)) (mw_db w) of
             Inl _ \<Rightarrow> (None, c')
           | Inr pools \<Rightarrow> (case pft_Add (gj_Labels j) pools c' of (rr, c'') \<Rightarrow> (Some rr, c''))))"

definition put_cursor :: "string list \<Rightarrow> pool_round_robin \<Rightarrow> pools_for_tags \<Rightarrow> pools_for_tags" where
  "put_cursor tags rr c = tbl_upsert fst (tags_key tags, rr) c"

definition unlock_job :: "manager_env \<Rightarrow> garm_job \<Rightarrow> manager_world \<Rightarrow> garm_db_error option \<times> manager_world" where
  "unlock_job E j w = job_call E (\<lambda>env. UnlockJob env (gj_WorkflowJobID j) (ge_ID (mw_entity w))) w"

definition lock_job :: "manager_env \<Rightarrow> garm_job \<Rightarrow> manager_world \<Rightarrow> garm_db_error option \<times> manager_world" where
  "lock_job E j w = job_call E (\<lambda>env. LockJob env (gj_WorkflowJobID j) (ge_ID (mw_entity w))) w"

text \<open>
  Is a queued job to be served now? A job another entity locked and one updated too recently are
  left alone; one locked by this entity for ten minutes is unlocked, and left alone this time.
\<close>

definition job_turn :: "manager_env \<Rightarrow> garm_job \<Rightarrow> manager_world \<Rightarrow> bool \<times> manager_world" where
  "job_turn E j w =
     (let me = ge_ID (mw_entity w); age = time_Since E w (gj_UpdatedAt j) in
      if gj_LockedBy j \<noteq> uuid_Nil \<and> gj_LockedBy j \<noteq> me then (False, w)
      else if age < JobBackoff (pmg_controllerInfo (mw_mgr w)) then (False, w)
      else if 10 * minute \<le> age
      then (case unlock_job E j w of
              (Some _, w') \<Rightarrow> (False, w')
            | (None, w') \<Rightarrow> (gj_LockedBy j \<noteq> me, w'))
      else (gj_LockedBy j \<noteq> me, w))"

definition serve_job :: "manager_env \<Rightarrow> garm_job \<Rightarrow> pools_for_tags \<Rightarrow> manager_world \<Rightarrow>
    manager_error option \<times> pools_for_tags \<times> manager_world" where
  "serve_job E j c w =
     (case job_turn E j w of
        (False, w1) \<Rightarrow> (None, c, w1)
      | (True, w1) \<Rightarrow>
          (let w2 = sort_labels (gj_ID j) w1 in
           case find_cursor E j c w2 of
             (None, c') \<Rightarrow> (None, c', w2)
           | (Some rr, c') \<Rightarrow>
               if rr_pools rr = [] then (None, c', w2)
               else case lock_job E j w2 of
                 (Some _, w3) \<Rightarrow> (None, c', w3)
               | (None, w3) \<Rightarrow>
                   (case try_pools E [jobLabel (gj_WorkflowJobID j)] (length (rr_pools rr)) rr w3 of
                      (r, rr', w4) \<Rightarrow>
                        (let c'' = put_cursor (gj_Labels j) rr' c' in
                         case r of
                           RunnerCreated \<Rightarrow> (None, c'', w4)
                         | AttemptPanic \<Rightarrow> (Some MgrPanic, c'', w4)
                         | NoRunner \<Rightarrow>
                             (case unlock_job E j w4 of
                                (None, w5) \<Rightarrow> (None, c'', w5)
                              | (Some e, w5) \<Rightarrow> (Some (StoreErr e), c'', w5))))))"

fun serve_jobs :: "manager_env \<Rightarrow> garm_job list \<Rightarrow> pools_for_tags \<Rightarrow> manager_world \<Rightarrow> manager_error option \<times> manager_world" where
  "serve_jobs E [] c w = (None, w)"
| "serve_jobs E (j # js) c w =
     (case serve_job E j c w of
        (Some e, c', w') \<Rightarrow> (Some e, w')
      | (None, c', w') \<Rightarrow> serve_jobs E js c' w')"

definition consumeQueuedJobs :: "manager_env \<Rightarrow> manager_world \<Rightarrow> manager_error option \<times> manager_world" where
  "consumeQueuedJobs E w =
     (case serve_jobs E (getQueuedJobs (mw_mgr w)) [] w of
        (err, w') \<Rightarrow> (err, snd (job_call E (\<lambda>env. DeleteInactionableJobs env (5 * minute)) w')))"

section \<open>Stale jobs\<close>

definition hour :: int where
  "hour = 60 * minute"

definition set_checked :: "(int \<times> int) list \<Rightarrow> manager_world \<Rightarrow> manager_world" where
  "set_checked cs = on_mgr (\<lambda>m. m\<lparr>pmg_checkedJobs := cs\<rparr>)"

definition forget_check :: "int \<Rightarrow> manager_world \<Rightarrow> manager_world" where
  "forget_check k w = set_checked (tbl_delete fst k (pmg_checkedJobs (mw_mgr w))) w"

definition due_check :: "manager_env \<Rightarrow> garm_job \<Rightarrow> manager_world \<Rightarrow> bool" where
  "due_check E j w \<longleftrightarrow>
     hour \<le> time_Since E w (gj_CreatedAt j)
     \<and> (case tbl_find fst (gj_WorkflowJobID j) (pmg_checkedJobs (mw_mgr w)) of
          None \<Rightarrow> True | Some (_, t) \<Rightarrow> hour \<le> time_Since E w t)
     \<and> gj_RepositoryOwner j \<noteq> [] \<and> gj_RepositoryName j \<noteq> []"

definition stale_lock :: "garm_job \<Rightarrow> string" where
  "stale_lock j = ''stale-job-check-'' @ show_int (gj_WorkflowJobID j)"

text \<open>The status code comes with a failed request that was answered.\<close>

definition check_job :: "manager_env \<Rightarrow> garm_job \<Rightarrow> manager_world \<Rightarrow> manager_world" where
  "check_job E j w =
     (let k = gj_WorkflowJobID j; w1 = next_tick w in
      case me_GetWorkflowJobByID E (mw_tick w) k of
        Inl (Some code) \<Rightarrow> if code = 404 then forget_check k (delete_job E k w1) else w1
      | Inl None \<Rightarrow> w1
      | Inr status \<Rightarrow>
          if status \<noteq> JobStatusQueued then forget_check k (delete_job E k w1)
          else set_checked (tbl_upsert fst (k, de_now (env_now E w1)) (pmg_checkedJobs (mw_mgr w1))) w1)"

fun check_jobs :: "manager_env \<Rightarrow> garm_job list \<Rightarrow> nat \<Rightarrow> manager_world \<Rightarrow> manager_world" where
  "check_jobs E [] n w = w"
| "check_jobs E (j # js) n w =
     (if 5 \<le> n then w
      else if \<not> due_check E j w then check_jobs E js n w
      else if \<not> me_TryLock E (mw_tick w) (stale_lock j) then check_jobs E js n (next_tick w)
      else check_jobs E js (Suc n) (check_job E j (next_tick w)))"

definition reconcileStaleJobs :: "manager_env \<Rightarrow> manager_world \<Rightarrow> manager_error option \<times> manager_world" where
  "reconcileStaleJobs E w =
     (case ListEntityJobsByStatus (env_now E w) (ge_EntityType (mw_entity w)) (ge_ID (mw_entity w)) JobStatusQueued (mw_store w) of
        Inl GNotFound \<Rightarrow> (None, w)
      | Inl e \<Rightarrow> (Some (StoreErr e), w)
      | Inr queued \<Rightarrow>
          (let w1 = check_jobs E queued 0 w
           in (None, set_checked (filter (\<lambda>(k, t). time_Since E w1 t \<le> 2 * hour) (pmg_checkedJobs (mw_mgr w1))) w1)))"

end
