(* ===== verification/ForgeReaper.thy ===== *)
theory ForgeReaper
  imports ForgeManager
begin

text \<open>
  The loops of the pool manager over the instances of its entity: creating the pending ones with
  their provider, deleting those marked for deletion, retrying failed ones, and comparing the
  database with the runners the forge and the providers know.
\<close>

section \<open>Calls to providers\<close>

definition provider_call_made :: "provider_call \<Rightarrow> manager_world \<Rightarrow> manager_world" where
  "provider_call_made c w = next_tick (w\<lparr>mw_calls := mw_calls w @ [c]\<rparr>)"

definition entity_pool :: "manager_env \<Rightarrow> string \<Rightarrow> manager_world \<Rightarrow> (garm_db_error, garm_pool) result" where
  "entity_pool E poolID w = GetEntityPool (env_now E w) (mw_entity w) poolID (mw_db w)"

definition unknown_provider :: "string \<Rightarrow> manager_error" where
  "unknown_provider p = MgrErr (''unknown provider '' @ p)"

definition deleteInstanceFromProvider :: "manager_env \<Rightarrow> garm_instance \<Rightarrow> manager_world \<Rightarrow> manager_error option \<times> manager_world" where
  "deleteInstanceFromProvider E i w =
     (case entity_pool E (gi_PoolID i) w of
        Inl e \<Rightarrow> (Some (StoreErr e), w)
      | Inr pool \<Rightarrow>
          if gi_ProviderName i \<notin> set (me_providers E) then (Some (unknown_provider (gi_ProviderName i)), w)
          else (let identifier = (if gi_ProviderID i = [] then gi_Name i else gi_ProviderID i)
                in (me_DeleteInstance E (mw_tick w) identifier, provider_call_made (ProviderDelete identifier) w)))"

definition updateArgsFromProviderInstance :: "provider_instance \<Rightarrow> update_instance_params" where
  "updateArgsFromProviderInstance p = no_update\<lparr>uip_ProviderID := pri_ProviderID p, uip_OSName := pri_OSName p,
     uip_OSVersion := pri_OSVersion p, uip_Addresses := pri_Addresses p, uip_Status := pri_Status p,
     uip_ProviderFault := pri_ProviderFault p\<rparr>"

text \<open>
  \<^verbatim>\<open>addInstanceToProvider\<close>: the deferred function removes what a failed creation left at the provider,
  whether the row could be updated or not. Token, install template and certificates are one check of
  the environment.
\<close>

definition addInstanceToProvider :: "manager_env \<Rightarrow> garm_instance \<Rightarrow> manager_world \<Rightarrow> manager_error option \<times> manager_world" where
  "addInstanceToProvider E i w =
     (case entity_pool E (gi_PoolID i) w of
        Inl e \<Rightarrow> (Some (StoreErr e), w)
      | Inr pool \<Rightarrow>
          if gp_ProviderName pool \<notin> set (me_providers E) then (Some (unknown_provider (gp_ProviderName pool)), w)
          else (case me_bootstrap E pool i of
            Some e \<Rightarrow> (Some e, w)
          | None \<Rightarrow>
              (let w1 = provider_call_made (ProviderCreate (gi_Name i)) w;
                   clean = (\<lambda>ident w. if ident = [] then w else provider_call_made (ProviderDelete ident) w)
               in case me_CreateInstance E (mw_tick w) (gi_Name i) of
                    Inl e \<Rightarrow> (Some e, clean (gi_Name i) w1)
                  | Inr p \<Rightarrow>
                      (let ident = (if pri_Status p \<noteq> InstanceError then []
                                    else if gi_ProviderID i = [] then gi_Name i else gi_ProviderID i)
                       in case update_call E False (gi_Name i) (updateArgsFromProviderInstance p) w1 of
                            (Inl e, w2) \<Rightarrow> (Some (StoreErr e), clean ident w2)
                          | (Inr _, w2) \<Rightarrow> (None, clean ident w2)))))"

section \<open>Creating pending instances\<close>

definition set_error_status :: "manager_env \<Rightarrow> string \<Rightarrow> manager_error \<Rightarrow> manager_world \<Rightarrow> manager_world" where
  "set_error_status E name e w = snd (setInstanceStatus E name InstanceError (me_fault E e) False w)"

definition create_one :: "manager_env \<Rightarrow> garm_instance \<Rightarrow> manager_world \<Rightarrow> manager_world" where
  "create_one E i w =
     (case addInstanceToProvider E i w of
        (None, w') \<Rightarrow> w'
      | (Some e, w') \<Rightarrow> set_error_status E (gi_Name i) e w')"

text \<open>An instance is marked as being created before its goroutine starts.\<close>

fun start_creations :: "manager_env \<Rightarrow> garm_instance list \<Rightarrow> manager_world \<Rightarrow> garm_instance list \<times> manager_world" where
  "start_creations E [] w = ([], w)"
| "start_creations E (i # is) w =
     (if gi_ScaleSetID i \<noteq> 0 \<or> gi_Status i \<noteq> InstancePendingCreate then start_creations E is w
      else if \<not> me_TryLock E (mw_tick w) (gi_Name i) then start_creations E is (next_tick w)
      else case setInstanceStatus E (gi_Name i) InstanceCreating [] False (next_tick w) of
        (Inl _, w') \<Rightarrow> start_creations E is w'
      | (Inr _, w') \<Rightarrow> (case start_creations E is w' of (js, w'') \<Rightarrow> (i # js, w'')))"

definition entity_instances :: "manager_env \<Rightarrow> manager_world \<Rightarrow> (garm_db_error, garm_instance list) result" where
  "entity_instances E w = ListEntityInstances (env_now E w) (mw_entity w) (mw_db w)"

definition addPendingInstances :: "manager_env \<Rightarrow> manager_world \<Rightarrow> manager_error option \<times> manager_world" where
  "addPendingInstances E w =
     (case entity_instances E w of
        Inl e \<Rightarrow> (Some (StoreErr e), w)
      | Inr is \<Rightarrow> (case start_creations E is w of (js, w') \<Rightarrow> (None, fold (create_one E) js w')))"

section \<open>Deleting pending instances\<close>

definition on_backoff :: "(instance_backoff list \<Rightarrow> instance_backoff list) \<Rightarrow> manager_world \<Rightarrow> manager_world" where
  "on_backoff f = on_mgr (\<lambda>m. m\<lparr>pmg_backoff := f (pmg_backoff m)\<rparr>)"

text \<open>After a failure the previous status is restored and the backoff of the instance grows.\<close>

definition deletion_failed :: "manager_env \<Rightarrow> garm_instance \<Rightarrow> manager_error \<Rightarrow> manager_world \<Rightarrow> manager_world" where
  "deletion_failed E i e w =
     (let w' = snd (setInstanceStatus E (gi_Name i) (gi_Status i) (me_fault E e) True w)
      in on_backoff (RecordFailure (de_now (env_now E w')) (gi_Name i)) w')"

definition delete_one :: "manager_env \<Rightarrow> garm_instance \<Rightarrow> manager_world \<Rightarrow> manager_world" where
  "delete_one E i w =
     (case setInstanceStatus E (gi_Name i) InstanceDeleting [] True w of
        (Inl e, w1) \<Rightarrow> deletion_failed E i (StoreErr e) w1
      | (Inr _, w1) \<Rightarrow>
          (case deleteInstanceFromProvider E i w1 of
             (err, w2) \<Rightarrow>
               (case (if gi_Status i = InstancePendingForceDelete then None else err) of
                  Some e \<Rightarrow> deletion_failed E i e w2
                | None \<Rightarrow>
                    (case db_call E (\<lambda>env. DeleteInstance env (gi_PoolID i) (gi_Name i)) w2 of
                       (Some e, w3) \<Rightarrow> deletion_failed E i (StoreErr e) w3
                     | (None, w3) \<Rightarrow> on_backoff (backoff_Delete (gi_Name i)) w3))))"

definition marked_for_deletion :: "garm_instance \<Rightarrow> bool" where
  "marked_for_deletion i \<longleftrightarrow>
     gi_ScaleSetID i = 0 \<and> (gi_Status i = InstancePendingDelete \<or> gi_Status i = InstancePendingForceDelete)"

definition should_process :: "manager_env \<Rightarrow> string \<Rightarrow> manager_world \<Rightarrow> bool \<times> manager_world" where
  "should_process E name w =
     (case ShouldProcess (de_now (env_now E w)) name (pmg_backoff (mw_mgr w)) of
        ((b, _), bs) \<Rightarrow> (b, on_backoff (\<lambda>_. bs) w))"

fun start_deletions :: "manager_env \<Rightarrow> garm_instance list \<Rightarrow> manager_world \<Rightarrow> garm_instance list \<times> manager_world" where
  "start_deletions E [] w = ([], w)"
| "start_deletions E (i # is) w =
     (if \<not> marked_for_deletion i then start_deletions E is w
      else if \<not> me_TryLock E (mw_tick w) (gi_Name i) then start_deletions E is (next_tick w)
      else case should_process E (gi_Name i) (next_tick w) of
        (False, w') \<Rightarrow> start_deletions E is w'
      | (True, w') \<Rightarrow> (case start_deletions E is w' of (js, w'') \<Rightarrow> (i # js, w'')))"

definition deletePendingInstances :: "manager_env \<Rightarrow> manager_world \<Rightarrow> manager_error option \<times> manager_world" where
  "deletePendingInstances E w =
     (case entity_instances E w of
        Inl e \<Rightarrow> (Some (StoreErr e), w)
      | Inr is \<Rightarrow> (case start_deletions E is w of (js, w') \<Rightarrow> (None, fold (delete_one E) js w')))"

section \<open>Retrying failed instances\<close>

definition maxCreateAttempts :: int where
  "maxCreateAttempts = 5"

definition retry_update :: "garm_instance \<Rightarrow> update_instance_params" where
  "retry_update i = no_update\<lparr>uip_CreateAttempt := gi_CreateAttempt i + 1,
     uip_TokenFetched := Some (gi_JitConfiguration i \<noteq> []), uip_Status := InstancePendingCreate,
     uip_RunnerStatus := RunnerPending\<rparr>"

definition retry_one :: "manager_env \<Rightarrow> garm_instance \<Rightarrow> manager_world \<Rightarrow> manager_error option \<times> manager_world" where
  "retry_one E i w =
     (case deleteInstanceFromProvider E i w of
        (Some e, w') \<Rightarrow> (Some e, w')
      | (None, w') \<Rightarrow> (None, snd (update_call E False (gi_Name i) (retry_update i) w')))"

fun start_retries :: "manager_env \<Rightarrow> garm_instance list \<Rightarrow> manager_world \<Rightarrow> garm_instance list \<times> manager_world" where
  "start_retries E [] w = ([], w)"
| "start_retries E (i # is) w =
     (if gi_Status i \<noteq> InstanceError \<or> maxCreateAttempts \<le> gi_CreateAttempt i then start_retries E is w
      else if \<not> me_TryLock E (mw_tick w) (gi_Name i) then start_retries E is (next_tick w)
      else (case start_retries E is (next_tick w) of (js, w') \<Rightarrow> (i # js, w')))"

text \<open>The goroutines of a group all run; the group reports the first error.\<close>

fun run_group :: "('a \<Rightarrow> manager_world \<Rightarrow> manager_error option \<times> manager_world) \<Rightarrow> 'a list \<Rightarrow> manager_world \<Rightarrow>
    manager_error option \<times> manager_world" where
  "run_group f [] w = (None, w)"
| "run_group f (x # xs) w =
     (case f x w of (e, w1) \<Rightarrow> (case run_group f xs w1 of (e', w2) \<Rightarrow> (if e = None then e' else e, w2)))"

definition retryFailedInstancesForOnePool :: "manager_env \<Rightarrow> garm_pool \<Rightarrow> manager_world \<Rightarrow> manager_error option \<times> manager_world" where
  "retryFailedInstancesForOnePool E pool w =
     (if \<not> gp_Enabled pool then (None, w)
      else case ListPoolInstances (env_now E w) (gp_ID pool) False (mw_db w) of
        Inl e \<Rightarrow> (Some (StoreErr e), w)
      | Inr is \<Rightarrow> (case start_retries E is w of (js, w') \<Rightarrow> run_group (retry_one E) js w'))"

section \<open>Loops over the pools of the entity\<close>

text \<open>The pools come from the cache.\<close>

definition for_pools :: "(garm_pool \<Rightarrow> manager_world \<Rightarrow> manager_error option \<times> manager_world) \<Rightarrow> forge_caches \<Rightarrow> manager_world \<Rightarrow>
    manager_error option \<times> manager_world" where
  "for_pools f caches w = run_group f (cache_GetEntityPools (ge_ID (mw_entity w)) caches) w"

definition retryFailedInstances :: "manager_env \<Rightarrow> forge_caches \<Rightarrow> manager_world \<Rightarrow> manager_error option \<times> manager_world" where
  "retryFailedInstances E = for_pools (retryFailedInstancesForOnePool E)"

definition scaleDown :: "manager_env \<Rightarrow> forge_caches \<Rightarrow> manager_world \<Rightarrow> manager_error option \<times> manager_world" where
  "scaleDown E = for_pools (scaleDownOnePool E)"

definition ensureMinIdleRunners :: "manager_env \<Rightarrow> forge_caches \<Rightarrow> manager_world \<Rightarrow> manager_error option \<times> manager_world" where
  "ensureMinIdleRunners E = for_pools (ensureIdleRunnersForOnePool E)"

section \<open>Comparing with the forge\<close>

definition labelsFromRunner :: "forge_runner \<Rightarrow> string list" where
  "labelsFromRunner r = map rl_Name (fr_Labels r)"

definition managed :: "manager_world \<Rightarrow> forge_runner \<Rightarrow> bool" where
  "managed w r \<longleftrightarrow> isManagedRunner (labelsFromRunner r) (gci_ControllerID (pmg_controllerInfo (mw_mgr w)))"

definition older_than :: "manager_env \<Rightarrow> manager_world \<Rightarrow> nat \<Rightarrow> int \<Rightarrow> bool" where
  "older_than E w minutes t \<longleftrightarrow> int minutes * minute \<le> time_Since E w t"

text \<open>
  \<^verbatim>\<open>reapTimedOutRunners\<close>: of two runners with one name the last one counts.
\<close>

definition runner_named :: "string \<Rightarrow> forge_runner list \<Rightarrow> manager_world \<Rightarrow> forge_runner option" where
  "runner_named name rs w = find (\<lambda>r. fr_Name r = name) (rev (filter (managed w) rs))"

fun reap_instances :: "manager_env \<Rightarrow> forge_runner list \<Rightarrow> garm_instance list \<Rightarrow> manager_world \<Rightarrow> manager_error option \<times> manager_world" where
  "reap_instances E rs [] w = (None, w)"
| "reap_instances E rs (i # is) w =
     (if gi_ScaleSetID i \<noteq> 0 then reap_instances E rs is w
      else if \<not> me_TryLock E (mw_tick w) (gi_Name i) then reap_instances E rs is (next_tick w)
      else case entity_pool E (gi_PoolID i) (next_tick w) of
        Inl e \<Rightarrow> (Some (StoreErr e), next_tick w)
      | Inr pool \<Rightarrow>
          if \<not> older_than E (next_tick w) (RunnerTimeout pool) (gi_UpdatedAt i) then reap_instances E rs is (next_tick w)
          else if (case runner_named (gi_Name i) rs w of None \<Rightarrow> True | Some r \<Rightarrow> fr_Status r = RunnerOffline)
          then (case pool_DeleteRunner E i False False (next_tick w) of
                  (Some e, w') \<Rightarrow> (Some e, w')
                | (None, w') \<Rightarrow> reap_instances E rs is w')
          else reap_instances E rs is (next_tick w))"

definition reapTimedOutRunners :: "manager_env \<Rightarrow> forge_runner list \<Rightarrow> manager_world \<Rightarrow> manager_error option \<times> manager_world" where
  "reapTimedOutRunners E rs w =
     (case entity_instances E w of
        Inl e \<Rightarrow> (Some (StoreErr e), w)
      | Inr is \<Rightarrow> reap_instances E rs is w)"

fun orphaned_at_provider :: "manager_env \<Rightarrow> string set \<Rightarrow> garm_instance list \<Rightarrow> manager_world \<Rightarrow> manager_error option \<times> manager_world" where
  "orphaned_at_provider E names [] w = (None, w)"
| "orphaned_at_provider E names (i # is) w =
     (if gi_ScaleSetID i \<noteq> 0 then orphaned_at_provider E names is w
      else if \<not> me_TryLock E (mw_tick w) (gi_Name i) then orphaned_at_provider E names is (next_tick w)
      else if gi_Status i \<in> {InstancePendingCreate, InstancePendingDelete, InstancePendingForceDelete}
      then orphaned_at_provider E names is (next_tick w)
      else case entity_pool E (gi_PoolID i) (next_tick w) of
        Inl e \<Rightarrow> (Some (StoreErr e), next_tick w)
      | Inr pool \<Rightarrow>
          if gi_RunnerStatus i \<in> {RunnerPending, RunnerInstalling}
             \<and> \<not> older_than E (next_tick w) (RunnerTimeout pool) (gi_CreatedAt i)
          then orphaned_at_provider E names is (next_tick w)
          else if gi_Name i \<in> names then orphaned_at_provider E names is (next_tick w)
          else case setInstanceStatus E (gi_Name i) InstancePendingDelete [] True (next_tick w) of
            (Inl e, w') \<Rightarrow> (Some (StoreErr e), w')
          | (Inr _, w') \<Rightarrow> orphaned_at_provider E names is w')"

definition cleanupOrphanedProviderRunners :: "manager_env \<Rightarrow> forge_runner list \<Rightarrow> manager_world \<Rightarrow> manager_error option \<times> manager_world" where
  "cleanupOrphanedProviderRunners E rs w =
     (case entity_instances E w of
        Inl e \<Rightarrow> (Some (StoreErr e), w)
      | Inr is \<Rightarrow> orphaned_at_provider E (fr_Name ` set (filter (managed w) rs)) is w)"

section \<open>Runners without an instance\<close>

record orphan_task =
  ot_instance :: garm_instance
  ot_runner :: forge_runner
  ot_found :: "provider_instance list"

definition instanceInList :: "string \<Rightarrow> provider_instance list \<Rightarrow> provider_instance option" where
  "instanceInList name ps = find (\<lambda>p. pri_Name p = name) ps"

definition provider_instances :: "manager_env \<Rightarrow> string \<Rightarrow> (string \<times> provider_instance list) list \<Rightarrow> manager_world \<Rightarrow>
    (manager_error, provider_instance list) result \<times> (string \<times> provider_instance list) list \<times> manager_world" where
  "provider_instances E poolID c w =
     (case map_of c poolID of
        Some ps \<Rightarrow> (Inr ps, c, w)
      | None \<Rightarrow> (case me_ListInstances E (mw_tick w) poolID of
          Inl e \<Rightarrow> (Inl e, c, next_tick w)
        | Inr ps \<Rightarrow> (Inr ps, (poolID, ps) # c, next_tick w)))"

text \<open>A runner with no row is removed; one whose instance is still being made or is on its way out is left.\<close>

definition leave_alone :: "manager_env \<Rightarrow> garm_instance \<Rightarrow> manager_world \<Rightarrow> bool" where
  "leave_alone E i w \<longleftrightarrow>
     gi_ScaleSetID i \<noteq> 0
     \<or> gi_Status i \<in> {InstancePendingDelete, InstanceDeleting, InstancePendingCreate, InstanceCreating}
     \<or> gi_Status i = InstanceRunning \<and> \<not> older_than E w 5 (gi_UpdatedAt i)"

fun find_orphans :: "manager_env \<Rightarrow> forge_runner list \<Rightarrow> (string \<times> provider_instance list) list \<Rightarrow> manager_world \<Rightarrow>
    (manager_error option \<times> orphan_task list) \<times> manager_world" where
  "find_orphans E [] c w = ((None, []), w)"
| "find_orphans E (r # rs) c w =
     (if \<not> managed w r \<or> fr_Status r \<noteq> RunnerOffline then find_orphans E rs c w
      else case GetInstance (env_now E w) (fr_Name r) (mw_db w) of
        Inl e \<Rightarrow>
          if e \<noteq> GNotFound then ((Some (StoreErr e), []), w)
          else (case remove_runner E (fr_ID r) w of
                  (Some er, w') \<Rightarrow> if er = StoreErr GNotFound then find_orphans E rs c w' else ((Some er, []), w')
                | (None, w') \<Rightarrow> find_orphans E rs c w')
      | Inr i \<Rightarrow>
          if leave_alone E i w then find_orphans E rs c w
          else case entity_pool E (gi_PoolID i) w of
            Inl e \<Rightarrow> ((Some (StoreErr e), []), w)
          | Inr pool \<Rightarrow>
              if gi_ProviderName i \<notin> set (me_providers E) then ((Some (unknown_provider (gi_ProviderName i)), []), w)
              else case provider_instances E (gi_PoolID i) c w of
                (Inl e, c', w') \<Rightarrow> ((Some e, []), w')
              | (Inr ps, c', w') \<Rightarrow>
                  if \<not> me_TryLock E (mw_tick w') (gi_Name i) then find_orphans E rs c' (next_tick w')
                  else (case find_orphans E rs c' (next_tick w') of
                          ((e, ts), w'') \<Rightarrow> ((e, \<lparr>ot_instance = i, ot_runner = r, ot_found = ps\<rparr> # ts), w'')))"

definition orphan_one :: "manager_env \<Rightarrow> orphan_task \<Rightarrow> manager_world \<Rightarrow> manager_error option \<times> manager_world" where
  "orphan_one E t w =
     (let i = ot_instance t in
      case instanceInList (gi_Name i) (ot_found t) of
        None \<Rightarrow>
          (case remove_runner E (fr_ID (ot_runner t)) w of
             (err, w1) \<Rightarrow>
               (if err \<noteq> None \<and> err \<noteq> Some (StoreErr GNotFound) then (err, w1)
                else case db_call E (\<lambda>env. DeleteInstance env (gi_PoolID i) (gi_Name i)) w1 of
                  (Some e, w2) \<Rightarrow> (Some (StoreErr e), w2)
                | (None, w2) \<Rightarrow> (None, w2)))
      | Some p \<Rightarrow>
          if pri_Status p = InstanceRunning then (None, w)
          else (me_StartInstance E (mw_tick w) (gi_ProviderID i), provider_call_made (ProviderStart (gi_ProviderID i)) w))"

text \<open>An error of the loop is returned at once, but the goroutines already started go on.\<close>

definition cleanupOrphanedGithubRunners :: "manager_env \<Rightarrow> forge_runner list \<Rightarrow> manager_world \<Rightarrow> manager_error option \<times> manager_world" where
  "cleanupOrphanedGithubRunners E rs w =
     (case find_orphans E rs [] w of
        ((e, ts), w1) \<Rightarrow> (case run_group (orphan_one E) ts w1 of (e', w2) \<Rightarrow> (if e = None then e' else e, w2)))"

definition cleanupOrphanedRunners :: "manager_env \<Rightarrow> forge_runner list \<Rightarrow> manager_world \<Rightarrow> manager_error option \<times> manager_world" where
  "cleanupOrphanedRunners E rs w =
     (case cleanupOrphanedProviderRunners E rs w of
        (Some e, w1) \<Rightarrow> (Some e, w1)
      | (None, w1) \<Rightarrow> cleanupOrphanedGithubRunners E rs w1)"

section \<open>Listing runners\<close>

text \<open>\<^verbatim>\<open>listRunnersWithPagination\<close>: no result when the forge never ends the pages.\<close>

partial_function (option) list_runner_pages ::
    "(nat \<Rightarrow> int \<Rightarrow> (nat option, forge_runner list \<times> int) result) \<Rightarrow> int \<Rightarrow> forge_runner list \<Rightarrow> nat \<Rightarrow>
     ((manager_error, forge_runner list) result \<times> nat) option" where
  "list_runner_pages page n acc tick =
     (case page tick n of
        Inl code \<Rightarrow> Some (Inl (if code = Some 401 then Unauthorized ''error fetching runners''
                             else MgrErr ''error fetching runners''), Suc tick)
      | Inr (rs, next) \<Rightarrow>
          if next = 0 then Some (Inr (acc @ rs), Suc tick) else list_runner_pages page next (acc @ rs) (Suc tick))"

definition listRunnersWithPagination :: "manager_env \<Rightarrow> manager_world \<Rightarrow> ((manager_error, forge_runner list) result \<times> manager_world) option" where
  "listRunnersWithPagination E w =
     map_option (\<lambda>(r, tick). (r, w\<lparr>mw_tick := tick\<rparr>)) (list_runner_pages (me_ListEntityRunners E) 0 [] (mw_tick w))"

definition RunnerReference_GetStatus :: "runner_reference \<Rightarrow> string" where
  "RunnerReference_GetStatus r =
     (case rf_Status r of
        None \<Rightarrow> RunnerUnknown
      | Some s \<Rightarrow> if \<not> RunnerStatus_IsValid s then RunnerUnknown
          else if s = RunnerOnline then (if rf_Busy r then RunnerActive else RunnerIdle) else s)"

definition runner_of_reference :: "runner_reference \<Rightarrow> forge_runner" where
  "runner_of_reference r = \<lparr>fr_ID = rf_ID r, fr_Name = rf_Name r, fr_Status = RunnerReference_GetStatus r,
     fr_Labels = map (\<lambda>(n, ty). \<lparr>rl_ID = 0, rl_Name = n, rl_Type = ty\<rparr>) (rf_Labels r)\<rparr>"

definition listRunnersWithScaleSetAPI :: "manager_env \<Rightarrow> manager_world \<Rightarrow> (string, forge_runner list) result \<times> manager_world" where
  "listRunnersWithScaleSetAPI E w =
     (case me_ListAllRunners E of
        None \<Rightarrow> (Inl ''scaleset client not initialized'', w)
      | Some list_all_runners \<Rightarrow>
          ((case list_all_runners (mw_tick w) of
              Inl e \<Rightarrow> Inl e
            | Inr rs \<Rightarrow> Inr (map runner_of_reference (filter (\<lambda>r. rf_RunnerScaleSetID r = 0) rs))), next_tick w))"

definition GetGithubRunners :: "manager_env \<Rightarrow> forge_caches \<Rightarrow> manager_world \<Rightarrow>
    ((manager_error, forge_runner list) result \<times> manager_world) option" where
  "GetGithubRunners E caches w =
     (if me_ListAllRunners E = None then listRunnersWithPagination E w
      else case listRunnersWithScaleSetAPI E w of
        (Inl _, w1) \<Rightarrow> listRunnersWithPagination E w1
      | (Inr rs, w1) \<Rightarrow>
          if cache_GetEntityInstances (ge_ID (mw_entity w)) caches \<noteq> [] \<and> rs = [] then listRunnersWithPagination E w1
          else Some (Inr rs, w1))"

definition runnerCleanup :: "manager_env \<Rightarrow> forge_caches \<Rightarrow> manager_world \<Rightarrow> (manager_error option \<times> manager_world) option" where
  "runnerCleanup E caches w =
     (case GetGithubRunners E caches w of
        None \<Rightarrow> None
      | Some (Inl e, w1) \<Rightarrow> Some (Some e, w1)
      | Some (Inr rs, w1) \<Rightarrow>
          Some (case reapTimedOutRunners E rs w1 of
                  (Some e, w2) \<Rightarrow> (Some e, w2)
                | (None, w2) \<Rightarrow> cleanupOrphanedRunners E rs w2))"

section \<open>Interrupted instances\<close>

definition cleanupRunnersInterruptedInFlight :: "manager_env \<Rightarrow> manager_world \<Rightarrow> manager_error option \<times> manager_world" where
  "cleanupRunnersInterruptedInFlight E w =
     (case entity_instances E w of
        Inl e \<Rightarrow> (Some (StoreErr e), w)
      | Inr is \<Rightarrow> (None, fold (\<lambda>i w. snd (pool_DeleteRunner E i False True w))
          (filter (\<lambda>i. gi_ScaleSetID i = 0 \<and> gi_Status i \<in> {InstanceCreating, InstanceDeleting}) is) w))"

end
