(* ===== verification/ForgeManagerEvents.thy ===== *)
theory ForgeManagerEvents
  imports ForgeDispatch ForgeReaper
begin

text \<open>
  The pool manager as a whole: the payloads of the watcher it reacts to (\<^verbatim>\<open>runner/pool/watcher.go\<close>), its
  start, its loops, and the steps it takes.
\<close>

section \<open>Watcher events\<close>

definition composeWatcherFilters :: "forge_entity \<Rightarrow> payload_filter" where
  "composeWatcherFilters e = WithAny
     [WithAll [WithEntityTypeFilter ControllerEntityType, WithOperationTypeFilter UpdateOperation],
      WithEntityFilter e,
      WithForgeCredentialsFilter (ge_Credentials e),
      WithAll [WithEntityJobFilter e,
        WithAny [WithOperationTypeFilter UpdateOperation, WithOperationTypeFilter CreateOperation,
          WithOperationTypeFilter DeleteOperation]]]"

definition handleControllerUpdateEvent :: "controller_info \<Rightarrow> manager_world \<Rightarrow> manager_world" where
  "handleControllerUpdateEvent c = on_mgr (\<lambda>m. m\<lparr>pmg_controllerInfo := c\<rparr>)"

text \<open>The tools are updated last, by a deferred function. The client is part of the environment.\<close>

definition handleEntityUpdate :: "manager_env \<Rightarrow> forge_entity \<Rightarrow> operation_type \<Rightarrow> manager_world \<Rightarrow> manager_world" where
  "handleEntityUpdate E e op w =
     (if ge_ID (mw_entity w) \<noteq> ge_ID e then w
      else if op = DeleteOperation then on_mgr (\<lambda>m. m\<lparr>pmg_consumerClosed := True\<rparr>) w
      else if op \<noteq> UpdateOperation then w
      else
        (let credentialsUpdate = (gk_ID (ge_Credentials (mw_entity w)) \<noteq> gk_ID (ge_Credentials e));
             w1 = on_mgr (\<lambda>m. m\<lparr>pmg_entity := e\<rparr>) w
         in if credentialsUpdate
            then snd (updateTools E (on_mgr (\<lambda>m. m\<lparr>pmg_consumerFilter := composeWatcherFilters e\<rparr>) w1))
            else w1))"

definition handleCredentialsUpdate :: "manager_env \<Rightarrow> forge_credentials \<Rightarrow> manager_world \<Rightarrow> manager_world" where
  "handleCredentialsUpdate E c w =
     (if gk_ID (ge_Credentials (mw_entity w)) = gk_ID c
      then snd (updateTools E (on_mgr (\<lambda>m. m\<lparr>pmg_entity := (pmg_entity m)\<lparr>ge_Credentials := c\<rparr>\<rparr>) w))
      else w)"

text \<open>The payloads that have a method \<^verbatim>\<open>GetEntity\<close>.\<close>

definition payload_entity :: "garm_payload \<Rightarrow> (string, forge_entity) result option" where
  "payload_entity p =
     (case p of
        PRepository r \<Rightarrow> Some (Repository_GetEntity r)
      | POrganization g \<Rightarrow> Some (Organization_GetEntity g)
      | PEnterprise g \<Rightarrow> Some (Enterprise_GetEntity g)
      | PPool q \<Rightarrow> Some (Pool_GetEntity q)
      | PScaleSet s \<Rightarrow> Some (ScaleSet_GetEntity s)
      | _ \<Rightarrow> None)"

definition record_job :: "operation_type \<Rightarrow> garm_job \<Rightarrow> manager_world \<Rightarrow> manager_world" where
  "record_job op j = on_mgr (\<lambda>m. m\<lparr>pmg_jobs :=
     (if op \<noteq> DeleteOperation \<and> gj_Status j \<noteq> JobStatusCompleted then tbl_upsert gj_ID j (pmg_jobs m)
      else tbl_delete gj_ID (gj_ID j) (pmg_jobs m))\<rparr>)"

definition handleWatcherEvent :: "manager_env \<Rightarrow> change_payload \<Rightarrow> manager_world \<Rightarrow> manager_world" where
  "handleWatcherEvent E p w =
     (if chp_EntityType p \<in> {GithubCredentialsEntityType, GiteaCredentialsEntityType}
      then (case chp_Payload p of PCredentials c \<Rightarrow> handleCredentialsUpdate E c w | _ \<Rightarrow> w)
      else if chp_EntityType p = ControllerEntityType
      then (case chp_Payload p of PController c \<Rightarrow> handleControllerUpdateEvent c w | _ \<Rightarrow> w)
      else if chp_EntityType p = ge_EntityType (mw_entity w)
      then (case payload_entity (chp_Payload p) of
              Some (Inr e) \<Rightarrow> handleEntityUpdate E e (chp_Operation p) w | _ \<Rightarrow> w)
      else if chp_EntityType p = JobEntityType
      then (case chp_Payload p of
              PJob j \<Rightarrow> if Job_BelongsTo j (mw_entity w) then record_job (chp_Operation p) j w else w
            | _ \<Rightarrow> w)
      else w)"

text \<open>What the consumer lets through reaches the manager until the consumer is closed.\<close>

definition watch_event :: "manager_env \<Rightarrow> change_payload \<Rightarrow> manager_world \<Rightarrow> manager_world" where
  "watch_event E p w =
     (if \<not> pmg_consumerClosed (mw_mgr w) \<and> pmg_consumerFilter (mw_mgr w) p then handleWatcherEvent E p w else w)"

text \<open>\<^verbatim>\<open>runWatcher\<close> starts with the queued jobs of the database.\<close>

definition load_jobs :: "manager_env \<Rightarrow> manager_world \<Rightarrow> manager_world" where
  "load_jobs E w =
     (case ListEntityJobsByStatus (env_now E w) (ge_EntityType (mw_entity w)) (ge_ID (mw_entity w)) JobStatusQueued (mw_store w) of
        Inl _ \<Rightarrow> w
      | Inr js \<Rightarrow> on_mgr (\<lambda>m. m\<lparr>pmg_jobs := fold (tbl_upsert gj_ID) js (pmg_jobs m)\<rparr>) w)"

section \<open>Loops\<close>

datatype manager_loop =
    TimeoutReaper | ScaleDownLoop | DeletePending | AddPending | EnsureMinIdle | RetryFailed | UpdateToolsLoop
  | JobQueueConsumer | StaleJobReconciler

definition always_runs :: "manager_loop \<Rightarrow> bool" where
  "always_runs l \<longleftrightarrow> l \<in> {DeletePending, UpdateToolsLoop}"

definition loop_body :: "manager_env \<Rightarrow> forge_caches \<Rightarrow> manager_loop \<Rightarrow> manager_world \<Rightarrow> (manager_error option \<times> manager_world) option" where
  "loop_body E caches l w =
     (case l of
        TimeoutReaper \<Rightarrow> runnerCleanup E caches w
      | ScaleDownLoop \<Rightarrow> Some (scaleDown E caches w)
      | DeletePending \<Rightarrow> Some (deletePendingInstances E w)
      | AddPending \<Rightarrow> Some (addPendingInstances E w)
      | EnsureMinIdle \<Rightarrow> Some (ensureMinIdleRunners E caches w)
      | RetryFailed \<Rightarrow> Some (retryFailedInstances E caches w)
      | UpdateToolsLoop \<Rightarrow> Some (updateTools E w)
      | JobQueueConsumer \<Rightarrow> Some (consumeQueuedJobs E w)
      | StaleJobReconciler \<Rightarrow> Some (reconcileStaleJobs E w))"

text \<open>One round of \<^verbatim>\<open>startLoopForFunction\<close>: an unauthorized error stops the manager.\<close>

definition loop_round :: "manager_env \<Rightarrow> forge_caches \<Rightarrow> manager_loop \<Rightarrow> manager_world \<Rightarrow> manager_world option" where
  "loop_round E caches l w =
     (if pmg_managerIsRunning (mw_mgr w) \<or> always_runs l
      then (case loop_body E caches l w of
              None \<Rightarrow> None
            | Some (Some (Unauthorized e), w') \<Rightarrow> Some (SetPoolRunningState False e w')
            | Some (_, w') \<Rightarrow> Some w')
      else Some w)"

text \<open>
  \<^verbatim>\<open>Start\<close> up to the start of the loops: interrupted instances are marked for deletion, and the tools are
  read when there are some.
\<close>

definition Start :: "manager_env \<Rightarrow> manager_world \<Rightarrow> manager_world" where
  "Start E w =
     (let w1 = SetPoolRunningState False ''pool manager is starting up'' w
      in load_jobs E (snd (updateTools E (snd (cleanupRunnersInterruptedInFlight E w1)))))"

section \<open>Steps of a manager\<close>

datatype manager_event = Loop manager_loop forge_caches | Webhook workflow_job | Watch change_payload

definition manager_event_step :: "manager_env \<Rightarrow> manager_event \<Rightarrow> manager_world \<Rightarrow> manager_world option" where
  "manager_event_step E ev w =
     (case ev of
        Loop l caches \<Rightarrow> loop_round E caches l w
      | Webhook job \<Rightarrow> Some (snd (HandleWorkflowJob E job w))
      | Watch p \<Rightarrow> Some (watch_event E p w))"

inductive manager_steps :: "manager_env \<Rightarrow> manager_world \<Rightarrow> manager_world \<Rightarrow> bool" for E where
  manager_idle: "manager_steps E w w"
| manager_more: "manager_steps E w w1 \<Longrightarrow> manager_event_step E ev w1 = Some w2 \<Longrightarrow> manager_steps E w w2"

end
