(* ===== verification/ForgeManagerFrame.thy ===== *)
theory ForgeManagerFrame
  imports ForgeManagerEvents
begin

text \<open>
  What every step of a pool manager keeps: a locale for the invariants of the store, with the laws
  each database operation the manager calls has to obey, and the frame of every manager operation
  proved from them. Pairs are taken apart by \<open>case_prod_beta\<close>, so each frame is a rewrite rule on the
  second component.
\<close>

section \<open>What does not touch the store\<close>

lemma store_next_tick [simp]: "mw_store (next_tick w) = mw_store w"
  by (simp add: next_tick_def)

lemma store_SetPoolRunningState [simp]: "mw_store (SetPoolRunningState b r w) = mw_store w"
  by (simp add: SetPoolRunningState_def Let_def)

lemma store_updateTools [simp]: "mw_store (snd (updateTools E w)) = mw_store w"
  by (simp add: updateTools_def split: sum.split)

lemma store_remove_runner [simp]: "mw_store (snd (remove_runner E a w)) = mw_store w"
  by (simp add: remove_runner_def)

lemma store_remove_at_forge [simp]: "mw_store (snd (remove_at_forge E a b w)) = mw_store w"
  by (simp add: remove_at_forge_def case_prod_beta split: option.split manager_error.split)

lemma store_provider_call [simp]: "mw_store (provider_call_made c w) = mw_store w"
  by (simp add: provider_call_made_def)

lemma store_deleteInstanceFromProvider [simp]: "mw_store (snd (deleteInstanceFromProvider E i w)) = mw_store w"
  by (simp add: deleteInstanceFromProvider_def Let_def split: sum.split)

lemma store_on_backoff [simp]: "mw_store (on_backoff f w) = mw_store w"
  by (simp add: on_backoff_def)

lemma store_should_process [simp]: "mw_store (snd (should_process E n w)) = mw_store w"
  by (simp add: should_process_def case_prod_beta)

lemma store_start_deletions [simp]: "mw_store (snd (start_deletions E is w)) = mw_store w"
  by (induction "is" arbitrary: w) (simp_all add: case_prod_beta split: bool.split)

lemma store_start_retries [simp]: "mw_store (snd (start_retries E is w)) = mw_store w"
  by (induction "is" arbitrary: w) (simp_all add: case_prod_beta)

lemma store_provider_instances [simp]: "mw_store (snd (snd (provider_instances E p c w))) = mw_store w"
  by (simp add: provider_instances_def split: option.split sum.split)

lemma store_sort_labels [simp]: "mw_store (sort_labels i w) = mw_store w"
  by (simp add: sort_labels_def)

lemma store_set_checked [simp]: "mw_store (set_checked c w) = mw_store w"
  by (simp add: set_checked_def)

lemma store_forget_check [simp]: "mw_store (forget_check k w) = mw_store w"
  by (simp add: forget_check_def)

lemma store_load_jobs [simp]: "mw_store (load_jobs E w) = mw_store w"
  by (simp add: load_jobs_def split: sum.split)

lemma store_find_orphans [simp]: "mw_store (snd (find_orphans E rs c w)) = mw_store w"
  by (induction rs arbitrary: c w) (simp_all add: case_prod_beta split: sum.split option.split)

lemma store_handlers [simp]:
  "mw_store (handleCredentialsUpdate E c w) = mw_store w"
  "mw_store (handleControllerUpdateEvent ci w) = mw_store w"
  "mw_store (handleEntityUpdate E e op w) = mw_store w"
  "mw_store (record_job op j w) = mw_store w"
  by (simp_all add: handleCredentialsUpdate_def handleControllerUpdateEvent_def handleEntityUpdate_def record_job_def Let_def)

lemma store_watch_event [simp]: "mw_store (watch_event E p w) = mw_store w"
proof -
  have "mw_store (handleWatcherEvent E p w) = mw_store w"
    by (cases "chp_Payload p") (simp_all add: handleWatcherEvent_def split: option.split sum.split)
  then show ?thesis by (simp add: watch_event_def)
qed

lemma store_list_runners: "listRunnersWithPagination E w = Some (r, w') \<Longrightarrow> mw_store w' = mw_store w"
  by (auto simp: listRunnersWithPagination_def)

lemma store_scale_set_runners [simp]: "mw_store (snd (listRunnersWithScaleSetAPI E w)) = mw_store w"
  by (simp add: listRunnersWithScaleSetAPI_def split: option.split)

lemma store_GetGithubRunners: "GetGithubRunners E caches w = Some (r, w') \<Longrightarrow> mw_store w' = mw_store w"
  by (auto simp: GetGithubRunners_def case_prod_beta dest!: store_list_runners split: if_splits sum.splits)

section \<open>Invariants of the store\<close>

text \<open>
  The laws: what each operation of the database does to an invariant. A job is recorded by a manager
  only as \<^verbatim>\<open>persistJobToDB\<close> does it, not locked, not of a scale set, and not behind the row it replaces.
\<close>

definition recordable :: "garm_job \<Rightarrow> job_store \<Rightarrow> bool" where
  "recordable j st \<longleftrightarrow>
     gj_ScaleSetJobID j = [] \<and> gj_LockedBy j = uuid_Nil
     \<and> (\<forall>old. GetJobByID (gj_WorkflowJobID j) st = Inr old \<longrightarrow> statusRank (gj_Action old) \<le> statusRank (gj_Action j))"

locale store_invariant =
  fixes I :: "job_store \<Rightarrow> bool"
  assumes update_keeps: "I st \<Longrightarrow> I (snd (on_db (updateInstance env force n p) st))"
    and create_keeps: "I st \<Longrightarrow> I (snd (on_db (CreateInstance env poolID cp) st))"
    and delete_keeps: "I st \<Longrightarrow> I (snd (on_db (DeleteInstance env poolID n) st))"
    and record_keeps: "I st \<Longrightarrow> recordable j st \<Longrightarrow> I (snd (CreateOrUpdateJob env j st))"
    and delete_job_keeps: "I st \<Longrightarrow> I (snd (DeleteJob env k st))"
    and lock_keeps: "I st \<Longrightarrow> I (snd (LockJob env k e st))"
    and unlock_keeps: "I st \<Longrightarrow> I (snd (UnlockJob env k e st))"
    and break_keeps: "I st \<Longrightarrow> I (snd (BreakLockJobIsQueued env k st))"
    and inactionable_keeps: "I st \<Longrightarrow> I (snd (DeleteInactionableJobs env t st))"
begin

abbreviation ok :: "manager_world \<Rightarrow> bool" where
  "ok w \<equiv> I (mw_store w)"

lemma job_call_ok: "(\<And>env. I (snd (f env (mw_store w)))) \<Longrightarrow> ok (snd (job_call E f w))"
  by (simp add: job_call_def case_prod_beta)

lemma update_call_ok [simp]: "ok w \<Longrightarrow> ok (snd (update_call E force n p w))"
  by (simp add: update_call_def db_call_def job_call_ok update_keeps)

lemma status_ok [simp]:
  "ok w \<Longrightarrow> ok (snd (setInstanceRunnerStatus E n s w))"
  "ok w \<Longrightarrow> ok (snd (setInstanceStatus E n s f force w))"
  by (simp_all add: setInstanceRunnerStatus_def setInstanceStatus_def)

lemma instance_call_ok [simp]:
  "ok w \<Longrightarrow> ok (snd (db_call E (\<lambda>env. DeleteInstance env p n) w))"
  "ok w \<Longrightarrow> ok (snd (db_call E (\<lambda>env. CreateInstance env p c) w))"
  by (simp_all add: db_call_def job_call_ok delete_keeps create_keeps)

lemma delete_job_ok [simp]: "ok w \<Longrightarrow> ok (delete_job E k w)"
  by (simp add: delete_job_def job_call_ok delete_job_keeps)

lemma AddRunner_ok [simp]: "ok w \<Longrightarrow> ok (snd (AddRunner E p ls w))"
  by (simp add: AddRunner_def Let_def case_prod_beta split: sum.split option.split)

lemma addRunnerToPool_ok [simp]: "ok w \<Longrightarrow> ok (snd (addRunnerToPool E p ls w))"
  by (simp add: addRunnerToPool_def split: sum.split)

lemma add_runners_ok [simp]: "ok w \<Longrightarrow> ok (snd (add_runners E p n w))"
  by (induction n arbitrary: w) (simp_all add: case_prod_beta split: option.split)

lemma ensure_ok [simp]: "ok w \<Longrightarrow> ok (snd (ensureIdleRunnersForOnePool E p w))"
  by (simp add: ensureIdleRunnersForOnePool_def split: sum.split)

lemma DeleteRunner_ok [simp]: "ok w \<Longrightarrow> ok (snd (pool_DeleteRunner E i f b w))"
  by (simp add: pool_DeleteRunner_def case_prod_beta)

lemma delete_runners_ok [simp]: "ok w \<Longrightarrow> ok (snd (delete_runners E is w))"
  by (induction "is" arbitrary: w) (simp_all add: case_prod_beta)

lemma delete_stale_jobs_ok [simp]: "ok w \<Longrightarrow> ok (delete_stale_jobs E p js w)"
  unfolding delete_stale_jobs_def by (induction js arbitrary: w) simp_all

lemma scaleDownOnePool_ok [simp]: "ok w \<Longrightarrow> ok (snd (scaleDownOnePool E p w))"
  by (simp add: scaleDownOnePool_def Let_def case_prod_beta split: sum.split)

lemma run_group_ok [simp]: "(\<And>x w. ok w \<Longrightarrow> ok (snd (f x w))) \<Longrightarrow> ok w \<Longrightarrow> ok (snd (run_group f xs w))"
  by (induction xs arbitrary: w) (simp_all add: case_prod_beta)

lemma fold_ok: "(\<And>x w. ok w \<Longrightarrow> ok (f x w)) \<Longrightarrow> ok w \<Longrightarrow> ok (fold f xs w)"
  by (induction xs arbitrary: w) simp_all

lemma addInstanceToProvider_ok [simp]: "ok w \<Longrightarrow> ok (snd (addInstanceToProvider E i w))"
  by (simp add: addInstanceToProvider_def Let_def case_prod_beta split: option.split sum.split)

lemma create_one_ok [simp]: "ok w \<Longrightarrow> ok (create_one E i w)"
  by (simp add: create_one_def set_error_status_def case_prod_beta split: option.split)

lemma start_creations_ok [simp]: "ok w \<Longrightarrow> ok (snd (start_creations E is w))"
  by (induction "is" arbitrary: w) (simp_all add: case_prod_beta split: sum.split)

lemma addPendingInstances_ok [simp]: "ok w \<Longrightarrow> ok (snd (addPendingInstances E w))"
  by (simp add: addPendingInstances_def case_prod_beta fold_ok split: sum.split)

lemma deletion_failed_ok [simp]: "ok w \<Longrightarrow> ok (deletion_failed E i e w)"
  by (simp add: deletion_failed_def Let_def)

lemma delete_one_ok [simp]: "ok w \<Longrightarrow> ok (delete_one E i w)"
  by (simp add: delete_one_def case_prod_beta split: option.split sum.split)

lemma deletePendingInstances_ok [simp]: "ok w \<Longrightarrow> ok (snd (deletePendingInstances E w))"
  by (simp add: deletePendingInstances_def case_prod_beta fold_ok split: sum.split)

lemma retry_one_ok [simp]: "ok w \<Longrightarrow> ok (snd (retry_one E i w))"
  by (simp add: retry_one_def case_prod_beta split: option.split)

lemma retry_pool_ok [simp]: "ok w \<Longrightarrow> ok (snd (retryFailedInstancesForOnePool E p w))"
  by (simp add: retryFailedInstancesForOnePool_def case_prod_beta split: sum.split)

lemma pool_loops_ok [simp]:
  "ok w \<Longrightarrow> ok (snd (retryFailedInstances E c w))"
  "ok w \<Longrightarrow> ok (snd (scaleDown E c w))"
  "ok w \<Longrightarrow> ok (snd (ensureMinIdleRunners E c w))"
  by (simp_all add: retryFailedInstances_def scaleDown_def ensureMinIdleRunners_def for_pools_def)

lemma reap_instances_ok [simp]: "ok w \<Longrightarrow> ok (snd (reap_instances E rs is w))"
  by (induction "is" arbitrary: w) (simp_all add: case_prod_beta split: sum.split option.split)

lemma orphaned_ok [simp]: "ok w \<Longrightarrow> ok (snd (orphaned_at_provider E ns is w))"
  by (induction "is" arbitrary: w) (simp_all add: case_prod_beta split: sum.split)

lemma orphan_one_ok [simp]: "ok w \<Longrightarrow> ok (snd (orphan_one E t w))"
  by (simp add: orphan_one_def Let_def case_prod_beta split: option.split)

lemma cleanup_ok [simp]:
  "ok w \<Longrightarrow> ok (snd (reapTimedOutRunners E rs w))"
  "ok w \<Longrightarrow> ok (snd (cleanupOrphanedProviderRunners E rs w))"
  "ok w \<Longrightarrow> ok (snd (cleanupOrphanedGithubRunners E rs w))"
  by (simp_all add: reapTimedOutRunners_def cleanupOrphanedProviderRunners_def cleanupOrphanedGithubRunners_def
      case_prod_beta split: sum.split)

lemma cleanupOrphanedRunners_ok [simp]: "ok w \<Longrightarrow> ok (snd (cleanupOrphanedRunners E rs w))"
  by (simp add: cleanupOrphanedRunners_def case_prod_beta split: option.split)

lemma runnerCleanup_ok: "runnerCleanup E c w = Some (r, w') \<Longrightarrow> ok w \<Longrightarrow> ok w'"
  by (auto simp: runnerCleanup_def case_prod_beta dest!: store_GetGithubRunners split: option.splits sum.splits)
    (metis cleanup_ok(1) cleanupOrphanedRunners_ok snd_conv)+

lemma unlock_job_ok [simp]: "ok w \<Longrightarrow> ok (snd (unlock_job E j w))"
  by (simp add: unlock_job_def job_call_ok unlock_keeps)

lemma lock_job_ok [simp]: "ok w \<Longrightarrow> ok (snd (lock_job E j w))"
  by (simp add: lock_job_def job_call_ok lock_keeps)

lemma try_pools_ok [simp]: "ok w \<Longrightarrow> ok (snd (snd (try_pools E ls n rr w)))"
  by (induction n arbitrary: rr w) (simp_all add: case_prod_beta split: next_pool.split option.split)

lemma job_turn_ok [simp]: "ok w \<Longrightarrow> ok (snd (job_turn E j w))"
  by (simp add: job_turn_def Let_def case_prod_beta split: option.split)

lemma serve_job_ok [simp]: "ok w \<Longrightarrow> ok (snd (snd (serve_job E j c w)))"
  by (simp add: serve_job_def Let_def case_prod_beta split: bool.split option.split attempt.split)

lemma serve_jobs_ok [simp]: "ok w \<Longrightarrow> ok (snd (serve_jobs E js c w))"
  by (induction js arbitrary: c w) (simp_all add: case_prod_beta split: option.split)

lemma consumeQueuedJobs_ok [simp]: "ok w \<Longrightarrow> ok (snd (consumeQueuedJobs E w))"
  by (simp add: consumeQueuedJobs_def case_prod_beta job_call_ok inactionable_keeps)

lemma check_job_ok [simp]: "ok w \<Longrightarrow> ok (check_job E j w)"
  by (simp add: check_job_def Let_def split: sum.split option.split)

lemma check_jobs_ok [simp]: "ok w \<Longrightarrow> ok (check_jobs E js n w)"
  by (induction js arbitrary: n w) simp_all

lemma reconcileStaleJobs_ok [simp]: "ok w \<Longrightarrow> ok (snd (reconcileStaleJobs E w))"
  by (simp add: reconcileStaleJobs_def Let_def split: sum.split garm_db_error.split)

lemma persist_ok [simp]:
  "ok w \<Longrightarrow> gj_ScaleSetJobID j = [] \<Longrightarrow> gj_LockedBy j = uuid_Nil \<Longrightarrow> ok (snd (persistJobToDB E j w))"
  by (auto simp: persistJobToDB_def persist_check_def persist_write_def Let_def case_prod_beta not_less recordable_def
      intro!: job_call_ok record_keeps split: sum.splits option.splits if_splits)

lemma handlers_ok [simp]:
  "ok w \<Longrightarrow> ok (snd (handleCompletedJob E j w))"
  "ok w \<Longrightarrow> ok (snd (handleInProgressJob E j w))"
  by (simp_all add: handleCompletedJob_def handleInProgressJob_def case_prod_beta split: sum.split option.split)

lemma HandleWorkflowJob_ok [simp]: "ok w \<Longrightarrow> ok (snd (HandleWorkflowJob E job w))"
proof -
  have fresh: "gj_ScaleSetJobID j = [] \<and> gj_LockedBy j = uuid_Nil"
    if "paramsWorkflowJobToParamsJob env e job = Inr j" for env e j
    using that by (auto simp: paramsWorkflowJobToParamsJob_def Let_def split: option.splits if_splits)
  show "ok w \<Longrightarrow> ok (snd (HandleWorkflowJob E job w))"
    by (auto simp: HandleWorkflowJob_def case_prod_beta fresh job_call_ok break_keeps split: option.split sum.split)
qed

lemma loop_body_ok: "loop_body E c l w = Some (r, w') \<Longrightarrow> ok w \<Longrightarrow> ok w'"
  by (cases l) (auto simp: loop_body_def dest: runnerCleanup_ok, (metis snd_conv pool_loops_ok deletePendingInstances_ok
      addPendingInstances_ok consumeQueuedJobs_ok reconcileStaleJobs_ok store_updateTools)+)

lemma loop_round_ok:
  assumes "loop_round E c l w = Some w'" "ok w"
  shows "ok w'"
proof (cases "loop_body E c l w")
  case (Some r)
  then have "ok (snd r)"
    using loop_body_ok [of E c l w "fst r" "snd r"] assms(2) by simp
  then show ?thesis
    using assms Some
    by (auto simp: loop_round_def split: if_splits option.splits manager_error.splits prod.splits)
qed (use assms in \<open>auto simp: loop_round_def split: if_splits\<close>)

lemma event_ok: "manager_event_step E ev w = Some w' \<Longrightarrow> ok w \<Longrightarrow> ok w'"
  by (auto simp: manager_event_step_def dest: loop_round_ok split: manager_event.splits)

theorem steps_ok: "manager_steps E w w' \<Longrightarrow> ok w \<Longrightarrow> ok w'"
  by (induction rule: manager_steps.induct) (auto dest: event_ok)

lemma Start_ok: "ok w \<Longrightarrow> ok (Start E w)"
  by (simp add: Start_def Let_def cleanupRunnersInterruptedInFlight_def fold_ok split: sum.split)

end

end
