(* ===== verification/ForgeManagerDemo.thy ===== *)
theory ForgeManagerDemo
  imports ForgeManagerFrame ForgeDemo
begin

text \<open>
  A concrete pool manager, at which the witnesses apply the theorems: a repository with two pools of
  one tag, a queued job, and a forge and a provider that answer every call.
\<close>

definition demo_entity :: forge_entity where
  "demo_entity = (entity_ref ''e1'' ForgeEntityTypeRepository)\<lparr>ge_Owner := ''acme'', ge_Name := ''app''\<rparr>"

definition demo_controller :: controller_info where
  "demo_controller = \<lparr>gci_ControllerID = ''c1'', gci_Hostname = [], gci_MetadataURL = [], gci_CallbackURL = [],
     gci_WebhookURL = [], gci_ControllerWebhookURL = [], gci_AgentURL = [], gci_GARMAgentReleasesURL = [],
     gci_SyncGARMAgentTools = False, gci_MinimumJobAgeBackoff = 30, gci_Version = [], gci_CACertBundle = [],
     gci_CachedGARMAgentReleaseFetchedAt = None, gci_CachedGARMAgentRelease = [], gci_CachedGARMAgentTools = None\<rparr>"

definition demo_tagged_pool :: "string \<Rightarrow> nat \<Rightarrow> pool_model" where
  "demo_tagged_pool i n = (demo_pool_model i n)\<lparr>pm_Tags := [\<lparr>gt_ID = ''t1'', gt_Name = ''linux''\<rparr>]\<rparr>"

definition demo_job :: garm_job where
  "demo_job = \<lparr>gj_ID = 1, gj_WorkflowJobID = 71, gj_ScaleSetJobID = [], gj_RunID = 5, gj_Action = JobStatusQueued,
     gj_Conclusion = [], gj_Status = JobStatusQueued, gj_Name = ''build'', gj_StartedAt = 0, gj_CompletedAt = 0,
     gj_GithubRunnerID = 0, gj_RunnerName = [], gj_RunnerGroupID = 0, gj_RunnerGroupName = [],
     gj_RepositoryName = ''app'', gj_RepositoryOwner = ''acme'', gj_WorkflowRunURL = [], gj_Labels = [''linux''],
     gj_RepoID = Some ''e1'', gj_OrgID = None, gj_EnterpriseID = None, gj_LockedBy = uuid_Nil, gj_CreatedAt = 0, gj_UpdatedAt = 0\<rparr>"

definition demo_db_at :: "nat \<Rightarrow> db_env" where
  "demo_db_at n = (demo_db_env (CHR ''i'' # show_nat n))\<lparr>de_now := 60 * second\<rparr>"

definition demo_job_row :: job_model where
  "demo_job_row = paramsJobToWorkflowJob ((demo_db_at 0)\<lparr>de_now := 0\<rparr>) demo_job demo_garm_db 1"

definition demo_store :: job_store where
  "demo_store = \<lparr>js_db = demo_garm_db\<lparr>gd_pools := [demo_tagged_pool ''p1'' 0, demo_tagged_pool ''p2'' 2]\<rparr>,
     js_jobs = [demo_job_row], js_lastID = 1\<rparr>"

definition demo_manager_env :: manager_env where
  "demo_manager_env = \<lparr>me_db = demo_db_at, me_RemoveEntityRunner = (\<lambda>_ _. None),
     me_GetEntityJITConfig = (\<lambda>_ _. Inr ([(''k'', ''v'')], 9)), me_GetWorkflowJobByID = (\<lambda>_ _. Inl (Some 404)),
     me_providers = [''incus''], me_DisableJITConfig = (\<lambda>_. True),
     me_CreateInstance = (\<lambda>n i. Inr \<lparr>pri_ProviderID = CHR ''v'' # show_nat n, pri_Name = i, pri_OSName = [], pri_OSVersion = [],
        pri_Addresses = [], pri_Status = InstanceRunning, pri_ProviderFault = []\<rparr>),
     me_DeleteInstance = (\<lambda>_ _. None), me_StartInstance = (\<lambda>_ _. None), me_ListInstances = (\<lambda>_ _. Inr []),
     me_TryLock = (\<lambda>_ _. True), me_NewID = (\<lambda>n. show_nat n), me_bootstrap = (\<lambda>_ _. None), me_tools = (\<lambda>_. Inr []),
     me_fault = (\<lambda>_. [1]), me_ListEntityRunners = (\<lambda>_ _. Inr ([], 0)), me_ListAllRunners = None\<rparr>"

definition demo_manager :: pool_manager where
  "demo_manager = \<lparr>pmg_entity = demo_entity, pmg_controllerInfo = demo_controller, pmg_jobs = [demo_job], pmg_tools = [],
     pmg_checkedJobs = [], pmg_managerIsRunning = True, pmg_managerErrorReason = [], pmg_backoff = [],
     pmg_consumerFilter = composeWatcherFilters demo_entity, pmg_consumerClosed = False\<rparr>"

definition demo_manager_world :: manager_world where
  "demo_manager_world = \<lparr>mw_mgr = demo_manager, mw_store = demo_store, mw_tick = 0, mw_removed = [], mw_calls = [], mw_statuses = []\<rparr>"

definition demo_workflow_job :: "string \<Rightarrow> string \<Rightarrow> workflow_job" where
  "demo_workflow_job action runner = \<lparr>wj_Action = action, wj_ID = 71, wj_RunID = 5, wj_Status = action, wj_Conclusion = [],
     wj_StartedAt = 0, wj_CompletedAt = 0, wj_Name = ''build'', wj_Labels = [''linux''], wj_RunnerID = 0, wj_RunnerName = runner,
     wj_RunnerGroupID = 0, wj_RunnerGroupName = [], wj_RepositoryName = ''App'', wj_RepositoryOwner = ''Acme'',
     wj_RepositoryHTMLURL = [], wj_OrganizationLogin = [], wj_OrganizationName = [], wj_EnterpriseSlug = []\<rparr>"


text \<open>The consumer creates a runner in the second pool, as the first may have none.\<close>

definition demo_after_consume :: manager_world where
  "demo_after_consume = snd (consumeQueuedJobs demo_manager_env demo_manager_world)"

lemma demo_consumed:
  "map (\<lambda>m. (im_PoolID m, im_AditionalLabels m)) (gd_instances (mw_db demo_after_consume)) = [(Some ''p2'', [''in_response_to_job=71''])]"
  "fst (consumeQueuedJobs demo_manager_env demo_manager_world) = None"
  by code_simp+

lemma demo_consume_steps: "manager_steps demo_manager_env demo_manager_world demo_after_consume"
proof -
  have "manager_event_step demo_manager_env (Loop JobQueueConsumer empty_caches) demo_manager_world = Some demo_after_consume"
    using demo_consumed(2)
    by (auto simp: manager_event_step_def loop_round_def loop_body_def demo_manager_world_def demo_manager_def
        demo_after_consume_def split: prod.splits option.splits)
  then show ?thesis by (rule manager_more [OF manager_idle])
qed

text \<open>An instance whose creation failed, and the cache with its pool.\<close>

definition demo_failed_row :: instance_model where
  "demo_failed_row = (new_instance_model (demo_db_at 0) (demo_tagged_pool ''p2'' 2) (demo_create_params ''r1'') [])
     \<lparr>im_Status := InstanceError\<rparr>"

definition demo_failed_world :: manager_world where
  "demo_failed_world = demo_manager_world\<lparr>mw_store := demo_store\<lparr>js_db := (js_db demo_store)\<lparr>gd_instances := [demo_failed_row]\<rparr>\<rparr>\<rparr>"

definition demo_caches :: forge_caches where
  "demo_caches =
     (case GetPoolByID (demo_db_at 0) ''p2'' (mw_db demo_failed_world) of
        Inl _ \<Rightarrow> empty_caches
      | Inr p \<Rightarrow> cache_SetEntityPool ''e1'' p (cache_SetEntity demo_entity empty_caches))"

end
