(* ===== verification/ForgeManagerProps.thy ===== *)
theory ForgeManagerProps
  imports ForgeManagerFrame ForgeDbProps ForgeManagerDemo
begin

text \<open>
  Invariants of the pool manager, by interpretations of \<open>store_invariant\<close>: no pool grows above its
  maximum, and no recorded job goes back to an earlier action.
\<close>

section \<open>Operations on jobs leave the tables alone\<close>

lemma js_on_db [simp]: "js_db (snd (on_db f st)) = snd (f (js_db st))"
  by (simp add: on_db_def cascade_def case_prod_beta)

lemma jobs_notify_job [simp]:
  "js_jobs (notify_job env op j st) = js_jobs st" "js_lastID (notify_job env op j st) = js_lastID st"
  "gd_pools (js_db (notify_job env op j st)) = gd_pools (js_db st)"
  "gd_instances (js_db (notify_job env op j st)) = gd_instances (js_db st)"
  by (simp_all add: notify_job_def sendNotify_def)

lemma jobs_save_job [simp]:
  "js_db (save_job env j st) = js_db st" "js_lastID (save_job env j st) = js_lastID st"
  by (simp_all add: save_job_def)

lemma fold_notify_jobs [simp]:
  "js_jobs (fold (\<lambda>j. notify_job env op (f j)) js st) = js_jobs st"
  "js_lastID (fold (\<lambda>j. notify_job env op (f j)) js st) = js_lastID st"
  "gd_pools (js_db (fold (\<lambda>j. notify_job env op (f j)) js st)) = gd_pools (js_db st)"
  "gd_instances (js_db (fold (\<lambda>j. notify_job env op (f j)) js st)) = gd_instances (js_db st)"
  by (induction js arbitrary: st) simp_all

text \<open>The tables of pools and instances after an operation on jobs.\<close>

definition same_tables :: "job_store \<Rightarrow> job_store \<Rightarrow> bool" where
  "same_tables st st' \<longleftrightarrow> gd_pools (js_db st') = gd_pools (js_db st) \<and> gd_instances (js_db st') = gd_instances (js_db st)"

lemma set_lock_tables: "same_tables st (snd (set_lock_of env r e j st))"
  by (simp add: set_lock_of_def same_tables_def Let_def split: option.split)

lemma job_ops_tables:
  "same_tables st (snd (CreateOrUpdateJob env j st))"
  "same_tables st (snd (DeleteJob env k st))"
  "same_tables st (snd (LockJob env k e st))"
  "same_tables st (snd (UnlockJob env k e st))"
  "same_tables st (snd (BreakLockJobIsQueued env k st))"
  "same_tables st (snd (DeleteInactionableJobs env t st))"
  by (auto simp: CreateOrUpdateJob_def DeleteJob_def LockJob_def UnlockJob_def BreakLockJobIsQueued_def
      DeleteInactionableJobs_def same_tables_def Let_def set_lock_tables [unfolded same_tables_def] split: option.split)

section \<open>The maximum of a pool\<close>

lemma bounded_tables: "same_tables st st' \<Longrightarrow> pools_bounded (js_db st') = pools_bounded (js_db st)"
  by (simp add: same_tables_def pools_bounded_def pool_count_def)

definition capped :: "pool_model list \<Rightarrow> job_store \<Rightarrow> bool" where
  "capped ps st \<longleftrightarrow> gd_pools (js_db st) = ps \<and> pools_bounded (js_db st)"

lemma capped_tables: "same_tables st st' \<Longrightarrow> capped ps st \<Longrightarrow> capped ps st'"
  by (simp add: capped_def bounded_tables) (simp add: same_tables_def)

lemma capped_step: "capped ps st \<Longrightarrow> snd (f (js_db st)) = instance_step op (js_db st) \<Longrightarrow> capped ps (snd (on_db f st))"
  by (simp add: capped_def step_bounded)

interpretation capped: store_invariant "capped ps" for ps
proof
  fix st env force n p
  assume "capped ps st"
  then show "capped ps (snd (on_db (updateInstance env force n p) st))"
    by (rule capped_step [where op = "OpUpdate env force n p"]) simp
next
  fix st env poolID cp
  assume "capped ps st"
  then show "capped ps (snd (on_db (CreateInstance env poolID cp) st))"
    by (rule capped_step [where op = "OpCreate env poolID cp"]) simp
next
  fix st env poolID n
  assume "capped ps st"
  then show "capped ps (snd (on_db (DeleteInstance env poolID n) st))"
    by (rule capped_step [where op = "OpDelete env poolID n"]) simp
qed (auto intro: capped_tables job_ops_tables)

text \<open>
  C12. Whatever a pool manager does, its loops over any contents of the cache, the webhooks it takes and the
  payloads it sees, no pool that is within its maximum number of runners gets above it.
\<close>

theorem manager_respects_maximum:
  assumes "manager_steps E w w'" "pools_bounded (mw_db w)" "p \<in> set (gd_pools (mw_db w))"
  shows "p \<in> set (gd_pools (mw_db w')) \<and> pool_count (pm_ID p) (mw_db w') \<le> pm_MaxRunners p"
proof -
  have "capped (gd_pools (mw_db w)) (mw_store w')"
    using capped.steps_ok [OF assms(1)] assms(2) by (simp add: capped_def)
  then show ?thesis using assms(3) by (auto simp: capped_def pools_bounded_def)
qed

theorem manager_respects_maximum_witness:
  "demo_tagged_pool ''p2'' 2 \<in> set (gd_pools (mw_db demo_after_consume))
   \<and> pool_count (pm_ID (demo_tagged_pool ''p2'' 2)) (mw_db demo_after_consume) \<le> pm_MaxRunners (demo_tagged_pool ''p2'' 2)"
  by (rule manager_respects_maximum [OF demo_consume_steps])
    (simp_all add: demo_manager_world_def demo_store_def demo_garm_db_def pools_bounded_def tbl_ok_def pool_count_def
      demo_tagged_pool_def demo_pool_model_def)

section \<open>The action of a job\<close>

text \<open>\<open>job_kept st m\<close>: the row is new since \<open>st\<close>, or follows one of \<open>st\<close> whose action is not ahead of it.\<close>

definition job_follows :: "job_model \<Rightarrow> job_model \<Rightarrow> bool" where
  "job_follows m m' \<longleftrightarrow>
     jm_ID m' = jm_ID m \<and> jm_WorkflowJobID m' = jm_WorkflowJobID m \<and> jm_ScaleSetJobID m' = jm_ScaleSetJobID m
     \<and> statusRank (jm_Action m) \<le> statusRank (jm_Action m')"

definition forward :: "job_store \<Rightarrow> job_store \<Rightarrow> bool" where
  "forward s st \<longleftrightarrow> js_lastID s \<le> js_lastID st
     \<and> (\<forall>m' \<in> set (js_jobs st). js_lastID s < jm_ID m' \<or> (\<exists>m \<in> set (js_jobs s). job_follows m m'))"

lemma forward_refl [simp]: "forward s s"
  by (force simp: forward_def job_follows_def)

lemma forward_step:
  assumes "forward s st" "js_lastID st \<le> js_lastID st'"
    and "\<And>m'. m' \<in> set (js_jobs st') \<Longrightarrow> js_lastID st < jm_ID m' \<or> (\<exists>m \<in> set (js_jobs st). job_follows m m')"
  shows "forward s st'"
  unfolding forward_def
proof (intro conjI ballI)
  fix m' assume "m' \<in> set (js_jobs st')"
  from assms(3) [OF this] show "js_lastID s < jm_ID m' \<or> (\<exists>m \<in> set (js_jobs s). job_follows m m')"
    using assms(1) by (fastforce simp: forward_def job_follows_def)
qed (use assms in \<open>simp add: forward_def\<close>)

lemma forward_subset: "forward s st \<Longrightarrow> set (js_jobs st') \<subseteq> set (js_jobs st) \<Longrightarrow> js_lastID st' = js_lastID st \<Longrightarrow> forward s st'"
  by (rule forward_step) (auto simp: job_follows_def)

lemma forward_on_db: "forward s st \<Longrightarrow> forward s (snd (on_db f st))"
  by (rule forward_subset) (auto simp: on_db_def cascade_def case_prod_beta)

lemma forward_save:
  assumes "forward s st" "m \<in> set (js_jobs st)" "job_follows m m'"
  shows "forward s (notify_job env op p (save_job env' m' st))"
proof (rule forward_step [OF assms(1)])
  fix x assume "x \<in> set (js_jobs (notify_job env op p (save_job env' m' st)))"
  then obtain y where y: "y \<in> set (js_jobs st)" "x = y \<or> x = m'\<lparr>jm_UpdatedAt := de_now env'\<rparr>"
    by (auto simp: save_job_def tbl_update_def)
  then show "js_lastID st < jm_ID x \<or> (\<exists>m \<in> set (js_jobs st). job_follows m x)"
    using assms(2,3) by (auto simp: job_follows_def)
qed simp

lemma find_member: "find P xs = Some x \<Longrightarrow> x \<in> set xs \<and> P x"
  by (auto simp: find_Some_iff)

lemma forward_set_lock: "forward s st \<Longrightarrow> j \<in> set (js_jobs st) \<Longrightarrow> forward s (snd (set_lock_of env r e j st))"
  by (auto simp: set_lock_of_def Let_def job_follows_def intro: forward_save split: option.split)

lemma forward_record:
  assumes "forward s st" "recordable j st"
  shows "forward s (snd (CreateOrUpdateJob env j st))"
proof (cases "de_refused env")
  case None
  show ?thesis
  proof (cases "find (same_job j) (js_jobs st)")
    case (Some m)
    have same: "same_job j = (\<lambda>m. jm_WorkflowJobID m = gj_WorkflowJobID j)"
      using assms(2) by (simp add: recordable_def same_job_def fun_eq_iff)
    have "find_job (gj_WorkflowJobID j) st = Some m"
      using Some by (simp add: same find_job_def)
    then have "statusRank (jm_Action m) \<le> statusRank (gj_Action j)"
      using assms(2) by (simp add: recordable_def GetJobByID_def sqlWorkflowJobToParamsJob_def)
    then have "job_follows m ((update_job env j (js_db st) m)\<lparr>jm_UpdatedAt := de_now env\<rparr>)"
      by (simp add: job_follows_def update_job_def)
    then show ?thesis
      using None Some find_member [OF Some] assms(1)
      by (auto simp: CreateOrUpdateJob_def Let_def intro: forward_save)
  next
    case new: None
    show ?thesis
      by (rule forward_step [OF assms(1)])
        (auto simp: CreateOrUpdateJob_def None new Let_def paramsJobToWorkflowJob_def job_follows_def)
  qed
qed (use assms in \<open>simp add: CreateOrUpdateJob_def\<close>)

interpretation forward: store_invariant "forward s" for s
proof
  fix st env k
  assume I: "forward s st"
  show "forward s (snd (DeleteJob env k st))"
    by (rule forward_subset [OF I]) (auto simp: DeleteJob_def tbl_delete_def split: option.split)
  show "forward s (snd (BreakLockJobIsQueued env k st))"
    using I by (auto simp: BreakLockJobIsQueued_def dest!: find_member intro: forward_set_lock split: option.split)
  show "forward s (snd (DeleteInactionableJobs env k st))"
    by (rule forward_subset [OF I]) (auto simp: DeleteInactionableJobs_def Let_def split: option.split)
  fix e
  show "forward s (snd (LockJob env k e st))"
    using I by (auto simp: LockJob_def find_job_def dest!: find_member intro: forward_set_lock split: option.split)
  show "forward s (snd (UnlockJob env k e st))"
    using I by (auto simp: UnlockJob_def find_job_def dest!: find_member intro: forward_set_lock split: option.split)
qed (auto intro: forward_on_db forward_record)




text \<open>
  Without that: two webhooks of one queued job which both pass the check before either writes. The
  one of the completed job writes first and the job ends as in progress.
\<close>

definition demo_action_job :: "string \<Rightarrow> garm_job" where
  "demo_action_job action = demo_job\<lparr>gj_Action := action, gj_Status := action\<rparr>"

lemma webhooks_of_one_job_race:
  defines "w1 \<equiv> snd (persist_write demo_manager_env (demo_action_job JobStatusCompleted) demo_manager_world)"
  shows "persist_check demo_manager_env (demo_action_job JobStatusCompleted) demo_manager_world = None"
    "persist_check demo_manager_env (demo_action_job JobStatusInProgress) demo_manager_world = None"
    "map jm_Action (js_jobs (mw_store w1)) = [JobStatusCompleted]"
    "map jm_Action (js_jobs (mw_store (snd (persist_write demo_manager_env (demo_action_job JobStatusInProgress) w1))))
      = [JobStatusInProgress]"
  unfolding w1_def by code_simp+

end
