(* ===== verification/ForgePoolProps.thy ===== *)
theory ForgePoolProps
  imports ForgeManagerProps ForgeManagerDemo
begin

text \<open>
  The loops of the pool manager over instances: retrying, scaling up and down, and deleting.
\<close>

section \<open>Listings and their rows\<close>

definition reads_row :: "instance_model \<Rightarrow> garm_instance \<Rightarrow> bool" where
  "reads_row m i \<longleftrightarrow> gi_Name i = im_Name m \<and> gi_Status i = im_Status m \<and> gi_RunnerStatus i = im_RunnerStatus m
     \<and> gi_UpdatedAt i = im_UpdatedAt m \<and> gi_PoolID i = some_str (im_PoolID m)"

lemma converted_reads: "sqlToParamsInstance env db (listed_instance m) = Inr i \<Longrightarrow> reads_row m i"
  by (auto simp: sqlToParamsInstance_def Let_def reads_row_def base_instance_def listed_instance_def
      split: sum.splits if_splits)

lemma convert_all_reads: "convert_all env db (map listed_instance ms) = Inr is \<Longrightarrow> list_all2 reads_row ms is"
  by (induction ms arbitrary: "is") (auto dest: converted_reads split: sum.splits)

lemma pool_listing:
  assumes "ListPoolInstances env i False db = Inr is"
  obtains u where "de_uuid env i = Some u" "list_all2 reads_row (filter (\<lambda>m. im_PoolID m = Some u) (gd_instances db)) is"
  using assms by (auto simp: ListPoolInstances_def listInstancesBatched_def dest: convert_all_reads split: option.splits)

lemma list_all2_source: "list_all2 R xs ys \<Longrightarrow> y \<in> set ys \<Longrightarrow> \<exists>x \<in> set xs. R x y"
  by (induction rule: list_all2_induct) auto

lemma pool_listing_row:
  assumes "ListPoolInstances env p False db = Inr is" "i \<in> set is"
  obtains m where "m \<in> set (gd_instances db)" "reads_row m i"
proof -
  obtain u where "list_all2 reads_row (filter (\<lambda>m. im_PoolID m = Some u) (gd_instances db)) is"
    using pool_listing [OF assms(1)] by blast
  then show ?thesis
    using list_all2_source [OF _ assms(2)] that by fastforce
qed

section \<open>Names\<close>

text \<open>
  The names of instances are unique, and none of them is a UUID: \<^verbatim>\<open>AddRunner\<close> makes them of the
  runner prefix and a short id.
\<close>

definition names_ok :: "manager_env \<Rightarrow> garm_db \<Rightarrow> bool" where
  "names_ok E db \<longleftrightarrow> tbl_ok im_Name (gd_instances db)
     \<and> (\<forall>t. \<forall>m \<in> set (gd_instances db). de_uuid (me_db E t) (im_Name m) = None)"

lemma named_row:
  assumes "names_ok E db" "m \<in> set (gd_instances db)"
  shows "getInstance (me_db E t) (im_Name m) db = Inr m"
proof -
  have "tbl_find im_Name (im_Name m) (gd_instances db) = Some m"
    using assms by (auto simp: names_ok_def tbl_find_iff)
  then show ?thesis using assms by (auto simp: names_ok_def getInstance_def)
qed

section \<open>Retrying failed instances\<close>

lemma cascade_same [simp]: "cascade (js_db st) st = st"
  unfolding cascade_def by (simp add: filter_True split: option.split)

lemma refused_update:
  assumes "names_ok E (mw_db w)" "m \<in> set (gd_instances (mw_db w))" "check_update False p m = Some e"
  shows "mw_store (snd (update_call E False (im_Name m) p w)) = mw_store w"
  using assms named_row [OF assms(1,2)]
  by (simp add: update_call_def db_call_def job_call_def env_now_def on_db_def updateInstance_def)

lemma retry_refused:
  assumes "im_Status m = InstanceError"
  shows "\<exists>e. check_update False (retry_update i) m = Some e"
proof -
  have "\<exists>e. validateInstanceStatusTransition InstanceError InstancePendingCreate = Some e"
    by (simp add: validateInstanceStatusTransition_def validate_transition_def InstanceStatusTransitions_def)
  then show ?thesis
    using assms by (auto simp: check_update_def retry_update_def no_update_def split: option.split)
qed

text \<open>
  \<open>deletes w w' D\<close>: from \<open>w\<close> to \<open>w'\<close> the database and the manager are as they were, the providers were
  asked for deletions only, and for those of \<open>D\<close> among them.
\<close>

definition deletes :: "manager_world \<Rightarrow> manager_world \<Rightarrow> provider_call set \<Rightarrow> bool" where
  "deletes w w' D \<longleftrightarrow> mw_store w' = mw_store w \<and> mw_mgr w' = mw_mgr w
     \<and> (\<exists>ds. mw_calls w' = mw_calls w @ ds \<and> D \<subseteq> set ds \<and> set ds \<subseteq> range ProviderDelete)"

lemma deletes_refl [simp]: "deletes w w {}" "deletes w (next_tick w) {}"
  by (simp_all add: deletes_def next_tick_def)

lemma deletes_trans: "deletes w w1 D \<Longrightarrow> deletes w1 w2 D' \<Longrightarrow> deletes w w2 (D \<union> D')"
  by (auto simp: deletes_def)

lemma deletes_less: "deletes w w' D \<Longrightarrow> D' \<subseteq> D \<Longrightarrow> deletes w w' D'"
  by (auto simp: deletes_def)

text \<open>What a deletion asks the provider for, and when it reaches the provider.\<close>

definition provider_key :: "garm_instance \<Rightarrow> string" where
  "provider_key i = (if gi_ProviderID i = [] then gi_Name i else gi_ProviderID i)"

definition reaches_provider :: "manager_env \<Rightarrow> forge_entity \<Rightarrow> garm_db \<Rightarrow> garm_instance \<Rightarrow> bool" where
  "reaches_provider E e db i \<longleftrightarrow> gi_ProviderName i \<in> set (me_providers E)
     \<and> (\<forall>t. is_ok (GetEntityPool (me_db E t) e (gi_PoolID i) db))"

lemma delete_at_provider:
  assumes "deleteInstanceFromProvider E i w = (r, w1)"
  shows "deletes w w1 (if reaches_provider E (mw_entity w) (mw_db w) i then {ProviderDelete (provider_key i)} else {})"
  using assms unfolding deleteInstanceFromProvider_def entity_pool_def env_now_def
  by (auto simp: deletes_def provider_key_def reaches_provider_def provider_call_made_def next_tick_def is_ok_def Let_def
      split: sum.splits if_splits)

lemma retry_one_deletes:
  assumes "names_ok E (mw_db w)" "m \<in> set (gd_instances (mw_db w))" "reads_row m i" "gi_Status i = InstanceError"
  shows "deletes w (snd (retry_one E i w)) (if reaches_provider E (mw_entity w) (mw_db w) i then {ProviderDelete (provider_key i)} else {})"
proof -
  obtain r w1 where d: "deleteInstanceFromProvider E i w = (r, w1)" by fastforce
  note d1 = delete_at_provider [OF d]
  then have db: "mw_store w1 = mw_store w" by (simp add: deletes_def)
  obtain e where "check_update False (retry_update i) m = Some e"
    using retry_refused assms(3,4) by (auto simp: reads_row_def)
  then have "mw_store (snd (update_call E False (im_Name m) (retry_update i) w1)) = mw_store w1"
    using refused_update [of E w1 m] assms db by simp
  then have "deletes w1 (snd (update_call E False (im_Name m) (retry_update i) w1)) {}"
    by (simp add: deletes_def update_call_def db_call_def job_call_def next_tick_def case_prod_beta)
  from deletes_trans [OF d1 this] d1 show ?thesis
    using assms(3) d by (auto simp: retry_one_def reads_row_def split: option.split)
qed

lemma started_retries:
  "i \<in> set (fst (start_retries E is w)) \<Longrightarrow> i \<in> set is \<and> gi_Status i = InstanceError"
  by (induction "is" arbitrary: w) (auto simp: case_prod_beta split: if_splits)

lemma started_are_ticks: "deletes w (snd (start_retries E is w)) {}"
proof (induction "is" arbitrary: w)
  case (Cons i "is")
  from deletes_trans [OF deletes_refl(2) [of w] Cons [of "next_tick w"]] Cons [of w] show ?case
    by (auto simp: case_prod_beta)
qed simp

lemma retries_start:
  assumes "i \<in> set is" "gi_Status i = InstanceError" "gi_CreateAttempt i < maxCreateAttempts" "\<forall>t. me_TryLock E t (gi_Name i)"
  shows "i \<in> set (fst (start_retries E is w))"
  using assms(1) by (induction "is" arbitrary: w) (auto simp: case_prod_beta assms(2,4) assms(3) [unfolded not_le [symmetric]])

lemma run_group_deletes:
  assumes "\<And>x w. x \<in> set xs \<Longrightarrow> mw_store w = st \<Longrightarrow> mw_mgr w = mgr \<Longrightarrow> deletes w (snd (f x w)) (D x)"
    and "mw_store w = st" "mw_mgr w = mgr"
  shows "deletes w (snd (run_group f xs w)) (\<Union>x \<in> set xs. D x)"
  using assms
proof (induction xs arbitrary: w)
  case (Cons x xs)
  have one: "deletes w (snd (f x w)) (D x)" using Cons.prems by simp
  then have "deletes (snd (f x w)) (snd (run_group f xs (snd (f x w)))) (\<Union>x \<in> set xs. D x)"
    using Cons by (auto simp: deletes_def)
  from deletes_trans [OF one this] show ?case by (simp add: case_prod_beta)
qed simp

text \<open>The failed instances of a pool that a round is to retry, whenever it comes to them.\<close>

definition retried :: "manager_env \<Rightarrow> forge_entity \<Rightarrow> garm_db \<Rightarrow> garm_pool \<Rightarrow> garm_instance \<Rightarrow> bool" where
  "retried E e db pool i \<longleftrightarrow> gp_Enabled pool \<and> gi_Status i = InstanceError \<and> gi_CreateAttempt i < maxCreateAttempts
     \<and> (\<forall>t. me_TryLock E t (gi_Name i)) \<and> reaches_provider E e db i
     \<and> (\<forall>t. \<exists>is. ListPoolInstances (me_db E t) (gp_ID pool) False db = Inr is \<and> i \<in> set is)"

lemma retried_listed:
  "retried E e db pool i \<Longrightarrow> \<exists>is. ListPoolInstances (me_db E t) (gp_ID pool) False db = Inr is \<and> i \<in> set is"
  by (simp add: retried_def)

lemma retry_pool_deletes:
  assumes "names_ok E (mw_db w)"
  shows "deletes w (snd (retryFailedInstancesForOnePool E pool w))
    {ProviderDelete (provider_key i) | i. retried E (mw_entity w) (mw_db w) pool i}"
proof (cases "gp_Enabled pool \<and> is_ok (ListPoolInstances (env_now E w) (gp_ID pool) False (mw_db w))")
  case True
  then obtain "is" where l: "ListPoolInstances (env_now E w) (gp_ID pool) False (mw_db w) = Inr is"
    by (auto simp: is_ok_Inr)
  let ?js = "fst (start_retries E is w)" and ?w = "snd (start_retries E is w)"
  let ?D = "\<lambda>i. (if reaches_provider E (mw_entity w) (mw_db w) i then {ProviderDelete (provider_key i)} else {})"
  have t: "deletes w ?w {}" by (rule started_are_ticks)
  have "deletes ?w (snd (run_group (retry_one E) ?js ?w)) (\<Union>i \<in> set ?js. ?D i)"
  proof (rule run_group_deletes [where st = "mw_store w" and mgr = "mw_mgr w"])
    fix i and w' :: manager_world
    assume i: "i \<in> set ?js" and w': "mw_store w' = mw_store w" "mw_mgr w' = mw_mgr w"
    obtain m where "m \<in> set (gd_instances (mw_db w))" "reads_row m i"
      using pool_listing_row [OF l] started_retries [OF i] by blast
    then show "deletes w' (snd (retry_one E i w')) (?D i)"
      using retry_one_deletes [of E w' m i] started_retries [OF i] assms w' by simp
  qed (use t in \<open>simp_all add: deletes_def\<close>)
  from deletes_trans [OF t this] True l
  have d: "deletes w (snd (retryFailedInstancesForOnePool E pool w)) (\<Union>i \<in> set ?js. ?D i)"
    by (simp add: retryFailedInstancesForOnePool_def case_prod_beta)
  show ?thesis
  proof (rule deletes_less [OF d], safe)
    fix i assume i: "retried E (mw_entity w) (mw_db w) pool i"
    from retried_listed [OF this, of "mw_tick w"] have "i \<in> set is" using l by (auto simp: env_now_def)
    with i have "i \<in> set ?js" using retries_start by (auto simp: retried_def)
    moreover have "ProviderDelete (provider_key i) \<in> ?D i" using i by (simp add: retried_def)
    ultimately show "ProviderDelete (provider_key i) \<in> (\<Union>i \<in> set ?js. ?D i)" by (rule UN_I)
  qed
next
  case False
  then have "\<not> retried E (mw_entity w) (mw_db w) pool i" for i
    using retried_listed [of E "mw_entity w" "mw_db w" pool i "mw_tick w"]
    by (auto simp: env_now_def is_ok_Inr) (auto simp: retried_def)
  with False show ?thesis
    by (auto simp: retryFailedInstancesForOnePool_def is_ok_def split: sum.splits)
qed

text \<open>
  C23. A round of retries changes nothing in the database: the update to \<^verbatim>\<open>pending_create\<close> is refused for
  an instance in error, so its attempts are not counted and it is never created again. Of the providers it asks for
  deletions only: among them those of every failed instance below five attempts, of an enabled pool, whose lock is
  free and whose list of instances, pool and provider are found. The names of instances are unique and no UUIDs.
\<close>

theorem retry_never_requeues:
  assumes "names_ok E (mw_db w)" "retryFailedInstances E caches w = (err, w')"
  shows "mw_store w' = mw_store w
    \<and> (\<exists>ds. mw_calls w' = mw_calls w @ ds \<and> set ds \<subseteq> range ProviderDelete
         \<and> (\<forall>pool \<in> set (cache_GetEntityPools (ge_ID (mw_entity w)) caches). \<forall>i.
              retried E (mw_entity w) (mw_db w) pool i \<longrightarrow> ProviderDelete (provider_key i) \<in> set ds))"
proof -
  let ?D = "\<lambda>pool. {ProviderDelete (provider_key i) | i. retried E (mw_entity w) (mw_db w) pool i}"
  have "deletes w (snd (retryFailedInstances E caches w))
      (\<Union>pool \<in> set (cache_GetEntityPools (ge_ID (mw_entity w)) caches). ?D pool)"
    unfolding retryFailedInstances_def for_pools_def
  proof (rule run_group_deletes [where st = "mw_store w" and mgr = "mw_mgr w"])
    fix pool and v :: manager_world assume "mw_store v = mw_store w" "mw_mgr v = mw_mgr w"
    then show "deletes v (snd (retryFailedInstancesForOnePool E pool v)) (?D pool)"
      using retry_pool_deletes [of E v pool] assms(1) by simp
  qed simp_all
  then have "deletes w w' (\<Union>pool \<in> set (cache_GetEntityPools (ge_ID (mw_entity w)) caches). ?D pool)"
    using assms(2) by simp
  then obtain ds where ds: "mw_store w' = mw_store w" "mw_calls w' = mw_calls w @ ds" "set ds \<subseteq> range ProviderDelete"
    and D: "(\<Union>pool \<in> set (cache_GetEntityPools (ge_ID (mw_entity w)) caches). ?D pool) \<subseteq> set ds"
    by (auto simp only: deletes_def)
  have "ProviderDelete (provider_key i) \<in> set ds"
    if "pool \<in> set (cache_GetEntityPools (ge_ID (mw_entity w)) caches)" "retried E (mw_entity w) (mw_db w) pool i" for pool i
    by (rule subsetD [OF D], rule UN_I [OF that(1)]) (use that(2) in auto)
  with ds show ?thesis by blast
qed

theorem retry_never_requeues_witness:
  "mw_store (snd (retryFailedInstances demo_manager_env demo_caches demo_failed_world)) = mw_store demo_failed_world
   \<and> mw_calls (snd (retryFailedInstances demo_manager_env demo_caches demo_failed_world)) = [ProviderDelete ''r1'']"
proof
  show "mw_store (snd (retryFailedInstances demo_manager_env demo_caches demo_failed_world)) = mw_store demo_failed_world"
    by (rule conjunct1 [OF retry_never_requeues [OF _ prod.collapse [symmetric]]])
      (simp add: names_ok_def demo_failed_world_def demo_failed_row_def demo_manager_env_def demo_db_at_def demo_db_env_def
        demo_uuid_def new_instance_model_def demo_create_params_def tbl_ok_def demo_store_def)
qed code_simp

section \<open>Listing the runners of the forge\<close>

text \<open>What a forge documents of its pages: they are numbered upwards, and there are at most \<open>N\<close> of them.\<close>

definition pages_numbered :: "manager_env \<Rightarrow> int \<Rightarrow> bool" where
  "pages_numbered E N \<longleftrightarrow>
     (\<forall>t n rs next_page. me_ListEntityRunners E t n = Inr (rs, next_page) \<longrightarrow> next_page = 0 \<or> n < next_page \<and> next_page \<le> N)"

lemma pages_end:
  assumes "pages_numbered E N"
  shows "\<exists>r. list_runner_pages (me_ListEntityRunners E) n acc t = Some r"
proof (induction "nat (N - n)" arbitrary: n acc t rule: less_induct)
  case less
  show ?case
  proof (cases "me_ListEntityRunners E t n")
    case (Inr p)
    obtain rs next_page where p: "p = (rs, next_page)" by fastforce
    show ?thesis
    proof (cases "next_page = 0")
      case False
      then have "n < next_page" "next_page \<le> N"
        using assms Inr p by (auto simp: pages_numbered_def)
      then have "\<exists>r. list_runner_pages (me_ListEntityRunners E) next_page (acc @ rs) (Suc t) = Some r"
        by (intro less) simp
      then show ?thesis using False Inr p by (subst list_runner_pages.simps) simp
    qed (use Inr p in \<open>subst list_runner_pages.simps, simp\<close>)
  qed (subst list_runner_pages.simps, simp)
qed

text \<open>
  C40. The comparison of the database with the runners of the forge returns, whichever way the runners are listed, when
  the forge numbers its pages upwards and has finitely many.
\<close>

theorem cleanup_returns:
  assumes "pages_numbered E N"
  shows "\<exists>err w'. runnerCleanup E caches w = Some (err, w')"
proof -
  have pages: "listRunnersWithPagination E v \<noteq> None" for v
    using pages_end [OF assms, of 0 "[]" "mw_tick v"] by (auto simp: listRunnersWithPagination_def)
  have "GetGithubRunners E caches w \<noteq> None"
    by (simp add: GetGithubRunners_def pages del: not_None_eq split: sum.split prod.split)
  then have "runnerCleanup E caches w \<noteq> None"
    by (simp add: runnerCleanup_def split: sum.split prod.split option.split)
  then show ?thesis by auto
qed

text \<open>The demonstration's forge has one page.\<close>

theorem cleanup_returns_witness:
  "\<exists>err w'. runnerCleanup demo_manager_env demo_caches demo_failed_world = Some (err, w')"
  by (rule cleanup_returns [where N = 0]) (simp add: pages_numbered_def demo_manager_env_def)

end
