(* ===== verification/ForgeScaleProps.thy ===== *)
theory ForgeScaleProps
  imports ForgePoolProps
begin

text \<open>Scaling a pool down and up: what the rows of its instances become.\<close>

section \<open>Scaling down\<close>

definition idle_row :: "string \<Rightarrow> instance_model \<Rightarrow> bool" where
  "idle_row u m \<longleftrightarrow> im_PoolID m = Some u \<and> im_RunnerStatus m = RunnerIdle \<and> im_Status m = InstanceRunning"

definition count_rows :: "(instance_model \<Rightarrow> bool) \<Rightarrow> garm_db \<Rightarrow> nat" where
  "count_rows P db = length (filter P (gd_instances db))"

lemma filter_update_one:
  "distinct (map key t) \<Longrightarrow> length (filter P t) \<le> Suc (length (filter P (tbl_update key k f t)))"
proof (induction t)
  case (Cons x t)
  show ?case
  proof (cases "key x = k")
    case True
    then have "tbl_update key k f t = t"
      using Cons.prems by (auto simp: tbl_update_def image_iff intro!: map_idI)
    then show ?thesis by (simp add: tbl_update_def)
  qed (use Cons in \<open>auto simp: tbl_update_def\<close>)
qed (simp add: tbl_update_def)

text \<open>Rows are distinct, and an update takes at most one of them out of a set of rows.\<close>

lemma update_one_row:
  assumes "tbl_ok im_ID (gd_instances db)"
  shows "tbl_ok im_ID (gd_instances (snd (updateInstance env force n p db)))"
    and "count_rows P db \<le> Suc (count_rows P (snd (updateInstance env force n p db)))"
proof -
  let ?db' = "snd (updateInstance env force n p db)"
  have "tbl_ok im_ID (gd_instances ?db') \<and> count_rows P db \<le> Suc (count_rows P ?db')"
    if "gd_instances ?db' = tbl_update im_ID (im_ID m) (\<lambda>_. m') (gd_instances db)" "im_ID m' = im_ID m" for m m'
  proof -
    have "map im_ID (gd_instances ?db') = map im_ID (gd_instances db)"
      using that by (simp add: tbl_update_def)
    then show ?thesis
      using assms that(1) filter_update_one [of im_ID "gd_instances db" P] by (simp add: count_rows_def tbl_ok_def)
  qed
  then have "tbl_ok im_ID (gd_instances ?db') \<and> count_rows P db \<le> Suc (count_rows P ?db')"
    using update_shape [of env force n p db] assms by (auto simp: count_rows_def)
  then show "tbl_ok im_ID (gd_instances (snd (updateInstance env force n p db)))"
    and "count_rows P db \<le> Suc (count_rows P (snd (updateInstance env force n p db)))" by simp_all
qed

lemma job_call_store [simp]: "mw_store (snd (job_call E f w)) = snd (f (env_now E w) (mw_store w))"
  by (simp add: job_call_def case_prod_beta)

lemma fst_job_call [simp]: "fst (job_call E f w) = fst (f (env_now E w) (mw_store w))"
  by (simp add: job_call_def case_prod_beta)

lemma update_call_db: "mw_db (snd (update_call E force n p w)) = snd (updateInstance (env_now E w) force n p (mw_db w))"
  by (simp add: update_call_def db_call_def)

lemma DeleteRunner_one_row:
  assumes "tbl_ok im_ID (gd_instances (mw_db w))"
  shows "tbl_ok im_ID (gd_instances (mw_db (snd (pool_DeleteRunner E i f b w))))"
    and "count_rows P (mw_db w) \<le> Suc (count_rows P (mw_db (snd (pool_DeleteRunner E i f b w))))"
  using update_one_row [OF assms] assms
  by (simp_all add: pool_DeleteRunner_def case_prod_beta setInstanceStatus_def update_call_db)

lemma delete_runners_rows:
  "tbl_ok im_ID (gd_instances (mw_db w)) \<Longrightarrow>
     count_rows P (mw_db w) \<le> length is + count_rows P (mw_db (snd (delete_runners E is w)))"
proof (induction "is" arbitrary: w)
  case (Cons i "is")
  show ?case
  proof (cases "me_TryLock E (mw_tick w) (gi_Name i)")
    case True
    let ?w = "snd (pool_DeleteRunner E i False False (next_tick w))"
    have "count_rows P (mw_db w) \<le> Suc (count_rows P (mw_db ?w))" "tbl_ok im_ID (gd_instances (mw_db ?w))"
      using DeleteRunner_one_row [where w = "next_tick w" and E = E and i = i and f = False and b = False] Cons.prems by simp_all
    with True Cons.IH [of ?w] show ?thesis by (simp add: case_prod_beta)
  qed (use Cons.IH [of "next_tick w"] Cons.prems in simp)
qed simp

lemma delete_stale_rows: "count_rows P (mw_db (delete_stale_jobs E p js w)) = count_rows P (mw_db w)"
proof (induction js arbitrary: w)
  case (Cons j js)
  have "gd_instances (mw_db (delete_job E k w)) = gd_instances (mw_db w)" for k
    using job_ops_tables(2) by (simp add: delete_job_def same_tables_def)
  with Cons show ?case by (simp add: delete_stale_jobs_def count_rows_def)
qed (simp add: delete_stale_jobs_def)

lemma listed_idle:
  "list_all2 reads_row (filter (\<lambda>m. im_PoolID m = Some u) ms) is \<Longrightarrow>
     length (idle_workers is) = length (filter (idle_row u) ms)"
proof -
  assume "list_all2 reads_row (filter (\<lambda>m. im_PoolID m = Some u) ms) is"
  moreover have "list_all2 reads_row xs is \<Longrightarrow>
      length (idle_workers is) = length (filter (\<lambda>m. im_RunnerStatus m = RunnerIdle \<and> im_Status m = InstanceRunning) xs)" for xs
    by (induction rule: list_all2_induct) (auto simp: idle_workers_def reads_row_def)
  ultimately show ?thesis
    by (simp add: idle_row_def [abs_def] conj_commute)
qed

definition idle_surplus :: "garm_pool \<Rightarrow> nat \<Rightarrow> nat \<Rightarrow> int" where
  "idle_surplus pool idle queued = int idle - (MinIdleRunnersAsInt pool + int queued)"

lemma scale_down_shape:
  fixes w :: manager_world
  obtains (same) "mw_store (snd (scaleDownOnePool E pool w)) = mw_store w"
  | (down) "is" js where "ListPoolInstances (env_now E w) (gp_ID pool) False (mw_db w) = Inr is"
      "0 < num_scale_down pool (length (idle_workers is)) (length (getQueuedJobs (mw_mgr w)))"
      "snd (scaleDownOnePool E pool w) = delete_stale_jobs E pool js (snd (delete_runners E
         (take (nat (num_scale_down pool (length (idle_workers is)) (length (getQueuedJobs (mw_mgr w))))) (idle_workers is)) w))"
proof (cases "ListPoolInstances (env_now E w) (gp_ID pool) False (mw_db w)")
  case (Inr "is")
  let ?idle = "idle_workers is" and ?n = "num_scale_down pool (length (idle_workers is)) (length (getQueuedJobs (mw_mgr w)))"
  have none: "delete_stale_jobs E pool [] w = w" for w
    by (simp add: delete_stale_jobs_def)
  show ?thesis
  proof (cases "\<not> gp_Enabled pool \<or> ?idle = [] \<or> ?n \<le> 0 \<or> int (length ?idle) < ?n")
    case True
    with Inr have "snd (scaleDownOnePool E pool w) = w"
      by (auto simp: scaleDownOnePool_def Let_def)
    then show ?thesis using same by simp
  next
    case False
    let ?w1 = "snd (delete_runners E (take (nat ?n) ?idle) w)"
    have "snd (scaleDownOnePool E pool w) =
        (case ListEntityJobsByStatus (env_now E ?w1) (ge_EntityType (mw_entity ?w1)) (ge_ID (mw_entity ?w1)) JobStatusQueued (mw_store ?w1) of
           Inl e \<Rightarrow> ?w1 | Inr q \<Rightarrow> delete_stale_jobs E pool q ?w1)"
      using False Inr by (simp add: scaleDownOnePool_def Let_def case_prod_beta split: sum.split)
    then obtain js where "snd (scaleDownOnePool E pool w) = delete_stale_jobs E pool js ?w1"
      using none by (auto split: sum.splits) metis
    then show ?thesis using down Inr False by simp
  qed
qed (use same in \<open>simp add: scaleDownOnePool_def\<close>)

text \<open>
  C29. One round of scaling down takes at most half, rounded up, of the surplus of idle runners out of a pool: its
  minimum of idle runners and one for each queued job remain idle, and an empty surplus takes none.
\<close>

theorem scale_down_takes_half_the_surplus:
  assumes "tbl_ok im_ID (gd_instances (mw_db w))" "de_uuid (env_now E w) (gp_ID pool) = Some u"
  shows "int (count_rows (idle_row u) (mw_db w)) - int (count_rows (idle_row u) (mw_db (snd (scaleDownOnePool E pool w))))
    \<le> max 0 ((idle_surplus pool (count_rows (idle_row u) (mw_db w)) (length (getQueuedJobs (mw_mgr w))) + 1) div 2)"
proof (cases rule: scale_down_shape [of E pool w])
  case same
  then show ?thesis by simp
next
  case (down "is" js)
  let ?n = "num_scale_down pool (length (idle_workers is)) (length (getQueuedJobs (mw_mgr w)))"
  have idle: "length (idle_workers is) = count_rows (idle_row u) (mw_db w)"
    using pool_listing [OF down(1)] assms(2) listed_idle by (fastforce simp: count_rows_def)
  have "int (length (take (nat ?n) (idle_workers is))) \<le> ?n"
    using down(2) by simp
  then have "int (count_rows (idle_row u) (mw_db w)) - int (count_rows (idle_row u) (mw_db (snd (scaleDownOnePool E pool w)))) \<le> ?n"
    using delete_runners_rows [OF assms(1), of "idle_row u" "take (nat ?n) (idle_workers is)" E]
    unfolding down(3) delete_stale_rows by linarith
  then show ?thesis
    using down(2) idle by (auto simp: num_scale_down_def Let_def idle_surplus_def split: if_splits)
qed

definition demo_idle_row :: "string \<Rightarrow> instance_model" where
  "demo_idle_row n = (new_instance_model (demo_db_env n) (demo_tagged_pool ''p2'' 2) (demo_create_params n) [])
     \<lparr>im_Status := InstanceRunning, im_RunnerStatus := RunnerIdle\<rparr>"

definition demo_idle_world :: manager_world where
  "demo_idle_world = demo_manager_world\<lparr>mw_store := demo_store\<lparr>js_db := (js_db demo_store)
     \<lparr>gd_instances := [demo_idle_row ''r1'', demo_idle_row ''r2'']\<rparr>\<rparr>\<rparr>"

definition demo_pool :: garm_pool where
  "demo_pool = (case ListAllPools (demo_db_at 0) (mw_db demo_manager_world) of Inr (_ # p # _) \<Rightarrow> p)"

text \<open>One of two idle runners goes, as one job is queued.\<close>

theorem scale_down_takes_half_the_surplus_witness:
  "int (count_rows (idle_row ''p2'') (mw_db demo_idle_world))
     - int (count_rows (idle_row ''p2'') (mw_db (snd (scaleDownOnePool demo_manager_env demo_pool demo_idle_world))))
     \<le> max 0 ((idle_surplus demo_pool (count_rows (idle_row ''p2'') (mw_db demo_idle_world))
          (length (getQueuedJobs (mw_mgr demo_idle_world))) + 1) div 2)
   \<and> count_rows (idle_row ''p2'') (mw_db demo_idle_world) = 2
   \<and> count_rows (idle_row ''p2'') (mw_db (snd (scaleDownOnePool demo_manager_env demo_pool demo_idle_world))) = 1"
proof (intro conjI)
  show "int (count_rows (idle_row ''p2'') (mw_db demo_idle_world))
     - int (count_rows (idle_row ''p2'') (mw_db (snd (scaleDownOnePool demo_manager_env demo_pool demo_idle_world))))
     \<le> max 0 ((idle_surplus demo_pool (count_rows (idle_row ''p2'') (mw_db demo_idle_world))
          (length (getQueuedJobs (mw_mgr demo_idle_world))) + 1) div 2)"
  proof (rule scale_down_takes_half_the_surplus)
    show "tbl_ok im_ID (gd_instances (mw_db demo_idle_world))"
      by (simp add: tbl_ok_def demo_idle_world_def demo_idle_row_def new_instance_model_def demo_db_env_def)
    show "de_uuid (env_now demo_manager_env demo_idle_world) (gp_ID demo_pool) = Some ''p2''" by code_simp
  qed
qed code_simp+

section \<open>Scaling up\<close>

lemma created_row:
  assumes "CreateInstance env p c db = (Inr x, db')"
  obtains q secret where "getPoolByID env p db = Inr q" "gd_instances db' = gd_instances db @ [new_instance_model env q c secret]"
    "new_instance_model env q c secret \<notin> set (gd_instances db)"
proof -
  have "\<exists>q secret. getPoolByID env p db = Inr q \<and> gd_instances db' = gd_instances db @ [new_instance_model env q c secret]
      \<and> im_ID (new_instance_model env q c secret) \<notin> im_ID ` set (gd_instances db)"
    using assms
    by (auto simp: CreateInstance_def create_in_pool_def insert_instance_def sendNotify_def
        split: sum.splits if_splits option.splits)
  then show ?thesis using that by blast
qed

text \<open>The pool's id is its own UUID whenever it is parsed.\<close>

definition parses :: "manager_env \<Rightarrow> string \<Rightarrow> bool" where
  "parses E u \<longleftrightarrow> (\<forall>t. de_uuid (me_db E t) u = Some u)"

lemma AddRunner_creates:
  assumes "AddRunner E u ls w = (None, w')"
  obtains t q m where "getPoolByID (me_db E t) u (mw_db w) = Inr q" "gd_instances (mw_db w') = gd_instances (mw_db w) @ [m]"
    "m \<notin> set (gd_instances (mw_db w))" "im_PoolID m = Some (pm_ID q)" "im_RunnerStatus m = RunnerPending" "im_AditionalLabels m = ls"
proof -
  obtain pool config agent name x where
    "db_call E (\<lambda>env. CreateInstance env u (runner_params (pmg_controllerInfo (mw_mgr w)) pool name ls config agent)) (next_tick w) = (Inr x, w')"
    using assms
    by (fastforce simp: AddRunner_def Let_def split: sum.splits if_splits option.splits prod.splits)
  then obtain db' where
    "CreateInstance (me_db E (Suc (mw_tick w))) u (runner_params (pmg_controllerInfo (mw_mgr w)) pool name ls config agent) (mw_db w) = (Inr x, db')"
    "mw_db w' = db'"
    by (auto simp: db_call_def job_call_def on_db_def cascade_def env_now_def next_tick_def split: prod.splits)
  then obtain q secret where "getPoolByID (me_db E (Suc (mw_tick w))) u (mw_db w) = Inr q"
    "gd_instances (mw_db w') = gd_instances (mw_db w) @
       [new_instance_model (me_db E (Suc (mw_tick w))) q (runner_params (pmg_controllerInfo (mw_mgr w)) pool name ls config agent) secret]"
    "new_instance_model (me_db E (Suc (mw_tick w))) q (runner_params (pmg_controllerInfo (mw_mgr w)) pool name ls config agent) secret
       \<notin> set (gd_instances (mw_db w))"
    using created_row by metis
  then show ?thesis
    using that [where t = "Suc (mw_tick w)" and q = q] by (simp add: new_instance_model_def runner_params_def)
qed

lemma AddRunner_row:
  assumes "AddRunner E u ls w = (None, w')" "parses E u"
  obtains m where "gd_instances (mw_db w') = gd_instances (mw_db w) @ [m]" "im_PoolID m = Some u" "im_RunnerStatus m = RunnerPending"
proof -
  obtain t q m where q: "getPoolByID (me_db E t) u (mw_db w) = Inr q" "gd_instances (mw_db w') = gd_instances (mw_db w) @ [m]"
      "im_PoolID m = Some (pm_ID q)" "im_RunnerStatus m = RunnerPending"
    by (rule AddRunner_creates [OF assms(1)])
  have "pm_ID q = u"
    using q(1) assms(2) by (auto simp: getPoolByID_def parses_def dest: tbl_find_key split: option.splits)
  with q(2-4) show ?thesis using that by simp
qed

lemma add_runners_rows:
  assumes "add_runners E u n w = (None, w')" "parses E u"
  obtains ms where "gd_instances (mw_db w') = gd_instances (mw_db w) @ ms" "length ms = n"
    "\<forall>m \<in> set ms. im_PoolID m = Some u \<and> im_RunnerStatus m = RunnerPending"
  using assms(1)
proof (induction n arbitrary: w thesis)
  case (Suc n)
  obtain w1 where w1: "AddRunner E u [] w = (None, w1)" "add_runners E u n w1 = (None, w')"
    using Suc.prems(2) by (auto split: prod.splits option.splits)
  obtain m where m: "gd_instances (mw_db w1) = gd_instances (mw_db w) @ [m]" "im_PoolID m = Some u" "im_RunnerStatus m = RunnerPending"
    using AddRunner_row [OF w1(1) assms(2)] by blast
  obtain ms where ms: "gd_instances (mw_db w') = gd_instances (mw_db w1) @ ms" "length ms = n"
    "\<forall>m \<in> set ms. im_PoolID m = Some u \<and> im_RunnerStatus m = RunnerPending"
    using Suc.IH [OF _ w1(2)] by blast
  show ?case using Suc.prems(1) [of "m # ms"] m ms by simp
qed simp

definition waiting_row :: "string \<Rightarrow> instance_model \<Rightarrow> bool" where
  "waiting_row u m \<longleftrightarrow> im_PoolID m = Some u \<and> im_RunnerStatus m \<noteq> RunnerActive \<and> im_RunnerStatus m \<noteq> RunnerTerminated"

lemma listed_waiting:
  "list_all2 reads_row (filter (\<lambda>m. im_PoolID m = Some u) ms) is \<Longrightarrow>
     length (filter idle_or_pending is) = length (filter (waiting_row u) ms)"
proof -
  assume "list_all2 reads_row (filter (\<lambda>m. im_PoolID m = Some u) ms) is"
  moreover have "list_all2 reads_row xs is \<Longrightarrow> length (filter idle_or_pending is) =
      length (filter (\<lambda>m. im_RunnerStatus m \<noteq> RunnerActive \<and> im_RunnerStatus m \<noteq> RunnerTerminated) xs)" for xs
    by (induction rule: list_all2_induct) (auto simp: idle_or_pending_def reads_row_def)
  ultimately show ?thesis by (simp add: waiting_row_def [abs_def] conj_commute)
qed

text \<open>The runners to add bring the waiting ones to the minimum, or all of them to the maximum.\<close>

lemma required_runners_suffice:
  assumes "gp_MaxRunners pool < 2 ^ 62" "gp_MinIdleRunners pool < 2 ^ 62" "length is < gp_MaxRunners pool"
  shows "gp_MinIdleRunners pool \<le> length (filter idle_or_pending is) + nat (required_runners pool is)
    \<or> gp_MaxRunners pool \<le> length is + nat (required_runners pool is)"
proof (cases "length (filter idle_or_pending is) < gp_MinIdleRunners pool")
  case True
  let ?req = "int (gp_MinIdleRunners pool) - int (length (filter idle_or_pending is))"
  let ?count = "int (length is) + ?req"
  have mx: "MaxRunnersAsInt pool = int (gp_MaxRunners pool)" "MinIdleRunnersAsInt pool = int (gp_MinIdleRunners pool)"
    using assms(1,2) by (simp_all add: MaxRunnersAsInt_def MinIdleRunnersAsInt_def max_int_def)
  have "wrap64 ?count = ?count" "wrap64 (?req - (?count - int (gp_MaxRunners pool))) = ?req - (?count - int (gp_MaxRunners pool))"
    using True assms by (auto intro!: wrap64_id simp: in64_def)
  then have "required_runners pool is = (if int (gp_MaxRunners pool) < ?count then int (gp_MaxRunners pool) - int (length is) else ?req)"
    using True mx by (auto simp: required_runners_def Let_def algebra_simps)
  then show ?thesis using assms(3) True by (auto split: if_splits)
qed simp

text \<open>
  C28. When filling up a pool returns without an error, the pool, if it is enabled, has in the database its minimum of
  runners that are not busy, or its maximum of runners; a disabled pool is left alone. The sizes are below
  \<open>2 ^ 62\<close>, so that the sums of the code do not wrap.
\<close>

theorem ensure_idle_fills_pool:
  assumes "ensureIdleRunnersForOnePool E pool w = (None, w')" "parses E (gp_ID pool)"
    and "gp_MaxRunners pool < 2 ^ 62" "gp_MinIdleRunners pool < 2 ^ 62"
  shows "if gp_Enabled pool
    then gp_MinIdleRunners pool \<le> count_rows (waiting_row (gp_ID pool)) (mw_db w')
      \<or> gp_MaxRunners pool \<le> pool_count (gp_ID pool) (mw_db w')
    else w' = w"
proof (cases "gp_Enabled pool \<and> gp_MinIdleRunners pool \<noteq> 0")
  case True
  then have on: "gp_Enabled pool" "gp_MinIdleRunners pool \<noteq> 0" by simp_all
  let ?u = "gp_ID pool"
  obtain "is" where "is": "ListPoolInstances (env_now E w) ?u False (mw_db w) = Inr is"
    using assms(1) on by (auto simp: ensureIdleRunnersForOnePool_def split: sum.splits)
  have u: "de_uuid (env_now E w) ?u = Some ?u"
    using assms(2) by (simp add: parses_def env_now_def)
  have rows: "list_all2 reads_row (filter (\<lambda>m. im_PoolID m = Some ?u) (gd_instances (mw_db w))) is"
    using pool_listing [OF "is"] u by auto
  have total: "length is = pool_count ?u (mw_db w)"
    using list_all2_lengthD [OF rows] by (simp add: pool_count_def)
  have waiting: "length (filter idle_or_pending is) = count_rows (waiting_row ?u) (mw_db w)"
    using listed_waiting [OF rows] by (simp add: count_rows_def)
  show ?thesis
  proof (cases "gp_MaxRunners pool \<le> length is")
    case True
    then have "w' = w" using assms(1) on "is" by (simp add: ensureIdleRunnersForOnePool_def)
    then show ?thesis using True total on by simp
  next
    case below: False
    let ?n = "nat (required_runners pool is)"
    have "add_runners E ?u ?n w = (None, w')"
      using assms(1) on "is" below by (simp add: ensureIdleRunnersForOnePool_def)
    then obtain ms where ms: "gd_instances (mw_db w') = gd_instances (mw_db w) @ ms" "length ms = ?n"
      "\<forall>m \<in> set ms. im_PoolID m = Some ?u \<and> im_RunnerStatus m = RunnerPending"
      using add_runners_rows assms(2) by metis
    have all: "filter (waiting_row ?u) ms = ms" "filter (\<lambda>m. im_PoolID m = Some ?u) ms = ms"
      using ms(3) by (auto simp: waiting_row_def intro!: filter_True)
    have grown: "count_rows (waiting_row ?u) (mw_db w') = count_rows (waiting_row ?u) (mw_db w) + ?n"
      "pool_count ?u (mw_db w') = pool_count ?u (mw_db w) + ?n"
      using ms(1,2) all by (simp_all add: count_rows_def pool_count_def)
    show ?thesis
      using required_runners_suffice [OF assms(3,4), of "is"] on below grown waiting total by auto
  qed
qed (use assms(1) in \<open>auto simp: ensureIdleRunnersForOnePool_def\<close>)

definition demo_min_pool :: garm_pool where
  "demo_min_pool = demo_pool\<lparr>gp_MinIdleRunners := 1\<rparr>"

definition demo_filled_world :: manager_world where
  "demo_filled_world = snd (ensureIdleRunnersForOnePool demo_manager_env demo_min_pool demo_manager_world)"

theorem ensure_idle_fills_pool_witness:
  "gp_MinIdleRunners demo_min_pool \<le> count_rows (waiting_row (gp_ID demo_min_pool)) (mw_db demo_filled_world)
     \<or> gp_MaxRunners demo_min_pool \<le> pool_count (gp_ID demo_min_pool) (mw_db demo_filled_world)"
proof -
  have "fst (ensureIdleRunnersForOnePool demo_manager_env demo_min_pool demo_manager_world) = None"
    by code_simp
  then have run: "ensureIdleRunnersForOnePool demo_manager_env demo_min_pool demo_manager_world = (None, demo_filled_world)"
    unfolding demo_filled_world_def by (metis prod.collapse)
  have p: "gp_ID demo_pool = ''p2''" "gp_Enabled demo_pool" "gp_MaxRunners demo_pool = 2" by code_simp+
  then have "parses demo_manager_env (gp_ID demo_min_pool)"
    by (simp add: parses_def demo_min_pool_def demo_manager_env_def demo_db_at_def demo_db_env_def demo_uuid_def)
  from ensure_idle_fills_pool [OF run this] p show ?thesis by (simp add: demo_min_pool_def)
qed

section \<open>Deletions that fail\<close>

definition status_update :: "string \<Rightarrow> bytes \<Rightarrow> update_instance_params" where
  "status_update s f = no_update\<lparr>uip_Status := s, uip_ProviderFault := f\<rparr>"

text \<open>A forced change of status rewrites the row of that name and no other.\<close>

lemma forced_status:
  assumes "names_ok E db" "m \<in> set (gd_instances db)" "de_refused (me_db E t) = None" "\<not> provider_id_taken m db" "s \<noteq> []"
  shows "gd_instances (snd (updateInstance (me_db E t) True (im_Name m) (status_update s f) db))
    = tbl_update im_ID (im_ID m) (\<lambda>_. m\<lparr>im_Status := s, im_ProviderFault := f, im_UpdatedAt := de_now (me_db E t)\<rparr>) (gd_instances db)"
proof -
  let ?m = "m\<lparr>im_Status := s, im_ProviderFault := f\<rparr>"
  have upd: "applyInstanceUpdates (me_db E t) (status_update s f) m = Inr ?m"
    using assms(5) by (simp add: applyInstanceUpdates_def status_update_def no_update_def keep_if_def or_old_def)
  have "\<not> provider_id_taken ?m db"
    using assms(4) by (simp add: provider_id_taken_def)
  then show ?thesis
    using named_row [OF assms(1,2)] upd assms(3)
    by (simp add: updateInstance_def check_update_def save_instance_def status_update_def no_update_def keep_if_def split: sum.split)
qed

lemma refused_status:
  assumes "de_refused (me_db E t) \<noteq> None"
  shows "snd (updateInstance (me_db E t) force n p db) = db"
  using assms by (auto simp: updateInstance_def save_instance_def split: sum.split option.split)

lemma names_after_update:
  assumes "names_ok E db" "m \<in> set (gd_instances db)" "tbl_ok im_ID (gd_instances db)" "im_Name m' = im_Name m"
    and "gd_instances db' = tbl_update im_ID (im_ID m) (\<lambda>_. m') (gd_instances db)"
  shows "names_ok E db'"
proof -
  have "x = m" if "x \<in> set (gd_instances db)" "im_ID x = im_ID m" for x
    using that assms(2,3) by (metis tbl_ok_def distinct_map inj_on_eq_iff)
  then have "map im_Name (gd_instances db') = map im_Name (gd_instances db)"
    using assms(4,5) by (auto simp: tbl_update_def)
  moreover have "de_uuid (me_db E t) (im_Name x) = None" if "x \<in> set (gd_instances db')" for t x
    using that assms by (auto simp: names_ok_def tbl_update_def split: if_splits)
  ultimately show ?thesis
    using assms(1) by (simp add: names_ok_def tbl_ok_def)
qed

lemma setInstanceStatus_db:
  "mw_db (snd (setInstanceStatus E n s f True w)) = snd (updateInstance (env_now E w) True n (status_update s f) (mw_db w))"
  by (simp add: setInstanceStatus_def update_call_db status_update_def)

text \<open>A deletion that is not forced fails when the provider does.\<close>

lemma delete_one_fails:
  assumes "gi_Status i \<noteq> InstancePendingForceDelete" "\<forall>t x. me_DeleteInstance E t x \<noteq> None"
  obtains e w1 where "delete_one E i w = deletion_failed E i e w1"
    "mw_db w1 = mw_db (snd (setInstanceStatus E (gi_Name i) InstanceDeleting [] True w))"
    "pmg_backoff (mw_mgr w1) = pmg_backoff (mw_mgr w)"
proof -
  have backoff: "pmg_backoff (mw_mgr (snd (setInstanceStatus E n s f b w))) = pmg_backoff (mw_mgr w)"
    "pmg_backoff (mw_mgr (snd (deleteInstanceFromProvider E i w))) = pmg_backoff (mw_mgr w)" for n s f b and w :: manager_world
    by (simp_all add: setInstanceStatus_def update_call_def db_call_def job_call_def next_tick_def case_prod_beta
        deleteInstanceFromProvider_def provider_call_made_def Let_def split: sum.split)
  obtain r w1 where st: "setInstanceStatus E (gi_Name i) InstanceDeleting [] True w = (r, w1)" by fastforce
  show ?thesis
  proof (cases r)
    case (Inl e)
    then show ?thesis using that [of "StoreErr e" w1] st backoff(1) by (simp add: delete_one_def) (metis snd_conv)
  next
    case (Inr x)
    obtain err w2 where del: "deleteInstanceFromProvider E i w1 = (err, w2)" by fastforce
    then obtain e where "err = Some e"
      using assms(2) by (auto simp: deleteInstanceFromProvider_def Let_def split: sum.splits if_splits)
    moreover have "mw_store w2 = mw_store w1" "pmg_backoff (mw_mgr w2) = pmg_backoff (mw_mgr w1)"
      using del store_deleteInstanceFromProvider [of E i w1] backoff(2) [of w1] by simp_all
    ultimately show ?thesis
      using that [of e w2] st Inr del assms(1) backoff(1) [of "gi_Name i" InstanceDeleting "[]" True w] by (simp add: delete_one_def)
  qed
qed

text \<open>
  C27. When the provider does not delete an instance that is pending deletion, its row stays, and it is pending
  deletion again, so that a later round tries again; only when the database refuses a statement may it be left in
  the status deleting. The backoff of its name is the next one of \<^verbatim>\<open>RecordFailure\<close>: five seconds the first time,
  then half as much again, up to twenty minutes. Names are unique and no UUIDs, and no other row has its provider id.
\<close>

theorem failed_deletion_restores_status:
  assumes "names_ok E (mw_db w)" "tbl_ok im_ID (gd_instances (mw_db w))" "m \<in> set (gd_instances (mw_db w))"
    and "reads_row m i" "gi_Status i = InstancePendingDelete"
    and "\<not> provider_id_taken m (mw_db w)" "\<forall>t x. me_DeleteInstance E t x \<noteq> None"
  shows "(\<exists>m' \<in> set (gd_instances (mw_db (delete_one E i w))). im_ID m' = im_ID m \<and> im_Name m' = im_Name m
        \<and> (im_Status m' = InstancePendingDelete
           \<or> im_Status m' = InstanceDeleting \<and> (\<exists>t. de_refused (me_db E t) \<noteq> None)))
    \<and> (\<exists>b. tbl_find ibo_key (im_Name m) (pmg_backoff (mw_mgr (delete_one E i w))) = Some b
         \<and> ibo_seconds b = grow_backoff (case tbl_find ibo_key (im_Name m) (pmg_backoff (mw_mgr w)) of None \<Rightarrow> 0 | Some b \<Rightarrow> ibo_seconds b))"
proof -
  have name: "gi_Name i = im_Name m" using assms(4) by (simp add: reads_row_def)
  obtain e w1 where d: "delete_one E i w = deletion_failed E i e w1"
    and w1: "mw_db w1 = mw_db (snd (setInstanceStatus E (gi_Name i) InstanceDeleting [] True w))"
    and bo: "pmg_backoff (mw_mgr w1) = pmg_backoff (mw_mgr w)"
    using delete_one_fails [of i E w] assms(5,7) by auto
  have st: "im_Status m = InstancePendingDelete" using assms(4,5) by (simp add: reads_row_def)
  obtain m1 where m1: "m1 \<in> set (gd_instances (mw_db w1))" "names_ok E (mw_db w1)" "\<not> provider_id_taken m1 (mw_db w1)"
      "im_ID m1 = im_ID m" "im_Name m1 = im_Name m" "im_Status m1 \<in> {InstancePendingDelete, InstanceDeleting}"
  proof (cases "de_refused (me_db E (mw_tick w)) = None")
    case False
    then have "mw_db w1 = mw_db w" by (simp add: w1 setInstanceStatus_db env_now_def refused_status)
    with assms(1,3,6) st that [of m] show thesis by simp
  next
    case True
    let ?m1 = "m\<lparr>im_Status := InstanceDeleting, im_ProviderFault := [], im_UpdatedAt := de_now (me_db E (mw_tick w))\<rparr>"
    have rows: "gd_instances (mw_db w1) = tbl_update im_ID (im_ID m) (\<lambda>_. ?m1) (gd_instances (mw_db w))"
      using forced_status [OF assms(1,3) True, of InstanceDeleting "[]"] assms(6) name
      by (simp add: w1 setInstanceStatus_db env_now_def)
    have "?m1 \<in> set (gd_instances (mw_db w1))" using assms(3) by (force simp: rows tbl_update_def)
    moreover have "names_ok E (mw_db w1)" by (rule names_after_update [OF assms(1,3,2) _ rows]) simp
    moreover have "\<not> provider_id_taken ?m1 (mw_db w1)"
      using assms(6) by (auto simp: provider_id_taken_def rows tbl_update_def list_ex_iff split: if_splits)
    ultimately show thesis using that [of ?m1] by simp
  qed
  let ?w2 = "snd (setInstanceStatus E (gi_Name i) (gi_Status i) (me_fault E e) True w1)"
  have "\<exists>m' \<in> set (gd_instances (mw_db ?w2)). im_ID m' = im_ID m \<and> im_Name m' = im_Name m
      \<and> (im_Status m' = InstancePendingDelete \<or> im_Status m' = InstanceDeleting \<and> (\<exists>t. de_refused (me_db E t) \<noteq> None))"
  proof (cases "de_refused (me_db E (mw_tick w1)) = None")
    case False
    then have "mw_db ?w2 = mw_db w1" by (simp add: setInstanceStatus_db env_now_def refused_status)
    with m1 False show ?thesis by auto
  next
    case True
    let ?m2 = "m1\<lparr>im_Status := InstancePendingDelete, im_ProviderFault := me_fault E e, im_UpdatedAt := de_now (me_db E (mw_tick w1))\<rparr>"
    have rows: "gd_instances (mw_db ?w2) = tbl_update im_ID (im_ID m1) (\<lambda>_. ?m2) (gd_instances (mw_db w1))"
      using forced_status [OF m1(2,1) True m1(3), of InstancePendingDelete "me_fault E e"] assms(5) name m1(5)
      by (simp add: setInstanceStatus_db env_now_def)
    have "?m2 \<in> set (gd_instances (mw_db ?w2))" using m1(1) by (force simp: rows tbl_update_def)
    moreover have "im_ID ?m2 = im_ID m" "im_Name ?m2 = im_Name m" "im_Status ?m2 = InstancePendingDelete"
      using m1(4,5) by simp_all
    ultimately show ?thesis by blast
  qed
  moreover have "pmg_backoff (mw_mgr ?w2) = pmg_backoff (mw_mgr w)"
    using bo by (simp add: setInstanceStatus_def update_call_def db_call_def job_call_def next_tick_def case_prod_beta)
  ultimately show ?thesis
    by (auto simp: d deletion_failed_def Let_def on_backoff_def RecordFailure_def name new_backoff_def split: option.split
        dest: tbl_find_key)
qed

definition demo_doomed_row :: instance_model where
  "demo_doomed_row = (demo_idle_row ''r1'')\<lparr>im_Status := InstancePendingDelete\<rparr>"

definition demo_doomed_world :: manager_world where
  "demo_doomed_world = demo_manager_world\<lparr>mw_store := demo_store\<lparr>js_db := (js_db demo_store)\<lparr>gd_instances := [demo_doomed_row]\<rparr>\<rparr>\<rparr>"

definition demo_doomed :: garm_instance where
  "demo_doomed = (case GetInstance (demo_db_at 0) ''r1'' (mw_db demo_doomed_world) of Inr i \<Rightarrow> i)"

definition demo_stuck_env :: manager_env where
  "demo_stuck_env = demo_manager_env\<lparr>me_DeleteInstance := \<lambda>_ _. Some (MgrErr ''timeout'')\<rparr>"

theorem failed_deletion_restores_status_witness:
  "(\<exists>m' \<in> set (gd_instances (mw_db (delete_one demo_stuck_env demo_doomed demo_doomed_world))).
      im_ID m' = im_ID demo_doomed_row \<and> im_Name m' = im_Name demo_doomed_row
      \<and> (im_Status m' = InstancePendingDelete
         \<or> im_Status m' = InstanceDeleting \<and> (\<exists>t. de_refused (me_db demo_stuck_env t) \<noteq> None)))
   \<and> (\<exists>b. tbl_find ibo_key (im_Name demo_doomed_row) (pmg_backoff (mw_mgr (delete_one demo_stuck_env demo_doomed demo_doomed_world))) = Some b
     \<and> ibo_seconds b = grow_backoff (case tbl_find ibo_key (im_Name demo_doomed_row) (pmg_backoff (mw_mgr demo_doomed_world)) of
          None \<Rightarrow> 0 | Some b \<Rightarrow> ibo_seconds b))"
proof (rule failed_deletion_restores_status)
  show "reads_row demo_doomed_row demo_doomed" "gi_Status demo_doomed = InstancePendingDelete"
    by code_simp+
qed (simp_all add: names_ok_def tbl_ok_def provider_id_taken_def demo_doomed_world_def demo_doomed_row_def demo_idle_row_def
  new_instance_model_def demo_create_params_def demo_store_def demo_stuck_env_def demo_manager_env_def demo_db_at_def
  demo_db_env_def demo_uuid_def)

end
