(* ===== verification/ForgeQueueProps.thy ===== *)
theory ForgeQueueProps
  imports ForgeScaleProps
begin

text \<open>Serving queued jobs: labels, cursors over pools, and the locks of jobs.\<close>

section \<open>Labels\<close>

lemma parse_digits_show [simp]: "parse_digits (show_nat n) = Some n"
  by (simp add: parse_digits_def list_all_iff show_nat_digits)

lemma parse_int64_show: "- (2 ^ 63) \<le> i \<Longrightarrow> i < 2 ^ 63 \<Longrightarrow> parse_int64 (show_int i) = Some i"
proof (cases "i < 0")
  case False
  have "hd (show_nat (nat i)) \<noteq> CHR ''+''"
    using show_nat_digits [of "hd (show_nat (nat i))" "nat i"] by (auto simp: is_digit_def)
  moreover assume "i < 2 ^ 63"
  ultimately show ?thesis
    using False hd_show_nat [of "nat i"] by (simp add: parse_int64_def show_int_def)
qed (simp add: parse_int64_def show_int_def)

theorem job_label_roundtrip:
  assumes "- (2 ^ 63) \<le> i" "i < 2 ^ 63" "\<forall>l \<in> set ls. \<not> has_prefix l jobLabelPrefix"
  shows "jobIDFromLabels (ls @ jobLabel i # ls') = i"
proof -
  have "has_prefix (jobLabel i) jobLabelPrefix"
    by (simp add: jobLabel_def)
  moreover have "find (\<lambda>l. has_prefix l jobLabelPrefix) ls = None"
    using assms(3) by (simp add: find_None_iff)
  ultimately have "label_value jobLabelPrefix (ls @ jobLabel i # ls') = Some (show_int i)"
    by (simp add: label_value_def find_append jobLabel_def)
  then show ?thesis
    using assms by (simp add: jobIDFromLabels_def parse_int64_show)
qed

theorem job_label_roundtrip_witness:
  "jobIDFromLabels ([''linux''] @ jobLabel 71 # []) = 71"
  by (rule job_label_roundtrip) (simp_all add: jobLabelPrefix_def)

section \<open>Cursors\<close>

fun rr_visits :: "nat \<Rightarrow> pool_round_robin \<Rightarrow> next_pool list" where
  "rr_visits 0 rr = []"
| "rr_visits (Suc n) rr = (case rr_Next rr of (p, rr') \<Rightarrow> p # rr_visits n rr')"

lemma rr_Next_step:
  assumes "rr_pools rr \<noteq> []" "Suc (unat (rr_next rr)) < 2 ^ 32"
  shows "rr_Next rr = (NextPool (rr_pools rr ! (unat (rr_next rr) mod length (rr_pools rr))), rr\<lparr>rr_next := rr_next rr + 1\<rparr>)"
    and "unat (rr_next rr + 1) = Suc (unat (rr_next rr))"
proof -
  show succ: "unat (rr_next rr + 1) = Suc (unat (rr_next rr))"
    using assms(2) by (simp add: unat_word_ariths(1))
  obtain n where n: "unat (rr_next rr) = n" by simp
  have "int (unat (rr_next rr + 1)) = 1 + int n"
    by (simp add: succ n)
  then have "uint (rr_next rr + 1) = 1 + int n" by simp
  then show "rr_Next rr = (NextPool (rr_pools rr ! (unat (rr_next rr) mod length (rr_pools rr))), rr\<lparr>rr_next := rr_next rr + 1\<rparr>)"
    unfolding n using assms(1) by (simp add: rr_Next_def Let_def nat_mod_distrib not_less)
qed

lemma rr_visits_nth:
  assumes "rr_pools rr \<noteq> []" "unat (rr_next rr) + n < 2 ^ 32"
  shows "rr_visits n rr = map (\<lambda>k. NextPool (rr_pools rr ! ((unat (rr_next rr) + k) mod length (rr_pools rr)))) [0..<n]"
  using assms
proof (induction n arbitrary: rr)
  case (Suc n)
  note step = rr_Next_step [of rr]
  let ?rr = "rr\<lparr>rr_next := rr_next rr + 1\<rparr>"
  have "rr_visits n ?rr = map (\<lambda>k. NextPool (rr_pools rr ! ((Suc (unat (rr_next rr)) + k) mod length (rr_pools rr)))) [0..<n]"
    using Suc.IH [of ?rr] Suc.prems step by simp
  then show ?case
    using Suc.prems step by (simp add: map_upt_Suc del: upt_Suc)
qed simp

lemma rotate_as_map: "xs \<noteq> [] \<Longrightarrow> rotate n xs = map (\<lambda>k. xs ! ((n + k) mod length xs)) [0..<length xs]"
  by (rule nth_equalityI) (simp_all add: nth_rotate)

text \<open>
  C21. As many calls of the cursor as there are pools return every pool once, in the order of the pools from where the
  cursor stands: the cursor, with its 32-bit counter, is a rotation of the list, as long as the counter does not wrap.
\<close>

theorem round_robin_rotates:
  assumes "rr_pools rr \<noteq> []" "unat (rr_next rr) + length (rr_pools rr) < 2 ^ 32"
  shows "rr_visits (length (rr_pools rr)) rr = map NextPool (rotate (unat (rr_next rr)) (rr_pools rr))"
  using rr_visits_nth [OF assms] rotate_as_map [OF assms(1)] by simp

definition demo_round_robin :: pool_round_robin where
  "demo_round_robin = \<lparr>rr_pools = [demo_pool, demo_min_pool, demo_pool], rr_next = 2\<rparr>"

theorem round_robin_rotates_witness:
  "rr_visits (length (rr_pools demo_round_robin)) demo_round_robin
     = map NextPool (rotate (unat (rr_next demo_round_robin)) (rr_pools demo_round_robin))
   \<and> rr_visits 3 demo_round_robin = map NextPool [demo_pool, demo_pool, demo_min_pool]"
proof
  show "rr_visits (length (rr_pools demo_round_robin)) demo_round_robin
     = map NextPool (rotate (unat (rr_next demo_round_robin)) (rr_pools demo_round_robin))"
    by (rule round_robin_rotates) (simp_all add: demo_round_robin_def)
qed code_simp

text \<open>A counter that wrapped around indexes at \<open>-1\<close>.\<close>

lemma round_robin_wrap:
  assumes "1 < length (rr_pools rr)" "rr_next rr = - 1"
  shows "fst (rr_Next rr) = NextPanic"
  using assms by (auto simp: rr_Next_def Let_def)

section \<open>Keys of cursors\<close>

text \<open>The labels \<open>a\<close> and \<open>b\<close> have the cursor of the one label \<open>a^b\<close>.\<close>

theorem joined_labels_share_cursor:
  "fst (pft_Get PoolBalancerTypeRoundRobin [''a^b''] (snd (pft_Add [''a'', ''b''] ps [])))
     = Some (fst (pft_Add [''a'', ''b''] ps []))"
proof -
  have "tags_key [''a^b''] = tags_key [''a'', ''b'']" by code_simp
  then show ?thesis by (simp add: pft_Get_def pft_Add_def Let_def tbl_find_def tbl_upsert_def)
qed

section \<open>Locks of jobs\<close>

text \<open>Creating an instance adds rows and leaves the jobs alone.\<close>

definition grows :: "job_store \<Rightarrow> job_store \<Rightarrow> bool" where
  "grows st st' \<longleftrightarrow> js_jobs st' = js_jobs st \<and> set (gd_instances (js_db st)) \<subseteq> set (gd_instances (js_db st'))"

lemma grows_refl [simp]: "grows st st"
  by (simp add: grows_def)

lemma grows_trans: "grows st st' \<Longrightarrow> grows st' st'' \<Longrightarrow> grows st st''"
  by (auto simp: grows_def)

lemma create_call_grows: "grows (mw_store w) (mw_store (snd (db_call E (\<lambda>env. CreateInstance env p c) w)))"
proof -
  let ?db' = "snd (CreateInstance (env_now E w) p c (mw_db w))"
  have sub: "set (gd_instances (mw_db w)) \<subseteq> set (gd_instances ?db')"
    using create_shape [of "env_now E w" p c "mw_db w"] by auto
  then have "js_jobs (cascade ?db' (mw_store w)) = js_jobs (mw_store w)"
    unfolding cascade_def by (auto intro!: filter_True split: option.split)
  with sub show ?thesis
    by (simp add: grows_def db_call_def on_db_def cascade_def case_prod_beta)
qed

lemma AddRunner_grows: "grows (mw_store w) (mw_store (snd (AddRunner E p ls w)))"
  using create_call_grows [of "next_tick w" E]
  by (simp add: AddRunner_def Let_def case_prod_beta split: sum.split option.split)

lemma addRunnerToPool_grows: "grows (mw_store w) (mw_store (snd (addRunnerToPool E p ls w)))"
  using AddRunner_grows by (simp add: addRunnerToPool_def split: sum.split)

lemma try_pools_outcome:
  "try_pools E ls n rr w = (r, rr', w') \<Longrightarrow> grows (mw_store w) (mw_store w')
     \<and> (r = RunnerCreated \<longrightarrow> (\<exists>m \<in> set (gd_instances (mw_db w')) - set (gd_instances (mw_db w)). im_AditionalLabels m = ls))"
proof (induction n arbitrary: rr w)
  case (Suc n)
  obtain p rr1 where nx: "rr_Next rr = (p, rr1)" by fastforce
  show ?case
  proof (cases p)
    case (NextPool q)
    obtain e w1 where add: "addRunnerToPool E q ls w = (e, w1)" by fastforce
    have g: "grows (mw_store w) (mw_store w1)"
      using addRunnerToPool_grows [of w E q ls] add by simp
    show ?thesis
    proof (cases e)
      case None
      then have "AddRunner E (gp_ID q) ls w = (None, w1)"
        using add by (auto simp: addRunnerToPool_def split: if_splits sum.splits)
      then obtain m where "m \<in> set (gd_instances (mw_db w1))" "m \<notin> set (gd_instances (mw_db w))" "im_AditionalLabels m = ls"
        by (rule AddRunner_creates) simp
      moreover have "w' = w1" using Suc.prems nx NextPool add None by simp
      ultimately show ?thesis using g by auto
    next
      case (Some er)
      then have "try_pools E ls n rr1 w1 = (r, rr', w')"
        using Suc.prems nx NextPool add by simp
      from Suc.IH [OF this] show ?thesis
        using g grows_trans [OF g] by (auto simp: grows_def)
    qed
  qed (use Suc.prems nx in auto)
qed auto

lemma find_job_saved:
  assumes "find_job k st = Some m" "jm_WorkflowJobID m' = k" "jm_ID m' = jm_ID m"
  shows "find_job k (save_job env m' st) = Some (m'\<lparr>jm_UpdatedAt := de_now env\<rparr>)"
proof -
  have "find (\<lambda>j. jm_WorkflowJobID j = k) js = Some m \<Longrightarrow>
      find (\<lambda>j. jm_WorkflowJobID j = k) (tbl_update jm_ID (jm_ID m) (\<lambda>_. m'\<lparr>jm_UpdatedAt := de_now env\<rparr>) js)
        = Some (m'\<lparr>jm_UpdatedAt := de_now env\<rparr>)" for js
    using assms(2) by (induction js) (auto simp: tbl_update_def split: if_splits)
  then show ?thesis using assms by (simp add: find_job_def save_job_def)
qed

lemma find_job_key: "find_job k st = Some m \<Longrightarrow> jm_WorkflowJobID m = k"
  by (auto simp: find_job_def dest: find_member)

lemma set_lock_finds:
  assumes "set_lock_of env r owner m st = (None, st')" "find_job k st = Some m"
  shows "\<exists>m'. find_job k st' = Some m' \<and> jm_LockedBy m' = owner"
proof -
  have k: "jm_WorkflowJobID m = k" using find_job_key [OF assms(2)] .
  let ?m = "m\<lparr>jm_LockedBy := owner, jm_UpdatedAt := de_now env\<rparr>"
  have "find_job k (save_job env ?m st) = Some (?m\<lparr>jm_UpdatedAt := de_now env\<rparr>)"
    by (rule find_job_saved [OF assms(2)]) (simp_all add: k)
  then show ?thesis
    using assms(1) by (auto simp: set_lock_of_def Let_def find_job_def split: option.splits)
qed

lemma entity_job_call [simp]: "mw_mgr (snd (job_call E f w)) = mw_mgr w"
  by (simp add: job_call_def next_tick_def case_prod_beta)

lemma entity_AddRunner [simp]: "mw_mgr (snd (AddRunner E p ls w)) = mw_mgr w"
  by (simp add: AddRunner_def Let_def case_prod_beta db_call_def remove_runner_def next_tick_def split: sum.split option.split)

lemma entity_try_pools: "mw_mgr (snd (snd (try_pools E ls n rr w))) = mw_mgr w"
proof (induction n arbitrary: rr w)
  case (Suc n)
  have "mw_mgr (snd (addRunnerToPool E p ls w)) = mw_mgr w" for p and w :: manager_world
    by (simp add: addRunnerToPool_def split: sum.split)
  with Suc show ?case by (simp add: case_prod_beta split: next_pool.split option.split)
qed simp

lemma lock_outcome:
  assumes "lock_job E j w = (e, w')" "find_job (gj_WorkflowJobID j) (mw_store w) = Some m"
    and "me = ge_ID (mw_entity w)" "parses E me"
  shows "e = None \<Longrightarrow> \<exists>m'. find_job (gj_WorkflowJobID j) (mw_store w') = Some m' \<and> jm_LockedBy m' = me"
    "e \<noteq> None \<Longrightarrow> find_job (gj_WorkflowJobID j) (mw_store w') = Some m"
proof -
  let ?f = "\<lambda>env. LockJob env (gj_WorkflowJobID j) me"
  have w': "(e, w') = job_call E ?f w"
    using assms(1,3) by (simp add: lock_job_def)
  then have st: "mw_store w' = snd (?f (env_now E w) (mw_store w))" and e: "e = fst (?f (env_now E w) (mw_store w))"
    by (metis job_call_store snd_conv, metis fst_job_call fst_conv)
  have locked: "?f (env_now E w) (mw_store w) =
      (if jm_LockedBy m = me then (None, mw_store w)
       else if jm_LockedBy m \<noteq> uuid_Nil
       then (Some (GConflict (''job is locked by another entity '' @ jm_LockedBy m)), mw_store w)
       else set_lock_of (env_now E w) (loaded_runner (mw_store w)) me m (mw_store w))"
    using assms(2-4) by (auto simp: LockJob_def parses_def env_now_def)
  show "e = None \<Longrightarrow> \<exists>m'. find_job (gj_WorkflowJobID j) (mw_store w') = Some m' \<and> jm_LockedBy m' = me"
    using set_lock_finds [OF _ assms(2)] e st assms(2) unfolding locked
    by (auto split: if_splits) (metis prod.collapse)
  show "e \<noteq> None \<Longrightarrow> find_job (gj_WorkflowJobID j) (mw_store w') = Some m"
    using e st assms(2) unfolding locked by (auto simp: set_lock_of_def Let_def split: option.splits if_splits)
qed

lemma lock_rows: "gd_instances (mw_db (snd (lock_job E j w))) = gd_instances (mw_db w)"
  "gd_instances (mw_db (snd (unlock_job E j w))) = gd_instances (mw_db w)"
  using job_ops_tables(3,4) by (simp_all add: lock_job_def unlock_job_def same_tables_def)

lemma unlock_outcome:
  assumes "unlock_job E j w = (None, w')" "find_job (gj_WorkflowJobID j) (mw_store w) = Some m"
  shows "\<exists>m'. find_job (gj_WorkflowJobID j) (mw_store w') = Some m' \<and> jm_LockedBy m' = uuid_Nil"
proof -
  have "UnlockJob (env_now E w) (gj_WorkflowJobID j) (ge_ID (mw_entity w)) (mw_store w) = (None, mw_store w')"
    using assms(1) by (simp add: unlock_job_def) (metis fst_job_call job_call_store prod.collapse fst_conv snd_conv)
  then show ?thesis
    using set_lock_finds [OF _ assms(2)] assms(2) by (auto simp: UnlockJob_def split: if_splits)
qed

lemma unlock_refused:
  assumes "unlock_job E j w = (Some e, w')"
  shows "mw_store w' = mw_store w"
proof -
  have "UnlockJob (env_now E w) (gj_WorkflowJobID j) (ge_ID (mw_entity w)) (mw_store w) = (Some e, mw_store w')"
    using assms by (simp add: unlock_job_def) (metis fst_job_call job_call_store prod.collapse fst_conv snd_conv)
  then show ?thesis by (auto simp: UnlockJob_def set_lock_of_def Let_def split: option.splits if_splits)
qed

text \<open>Before the pools are looked for, the row is as it was, or an old lock of the entity is gone from it.\<close>

lemma turn_outcome:
  assumes "job_turn E j w = (b, w')" "find_job (gj_WorkflowJobID j) (mw_store w) = Some m"
  shows "\<exists>m'. find_job (gj_WorkflowJobID j) (mw_store w') = Some m' \<and> (m' = m \<or> jm_LockedBy m' = uuid_Nil)"
    and "mw_mgr w' = mw_mgr w" "gd_instances (mw_db w') = gd_instances (mw_db w)"
proof -
  obtain e u where u: "unlock_job E j w = (e, u)" by fastforce
  have w': "w' = w \<or> w' = u" using assms(1) u
    by (auto simp: job_turn_def Let_def split: if_splits option.splits)
  have "\<exists>m'. find_job (gj_WorkflowJobID j) (mw_store u) = Some m' \<and> (m' = m \<or> jm_LockedBy m' = uuid_Nil)"
    using unlock_outcome [of E j w u] unlock_refused [of E j w] u assms(2) by (cases e) auto
  with w' assms(2) show "\<exists>m'. find_job (gj_WorkflowJobID j) (mw_store w') = Some m' \<and> (m' = m \<or> jm_LockedBy m' = uuid_Nil)"
    by auto
  show "mw_mgr w' = mw_mgr w"
    using w' u entity_job_call [of E _ w] by (auto simp: unlock_job_def) (metis entity_job_call snd_conv)
  show "gd_instances (mw_db w') = gd_instances (mw_db w)"
    using w' lock_rows(2) [of E j w] u by auto
qed

text \<open>\<open>runner_made_for k w w'\<close>: an instance labelled with the job was created between the two worlds.\<close>

definition runner_made_for :: "int \<Rightarrow> manager_world \<Rightarrow> manager_world \<Rightarrow> bool" where
  "runner_made_for k w w' \<longleftrightarrow>
     (\<exists>r \<in> set (gd_instances (mw_db w')) - set (gd_instances (mw_db w)). im_AditionalLabels r = [jobLabel k])"

lemma serve_shape:
  assumes "serve_job E j c w = (None, c', w')" "find_job (gj_WorkflowJobID j) (mw_store w) = Some m"
  obtains w2 m2 where "find_job (gj_WorkflowJobID j) (mw_store w2) = Some m2" "m2 = m \<or> jm_LockedBy m2 = uuid_Nil"
      "mw_entity w2 = mw_entity w" "gd_instances (mw_db w2) = gd_instances (mw_db w)"
    and "mw_store w' = mw_store w2
      \<or> (\<exists>e. lock_job E j w2 = (Some e, w'))
      \<or> (\<exists>w3 rr n rr'. lock_job E j w2 = (None, w3)
           \<and> try_pools E [jobLabel (gj_WorkflowJobID j)] n rr w3 = (RunnerCreated, rr', w'))
      \<or> (\<exists>w3 w4 rr n rr'. lock_job E j w2 = (None, w3)
           \<and> try_pools E [jobLabel (gj_WorkflowJobID j)] n rr w3 = (NoRunner, rr', w4) \<and> unlock_job E j w4 = (None, w'))"
proof -
  obtain b w1 where turn: "job_turn E j w = (b, w1)" by fastforce
  note t = turn_outcome [OF turn assms(2)]
  let ?w2 = "sort_labels (gj_ID j) w1"
  have w2: "mw_store ?w2 = mw_store w1" "mw_entity ?w2 = mw_entity w"
    using t(2) by (simp_all add: sort_labels_def)
  obtain q c1 where cur: "find_cursor E j c ?w2 = (q, c1)" by fastforce
  obtain e w3 where lock: "lock_job E j ?w2 = (e, w3)" by fastforce
  obtain r rr' w4 where tried: "try_pools E [jobLabel (gj_WorkflowJobID j)] (length (rr_pools (the q))) (the q) w3 = (r, rr', w4)"
    by (metis prod_cases3)
  have "mw_store w' = mw_store ?w2
      \<or> (\<exists>e. lock_job E j ?w2 = (Some e, w'))
      \<or> (\<exists>w3 rr n rr'. lock_job E j ?w2 = (None, w3)
           \<and> try_pools E [jobLabel (gj_WorkflowJobID j)] n rr w3 = (RunnerCreated, rr', w'))
      \<or> (\<exists>w3 w4 rr n rr'. lock_job E j ?w2 = (None, w3)
           \<and> try_pools E [jobLabel (gj_WorkflowJobID j)] n rr w3 = (NoRunner, rr', w4) \<and> unlock_job E j w4 = (None, w'))"
  proof (cases "b \<and> (\<exists>rr. q = Some rr \<and> rr_pools rr \<noteq> [])")
    case False
    then show ?thesis
      using assms(1) turn cur w2 by (auto simp: serve_job_def Let_def split: bool.splits option.splits if_splits)
  next
    case True
    then obtain rr where rr: "b" "q = Some rr" "rr_pools rr \<noteq> []" by blast
    note run = assms(1) [unfolded serve_job_def turn] cur rr lock tried
    show ?thesis
    proof (cases e)
      case (Some er)
      with run lock show ?thesis by (simp add: Let_def)
    next
      case None
      consider "r = RunnerCreated" | "r = NoRunner" | "r = AttemptPanic" by (cases r) auto
      then show ?thesis
      proof cases
        case 1
        with run None have "w' = w4" by (simp add: Let_def)
        with None lock tried 1 show ?thesis by blast
      next
        case 2
        with run None have "unlock_job E j w4 = (None, w')"
          by (simp add: Let_def split: prod.splits option.splits)
        with None lock tried 2 show ?thesis by blast
      qed (use run None in \<open>simp add: Let_def\<close>)
    qed
  qed
  with that [of ?w2] t(1,3) w2 show thesis by auto
qed

text \<open>
  C20. After a queued job whose row exists was served without an error, one of three things is so of the
  row: it is as it was (the job was not due, is held by another entity, or was locked by this one before); it is
  locked by the entity and an instance labelled with the job was created in this round; or it is unlocked, for
  the next round and for other entities. So a round does not take a lock without creating a runner for it.
\<close>

theorem served_job_locked_with_runner:
  assumes "serve_job E j c w = (None, c', w')" "find_job (gj_WorkflowJobID j) (mw_store w) = Some m"
    and "parses E (ge_ID (mw_entity w))"
  shows "\<exists>m'. find_job (gj_WorkflowJobID j) (mw_store w') = Some m'
    \<and> (m' = m \<or> jm_LockedBy m' = ge_ID (mw_entity w) \<and> runner_made_for (gj_WorkflowJobID j) w w' \<or> jm_LockedBy m' = uuid_Nil)"
proof -
  obtain w2 m2 where w2: "find_job (gj_WorkflowJobID j) (mw_store w2) = Some m2" "m2 = m \<or> jm_LockedBy m2 = uuid_Nil"
      "mw_entity w2 = mw_entity w" "gd_instances (mw_db w2) = gd_instances (mw_db w)"
    and "mw_store w' = mw_store w2
      \<or> (\<exists>e. lock_job E j w2 = (Some e, w'))
      \<or> (\<exists>w3 rr n rr'. lock_job E j w2 = (None, w3)
           \<and> try_pools E [jobLabel (gj_WorkflowJobID j)] n rr w3 = (RunnerCreated, rr', w'))
      \<or> (\<exists>w3 w4 rr n rr'. lock_job E j w2 = (None, w3)
           \<and> try_pools E [jobLabel (gj_WorkflowJobID j)] n rr w3 = (NoRunner, rr', w4) \<and> unlock_job E j w4 = (None, w'))"
    using serve_shape [OF assms(1,2)] by metis
  note lock = lock_outcome [OF _ w2(1) refl, of E, unfolded w2(3), OF _ assms(3)]
  from \<open>mw_store w' = mw_store w2 \<or> _\<close> show ?thesis
  proof (elim disjE exE conjE)
    assume "mw_store w' = mw_store w2"
    with w2(1,2) show ?thesis by auto
  next
    fix e assume "lock_job E j w2 = (Some e, w')"
    from lock(2) [OF this] w2(2) show ?thesis by auto
  next
    fix w3 rr n rr'
    assume l: "lock_job E j w2 = (None, w3)"
      and p: "try_pools E [jobLabel (gj_WorkflowJobID j)] n rr w3 = (RunnerCreated, rr', w')"
    from lock(1) [OF l refl] obtain m' where "find_job (gj_WorkflowJobID j) (mw_store w3) = Some m'"
      "jm_LockedBy m' = ge_ID (mw_entity w)" by auto
    moreover have "gd_instances (mw_db w3) = gd_instances (mw_db w)"
      using lock_rows(1) [of E j w2] l w2(4) by simp
    ultimately show ?thesis
      using try_pools_outcome [OF p] by (auto simp: grows_def find_job_def runner_made_for_def)
  next
    fix w3 w4 rr n rr'
    assume l: "lock_job E j w2 = (None, w3)"
      and p: "try_pools E [jobLabel (gj_WorkflowJobID j)] n rr w3 = (NoRunner, rr', w4)"
      and u: "unlock_job E j w4 = (None, w')"
    from lock(1) [OF l refl] obtain m' where "find_job (gj_WorkflowJobID j) (mw_store w4) = Some m'"
      using try_pools_outcome [OF p] by (auto simp: grows_def find_job_def)
    from unlock_outcome [OF u this] show ?thesis by blast
  qed
qed

definition demo_served_world :: manager_world where
  "demo_served_world = snd (snd (serve_job demo_manager_env demo_job [] demo_manager_world))"

text \<open>The job of the demonstration gets a runner, and is locked.\<close>

theorem served_job_locked_with_runner_witness:
  "(\<exists>m'. find_job (gj_WorkflowJobID demo_job) (mw_store demo_served_world) = Some m'
     \<and> (m' = demo_job_row \<or> jm_LockedBy m' = ge_ID (mw_entity demo_manager_world)
          \<and> runner_made_for (gj_WorkflowJobID demo_job) demo_manager_world demo_served_world \<or> jm_LockedBy m' = uuid_Nil))
   \<and> map jm_LockedBy (js_jobs (mw_store demo_served_world)) = [''e1'']"
proof
  show "\<exists>m'. find_job (gj_WorkflowJobID demo_job) (mw_store demo_served_world) = Some m'
     \<and> (m' = demo_job_row \<or> jm_LockedBy m' = ge_ID (mw_entity demo_manager_world)
          \<and> runner_made_for (gj_WorkflowJobID demo_job) demo_manager_world demo_served_world \<or> jm_LockedBy m' = uuid_Nil)"
  proof (rule served_job_locked_with_runner [where E = demo_manager_env and c = "[]"])
    have "fst (serve_job demo_manager_env demo_job [] demo_manager_world) = None" by code_simp
    then show "serve_job demo_manager_env demo_job [] demo_manager_world
        = (None, fst (snd (serve_job demo_manager_env demo_job [] demo_manager_world)), demo_served_world)"
      unfolding demo_served_world_def by (metis prod.collapse)
    show "find_job (gj_WorkflowJobID demo_job) (mw_store demo_manager_world) = Some demo_job_row" by code_simp
    show "parses demo_manager_env (ge_ID (mw_entity demo_manager_world))"
      by (simp add: parses_def demo_manager_env_def demo_db_at_def demo_db_env_def demo_uuid_def demo_manager_world_def
          demo_manager_def demo_entity_def entity_ref_def)
  qed
qed code_simp

end
