(* ===== verification/GoNet.thy ===== *)
theory GoNet
  imports GoStrings
begin

text \<open>
  More of Go's standard library, used by the supervisor's ports: \<^verbatim>\<open>strings.Fields\<close> and \<^verbatim>\<open>Split\<close>,
  \<^verbatim>\<open>strconv.ParseUint\<close>, and \<^verbatim>\<open>net.IP\<close>. No definition here maps to a source line of the repository.
\<close>

section \<open>strings\<close>

definition is_space :: "char \<Rightarrow> bool" where
  "is_space c \<longleftrightarrow> of_char c \<in> {9, 10, 11, 12, 13, 32 :: nat}"

fun fields_acc :: "string \<Rightarrow> string \<Rightarrow> string list" where
  "fields_acc cur [] = (if cur = [] then [] else [cur])"
| "fields_acc cur (c # cs) =
     (if is_space c then (if cur = [] then [] else [cur]) @ fields_acc [] cs else fields_acc (cur @ [c]) cs)"

definition str_fields :: "string \<Rightarrow> string list" where
  "str_fields = fields_acc []"

fun split_sep :: "char \<Rightarrow> string \<Rightarrow> string list" where
  "split_sep d [] = [[]]"
| "split_sep d (c # cs) =
     (if c = d then [] # split_sep d cs
      else case split_sep d cs of [] \<Rightarrow> [[c]] | s # ss \<Rightarrow> (c # s) # ss)"

lemma split_sep_nonempty [simp]: "split_sep d s \<noteq> []"
  by (induction s) (auto split: list.split)

lemma split_sep_free: "d \<notin> set s \<Longrightarrow> split_sep d s = [s]"
  by (induction s) auto

lemma split_sep_append: "d \<notin> set s \<Longrightarrow> split_sep d (s @ d # t) = s # split_sep d t"
  by (induction s) auto

section \<open>strconv\<close>

text \<open>Digits in a base, most significant first; an invalid digit makes the number invalid.\<close>

fun digits_value :: "(char \<Rightarrow> nat option) \<Rightarrow> int \<Rightarrow> int \<Rightarrow> string \<Rightarrow> int option" where
  "digits_value val base acc [] = Some acc"
| "digits_value val base acc (c # cs) =
     (case val c of None \<Rightarrow> None | Some d \<Rightarrow> digits_value val base (base * acc + int d) cs)"

definition parse_uint :: "(char \<Rightarrow> nat option) \<Rightarrow> int \<Rightarrow> int \<Rightarrow> string \<Rightarrow> int option" where
  "parse_uint val base limit s =
     (if s = [] then None
      else case digits_value val base 0 s of None \<Rightarrow> None | Some n \<Rightarrow> if n < limit then Some n else None)"

definition dec_val :: "char \<Rightarrow> nat option" where
  "dec_val c = (if is_digit c then Some (digit_val c) else None)"

lemma digits_value_append:
  "digits_value val base acc (s @ t) =
     (case digits_value val base acc s of None \<Rightarrow> None | Some n \<Rightarrow> digits_value val base n t)"
  by (induction s arbitrary: acc) (auto split: option.split)

lemma digits_value_show: "digits_value dec_val 10 0 (show_nat n) = Some (int n)"
proof (induction n rule: show_nat.induct)
  case (1 n)
  have "10 * int (n div 10) + int (n mod 10) = int n" by presburger
  with 1 show ?case
    by (cases "n < 10") (simp_all add: show_nat.simps [of n] digits_value_append dec_val_def)
qed

lemma digits_value_nonneg: "digits_value val base acc s = Some n \<Longrightarrow> 0 \<le> acc \<Longrightarrow> 0 \<le> base \<Longrightarrow> 0 \<le> n"
  by (induction s arbitrary: acc) (auto split: option.splits)

lemma parse_uint_range: "parse_uint val base limit s = Some n \<Longrightarrow> 0 \<le> base \<Longrightarrow> 0 \<le> n \<and> n < limit"
  by (auto simp: parse_uint_def dest: digits_value_nonneg split: if_splits option.splits)

section \<open>net.IP\<close>

definition to4 :: "bytes \<Rightarrow> bytes option" where
  "to4 ip = (if length ip = 4 then Some ip
             else if length ip = 16 \<and> take 12 ip = replicate 10 0 @ [255, 255] then Some (drop 12 ip) else None)"

definition ip_equal :: "bytes \<Rightarrow> bytes \<Rightarrow> bool" where
  "ip_equal a b \<longleftrightarrow>
     (if length a = length b then a = b
      else if length a = 4 \<and> length b = 16 then b = replicate 10 0 @ [255, 255] @ a
      else if length a = 16 \<and> length b = 4 then a = replicate 10 0 @ [255, 255] @ b
      else False)"

definition IPv6loopback :: bytes where
  "IPv6loopback = replicate 15 0 @ [1]"

definition IsLoopback :: "bytes \<Rightarrow> bool" where
  "IsLoopback ip = (case to4 ip of Some q \<Rightarrow> q ! 0 = 127 | None \<Rightarrow> ip_equal ip IPv6loopback)"

text \<open>\<^verbatim>\<open>bytes.Compare(a, b) < 0\<close>.\<close>

fun bytes_less :: "bytes \<Rightarrow> bytes \<Rightarrow> bool" where
  "bytes_less a [] = False"
| "bytes_less [] (y # ys) = True"
| "bytes_less (x # xs) (y # ys) = (x < y \<or> x = y \<and> bytes_less xs ys)"

text \<open>\<^verbatim>\<open>IP.String\<close>: dotted, or groups of 16 bits with the first longest run of zeros left out.\<close>

fun show_hex :: "nat \<Rightarrow> string" where
  "show_hex n = (if n < 16 then [hex_digit n] else show_hex (n div 16) @ [hex_digit (n mod 16)])"

declare show_hex.simps [simp del]

fun groups16 :: "bytes \<Rightarrow> nat list" where
  "groups16 (a # b # bs) = (256 * unat a + unat b) # groups16 bs"
| "groups16 _ = []"

definition zero_run :: "nat list \<Rightarrow> nat \<Rightarrow> nat" where
  "zero_run gs i = length (takeWhile (\<lambda>g. g = 0) (drop i gs))"

definition longest_run :: "nat list \<Rightarrow> nat option" where
  "longest_run gs =
     (let best = foldl (\<lambda>m i. max m (zero_run gs i)) 0 [0..<length gs]
      in if best < 2 then None else find (\<lambda>i. zero_run gs i = best) [0..<length gs])"

definition ip_String :: "bytes \<Rightarrow> string" where
  "ip_String ip =
     (if ip = [] then ''<nil>''
      else if length ip \<noteq> 4 \<and> length ip \<noteq> 16 then CHR ''?'' # hex_encode ip
      else case to4 ip of
        Some q \<Rightarrow> join_with ''.'' (map (\<lambda>b. show_nat (unat b)) q)
      | None \<Rightarrow>
          (let gs = groups16 ip; text = (\<lambda>hs. join_with '':'' (map show_hex hs)) in
           case longest_run gs of
             None \<Rightarrow> text gs
           | Some i \<Rightarrow> text (take i gs) @ ''::'' @ text (drop (i + zero_run gs i) gs)))"

end
