(* ===== verification/ServedPorts.thy ===== *)
theory ServedPorts
  imports GoNet
begin

text \<open>
  \<^verbatim>\<open>environments/supervisor/pkg/ports/served-ports.go\<close>: the ports on which processes of the workspace
  listen, read from \<^verbatim>\<open>/proc/net/tcp\<close> and \<^verbatim>\<open>/proc/net/tcp6\<close>. Ports are 32 bits wide, as in the code.
  \<^verbatim>\<open>sort.Slice\<close> does not say how it orders equal elements, so it is an argument.
\<close>

type_synonym port = "32 word"

record served_port =
  sp_Address :: bytes
  sp_Port :: port
  sp_BoundToLocalhost :: bool

section \<open>Addresses\<close>

definition fromHexChar :: "char \<Rightarrow> byte" where
  "fromHexChar c =
     (let n = (of_char c :: nat) in
      if 48 \<le> n \<and> n \<le> 57 then of_nat (n - 48)
      else if 97 \<le> n \<and> n \<le> 102 then of_nat (n - 97 + 10)
      else if 65 \<le> n \<and> n \<le> 70 then of_nat (n - 65 + 10)
      else 0)"

definition hex_pair :: "string \<Rightarrow> nat \<Rightarrow> nat \<Rightarrow> byte" where
  "hex_pair src block i =
     or (push_bit 4 (fromHexChar (src ! (block * 8 + i * 2)))) (fromHexChar (src ! (block * 8 + i * 2 + 1)))"

text \<open>The buffer has room for four blocks; the bytes of a block are stored from its end.\<close>

definition hexDecodeIP :: "string \<Rightarrow> bytes go" where
  "hexDecodeIP src =
     (let blocks = length src div 8 in
      if 4 < blocks then Panic
      else Ret (concat (map (\<lambda>block. rev (map (hex_pair src block) [0..<4])) [0..<blocks])))"

section \<open>The kernel's table\<close>

type_synonym 'a slice_sort = "('a \<Rightarrow> 'a \<Rightarrow> bool) \<Rightarrow> 'a list \<Rightarrow> 'a list"

definition by_address :: "served_port \<Rightarrow> served_port \<Rightarrow> bool" where
  "by_address a b \<longleftrightarrow>
     (if ip_equal (sp_Address a) (sp_Address b) then sp_Port a < sp_Port b
      else bytes_less (sp_Address a) (sp_Address b))"

definition by_port :: "served_port \<Rightarrow> served_port \<Rightarrow> bool" where
  "by_port a b \<longleftrightarrow> sp_Port a < sp_Port b"

text \<open>The entry of one line: none for a header, a socket in another state, or a malformed line.\<close>

definition parse_entry :: "bool \<Rightarrow> string \<Rightarrow> served_port option go" where
  "parse_entry listeningOnly line =
     (let fs = str_fields line in
      if length fs < 4 then Ret None
      else if listeningOnly \<and> fs ! 3 \<noteq> ''0A'' then Ret None
      else let segs = split_sep (CHR '':'') (fs ! 1) in
        if length segs < 2 then Ret None
        else case parse_uint hex_val 16 (2 ^ 32) (segs ! 1) of
          None \<Rightarrow> Ret None
        | Some n \<Rightarrow>
            (case hexDecodeIP (segs ! 0) of
               Panic \<Rightarrow> Panic
             | Ret ip \<Rightarrow> Ret (Some \<lparr>sp_Address = ip, sp_Port = word_of_int n, sp_BoundToLocalhost = IsLoopback ip\<rparr>)))"

fun read_entries :: "served_port slice_sort \<Rightarrow> bool \<Rightarrow> served_port list \<Rightarrow> string list \<Rightarrow> served_port list go" where
  "read_entries arrange listeningOnly ports [] = Ret ports"
| "read_entries arrange listeningOnly ports (l # ls) =
     (case parse_entry listeningOnly l of
        Panic \<Rightarrow> Panic
      | Ret None \<Rightarrow> read_entries arrange listeningOnly ports ls
      | Ret (Some p) \<Rightarrow> read_entries arrange listeningOnly (arrange by_port (arrange by_address (ports @ [p]))) ls)"

text \<open>A file is the lines the scanner returns, and the error it stops with.\<close>

definition readNetTCPFile :: "served_port slice_sort \<Rightarrow> bool \<Rightarrow> string list \<Rightarrow> string option \<Rightarrow> (string, served_port list) result go" where
  "readNetTCPFile arrange listeningOnly ls scanErr =
     (case read_entries arrange listeningOnly [] ls of
        Panic \<Rightarrow> Panic
      | Ret ports \<Rightarrow> Ret (case scanErr of Some e \<Rightarrow> Inl e | None \<Rightarrow> Inr ports))"

section \<open>Polling\<close>

text \<open>What opening a file gives: an error, or its lines and the scanner's error. A file that does not exist is left out.\<close>

type_synonym net_file = "(string, string list \<times> string option) result"

definition visit_key :: "served_port \<Rightarrow> string" where
  "visit_key p = hex_encode (sp_Address p) @ '':'' @ show_nat (unat (sp_Port p))"

fun add_unvisited :: "served_port list \<Rightarrow> string list \<Rightarrow> served_port list \<Rightarrow> string list \<times> served_port list" where
  "add_unvisited [] visited ports = (visited, ports)"
| "add_unvisited (p # ps) visited ports =
     (if visit_key p \<in> set visited then add_unvisited ps visited ports
      else add_unvisited ps (visit_key p # visited) (ports @ [p]))"

text \<open>The errors sent and the ports found in one round.\<close>

fun poll_files :: "served_port slice_sort \<Rightarrow> net_file list \<Rightarrow> string list \<Rightarrow> served_port list \<Rightarrow> (string list \<times> served_port list) go" where
  "poll_files arrange [] visited ports = Ret ([], ports)"
| "poll_files arrange (f # fs) visited ports =
     (case f of
        Inl e \<Rightarrow> (case poll_files arrange fs visited ports of Panic \<Rightarrow> Panic | Ret (es, ps) \<Rightarrow> Ret (e # es, ps))
      | Inr (ls, scanErr) \<Rightarrow>
          (case readNetTCPFile arrange True ls scanErr of
             Panic \<Rightarrow> Panic
           | Ret (Inl e) \<Rightarrow> (case poll_files arrange fs visited ports of Panic \<Rightarrow> Panic | Ret (es, ps) \<Rightarrow> Ret (e # es, ps))
           | Ret (Inr found) \<Rightarrow>
               (case add_unvisited found visited ports of (visited', ports') \<Rightarrow> poll_files arrange fs visited' ports')))"

text \<open>A round announces what it found, unless it found nothing.\<close>

definition poll_round :: "served_port slice_sort \<Rightarrow> net_file list \<Rightarrow> (string list \<times> served_port list option) go" where
  "poll_round arrange fs =
     (case poll_files arrange fs [] [] of
        Panic \<Rightarrow> Panic
      | Ret (es, ports) \<Rightarrow> Ret (es, if ports = [] then None else Some ports))"

end
