(* ===== verification/PortConfig.thy ===== *)
theory PortConfig
  imports ServedPorts
begin

text \<open>
  \<^verbatim>\<open>environments/supervisor/pkg/ports/ports-config.go\<close>: the configuration of single ports and of
  ranges of ports, and its observer. A Go map is the list of its entries, in the order in which a
  range over it visits them; every statement holds for every order.
\<close>

section \<open>Data\<close>

text \<open>
  \<^verbatim>\<open>gitpod.PortsItems\<close>, as far as it is read: the port is a decoded YAML value of which the code only
  reads the text \<^verbatim>\<open>%v\<close> prints.
\<close>

record ports_item =
  pi_Port :: string
  pi_OnOpen :: string
  pi_Visibility :: string
  pi_Description :: string
  pi_Protocol :: string
  pi_Name :: string

record port_config =
  pc_Port :: port
  pc_OnOpen :: string
  pc_Visibility :: string
  pc_Description :: string
  pc_Protocol :: string
  pc_Name :: string

record range_config =
  rc_Item :: ports_item
  rc_Start :: port
  rc_End :: port
  rc_Sort :: "32 word"

record sort_config =
  sc_Config :: port_config
  sc_Sort :: "32 word"

record port_configs =
  cf_Ports :: "(port \<times> sort_config) list"
  cf_Ranges :: "range_config list"

definition NON_CONFIGED_BASIC_SCORE :: "32 word" where
  "NON_CONFIGED_BASIC_SCORE = 100000"

section \<open>Looking a port up\<close>

datatype config_kind = PortConfigKind | RangeConfigKind

definition range_sort_config :: "port \<Rightarrow> range_config \<Rightarrow> sort_config" where
  "range_sort_config p r =
     \<lparr>sc_Config = \<lparr>pc_Port = p, pc_OnOpen = pi_OnOpen (rc_Item r), pc_Visibility = pi_Visibility (rc_Item r),
        pc_Description = pi_Description (rc_Item r), pc_Protocol = pi_Protocol (rc_Item r), pc_Name = pi_Name (rc_Item r)\<rparr>,
      sc_Sort = rc_Sort r\<rparr>"

definition configs_Get :: "port_configs option \<Rightarrow> port \<Rightarrow> (sort_config \<times> config_kind) option" where
  "configs_Get configs p =
     (case configs of
        None \<Rightarrow> None
      | Some cf \<Rightarrow>
          (case map_of (cf_Ports cf) p of
             Some c \<Rightarrow> Some (c, PortConfigKind)
           | None \<Rightarrow>
               (case find (\<lambda>r. rc_Start r \<le> p \<and> p \<le> rc_End r) (cf_Ranges cf) of
                  Some r \<Rightarrow> Some (range_sort_config p r, RangeConfigKind)
                | None \<Rightarrow> None)))"

text \<open>Every configured port is visited once.\<close>

definition configs_ForEach :: "port_configs option \<Rightarrow> (port \<Rightarrow> sort_config \<Rightarrow> 's \<Rightarrow> 's) \<Rightarrow> 's \<Rightarrow> 's" where
  "configs_ForEach configs callback s =
     (case configs of None \<Rightarrow> s | Some cf \<Rightarrow> fold (\<lambda>(p, c). callback p c) (cf_Ports cf) s)"

section \<open>Parsing\<close>

text \<open>\<^verbatim>\<open>^(\d+)[-:](\d+)$\<close>\<close>

definition portRangeRegexp :: "string \<Rightarrow> (string \<times> string) option" where
  "portRangeRegexp s =
     (let a = takeWhile is_digit s in
      case dropWhile is_digit s of
        [] \<Rightarrow> None
      | c # b \<Rightarrow>
          if a \<noteq> [] \<and> c \<in> {CHR ''-'', CHR '':''} \<and> b \<noteq> [] \<and> list_all is_digit b then Some (a, b) else None)"

text \<open>\<^verbatim>\<open>strconv.Atoi\<close> on a text of digits.\<close>

definition atoi_digits :: "string \<Rightarrow> int option" where
  "atoi_digits = parse_uint dec_val 10 (2 ^ 63)"

definition parse_port :: "string \<Rightarrow> port option" where
  "parse_port raw = map_option word_of_int (parse_uint dec_val 10 (2 ^ 16) raw)"

definition item_config :: "ports_item \<Rightarrow> port \<Rightarrow> nat \<Rightarrow> sort_config" where
  "item_config item p index =
     \<lparr>sc_Config = \<lparr>pc_Port = p, pc_OnOpen = pi_OnOpen item, pc_Visibility = pi_Visibility item,
        pc_Description = pi_Description item, pc_Protocol = pi_Protocol item, pc_Name = pi_Name item\<rparr>,
      sc_Sort = of_nat index\<rparr>"

text \<open>The limits of a range are cut to 32 bits after they were compared.\<close>

definition parse_range :: "ports_item \<Rightarrow> nat \<Rightarrow> range_config option" where
  "parse_range item index =
     (case portRangeRegexp (pi_Port item) of
        None \<Rightarrow> None
      | Some (a, b) \<Rightarrow>
          (case atoi_digits a of
             None \<Rightarrow> None
           | Some start \<Rightarrow>
               (case atoi_digits b of
                  None \<Rightarrow> None
                | Some end_ \<Rightarrow>
                    if end_ \<le> start then None
                    else Some \<lparr>rc_Item = item, rc_Start = word_of_int start, rc_End = word_of_int end_, rc_Sort = of_nat index\<rparr>)))"

fun parse_items :: "nat \<Rightarrow> ports_item option list \<Rightarrow> port_configs \<Rightarrow> port_configs" where
  "parse_items index [] cf = cf"
| "parse_items index (None # items) cf = parse_items (Suc index) items cf"
| "parse_items index (Some item # items) cf = parse_items (Suc index) items
     (case parse_port (pi_Port item) of
        Some p \<Rightarrow>
          if p \<in> fst ` set (cf_Ports cf) then cf
          else cf\<lparr>cf_Ports := cf_Ports cf @ [(p, item_config item p index)]\<rparr>
      | None \<Rightarrow>
          (case parse_range item index of
             None \<Rightarrow> cf
           | Some r \<Rightarrow> cf\<lparr>cf_Ranges := cf_Ranges cf @ [r]\<rparr>))"

definition empty_configs :: port_configs where
  "empty_configs = \<lparr>cf_Ports = [], cf_Ranges = []\<rparr>"

definition parseInstanceConfigs :: "ports_item option list \<Rightarrow> port_configs" where
  "parseInstanceConfigs items = parse_items 0 items empty_configs"

section \<open>Observing\<close>

text \<open>\<^verbatim>\<open>reflect.DeepEqual\<close> of two maps, and of two lists.\<close>

definition same_configs :: "port_configs \<Rightarrow> port_configs \<Rightarrow> bool" where
  "same_configs a b \<longleftrightarrow> set (cf_Ports a) = set (cf_Ports b) \<and> cf_Ranges a = cf_Ranges b"

text \<open>A new configuration, if there is one, replaces the current one; it is announced when it differs.\<close>

definition config_update :: "ports_item option list option \<Rightarrow> port_configs \<Rightarrow> bool \<times> port_configs" where
  "config_update config current =
     (let new = parseInstanceConfigs (case config of None \<Rightarrow> [] | Some ports \<Rightarrow> ports)
      in (\<not> same_configs current new, new))"

definition config_observe :: "ports_item option list option \<Rightarrow> port_configs \<Rightarrow> port_configs option \<times> port_configs" where
  "config_observe config current =
     (case config_update config current of (changed, new) \<Rightarrow> (if changed then Some new else None, new))"

end
