(* ===== verification/ExposedPorts.thy ===== *)
theory ExposedPorts
  imports PortConfig
begin

text \<open>
  \<^verbatim>\<open>environments/supervisor/pkg/ports/exposed-ports.go\<close>: ports exposed to the internet. Private HTTP
  ports are exposed here, every other one by the server, whose answers are arguments. The
  constants of the protocol package and the parts of the workspace's URL are parameters too.
\<close>

text \<open>The generated enums of the API; which of their values is the zero value is a parameter as well.\<close>

datatype port_visibility = VisibilityPrivate | VisibilityPublic
datatype port_protocol = ProtocolHTTP | ProtocolHTTPS
datatype exposure_state = AutoTrying | AutoSucceeded | AutoFailed

record protocol_names =
  pn_http :: string
  pn_https :: string
  pn_private :: string
  pn_public :: string
  pn_noVisibility :: port_visibility
  pn_noProtocol :: port_protocol
  pn_noExposure :: exposure_state

record exposed_port =
  ep_LocalPort :: port
  ep_URL :: string
  ep_Public :: bool
  ep_Protocol :: string

text \<open>\<^verbatim>\<open>gitpod.WorkspaceInstancePort\<close> as it is sent and received: its port is a float, cut to 32 bits when it is read.\<close>

record instance_port =
  ip_Port :: port
  ip_Visibility :: string
  ip_Protocol :: string

record exposed_ports =
  xp_URL :: "(string \<times> string \<times> string) option"
  xp_local :: "port list"
  xp_notices :: nat
  xp_server :: "instance_port list"
  xp_requests :: "instance_port list"

definition NewGitpodExposedPorts :: "(string \<times> string \<times> string) option \<Rightarrow> exposed_ports" where
  "NewGitpodExposedPorts url = \<lparr>xp_URL = url, xp_local = [], xp_notices = 0, xp_server = [], xp_requests = []\<rparr>"

text \<open>The parsed URL is the text before the host, the host, and the text after it; none if it does not parse.\<close>

definition getPortUrl :: "exposed_ports \<Rightarrow> port \<Rightarrow> string" where
  "getPortUrl g p =
     (case xp_URL g of
        None \<Rightarrow> []
      | Some (before, host, after) \<Rightarrow> before @ show_nat (unat p) @ ''-'' @ host @ after)"

definition getPortProtocol :: "protocol_names \<Rightarrow> string \<Rightarrow> string" where
  "getPortProtocol K protocol = (if protocol = pn_http K \<or> protocol = pn_https K then protocol else pn_http K)"

definition put_exposed :: "exposed_port \<Rightarrow> exposed_port list \<Rightarrow> exposed_port list" where
  "put_exposed e es = filter (\<lambda>x. ep_LocalPort x \<noteq> ep_LocalPort e) es @ [e]"

text \<open>The ports exposed here, overwritten by those of the server.\<close>

definition mixin :: "protocol_names \<Rightarrow> exposed_ports \<Rightarrow> exposed_port list" where
  "mixin K g =
     (let here = fold (\<lambda>p. put_exposed \<lparr>ep_LocalPort = p, ep_URL = getPortUrl g p, ep_Public = False, ep_Protocol = pn_http K\<rparr>)
                   (xp_local g) []
      in fold (\<lambda>i. put_exposed \<lparr>ep_LocalPort = ip_Port i, ep_URL = getPortUrl g (ip_Port i),
                  ep_Public = (ip_Visibility i = ''public''), ep_Protocol = getPortProtocol K (ip_Protocol i)\<rparr>)
           (xp_server g) here)"

text \<open>The observer announces after an update of the server and after a notice.\<close>

definition server_update :: "protocol_names \<Rightarrow> instance_port list \<Rightarrow> exposed_ports \<Rightarrow> exposed_port list \<times> exposed_ports" where
  "server_update K ports g = (let g' = g\<lparr>xp_server := ports\<rparr> in (mixin K g', g'))"

definition local_notice :: "protocol_names \<Rightarrow> exposed_ports \<Rightarrow> (exposed_port list \<times> exposed_ports) option" where
  "local_notice K g = (if xp_notices g = 0 then None else Some (mixin K g, g\<lparr>xp_notices := xp_notices g - 1\<rparr>))"

text \<open>
  Exposing a port: done at once for a private HTTP port, otherwise a request whose outcome comes
  later. A channel that is full delays the caller.
\<close>

datatype exposing = ExposedAtOnce | ExposeRequested

definition xp_Expose :: "protocol_names \<Rightarrow> port \<Rightarrow> bool \<Rightarrow> string \<Rightarrow> exposed_ports \<Rightarrow> exposing \<times> exposed_ports" where
  "xp_Expose K p public protocol0 g =
     (let protocol = (if protocol0 \<noteq> pn_https K \<and> protocol0 \<noteq> pn_http K then pn_http K else protocol0) in
      if \<not> public \<and> protocol \<noteq> pn_https K
      then (ExposedAtOnce,
            if p \<in> set (xp_local g) then g else g\<lparr>xp_local := xp_local g @ [p], xp_notices := Suc (xp_notices g)\<rparr>)
      else (ExposeRequested,
            g\<lparr>xp_requests := xp_requests g @ [\<lparr>ip_Port = p, ip_Visibility = if public then pn_public K else pn_private K,
                ip_Protocol = protocol\<rparr>]\<rparr>))"

text \<open>
  One request after another is put to the server, again after a delay while it fails: answer \<open>n\<close> is
  the error of attempt \<open>n\<close>, the state of the request's context after it, and its state after the delay.
  Attempts are counted from 0, so that the count never passes 5; the function stops there too.
\<close>

record open_answer =
  oa_err :: "string option"
  oa_ctx :: "string option"
  oa_delay :: "string option"

function do_expose :: "(nat \<Rightarrow> open_answer) \<Rightarrow> nat \<Rightarrow> nat \<times> string option" where
  "do_expose server attempt =
     (let a = server attempt in
      if oa_err a = None \<or> oa_ctx a \<noteq> None \<or> attempt = 5 \<or> 5 < attempt then (Suc attempt, oa_err a)
      else case oa_delay a of
        Some e \<Rightarrow> (Suc attempt, Some e)
      | None \<Rightarrow> do_expose server (Suc attempt))"
  by auto
termination by (relation "measure (\<lambda>(server, attempt). 5 - attempt)") auto

declare do_expose.simps [simp del]

definition doExpose :: "(nat \<Rightarrow> open_answer) \<Rightarrow> nat \<times> string option" where
  "doExpose server = do_expose server 0"

definition xp_Run :: "(nat \<Rightarrow> open_answer) \<Rightarrow> exposed_ports \<Rightarrow> (instance_port \<times> nat \<times> string option) option \<times> exposed_ports" where
  "xp_Run server g =
     (case xp_requests g of
        [] \<Rightarrow> (None, g)
      | r # rs \<Rightarrow> (Some (r, doExpose server), g\<lparr>xp_requests := rs\<rparr>))"

end
