(* ===== verification/PortTunnels.thy ===== *)
theory PortTunnels
  imports ServedPorts
begin

text \<open>
  \<^verbatim>\<open>environments/supervisor/pkg/ports/tunnel.go\<close>: the tunnels of ports to clients. A tunnel is an object
  that the service's map, the closers of its connections and every announced state share, so objects
  have addresses: the map of a tunnel's clients is reached through the address of the tunnel.
  Operations hold the mutex from start to end, except that \<^verbatim>\<open>CloseTunnel\<close> closes the connections
  after it has released it.
\<close>

section \<open>State\<close>

text \<open>\<^verbatim>\<open>api.TunnelVisiblity\<close>, a generated enum; the code names one value and passes the others on.\<close>

datatype tunnel_visibility = TunnelHost | TunnelOther nat

record tunnel_description =
  td_LocalPort :: port
  td_TargetPort :: port
  td_Visibility :: tunnel_visibility

text \<open>What an observer is sent: the description by value, the clients by reference.\<close>

record tunnel_state =
  ts_Desc :: tunnel_description
  ts_Clients :: nat

record tunnel_object =
  to_Desc :: tunnel_description
  to_Clients :: "(string \<times> port) list"
  to_Conns :: "(string \<times> nat list) list"

record tunnel_conn =
  tc_Port :: port
  tc_Tunnel :: nat
  tc_Client :: string
  tc_Closed :: bool
  tc_closeErr :: "string option"

record tunnel_service =
  tv_tunnels :: "(port \<times> nat) list"
  tv_objects :: "tunnel_object list"
  tv_conns :: "tunnel_conn list"
  tv_broadcasts :: nat

definition NewTunneledPortsService :: tunnel_service where
  "NewTunneledPortsService = \<lparr>tv_tunnels = [], tv_objects = [], tv_conns = [], tv_broadcasts = 0\<rparr>"

definition broadcast :: "tunnel_service \<Rightarrow> tunnel_service" where
  "broadcast s = s\<lparr>tv_broadcasts := Suc (tv_broadcasts s)\<rparr>"

definition on_object :: "nat \<Rightarrow> (tunnel_object \<Rightarrow> tunnel_object) \<Rightarrow> tunnel_service \<Rightarrow> tunnel_service" where
  "on_object a f s = s\<lparr>tv_objects := (tv_objects s)[a := f (tv_objects s ! a)]\<rparr>"

lemma on_object_tunnels [simp]: "tv_tunnels (on_object a f s) = tv_tunnels s" "tv_tunnels (broadcast s) = tv_tunnels s"
  "tv_conns (on_object a f s) = tv_conns s" "tv_conns (broadcast s) = tv_conns s"
  by (simp_all add: on_object_def broadcast_def)

section \<open>Opening\<close>

datatype tunnel_error =
    BadLocalPort port
  | BadTargetPort port
  | AlreadyTunneling string port port
  | NoSuchTunnel string port
  | DialError string
  | TunnelErrors tunnel_error tunnel_error
  | ConnError string

definition desc_validate :: "tunnel_description \<Rightarrow> tunnel_error option" where
  "desc_validate d =
     (if td_LocalPort d = 0 \<or> 0xFFFF < td_LocalPort d then Some (BadLocalPort (td_LocalPort d))
      else if 0xFFFF < td_TargetPort d then Some (BadTargetPort (td_TargetPort d))
      else None)"

definition join_error :: "tunnel_error option \<Rightarrow> tunnel_error \<Rightarrow> tunnel_error" where
  "join_error err e = (case err of None \<Rightarrow> e | Some e' \<Rightarrow> TunnelErrors e' e)"

fun open_tunnels :: "bool \<Rightarrow> tunnel_description list \<Rightarrow> port list \<Rightarrow> tunnel_error option \<Rightarrow> tunnel_service \<Rightarrow>
    port list \<times> tunnel_error option \<times> tunnel_service" where
  "open_tunnels skipIfExists [] opened err s = (opened, err, s)"
| "open_tunnels skipIfExists (d # ds) opened err s =
     (case desc_validate d of
        Some e \<Rightarrow> open_tunnels skipIfExists ds opened (Some (join_error err e)) s
      | None \<Rightarrow>
          (case map_of (tv_tunnels s) (td_LocalPort d) of
             None \<Rightarrow>
               open_tunnels skipIfExists ds (opened @ [td_LocalPort d]) err
                 (s\<lparr>tv_tunnels := (td_LocalPort d, length (tv_objects s)) # tv_tunnels s,
                    tv_objects := tv_objects s @ [\<lparr>to_Desc = d, to_Clients = [], to_Conns = []\<rparr>]\<rparr>)
           | Some a \<Rightarrow>
               if skipIfExists then open_tunnels skipIfExists ds opened err s
               else open_tunnels skipIfExists ds (opened @ [td_LocalPort d]) err (on_object a (\<lambda>t. t\<lparr>to_Desc := d\<rparr>) s)))"

definition tv_Tunnel :: "bool \<Rightarrow> tunnel_description list \<Rightarrow> tunnel_service \<Rightarrow>
    port list \<times> tunnel_error option \<times> tunnel_service" where
  "tv_Tunnel skipIfExists descs s =
     (case open_tunnels skipIfExists descs [] None s of
        (opened, err, s') \<Rightarrow> (opened, err, if opened = [] then s' else broadcast s'))"

section \<open>Connections\<close>

definition conns_of :: "string \<Rightarrow> tunnel_object \<Rightarrow> nat list" where
  "conns_of client t = (case map_of (to_Conns t) client of None \<Rightarrow> [] | Some cs \<Rightarrow> cs)"

definition put_entry :: "'k \<Rightarrow> 'v \<Rightarrow> ('k \<times> 'v) list \<Rightarrow> ('k \<times> 'v) list" where
  "put_entry k v m = (k, v) # filter (\<lambda>(k', _). k' \<noteq> k) m"

definition drop_entry :: "'k \<Rightarrow> ('k \<times> 'v) list \<Rightarrow> ('k \<times> 'v) list" where
  "drop_entry k m = filter (\<lambda>(k', _). k' \<noteq> k) m"

definition add_conn :: "nat \<Rightarrow> string \<Rightarrow> port \<Rightarrow> port \<Rightarrow> tunnel_service \<Rightarrow> nat \<times> tunnel_service" where
  "add_conn a client localPort targetPort s =
     (let c = length (tv_conns s);
          s1 = s\<lparr>tv_conns := tv_conns s @
            [\<lparr>tc_Port = localPort, tc_Tunnel = a, tc_Client = client, tc_Closed = False, tc_closeErr = None\<rparr>]\<rparr>
      in (c, broadcast (on_object a (\<lambda>t. t\<lparr>to_Conns := put_entry client (c # conns_of client t) (to_Conns t),
            to_Clients := put_entry client targetPort (to_Clients t)\<rparr>) s1)))"

text \<open>The operating system's answer to the dial is an argument.\<close>

definition tv_EstablishTunnel :: "string option \<Rightarrow> string \<Rightarrow> port \<Rightarrow> port \<Rightarrow> tunnel_service \<Rightarrow>
    (tunnel_error, nat) result \<times> tunnel_service" where
  "tv_EstablishTunnel dialErr client localPort targetPort s =
     (case map_of (tv_tunnels s) localPort of
        None \<Rightarrow> (Inl (NoSuchTunnel client localPort), s)
      | Some a \<Rightarrow>
          if (case map_of (to_Clients (tv_objects s ! a)) client of None \<Rightarrow> False | Some expected \<Rightarrow> expected \<noteq> targetPort)
          then (Inl (AlreadyTunneling client localPort targetPort), s)
          else case dialErr of
            Some e \<Rightarrow> (Inl (DialError e), s)
          | None \<Rightarrow> (case add_conn a client localPort targetPort s of (c, s') \<Rightarrow> (Inr c, s')))"

text \<open>
  A connection is closed once. The closer then takes it off the tunnel it was opened for, if the port
  still has a tunnel, and the client too when it was its last one.
\<close>

definition onDidClose :: "nat \<Rightarrow> tunnel_conn \<Rightarrow> tunnel_service \<Rightarrow> tunnel_service" where
  "onDidClose c k s =
     (if map_of (tv_tunnels s) (tc_Port k) = None then s
      else broadcast (on_object (tc_Tunnel k) (\<lambda>t.
        (let left = removeAll c (conns_of (tc_Client k) t);
             t1 = (if map_of (to_Conns t) (tc_Client k) = None then t else t\<lparr>to_Conns := put_entry (tc_Client k) left (to_Conns t)\<rparr>)
         in if left = [] then t1\<lparr>to_Clients := drop_entry (tc_Client k) (to_Clients t1)\<rparr> else t1)) s))"

definition conn_Close :: "string option \<Rightarrow> nat \<Rightarrow> tunnel_service \<Rightarrow> string option \<times> tunnel_service" where
  "conn_Close closeErr c s =
     (let k = tv_conns s ! c in
      if tc_Closed k then (tc_closeErr k, s)
      else (closeErr, onDidClose c k (s\<lparr>tv_conns := (tv_conns s)[c := k\<lparr>tc_Closed := True, tc_closeErr := closeErr\<rparr>]\<rparr>)))"

section \<open>Closing\<close>

text \<open>Under the mutex the tunnels leave the map; what they were is kept for closing their connections.\<close>

fun remove_tunnels :: "port list \<Rightarrow> tunnel_service \<Rightarrow> (port \<times> nat) list \<times> tunnel_service" where
  "remove_tunnels [] s = ([], s)"
| "remove_tunnels (p # ps) s =
     (case map_of (tv_tunnels s) p of
        None \<Rightarrow> remove_tunnels ps s
      | Some a \<Rightarrow> (case remove_tunnels ps (s\<lparr>tv_tunnels := drop_entry p (tv_tunnels s)\<rparr>) of
          (closed, s') \<Rightarrow> ((p, a) # closed, s')))"

definition take_tunnels :: "port list \<Rightarrow> tunnel_service \<Rightarrow> (port \<times> nat) list \<times> tunnel_service" where
  "take_tunnels ps s = (case remove_tunnels ps s of (closed, s') \<Rightarrow> (closed, if closed = [] then s' else broadcast s'))"

fun close_conns :: "(nat \<Rightarrow> string option) \<Rightarrow> nat list \<Rightarrow> tunnel_error option \<Rightarrow> tunnel_service \<Rightarrow> tunnel_error option \<times> tunnel_service" where
  "close_conns net [] err s = (err, s)"
| "close_conns net (c # cs) err s =
     (case conn_Close (net c) c s of
        (None, s') \<Rightarrow> close_conns net cs err s'
      | (Some e, s') \<Rightarrow> close_conns net cs (Some (join_error err (ConnError e))) s')"

definition tunnel_conns :: "tunnel_object \<Rightarrow> nat list" where
  "tunnel_conns t = concat (map snd (to_Conns t))"

definition tv_CloseTunnel :: "(nat \<Rightarrow> string option) \<Rightarrow> port list \<Rightarrow> tunnel_service \<Rightarrow>
    port list \<times> tunnel_error option \<times> tunnel_service" where
  "tv_CloseTunnel net ps s =
     (case take_tunnels ps s of
        (closed, s1) \<Rightarrow>
          (case close_conns net (concat (map (\<lambda>(p, a). tunnel_conns (tv_objects s1 ! a)) closed)) None s1 of
             (err, s2) \<Rightarrow> (map fst closed, err, s2)))"

section \<open>Observing\<close>

text \<open>The observer is sent the state of every tunnel whenever it is woken up.\<close>

definition tv_observed :: "tunnel_service \<Rightarrow> tunnel_state list" where
  "tv_observed s = map (\<lambda>(p, a). \<lparr>ts_Desc = to_Desc (tv_objects s ! a), ts_Clients = a\<rparr>) (tv_tunnels s)"

definition clients_at :: "tunnel_service \<Rightarrow> nat \<Rightarrow> (string \<times> port) set" where
  "clients_at s a = set (to_Clients (tv_objects s ! a))"

text \<open>\<^verbatim>\<open>Snapshot\<close> prints each tunnel, by port: its description, and per client the target and its open connections.\<close>

definition tv_Snapshot :: "tunnel_service \<Rightarrow> (tunnel_description \<times> (string \<times> port \<times> nat) list) list" where
  "tv_Snapshot s = map (\<lambda>(p, a). (let t = tv_objects s ! a in
     (to_Desc t, map (\<lambda>(client, target). (client, target, length (conns_of client t))) (to_Clients t))))
     (sort_key fst (tv_tunnels s))"

section \<open>Steps\<close>

text \<open>What may happen to the service, one hold of the mutex at a time.\<close>

datatype tunnel_event =
    OpenTunnels bool "tunnel_description list"
  | TakeTunnels "port list"
  | Establish "string option" string port port
  | CloseConn "string option" nat

fun tunnel_step :: "tunnel_event \<Rightarrow> tunnel_service \<Rightarrow> tunnel_service" where
  "tunnel_step (OpenTunnels skip ds) s = snd (snd (tv_Tunnel skip ds s))"
| "tunnel_step (TakeTunnels ps) s = snd (take_tunnels ps s)"
| "tunnel_step (Establish e client lp tp) s = snd (tv_EstablishTunnel e client lp tp s)"
| "tunnel_step (CloseConn e c) s = (if c < length (tv_conns s) then snd (conn_Close e c s) else s)"

end
