(* ===== verification/PortManager.thy ===== *)
theory PortManager
  imports ExposedPorts PortTunnels SqlTable "HOL-Library.Product_Lexorder"
begin

text \<open>
  \<^verbatim>\<open>environments/supervisor/pkg/ports/ports.go\<close>: the manager that brings together served, exposed,
  configured and tunneled ports. Its operations hold the mutex, so they are functions of its state.
  It calls the exposure of \<^verbatim>\<open>exposed-ports.go\<close> and the tunnels of \<^verbatim>\<open>tunnel.go\<close>, which are parts of
  the state; \<open>pm_asked\<close> records every exposure it asked for.
\<close>

section \<open>State\<close>

datatype on_exposed = ExposedIgnore | ExposedOpenBrowser | ExposedOpenPreview | ExposedNotify | ExposedNotifyPrivate

datatype on_open = OpenIgnore | OpenIgnoreCompletely | OpenBrowser | OpenPreview | OpenNotify | OpenNotifyPrivate

text \<open>The four fields of a tunnel are set together. The clients are the tunnel's own map.\<close>

record tunneled_info =
  ti_TargetPort :: port
  ti_Visibility :: tunnel_visibility
  ti_Clients :: nat

record managed_port =
  mp_Served :: bool
  mp_Exposed :: bool
  mp_Visibility :: port_visibility
  mp_Protocol :: port_protocol
  mp_Description :: string
  mp_Name :: string
  mp_URL :: string
  mp_OnExposed :: on_exposed
  mp_OnOpen :: on_open
  mp_AutoExposure :: exposure_state
  mp_LocalhostPort :: port
  mp_Tunnel :: "tunneled_info option"

record auto_exposure =
  ae_state :: exposure_state
  ae_public :: bool
  ae_protocol :: string

record exposed_info =
  xi_Visibility :: port_visibility
  xi_Protocol :: port_protocol
  xi_Url :: string
  xi_OnExposed :: on_exposed

record ports_status =
  ps_LocalPort :: port
  ps_Served :: bool
  ps_Exposed :: "exposed_info option"
  ps_AutoExposure :: exposure_state
  ps_Tunneled :: "tunneled_info option"
  ps_Description :: string
  ps_Name :: string
  ps_OnOpen :: on_open

record port_subscription =
  su_ID :: nat
  su_updates :: "ports_status list list"

record port_manager =
  pm_internal :: "port list"
  pm_proxies :: "port list"
  pm_autoExposed :: "(port \<times> nat) list"
  pm_exposures :: "auto_exposure list"
  pm_autoTunneled :: "port list"
  pm_autoTunnelEnabled :: bool
  pm_configs :: "port_configs option"
  pm_exposed :: "exposed_port list"
  pm_served :: "served_port list"
  pm_tunneled :: "tunnel_state list"
  pm_state :: "managed_port list"
  pm_subscriptions :: "port_subscription list"
  pm_subscribed :: nat
  pm_closed :: bool
  pm_forceUpdates :: bool
  pm_E :: exposed_ports
  pm_T :: tunnel_service
  pm_asked :: "(port \<times> bool \<times> string) list"

text \<open>
  What the manager meets: the address of the workspace, whether a proxy can be started, whether a
  subscriber reads within the five seconds it is given, and how connections close.
\<close>

record port_env =
  pv_names :: protocol_names
  pv_workspaceIP :: string
  pv_proxyStarts :: "port \<Rightarrow> bool"
  pv_reads :: "nat \<Rightarrow> bool"
  pv_closing :: "nat \<Rightarrow> string option"

definition NewPortManager :: "exposed_ports \<Rightarrow> tunnel_service \<Rightarrow> port list \<Rightarrow> port_manager" where
  "NewPortManager exposed tunneled internalPorts =
     \<lparr>pm_internal = internalPorts, pm_proxies = [], pm_autoExposed = [], pm_exposures = [], pm_autoTunneled = [],
      pm_autoTunnelEnabled = True, pm_configs = None, pm_exposed = [], pm_served = [], pm_tunneled = [], pm_state = [],
      pm_subscriptions = [], pm_subscribed = 0, pm_closed = False, pm_forceUpdates = False, pm_E = exposed, pm_T = tunneled,
      pm_asked = []\<rparr>"

definition boundInternally :: "port_manager \<Rightarrow> port \<Rightarrow> bool" where
  "boundInternally pm p \<longleftrightarrow> p \<in> set (pm_internal pm)"

section \<open>Actions on a port\<close>

definition getOnExposedAction :: "port_config option \<Rightarrow> port \<Rightarrow> on_exposed" where
  "getOnExposedAction config p =
     (case config of
        None \<Rightarrow> (if \<not> (0 < p \<and> p < 32767) \<or> \<not> p \<le> 10000 then ExposedIgnore else ExposedNotifyPrivate)
      | Some c \<Rightarrow>
          if pc_OnOpen c = ''ignore'' then ExposedIgnore
          else if pc_OnOpen c = ''open-browser'' then ExposedOpenBrowser
          else if pc_OnOpen c = ''open-preview'' then ExposedOpenPreview
          else ExposedNotify)"

definition getOnOpenAction :: "port_config option \<Rightarrow> port \<Rightarrow> on_open" where
  "getOnOpenAction config p =
     (case config of
        None \<Rightarrow> (if \<not> (0 < p \<and> p < 32767) \<or> \<not> p \<le> 10000 then OpenIgnore else OpenNotifyPrivate)
      | Some c \<Rightarrow>
          if pc_OnOpen c = ''ignore-completely'' then OpenIgnoreCompletely
          else if pc_OnOpen c = ''ignore'' then OpenIgnore
          else if pc_OnOpen c = ''open-browser'' then OpenBrowser
          else if pc_OnOpen c = ''open-preview'' then OpenPreview
          else OpenNotify)"

section \<open>Status\<close>

definition getPortStatus :: "managed_port \<Rightarrow> ports_status" where
  "getPortStatus mp =
     \<lparr>ps_LocalPort = mp_LocalhostPort mp, ps_Served = mp_Served mp,
      ps_Exposed = (if mp_Exposed mp \<and> mp_URL mp \<noteq> []
        then Some \<lparr>xi_Visibility = mp_Visibility mp, xi_Protocol = mp_Protocol mp, xi_Url = mp_URL mp, xi_OnExposed = mp_OnExposed mp\<rparr>
        else None),
      ps_AutoExposure = mp_AutoExposure mp, ps_Tunneled = mp_Tunnel mp, ps_Description = mp_Description mp,
      ps_Name = mp_Name mp, ps_OnOpen = mp_OnOpen mp\<rparr>"

definition status_score :: "port_configs option \<Rightarrow> port \<Rightarrow> 32 word" where
  "status_score configs p =
     (case configs_Get configs p of Some (c, _) \<Rightarrow> sc_Sort c | None \<Rightarrow> NON_CONFIGED_BASIC_SCORE + p)"

definition getStatus :: "port_manager \<Rightarrow> ports_status list" where
  "getStatus pm =
     sort_key (\<lambda>s. (status_score (pm_configs pm) (ps_LocalPort s), ps_LocalPort s))
       (filter (\<lambda>s. ps_OnOpen s \<noteq> OpenIgnoreCompletely) (map getPortStatus (pm_state pm)))"

section \<open>Automatic exposure\<close>

definition ask_expose :: "protocol_names \<Rightarrow> port \<Rightarrow> bool \<Rightarrow> string \<Rightarrow> port_manager \<Rightarrow> port_manager" where
  "ask_expose K p public protocol pm =
     pm\<lparr>pm_E := snd (xp_Expose K p public protocol (pm_E pm)), pm_asked := pm_asked pm @ [(p, public, protocol)]\<rparr>"

definition autoExpose :: "protocol_names \<Rightarrow> port \<Rightarrow> bool \<Rightarrow> string \<Rightarrow> port_manager \<Rightarrow> port_manager" where
  "autoExpose K p public protocol pm =
     (let pm1 = ask_expose K p public protocol pm
      in pm1\<lparr>pm_exposures := pm_exposures pm1 @ [\<lparr>ae_state = AutoTrying, ae_public = public, ae_protocol = protocol\<rparr>],
             pm_autoExposed := put_entry p (length (pm_exposures pm1)) (pm_autoExposed pm1)\<rparr>)"

definition auto_exposed :: "port_manager \<Rightarrow> port \<Rightarrow> auto_exposure option" where
  "auto_exposed pm p = map_option (\<lambda>i. pm_exposures pm ! i) (map_of (pm_autoExposed pm) p)"

text \<open>The goroutine of an exposure writes its outcome into the object, at any time later.\<close>

datatype exposure_outcome = ExposureOk | ExposureCanceled | ExposureError

definition exposure_done :: "nat \<Rightarrow> exposure_outcome \<Rightarrow> port_manager \<Rightarrow> port_manager" where
  "exposure_done i outcome pm =
     (if length (pm_exposures pm) \<le> i then pm
      else pm\<lparr>pm_exposures := (pm_exposures pm)[i := (case outcome of
             ExposureOk \<Rightarrow> (pm_exposures pm ! i)\<lparr>ae_state := AutoSucceeded\<rparr>
           | ExposureError \<Rightarrow> (pm_exposures pm ! i)\<lparr>ae_state := AutoFailed\<rparr>
           | ExposureCanceled \<Rightarrow> pm_exposures pm ! i)]\<rparr>)"

section \<open>The next state\<close>

definition fresh_port :: "protocol_names \<Rightarrow> port_configs option \<Rightarrow> port \<Rightarrow> managed_port" where
  "fresh_port K configs p =
     (let config = map_option (\<lambda>(c, _). sc_Config c) (configs_Get configs p) in
      \<lparr>mp_Served = False, mp_Exposed = False, mp_Visibility = pn_noVisibility K, mp_Protocol = pn_noProtocol K,
       mp_Description = (case config of None \<Rightarrow> [] | Some c \<Rightarrow> pc_Description c),
       mp_Name = (case config of None \<Rightarrow> [] | Some c \<Rightarrow> pc_Name c), mp_URL = [],
       mp_OnExposed = getOnExposedAction config p, mp_OnOpen = getOnOpenAction config p,
       mp_AutoExposure = pn_noExposure K, mp_LocalhostPort = p, mp_Tunnel = None\<rparr>)"

definition genManagedPort :: "protocol_names \<Rightarrow> port_configs option \<Rightarrow> port \<Rightarrow> managed_port list \<Rightarrow> managed_port \<times> managed_port list" where
  "genManagedPort K configs p st =
     (case tbl_find mp_LocalhostPort p st of
        Some mp \<Rightarrow> (mp, st)
      | None \<Rightarrow> (let mp = fresh_port K configs p in (mp, st @ [mp])))"

text \<open>A change through the pointer that \<^verbatim>\<open>genManagedPort\<close> returned.\<close>

definition set_port :: "managed_port \<Rightarrow> managed_port list \<Rightarrow> managed_port list" where
  "set_port mp st = tbl_update mp_LocalhostPort (mp_LocalhostPort mp) (\<lambda>_. mp) st"

definition capture_exposed :: "protocol_names \<Rightarrow> port_manager \<Rightarrow> exposed_port \<Rightarrow> managed_port list \<Rightarrow> managed_port list" where
  "capture_exposed K pm e st =
     (if boundInternally pm (ep_LocalPort e) then st
      else case genManagedPort K (pm_configs pm) (ep_LocalPort e) st of
        (mp, st') \<Rightarrow> set_port (mp\<lparr>mp_Exposed := True,
          mp_Protocol := (if ep_Protocol e = pn_https K then ProtocolHTTPS else ProtocolHTTP),
          mp_Visibility := (if ep_Public e then VisibilityPublic else VisibilityPrivate),
          mp_URL := ep_URL e\<rparr>) st')"

definition capture_tunneled :: "protocol_names \<Rightarrow> port_manager \<Rightarrow> tunnel_state \<Rightarrow> managed_port list \<Rightarrow> managed_port list" where
  "capture_tunneled K pm t st =
     (if boundInternally pm (td_LocalPort (ts_Desc t)) then st
      else case genManagedPort K (pm_configs pm) (td_LocalPort (ts_Desc t)) st of
        (mp, st') \<Rightarrow> set_port (mp\<lparr>mp_Tunnel := Some \<lparr>ti_TargetPort = td_TargetPort (ts_Desc t),
          ti_Visibility = td_Visibility (ts_Desc t), ti_Clients = ts_Clients t\<rparr>\<rparr>) st')"

definition auto_expose_port :: "protocol_names \<Rightarrow> managed_port \<Rightarrow> bool \<Rightarrow> string \<Rightarrow> managed_port list \<times> port_manager \<Rightarrow>
    managed_port list \<times> port_manager" where
  "auto_expose_port K mp public protocol = (\<lambda>(st, pm).
     (set_port (mp\<lparr>mp_AutoExposure := AutoTrying\<rparr>) st, autoExpose K (mp_LocalhostPort mp) public protocol pm))"

definition capture_configured :: "protocol_names \<Rightarrow> port \<Rightarrow> sort_config \<Rightarrow> managed_port list \<times> port_manager \<Rightarrow>
    managed_port list \<times> port_manager" where
  "capture_configured K p config = (\<lambda>(st, pm).
     if boundInternally pm p then (st, pm)
     else case genManagedPort K (pm_configs pm) p st of
       (mp, st1) \<Rightarrow>
         (case auto_exposed pm p of
            Some a \<Rightarrow> (set_port (mp\<lparr>mp_AutoExposure := ae_state a\<rparr>) st1, pm)
          | None \<Rightarrow>
              if mp_Exposed mp then (st1, pm)
              else let public = (pc_Visibility (sc_Config config) = ''public'')
                in auto_expose_port K (mp\<lparr>mp_Visibility := (if public then VisibilityPublic else VisibilityPrivate)\<rparr>) public
                     (pc_Protocol (sc_Config config)) (st1, pm)))"

definition getProtocol :: "port_protocol \<Rightarrow> string" where
  "getProtocol p = (case p of ProtocolHTTPS \<Rightarrow> ''https'' | _ \<Rightarrow> ''http'')"

text \<open>What a served port is to be exposed as.\<close>

definition wanted_exposure :: "port_configs option \<Rightarrow> managed_port \<Rightarrow> bool \<times> string" where
  "wanted_exposure configs mp =
     (let found = configs_Get configs (mp_LocalhostPort mp);
          configured = (case found of Some (_, PortConfigKind) \<Rightarrow> True | _ \<Rightarrow> False) in
      if mp_Exposed mp \<or> configured then (mp_Visibility mp = VisibilityPublic, getProtocol (mp_Protocol mp))
      else case found of
        Some (c, _) \<Rightarrow> (pc_Visibility (sc_Config c) = ''public'', pc_Protocol (sc_Config c))
      | None \<Rightarrow> (False, ''http''))"

definition capture_served :: "protocol_names \<Rightarrow> served_port \<Rightarrow> managed_port list \<times> port_manager \<Rightarrow> managed_port list \<times> port_manager" where
  "capture_served K s = (\<lambda>(st, pm).
     if boundInternally pm (sp_Port s) then (st, pm)
     else case genManagedPort K (pm_configs pm) (sp_Port s) st of
       (mp0, st0) \<Rightarrow>
         (let mp = mp0\<lparr>mp_Served := True\<rparr>; st1 = set_port mp st0 in
          case auto_exposed pm (sp_Port s) of
            Some a \<Rightarrow> (set_port (mp\<lparr>mp_AutoExposure := ae_state a\<rparr>) st1, pm)
          | None \<Rightarrow>
              (case wanted_exposure (pm_configs pm) mp of
                 (public, protocol) \<Rightarrow>
                   if mp_Exposed mp
                     \<and> (mp_Visibility mp = VisibilityPublic \<and> public \<or> mp_Visibility mp = VisibilityPrivate \<and> \<not> public)
                     \<and> protocol \<noteq> ''https''
                   then (st1, pm)
                   else auto_expose_port K mp public protocol (st1, pm))))"

definition nextState :: "protocol_names \<Rightarrow> port_manager \<Rightarrow> managed_port list \<times> port_manager" where
  "nextState K pm =
     (let st1 = fold (capture_exposed K pm) (pm_exposed pm) [];
          st2 = fold (capture_tunneled K pm) (pm_tunneled pm) st1;
          (st3, pm3) = configs_ForEach (pm_configs pm) (capture_configured K) (st2, pm);
          (st4, pm4) = fold (capture_served K) (pm_served pm) (st3, pm3)
      in (sort_key mp_LocalhostPort st4, pm4))"

section \<open>Served ports\<close>

definition put_served :: "served_port \<Rightarrow> served_port list \<Rightarrow> served_port list" where
  "put_served s ss = filter (\<lambda>x. sp_Port x \<noteq> sp_Port s) ss @ [s]"

definition ignored_completely :: "port_configs option \<Rightarrow> port \<Rightarrow> bool" where
  "ignored_completely configs p =
     (case configs_Get configs p of Some (c, _) \<Rightarrow> pc_OnOpen (sc_Config c) = ''ignore-completely'' | None \<Rightarrow> False)"

text \<open>Of several entries of a port, one that is not bound to localhost is preferred.\<close>

definition collect_served :: "port_env \<Rightarrow> port_manager \<Rightarrow> served_port \<Rightarrow> served_port list \<Rightarrow> served_port list" where
  "collect_served env pm s acc =
     (if sp_Port s \<in> set (pm_proxies pm) \<and> ip_String (sp_Address s) = pv_workspaceIP env then acc
      else if ignored_completely (pm_configs pm) (sp_Port s) then acc
      else case tbl_find sp_Port (sp_Port s) acc of
        None \<Rightarrow> put_served s acc
      | Some current \<Rightarrow> if \<not> sp_BoundToLocalhost s \<and> sp_BoundToLocalhost current then put_served s acc else acc)"

definition new_served :: "port_env \<Rightarrow> port_manager \<Rightarrow> served_port list \<Rightarrow> served_port list" where
  "new_served env pm served = sort_key sp_Port (fold (collect_served env pm) served [])"

text \<open>Proxies run for the ports that are served on localhost only.\<close>

definition served_locally :: "served_port list \<Rightarrow> port \<Rightarrow> bool" where
  "served_locally served p = (case tbl_find sp_Port p (rev served) of Some s \<Rightarrow> sp_BoundToLocalhost s | None \<Rightarrow> False)"

definition start_proxy :: "port_env \<Rightarrow> served_port \<Rightarrow> port list \<Rightarrow> port list" where
  "start_proxy env s proxies =
     (if sp_Port s \<in> set proxies \<or> \<not> sp_BoundToLocalhost s then proxies
      else if pv_proxyStarts env (sp_Port s) then proxies @ [sp_Port s] else proxies)"

definition updateProxies :: "port_env \<Rightarrow> port_manager \<Rightarrow> port_manager" where
  "updateProxies env pm =
     pm\<lparr>pm_proxies := fold (start_proxy env) (pm_served pm) (filter (served_locally (pm_served pm)) (pm_proxies pm))\<rparr>"

definition auto_desc :: "port \<Rightarrow> tunnel_description" where
  "auto_desc p = \<lparr>td_LocalPort = p, td_TargetPort = p, td_Visibility = TunnelHost\<rparr>"

definition autoTunnel :: "port_env \<Rightarrow> port_manager \<Rightarrow> port_manager" where
  "autoTunnel env pm =
     (if \<not> pm_autoTunnelEnabled pm
      then (case tv_CloseTunnel (pv_closing env) (pm_autoTunneled pm) (pm_T pm) of
              (_, _, tv) \<Rightarrow> pm\<lparr>pm_autoTunneled := [], pm_T := tv\<rparr>)
      else (case tv_Tunnel True
                (map (\<lambda>s. auto_desc (sp_Port s))
                  (filter (\<lambda>s. \<not> boundInternally pm (sp_Port s) \<and> sp_Port s \<notin> set (pm_autoTunneled pm)) (pm_served pm)))
                (pm_T pm) of
              (opened, _, tv) \<Rightarrow>
                pm\<lparr>pm_autoTunneled := fold List.insert opened (pm_autoTunneled pm), pm_T := tv\<rparr>))"

end
