(* ===== verification/PortOps.thy ===== *)
theory PortOps
  imports PortManager
begin

text \<open>
  The operations of the port manager: updates from its observers, what its clients call, and its
  subscriptions; and the manager's reachable states.
\<close>

section \<open>Subscriptions\<close>

definition maxSubscriptions :: nat where
  "maxSubscriptions = 100"

text \<open>A subscriber's channel holds five updates. One that is full and not read for five seconds is closed.\<close>

definition send_status :: "port_env \<Rightarrow> ports_status list \<Rightarrow> port_subscription \<Rightarrow> port_subscription option" where
  "send_status env status su =
     (if length (su_updates su) < 5 then Some (su\<lparr>su_updates := su_updates su @ [status]\<rparr>)
      else if pv_reads env (su_ID su) then Some (su\<lparr>su_updates := tl (su_updates su) @ [status]\<rparr>)
      else None)"

definition publish :: "port_env \<Rightarrow> ports_status list \<Rightarrow> port_manager \<Rightarrow> port_manager" where
  "publish env status pm = pm\<lparr>pm_subscriptions := List.map_filter (send_status env status) (pm_subscriptions pm)\<rparr>"

datatype subscribe_error = SubscribeClosed | TooManySubscriptions nat

definition ports_Subscribe :: "port_manager \<Rightarrow> (subscribe_error, nat) result \<times> port_manager" where
  "ports_Subscribe pm =
     (if pm_closed pm then (Inl SubscribeClosed, pm)
      else if maxSubscriptions < length (pm_subscriptions pm)
      then (Inl (TooManySubscriptions (length (pm_subscriptions pm))), pm)
      else (Inr (pm_subscribed pm),
            pm\<lparr>pm_subscriptions := pm_subscriptions pm @ [\<lparr>su_ID = pm_subscribed pm, su_updates = [getStatus pm]\<rparr>],
               pm_subscribed := Suc (pm_subscribed pm)\<rparr>))"

definition subscription_Close :: "nat \<Rightarrow> port_manager \<Rightarrow> port_manager" where
  "subscription_Close i pm = pm\<lparr>pm_subscriptions := filter (\<lambda>su. su_ID su \<noteq> i) (pm_subscriptions pm)\<rparr>"

section \<open>Updates\<close>

text \<open>\<^verbatim>\<open>reflect.DeepEqual\<close> follows the references to the clients of a tunnel, at the time it is called.\<close>

definition same_tunneled :: "tunnel_service \<Rightarrow> tunnel_state \<Rightarrow> tunnel_state \<Rightarrow> bool" where
  "same_tunneled tv a b \<longleftrightarrow> ts_Desc a = ts_Desc b \<and> clients_at tv (ts_Clients a) = clients_at tv (ts_Clients b)"

definition same_info :: "tunnel_service \<Rightarrow> tunneled_info option \<Rightarrow> tunneled_info option \<Rightarrow> bool" where
  "same_info tv a b =
     (case (a, b) of
        (None, None) \<Rightarrow> True
      | (Some x, Some y) \<Rightarrow> ti_TargetPort x = ti_TargetPort y \<and> ti_Visibility x = ti_Visibility y
          \<and> clients_at tv (ti_Clients x) = clients_at tv (ti_Clients y)
      | _ \<Rightarrow> False)"

definition same_managed :: "tunnel_service \<Rightarrow> managed_port \<Rightarrow> managed_port \<Rightarrow> bool" where
  "same_managed tv a b \<longleftrightarrow> a\<lparr>mp_Tunnel := None\<rparr> = b\<lparr>mp_Tunnel := None\<rparr> \<and> same_info tv (mp_Tunnel a) (mp_Tunnel b)"

definition same_state :: "tunnel_service \<Rightarrow> managed_port list \<Rightarrow> managed_port list \<Rightarrow> bool" where
  "same_state tv a b \<longleftrightarrow> list_all2 (same_managed tv) a b"

definition take_exposed :: "exposed_port list option \<Rightarrow> port_manager \<Rightarrow> port_manager" where
  "take_exposed exposed pm =
     (case exposed of None \<Rightarrow> pm | Some es \<Rightarrow> if pm_exposed pm = es then pm else pm\<lparr>pm_exposed := es\<rparr>)"

definition take_tunneled :: "tunnel_state list option \<Rightarrow> port_manager \<Rightarrow> port_manager" where
  "take_tunneled tunneled pm =
     (case tunneled of
        None \<Rightarrow> pm
      | Some ts \<Rightarrow> if list_all2 (same_tunneled (pm_T pm)) (pm_tunneled pm) ts then pm else pm\<lparr>pm_tunneled := ts\<rparr>)"

definition take_served :: "port_env \<Rightarrow> served_port list option \<Rightarrow> port_manager \<Rightarrow> port_manager" where
  "take_served env served pm =
     (case served of
        None \<Rightarrow> pm
      | Some ss \<Rightarrow>
          (let new = new_served env pm ss in
           if pm_served pm = new then pm else autoTunnel env (updateProxies env (pm\<lparr>pm_served := new\<rparr>))))"

definition take_configs :: "port_configs option \<Rightarrow> port_manager \<Rightarrow> port_manager" where
  "take_configs configured pm = (case configured of None \<Rightarrow> pm | Some cf \<Rightarrow> pm\<lparr>pm_configs := Some cf\<rparr>)"

text \<open>The second half: the next state, which is announced when it differs and whenever the configuration is new.\<close>

definition refresh_state :: "port_env \<Rightarrow> bool \<Rightarrow> port_manager \<Rightarrow> port_manager" where
  "refresh_state env configured pm =
     (case nextState (pv_names env) pm of
        (new, pm1) \<Rightarrow>
          (let changed = (\<not> same_state (pm_T pm1) new (pm_state pm1)); pm2 = pm1\<lparr>pm_state := new\<rparr>
           in if \<not> changed \<and> \<not> configured then pm2 else publish env (getStatus pm2) pm2))"

definition updateState :: "port_env \<Rightarrow> exposed_port list option \<Rightarrow> served_port list option \<Rightarrow> port_configs option \<Rightarrow>
    tunnel_state list option \<Rightarrow> port_manager \<Rightarrow> port_manager" where
  "updateState env exposed served configured tunneled pm =
     refresh_state env (configured \<noteq> None)
       (take_configs configured (take_served env served (take_tunneled tunneled (take_exposed exposed pm))))"

section \<open>The loop\<close>

text \<open>What a round of \<^verbatim>\<open>Run\<close> receives; \<open>None\<close> stands for nil and for a closed channel.\<close>

datatype port_event =
    ForceUpdate
  | ExposedUpdate "exposed_port list option"
  | ServedUpdate "served_port list option"
  | ConfigUpdate "port_configs option"
  | TunneledUpdate "tunnel_state list option"
  | ObserverError "string option"

definition run_stop :: "port_manager \<Rightarrow> port_manager" where
  "run_stop pm = pm\<lparr>pm_closed := True, pm_subscriptions := []\<rparr>"

text \<open>Whether the loop goes on, and the state. An update is forced only when one was asked for.\<close>

definition run_round :: "port_env \<Rightarrow> port_event \<Rightarrow> port_manager \<Rightarrow> bool \<times> port_manager" where
  "run_round env ev pm =
     (if pm_closed pm then (False, pm)
      else case ev of
        ForceUpdate \<Rightarrow>
          (True, if pm_forceUpdates pm then updateState env None None None None (pm\<lparr>pm_forceUpdates := False\<rparr>) else pm)
      | ExposedUpdate None \<Rightarrow> (False, run_stop pm)
      | ExposedUpdate es \<Rightarrow> (True, updateState env es None None None pm)
      | ServedUpdate None \<Rightarrow> (False, run_stop pm)
      | ServedUpdate ss \<Rightarrow> (True, updateState env None ss None None pm)
      | ConfigUpdate None \<Rightarrow> (False, run_stop pm)
      | ConfigUpdate cf \<Rightarrow> (True, updateState env None None cf None pm)
      | TunneledUpdate None \<Rightarrow> (False, run_stop pm)
      | TunneledUpdate ts \<Rightarrow> (True, updateState env None None None ts pm)
      | ObserverError None \<Rightarrow> (False, run_stop pm)
      | ObserverError _ \<Rightarrow> (True, pm))"

section \<open>Calls\<close>

definition forceUpdate :: "port_manager \<Rightarrow> port_manager" where
  "forceUpdate pm = pm\<lparr>pm_forceUpdates := True\<rparr>"

text \<open>The context of the failed exposure may have ended since.\<close>

definition RetryAutoExpose :: "port_env \<Rightarrow> bool \<Rightarrow> port \<Rightarrow> port_manager \<Rightarrow> port_manager" where
  "RetryAutoExpose env ended p pm =
     (case auto_exposed pm p of
        None \<Rightarrow> pm
      | Some a \<Rightarrow>
          if ae_state a \<noteq> AutoFailed \<or> ended then pm
          else forceUpdate (autoExpose (pv_names env) p (ae_public a) (ae_protocol a) pm))"

text \<open>Exposing a port by hand: nothing to do, refused, or asked for, with the exposure's error as the answer.\<close>

datatype expose_result = ExposeNothing | ExposeRefused | ExposeAsked "string option"

definition ports_Expose :: "port_env \<Rightarrow> string option \<Rightarrow> port \<Rightarrow> port_manager \<Rightarrow> expose_result \<times> port_manager" where
  "ports_Expose env answer p pm =
     (let ask = (\<lambda>public protocol.
            (ExposeAsked (if fst (xp_Expose (pv_names env) p public protocol (pm_E pm)) = ExposedAtOnce then None else answer),
             ask_expose (pv_names env) p public protocol pm));
          ask_config = (case configs_Get (pm_configs pm) p of
              Some (c, PortConfigKind) \<Rightarrow> (ExposeNothing, pm)
            | Some (c, RangeConfigKind) \<Rightarrow> ask (pc_Visibility (sc_Config c) \<noteq> ''private'') (pc_Protocol (sc_Config c))
            | None \<Rightarrow> ask False (pn_http (pv_names env)))
      in case tbl_find mp_LocalhostPort p (pm_state pm) of
           Some mp \<Rightarrow>
             if mp_Exposed mp then (ExposeNothing, pm)
             else if boundInternally pm p then (ExposeRefused, pm) else ask_config
         | None \<Rightarrow> ask_config)"

datatype tunnel_result = TunnelRefused | TunnelDone "tunnel_error option"

definition ports_Tunnel :: "tunnel_description \<Rightarrow> port_manager \<Rightarrow> tunnel_result \<times> port_manager" where
  "ports_Tunnel d pm =
     (if boundInternally pm (td_LocalPort d) then (TunnelRefused, pm)
      else case tv_Tunnel False [d] (pm_T pm) of
        (opened, err, tv) \<Rightarrow>
          (TunnelDone err, pm\<lparr>pm_T := tv, pm_autoTunneled := filter (\<lambda>p. p \<notin> set opened) (pm_autoTunneled pm)\<rparr>))"

definition ports_CloseTunnel :: "port_env \<Rightarrow> port \<Rightarrow> port_manager \<Rightarrow> tunnel_result \<times> port_manager" where
  "ports_CloseTunnel env p pm =
     (if boundInternally pm p then (TunnelRefused, pm)
      else case tv_CloseTunnel (pv_closing env) [p] (pm_T pm) of
        (_, err, tv) \<Rightarrow> (TunnelDone err, pm\<lparr>pm_T := tv\<rparr>))"

definition ports_EstablishTunnel :: "string option \<Rightarrow> string \<Rightarrow> port \<Rightarrow> port \<Rightarrow> port_manager \<Rightarrow>
    (tunnel_error, nat) result \<times> port_manager" where
  "ports_EstablishTunnel dialErr client localPort targetPort pm =
     (case tv_EstablishTunnel dialErr client localPort targetPort (pm_T pm) of (r, tv) \<Rightarrow> (r, pm\<lparr>pm_T := tv\<rparr>))"

definition ports_AutoTunnel :: "port_env \<Rightarrow> bool \<Rightarrow> port_manager \<Rightarrow> port_manager" where
  "ports_AutoTunnel env enabled pm = autoTunnel env (pm\<lparr>pm_autoTunnelEnabled := enabled\<rparr>)"

section \<open>Reachable states\<close>

text \<open>
  The steps of the manager and of the goroutines that share its parts: a round of the loop, a call, the
  outcome of an exposure, the closing of a connection, and the exposure's own observer and worker.
\<close>

datatype port_step =
    RunRound port_event
  | CallRetry bool port
  | CallExpose "string option" port
  | CallTunnel tunnel_description
  | CallCloseTunnel port
  | CallEstablish "string option" string port port
  | CallAutoTunnel bool
  | CallSubscribe
  | CallUnsubscribe nat
  | ExposureDone nat exposure_outcome
  | ConnClosed "string option" nat
  | ServerUpdate "instance_port list"
  | LocalNotice
  | ServeRequest "nat \<Rightarrow> open_answer"

fun port_transition :: "port_env \<Rightarrow> port_step \<Rightarrow> port_manager \<Rightarrow> port_manager" where
  "port_transition env (RunRound ev) pm = snd (run_round env ev pm)"
| "port_transition env (CallRetry ended p) pm = RetryAutoExpose env ended p pm"
| "port_transition env (CallExpose answer p) pm = snd (ports_Expose env answer p pm)"
| "port_transition env (CallTunnel d) pm = snd (ports_Tunnel d pm)"
| "port_transition env (CallCloseTunnel p) pm = snd (ports_CloseTunnel env p pm)"
| "port_transition env (CallEstablish e client lp tp) pm = snd (ports_EstablishTunnel e client lp tp pm)"
| "port_transition env (CallAutoTunnel enabled) pm = ports_AutoTunnel env enabled pm"
| "port_transition env CallSubscribe pm = snd (ports_Subscribe pm)"
| "port_transition env (CallUnsubscribe i) pm = subscription_Close i pm"
| "port_transition env (ExposureDone i r) pm = exposure_done i r pm"
| "port_transition env (ConnClosed e c) pm = pm\<lparr>pm_T := tunnel_step (CloseConn e c) (pm_T pm)\<rparr>"
| "port_transition env (ServerUpdate ports) pm = pm\<lparr>pm_E := snd (server_update (pv_names env) ports (pm_E pm))\<rparr>"
| "port_transition env LocalNotice pm =
     pm\<lparr>pm_E := (case local_notice (pv_names env) (pm_E pm) of None \<Rightarrow> pm_E pm | Some (_, g) \<Rightarrow> g)\<rparr>"
| "port_transition env (ServeRequest server) pm = pm\<lparr>pm_E := snd (xp_Run server (pm_E pm))\<rparr>"

inductive ports_reachable :: "(nat \<Rightarrow> port_env) \<Rightarrow> port list \<Rightarrow> port_manager \<Rightarrow> bool" for envs internal where
  ports_start: "ports_reachable envs internal (NewPortManager (NewGitpodExposedPorts url) NewTunneledPortsService internal)"
| ports_more: "ports_reachable envs internal pm \<Longrightarrow> ports_reachable envs internal (port_transition (envs n) step pm)"

end
