(* ===== verification/PortProps.thy ===== *)
theory PortProps
  imports PortOps
begin

text \<open>
  Properties of the ports of a workspace: which ports the manager knows of, what becomes of internal
  ones, which ports are made public, and which changes subscribers are told of.
\<close>

section \<open>The ports of the next state\<close>

abbreviation ports_of :: "managed_port list \<Rightarrow> port list" where
  "ports_of st \<equiv> map mp_LocalhostPort st"

definition touch :: "port \<Rightarrow> port list \<Rightarrow> port list" where
  "touch p ps = (if p \<in> set ps then ps else ps @ [p])"

lemma set_touch [simp]: "set (touch p ps) = insert p (set ps)"
  by (auto simp: touch_def)

lemma distinct_touch [simp]: "distinct ps \<Longrightarrow> distinct (touch p ps)"
  by (simp add: touch_def)

lemma fresh_port_key [simp]: "mp_LocalhostPort (fresh_port K cf p) = p"
  by (simp add: fresh_port_def Let_def)

lemma tbl_find_none: "tbl_find key k t = None \<longleftrightarrow> k \<notin> key ` set t"
  by (auto simp: tbl_find_def find_None_iff)

lemma tbl_find_some: "tbl_find key k t = Some r \<Longrightarrow> r \<in> set t \<and> key r = k"
  by (auto simp: tbl_find_def find_Some_iff)

lemma gen_ports [simp]: "ports_of (snd (genManagedPort K cf p st)) = touch p (ports_of st)"
  using tbl_find_some [of mp_LocalhostPort p st] tbl_find_none [of mp_LocalhostPort p st]
  by (auto simp: genManagedPort_def touch_def Let_def split: option.split)

lemma gen_port [simp]: "mp_LocalhostPort (fst (genManagedPort K cf p st)) = p"
  using tbl_find_some [of mp_LocalhostPort p st]
  by (auto simp: genManagedPort_def Let_def split: option.split)

lemma set_port_ports [simp]: "ports_of (set_port mp st) = ports_of st"
  by (simp add: set_port_def tbl_update_def)

lemma capture_exposed_ports:
  "ports_of (capture_exposed K pm e st) =
     (if boundInternally pm (ep_LocalPort e) then ports_of st else touch (ep_LocalPort e) (ports_of st))"
  by (simp add: capture_exposed_def case_prod_beta)

lemma capture_tunneled_ports:
  "ports_of (capture_tunneled K pm t st) =
     (if boundInternally pm (td_LocalPort (ts_Desc t)) then ports_of st else touch (td_LocalPort (ts_Desc t)) (ports_of st))"
  by (simp add: capture_tunneled_def case_prod_beta)

lemma auto_expose_ports [simp]: "ports_of (fst (auto_expose_port K mp public protocol (st, pm))) = ports_of st"
  by (simp add: auto_expose_port_def)

lemma capture_configured_ports:
  "ports_of (fst (capture_configured K p c (st, pm))) = (if boundInternally pm p then ports_of st else touch p (ports_of st))"
  by (simp add: capture_configured_def case_prod_beta Let_def split: option.split)

lemma capture_served_ports:
  "ports_of (fst (capture_served K s (st, pm))) = (if boundInternally pm (sp_Port s) then ports_of st else touch (sp_Port s) (ports_of st))"
  by (simp add: capture_served_def case_prod_beta Let_def split: option.split)

text \<open>Computing the next state asks for exposures and records them; the rest of the manager is untouched.\<close>

definition only_exposes :: "port_manager \<Rightarrow> port_manager \<Rightarrow> bool" where
  "only_exposes pm pm' \<longleftrightarrow>
     pm' = pm\<lparr>pm_E := pm_E pm', pm_asked := pm_asked pm', pm_exposures := pm_exposures pm', pm_autoExposed := pm_autoExposed pm'\<rparr>
     \<and> fst ` set (pm_autoExposed pm') \<subseteq> fst ` set (pm_autoExposed pm) \<union> {p. \<not> boundInternally pm p}"

lemma only_exposes_refl [simp]: "only_exposes pm pm"
  by (simp add: only_exposes_def)

lemma only_exposes_trans: "only_exposes pm pm' \<Longrightarrow> only_exposes pm' pm'' \<Longrightarrow> only_exposes pm pm''"
  unfolding only_exposes_def boundInternally_def by (cases pm; cases pm'; cases pm''; simp; blast)

lemma only_exposes_fields:
  assumes "only_exposes pm pm'"
  shows "pm_internal pm' = pm_internal pm" "pm_configs pm' = pm_configs pm" "pm_exposed pm' = pm_exposed pm"
    "pm_served pm' = pm_served pm" "pm_T pm' = pm_T pm" "pm_state pm' = pm_state pm" "pm_proxies pm' = pm_proxies pm"
    "pm_autoTunneled pm' = pm_autoTunneled pm" "pm_subscriptions pm' = pm_subscriptions pm" "pm_tunneled pm' = pm_tunneled pm"
    "boundInternally pm' p = boundInternally pm p"
  using assms unfolding only_exposes_def boundInternally_def by (cases pm; cases pm'; simp)+

lemma put_entry_keys [simp]: "fst ` set (put_entry k v m) = insert k (fst ` set m)"
  by (auto simp: put_entry_def)

lemma autoExpose_only: "\<not> boundInternally pm p \<Longrightarrow> only_exposes pm (autoExpose K p public protocol pm)"
  by (auto simp: only_exposes_def autoExpose_def ask_expose_def Let_def)

lemma capture_configured_only: "only_exposes pm (snd (capture_configured K p c (st, pm)))"
  by (simp add: capture_configured_def auto_expose_port_def autoExpose_only case_prod_beta Let_def split: option.split)

lemma capture_served_only: "only_exposes pm (snd (capture_served K s (st, pm)))"
  by (simp add: capture_served_def auto_expose_port_def autoExpose_only case_prod_beta Let_def split: option.split)

lemma ports_set: "ports_of a = b \<Longrightarrow> mp_LocalhostPort ` set a = set b"
  by (metis set_map)

lemma fold_exposed_ports:
  "set (ports_of (fold (capture_exposed K pm) es st)) =
     set (ports_of st) \<union> {p \<in> ep_LocalPort ` set es. \<not> boundInternally pm p}"
  "distinct (ports_of st) \<Longrightarrow> distinct (ports_of (fold (capture_exposed K pm) es st))"
  by (induction es arbitrary: st) (auto simp: capture_exposed_ports ports_set [OF capture_exposed_ports])

lemma fold_tunneled_ports:
  "set (ports_of (fold (capture_tunneled K pm) ts st)) =
     set (ports_of st) \<union> {p \<in> (\<lambda>t. td_LocalPort (ts_Desc t)) ` set ts. \<not> boundInternally pm p}"
  "distinct (ports_of st) \<Longrightarrow> distinct (ports_of (fold (capture_tunneled K pm) ts st))"
  by (induction ts arbitrary: st) (auto simp: capture_tunneled_ports ports_set [OF capture_tunneled_ports])

lemma fold_configured:
  fixes pm :: port_manager and K :: protocol_names
  defines "f \<equiv> fold (\<lambda>(p, c). capture_configured K p c)"
  shows "only_exposes pm (snd (f cs (st, pm)))"
    "set (ports_of (fst (f cs (st, pm)))) = set (ports_of st) \<union> {p \<in> fst ` set cs. \<not> boundInternally pm p}"
    "distinct (ports_of st) \<Longrightarrow> distinct (ports_of (fst (f cs (st, pm))))"
proof -
  have "only_exposes pm (snd (f cs (st, pm)))
      \<and> set (ports_of (fst (f cs (st, pm)))) = set (ports_of st) \<union> {p \<in> fst ` set cs. \<not> boundInternally pm p}
      \<and> (distinct (ports_of st) \<longrightarrow> distinct (ports_of (fst (f cs (st, pm)))))"
  proof (induction cs arbitrary: st pm)
    case (Cons pc cs)
    obtain p c where pc: "pc = (p, c)" by fastforce
    obtain st1 pm1 where s1: "capture_configured K p c (st, pm) = (st1, pm1)" by fastforce
    have one: "only_exposes pm pm1" "ports_of st1 = (if boundInternally pm p then ports_of st else touch p (ports_of st))"
      using capture_configured_only [of pm K p c st] capture_configured_ports [of K p c st pm] s1 by simp_all
    show ?case
      using Cons.IH [of pm1 st1] only_exposes_trans [OF one(1)] one(2) ports_set [OF one(2)] only_exposes_fields(11) [OF one(1)]
      by (auto simp: f_def pc s1)
  qed (simp add: f_def)
  then show "only_exposes pm (snd (f cs (st, pm)))"
    "set (ports_of (fst (f cs (st, pm)))) = set (ports_of st) \<union> {p \<in> fst ` set cs. \<not> boundInternally pm p}"
    "distinct (ports_of st) \<Longrightarrow> distinct (ports_of (fst (f cs (st, pm))))" by blast+
qed

lemma fold_served:
  fixes pm :: port_manager
  shows "only_exposes pm (snd (fold (capture_served K) ss (st, pm)))"
    "set (ports_of (fst (fold (capture_served K) ss (st, pm)))) = set (ports_of st) \<union> {p \<in> sp_Port ` set ss. \<not> boundInternally pm p}"
    "distinct (ports_of st) \<Longrightarrow> distinct (ports_of (fst (fold (capture_served K) ss (st, pm))))"
proof -
  have "only_exposes pm (snd (fold (capture_served K) ss (st, pm)))
      \<and> set (ports_of (fst (fold (capture_served K) ss (st, pm)))) = set (ports_of st) \<union> {p \<in> sp_Port ` set ss. \<not> boundInternally pm p}
      \<and> (distinct (ports_of st) \<longrightarrow> distinct (ports_of (fst (fold (capture_served K) ss (st, pm)))))"
  proof (induction ss arbitrary: st pm)
    case (Cons s ss)
    obtain st1 pm1 where s1: "capture_served K s (st, pm) = (st1, pm1)" by fastforce
    have one: "only_exposes pm pm1" "ports_of st1 = (if boundInternally pm (sp_Port s) then ports_of st else touch (sp_Port s) (ports_of st))"
      using capture_served_only [of pm K s st] capture_served_ports [of K s st pm] s1 by simp_all
    show ?case
      using Cons.IH [of pm1 st1] only_exposes_trans [OF one(1)] one(2) ports_set [OF one(2)] only_exposes_fields(11) [OF one(1)]
      by (auto simp: s1)
  qed simp
  then show "only_exposes pm (snd (fold (capture_served K) ss (st, pm)))"
    "set (ports_of (fst (fold (capture_served K) ss (st, pm)))) = set (ports_of st) \<union> {p \<in> sp_Port ` set ss. \<not> boundInternally pm p}"
    "distinct (ports_of st) \<Longrightarrow> distinct (ports_of (fst (fold (capture_served K) ss (st, pm))))" by blast+
qed

definition configured_ports :: "port_manager \<Rightarrow> port set" where
  "configured_ports pm = (case pm_configs pm of None \<Rightarrow> {} | Some cf \<Rightarrow> fst ` set (cf_Ports cf))"

definition known_ports :: "port_manager \<Rightarrow> port set" where
  "known_ports pm = {p. \<not> boundInternally pm p \<and>
     (p \<in> ep_LocalPort ` set (pm_exposed pm) \<or> p \<in> (\<lambda>t. td_LocalPort (ts_Desc t)) ` set (pm_tunneled pm)
      \<or> p \<in> configured_ports pm \<or> p \<in> sp_Port ` set (pm_served pm))}"

lemma for_each_configured:
  "only_exposes pm (snd (configs_ForEach (pm_configs pm) (capture_configured K) (st, pm)))"
  "set (ports_of (fst (configs_ForEach (pm_configs pm) (capture_configured K) (st, pm)))) =
     set (ports_of st) \<union> {p \<in> configured_ports pm. \<not> boundInternally pm p}"
  "distinct (ports_of st) \<Longrightarrow> distinct (ports_of (fst (configs_ForEach (pm_configs pm) (capture_configured K) (st, pm))))"
  using fold_configured [where pm = pm and K = K and st = st]
  by (simp_all add: configs_ForEach_def configured_ports_def split: option.split)

lemma next_state_shape:
  shows "set (ports_of (fst (nextState K pm))) = known_ports pm"
    and "sorted (ports_of (fst (nextState K pm))) \<and> distinct (ports_of (fst (nextState K pm)))"
    and "only_exposes pm (snd (nextState K pm))"
proof -
  let ?st2 = "fold (capture_tunneled K pm) (pm_tunneled pm) (fold (capture_exposed K pm) (pm_exposed pm) [])"
  obtain st3 pm3 where s3: "configs_ForEach (pm_configs pm) (capture_configured K) (?st2, pm) = (st3, pm3)" by fastforce
  obtain st4 pm4 where s4: "fold (capture_served K) (pm_served pm) (st3, pm3) = (st4, pm4)" by fastforce
  have nx: "nextState K pm = (sort_key mp_LocalhostPort st4, pm4)"
    using s3 s4 by (simp add: nextState_def Let_def)
  have o3: "only_exposes pm pm3" and k3: "set (ports_of st3) = set (ports_of ?st2) \<union> {p \<in> configured_ports pm. \<not> boundInternally pm p}"
    and d3: "distinct (ports_of ?st2) \<Longrightarrow> distinct (ports_of st3)"
    using for_each_configured [where pm = pm and K = K and st = ?st2] s3 by simp_all
  have o4: "only_exposes pm3 pm4" and k4: "set (ports_of st4) = set (ports_of st3) \<union> {p \<in> sp_Port ` set (pm_served pm). \<not> boundInternally pm3 p}"
    and d4: "distinct (ports_of st3) \<Longrightarrow> distinct (ports_of st4)"
    using fold_served [where pm = pm3 and K = K and ss = "pm_served pm" and st = st3] s4 by simp_all
  show "only_exposes pm (snd (nextState K pm))"
    using only_exposes_trans [OF o3 o4] by (simp add: nx)
  have d2: "distinct (ports_of ?st2)"
    by (intro fold_tunneled_ports(2) fold_exposed_ports(2)) simp
  then have "distinct (ports_of st4)" by (intro d4 d3)
  then show "sorted (ports_of (fst (nextState K pm))) \<and> distinct (ports_of (fst (nextState K pm)))"
    by (simp add: nx distinct_map)
  show "set (ports_of (fst (nextState K pm))) = known_ports pm"
    using k3 k4 fold_tunneled_ports(1) [of K pm "pm_tunneled pm" "fold (capture_exposed K pm) (pm_exposed pm) []"]
      fold_exposed_ports(1) [of K pm "pm_exposed pm" "[]"] only_exposes_fields(11) [OF o3]
    by (auto simp: nx known_ports_def)
qed

section \<open>What is made public\<close>

definition public_wanted :: "port_manager \<Rightarrow> port \<Rightarrow> bool" where
  "public_wanted pm p \<longleftrightarrow>
     (\<exists>c kind. configs_Get (pm_configs pm) p = Some (c, kind) \<and> pc_Visibility (sc_Config c) = ''public'')
     \<or> (\<exists>e \<in> set (pm_exposed pm). ep_LocalPort e = p \<and> ep_Public e)"

text \<open>New exposures are asked for ports that had none, once for a port, and with a reason.\<close>

definition asks :: "(port \<Rightarrow> bool \<Rightarrow> bool) \<Rightarrow> port_manager \<Rightarrow> port_manager \<Rightarrow> bool" where
  "asks Q pm pm' \<longleftrightarrow>
     (\<exists>new. pm_asked pm' = pm_asked pm @ new \<and> distinct (map fst new)
        \<and> (\<forall>(p, public, protocol) \<in> set new. Q p public \<and> p \<notin> fst ` set (pm_autoExposed pm))
        \<and> fst ` set (pm_autoExposed pm') = fst ` set (pm_autoExposed pm) \<union> fst ` set new)"

lemma asks_refl [simp]: "asks Q pm pm"
  by (auto simp: asks_def intro!: exI [of _ "[]"])

lemma asks_trans:
  assumes "asks Q pm pm'" "asks Q pm' pm''"
  shows "asks Q pm pm''"
proof -
  obtain n1 where n1: "pm_asked pm' = pm_asked pm @ n1" "distinct (map fst n1)"
      "\<forall>(p, public, protocol) \<in> set n1. Q p public \<and> p \<notin> fst ` set (pm_autoExposed pm)"
      "fst ` set (pm_autoExposed pm') = fst ` set (pm_autoExposed pm) \<union> fst ` set n1"
    using assms(1) unfolding asks_def by blast
  obtain n2 where n2: "pm_asked pm'' = pm_asked pm' @ n2" "distinct (map fst n2)"
      "\<forall>(p, public, protocol) \<in> set n2. Q p public \<and> p \<notin> fst ` set (pm_autoExposed pm')"
      "fst ` set (pm_autoExposed pm'') = fst ` set (pm_autoExposed pm') \<union> fst ` set n2"
    using assms(2) unfolding asks_def by blast
  have "fst ` set n2 \<inter> fst ` set (pm_autoExposed pm') = {}"
    using n2(3) by fastforce
  then have "distinct (map fst (n1 @ n2))"
    using n1(2,4) n2(2) by auto
  moreover have "pm_asked pm'' = pm_asked pm @ (n1 @ n2)" using n1(1) n2(1) by simp
  moreover have "\<forall>(p, public, protocol) \<in> set (n1 @ n2). Q p public \<and> p \<notin> fst ` set (pm_autoExposed pm)"
    using n1(3,4) n2(3) by auto
  moreover have "fst ` set (pm_autoExposed pm'') = fst ` set (pm_autoExposed pm) \<union> fst ` set (n1 @ n2)"
    using n1(4) n2(4) by auto
  ultimately show ?thesis unfolding asks_def by blast
qed

lemma auto_exposed_none: "auto_exposed pm p = None \<longleftrightarrow> p \<notin> fst ` set (pm_autoExposed pm)"
  by (simp add: auto_exposed_def map_of_eq_None_iff)

lemma autoExpose_asks: "auto_exposed pm p = None \<Longrightarrow> Q p public \<Longrightarrow> asks Q pm (autoExpose K p public protocol pm)"
  unfolding asks_def
  by (rule exI [of _ "[(p, public, protocol)]"]) (simp add: autoExpose_def ask_expose_def Let_def auto_exposed_none)

definition shown_public :: "port_manager \<Rightarrow> managed_port list \<Rightarrow> bool" where
  "shown_public pm st \<longleftrightarrow>
     (\<forall>mp \<in> set st. mp_Visibility mp = VisibilityPublic \<longrightarrow> public_wanted pm (mp_LocalhostPort mp))"

lemma shown_set_port:
  "shown_public pm st \<Longrightarrow> (mp_Visibility mp = VisibilityPublic \<longrightarrow> public_wanted pm (mp_LocalhostPort mp)) \<Longrightarrow>
     shown_public pm (set_port mp st)"
  by (auto simp: shown_public_def set_port_def tbl_update_def)

lemma shown_gen:
  assumes "shown_public pm st" "pn_noVisibility K = VisibilityPrivate"
  shows "shown_public pm (snd (genManagedPort K cf p st))"
    and "mp_Visibility (fst (genManagedPort K cf p st)) = VisibilityPublic \<Longrightarrow> public_wanted pm p"
  using assms tbl_find_some [of mp_LocalhostPort p st]
  by (auto simp: genManagedPort_def shown_public_def fresh_port_def Let_def split: option.splits)

definition justified :: "port_manager \<Rightarrow> port \<Rightarrow> bool \<Rightarrow> bool" where
  "justified pm p public \<longleftrightarrow> \<not> boundInternally pm p \<and> (public \<longrightarrow> public_wanted pm p)"

lemma auto_expose_shown:
  "shown_public pm0 st \<Longrightarrow> (mp_Visibility mp = VisibilityPublic \<Longrightarrow> public_wanted pm0 (mp_LocalhostPort mp)) \<Longrightarrow>
     shown_public pm0 (fst (auto_expose_port K mp public protocol (st, pm)))"
  by (simp add: auto_expose_port_def shown_set_port)

lemma capture_configured_asks:
  assumes shown: "shown_public pm0 st" and K: "pn_noVisibility K = VisibilityPrivate" and only: "only_exposes pm0 pm"
    and config: "configs_Get (pm_configs pm0) p = Some (c, PortConfigKind)"
  shows "asks (justified pm0) pm (snd (capture_configured K p c (st, pm)))"
    and "shown_public pm0 (fst (capture_configured K p c (st, pm)))"
proof -
  let ?public = "pc_Visibility (sc_Config c) = ''public''"
  obtain mp st1 where gen: "genManagedPort K (pm_configs pm) p st = (mp, st1)" by fastforce
  have mp: "mp_LocalhostPort mp = p" "shown_public pm0 st1" "mp_Visibility mp = VisibilityPublic \<Longrightarrow> public_wanted pm0 p"
    using gen_port [of K "pm_configs pm" p st] shown_gen [OF shown K, where cf = "pm_configs pm" and p = p] gen by simp_all
  have wanted: "?public \<Longrightarrow> public_wanted pm0 p"
    using config by (auto simp: public_wanted_def)
  show "asks (justified pm0) pm (snd (capture_configured K p c (st, pm)))"
    using wanted only_exposes_fields(11) [OF only]
    by (auto simp: capture_configured_def gen auto_expose_port_def mp(1) Let_def justified_def
        intro!: autoExpose_asks split: option.split)
  show "shown_public pm0 (fst (capture_configured K p c (st, pm)))"
    using mp wanted shown
    by (auto simp: capture_configured_def gen Let_def intro!: shown_set_port auto_expose_shown split: option.split if_splits)
qed

lemma wanted_exposure_justified:
  assumes "fst (wanted_exposure (pm_configs pm0) mp)" "mp_Visibility mp = VisibilityPublic \<Longrightarrow> public_wanted pm0 (mp_LocalhostPort mp)"
  shows "public_wanted pm0 (mp_LocalhostPort mp)"
  using assms by (auto simp: wanted_exposure_def Let_def public_wanted_def split: if_splits option.splits prod.splits config_kind.splits)

lemma capture_served_asks:
  assumes shown: "shown_public pm0 st" and K: "pn_noVisibility K = VisibilityPrivate" and only: "only_exposes pm0 pm"
  shows "asks (justified pm0) pm (snd (capture_served K s (st, pm)))"
    and "shown_public pm0 (fst (capture_served K s (st, pm)))"
proof -
  let ?p = "sp_Port s"
  obtain mp0 st0 where gen: "genManagedPort K (pm_configs pm) ?p st = (mp0, st0)" by fastforce
  let ?mp = "mp0\<lparr>mp_Served := True\<rparr>"
  have mp: "mp_LocalhostPort mp0 = ?p" "shown_public pm0 st0" "mp_Visibility mp0 = VisibilityPublic \<Longrightarrow> public_wanted pm0 ?p"
    using gen_port [of K "pm_configs pm" ?p st] shown_gen [OF shown K, where cf = "pm_configs pm" and p = ?p] gen by simp_all
  have st1: "shown_public pm0 (set_port ?mp st0)"
    using mp by (auto intro!: shown_set_port)
  obtain public protocol where w: "wanted_exposure (pm_configs pm) ?mp = (public, protocol)" by fastforce
  have wanted: "public \<Longrightarrow> public_wanted pm0 ?p"
    using wanted_exposure_justified [of pm0 ?mp] w mp(1,3) only_exposes_fields(2) [OF only] by simp
  show "asks (justified pm0) pm (snd (capture_served K s (st, pm)))"
    using wanted only_exposes_fields(11) [OF only]
    by (auto simp: capture_served_def gen auto_expose_port_def mp(1) Let_def justified_def w
        intro!: autoExpose_asks split: option.split)
  show "shown_public pm0 (fst (capture_served K s (st, pm)))"
    using mp st1 shown
    by (auto simp: capture_served_def gen Let_def w intro!: shown_set_port auto_expose_shown split: option.split)
qed

lemma fold_configured_asks:
  assumes "shown_public pm0 st" "pn_noVisibility K = VisibilityPrivate" "only_exposes pm0 pm"
    and "\<forall>(p, c) \<in> set cs. configs_Get (pm_configs pm0) p = Some (c, PortConfigKind)"
  shows "asks (justified pm0) pm (snd (fold (\<lambda>(p, c). capture_configured K p c) cs (st, pm)))
    \<and> shown_public pm0 (fst (fold (\<lambda>(p, c). capture_configured K p c) cs (st, pm)))"
  using assms(1,3,4)
proof (induction cs arbitrary: st pm)
  case (Cons pc cs)
  obtain p c where pc: "pc = (p, c)" by fastforce
  obtain st1 pm1 where s1: "capture_configured K p c (st, pm) = (st1, pm1)" by fastforce
  have one: "asks (justified pm0) pm pm1" "shown_public pm0 st1"
    using capture_configured_asks [OF Cons.prems(1) assms(2) Cons.prems(2), of p c] Cons.prems(3) s1 by (simp_all add: pc)
  have "only_exposes pm0 pm1"
    using only_exposes_trans [OF Cons.prems(2)] capture_configured_only [of pm K p c st] s1 by simp
  from Cons.IH [OF one(2) this] Cons.prems(3) one(1) show ?case
    by (auto simp: pc s1 intro: asks_trans)
qed simp

lemma fold_served_asks:
  assumes "shown_public pm0 st" "pn_noVisibility K = VisibilityPrivate" "only_exposes pm0 pm"
  shows "asks (justified pm0) pm (snd (fold (capture_served K) ss (st, pm)))"
  using assms(1,3)
proof (induction ss arbitrary: st pm)
  case (Cons s ss)
  obtain st1 pm1 where s1: "capture_served K s (st, pm) = (st1, pm1)" by fastforce
  have one: "asks (justified pm0) pm pm1" "shown_public pm0 st1"
    using capture_served_asks [OF Cons.prems(1) assms(2) Cons.prems(2), of s] s1 by simp_all
  have "only_exposes pm0 pm1"
    using only_exposes_trans [OF Cons.prems(2)] capture_served_only [of pm K s st] s1 by simp
  from Cons.IH [OF one(2) this] one(1) show ?case
    by (auto simp: s1 intro: asks_trans)
qed simp

lemma shown_exposed: "pn_noVisibility K = VisibilityPrivate \<Longrightarrow> set es \<subseteq> set (pm_exposed pm) \<Longrightarrow> shown_public pm st \<Longrightarrow>
    shown_public pm (fold (capture_exposed K pm) es st)"
proof (induction es arbitrary: st)
  case (Cons e es)
  have "shown_public pm (capture_exposed K pm e st)"
    using Cons.prems shown_gen [OF Cons.prems(3,1), where cf = "pm_configs pm" and p = "ep_LocalPort e"]
    by (auto simp: capture_exposed_def case_prod_beta public_wanted_def intro!: shown_set_port)
  with Cons show ?case by simp
qed simp

lemma shown_tunneled: "pn_noVisibility K = VisibilityPrivate \<Longrightarrow> shown_public pm st \<Longrightarrow>
    shown_public pm (fold (capture_tunneled K pm) ts st)"
proof (induction ts arbitrary: st)
  case (Cons t ts)
  have "shown_public pm (capture_tunneled K pm t st)"
    using Cons.prems shown_gen [OF Cons.prems(2,1), where cf = "pm_configs pm" and p = "td_LocalPort (ts_Desc t)"]
    by (auto simp: capture_tunneled_def case_prod_beta intro!: shown_set_port)
  with Cons show ?case by simp
qed simp

definition configs_ok :: "port_configs option \<Rightarrow> bool" where
  "configs_ok configs = (case configs of None \<Rightarrow> True | Some cf \<Rightarrow> distinct (map fst (cf_Ports cf)))"

lemma nextState_asks:
  assumes "pn_noVisibility K = VisibilityPrivate" "configs_ok (pm_configs pm)"
  shows "asks (justified pm) pm (snd (nextState K pm))"
proof -
  let ?st2 = "fold (capture_tunneled K pm) (pm_tunneled pm) (fold (capture_exposed K pm) (pm_exposed pm) [])"
  obtain st3 pm3 where s3: "configs_ForEach (pm_configs pm) (capture_configured K) (?st2, pm) = (st3, pm3)" by fastforce
  obtain st4 pm4 where s4: "fold (capture_served K) (pm_served pm) (st3, pm3) = (st4, pm4)" by fastforce
  have nx: "snd (nextState K pm) = pm4"
    using s3 s4 by (simp add: nextState_def Let_def)
  have st2: "shown_public pm ?st2"
    using assms(1) by (intro shown_tunneled shown_exposed) (auto simp: shown_public_def)
  have a3: "asks (justified pm) pm pm3 \<and> shown_public pm st3"
  proof (cases "pm_configs pm")
    case (Some cf)
    then have "\<forall>(p, c) \<in> set (cf_Ports cf). configs_Get (pm_configs pm) p = Some (c, PortConfigKind)"
      using assms(2) by (auto simp: configs_ok_def configs_Get_def)
    from fold_configured_asks [OF st2 assms(1) only_exposes_refl this] s3 Some show ?thesis
      by (simp add: configs_ForEach_def)
  qed (use s3 st2 in \<open>auto simp: configs_ForEach_def\<close>)
  have "only_exposes pm pm3"
    using for_each_configured(1) [where pm = pm and K = K and st = ?st2] s3 by simp
  then have "asks (justified pm) pm3 pm4"
    using fold_served_asks [of pm st3 K pm3 "pm_served pm"] a3 assms(1) s4 by simp
  then show ?thesis using a3 asks_trans nx by metis
qed

section \<open>Reachable states\<close>

text \<open>Which ports have a tunnel, after each operation on the tunnels.\<close>

lemma drop_entry_keys [simp]: "fst ` set (drop_entry k m) = fst ` set m - {k}"
  by (auto simp: drop_entry_def)

lemma open_tunnels_step:
  "\<exists>opened' err' s'. open_tunnels skip (d # ds) opened err s = open_tunnels skip ds opened' err' s'
     \<and> fst ` set (tv_tunnels s') \<subseteq> insert (td_LocalPort d) (fst ` set (tv_tunnels s))
     \<and> set opened' \<subseteq> insert (td_LocalPort d) (set opened)"
proof (cases "desc_validate d")
  case None
  note valid = this
  show ?thesis
  proof (cases "map_of (tv_tunnels s) (td_LocalPort d)")
    case None
    let ?s = "s\<lparr>tv_tunnels := (td_LocalPort d, length (tv_objects s)) # tv_tunnels s,
        tv_objects := tv_objects s @ [\<lparr>to_Desc = d, to_Clients = [], to_Conns = []\<rparr>]\<rparr>"
    have "open_tunnels skip (d # ds) opened err s = open_tunnels skip ds (opened @ [td_LocalPort d]) err ?s"
      using valid None by simp
    moreover have "fst ` set (tv_tunnels ?s) \<subseteq> insert (td_LocalPort d) (fst ` set (tv_tunnels s))"
        "set (opened @ [td_LocalPort d]) \<subseteq> insert (td_LocalPort d) (set opened)" by auto
    ultimately show ?thesis by blast
  next
    case (Some a)
    show ?thesis
    proof (cases skip)
      case False
      have "open_tunnels skip (d # ds) opened err s
          = open_tunnels skip ds (opened @ [td_LocalPort d]) err (on_object a (\<lambda>t. t\<lparr>to_Desc := d\<rparr>) s)"
        using valid Some False by simp
      moreover have "fst ` set (tv_tunnels (on_object a (\<lambda>t. t\<lparr>to_Desc := d\<rparr>) s)) \<subseteq> insert (td_LocalPort d) (fst ` set (tv_tunnels s))"
          "set (opened @ [td_LocalPort d]) \<subseteq> insert (td_LocalPort d) (set opened)" by auto
      ultimately show ?thesis by blast
    qed (use valid Some in auto)
  qed
qed auto

lemma open_tunnels_ports:
  "fst ` set (tv_tunnels (snd (snd (open_tunnels skip ds opened err s)))) \<subseteq> fst ` set (tv_tunnels s) \<union> td_LocalPort ` set ds
   \<and> set (fst (open_tunnels skip ds opened err s)) \<subseteq> set opened \<union> td_LocalPort ` set ds"
proof (induction ds arbitrary: opened err s)
  case (Cons d ds)
  obtain opened' err' s' where "open_tunnels skip (d # ds) opened err s = open_tunnels skip ds opened' err' s'"
      "fst ` set (tv_tunnels s') \<subseteq> insert (td_LocalPort d) (fst ` set (tv_tunnels s))"
      "set opened' \<subseteq> insert (td_LocalPort d) (set opened)"
    using open_tunnels_step [of skip d ds opened err s] by blast
  with Cons.IH [of opened' err' s'] show ?case
    by (simp del: open_tunnels.simps) blast
qed simp

lemma tv_Tunnel_ports:
  "fst ` set (tv_tunnels (snd (snd (tv_Tunnel skip ds s)))) \<subseteq> fst ` set (tv_tunnels s) \<union> td_LocalPort ` set ds"
  "set (fst (tv_Tunnel skip ds s)) \<subseteq> td_LocalPort ` set ds"
  using open_tunnels_ports [of skip ds "[]" None s]
  by (simp_all add: tv_Tunnel_def case_prod_beta)

lemma conn_Close_tunnels [simp]: "tv_tunnels (snd (conn_Close e c s)) = tv_tunnels s"
  by (simp add: conn_Close_def onDidClose_def Let_def)

lemma close_conns_tunnels [simp]: "tv_tunnels (snd (close_conns net cs err s)) = tv_tunnels s"
proof (induction cs arbitrary: err s)
  case (Cons c cs)
  then show ?case by (simp add: case_prod_beta split: option.split)
qed simp

lemma remove_tunnels_ports: "fst ` set (tv_tunnels (snd (remove_tunnels ps s))) \<subseteq> fst ` set (tv_tunnels s)"
proof (induction ps arbitrary: s)
  case (Cons p ps)
  show ?case
  proof (cases "map_of (tv_tunnels s) p")
    case (Some a)
    let ?s = "s\<lparr>tv_tunnels := drop_entry p (tv_tunnels s)\<rparr>"
    have eq: "snd (remove_tunnels (p # ps) s) = snd (remove_tunnels ps ?s)"
      by (simp add: Some case_prod_beta)
    have "fst ` set (tv_tunnels ?s) \<subseteq> fst ` set (tv_tunnels s)" by auto
    from subset_trans [OF Cons.IH [of ?s] this] show ?thesis unfolding eq .
  qed (use Cons.IH in simp)
qed simp

lemma take_tunnels_ports: "fst ` set (tv_tunnels (snd (take_tunnels ps s))) \<subseteq> fst ` set (tv_tunnels s)"
  using remove_tunnels_ports [of ps s] by (simp add: take_tunnels_def case_prod_beta)

lemma tv_CloseTunnel_ports:
  "fst ` set (tv_tunnels (snd (snd (tv_CloseTunnel net ps s)))) \<subseteq> fst ` set (tv_tunnels s)"
  using take_tunnels_ports [of ps s] by (simp add: tv_CloseTunnel_def case_prod_beta)

lemma tv_EstablishTunnel_ports: "tv_tunnels (snd (tv_EstablishTunnel e client lp tp s)) = tv_tunnels s"
  by (simp add: tv_EstablishTunnel_def add_conn_def Let_def split: option.split)

text \<open>
  The invariant: internal ports are not among those the manager knows, exposes by itself or tunnels,
  the ports of the state and the served ones are sorted and distinct, and a proxy runs only for a
  port served on localhost only.
\<close>

definition ports_inv :: "port list \<Rightarrow> port_manager \<Rightarrow> bool" where
  "ports_inv internal pm \<longleftrightarrow>
     pm_internal pm = internal
     \<and> set internal \<inter> (set (ports_of (pm_state pm)) \<union> fst ` set (pm_autoExposed pm) \<union> fst ` set (tv_tunnels (pm_T pm))) = {}
     \<and> sorted (ports_of (pm_state pm)) \<and> distinct (ports_of (pm_state pm))
     \<and> sorted (map sp_Port (pm_served pm)) \<and> distinct (map sp_Port (pm_served pm))
     \<and> (\<forall>p \<in> set (pm_proxies pm). served_locally (pm_served pm) p)"

lemma collect_served_distinct: "distinct (map sp_Port acc) \<Longrightarrow> distinct (map sp_Port (collect_served env pm s acc))"
  by (auto simp: collect_served_def put_served_def distinct_map_filter split: option.split)

lemma new_served_ok: "sorted (map sp_Port (new_served env pm ss))" "distinct (map sp_Port (new_served env pm ss))"
proof -
  have "distinct (map sp_Port (fold (collect_served env pm) ss acc))" if "distinct (map sp_Port acc)" for acc
    using that by (induction ss arbitrary: acc) (simp_all add: collect_served_distinct)
  from this [of "[]"] show "distinct (map sp_Port (new_served env pm ss))"
    by (simp add: new_served_def distinct_map)
qed (simp add: new_served_def)

lemma start_proxies:
  assumes "distinct (map sp_Port served)" "set ss \<subseteq> set served" "\<forall>p \<in> set ps. served_locally served p"
  shows "\<forall>p \<in> set (fold (start_proxy env) ss ps). served_locally served p"
  using assms(2,3)
proof (induction ss arbitrary: ps)
  case (Cons s ss)
  have "served_locally served (sp_Port s)" if "sp_BoundToLocalhost s"
  proof -
    have "tbl_find sp_Port (sp_Port s) (rev served) = Some s"
    proof (cases "tbl_find sp_Port (sp_Port s) (rev served)")
      case None
      then show ?thesis using Cons.prems(1) by (auto simp: tbl_find_none)
    next
      case (Some r)
      then show ?thesis
        using tbl_find_some [OF Some] Cons.prems(1) assms(1) by (auto simp: distinct_map inj_on_def)
    qed
    then show ?thesis using that by (simp add: served_locally_def)
  qed
  then have "\<forall>p \<in> set (start_proxy env s ps). served_locally served p"
    using Cons.prems(2) by (simp add: start_proxy_def)
  then show ?case using Cons.IH Cons.prems(1) by simp
qed simp

lemma inv_nextState:
  assumes "ports_inv internal pm"
  shows "ports_inv internal ((snd (nextState K pm))\<lparr>pm_state := fst (nextState K pm)\<rparr>)"
proof -
  note only = next_state_shape(3) [of pm K]
  note fields = only_exposes_fields [OF only]
  have "set internal \<inter> known_ports pm = {}"
    using assms by (auto simp: ports_inv_def known_ports_def boundInternally_def)
  moreover have "set internal \<inter> fst ` set (pm_autoExposed (snd (nextState K pm))) = {}"
    using only assms by (auto simp: only_exposes_def ports_inv_def boundInternally_def)
  ultimately show ?thesis
    using assms next_state_shape(1,2) [where pm = pm and K = K] fields by (auto simp: ports_inv_def)
qed

lemma inv_frame:
  "ports_inv internal pm \<Longrightarrow> ports_inv internal (pm\<lparr>pm_E := e\<rparr>)"
  "ports_inv internal pm \<Longrightarrow> ports_inv internal (pm\<lparr>pm_asked := q\<rparr>)"
  "ports_inv internal pm \<Longrightarrow> ports_inv internal (pm\<lparr>pm_exposures := xs\<rparr>)"
  "ports_inv internal pm \<Longrightarrow> ports_inv internal (pm\<lparr>pm_subscriptions := ss\<rparr>)"
  "ports_inv internal pm \<Longrightarrow> ports_inv internal (pm\<lparr>pm_subscribed := n\<rparr>)"
  "ports_inv internal pm \<Longrightarrow> ports_inv internal (pm\<lparr>pm_closed := b\<rparr>)"
  "ports_inv internal pm \<Longrightarrow> ports_inv internal (pm\<lparr>pm_forceUpdates := b\<rparr>)"
  "ports_inv internal pm \<Longrightarrow> ports_inv internal (pm\<lparr>pm_exposed := es\<rparr>)"
  "ports_inv internal pm \<Longrightarrow> ports_inv internal (pm\<lparr>pm_tunneled := ts\<rparr>)"
  "ports_inv internal pm \<Longrightarrow> ports_inv internal (pm\<lparr>pm_configs := cf\<rparr>)"
  "ports_inv internal pm \<Longrightarrow> ports_inv internal (pm\<lparr>pm_autoTunneled := ps\<rparr>)"
  "ports_inv internal pm \<Longrightarrow> ports_inv internal (pm\<lparr>pm_autoTunnelEnabled := b\<rparr>)"
  by (simp_all add: ports_inv_def)

lemma inv_T:
  assumes "ports_inv internal pm" "fst ` set (tv_tunnels tv) \<subseteq> fst ` set (tv_tunnels (pm_T pm)) \<union> - set internal"
  shows "ports_inv internal (pm\<lparr>pm_T := tv\<rparr>)"
proof -
  have "set internal \<inter> fst ` set (tv_tunnels (pm_T pm)) = {}"
    using assms(1) by (simp add: ports_inv_def Int_Un_distrib)
  then have "set internal \<inter> fst ` set (tv_tunnels tv) = {}"
    using assms(2) by blast
  then show ?thesis
    using assms(1) by (simp add: ports_inv_def Int_Un_distrib)
qed

lemma inv_not_internal: "ports_inv internal pm \<Longrightarrow> boundInternally pm p \<longleftrightarrow> p \<in> set internal"
  by (simp add: ports_inv_def boundInternally_def)

lemma inv_autoExpose:
  "ports_inv internal pm \<Longrightarrow> p \<notin> set internal \<Longrightarrow> ports_inv internal (autoExpose K p public protocol pm)"
  by (simp add: ports_inv_def autoExpose_def ask_expose_def Let_def)

lemma inv_ask_expose: "ports_inv internal pm \<Longrightarrow> ports_inv internal (ask_expose K p public protocol pm)"
  unfolding ask_expose_def by (intro inv_frame)

lemma inv_autoTunnel:
  assumes "ports_inv internal pm"
  shows "ports_inv internal (autoTunnel env pm)"
proof (cases "pm_autoTunnelEnabled pm")
  case False
  have "ports_inv internal (pm\<lparr>pm_autoTunneled := [], pm_T := snd (snd (tv_CloseTunnel (pv_closing env) (pm_autoTunneled pm) (pm_T pm)))\<rparr>)"
    by (rule inv_T [OF inv_frame(11) [OF assms]]) (simp, use tv_CloseTunnel_ports in blast)
  with False show ?thesis
    by (simp add: autoTunnel_def case_prod_beta)
next
  case True
  let ?ds = "map (\<lambda>s. auto_desc (sp_Port s))
    (filter (\<lambda>s. \<not> boundInternally pm (sp_Port s) \<and> sp_Port s \<notin> set (pm_autoTunneled pm)) (pm_served pm))"
  have "td_LocalPort ` set ?ds \<subseteq> - set internal"
    using inv_not_internal [OF assms] by (auto simp: auto_desc_def)
  then have tunnels: "fst ` set (tv_tunnels (snd (snd (tv_Tunnel True ?ds (pm_T pm))))) \<subseteq> fst ` set (tv_tunnels (pm_T pm)) \<union> - set internal"
    using tv_Tunnel_ports(1) [of True ?ds "pm_T pm"] by blast
  have "ports_inv internal (pm\<lparr>pm_autoTunneled := ps, pm_T := snd (snd (tv_Tunnel True ?ds (pm_T pm)))\<rparr>)" for ps
    by (rule inv_T [OF inv_frame(11) [OF assms]]) (use tunnels in simp)
  with True show ?thesis
    by (simp add: autoTunnel_def case_prod_beta)
qed

lemma inv_take_served:
  assumes "ports_inv internal pm"
  shows "ports_inv internal (take_served env served pm)"
proof (cases served)
  case (Some ss)
  let ?new = "new_served env pm ss"
  let ?pm = "updateProxies env (pm\<lparr>pm_served := ?new\<rparr>)"
  have "\<forall>p \<in> set (fold (start_proxy env) ?new (filter (served_locally ?new) (pm_proxies pm))). served_locally ?new p"
    by (rule start_proxies [OF new_served_ok(2) subset_refl]) simp
  then have "ports_inv internal ?pm"
    using assms new_served_ok [of env pm ss] by (simp add: ports_inv_def updateProxies_def)
  then show ?thesis
    using assms Some inv_autoTunnel by (simp add: take_served_def Let_def)
qed (use assms in \<open>simp add: take_served_def\<close>)

lemma inv_publish: "ports_inv internal pm \<Longrightarrow> ports_inv internal (publish env status pm)"
  unfolding publish_def by (rule inv_frame)

lemma inv_refresh: "ports_inv internal pm \<Longrightarrow> ports_inv internal (refresh_state env configured pm)"
  using inv_nextState inv_publish by (simp add: refresh_state_def case_prod_beta Let_def)

lemma inv_updateState: "ports_inv internal pm \<Longrightarrow> ports_inv internal (updateState env exposed served configured tunneled pm)"
  unfolding updateState_def
  by (intro inv_refresh) (simp add: take_configs_def take_tunneled_def take_exposed_def inv_take_served inv_frame split: option.split)

lemma inv_round: "ports_inv internal pm \<Longrightarrow> ports_inv internal (snd (run_round env ev pm))"
  by (auto simp: run_round_def run_stop_def inv_updateState inv_frame split: port_event.split option.split)

lemma inv_retry: "ports_inv internal pm \<Longrightarrow> ports_inv internal (RetryAutoExpose env ended p pm)"
proof -
  assume inv: "ports_inv internal pm"
  show ?thesis
  proof (cases "auto_exposed pm p")
    case (Some a)
    then have "p \<in> fst ` set (pm_autoExposed pm)"
      by (force simp: auto_exposed_def dest: map_of_SomeD)
    then have "p \<notin> set internal" using inv by (auto simp: ports_inv_def)
    then show ?thesis
      using inv Some by (simp add: RetryAutoExpose_def forceUpdate_def inv_frame inv_autoExpose)
  qed (use inv in \<open>simp add: RetryAutoExpose_def\<close>)
qed

lemma inv_expose: "ports_inv internal pm \<Longrightarrow> ports_inv internal (snd (ports_Expose env answer p pm))"
  by (auto simp: ports_Expose_def Let_def inv_ask_expose split: option.split prod.split config_kind.split)

lemma inv_tunnel_calls:
  assumes "ports_inv internal pm"
  shows "ports_inv internal (snd (ports_Tunnel d pm))"
    "ports_inv internal (snd (ports_CloseTunnel env p pm))"
    "ports_inv internal (snd (ports_EstablishTunnel e client lp tp pm))"
proof -
  have "ports_inv internal (pm\<lparr>pm_T := snd (snd (tv_Tunnel False [d] (pm_T pm)))\<rparr>)" if "td_LocalPort d \<notin> set internal"
    using tv_Tunnel_ports(1) [of False "[d]" "pm_T pm"] that by (intro inv_T [OF assms]) auto
  then show "ports_inv internal (snd (ports_Tunnel d pm))"
    using assms inv_not_internal [OF assms] inv_frame(11) by (simp add: ports_Tunnel_def case_prod_beta)
  have "ports_inv internal (pm\<lparr>pm_T := snd (snd (tv_CloseTunnel (pv_closing env) [p] (pm_T pm)))\<rparr>)"
    by (rule inv_T [OF assms]) (use tv_CloseTunnel_ports in blast)
  then show "ports_inv internal (snd (ports_CloseTunnel env p pm))"
    using assms by (simp add: ports_CloseTunnel_def case_prod_beta)
  show "ports_inv internal (snd (ports_EstablishTunnel e client lp tp pm))"
    by (simp add: ports_EstablishTunnel_def case_prod_beta) (rule inv_T [OF assms], simp add: tv_EstablishTunnel_ports)
qed

lemma inv_transition: "ports_inv internal pm \<Longrightarrow> ports_inv internal (port_transition env step pm)"
proof (cases step)
  case (ConnClosed e c)
  assume "ports_inv internal pm"
  then show ?thesis
    unfolding ConnClosed by (auto intro!: inv_T)
qed (simp_all add: inv_round inv_retry inv_expose inv_tunnel_calls inv_frame ports_AutoTunnel_def inv_autoTunnel
  ports_Subscribe_def subscription_Close_def exposure_done_def)

lemma reachable_ports_inv: "ports_reachable envs internal pm \<Longrightarrow> ports_inv internal pm"
  by (induction rule: ports_reachable.induct)
    (simp add: ports_inv_def NewPortManager_def NewTunneledPortsService_def, rule inv_transition)

text \<open>
  C13. In every state the port manager reaches, by rounds of its loop, calls and the goroutines that share its parts,
  internal ports are not in its state, not exposed by itself and not tunneled; its state and its served ports are
  sorted and have every port once; and a localhost proxy runs only for a port that is served on localhost only.
\<close>

theorem ports_reachable_inv:
  assumes "ports_reachable envs internal pm"
  shows "ports_inv internal pm"
  using assms by (rule reachable_ports_inv)

end
