(* ===== verification/PortSafety.thy ===== *)
theory PortSafety
  imports PortProps
begin

text \<open>
  What the port manager does with internal ports, what it makes public, and a change that its
  subscribers are never told of.
\<close>

section \<open>Internal ports\<close>

text \<open>
  C16. The check that refuses to expose an internal port by hand is never reached: internal ports are not in the state it
  looks at. An internal port without a configuration is asked to be exposed like any other one.
\<close>

theorem internal_ports_exposable:
  assumes "ports_reachable envs internal pm" "p \<in> set internal"
  shows "fst (ports_Expose env answer p pm) \<noteq> ExposeRefused
    \<and> (configs_Get (pm_configs pm) p = None \<longrightarrow>
        pm_asked (snd (ports_Expose env answer p pm)) = pm_asked pm @ [(p, False, pn_http (pv_names env))])"
proof -
  have "p \<notin> set (ports_of (pm_state pm))"
    using reachable_ports_inv [OF assms(1)] assms(2) by (auto simp: ports_inv_def)
  then have "tbl_find mp_LocalhostPort p (pm_state pm) = None"
    by (simp add: tbl_find_none)
  then show ?thesis
    by (auto simp: ports_Expose_def Let_def ask_expose_def split: option.split prod.split config_kind.split)
qed

section \<open>Public ports\<close>

text \<open>
  C14. Computing the next state asks to expose only ports that are not internal and were not exposed by the manager
  before, each of them once, and it asks to make one public only if the configuration of the port or of its range says
  so or the port is already exposed publicly.
\<close>

theorem made_public_with_reason:
  assumes "pn_noVisibility K = VisibilityPrivate" "configs_ok (pm_configs pm)"
  shows "\<exists>new. pm_asked (snd (nextState K pm)) = pm_asked pm @ new \<and> distinct (map fst new)
    \<and> (\<forall>(p, public, protocol) \<in> set new. \<not> boundInternally pm p \<and> auto_exposed pm p = None \<and> (public \<longrightarrow> public_wanted pm p))"
  using nextState_asks [OF assms] unfolding asks_def justified_def auto_exposed_none by fastforce

section \<open>Clients of tunnels\<close>

abbreviation with_T :: "tunnel_service \<Rightarrow> port_manager \<Rightarrow> port_manager" where
  "with_T tv pm \<equiv> pm\<lparr>pm_T := tv\<rparr>"

lemma with_T_bound [simp]: "boundInternally (with_T tv pm) p = boundInternally pm p"
  by (simp add: boundInternally_def)

lemma with_T_autoExpose [simp]: "autoExpose K p b pr (with_T tv pm) = with_T tv (autoExpose K p b pr pm)"
  by (simp add: autoExpose_def ask_expose_def Let_def)

lemma with_T_auto_exposed [simp]: "auto_exposed (with_T tv pm) p = auto_exposed pm p"
  by (simp add: auto_exposed_def)

lemma with_T_captures [simp]:
  "capture_exposed K (with_T tv pm) = capture_exposed K pm"
  "capture_tunneled K (with_T tv pm) = capture_tunneled K pm"
  by (simp_all add: fun_eq_iff capture_exposed_def capture_tunneled_def)

lemma with_T_configured: "capture_configured K p c (st, with_T tv pm) = map_prod id (with_T tv) (capture_configured K p c (st, pm))"
  by (simp add: capture_configured_def auto_expose_port_def case_prod_beta Let_def split: option.split)

lemma with_T_served: "capture_served K s (st, with_T tv pm) = map_prod id (with_T tv) (capture_served K s (st, pm))"
  by (auto simp: capture_served_def auto_expose_port_def case_prod_beta Let_def split: option.split)

lemma with_T_fold_configured:
  "fold (\<lambda>(p, c). capture_configured K p c) cs (st, with_T tv pm)
     = map_prod id (with_T tv) (fold (\<lambda>(p, c). capture_configured K p c) cs (st, pm))"
proof (induction cs arbitrary: st pm)
  case (Cons pc cs)
  obtain p c where pc: "pc = (p, c)" by fastforce
  obtain st1 pm1 where s1: "capture_configured K p c (st, pm) = (st1, pm1)" by fastforce
  with Cons.IH [of st1 pm1] show ?case by (simp add: pc with_T_configured)
qed simp

lemma with_T_fold_served:
  "fold (capture_served K) ss (st, with_T tv pm) = map_prod id (with_T tv) (fold (capture_served K) ss (st, pm))"
proof (induction ss arbitrary: st pm)
  case (Cons s ss)
  obtain st1 pm1 where s1: "capture_served K s (st, pm) = (st1, pm1)" by fastforce
  with Cons.IH [of st1 pm1] show ?case by (simp add: with_T_served)
qed simp

text \<open>The next state is computed from what the observers announced, not from the tunnels themselves.\<close>

lemma nextState_with_T: "nextState K (with_T tv pm) = map_prod id (with_T tv) (nextState K pm)"
proof -
  let ?st2 = "fold (capture_tunneled K pm) (pm_tunneled pm) (fold (capture_exposed K pm) (pm_exposed pm) [])"
  have "configs_ForEach (pm_configs pm) (capture_configured K) (?st2, with_T tv pm)
      = map_prod id (with_T tv) (configs_ForEach (pm_configs pm) (capture_configured K) (?st2, pm))"
    by (simp add: configs_ForEach_def with_T_fold_configured split: option.split)
  then show ?thesis
    by (simp add: nextState_def Let_def case_prod_beta with_T_fold_served map_prod_def)
qed

lemma same_info_refl: "same_info tv i i"
  by (simp add: same_info_def split: option.split)

lemma same_state_refl: "same_state tv st st"
  by (simp add: same_state_def same_managed_def same_info_refl list_all2_refl)

lemma same_tunneled_refl: "list_all2 (same_tunneled tv) ts ts"
  by (simp add: same_tunneled_def list_all2_refl)

lemma establish_observed: "tv_observed (snd (tv_EstablishTunnel dialErr client lp tp s)) = tv_observed s"
proof -
  have "to_Desc (tv_objects (on_object a f s') ! i) = to_Desc (tv_objects s' ! i)" if "\<And>t. to_Desc (f t) = to_Desc t" for a f s' i
    using that by (cases "a < length (tv_objects s')"; cases "i = a") (simp_all add: on_object_def list_update_beyond)
  then have "to_Desc (tv_objects (snd (add_conn a client lp tp s)) ! i) = to_Desc (tv_objects s ! i)" for a i
    by (simp add: add_conn_def broadcast_def Let_def)
  then show ?thesis
    by (simp add: tv_observed_def tv_EstablishTunnel_ports)
      (simp add: tv_EstablishTunnel_def case_prod_beta split: option.split)
qed

text \<open>
  C35. When the state of the manager is settled and a client connects to a tunnel, the update the
  observer of the tunnels sends about it changes nothing at all: the manager keeps its state and
  publishes no status for it. For the observer hands out the tunnel's own map of clients, so that
  the tunnels and the state the manager compares with have changed already. This is about that one
  update only: a later change of another kind may publish the client.
\<close>

theorem new_client_update_swallowed:
  assumes "pm_tunneled pm = tv_observed (pm_T pm)" "nextState (pv_names env) pm = (pm_state pm, pm)"
    and "ports_EstablishTunnel dialErr client lp tp pm = (Inr c, pm1)"
  shows "run_round env (TunneledUpdate (Some (tv_observed (pm_T pm1)))) pm1 = (\<not> pm_closed pm, pm1)
    \<and> pm_subscriptions pm1 = pm_subscriptions pm"
proof -
  obtain tv where tv: "pm1 = with_T tv pm" "tv_observed tv = tv_observed (pm_T pm)"
    using assms(3) establish_observed [of dialErr client lp tp "pm_T pm"]
    by (auto simp: ports_EstablishTunnel_def split: prod.splits)
  show ?thesis
  proof (cases "pm_closed pm")
    case False
    have "take_tunneled (Some (tv_observed tv)) pm1 = pm1"
      using assms(1) tv same_tunneled_refl by (simp add: take_tunneled_def)
    then have "run_round env (TunneledUpdate (Some (tv_observed (pm_T pm1)))) pm1 = (True, refresh_state env False pm1)"
      using False tv by (simp add: run_round_def updateState_def take_exposed_def take_served_def take_configs_def)
    moreover have "refresh_state env False pm1 = pm1"
      using assms(2) same_state_refl by (simp add: refresh_state_def tv(1) nextState_with_T)
    ultimately show ?thesis using False by (simp add: tv(1))
  qed (use tv in \<open>simp add: run_round_def\<close>)
qed

section \<open>A workspace\<close>

definition demo_names :: protocol_names where
  "demo_names = \<lparr>pn_http = ''http'', pn_https = ''https'', pn_private = ''private'', pn_public = ''public'',
     pn_noVisibility = VisibilityPrivate, pn_noProtocol = ProtocolHTTP, pn_noExposure = AutoTrying\<rparr>"

definition demo_port_env :: port_env where
  "demo_port_env = \<lparr>pv_names = demo_names, pv_workspaceIP = ''10.0.0.2'', pv_proxyStarts = (\<lambda>_. True), pv_reads = (\<lambda>_. True),
     pv_closing = (\<lambda>_. None)\<rparr>"

definition demo_items :: "ports_item option list" where
  "demo_items = [Some \<lparr>pi_Port = ''3000'', pi_OnOpen = ''notify'', pi_Visibility = ''public'', pi_Description = [], pi_Protocol = ''http'', pi_Name = ''app''\<rparr>]"

definition demo_ports_start :: port_manager where
  "demo_ports_start = NewPortManager (NewGitpodExposedPorts None) NewTunneledPortsService [22999]"

definition demo_ports_run :: "port_step list" where
  "demo_ports_run = [CallSubscribe, RunRound (ConfigUpdate (Some (parseInstanceConfigs demo_items))),
     RunRound (ServedUpdate (Some [\<lparr>sp_Address = [127, 0, 0, 1], sp_Port = 8080, sp_BoundToLocalhost = True\<rparr>,
        \<lparr>sp_Address = [0, 0, 0, 0], sp_Port = 22999, sp_BoundToLocalhost = False\<rparr>]))]"

definition demo_ports :: port_manager where
  "demo_ports = fold (port_transition demo_port_env) demo_ports_run demo_ports_start"

lemma demo_ports_reachable: "ports_reachable (\<lambda>_. demo_port_env) [22999] demo_ports"
proof -
  have "ports_reachable (\<lambda>_. demo_port_env) [22999] pm \<Longrightarrow>
      ports_reachable (\<lambda>_. demo_port_env) [22999] (fold (port_transition demo_port_env) steps pm)" for steps pm
    by (induction steps arbitrary: pm) (auto intro: ports_more [where envs = "\<lambda>_. demo_port_env"])
  then show ?thesis
    unfolding demo_ports_def demo_ports_start_def by (blast intro: ports_start)
qed

lemma demo_ports_facts:
  "ports_of (pm_state demo_ports) = [3000, 8080]" "pm_proxies demo_ports = [8080]"
  "pm_asked demo_ports = [(3000, True, ''http''), (8080, False, ''http'')]"
  by code_simp+

theorem internal_ports_exposable_witness:
  "fst (ports_Expose demo_port_env None 22999 demo_ports) \<noteq> ExposeRefused
   \<and> pm_asked (snd (ports_Expose demo_port_env None 22999 demo_ports)) = pm_asked demo_ports @ [(22999, False, pn_http (pv_names demo_port_env))]"
proof -
  have "configs_Get (pm_configs demo_ports) 22999 = None" by code_simp
  then show ?thesis
    using internal_ports_exposable [OF demo_ports_reachable, of 22999 demo_port_env None] by simp
qed

theorem ports_reachable_inv_witness: "ports_inv [22999] demo_ports"
  by (rule ports_reachable_inv [OF demo_ports_reachable])

definition demo_configured :: port_manager where
  "demo_configured = demo_ports_start\<lparr>pm_configs := Some (parseInstanceConfigs demo_items),
     pm_served := [\<lparr>sp_Address = [127, 0, 0, 1], sp_Port = 8080, sp_BoundToLocalhost = True\<rparr>]\<rparr>"

theorem made_public_with_reason_witness:
  "(\<exists>new. pm_asked (snd (nextState demo_names demo_configured)) = pm_asked demo_configured @ new \<and> distinct (map fst new))
   \<and> pm_asked (snd (nextState demo_names demo_configured)) = [(3000, True, ''http''), (8080, False, ''http'')]"
proof
  have "pn_noVisibility demo_names = VisibilityPrivate" "configs_ok (pm_configs demo_configured)" by code_simp+
  from made_public_with_reason [OF this]
  show "\<exists>new. pm_asked (snd (nextState demo_names demo_configured)) = pm_asked demo_configured @ new \<and> distinct (map fst new)"
    by blast
qed code_simp

definition demo_opened :: port_manager where
  "demo_opened = fold (port_transition demo_port_env)
     [CallTunnel \<lparr>td_LocalPort = 8080, td_TargetPort = 8080, td_Visibility = TunnelHost\<rparr>, CallSubscribe] demo_ports_start"

definition demo_tunneled :: port_manager where
  "demo_tunneled = snd (run_round demo_port_env (TunneledUpdate (Some (tv_observed (pm_T demo_opened)))) demo_opened)"

definition demo_client :: port_manager where
  "demo_client = snd (ports_EstablishTunnel None ''laptop'' 8080 9090 demo_tunneled)"

text \<open>The subscriber was told of the tunnel, and is not told of its client.\<close>

theorem new_client_update_swallowed_witness:
  "run_round demo_port_env (TunneledUpdate (Some (tv_observed (pm_T demo_client)))) demo_client = (True, demo_client)
   \<and> pm_subscriptions demo_client = pm_subscriptions demo_tunneled
   \<and> to_Clients (tv_objects (pm_T demo_client) ! 0) = [(''laptop'', 9090)]"
proof -
  have "fst (ports_EstablishTunnel None ''laptop'' 8080 9090 demo_tunneled) = Inr 0" by code_simp
  then have "ports_EstablishTunnel None ''laptop'' 8080 9090 demo_tunneled = (Inr 0, demo_client)"
    unfolding demo_client_def by (metis prod.collapse)
  moreover have "pm_tunneled demo_tunneled = tv_observed (pm_T demo_tunneled)" by code_simp
  moreover have "nextState (pv_names demo_port_env) demo_tunneled = (pm_state demo_tunneled, demo_tunneled)" by code_simp
  ultimately have "run_round demo_port_env (TunneledUpdate (Some (tv_observed (pm_T demo_client)))) demo_client
      = (\<not> pm_closed demo_tunneled, demo_client) \<and> pm_subscriptions demo_client = pm_subscriptions demo_tunneled"
    by (intro new_client_update_swallowed)
  moreover have "\<not> pm_closed demo_tunneled" "to_Clients (tv_objects (pm_T demo_client) ! 0) = [(''laptop'', 9090)]"
    by code_simp+
  ultimately show ?thesis by simp
qed

section \<open>Two ways to expose a port\<close>

text \<open>
  A port of a configured range without a visibility is private when it is exposed by itself, and
  public when it is exposed by hand.
\<close>

lemma range_default_differs:
  assumes "configs_Get (pm_configs pm) p = Some (c, RangeConfigKind)" "pc_Visibility (sc_Config c) = []"
    and "tbl_find mp_LocalhostPort p (pm_state pm) = None"
  shows "pm_asked (snd (ports_Expose env answer p pm)) = pm_asked pm @ [(p, True, pc_Protocol (sc_Config c))]"
    and "wanted_exposure (pm_configs pm) (fresh_port K (pm_configs pm) p) = (False, pc_Protocol (sc_Config c))"
  using assms by (simp_all add: ports_Expose_def ask_expose_def wanted_exposure_def fresh_port_def Let_def)

end
