(* ===== verification/PortTunnelProps.thy ===== *)
theory PortTunnelProps
  imports PortTunnels
begin

text \<open>
  The invariant of the tunnels under every interleaving of their operations: a client is listed with a
  tunnel exactly as long as it has an open connection through it.
\<close>

definition open_conn :: "tunnel_service \<Rightarrow> nat \<Rightarrow> string \<Rightarrow> nat \<Rightarrow> bool" where
  "open_conn s a client c \<longleftrightarrow>
     c < length (tv_conns s) \<and> \<not> tc_Closed (tv_conns s ! c) \<and> tc_Tunnel (tv_conns s ! c) = a \<and> tc_Client (tv_conns s ! c) = client"

definition desc_valid :: "tunnel_description \<Rightarrow> bool" where
  "desc_valid d \<longleftrightarrow> 0 < td_LocalPort d \<and> td_LocalPort d \<le> 0xFFFF \<and> td_TargetPort d \<le> 0xFFFF"

definition object_ok :: "tunnel_service \<Rightarrow> nat \<Rightarrow> bool" where
  "object_ok s a \<longleftrightarrow>
     (\<forall>client. (map_of (to_Clients (tv_objects s ! a)) client \<noteq> None) = (conns_of client (tv_objects s ! a) \<noteq> []))
     \<and> (\<forall>client c. c \<in> set (conns_of client (tv_objects s ! a)) \<longleftrightarrow> open_conn s a client c)"

definition entry_ok :: "tunnel_service \<Rightarrow> port \<Rightarrow> nat \<Rightarrow> bool" where
  "entry_ok s p a \<longleftrightarrow>
     a < length (tv_objects s) \<and> desc_valid (to_Desc (tv_objects s ! a)) \<and> td_LocalPort (to_Desc (tv_objects s ! a)) = p
     \<and> (\<forall>client c. open_conn s a client c \<longrightarrow> tc_Port (tv_conns s ! c) = p) \<and> object_ok s a"

definition tunnels_ok :: "tunnel_service \<Rightarrow> bool" where
  "tunnels_ok s \<longleftrightarrow>
     distinct (map fst (tv_tunnels s)) \<and> distinct (map snd (tv_tunnels s))
     \<and> (\<forall>k \<in> set (tv_conns s). tc_Tunnel k < length (tv_objects s))
     \<and> (\<forall>(p, a) \<in> set (tv_tunnels s). entry_ok s p a)"

lemma tunnels_entry: "tunnels_ok s \<Longrightarrow> map_of (tv_tunnels s) p = Some a \<Longrightarrow> entry_ok s p a"
  by (auto simp: tunnels_ok_def dest: map_of_SomeD)

lemma desc_validate_ok: "desc_validate d = None \<Longrightarrow> desc_valid d"
  by (auto simp: desc_validate_def desc_valid_def word_gt_0 not_less split: if_splits)

lemma broadcast_ok [simp]: "tunnels_ok (broadcast s) = tunnels_ok s"
  by (simp add: tunnels_ok_def broadcast_def entry_ok_def object_ok_def open_conn_def)

lemma tunnels_ok_shrink:
  assumes "tunnels_ok s" "tv_objects s' = tv_objects s" "tv_conns s' = tv_conns s"
    and "tv_tunnels s' = filter P (tv_tunnels s)"
  shows "tunnels_ok s'"
proof -
  have "distinct (map fst (tv_tunnels s'))" "distinct (map snd (tv_tunnels s'))"
    using assms(1,4) by (auto simp: tunnels_ok_def distinct_map_filter)
  moreover have "entry_ok s' p a = entry_ok s p a" for p a
    using assms(2,3) by (simp add: entry_ok_def object_ok_def open_conn_def)
  ultimately show ?thesis
    using assms by (auto simp: tunnels_ok_def)
qed

section \<open>Opening tunnels\<close>

lemma ok_new_tunnel:
  assumes "tunnels_ok s" "map_of (tv_tunnels s) (td_LocalPort d) = None" "desc_validate d = None"
  shows "tunnels_ok (s\<lparr>tv_tunnels := (td_LocalPort d, length (tv_objects s)) # tv_tunnels s,
           tv_objects := tv_objects s @ [\<lparr>to_Desc = d, to_Clients = [], to_Conns = []\<rparr>]\<rparr>)" (is "tunnels_ok ?s")
proof -
  have old: "entry_ok ?s p a" if "(p, a) \<in> set (tv_tunnels s)" for p a
  proof -
    have "entry_ok s p a" using assms(1) that by (auto simp: tunnels_ok_def)
    then show ?thesis by (simp add: entry_ok_def object_ok_def open_conn_def nth_append)
  qed
  have none: "\<not> open_conn ?s (length (tv_objects s)) client c" for client c
  proof
    assume "open_conn ?s (length (tv_objects s)) client c"
    then have "tv_conns s ! c \<in> set (tv_conns s)" "tc_Tunnel (tv_conns s ! c) = length (tv_objects s)"
      by (simp_all add: open_conn_def)
    then show False using assms(1) by (force simp: tunnels_ok_def)
  qed
  have "entry_ok ?s (td_LocalPort d) (length (tv_objects s))"
    using none desc_validate_ok [OF assms(3)] by (simp add: entry_ok_def object_ok_def conns_of_def)
  moreover have "length (tv_objects s) \<notin> snd ` set (tv_tunnels s)"
    using assms(1) by (fastforce simp: tunnels_ok_def entry_ok_def)
  moreover have "td_LocalPort d \<notin> fst ` set (tv_tunnels s)"
    using assms(2) by (simp add: map_of_eq_None_iff)
  ultimately show ?thesis
    using assms(1) old by (auto simp: tunnels_ok_def less_Suc_eq)
qed

text \<open>A change of one object keeps the entries of all others.\<close>

lemma entry_ok_other:
  assumes "entry_ok s p a" "a \<noteq> b" "\<forall>client c. open_conn s' a client c \<longleftrightarrow> open_conn s a client c"
    and "\<forall>client c. open_conn s a client c \<longrightarrow> tc_Port (tv_conns s' ! c) = tc_Port (tv_conns s ! c)"
    and "tv_objects s' = (tv_objects s)[b := t]"
  shows "entry_ok s' p a"
  using assms by (simp add: entry_ok_def object_ok_def)

lemma ok_changed_object:
  assumes ok: "tunnels_ok s" and entry: "(p, b) \<in> set (tv_tunnels s)" and t: "entry_ok s' p b"
    and same: "tv_tunnels s' = tv_tunnels s" "tv_objects s' = (tv_objects s)[b := t]"
    and conns: "\<forall>a client c. a \<noteq> b \<longrightarrow> open_conn s' a client c = open_conn s a client c"
      "\<forall>a client c. open_conn s a client c \<longrightarrow> tc_Port (tv_conns s' ! c) = tc_Port (tv_conns s ! c)"
      "\<forall>k \<in> set (tv_conns s'). tc_Tunnel k < length (tv_objects s)"
  shows "tunnels_ok s'"
proof -
  have "entry_ok s' q a" if "(q, a) \<in> set (tv_tunnels s)" for q a
  proof (cases "a = b")
    case True
    have inj: "inj_on snd (set (tv_tunnels s))"
      using ok by (simp add: tunnels_ok_def distinct_map)
    then have "q = p" using inj_onD [OF inj, of "(q, a)" "(p, b)"] that entry True by simp
    then show ?thesis using t True by simp
  next
    case False
    have "entry_ok s q a" using ok that by (auto simp: tunnels_ok_def)
    then show ?thesis using False conns(1,2) same(2) entry_ok_other by metis
  qed
  then show ?thesis
    using ok same conns(3) by (auto simp: tunnels_ok_def)
qed

lemma ok_new_desc:
  assumes "tunnels_ok s" "map_of (tv_tunnels s) (td_LocalPort d) = Some a" "desc_validate d = None"
  shows "tunnels_ok (on_object a (\<lambda>t. t\<lparr>to_Desc := d\<rparr>) s)"
proof (rule ok_changed_object [OF assms(1) map_of_SomeD [OF assms(2)]])
  have "entry_ok s (td_LocalPort d) a" by (rule tunnels_entry [OF assms(1,2)])
  then show "entry_ok (on_object a (\<lambda>t. t\<lparr>to_Desc := d\<rparr>) s) (td_LocalPort d) a"
    using desc_validate_ok [OF assms(3)] by (simp add: entry_ok_def object_ok_def open_conn_def on_object_def conns_of_def)
qed (use assms(1) in \<open>auto simp: on_object_def open_conn_def tunnels_ok_def\<close>)

lemma ok_open_tunnels: "tunnels_ok s \<Longrightarrow> tunnels_ok (snd (snd (open_tunnels skip ds opened err s)))"
proof (induction ds arbitrary: opened err s)
  case (Cons d ds)
  show ?case
  proof (cases "desc_validate d")
    case None
    with Cons ok_new_tunnel [OF Cons.prems _ None] ok_new_desc [OF Cons.prems _ None] show ?thesis
      by (auto split: option.split)
  qed (use Cons in simp)
qed simp

section \<open>Connections\<close>

lemma map_of_put_entry [simp]: "map_of (put_entry k v m) k' = (if k' = k then Some v else map_of m k')"
proof -
  have "map_of (filter (\<lambda>(x, _). x \<noteq> k) m) k' = map_of m k'" if "k' \<noteq> k"
    using that by (induction m) auto
  then show ?thesis by (simp add: put_entry_def)
qed

lemma map_of_drop_entry [simp]: "map_of (drop_entry k m) k' = (if k' = k then None else map_of m k')"
  by (induction m) (auto simp: drop_entry_def)

lemma ok_add_conn:
  assumes "tunnels_ok s" "map_of (tv_tunnels s) p = Some a"
  shows "tunnels_ok (snd (add_conn a client p target s))"
proof -
  let ?s = "snd (add_conn a client p target s)" and ?c = "length (tv_conns s)"
  have e: "entry_ok s p a" by (rule tunnels_entry [OF assms])
  have a: "a < length (tv_objects s)" using e by (simp add: entry_ok_def)
  have conn: "open_conn ?s b client' c \<longleftrightarrow> open_conn s b client' c \<or> c = ?c \<and> b = a \<and> client' = client" for b client' c
    by (auto simp: add_conn_def Let_def open_conn_def on_object_def broadcast_def nth_append)
  have port: "tc_Port (tv_conns ?s ! c) = (if c = ?c then p else tc_Port (tv_conns s ! c))" if "c \<le> ?c" for c
    using that by (auto simp: add_conn_def Let_def on_object_def broadcast_def nth_append)
  have le: "c \<le> ?c" if "open_conn ?s b client' c" for b client' c
    using that unfolding conn by (auto simp: open_conn_def)
  have obj: "tv_objects ?s = (tv_objects s)[a := (tv_objects s ! a)
      \<lparr>to_Conns := put_entry client (?c # conns_of client (tv_objects s ! a)) (to_Conns (tv_objects s ! a)),
       to_Clients := put_entry client target (to_Clients (tv_objects s ! a))\<rparr>]"
    by (simp add: add_conn_def Let_def on_object_def broadcast_def)
  have conns: "conns_of client' (tv_objects ?s ! a)
      = (if client' = client then ?c # conns_of client (tv_objects s ! a) else conns_of client' (tv_objects s ! a))" for client'
    using a by (simp add: obj conns_of_def)
  show ?thesis
  proof (rule ok_changed_object [OF assms(1) map_of_SomeD [OF assms(2)]])
    have "map_of (to_Clients (tv_objects ?s ! a)) client' = (if client' = client then Some target else map_of (to_Clients (tv_objects s ! a)) client')" for client'
      using a by (simp add: obj)
    moreover have "object_ok s a" using e by (simp add: entry_ok_def)
    ultimately have "object_ok ?s a"
      unfolding object_ok_def conns conn by auto
    moreover have "\<forall>client' c. open_conn ?s a client' c \<longrightarrow> tc_Port (tv_conns ?s ! c) = p"
    proof (intro allI impI)
      fix client' c
      assume o: "open_conn ?s a client' c"
      show "tc_Port (tv_conns ?s ! c) = p"
        using port [OF le [OF o]] o [unfolded conn] e by (auto simp: entry_ok_def)
    qed
    ultimately show "entry_ok ?s p a"
      using e a by (simp add: entry_ok_def obj)
    show "tv_tunnels ?s = tv_tunnels s"
      by (simp add: add_conn_def Let_def on_object_def broadcast_def)
    show "\<forall>b client' c. open_conn s b client' c \<longrightarrow> tc_Port (tv_conns ?s ! c) = tc_Port (tv_conns s ! c)"
      using port by (auto simp: open_conn_def)
    show "\<forall>k \<in> set (tv_conns ?s). tc_Tunnel k < length (tv_objects s)"
      using assms(1) a by (auto simp: tunnels_ok_def add_conn_def Let_def on_object_def broadcast_def)
  qed (use conn obj in auto)
qed

text \<open>Closing a connection: first it is marked as closed, then it is taken off its tunnel, if that is still one.\<close>

definition mark_closed :: "string option \<Rightarrow> nat \<Rightarrow> tunnel_service \<Rightarrow> tunnel_service" where
  "mark_closed e c s = s\<lparr>tv_conns := (tv_conns s)[c := (tv_conns s ! c)\<lparr>tc_Closed := True, tc_closeErr := e\<rparr>]\<rparr>"

lemma mark_closed_fields [simp]:
  "tv_tunnels (mark_closed e c s) = tv_tunnels s" "tv_objects (mark_closed e c s) = tv_objects s"
  "tc_Port (tv_conns (mark_closed e c s) ! c') = tc_Port (tv_conns s ! c')"
  by (cases "c' = c"; cases "c < length (tv_conns s)"; simp add: mark_closed_def list_update_beyond)+

lemma open_mark_closed:
  "c < length (tv_conns s) \<Longrightarrow> open_conn (mark_closed e c s) b client c' \<longleftrightarrow> open_conn s b client c' \<and> c' \<noteq> c"
  by (cases "c' = c") (auto simp: open_conn_def mark_closed_def)

lemma open_this:
  "c < length (tv_conns s) \<Longrightarrow> \<not> tc_Closed (tv_conns s ! c) \<Longrightarrow>
     open_conn s b client c \<longleftrightarrow> b = tc_Tunnel (tv_conns s ! c) \<and> client = tc_Client (tv_conns s ! c)"
  by (auto simp: open_conn_def)

lemma mark_closed_bounds:
  "tunnels_ok s \<Longrightarrow> c < length (tv_conns s) \<Longrightarrow> \<forall>k \<in> set (tv_conns (mark_closed e c s)). tc_Tunnel k < length (tv_objects s)"
  by (auto simp: tunnels_ok_def mark_closed_def dest!: set_update_subset_insert [THEN subsetD])

lemma entry_mark_closed:
  assumes "tunnels_ok s" "c < length (tv_conns s)" "\<not> tc_Closed (tv_conns s ! c)"
    and "(p, a) \<in> set (tv_tunnels s)" "a \<noteq> tc_Tunnel (tv_conns s ! c)"
  shows "entry_ok (mark_closed e c s) p a"
proof -
  have e: "entry_ok s p a" using assms(1,4) by (auto simp: tunnels_ok_def)
  have same: "open_conn (mark_closed e c s) a client c' = open_conn s a client c'" for client c'
    using open_mark_closed [OF assms(2)] open_this [OF assms(2,3), of a client] assms(5) by auto
  have "object_ok (mark_closed e c s) a"
    using e unfolding object_ok_def same entry_ok_def by simp
  moreover have "\<forall>client c'. open_conn (mark_closed e c s) a client c' \<longrightarrow> tc_Port (tv_conns (mark_closed e c s) ! c') = p"
    using e unfolding same mark_closed_fields entry_ok_def by blast
  ultimately show ?thesis using e unfolding entry_ok_def by simp
qed

text \<open>What the closer makes of the connection's own tunnel.\<close>

definition unlink :: "nat \<Rightarrow> string \<Rightarrow> tunnel_object \<Rightarrow> tunnel_object" where
  "unlink c client t =
     (let left = removeAll c (conns_of client t);
          t1 = (if map_of (to_Conns t) client = None then t else t\<lparr>to_Conns := put_entry client left (to_Conns t)\<rparr>)
      in if left = [] then t1\<lparr>to_Clients := drop_entry client (to_Clients t1)\<rparr> else t1)"

lemma unlink_facts:
  "to_Desc (unlink c client t) = to_Desc t"
  "conns_of client' (unlink c client t) = (if client' = client then removeAll c (conns_of client t) else conns_of client' t)"
  "map_of (to_Clients (unlink c client t)) client' =
     (if client' = client \<and> removeAll c (conns_of client t) = [] then None else map_of (to_Clients t) client')"
  by (auto simp: unlink_def Let_def conns_of_def split: option.split)

lemma onDidClose_unlink:
  "onDidClose c k s =
     (if map_of (tv_tunnels s) (tc_Port k) = None then s else broadcast (on_object (tc_Tunnel k) (unlink c (tc_Client k)) s))"
  by (simp add: onDidClose_def unlink_def [abs_def])

lemma open_on_object [simp]: "open_conn (on_object a f s) b client c = open_conn s b client c"
  by (simp add: open_conn_def on_object_def)

lemma ok_unlink:
  assumes ok: "tunnels_ok s" and c: "c < length (tv_conns s)" "\<not> tc_Closed (tv_conns s ! c)"
    and p: "(p, tc_Tunnel (tv_conns s ! c)) \<in> set (tv_tunnels s)"
  shows "tunnels_ok (on_object (tc_Tunnel (tv_conns s ! c)) (unlink c (tc_Client (tv_conns s ! c))) (mark_closed e c s))"
    (is "tunnels_ok ?s")
proof (rule ok_changed_object [OF ok p])
  let ?a = "tc_Tunnel (tv_conns s ! c)" and ?client = "tc_Client (tv_conns s ! c)"
  have ent: "entry_ok s p ?a" using ok p by (auto simp: tunnels_ok_def)
  then have o: "object_ok s ?a" and a: "?a < length (tv_objects s)" by (simp_all add: entry_ok_def)
  have obj: "tv_objects ?s ! ?a = unlink c ?client (tv_objects s ! ?a)"
    using a by (simp add: on_object_def)
  have conn: "open_conn ?s b client c' \<longleftrightarrow> open_conn s b client c' \<and> c' \<noteq> c" for b client c'
    using open_mark_closed [OF c(1)] by simp
  note this_conn = open_this [OF c]
  have "object_ok ?s ?a"
    unfolding object_ok_def obj conn
  proof (intro conjI allI)
    fix client
    have "(map_of (to_Clients (tv_objects s ! ?a)) client \<noteq> None) = (conns_of client (tv_objects s ! ?a) \<noteq> [])"
      using o by (simp add: object_ok_def)
    then show "(map_of (to_Clients (unlink c ?client (tv_objects s ! ?a))) client \<noteq> None)
        = (conns_of client (unlink c ?client (tv_objects s ! ?a)) \<noteq> [])"
      unfolding unlink_facts by auto
    fix c'
    have "c' \<in> set (conns_of client (tv_objects s ! ?a)) \<longleftrightarrow> open_conn s ?a client c'"
      using o by (simp add: object_ok_def)
    then show "c' \<in> set (conns_of client (unlink c ?client (tv_objects s ! ?a))) \<longleftrightarrow> open_conn s ?a client c' \<and> c' \<noteq> c"
      unfolding unlink_facts using this_conn [of ?a client] by auto
  qed
  moreover have "\<forall>client c'. open_conn ?s ?a client c' \<longrightarrow> tc_Port (tv_conns ?s ! c') = p"
    using ent unfolding conn entry_ok_def by auto
  ultimately show "entry_ok ?s p ?a"
    using ent obj unlink_facts(1) a unfolding entry_ok_def by (simp add: on_object_def)
  show "\<forall>a client c'. a \<noteq> ?a \<longrightarrow> open_conn ?s a client c' = open_conn s a client c'"
    using conn this_conn by auto
  show "\<forall>k \<in> set (tv_conns ?s). tc_Tunnel k < length (tv_objects s)"
    using mark_closed_bounds [OF ok c(1)] by simp
qed (simp_all add: on_object_def)

lemma ok_conn_Close:
  assumes ok: "tunnels_ok s" and c: "c < length (tv_conns s)"
  shows "tunnels_ok (snd (conn_Close e c s))"
proof (cases "tc_Closed (tv_conns s ! c)")
  case False
  let ?k = "tv_conns s ! c"
  have close: "snd (conn_Close e c s) = onDidClose c ?k (mark_closed e c s)"
    using False by (simp add: conn_Close_def Let_def mark_closed_def)
  show ?thesis
  proof (cases "tc_Tunnel ?k \<in> snd ` set (tv_tunnels s)")
    case True
    then obtain p where p: "(p, tc_Tunnel ?k) \<in> set (tv_tunnels s)" by auto
    then have "entry_ok s p (tc_Tunnel ?k)" using ok by (auto simp: tunnels_ok_def)
    then have "tc_Port ?k = p" using open_this [OF c False] by (simp add: entry_ok_def)
    then have "map_of (tv_tunnels s) (tc_Port ?k) \<noteq> None"
      using image_eqI [OF _ p, of p fst] by (simp add: map_of_eq_None_iff del: not_None_eq)
    then show ?thesis
      using ok_unlink [OF ok c False p] by (auto simp: close onDidClose_unlink)
  next
    case gone: False
    have entries: "\<forall>(p, a) \<in> set (tv_tunnels s). entry_ok (mark_closed e c s) p a"
      using entry_mark_closed [OF ok c False] gone by force
    then have marked: "tunnels_ok (mark_closed e c s)"
      using ok mark_closed_bounds [OF ok c] by (simp add: tunnels_ok_def)
    have "entry_ok (on_object (tc_Tunnel ?k) f (mark_closed e c s)) p a" if "(p, a) \<in> set (tv_tunnels s)" for p a f
    proof (rule entry_ok_other)
      show "entry_ok (mark_closed e c s) p a" using entries that by auto
      show "a \<noteq> tc_Tunnel ?k" using gone that by force
    qed (simp_all add: on_object_def open_conn_def)
    then have "tunnels_ok (on_object (tc_Tunnel ?k) f (mark_closed e c s))" for f
      using marked by (auto simp: tunnels_ok_def on_object_def)
    with marked show ?thesis by (simp add: close onDidClose_unlink)
  qed
qed (use assms in \<open>simp add: conn_Close_def\<close>)

section \<open>Every interleaving\<close>

lemma ok_take_tunnels: "tunnels_ok s \<Longrightarrow> tunnels_ok (snd (take_tunnels ps s))"
proof -
  assume "tunnels_ok s"
  then have "tunnels_ok (snd (remove_tunnels ps s))"
  proof (induction ps arbitrary: s)
    case (Cons p ps)
    have "tunnels_ok (s\<lparr>tv_tunnels := drop_entry p (tv_tunnels s)\<rparr>)"
      by (rule tunnels_ok_shrink [OF Cons.prems]) (simp_all add: drop_entry_def)
    with Cons show ?case by (simp add: case_prod_beta split: option.split)
  qed simp
  then show ?thesis by (simp add: take_tunnels_def case_prod_beta)
qed

lemma ok_establish: "tunnels_ok s \<Longrightarrow> tunnels_ok (snd (tv_EstablishTunnel dialErr client lp tp s))"
  using ok_add_conn [of s lp _ client tp]
  by (simp add: tv_EstablishTunnel_def case_prod_beta split: option.split)

lemma ok_step: "tunnels_ok s \<Longrightarrow> tunnels_ok (tunnel_step ev s)"
  by (cases ev) (simp_all add: tv_Tunnel_def case_prod_beta ok_open_tunnels ok_take_tunnels ok_establish ok_conn_Close)

lemma reachable_tunnels_ok: "tunnels_ok (fold tunnel_step evs NewTunneledPortsService)"
proof -
  have "tunnels_ok s \<Longrightarrow> tunnels_ok (fold tunnel_step evs s)" for s
    by (induction evs arbitrary: s) (simp_all add: ok_step)
  then show ?thesis by (simp add: tunnels_ok_def NewTunneledPortsService_def)
qed

text \<open>
  C36. Under every interleaving of opening and closing tunnels and connections, a tunnel has a valid description for
  its port, and a client is listed with it exactly as long as the client has an open connection through it.
\<close>

theorem clients_have_connections:
  assumes "s = fold tunnel_step evs NewTunneledPortsService" "map_of (tv_tunnels s) p = Some a"
  shows "desc_valid (to_Desc (tv_objects s ! a)) \<and> td_LocalPort (to_Desc (tv_objects s ! a)) = p
    \<and> ((\<exists>target. map_of (to_Clients (tv_objects s ! a)) client = Some target) \<longleftrightarrow> (\<exists>c. open_conn s a client c))"
proof -
  have "entry_ok s p a"
    using tunnels_entry [OF reachable_tunnels_ok] assms by simp
  then show ?thesis
    unfolding entry_ok_def object_ok_def by (metis ex_in_conv option.exhaust option.simps(3) set_empty)
qed

definition demo_tunnel :: tunnel_description where
  "demo_tunnel = \<lparr>td_LocalPort = 8080, td_TargetPort = 8080, td_Visibility = TunnelHost\<rparr>"

definition demo_tunnel_events :: "tunnel_event list" where
  "demo_tunnel_events = [OpenTunnels False [demo_tunnel], Establish None ''laptop'' 8080 9090, Establish None ''laptop'' 8080 9090,
     CloseConn None 0]"

text \<open>A client with two connections, one of which has been closed.\<close>

theorem clients_have_connections_witness:
  "desc_valid (to_Desc (tv_objects (fold tunnel_step demo_tunnel_events NewTunneledPortsService) ! 0))
   \<and> td_LocalPort (to_Desc (tv_objects (fold tunnel_step demo_tunnel_events NewTunneledPortsService) ! 0)) = 8080
   \<and> ((\<exists>target. map_of (to_Clients (tv_objects (fold tunnel_step demo_tunnel_events NewTunneledPortsService) ! 0)) ''laptop'' = Some target)
        \<longleftrightarrow> (\<exists>c. open_conn (fold tunnel_step demo_tunnel_events NewTunneledPortsService) 0 ''laptop'' c))"
  by (rule clients_have_connections [OF refl]) code_simp

end
