(* ===== verification/PortReading.thy ===== *)
theory PortReading
  imports ExposedPorts "HOL-Library.Multiset"
begin

text \<open>
  What the ports' manager reads: addresses and entries of the kernel's tables, the configuration of
  ports, and the outcome of exposures.
\<close>

section \<open>Addresses\<close>

definition upper_hex :: "nat \<Rightarrow> char" where
  "upper_hex n = (if n < 10 then char_of (48 + n) else char_of (55 + n))"

definition hex2 :: "byte \<Rightarrow> string" where
  "hex2 b = [upper_hex (unat b div 16), upper_hex (unat b mod 16)]"

text \<open>The kernel of a little-endian machine prints an address as 32-bit numbers, so four bytes at a time backwards.\<close>

fun proc_address :: "bytes \<Rightarrow> string" where
  "proc_address (a # b # c # d # ip) = hex2 d @ hex2 c @ hex2 b @ hex2 a @ proc_address ip"
| "proc_address _ = []"

lemma fromHexChar_upper: "n < 16 \<Longrightarrow> fromHexChar (upper_hex n) = of_nat n"
  by (simp add: fromHexChar_def upper_hex_def Let_def)

lemma byte_bounds: "unat (b :: byte) div 16 < 16"
proof -
  have "unat b < 256" using unsigned_less [of b] by simp
  then show ?thesis by simp
qed

lemma byte_halves: "or (push_bit 4 (of_nat (unat b div 16))) (of_nat (unat b mod 16)) = (b :: byte)"
proof -
  have "(of_nat (unat b div 16) :: byte) = drop_bit 4 b"
    using byte_bounds [of b] by (simp add: word_unat_eq_iff unat_drop_bit_eq drop_bit_eq_div unat_div)
  moreover have "(of_nat (unat b mod 16) :: byte) = take_bit 4 b"
    by (simp add: word_unat_eq_iff unsigned_take_bit_eq take_bit_eq_mod unat_of_nat unat_mod)
  moreover have "or (push_bit 4 (drop_bit 4 b)) (take_bit 4 b) = b"
    by (rule bit_eqI) (auto simp: bit_or_iff bit_push_bit_iff bit_drop_bit_eq bit_take_bit_iff)
  ultimately show ?thesis by simp
qed

lemma hex2_length [simp]: "length (hex2 b) = 2"
  by (simp add: hex2_def)

definition decode_block :: "string \<Rightarrow> bytes" where
  "decode_block s = rev (map (\<lambda>i. or (push_bit 4 (fromHexChar (s ! (i * 2)))) (fromHexChar (s ! (i * 2 + 1)))) [0..<4])"

lemma decode_proc_block: "decode_block (hex2 d @ hex2 c @ hex2 b @ hex2 a @ s) = [a, b, c, d]"
  by (simp add: decode_block_def hex2_def upt_rec fromHexChar_upper byte_bounds byte_halves)

lemma blocks_decode:
  "hexDecodeIP src = (if 4 < length src div 8 then Panic else Ret (concat (map (\<lambda>k. decode_block (drop (k * 8) src)) [0..<length src div 8])))"
proof -
  have "rev (map (hex_pair src k) [0..<4]) = decode_block (drop (k * 8) src)" if "k < length src div 8" for k
  proof -
    have "k * 8 + 8 \<le> length src" using that by presburger
    then show ?thesis by (simp add: decode_block_def hex_pair_def upt_rec nth_drop add.commute)
  qed
  then have "map (\<lambda>k. rev (map (hex_pair src k) [0..<4])) [0..<length src div 8]
      = map (\<lambda>k. decode_block (drop (k * 8) src)) [0..<length src div 8]"
    by (intro map_cong) auto
  then show ?thesis unfolding hexDecodeIP_def Let_def by (simp only:)
qed

lemma length_proc_address: "length ip = 4 * k \<Longrightarrow> length (proc_address ip) = 8 * k"
proof (induction k arbitrary: ip)
  case (Suc k)
  then obtain a b c d rest where "ip = a # b # c # d # rest" "length rest = 4 * k"
    by (cases ip rule: proc_address.cases) auto
  with Suc.IH [of rest] show ?case by simp
qed simp

lemma decode_proc:
  "length ip = 4 * k \<Longrightarrow> concat (map (\<lambda>k. decode_block (drop (k * 8) (proc_address ip))) [0..<k]) = ip"
proof (induction k arbitrary: ip)
  case (Suc k)
  then obtain a b c d rest where ip: "ip = a # b # c # d # rest" "length rest = 4 * k"
    by (cases ip rule: proc_address.cases) auto
  have "drop (Suc j * 8) (proc_address ip) = drop (j * 8) (proc_address rest)" for j
    by (simp add: ip)
  then have "map (\<lambda>j. decode_block (drop (j * 8) (proc_address ip))) [0..<Suc k]
      = decode_block (proc_address ip) # map (\<lambda>j. decode_block (drop (j * 8) (proc_address rest))) [0..<k]"
    by (simp add: map_upt_Suc del: upt_Suc)
  moreover have "decode_block (proc_address ip) = [a, b, c, d]"
    by (simp add: ip decode_proc_block)
  ultimately show ?case using Suc.IH [OF ip(2)] by (simp add: ip del: upt_Suc)
qed simp

text \<open>
  C26. The decoder of addresses in the kernel's tables gives back the IPv4 or IPv6 address that a little-endian kernel
  prints.
\<close>

theorem proc_address_roundtrip:
  assumes "length ip = 4 \<or> length ip = 16"
  shows "hexDecodeIP (proc_address ip) = Ret ip"
proof -
  obtain k where k: "length ip = 4 * k" "k \<le> 4" using assms by auto
  then show ?thesis
    using decode_proc [OF k(1)] length_proc_address [OF k(1)] by (simp add: blocks_decode)
qed

theorem proc_address_roundtrip_witness:
  "hexDecodeIP (proc_address [127, 0, 0, 1]) = Ret [127, 0, 0, 1] \<and> proc_address [127, 0, 0, 1] = ''0100007F''"
  by (rule conjI, rule proc_address_roundtrip) (simp, code_simp)

text \<open>A longer text than any address does not fit the buffer.\<close>

lemma long_address_panics: "40 \<le> length src \<Longrightarrow> hexDecodeIP src = Panic"
  by (simp add: hexDecodeIP_def Let_def)

section \<open>The listening sockets\<close>

definition entry_of :: "bool \<Rightarrow> string \<Rightarrow> served_port option" where
  "entry_of listeningOnly line = (case parse_entry listeningOnly line of Panic \<Rightarrow> None | Ret e \<Rightarrow> e)"

text \<open>The order of the ports is the sorting's; what is read is every entry, however equal ports are ordered.\<close>

lemma read_entries_all:
  assumes "\<And>P xs. mset (arrange P xs) = mset xs" "read_entries arrange lo ports ls = Ret found"
  shows "mset found = mset ports + mset (List.map_filter (entry_of lo) ls)"
  using assms(2)
proof (induction ls arbitrary: ports)
  case (Cons l ls)
  then show ?case
    using assms(1)
    by (auto simp: map_filter_simps entry_of_def split: go.splits option.splits)
qed (simp add: map_filter_simps)

theorem reads_every_listener:
  assumes "\<And>P xs. mset (arrange P xs) = mset xs" "readNetTCPFile arrange lo ls None = Ret (Inr found)"
  shows "mset found = mset (List.map_filter (entry_of lo) ls)"
  using read_entries_all [of arrange, OF assms(1), of lo "[]" ls found] assms(2)
  by (auto simp: readNetTCPFile_def split: go.splits)

text \<open>An insertion sort, and two lines of the kernel's table.\<close>

fun demo_insert :: "('a \<Rightarrow> 'a \<Rightarrow> bool) \<Rightarrow> 'a \<Rightarrow> 'a list \<Rightarrow> 'a list" where
  "demo_insert lt x [] = [x]"
| "demo_insert lt x (y # ys) = (if lt x y then x # y # ys else y # demo_insert lt x ys)"

definition demo_arrange :: "'a slice_sort" where
  "demo_arrange lt xs = foldr (demo_insert lt) xs []"

lemma demo_arrange_mset: "mset (demo_arrange lt xs) = mset xs"
proof -
  have ins: "mset (demo_insert lt x ys) = add_mset x (mset ys)" for x ys
    by (induction ys) auto
  show ?thesis by (induction xs) (simp_all add: demo_arrange_def ins)
qed

definition demo_net_lines :: "string list" where
  "demo_net_lines = [''  sl  local_address rem_address   st'', ''   0: 0100007F:1F90 00000000:0000 0A'', ''   1: 00000000:0016 00000000:0000 0A'',
     ''   2: 0100007F:0050 00000000:0000 01'']"

definition demo_found :: "served_port list" where
  "demo_found = [\<lparr>sp_Address = [0, 0, 0, 0], sp_Port = 22, sp_BoundToLocalhost = False\<rparr>,
     \<lparr>sp_Address = [127, 0, 0, 1], sp_Port = 8080, sp_BoundToLocalhost = True\<rparr>]"

theorem reads_every_listener_witness:
  "mset demo_found = mset (List.map_filter (entry_of True) demo_net_lines)"
proof (rule reads_every_listener)
  show "mset (demo_arrange lt xs) = mset xs" for lt and xs :: "served_port list"
    by (rule demo_arrange_mset)
  show "readNetTCPFile demo_arrange True demo_net_lines None = Ret (Inr demo_found)"
    by code_simp
qed

section \<open>Looking a configured port up\<close>

text \<open>The reference: the first item that names the port, else the first that names a range with it.\<close>

definition item_range :: "nat \<times> ports_item option \<Rightarrow> range_config option" where
  "item_range = (\<lambda>(i, item). case item of None \<Rightarrow> None
     | Some it \<Rightarrow> if parse_port (pi_Port it) = None then parse_range it i else None)"

definition item_port :: "nat \<times> ports_item option \<Rightarrow> (port \<times> sort_config) option" where
  "item_port = (\<lambda>(i, item). case item of None \<Rightarrow> None
     | Some it \<Rightarrow> map_option (\<lambda>p. (p, item_config it p i)) (parse_port (pi_Port it)))"

definition lookup_item :: "ports_item option list \<Rightarrow> port \<Rightarrow> (sort_config \<times> config_kind) option" where
  "lookup_item items p =
     (let indexed = List.enumerate 0 items in
      case map_of (List.map_filter item_port indexed) p of
        Some c \<Rightarrow> Some (c, PortConfigKind)
      | None \<Rightarrow> map_option (\<lambda>r. (range_sort_config p r, RangeConfigKind))
          (find (\<lambda>r. rc_Start r \<le> p \<and> p \<le> rc_End r) (List.map_filter item_range indexed)))"

lemma item_simps [simp]:
  "item_port (n, None) = None" "item_port (n, Some it) = map_option (\<lambda>p. (p, item_config it p n)) (parse_port (pi_Port it))"
  "item_range (n, None) = None" "item_range (n, Some it) = (if parse_port (pi_Port it) = None then parse_range it n else None)"
  by (simp_all add: item_port_def item_range_def)

lemma parsed_ranges: "cf_Ranges (parse_items n items cf) = cf_Ranges cf @ List.map_filter item_range (List.enumerate n items)"
  by (induction n items cf rule: parse_items.induct) (auto simp: map_filter_simps split: option.split)

lemma parsed_ports:
  "map_of (cf_Ports (parse_items n items cf)) p =
     (case map_of (cf_Ports cf) p of Some c \<Rightarrow> Some c | None \<Rightarrow> map_of (List.map_filter item_port (List.enumerate n items)) p)"
proof (induction n items cf rule: parse_items.induct)
  case (3 n item items cf)
  show ?case
  proof (cases "parse_port (pi_Port item)")
    case None
    with 3 show ?thesis by (simp add: map_filter_simps split: option.split)
  next
    case (Some q)
    show ?thesis
    proof (cases "q \<in> fst ` set (cf_Ports cf)")
      case True
      then obtain c where "map_of (cf_Ports cf) q = Some c"
        by (metis map_of_eq_None_iff not_None_eq)
      with 3 Some True show ?thesis by (simp add: map_filter_simps split: option.split)
    next
      case False
      then have "map_of (cf_Ports cf) q = None"
        by (simp add: map_of_eq_None_iff)
      with 3 Some False show ?thesis by (simp add: map_filter_simps map_add_def split: option.split)
    qed
  qed
qed (simp_all add: map_filter_simps split: option.split)

theorem configured_port_lookup: "configs_Get (Some (parseInstanceConfigs items)) p = lookup_item items p"
  using parsed_ports [of 0 items empty_configs] parsed_ranges [of 0 items empty_configs]
  by (simp add: configs_Get_def parseInstanceConfigs_def lookup_item_def empty_configs_def Let_def split: option.split)

text \<open>Every parsed configuration has one entry for a port.\<close>

lemma parsed_configs_distinct: "distinct (map fst (cf_Ports cf)) \<Longrightarrow> distinct (map fst (cf_Ports (parse_items n items cf)))"
  by (induction n items cf rule: parse_items.induct) (auto split: option.split)

section \<open>Requests to the server\<close>

lemma do_expose_bounds:
  "do_expose server attempt = (n, err) \<Longrightarrow> attempt \<le> 5 \<Longrightarrow>
     attempt < n \<and> n \<le> 6 \<and> (\<forall>i. attempt \<le> i \<longrightarrow> Suc i < n \<longrightarrow> oa_err (server i) \<noteq> None)
     \<and> (err = None \<longleftrightarrow> oa_err (server (n - 1)) = None)"
proof (induction server attempt rule: do_expose.induct)
  case (1 server attempt)
  show ?case
  proof (cases "oa_err (server attempt) = None \<or> oa_ctx (server attempt) \<noteq> None \<or> attempt = 5 \<or> oa_delay (server attempt) \<noteq> None")
    case True
    then show ?thesis
      using 1(2,3) by (subst (asm) do_expose.simps) (auto simp: Let_def split: if_splits option.splits)
  next
    case False
    then have "do_expose server attempt = do_expose server (Suc attempt)"
      using 1(3) by (subst do_expose.simps) (auto simp: Let_def)
    with 1 False show ?thesis
      by (auto simp: Let_def le_Suc_eq not_less_eq_eq) (metis le_antisym not_less_eq_eq)+
  qed
qed

text \<open>
  C34. A request for the exposure of a port is put to the server at least once and at most six times, again only after
  a failure, and its outcome is an error exactly when the last attempt failed.
\<close>

theorem expose_attempts:
  assumes "doExpose server = (n, err)"
  shows "0 < n \<and> n \<le> 6 \<and> (err = None \<longleftrightarrow> oa_err (server (n - 1)) = None) \<and> (\<forall>i. Suc i < n \<longrightarrow> oa_err (server i) \<noteq> None)"
  using do_expose_bounds [of server 0] assms by (auto simp: doExpose_def)

definition demo_server :: "nat \<Rightarrow> open_answer" where
  "demo_server n = \<lparr>oa_err = (if n < 2 then Some ''busy'' else None), oa_ctx = None, oa_delay = None\<rparr>"

theorem expose_attempts_witness:
  "doExpose demo_server = (3, None) \<and> oa_err (demo_server 0) \<noteq> None \<and> oa_err (demo_server 2) = None"
proof -
  have run: "doExpose demo_server = (3, None)"
    by (simp add: doExpose_def do_expose.simps demo_server_def Let_def)
  then show ?thesis using expose_attempts [OF run] by auto
qed

end
