(* ===== verification/Spec2Isabelle.thy ===== *)
theory Spec2Isabelle
  imports RewardsSystem RewardsRace Dedup ConfigProps Registry GarmProps RingBuffer NotifyProps
    ForgeDbProps ForgeCacheProps ForgeLockProps ForgeQueueProps
    PortSafety PortTunnelProps PortReading
begin

text \<open>
  Verification library of the program's own Go services: the rewards service, the bandwidth
  proxy, the configuration they are started from, the object storage behind them, the runner
  pools of \<^verbatim>\<open>garm-gitlab\<close>, the core of the runner manager \<^verbatim>\<open>garm\<close>, and parts of the workspace
  supervisor.

  \<^bold>\<open>The program's parts and how they interact.\<close> The binary \<^verbatim>\<open>gitlab-enhanced\<close> loads one
  configuration (\<^verbatim>\<open>abstraction/config\<close>) and starts services from it. The rewards service
  (\<^verbatim>\<open>rewards/\<close>) receives GitLab webhooks, queues a reward per merged request, closed issue or
  successful pipeline in SQLite (\<^verbatim>\<open>store/store.go\<close>), and pays pending rewards through Uphold or
  an ERC-20 transfer signed here. For a pipeline it also posts the artifacts to the bandwidth
  service (\<^verbatim>\<open>bandwidth/\<close>), which proxies GitLab with compression, removes artifacts past a limit
  and deduplicates LFS objects by hard links. Object storage (\<^verbatim>\<open>abstraction/storage\<close>) is an
  interface with a local, a cloud and an IPFS backend and a chain of them. The daemon
  \<^verbatim>\<open>ci/runners/garm-gitlab\<close> keeps pools of GitLab runners on an Incus server: it scales them from
  queued jobs that arrive by webhook and from a periodic reconcile, and records instances in
  SQLite. The manager \<^verbatim>\<open>ci/runners/garm\<close> does the same for GitHub and Gitea with many entities,
  pools and providers: its database announces every change to a watcher, whose consumers (the
  cache worker among them) mirror what they need. \<^verbatim>\<open>environments/supervisor\<close> runs in a workspace and serves
  terminals and notifications and exposes and tunnels the ports its processes listen on.

  \<^bold>\<open>Theories, bottom up.\<close>
  \<^item> \<open>Prelude\<close>, \<open>GoStrings\<close>, \<open>GoFloat\<close>, \<open>GoPath\<close>, \<open>Json\<close>, \<open>Http\<close>: what the code uses of Go
    and its standard library: results, 64-bit wrap-around, strings and decimal numbers, hex and
    big-endian bytes, IEEE doubles as \<open>m * 2 ^ e\<close> with rounding to even, \<^verbatim>\<open>filepath\<close>, decoded
    JSON with the zero values of failed type assertions, response writers and headers.
  \<^item> \<open>SqlTable\<close>: a table is the list of its rows in rowid order; the locale \<open>keyed_table\<close> holds
    the laws of insert-or-replace, update and delete and is interpreted for every table the
    services have. \<open>PosixFs\<close>: directory entries (files by inode, symbolic links, directories)
    and the calls the services make; a refusal by the kernel is an argument.
  \<^item> \<open>Rlp\<close>, \<open>Payout\<close>: \<^verbatim>\<open>rewards/payout.go\<close>. \<open>Rewards\<close>, \<open>RewardsPayout\<close>: \<^verbatim>\<open>rewards/service.go\<close>;
    the state \<^verbatim>\<open>Service\<close> is the record \<open>rewards_service\<close>, the tables of \<^verbatim>\<open>store.go\<close> the record
    \<open>rewards_db\<close>. \<open>RewardsProps\<close> and \<open>RewardsSystem\<close>: payouts (marking, at most once, the
    minimum), the webhook, reward ids, rates over a restart, the invariant of all states.
    \<open>RewardsRace\<close>: the payout handler cut at its calls, and any interleaving of its requests.
  \<^item> \<open>Bandwidth\<close>, \<open>BandwidthProps\<close>, \<open>Dedup\<close>: \<^verbatim>\<open>bandwidth/service.go\<close>, with the state
    \<open>bw_service\<close> and the file system: compression, eviction, the artifact table, contents
    preserved by deduplication.
  \<^item> \<open>Config\<close>, \<open>ConfigProps\<close>: \<^verbatim>\<open>loader.go\<close> and \<^verbatim>\<open>validate.go\<close>. \<open>Commands\<close>: the serve commands of
    \<^verbatim>\<open>cmd/gitlab-enhanced\<close>, from files and environment to a running service.
  \<^item> \<open>Storage\<close>: the interface and the chain of \<^verbatim>\<open>interface.go\<close>; the locale \<open>blob_backend\<close> states
    what a backend promises for keys it accepts. \<open>LocalStore\<close>: \<^verbatim>\<open>local.go\<close> over \<open>PosixFs\<close>, with
    the interpretation. \<open>ChainProps\<close>: puts and gets on a chain of lawful backends. \<open>CloudStore\<close>,
    \<open>IpfsStore\<close>: \<^verbatim>\<open>cloud.go\<close> and \<^verbatim>\<open>ipfs.go\<close> over the bucket library and the node's HTTP API.
    \<open>Registry\<close>: \<^verbatim>\<open>registry.go\<close>.
  \<^item> \<open>GoTime\<close>: \<^verbatim>\<open>time.ParseDuration\<close>, saturating \<^verbatim>\<open>Sub\<close>, RFC 3339. \<open>GarmConfig\<close>,
    \<open>GarmGitLab\<close>, \<open>GarmWebhook\<close>, \<open>GarmStore\<close>, \<open>GarmProvider\<close>, \<open>GarmScripts\<close>, \<open>GarmPool\<close>: the
    packages of \<^verbatim>\<open>garm-gitlab/internal\<close>; the state of a pool manager is \<open>pool_state\<close>, the server,
    GitLab and the file system are its world. \<open>GarmRollback\<close>: the locales \<open>instance_provider\<close> and
    \<open>pool_world\<close>, interpreted on the Incus client with its requests traced. \<open>GarmSystem\<close>: the event
    loop as a step relation. \<open>GarmProps\<close>: invariant, restart, bounds and reconcile.
  \<^item> \<open>ForgeParams\<close>: the types of \<^verbatim>\<open>garm/params\<close>. \<open>ForgeCache\<close>: \<^verbatim>\<open>garm/cache\<close>, all caches as the
    record \<open>forge_caches\<close>. \<open>ForgeWatcher\<close>: \<^verbatim>\<open>database/watcher\<close> and its filters. \<open>ForgeCacheWorker\<close>:
    \<^verbatim>\<open>workers/cache\<close>. \<open>ForgeDb\<close>, \<open>ForgeDbPools\<close>: the instances and pools of \<^verbatim>\<open>database/sql\<close>, with the
    state \<open>garm_db\<close>, which also records the payloads announced, and one call's surroundings \<open>db_env\<close>.
    \<open>ForgeCoherence\<close>: the locales \<open>instance_rows\<close> and \<open>cached_instances\<close> and the refinement of the
    table of instances by the cache fed with its payloads. \<open>ForgeDbProps\<close>: paths through the status
    tables, the maximum of a pool, the types of payloads. \<open>ForgeCacheProps\<close>: the index of pools by
    entity under any payloads, and where deletions, credentials and errors get lost.
    \<open>ForgeDemo\<close>: values for the witnesses.
  \<^item> \<open>ForgeLocks\<close>: \<^verbatim>\<open>garm/locking\<close>, the named locks one atomic step at a time and the backoff of
    deletions; \<open>ForgeLockProps\<close>: exclusion for callers that unlock what they locked and remove no key, the
    schedules that break it when one does, the backoff. \<open>ForgeJobs\<close>: \<^verbatim>\<open>database/sql/jobs.go\<close>, with the state \<open>job_store\<close> (the database and
    its jobs). \<open>ForgeManager\<close>, \<open>ForgeDispatch\<close>, \<open>ForgeReaper\<close>, \<open>ForgeManagerEvents\<close>: \<^verbatim>\<open>runner/pool\<close>, the pool
    manager of an entity: \<^verbatim>\<open>basePoolManager\<close> is \<open>pool_manager\<close>, its world \<open>manager_world\<close> holds the store and
    what was asked of the forge and the providers, and \<open>manager_env\<close> answers every call by the number of
    calls made before. Adding and removing runners; webhooks, the consumer of queued jobs and stale jobs;
    the loops over instances and the comparison with forge and providers; watcher events, loops, steps.
    \<open>ForgeManagerFrame\<close>: the locale \<open>store_invariant\<close>, the laws of the database operations and from
    them the frame of every step. \<open>ForgeManagerProps\<close> interprets it: the maximum of pools, the order of
    the actions of a job, and how two webhooks at once break it. \<open>ForgePoolProps\<close>: retries, the end of listings. \<open>ForgeScaleProps\<close>: scaling down
    and up, deletions that fail. \<open>ForgeQueueProps\<close>: labels, cursors over pools, locks of queued jobs.
    \<open>ForgeManagerDemo\<close>: values for the witnesses.
  \<^item> \<open>RingBuffer\<close>: \<^verbatim>\<open>pkg/terminal/ring-buffer.go\<close> and its refinement of the list of bytes
    written. \<open>Notify\<close>, \<open>NotifyProps\<close>: \<^verbatim>\<open>pkg/supervisor/notification.go\<close>, runs of its operations.
  \<^item> \<open>GoNet\<close>: fields, unsigned numbers, IP addresses. \<open>ServedPorts\<close>, \<open>PortConfig\<close>, \<open>ExposedPorts\<close>,
    \<open>PortTunnels\<close>, \<open>PortManager\<close>, \<open>PortOps\<close>: \<^verbatim>\<open>pkg/ports\<close>; the manager is the record \<open>port_manager\<close>, which
    holds the state of the exposure and of the tunnels. Tunnels are objects with addresses, as the
    service, the closers of connections and the announced states share them. \<open>PortProps\<close>: the ports of
    the next state, and the invariant of all reachable states. \<open>PortSafety\<close>: internal ports, what is made
    public, the update about a new client. \<open>PortTunnelProps\<close>: clients and connections under every
    interleaving. \<open>PortReading\<close>: addresses, the kernel's tables, configured ports, attempts of exposures.

  \<^bold>\<open>Parameters.\<close> Code outside the repository is an argument: Keccak-256 and ECDSA, the JSON-RPC
  and HTTP transports (which thread a network state), SHA-256, gzip, the YAML decoder, the bucket
  library, SQLite's and the kernel's refusals, clocks, the parser of UUIDs, fresh ids, sealing of
  secrets, whether the watcher takes a payload, and the forge client and the providers of \<^verbatim>\<open>garm\<close>. Where a theorem relies on one of them the
  documented behaviour is a named hypothesis and a witness instantiates it.

  \<^bold>\<open>Bounds.\<close> Go's \<^verbatim>\<open>int\<close> and \<^verbatim>\<open>int64\<close> are integers with \<open>wrap64\<close> where the code adds to a
  counter; lengths of slices are naturals. The RLP reader has the length of the message as fuel,
  which is enough because every item takes at least one byte. Symbolic links are followed at
  most 40 times, as Linux does. The pages of a listing at the forge may never end: reading them is a
  \<open>partial_function\<close>, whose result is \<open>None\<close> then. \<open>num_scale_down\<close> computes the surplus of idle runners
  without wrap-around: the code's sum of the minimum and the queued jobs is in 64 bits, so the two
  differ when the minimum of a pool is within the number of queued jobs of \<open>2 ^ 63\<close>. Go leaves the
  order of equal keys open where the code sorts what it read from a map; \<open>cache_FindPoolsMatchingAllTags\<close>
  keeps the order of the table there.

  \<^bold>\<open>Concurrency.\<close> The goroutines a loop of the pool manager starts for different instances run one
  after the other, in the order they are started; the locks they take are answers of the
  environment, and the locks themselves are modelled step by step, for callers who may unlock what
  they do not hold. A webhook is handled in one step, its check of a known job and the write that
  follows included (\<open>persist_check\<close> and \<open>persist_write\<close> are the two statements). Closing a connection
  of a tunnel and running its closer are one step. Payout requests interleave call by call.

  \<^bold>\<open>Not modelled.\<close> HTTP server loops, logging and the goroutine scheduler (any
  order of the steps is allowed where calls interleave), the reverse proxy of \<^verbatim>\<open>net/http\<close>, the command-line
  framework and printing, the generated garm client. Of \<^verbatim>\<open>garm\<close>: its API and providers, scale sets,
  the tables of entities and credentials, authentication, and of the pool manager the hooks at the
  forge and the shutdown.
\<close>

end
